(* ===== verification/KernelPrelude.thy ===== *)
theory KernelPrelude
  imports Main "HOL-Library.Char_ord" "HOL-Library.List_Lexorder" "HOL-Library.Multiset"
begin

text \<open>
  Shared vocabulary of the development: results that may be a thrown error, the small string
  predicates the source writes as regular expressions, decimal text for \<^verbatim>\<open>BigInt\<close> values, and
  the generic list lemmas the components use.

  A JavaScript function that may throw is a function into \<^verbatim>\<open>'a res\<close>: \<^verbatim>\<open>Inl e\<close> is the
  thrown error and \<^verbatim>\<open>Inr x\<close> the returned value. Of a thrown \<^verbatim>\<open>KernelError\<close> only its
  \<^verbatim>\<open>code\<close> is kept (messages carry no behaviour); every other error (\<^verbatim>\<open>TypeError\<close>,
  \<^verbatim>\<open>RangeError\<close>, an SQLite constraint failure) is a \<^verbatim>\<open>JsError\<close> with a tag.
  Strings are lists of characters, so code units below 256; comparison of strings is the
  lexicographic order of code units, which is the order \<^verbatim>\<open>Array.prototype.sort\<close> uses.
\<close>

named_theorems string_preds \<open>unfolding the character-class predicates\<close>

section \<open>Results\<close>

datatype js_error =
    KernelError string
  | JsError string

type_synonym 'a res = "js_error + 'a"

abbreviation fail :: "string \<Rightarrow> 'a res" where
  "fail code \<equiv> Inl (KernelError code)"

definition andthen :: "'a res \<Rightarrow> ('a \<Rightarrow> 'b res) \<Rightarrow> 'b res" where
  "andthen r f = (case r of Inl e \<Rightarrow> Inl e | Inr x \<Rightarrow> f x)"

lemma andthen_simps [simp]:
  "andthen (Inl e) f = Inl e"
  "andthen (Inr x) f = f x"
  by (simp_all add: andthen_def)

lemma andthen_weak_cong [cong]: "r = r' \<Longrightarrow> andthen r f = andthen r' f"
  by simp

lemma andthen_Inr_iff: "andthen r f = Inr y \<longleftrightarrow> (\<exists>x. r = Inr x \<and> f x = Inr y)"
  by (cases r) simp_all

lemma andthen_InrE [elim!]:
  assumes "andthen r f = Inr y"
  obtains x where "r = Inr x" and "f x = Inr y"
  using assms by (cases r) simp_all

lemma andthen_assoc: "andthen (andthen r f) g = andthen r (\<lambda>x. andthen (f x) g)"
  by (cases r) simp_all

lemma if_Inl_Inr [simp]:
  "((if b then Inl e else r) = Inr y) \<longleftrightarrow> \<not> b \<and> r = Inr y"
  "((if b then r else Inl e) = Inr y) \<longleftrightarrow> b \<and> r = Inr y"
  by auto

text \<open>
  \<^verbatim>\<open>try { .. } catch (error) { if (error instanceof KernelError) fail(code); throw error; }\<close>:
  a \<^verbatim>\<open>KernelError\<close> is replaced by one with the given code, any other error goes through.
\<close>

definition rethrow_as :: "string \<Rightarrow> 'a res \<Rightarrow> 'a res" where
  "rethrow_as code r =
     (case r of
        Inl (KernelError c) \<Rightarrow> Inl (KernelError code)
      | Inl (JsError t) \<Rightarrow> Inl (JsError t)
      | Inr x \<Rightarrow> Inr x)"

lemma rethrow_as_simps [simp]:
  "rethrow_as code (Inr x) = Inr x"
  "rethrow_as code (Inl (KernelError c)) = Inl (KernelError code)"
  "rethrow_as code (Inl (JsError t)) = Inl (JsError t)"
  by (simp_all add: rethrow_as_def)

lemma rethrow_as_Inr_iff [simp]: "rethrow_as code r = Inr x \<longleftrightarrow> r = Inr x"
  by (auto simp: rethrow_as_def split: sum.splits js_error.splits)

text \<open>\<^verbatim>\<open>xs.map(f)\<close> for a throwing callback: the first error ends the loop.\<close>

fun collect :: "('a \<Rightarrow> 'b res) \<Rightarrow> 'a list \<Rightarrow> 'b list res" where
  "collect f [] = Inr []"
| "collect f (x # xs) =
     andthen (f x) (\<lambda>y. andthen (collect f xs) (\<lambda>ys. Inr (y # ys)))"

lemma collect_Inr_iff: "collect f xs = Inr ys \<longleftrightarrow> list_all2 (\<lambda>x y. f x = Inr y) xs ys"
  by (induction xs arbitrary: ys) (auto simp: list_all2_Cons1 andthen_Inr_iff)

lemma collect_length: "collect f xs = Inr ys \<Longrightarrow> length ys = length xs"
  by (auto simp: collect_Inr_iff dest: list_all2_lengthD)

lemma collect_mem:
  "collect f xs = Inr ys \<Longrightarrow> y \<in> set ys \<Longrightarrow> \<exists>x \<in> set xs. f x = Inr y"
  by (induction xs arbitrary: ys) auto

lemma collect_mem_source:
  "collect f xs = Inr ys \<Longrightarrow> x \<in> set xs \<Longrightarrow> \<exists>y \<in> set ys. f x = Inr y"
  by (induction xs arbitrary: ys) auto

lemma collect_id: "(\<And>x. x \<in> set xs \<Longrightarrow> f x = Inr (g x)) \<Longrightarrow> collect f xs = Inr (map g xs)"
  by (induction xs) auto

lemma collect_map: "collect f (map g xs) = collect (\<lambda>x. f (g x)) xs"
  by (induction xs) (simp_all add: andthen_def split: sum.splits)

lemma collect_same:
  "(\<And>x. x \<in> set xs \<Longrightarrow> f x = g x) \<Longrightarrow> collect f xs = collect g xs"
  by (induction xs) (simp_all add: andthen_def split: sum.splits)

text \<open>A loop that only checks each element.\<close>

fun check_each :: "('a \<Rightarrow> unit res) \<Rightarrow> 'a list \<Rightarrow> unit res" where
  "check_each f [] = Inr ()"
| "check_each f (x # xs) = andthen (f x) (\<lambda>_. check_each f xs)"

lemma check_each_Inr_iff: "check_each f xs = Inr u \<longleftrightarrow> (\<forall>x \<in> set xs. f x = Inr ())"
  by (induction xs) (auto simp: andthen_Inr_iff)

section \<open>Character classes\<close>

abbreviation code_of :: "char \<Rightarrow> nat" where
  "code_of c \<equiv> of_char c"

definition is_digit :: "char \<Rightarrow> bool" where
  [string_preds]: "is_digit c \<longleftrightarrow> 48 \<le> code_of c \<and> code_of c \<le> 57"

definition is_upper :: "char \<Rightarrow> bool" where
  [string_preds]: "is_upper c \<longleftrightarrow> 65 \<le> code_of c \<and> code_of c \<le> 90"

definition is_lower :: "char \<Rightarrow> bool" where
  [string_preds]: "is_lower c \<longleftrightarrow> 97 \<le> code_of c \<and> code_of c \<le> 122"

definition is_alnum :: "char \<Rightarrow> bool" where
  [string_preds]: "is_alnum c \<longleftrightarrow> is_digit c \<or> is_upper c \<or> is_lower c"

definition is_lower_hex :: "char \<Rightarrow> bool" where
  [string_preds]: "is_lower_hex c \<longleftrightarrow> is_digit c \<or> (97 \<le> code_of c \<and> code_of c \<le> 102)"

definition is_hex :: "char \<Rightarrow> bool" where
  [string_preds]: "is_hex c \<longleftrightarrow> is_lower_hex c \<or> (65 \<le> code_of c \<and> code_of c \<le> 70)"

definition to_lower_char :: "char \<Rightarrow> char" where
  "to_lower_char c = (if is_upper c then char_of (code_of c + 32) else c)"

text \<open>\<^verbatim>\<open>toLowerCase\<close> on the ASCII strings the source applies it to.\<close>

definition to_lower :: "string \<Rightarrow> string" where
  "to_lower s = map to_lower_char s"

text \<open>\<^verbatim>\<open>startsWith\<close> and \<^verbatim>\<open>includes\<close>.\<close>

fun starts_with :: "string \<Rightarrow> string \<Rightarrow> bool" where
  "starts_with s [] = True"
| "starts_with [] (p # ps) = False"
| "starts_with (c # cs) (p # ps) = (c = p \<and> starts_with cs ps)"

fun contains :: "string \<Rightarrow> string \<Rightarrow> bool" where
  "contains [] p = (p = [])"
| "contains (c # cs) p = (starts_with (c # cs) p \<or> contains cs p)"

lemma starts_with_iff: "starts_with s p \<longleftrightarrow> (\<exists>t. s = p @ t)"
  by (induction s p rule: starts_with.induct) auto

text \<open>
  \<^verbatim>\<open>Buffer.byteLength(s, 'utf8')\<close>: code units below 128 take one byte, the others (below 256)
  take two.
\<close>

definition utf8_length :: "string \<Rightarrow> nat" where
  "utf8_length s = sum_list (map (\<lambda>c. if code_of c < 128 then 1 else 2) s)"

section \<open>Decimal text\<close>

definition digit_char :: "nat \<Rightarrow> char" where
  "digit_char d = char_of (48 + d)"

definition digit_value :: "char \<Rightarrow> nat" where
  "digit_value c = code_of c - 48"

fun nat_text :: "nat \<Rightarrow> string" where
  "nat_text n =
     (if n < 10 then [digit_char n] else nat_text (n div 10) @ [digit_char (n mod 10)])"

declare nat_text.simps [simp del]

definition text_nat :: "string \<Rightarrow> nat" where
  "text_nat s = foldl (\<lambda>a c. 10 * a + digit_value c) 0 s"

text \<open>\<^verbatim>\<open>String(b)\<close> of a \<^verbatim>\<open>BigInt\<close> or an integral number, and \<^verbatim>\<open>BigInt(s)\<close> of decimal text.\<close>

definition int_text :: "int \<Rightarrow> string" where
  "int_text i = (if i < 0 then CHR ''-'' # nat_text (nat (- i)) else nat_text (nat i))"

definition text_int :: "string \<Rightarrow> int" where
  "text_int s = int (text_nat s)"

text \<open>The pattern \<^verbatim>\<open>/^(0|[1-9][0-9]*)$/\<close>.\<close>

fun decimal_pattern :: "string \<Rightarrow> bool" where
  "decimal_pattern [] = False"
| "decimal_pattern (c # cs) =
     (if c = CHR ''0'' then cs = [] else is_digit c \<and> list_all is_digit cs)"

lemma char_of_48 [simp]: "char_of (48::nat) = CHR ''0''"
  by (simp add: char_of_eq_iff)

lemma code_of_digit_char: "d < 10 \<Longrightarrow> code_of (digit_char d) = 48 + d"
  by (simp add: digit_char_def)

lemma is_digit_digit_char [simp]: "d < 10 \<Longrightarrow> is_digit (digit_char d)"
  by (simp add: is_digit_def code_of_digit_char)

lemma digit_value_digit_char [simp]: "d < 10 \<Longrightarrow> digit_value (digit_char d) = d"
  by (simp add: digit_value_def code_of_digit_char)

lemma digit_char_digit_value: "is_digit c \<Longrightarrow> digit_char (digit_value c) = c"
  by (simp add: digit_char_def digit_value_def is_digit_def)

lemma digit_value_less: "is_digit c \<Longrightarrow> digit_value c < 10"
  unfolding digit_value_def is_digit_def by linarith

lemma digit_value_eq_0: "is_digit c \<Longrightarrow> digit_value c = 0 \<Longrightarrow> c = CHR ''0''"
  using digit_char_digit_value [of c] by (simp add: digit_char_def)

lemma digit_char_eq_0: "d < 10 \<Longrightarrow> digit_char d = CHR ''0'' \<longleftrightarrow> d = 0"
  by (auto simp: digit_char_def char_of_eq_iff take_bit_eq_mod)

lemma text_nat_snoc [simp]: "text_nat (s @ [c]) = 10 * text_nat s + digit_value c"
  by (simp add: text_nat_def)

lemma nat_text_nonempty [simp]: "nat_text n \<noteq> []"
  by (subst nat_text.simps) simp

lemma list_all_digit_nat_text: "list_all is_digit (nat_text n)"
proof (induction n rule: nat_text.induct)
  case (1 n)
  then show ?case
    by (cases "n < 10") (auto simp: nat_text.simps [of n])
qed

lemma hd_nat_text: "0 < n \<Longrightarrow> hd (nat_text n) \<noteq> CHR ''0''"
proof (induction n rule: nat_text.induct)
  case (1 n)
  show ?case
  proof (cases "n < 10")
    case True
    with 1 show ?thesis by (simp add: nat_text.simps [of n] digit_char_eq_0)
  next
    case False
    then have "0 < n div 10" by simp
    with False "1.IH" show ?thesis by (simp add: nat_text.simps [of n])
  qed
qed

theorem text_nat_nat_text [simp]: "text_nat (nat_text n) = n"
proof (induction n rule: nat_text.induct)
  case (1 n)
  show ?case
  proof (cases "n < 10")
    case True
    then show ?thesis by (simp add: nat_text.simps [of n] text_nat_def)
  next
    case False
    with 1 have "text_nat (nat_text (n div 10)) = n div 10" by simp
    with False show ?thesis by (simp add: nat_text.simps [of n])
  qed
qed

lemma nat_text_inject [simp]: "nat_text m = nat_text n \<longleftrightarrow> m = n"
  by (metis text_nat_nat_text)

lemma nat_text_0 [simp]: "nat_text 0 = ''0''"
  by (simp add: nat_text.simps [of 0] digit_char_def)

lemma decimal_pattern_nat_text [simp]: "decimal_pattern (nat_text n)"
proof (cases "n = 0")
  case True
  then show ?thesis by simp
next
  case False
  obtain c cs where "nat_text n = c # cs"
    by (cases "nat_text n") auto
  with False hd_nat_text [of n] list_all_digit_nat_text [of n] show ?thesis by simp
qed

lemma decimal_pattern_digits: "decimal_pattern s \<Longrightarrow> list_all is_digit s"
  by (cases s) (auto simp: is_digit_def split: if_splits)

lemma text_nat_positive:
  "list_all is_digit s \<Longrightarrow> s \<noteq> [] \<Longrightarrow> hd s \<noteq> CHR ''0'' \<Longrightarrow> 0 < text_nat s"
proof (induction s rule: rev_induct)
  case Nil
  then show ?case by simp
next
  case (snoc c s)
  show ?case
  proof (cases "s = []")
    case True
    with snoc.prems show ?thesis
      by (auto simp: text_nat_def dest: digit_value_eq_0)
  next
    case False
    with snoc show ?thesis by simp
  qed
qed

lemma nat_text_text_nat_nonzero:
  "list_all is_digit s \<Longrightarrow> s \<noteq> [] \<Longrightarrow> hd s \<noteq> CHR ''0'' \<Longrightarrow> nat_text (text_nat s) = s"
proof (induction s rule: rev_induct)
  case Nil
  then show ?case by simp
next
  case (snoc c s)
  then have c: "is_digit c" by simp
  show ?case
  proof (cases "s = []")
    case True
    with c show ?thesis
      by (simp add: text_nat_def nat_text.simps digit_value_less digit_char_digit_value)
  next
    case False
    with snoc have IH: "nat_text (text_nat s) = s" and pos: "0 < text_nat s"
      by (auto intro: text_nat_positive)
    with c show ?thesis
      by (simp add: nat_text.simps [of "10 * text_nat s + digit_value c"]
          digit_value_less digit_char_digit_value)
  qed
qed

theorem nat_text_text_nat [simp]: "decimal_pattern s \<Longrightarrow> nat_text (text_nat s) = s"
proof (cases s)
  case (Cons c cs)
  assume "decimal_pattern s"
  with Cons show ?thesis
    using nat_text_text_nat_nonzero [of s]
    by (auto simp: text_nat_def digit_value_def split: if_splits)
qed simp

lemma decimal_pattern_inject:
  "decimal_pattern s \<Longrightarrow> decimal_pattern t \<Longrightarrow> text_nat s = text_nat t \<longleftrightarrow> s = t"
  by (metis nat_text_text_nat)

lemma text_int_nonneg [simp]: "0 \<le> text_int s"
  by (simp add: text_int_def)

lemma int_text_text_int [simp]: "decimal_pattern s \<Longrightarrow> int_text (text_int s) = s"
  by (simp add: int_text_def text_int_def)

lemma text_int_int_text [simp]: "0 \<le> i \<Longrightarrow> text_int (int_text i) = i"
  by (simp add: int_text_def text_int_def)

lemma decimal_pattern_int_text [simp]: "0 \<le> i \<Longrightarrow> decimal_pattern (int_text i)"
  by (simp add: int_text_def)

lemma text_int_inject:
  "decimal_pattern s \<Longrightarrow> decimal_pattern t \<Longrightarrow> text_int s = text_int t \<longleftrightarrow> s = t"
  by (simp add: text_int_def decimal_pattern_inject)

text \<open>Elimination of the control structures of a handler that returned.\<close>

lemma case_failE:
  assumes "(case x of None \<Rightarrow> fail code | Some r \<Rightarrow> f r) = Inr y"
  obtains r where "x = Some r" and "f r = Inr y"
  using assms by (auto split: option.splits)

lemma if_failE:
  assumes "(if b then fail code else x) = Inr y"
  obtains "\<not> b" and "x = Inr y"
  using assms by (auto split: if_splits)

lemmas handler_elims = andthen_InrE case_failE if_failE

end
