(* ===== verification/JsValue.thy ===== *)
theory JsValue
  imports KernelPrelude
begin

text \<open>
  JavaScript values as the kernel sees them, and the closed-schema and canonical-text primitives of
  \<^verbatim>\<open>src/kernel/canonical.mjs\<close>.

  A \<^typ>\<open>string\<close>-keyed plain object is an association list in own-key order. A number is either
  integral (\<^verbatim>\<open>JNum\<close>) or not (\<^verbatim>\<open>JNumOther\<close>: a fraction, minus zero, an infinity or NaN).
  \<^verbatim>\<open>JExotic\<close> stands for every value that is neither a primitive, a plain object with enumerable
  data properties nor a dense ordinary array: functions, symbols, proxies, class instances, objects
  with accessors, sparse arrays. Values are trees, so an object graph with cycles or sharing is
  outside the type; the cycle check of \<^verbatim>\<open>canonicalSerialize\<close> has therefore no counterpart.
\<close>

section \<open>Values\<close>

datatype jsval =
    JUndef
  | JNull
  | JBool bool
  | JNum int
  | JNumOther
  | JBig int
  | JStr string
  | JArr "jsval list"
  | JObj "(string \<times> jsval) list"
  | JExotic

definition MAX_SAFE_INTEGER :: int where
  "MAX_SAFE_INTEGER = 9007199254740991"

fun isSafeInteger :: "jsval \<Rightarrow> bool" where
  "isSafeInteger (JNum n) = (\<bar>n\<bar> \<le> MAX_SAFE_INTEGER)"
| "isSafeInteger _ = False"

text \<open>\<^verbatim>\<open>value[key]\<close> and \<^verbatim>\<open>Object.hasOwn(value, key)\<close> on the entries of a plain object.\<close>

definition get_prop :: "(string \<times> jsval) list \<Rightarrow> string \<Rightarrow> jsval" where
  "get_prop kvs k = (case map_of kvs k of None \<Rightarrow> JUndef | Some v \<Rightarrow> v)"

definition has_own :: "(string \<times> jsval) list \<Rightarrow> string \<Rightarrow> bool" where
  "has_own kvs k \<longleftrightarrow> k \<in> set (map fst kvs)"

lemma get_prop_simps [simp]:
  "get_prop [] k = JUndef"
  "get_prop ((k', v) # kvs) k = (if k' = k then v else get_prop kvs k)"
  by (simp_all add: get_prop_def)

lemma has_own_simps [simp]:
  "has_own [] k = False"
  "has_own (kv # kvs) k = (k = fst kv \<or> has_own kvs k)"
  by (simp_all add: has_own_def)

text \<open>Every JavaScript object has each own key once.\<close>

fun js_wf :: "jsval \<Rightarrow> bool" where
  "js_wf (JArr vs) = list_all js_wf vs"
| "js_wf (JObj kvs) = (distinct (map fst kvs) \<and> list_all (\<lambda>kv. js_wf (snd kv)) kvs)"
| "js_wf _ = True"

section \<open>Copies of data graphs\<close>

lemma collect_cong [fundef_cong]:
  "xs = ys \<Longrightarrow> (\<And>x. x \<in> set ys \<Longrightarrow> f x = g x) \<Longrightarrow> collect f xs = collect g ys"
  by (induction ys arbitrary: xs) (auto simp: andthen_def split: sum.splits)

lemma size_elem_JArr: "v \<in> set vs \<Longrightarrow> size v < size (JArr vs)"
  by (induction vs) auto

lemma size_entry_JObj: "kv \<in> set kvs \<Longrightarrow> size (snd kv) < size (JObj kvs)"
  by (induction kvs) auto

text \<open>\<^verbatim>\<open>cloneDataGraph\<close> returns an equal copy and refuses exotic values wherever they occur.\<close>

function cloneDataGraph :: "string \<Rightarrow> jsval \<Rightarrow> jsval res" where
  "cloneDataGraph code (JArr vs) =
     andthen (collect (cloneDataGraph code) vs) (\<lambda>ws. Inr (JArr ws))"
| "cloneDataGraph code (JObj kvs) =
     andthen (collect (\<lambda>kv. andthen (cloneDataGraph code (snd kv)) (\<lambda>w. Inr (fst kv, w))) kvs)
       (\<lambda>ws. Inr (JObj ws))"
| "cloneDataGraph code JExotic = fail code"
| "cloneDataGraph code JUndef = Inr JUndef"
| "cloneDataGraph code JNull = Inr JNull"
| "cloneDataGraph code (JBool b) = Inr (JBool b)"
| "cloneDataGraph code (JNum n) = Inr (JNum n)"
| "cloneDataGraph code JNumOther = Inr JNumOther"
| "cloneDataGraph code (JBig n) = Inr (JBig n)"
| "cloneDataGraph code (JStr s) = Inr (JStr s)"
  by pat_completeness auto
termination
  by (relation "measure (size \<circ> snd)")
    (auto dest: size_elem_JArr size_entry_JObj simp del: jsval.size)

text \<open>
  \<^verbatim>\<open>exactRecord\<close>: one plain object whose keys are exactly the required ones and some of the
  optional ones; the result is the copy's entries.
\<close>

definition exactRecord ::
  "jsval \<Rightarrow> string list \<Rightarrow> string list \<Rightarrow> string \<Rightarrow> (string \<times> jsval) list res" where
  "exactRecord value required optional code =
     (case value of
        JObj kvs \<Rightarrow>
          if list_ex (\<lambda>k. \<not> has_own kvs k) required
             \<or> list_ex (\<lambda>kv. \<not> (fst kv \<in> set (required @ optional))) kvs
          then fail code
          else andthen (cloneDataGraph code (JObj kvs))
                 (\<lambda>c. case c of JObj ws \<Rightarrow> Inr ws | _ \<Rightarrow> fail code)
      | _ \<Rightarrow> fail code)"

definition frozenCopy :: "jsval \<Rightarrow> jsval res" where
  "frozenCopy v = cloneDataGraph ''CANONICAL_TYPE'' v"

section \<open>Canonical serialization\<close>

definition dq :: char where "dq = CHR 0x22"

definition bs :: char where "bs = CHR 0x5C"

definition hex_char :: "nat \<Rightarrow> char" where
  "hex_char n = (if n < 10 then char_of (48 + n) else char_of (87 + n))"

text \<open>The escapes of \<^verbatim>\<open>JSON.stringify\<close>.\<close>

definition quote_char :: "char \<Rightarrow> string" where
  "quote_char c =
     (let n = code_of c in
      if n = 34 then [bs, dq]
      else if n = 92 then [bs, bs]
      else if n = 8 then [bs, CHR ''b'']
      else if n = 9 then [bs, CHR ''t'']
      else if n = 10 then [bs, CHR ''n'']
      else if n = 12 then [bs, CHR ''f'']
      else if n = 13 then [bs, CHR ''r'']
      else if n < 32 then [bs, CHR ''u'', CHR ''0'', CHR ''0'', hex_char (n div 16), hex_char (n mod 16)]
      else [c])"

definition json_quote :: "string \<Rightarrow> string" where
  "json_quote s = dq # concat (map quote_char s) @ [dq]"

fun join_comma :: "string list \<Rightarrow> string" where
  "join_comma [] = []"
| "join_comma [t] = t"
| "join_comma (t # u # ts) = t @ '','' @ join_comma (u # ts)"

function canonicalSerialize :: "jsval \<Rightarrow> string res" where
  "canonicalSerialize JNull = Inr ''null''"
| "canonicalSerialize (JStr s) = Inr (json_quote s)"
| "canonicalSerialize (JBool b) = Inr (if b then ''true'' else ''false'')"
| "canonicalSerialize (JNum n) =
     (if \<not> isSafeInteger (JNum n) then fail ''CANONICAL_TYPE'' else Inr (int_text n))"
| "canonicalSerialize JNumOther = fail ''CANONICAL_TYPE''"
| "canonicalSerialize JUndef = fail ''CANONICAL_TYPE''"
| "canonicalSerialize (JBig n) = fail ''CANONICAL_TYPE''"
| "canonicalSerialize JExotic = fail ''CANONICAL_TYPE''"
| "canonicalSerialize (JArr vs) =
     andthen (collect canonicalSerialize vs) (\<lambda>ts. Inr (''['' @ join_comma ts @ '']''))"
| "canonicalSerialize (JObj kvs) =
     andthen (collect (\<lambda>kv. andthen (canonicalSerialize (snd kv))
                               (\<lambda>t. Inr (json_quote (fst kv) @ '':'' @ t))) (sort_key fst kvs))
       (\<lambda>ts. Inr (''{'' @ join_comma ts @ ''}''))"
  by pat_completeness auto
termination
  by (relation "measure size") (auto dest: size_elem_JArr size_entry_JObj simp del: jsval.size)

definition canonicalJson :: "jsval \<Rightarrow> string res" where
  "canonicalJson v = canonicalSerialize v"

section \<open>Canonical scalars\<close>

text \<open>An atomic amount keeps its text; its \<^verbatim>\<open>BigInt\<close> value is \<^term>\<open>text_int text\<close>.\<close>

definition canonicalAtomic :: "jsval \<Rightarrow> string res" where
  "canonicalAtomic v =
     (case v of
        JStr s \<Rightarrow> if decimal_pattern s then Inr s else fail ''ATOMIC_FORMAT''
      | _ \<Rightarrow> fail ''ATOMIC_FORMAT'')"

definition evm_hash_pattern :: "string \<Rightarrow> bool" where
  "evm_hash_pattern s \<longleftrightarrow> length s = 66 \<and> take 2 s = ''0x'' \<and> list_all is_hex (drop 2 s)"

definition canonicalEvmHash :: "jsval \<Rightarrow> string res" where
  "canonicalEvmHash v =
     (case v of
        JStr s \<Rightarrow> if evm_hash_pattern s then Inr (to_lower s) else fail ''EVM_HASH_FORMAT''
      | _ \<Rightarrow> fail ''EVM_HASH_FORMAT'')"

definition token_char :: "char \<Rightarrow> bool" where
  [string_preds]: "token_char c \<longleftrightarrow> is_alnum c \<or> c \<in> set ''._:-''"

fun token_pattern :: "string \<Rightarrow> bool" where
  "token_pattern [] = False"
| "token_pattern (c # cs) = (is_alnum c \<and> list_all token_char cs)"

definition canonicalTokenMax :: "jsval \<Rightarrow> int \<Rightarrow> string res" where
  "canonicalTokenMax v maximum =
     (if \<not> isSafeInteger (JNum maximum) \<or> maximum < 1 then fail ''TOKEN_FORMAT''
      else
        case v of
          JStr s \<Rightarrow>
            if maximum < int (length s) \<or> \<not> token_pattern s then fail ''TOKEN_FORMAT'' else Inr s
        | _ \<Rightarrow> fail ''TOKEN_FORMAT'')"

text \<open>The default maximum is 200.\<close>

definition canonicalToken :: "jsval \<Rightarrow> string res" where
  "canonicalToken v = canonicalTokenMax v 200"

end
