(* ===== verification/JsonText.thy ===== *)
theory JsonText
  imports JsValue
begin

text \<open>
  \<^verbatim>\<open>JSON.parse\<close> on the strings of the model, and the round trip with \<^verbatim>\<open>canonicalJson\<close>.
  The reader recurses with a fuel argument. Two nested calls consume at least one character, so more
  than twice the length of the text is always enough (\<^verbatim>\<open>json_value_fuel\<close>).
  Object entries keep the position of a key's first occurrence and the value of its last. An escape
  for a code unit of 256 or more is refused, as the model has no such character.
\<close>

section \<open>The reader\<close>

definition is_ws :: "char \<Rightarrow> bool" where
  "is_ws c \<longleftrightarrow> code_of c \<in> {32, 9, 10, 13}"

definition skip_ws :: "string \<Rightarrow> string" where
  "skip_ws s = dropWhile is_ws s"

definition hex_value :: "char \<Rightarrow> nat option" where
  "hex_value c =
     (let n = code_of c in
      if 48 \<le> n \<and> n \<le> 57 then Some (n - 48)
      else if 97 \<le> n \<and> n \<le> 102 then Some (n - 87)
      else if 65 \<le> n \<and> n \<le> 70 then Some (n - 55)
      else None)"

definition unescape :: "char \<Rightarrow> char option" where
  "unescape e =
     (if e = dq then Some dq
      else if e = bs then Some bs
      else if e = CHR ''/'' then Some (CHR ''/'')
      else if e = CHR ''b'' then Some (char_of (8::nat))
      else if e = CHR ''t'' then Some (char_of (9::nat))
      else if e = CHR ''n'' then Some (char_of (10::nat))
      else if e = CHR ''f'' then Some (char_of (12::nat))
      else if e = CHR ''r'' then Some (char_of (13::nat))
      else None)"

definition unescape_hex :: "char \<Rightarrow> char \<Rightarrow> char \<Rightarrow> char \<Rightarrow> char option" where
  "unescape_hex a b c d =
     (case (hex_value a, hex_value b, hex_value c, hex_value d) of
        (Some w, Some x, Some y, Some z) \<Rightarrow>
          (let n = 4096 * w + 256 * x + 16 * y + z in if n < 256 then Some (char_of n) else None)
      | _ \<Rightarrow> None)"

text \<open>The rest of a string literal after its opening quote.\<close>

fun string_body :: "string \<Rightarrow> (string \<times> string) option" where
  "string_body [] = None"
| "string_body (c # cs) =
     (if c = dq then Some ([], cs)
      else if c = bs then
        (case cs of
           [] \<Rightarrow> None
         | e # es \<Rightarrow>
             if e = CHR ''u'' then
               (case es of
                  h1 # h2 # h3 # h4 # r \<Rightarrow>
                    (case unescape_hex h1 h2 h3 h4 of
                       None \<Rightarrow> None
                     | Some d \<Rightarrow> map_option (apfst (Cons d)) (string_body r))
                | _ \<Rightarrow> None)
             else
               (case unescape e of
                  None \<Rightarrow> None
                | Some d \<Rightarrow> map_option (apfst (Cons d)) (string_body es)))
      else if code_of c < 32 then None
      else map_option (apfst (Cons c)) (string_body cs))"

text \<open>
  A number literal: sign, integer part, fraction, exponent. The value is computed exactly from its
  decimal digits; an integral value is a \<^verbatim>\<open>JNum\<close> and minus zero, a fractional value and a
  literal with an exponent beyond 400 are a \<^verbatim>\<open>JNumOther\<close>.
\<close>

definition number_value :: "bool \<Rightarrow> string \<Rightarrow> string \<Rightarrow> int \<Rightarrow> jsval" where
  "number_value negative whole fraction exponent =
     (let m = int (text_nat (whole @ fraction));
          e = exponent - int (length fraction);
          signed = (\<lambda>n. if negative then - n else n)
      in if m = 0 then (if negative then JNumOther else JNum 0)
         else if 0 \<le> e then (if 400 < e then JNumOther else JNum (signed (m * 10 ^ nat e)))
         else if - e \<le> int (length (whole @ fraction)) \<and> m mod 10 ^ nat (- e) = 0
           then JNum (signed (m div 10 ^ nat (- e)))
         else JNumOther)"

definition read_fraction :: "string \<Rightarrow> (string \<times> string) option" where
  "read_fraction s =
     (case s of
        c # cs \<Rightarrow>
          if c = CHR ''.'' then
            (if takeWhile is_digit cs = [] then None
             else Some (takeWhile is_digit cs, dropWhile is_digit cs))
          else Some ([], s)
      | [] \<Rightarrow> Some ([], s))"

definition read_exponent :: "string \<Rightarrow> (int \<times> string) option" where
  "read_exponent s =
     (case s of
        c # cs \<Rightarrow>
          if c = CHR ''e'' \<or> c = CHR ''E'' then
            (let neg = (case cs of d # ds \<Rightarrow> d = CHR ''-'' | [] \<Rightarrow> False);
                 ds = (case cs of d # ds \<Rightarrow> if d = CHR ''-'' \<or> d = CHR ''+'' then ds else cs | [] \<Rightarrow> [])
             in if takeWhile is_digit ds = [] then None
                else Some ((if neg then - 1 else 1) * int (text_nat (takeWhile is_digit ds)),
                           dropWhile is_digit ds))
          else Some (0, s)
      | [] \<Rightarrow> Some (0, s))"

definition read_number :: "string \<Rightarrow> (jsval \<times> string) option" where
  "read_number s =
     (let negative = (case s of c # _ \<Rightarrow> c = CHR ''-'' | [] \<Rightarrow> False);
          t = (if negative then tl s else s);
          whole = takeWhile is_digit t;
          rest = dropWhile is_digit t
      in if \<not> decimal_pattern whole then None
         else case read_fraction rest of
                None \<Rightarrow> None
              | Some (fraction, r1) \<Rightarrow>
                  (case read_exponent r1 of
                     None \<Rightarrow> None
                   | Some (e, r2) \<Rightarrow> Some (number_value negative whole fraction e, r2)))"

text \<open>\<^verbatim>\<open>CreateDataProperty\<close> on the object under construction.\<close>

fun set_entry :: "string \<Rightarrow> jsval \<Rightarrow> (string \<times> jsval) list \<Rightarrow> (string \<times> jsval) list" where
  "set_entry k v [] = [(k, v)]"
| "set_entry k v ((k', v') # kvs) =
     (if k = k' then (k, v) # kvs else (k', v') # set_entry k v kvs)"

definition from_entries :: "(string \<times> jsval) list \<Rightarrow> (string \<times> jsval) list" where
  "from_entries kvs = foldl (\<lambda>acc kv. set_entry (fst kv) (snd kv) acc) [] kvs"

definition expect_char :: "char \<Rightarrow> string \<Rightarrow> string option" where
  "expect_char c s = (case skip_ws s of d # ds \<Rightarrow> if d = c then Some ds else None | [] \<Rightarrow> None)"

definition read_key :: "string \<Rightarrow> (string \<times> string) option" where
  "read_key s =
     Option.bind (expect_char dq s) (\<lambda>t.
     Option.bind (string_body t) (\<lambda>(k, r).
     Option.bind (expect_char (CHR '':'') r) (\<lambda>u. Some (k, u))))"

fun json_value :: "nat \<Rightarrow> string \<Rightarrow> (jsval \<times> string) option"
and json_elements :: "nat \<Rightarrow> string \<Rightarrow> (jsval list \<times> string) option"
and json_members :: "nat \<Rightarrow> string \<Rightarrow> ((string \<times> jsval) list \<times> string) option" where
  "json_value 0 s = None"
| "json_value (Suc n) s =
     (case skip_ws s of
        [] \<Rightarrow> None
      | c # cs \<Rightarrow>
          if c = CHR ''{'' then
            (case expect_char (CHR ''}'') cs of
               Some r \<Rightarrow> Some (JObj [], r)
             | None \<Rightarrow> map_option (apfst (JObj \<circ> from_entries)) (json_members n cs))
          else if c = CHR ''['' then
            (case expect_char (CHR '']'') cs of
               Some r \<Rightarrow> Some (JArr [], r)
             | None \<Rightarrow> map_option (apfst JArr) (json_elements n cs))
          else if c = dq then map_option (apfst JStr) (string_body cs)
          else if starts_with (c # cs) ''null'' then Some (JNull, drop 4 (c # cs))
          else if starts_with (c # cs) ''true'' then Some (JBool True, drop 4 (c # cs))
          else if starts_with (c # cs) ''false'' then Some (JBool False, drop 5 (c # cs))
          else read_number (c # cs))"
| "json_elements 0 s = None"
| "json_elements (Suc n) s =
     Option.bind (json_value n s) (\<lambda>(v, r).
       case expect_char (CHR '','') r of
         Some t \<Rightarrow> map_option (apfst (Cons v)) (json_elements n t)
       | None \<Rightarrow> map_option (\<lambda>t. ([v], t)) (expect_char (CHR '']'') r))"
| "json_members 0 s = None"
| "json_members (Suc n) s =
     Option.bind (read_key s) (\<lambda>(k, u).
     Option.bind (json_value n u) (\<lambda>(v, r).
       case expect_char (CHR '','') r of
         Some t \<Rightarrow> map_option (apfst (Cons (k, v))) (json_members n t)
       | None \<Rightarrow> map_option (\<lambda>t. ([(k, v)], t)) (expect_char (CHR ''}'') r)))"

definition json_parse :: "string \<Rightarrow> jsval option" where
  "json_parse s =
     (case json_value (Suc (2 * length s)) s of
        Some (v, r) \<Rightarrow> if skip_ws r = [] then Some v else None
      | None \<Rightarrow> None)"

text \<open>
  The ledger's and the intent builder's \<^verbatim>\<open>parseCanonicalJson\<close>: a text that is not JSON, or not
  the canonical text of its value, is refused with \<^verbatim>\<open>code\<close>.
\<close>

definition parseCanonicalJson :: "string \<Rightarrow> string \<Rightarrow> jsval res" where
  "parseCanonicalJson value code =
     (case json_parse value of
        None \<Rightarrow> fail code
      | Some parsed \<Rightarrow>
          andthen (canonicalJson parsed)
            (\<lambda>t. if t \<noteq> value then fail code else Inr parsed))"

section \<open>Round trip of string literals\<close>

lemma dq_bs_code [simp]: "code_of dq = 34" "code_of bs = 92" "dq \<noteq> bs" "bs \<noteq> dq"
  by (simp_all add: dq_def bs_def)

lemma code_of_less_256: "code_of c < 256"
proof -
  have "code_of c mod 256 < 256" by simp
  then show ?thesis by simp
qed

lemma string_body_plain:
  "c \<noteq> dq \<Longrightarrow> c \<noteq> bs \<Longrightarrow> \<not> code_of c < 32 \<Longrightarrow>
     string_body (c # r) = map_option (apfst (Cons c)) (string_body r)"
  by simp

lemma hex_value_hex_char: "n < 16 \<Longrightarrow> hex_value (hex_char n) = Some n"
  by (auto simp: hex_value_def hex_char_def Let_def)

lemma char_eqI_code: "code_of c = code_of d \<Longrightarrow> c = d"
  by (metis char_of_char)

lemma string_body_quote_char:
  "string_body (quote_char c @ r) = map_option (apfst (Cons c)) (string_body r)"
proof -
  consider "code_of c \<in> {34, 92, 8, 9, 10, 12, 13}"
    | "code_of c \<notin> {34, 92, 8, 9, 10, 12, 13}" "code_of c < 32"
    | "code_of c \<notin> {34, 92, 8, 9, 10, 12, 13}" "\<not> code_of c < 32"
    by blast
  then show ?thesis
  proof cases
    case 1
    then have "c = dq \<or> c = bs \<or> c = char_of (8::nat) \<or> c = char_of (9::nat) \<or> c = char_of (10::nat)
        \<or> c = char_of (12::nat) \<or> c = char_of (13::nat)"
      by (auto simp flip: dq_bs_code(1,2) dest!: char_eqI_code) (metis char_of_char)+
    then show ?thesis
      by (auto simp: quote_char_def unescape_def Let_def dq_def bs_def)
  next
    case 2
    then have d: "code_of c div 16 < 16" "code_of c mod 16 < 16" by simp_all
    have z: "hex_value (CHR ''0'') = Some 0" by (simp add: hex_value_def)
    have u: "unescape_hex (CHR ''0'') (CHR ''0'') (hex_char (code_of c div 16))
        (hex_char (code_of c mod 16)) = Some c"
      using d z code_of_less_256 [of c]
      by (simp add: unescape_hex_def hex_value_hex_char Let_def)
    from 2 show ?thesis
      by (simp add: quote_char_def Let_def u)
  next
    case 3
    then have "quote_char c = [c]" by (simp add: quote_char_def Let_def)
    moreover from 3 have "c \<noteq> dq" "c \<noteq> bs" by auto
    ultimately show ?thesis using 3 by simp
  qed
qed

lemma string_body_quoted:
  "string_body (concat (map quote_char s) @ dq # r) = Some (s, r)"
proof (induction s)
  case Nil
  show ?case by simp
next
  case (Cons c s)
  then show ?case by (simp add: string_body_quote_char del: string_body.simps(2))
qed


section \<open>Round trip of values\<close>

text \<open>The value a canonical text stands for: object keys in code-unit order.\<close>

function js_normal :: "jsval \<Rightarrow> jsval" where
  "js_normal (JArr vs) = JArr (map js_normal vs)"
| "js_normal (JObj kvs) = JObj (map (\<lambda>kv. (fst kv, js_normal (snd kv))) (sort_key fst kvs))"
| "js_normal JUndef = JUndef"
| "js_normal JNull = JNull"
| "js_normal (JBool b) = JBool b"
| "js_normal (JNum n) = JNum n"
| "js_normal JNumOther = JNumOther"
| "js_normal (JBig n) = JBig n"
| "js_normal (JStr s) = JStr s"
| "js_normal JExotic = JExotic"
  by pat_completeness auto
termination
  by (relation "measure size") (auto dest: size_elem_JArr size_entry_JObj simp del: jsval.size)

text \<open>A text that may follow a value: the end, or a separator.\<close>

definition value_end :: "string \<Rightarrow> bool" where
  "value_end r \<longleftrightarrow> (case r of [] \<Rightarrow> True | c # _ \<Rightarrow> c \<in> set '',]}'')"

lemma value_end_simps [simp]:
  "value_end []" "value_end (CHR '','' # r)" "value_end (CHR '']'' # r)" "value_end (CHR ''}'' # r)"
  by (simp_all add: value_end_def)

lemma value_end_not_digit: "value_end r \<Longrightarrow> takeWhile is_digit (s @ r) = takeWhile is_digit s"
  by (induction s; cases r) (auto simp: value_end_def is_digit_def)

lemma value_end_rest: "list_all is_digit s \<Longrightarrow> value_end r \<Longrightarrow> dropWhile is_digit (s @ r) = r"
  by (cases r) (auto simp: value_end_def dropWhile_append2 list_all_iff is_digit_def)

lemma list_all_takeWhile: "list_all P s \<Longrightarrow> takeWhile P s = s"
  by (induction s) auto

lemma read_number_int_text:
  assumes "value_end r"
  shows "read_number (int_text i @ r) = Some (JNum i, r)"
proof -
  have frac: "read_fraction r = Some ([], r)" and ex: "read_exponent r = Some (0, r)"
    using assms by (auto simp: read_fraction_def read_exponent_def value_end_def split: list.splits)
  have w: "takeWhile is_digit (nat_text m @ r) = nat_text m"
    and d: "dropWhile is_digit (nat_text m @ r) = r" for m
    using assms list_all_digit_nat_text [of m]
    by (simp_all add: value_end_not_digit value_end_rest list_all_takeWhile)
  show ?thesis
  proof (cases "i < 0")
    case True
    then show ?thesis
      by (simp add: int_text_def read_number_def w d frac ex number_value_def)
  next
    case False
    obtain c cs where c: "nat_text (nat i) = c # cs" by (cases "nat_text (nat i)") auto
    then have "is_digit c" using list_all_digit_nat_text [of "nat i"] by simp
    then have "c \<noteq> CHR ''-''" by (auto simp: is_digit_def)
    with c have "(case nat_text (nat i) @ r of [] \<Rightarrow> False | c # _ \<Rightarrow> c = CHR ''-'') = False"
      by simp
    with False show ?thesis
      by (simp add: int_text_def read_number_def w d frac ex number_value_def)
  qed
qed

lemma skip_ws_nonspace: "\<not> is_ws c \<Longrightarrow> skip_ws (c # s) = c # s"
  by (simp add: skip_ws_def)

lemma expect_char_same: "\<not> is_ws c \<Longrightarrow> expect_char c (c # s) = Some s"
  by (simp add: expect_char_def skip_ws_nonspace)

lemma expect_char_other: "\<not> is_ws d \<Longrightarrow> d \<noteq> c \<Longrightarrow> expect_char c (d # s) = None"
  by (simp add: expect_char_def skip_ws_nonspace)

lemma is_ws_punct [simp]:
  "\<not> is_ws (CHR '','')" "\<not> is_ws (CHR '']'')" "\<not> is_ws (CHR ''}'')" "\<not> is_ws (CHR '':'')"
  "\<not> is_ws (CHR ''['')" "\<not> is_ws (CHR ''{'')" "\<not> is_ws dq"
  by (simp_all add: is_ws_def)

lemma int_text_head:
  obtains c cs where "int_text i = c # cs" "is_digit c \<or> c = CHR ''-''"
proof (cases "i < 0")
  case False
  obtain c cs where "nat_text (nat i) = c # cs" by (cases "nat_text (nat i)") auto
  moreover from this have "is_digit c" using list_all_digit_nat_text [of "nat i"] by simp
  ultimately show ?thesis using False that by (simp add: int_text_def)
qed (use that in \<open>simp add: int_text_def\<close>)

definition value_start :: "char \<Rightarrow> bool" where
  "value_start c \<longleftrightarrow> \<not> is_ws c \<and> c \<notin> set '',]}:''"

lemma value_start_int_text: "int_text i \<noteq> [] \<and> value_start (hd (int_text i))"
proof -
  obtain c cs where "int_text i = c # cs" "is_digit c \<or> c = CHR ''-''" by (rule int_text_head)
  moreover from this(2) have "value_start c" by (auto simp: value_start_def is_ws_def is_digit_def)
  ultimately show ?thesis by simp
qed

lemma value_start_dq: "value_start dq"
  by (simp add: value_start_def dq_def is_ws_def)

lemma value_start_letters:
  "value_start (CHR ''n'')" "value_start (CHR ''t'')" "value_start (CHR ''f'')"
  "value_start (CHR ''['')" "value_start (CHR ''{'')"
  by (simp_all add: value_start_def is_ws_def)

lemma canonicalSerialize_start:
  "canonicalSerialize v = Inr t \<Longrightarrow> t \<noteq> [] \<and> value_start (hd t)"
proof (cases v)
  case (JNum n)
  assume "canonicalSerialize v = Inr t"
  with JNum have "t = int_text n" by simp
  then show ?thesis by (simp add: value_start_int_text)
next
  case (JArr vs)
  assume "canonicalSerialize v = Inr t"
  with JArr show ?thesis by (auto simp: value_start_letters)
next
  case (JObj kvs)
  assume "canonicalSerialize v = Inr t"
  with JObj show ?thesis by (auto simp: value_start_letters)
qed (auto simp: json_quote_def value_start_dq value_start_letters split: if_splits)

lemma canonicalSerialize_head:
  assumes "canonicalSerialize v = Inr t"
  obtains c cs where "t = c # cs" "value_start c"
  using canonicalSerialize_start [OF assms] that by (cases t) auto

lemma json_value_int_text:
  assumes "value_end r"
  shows "json_value (Suc n) (int_text i @ r) = Some (JNum i, r)"
proof -
  obtain c cs where c: "int_text i = c # cs" and k: "is_digit c \<or> c = CHR ''-''"
    by (rule int_text_head)
  then have "skip_ws (int_text i @ r) = int_text i @ r"
    by (auto simp: skip_ws_def is_ws_def is_digit_def)
  moreover from k have "c \<noteq> CHR ''{''" "c \<noteq> CHR ''[''" "c \<noteq> dq" "c \<noteq> CHR ''n''"
      "c \<noteq> CHR ''t''" "c \<noteq> CHR ''f''"
    by (auto simp: is_digit_def dq_def)
  ultimately show ?thesis
    using read_number_int_text [OF assms, of i] by (simp add: c)
qed

lemma canonicalSerialize_nonempty: "canonicalSerialize v = Inr t \<Longrightarrow> 0 < length t"
  by (elim canonicalSerialize_head) simp

lemma expect_char_value_start:
  "value_start d \<Longrightarrow> c \<in> set '',]}:'' \<Longrightarrow> expect_char c (d # s) = None"
  by (intro expect_char_other) (auto simp: value_start_def)

lemma dq_other [simp]:
  "dq \<noteq> CHR ''}''" "dq \<noteq> CHR '']''" "dq \<noteq> CHR ''{''" "dq \<noteq> CHR ''[''" "dq \<noteq> CHR '',''"
  by (simp_all add: dq_def)

text \<open>One value, given the round trip of its parts.\<close>

definition reads_back :: "jsval \<Rightarrow> bool" where
  "reads_back v \<longleftrightarrow>
     (\<forall>t r n. canonicalSerialize v = Inr t \<longrightarrow> value_end r \<longrightarrow> length t < n \<longrightarrow>
        json_value n (t @ r) = Some (js_normal v, r))"

lemma reads_backI:
  assumes "\<And>t r m. canonicalSerialize v = Inr t \<Longrightarrow> value_end r \<Longrightarrow> length t \<le> m \<Longrightarrow>
    json_value (Suc m) (t @ r) = Some (js_normal v, r)"
  shows "reads_back v"
  unfolding reads_back_def
proof (intro allI impI)
  fix t r n
  assume "canonicalSerialize v = Inr t" "value_end r" "length t < n"
  with assms [of t r "n - 1"] show "json_value n (t @ r) = Some (js_normal v, r)" by simp
qed

lemma reads_backD:
  "reads_back v \<Longrightarrow> canonicalSerialize v = Inr t \<Longrightarrow> value_end r \<Longrightarrow> length t < n \<Longrightarrow>
     json_value n (t @ r) = Some (js_normal v, r)"
  by (simp add: reads_back_def)

lemma json_elements_join:
  assumes "list_all2 (\<lambda>v t. canonicalSerialize v = Inr t) vs ts" "vs \<noteq> []"
    and "\<And>v. v \<in> set vs \<Longrightarrow> reads_back v"
    and "length (join_comma ts) + 1 < n"
  shows "json_elements n (join_comma ts @ CHR '']'' # r) = Some (map js_normal vs, r)"
  using assms
proof (induction vs ts arbitrary: n rule: list_all2_induct)
  case Nil
  then show ?case by simp
next
  case (Cons v vs t ts)
  then obtain m where n: "n = Suc m" by (cases n) auto
  show ?case
  proof (cases ts)
    case Nil
    with Cons.hyps have "vs = []" by simp
    moreover from Nil Cons.prems n have "json_value m (t @ CHR '']'' # r) = Some (js_normal v, CHR '']'' # r)"
      by (intro reads_backD [OF _ Cons.hyps(1)]) auto
    ultimately show ?thesis
      by (simp add: n Nil expect_char_other expect_char_same)
  next
    case (Cons u us)
    with Cons.hyps have ne: "vs \<noteq> []" by auto
    let ?rest = "join_comma ts @ CHR '']'' # r"
    from Cons Cons.prems n
    have "json_value m (t @ CHR '','' # ?rest) = Some (js_normal v, CHR '','' # ?rest)"
      by (intro reads_backD [OF _ Cons.hyps(1)]) auto
    moreover have "json_elements m ?rest = Some (map js_normal vs, r)"
      using Cons Cons.prems n canonicalSerialize_nonempty [OF Cons.hyps(1)]
      by (intro Cons.IH ne) auto
    ultimately show ?thesis
      by (simp add: n Cons expect_char_same)
  qed
qed

definition member_text :: "string \<times> jsval \<Rightarrow> string \<Rightarrow> bool" where
  "member_text kv e \<longleftrightarrow>
     (\<exists>t. canonicalSerialize (snd kv) = Inr t \<and> e = json_quote (fst kv) @ '':'' @ t)"

lemma read_key_json_quote: "read_key (json_quote k @ CHR '':'' # u) = Some (k, u)"
  by (simp add: read_key_def json_quote_def expect_char_same string_body_quoted)

lemma json_members_join:
  assumes "list_all2 member_text kvs es" "kvs \<noteq> []"
    and "\<And>kv. kv \<in> set kvs \<Longrightarrow> reads_back (snd kv)"
    and "length (join_comma es) + 1 < n"
  shows "json_members n (join_comma es @ CHR ''}'' # r) =
    Some (map (\<lambda>kv. (fst kv, js_normal (snd kv))) kvs, r)"
  using assms
proof (induction kvs es arbitrary: n rule: list_all2_induct)
  case Nil
  then show ?case by simp
next
  case (Cons kv kvs e es)
  then obtain m where n: "n = Suc m" by (cases n) auto
  from Cons.hyps(1) obtain t where t: "canonicalSerialize (snd kv) = Inr t"
    and e: "e = json_quote (fst kv) @ '':'' @ t"
    by (auto simp: member_text_def)
  show ?case
  proof (cases es)
    case Nil
    with Cons.hyps have "kvs = []" by simp
    moreover from Nil Cons.prems n
    have "json_value m (t @ CHR ''}'' # r) = Some (js_normal (snd kv), CHR ''}'' # r)"
      by (intro reads_backD [OF _ t]) (auto simp: e)
    ultimately show ?thesis
      by (simp add: n Nil e read_key_json_quote expect_char_other expect_char_same)
  next
    case (Cons u us)
    with Cons.hyps have ne: "kvs \<noteq> []" by auto
    let ?rest = "join_comma es @ CHR ''}'' # r"
    from Cons Cons.prems n
    have "json_value m (t @ CHR '','' # ?rest) = Some (js_normal (snd kv), CHR '','' # ?rest)"
      by (intro reads_backD [OF _ t]) (auto simp: e)
    moreover have "json_members m ?rest = Some (map (\<lambda>kv. (fst kv, js_normal (snd kv))) kvs, r)"
      using Cons Cons.prems n by (intro Cons.IH ne) (auto simp: e)
    ultimately show ?thesis
      by (simp add: n Cons e read_key_json_quote expect_char_same)
  qed
qed

lemma set_entry_new: "k \<notin> fst ` set acc \<Longrightarrow> set_entry k v acc = acc @ [(k, v)]"
  by (induction k v acc rule: set_entry.induct) auto

lemma from_entries_distinct: "distinct (map fst kvs) \<Longrightarrow> from_entries kvs = kvs"
proof -
  have "distinct (map fst (acc @ kvs)) \<Longrightarrow>
      foldl (\<lambda>acc kv. set_entry (fst kv) (snd kv) acc) acc kvs = acc @ kvs" for acc
  proof (induction kvs arbitrary: acc)
    case (Cons kv kvs)
    then have "fst kv \<notin> fst ` set acc" by auto
    with Cons.IH [of "acc @ [kv]"] Cons.prems show ?case by (simp add: set_entry_new)
  qed simp
  from this [of "[]"] show "distinct (map fst kvs) \<Longrightarrow> from_entries kvs = kvs"
    by (simp add: from_entries_def)
qed

lemma distinct_fst_sort_key: "distinct (map fst (sort_key fst kvs)) \<longleftrightarrow> distinct (map fst kvs)"
proof -
  have "mset (map fst (sort_key fst kvs)) = mset (map fst kvs)" by simp
  then show ?thesis by (metis mset_eq_imp_distinct_iff)
qed

lemma collect_members:
  "collect (\<lambda>kv. andthen (canonicalSerialize (snd kv))
       (\<lambda>t. Inr (json_quote (fst kv) @ '':'' @ t))) kvs = Inr es
   \<longleftrightarrow> list_all2 member_text kvs es"
proof -
  have "(\<lambda>kv e. andthen (canonicalSerialize (snd kv))
       (\<lambda>t. Inr (json_quote (fst kv) @ '':'' @ t)) = Inr e) = member_text"
    by (auto simp: fun_eq_iff member_text_def andthen_Inr_iff)
  then show ?thesis by (simp only: collect_Inr_iff)
qed

lemma js_wf_JArr_mem: "js_wf (JArr vs) \<Longrightarrow> v \<in> set vs \<Longrightarrow> js_wf v"
  by (auto simp: list_all_iff)

lemma js_wf_JObj_mem: "js_wf (JObj kvs) \<Longrightarrow> kv \<in> set kvs \<Longrightarrow> js_wf (snd kv)"
  by (auto simp: list_all_iff)

lemma reads_back_JArr:
  assumes parts: "\<And>v. v \<in> set vs \<Longrightarrow> reads_back v"
  shows "reads_back (JArr vs)"
proof (rule reads_backI)
  fix t r m
  assume t: "canonicalSerialize (JArr vs) = Inr t" and "value_end r" and n: "length t \<le> m"
  from t obtain ts where ts: "list_all2 (\<lambda>v t. canonicalSerialize v = Inr t) vs ts"
    and t': "t = ''['' @ join_comma ts @ '']''"
    by (auto simp: collect_Inr_iff)
  show "json_value (Suc m) (t @ r) = Some (js_normal (JArr vs), r)"
  proof (cases "vs = []")
    case True
    with ts show ?thesis by (simp add: t' skip_ws_nonspace expect_char_same)
  next
    case False
    then obtain u us where "ts = u # us" "canonicalSerialize (hd vs) = Inr u"
      using ts by (cases vs; cases ts) auto
    then obtain c cs where c: "join_comma ts = c # cs" "value_start c"
      by (cases us) (auto elim!: canonicalSerialize_head)
    have "json_elements m (join_comma ts @ CHR '']'' # r) = Some (map js_normal vs, r)"
      using n by (intro json_elements_join ts False parts) (auto simp: t')
    with c show ?thesis
      by (simp add: t' skip_ws_nonspace expect_char_value_start)
  qed
qed

lemma reads_back_JObj:
  assumes parts: "\<And>kv. kv \<in> set kvs \<Longrightarrow> reads_back (snd kv)"
    and dist: "distinct (map fst kvs)"
  shows "reads_back (JObj kvs)"
proof (rule reads_backI)
  fix t r m
  assume t: "canonicalSerialize (JObj kvs) = Inr t" and "value_end r" and n: "length t \<le> m"
  from t obtain es where es: "list_all2 member_text (sort_key fst kvs) es"
    and t': "t = ''{'' @ join_comma es @ ''}''"
    by (auto simp: collect_members)
  show "json_value (Suc m) (t @ r) = Some (js_normal (JObj kvs), r)"
  proof (cases "sort_key fst kvs = []")
    case True
    with es show ?thesis by (simp add: t' skip_ws_nonspace expect_char_same)
  next
    case False
    then obtain kv kvs' e es' where "es = e # es'" "member_text kv e"
      using es by (cases "sort_key fst kvs"; cases es) auto
    then obtain cs where c: "join_comma es = dq # cs"
      by (cases es') (auto simp: member_text_def json_quote_def)
    have "json_members m (join_comma es @ CHR ''}'' # r) =
        Some (map (\<lambda>kv. (fst kv, js_normal (snd kv))) (sort_key fst kvs), r)"
      using n by (intro json_members_join es False parts) (auto simp: t')
    moreover have "from_entries (map (\<lambda>kv. (fst kv, js_normal (snd kv))) (sort_key fst kvs)) =
        map (\<lambda>kv. (fst kv, js_normal (snd kv))) (sort_key fst kvs)"
      using dist by (intro from_entries_distinct) (simp add: o_def distinct_fst_sort_key)
    ultimately show ?thesis
      using c by (simp add: t' skip_ws_nonspace expect_char_other)
  qed
qed

lemma reads_back_textI:
  assumes "canonicalSerialize v = (if ok then Inr u else Inl e)"
    and "\<And>r m. value_end r \<Longrightarrow> json_value (Suc m) (u @ r) = Some (js_normal v, r)"
  shows "reads_back v"
  by (rule reads_backI) (metis assms if_Inl_Inr(2) sum.inject(2))

lemma reads_back_literal: "reads_back JNull" "reads_back (JBool b)"
proof -
  show "reads_back JNull"
    by (rule reads_back_textI [where u = "''null''" and ok = True])
      (simp_all add: skip_ws_def is_ws_def dq_def)
  show "reads_back (JBool b)"
    by (rule reads_back_textI [where u = "if b then ''true'' else ''false''" and ok = True])
      (simp_all add: skip_ws_def is_ws_def dq_def)
qed

lemma reads_back_JNum: "reads_back (JNum i)"
  by (rule reads_back_textI [where u = "int_text i" and ok = "isSafeInteger (JNum i)"
        and e = "KernelError ''CANONICAL_TYPE''"])
    (simp_all add: json_value_int_text del: json_value.simps)

lemma reads_back_JStr: "reads_back (JStr s)"
  by (rule reads_back_textI [where u = "json_quote s" and ok = True])
    (simp_all add: json_quote_def skip_ws_nonspace string_body_quoted)

lemma reads_back_never:
  "reads_back JUndef" "reads_back JNumOther" "reads_back (JBig n)" "reads_back JExotic"
  by (simp_all add: reads_back_def)

lemma reads_back_wf: "js_wf v \<Longrightarrow> reads_back v"
proof (induction v rule: measure_induct_rule [where f = size])
  case (less v)
  show ?case
  proof (cases v)
    case (JArr vs)
    have "reads_back (JArr vs)"
    proof (rule reads_back_JArr)
      fix w assume "w \<in> set vs"
      with JArr less.prems show "reads_back w"
        by (intro less.IH) (auto dest: size_elem_JArr js_wf_JArr_mem simp del: jsval.size js_wf.simps)
    qed
    with JArr show ?thesis by simp
  next
    case (JObj kvs)
    have "reads_back (JObj kvs)"
    proof (rule reads_back_JObj)
      fix kv assume "kv \<in> set kvs"
      with JObj less.prems show "reads_back (snd kv)"
        by (intro less.IH) (auto dest: size_entry_JObj js_wf_JObj_mem simp del: jsval.size js_wf.simps)
    qed (use JObj less.prems in simp)
    with JObj show ?thesis by simp
  qed (simp_all add: reads_back_literal reads_back_JNum reads_back_JStr reads_back_never)
qed

text \<open>
  The canonical text of a value is read back as the value with its keys in order; so the text
  determines the value up to key order.
\<close>

theorem json_parse_canonicalJson:
  assumes "js_wf v" and "canonicalJson v = Inr t"
  shows "json_parse t = Some (js_normal v)"
proof -
  from assms have "json_value (Suc (2 * length t)) (t @ []) = Some (js_normal v, [])"
    by (intro reads_backD [OF reads_back_wf]) (simp_all add: canonicalJson_def)
  then show ?thesis by (simp add: json_parse_def skip_ws_def)
qed

lemma sort_key_map_fst: "sort_key fst (map (\<lambda>kv. (fst kv, f (snd kv))) kvs) =
    map (\<lambda>kv. (fst kv, f (snd kv))) (sort_key fst kvs)"
proof (induction kvs)
  case (Cons kv kvs)
  have "insort_key fst (fst kv, f (snd kv)) (map (\<lambda>kv. (fst kv, f (snd kv))) xs) =
      map (\<lambda>kv. (fst kv, f (snd kv))) (insort_key fst kv xs)" for xs
    by (induction xs) auto
  with Cons show ?case by simp
qed simp

lemma canonicalSerialize_js_normal: "canonicalSerialize (js_normal v) = canonicalSerialize v"
proof (induction v rule: canonicalSerialize.induct)
  case (9 vs)
  then have "collect canonicalSerialize (map js_normal vs) = collect canonicalSerialize vs"
    by (simp add: collect_map cong: collect_same)
  then show ?case by simp
next
  case (10 kvs)
  let ?f = "\<lambda>kv. andthen (canonicalSerialize (snd kv)) (\<lambda>t. Inr (json_quote (fst kv) @ '':'' @ t))"
  have "collect ?f (map (\<lambda>kv. (fst kv, js_normal (snd kv))) (sort_key fst kvs)) =
      collect ?f (sort_key fst kvs)"
    unfolding collect_map
  proof (rule collect_same)
    fix kv assume "kv \<in> set (sort_key fst kvs)"
    with 10 have "canonicalSerialize (js_normal (snd kv)) = canonicalSerialize (snd kv)" by simp
    then show "?f (fst kv, js_normal (snd kv)) = ?f kv"
      by (cases "canonicalSerialize (snd kv)") simp_all
  qed
  moreover have "sort_key fst (sort_key fst kvs) = sort_key fst kvs"
    by (rule sort_key_id_if_sorted) simp
  ultimately show ?case by (simp add: sort_key_map_fst)
qed auto

lemma parseCanonicalJson_canonical:
  "js_wf v \<Longrightarrow> canonicalJson v = Inr t \<Longrightarrow> parseCanonicalJson t code = Inr (js_normal v)"
  by (simp add: parseCanonicalJson_def json_parse_canonicalJson)
    (simp add: canonicalJson_def canonicalSerialize_js_normal)

lemma parseCanonicalJson_text:
  "parseCanonicalJson t code = Inr v \<Longrightarrow> canonicalJson v = Inr t"
  by (auto simp: parseCanonicalJson_def split: option.splits)

section \<open>Fuel\<close>

lemma skip_ws_length: "length (skip_ws s) \<le> length s"
  by (simp add: skip_ws_def length_dropWhile_le)

lemma expect_char_length: "expect_char c s = Some r \<Longrightarrow> length r < length s"
  using skip_ws_length [of s]
  by (auto simp: expect_char_def split: list.splits if_splits)

lemma string_body_length: "string_body s = Some (k, r) \<Longrightarrow> length r < length s"
proof (induction s arbitrary: k r rule: string_body.induct)
  case (2 c cs)
  then show ?case
    by (auto split: if_splits list.splits option.splits) force+
qed simp

lemma read_key_length: "read_key s = Some (k, r) \<Longrightarrow> length r < length s"
  by (auto simp: read_key_def bind_eq_Some_conv dest!: expect_char_length string_body_length)

lemma read_fraction_length: "read_fraction s = Some (f, r) \<Longrightarrow> length r \<le> length s"
  by (auto simp: read_fraction_def length_dropWhile_le le_SucI split: list.splits if_splits)

lemma read_exponent_length: "read_exponent s = Some (e, r) \<Longrightarrow> length r \<le> length s"
  by (auto simp: read_exponent_def Let_def length_dropWhile_le le_SucI
      split: list.splits if_splits)

lemma read_number_length:
  assumes "read_number s = Some (v, r)"
  shows "length r < length s"
proof -
  define t where "t = (if (case s of c # _ \<Rightarrow> c = CHR ''-'' | [] \<Rightarrow> False) then tl s else s)"
  from assms have ne: "takeWhile is_digit t \<noteq> []" and le: "length r \<le> length (dropWhile is_digit t)"
    by (auto simp: read_number_def Let_def simp flip: t_def split: if_splits option.splits
        dest!: read_fraction_length read_exponent_length)
  have "length (takeWhile is_digit t) + length (dropWhile is_digit t) = length t"
    by (metis length_append takeWhile_dropWhile_id)
  moreover have "length t \<le> length s" by (simp add: t_def)
  moreover from ne have "0 < length (takeWhile is_digit t)" by simp
  ultimately show ?thesis using le by linarith
qed

lemma json_value_shorter:
  "(\<forall>s v r. json_value n s = Some (v, r) \<longrightarrow> length r < length s) \<and>
   (\<forall>s vs r. json_elements n s = Some (vs, r) \<longrightarrow> length r < length s) \<and>
   (\<forall>s kvs r. json_members n s = Some (kvs, r) \<longrightarrow> length r < length s)"
proof (induction n)
  case 0
  then show ?case by simp
next
  case (Suc n)
  then have V: "json_value n s = Some (v, r) \<Longrightarrow> length r < length s"
    and E: "json_elements n s = Some (vs, r) \<Longrightarrow> length r < length s"
    and M: "json_members n s = Some (kvs, r) \<Longrightarrow> length r < length s" for s v r vs kvs
    by blast+
  have "length r < length s" if a: "json_value (Suc n) s = Some (v, r)" for s v r
  proof -
    from a obtain c cs where c: "skip_ws s = c # cs" by (auto split: list.splits)
    then have "Suc (length cs) \<le> length s" using skip_ws_length [of s] by simp
    moreover have "length r < Suc (length cs)"
      using a unfolding json_value.simps(2) c list.case
      by (simp split: if_split_asm option.split_asm)
        (auto simp: starts_with_iff dest!: expect_char_length M E string_body_length
          dest: read_number_length)
    ultimately show ?thesis by simp
  qed
  moreover have "length r < length s" if a: "json_elements (Suc n) s = Some (vs, r)" for s vs r
  proof -
    from a obtain v r1 where "json_value n s = Some (v, r1)"
      by (auto simp: bind_eq_Some_conv)
    moreover from this a have "length r < length r1"
      by (auto split: option.split_asm dest!: expect_char_length E)
    ultimately show ?thesis using V by fastforce
  qed
  moreover have "length r < length s" if a: "json_members (Suc n) s = Some (kvs, r)" for s kvs r
  proof -
    from a obtain k u v r1 where "read_key s = Some (k, u)" "json_value n u = Some (v, r1)"
      by (auto simp: bind_eq_Some_conv)
    moreover from this a have "length r < length r1"
      by (auto split: option.split_asm dest!: expect_char_length M)
    ultimately show ?thesis using V read_key_length by fastforce
  qed
  ultimately show ?case by blast
qed

text \<open>Fuel above twice the length of the text never changes the outcome.\<close>

lemma json_elements_Suc:
  "json_elements (Suc n) s =
     (case json_value n s of
        None \<Rightarrow> None
      | Some (v, r) \<Rightarrow>
          (case expect_char (CHR '','') r of
             Some t \<Rightarrow> map_option (apfst (Cons v)) (json_elements n t)
           | None \<Rightarrow> map_option (\<lambda>t. ([v], t)) (expect_char (CHR '']'') r)))"
  by (auto split: option.split)

lemma json_members_Suc:
  "json_members (Suc n) s =
     (case read_key s of
        None \<Rightarrow> None
      | Some (k, u) \<Rightarrow>
          (case json_value n u of
             None \<Rightarrow> None
           | Some (v, r) \<Rightarrow>
               (case expect_char (CHR '','') r of
                  Some t \<Rightarrow> map_option (apfst (Cons (k, v))) (json_members n t)
                | None \<Rightarrow> map_option (\<lambda>t. ([(k, v)], t)) (expect_char (CHR ''}'') r))))"
  by (auto split: option.split)

lemma json_value_fuel_step:
  "(\<forall>s. 2 * length s < n \<longrightarrow> json_value (Suc n) s = json_value n s) \<and>
   (\<forall>s. 2 * length s + 1 < n \<longrightarrow> json_elements (Suc n) s = json_elements n s) \<and>
   (\<forall>s. 2 * length s + 1 < n \<longrightarrow> json_members (Suc n) s = json_members n s)"
proof (induction n)
  case 0
  then show ?case by simp
next
  case (Suc n)
  then have V: "2 * length s < n \<Longrightarrow> json_value (Suc n) s = json_value n s"
    and E: "2 * length s + 1 < n \<Longrightarrow> json_elements (Suc n) s = json_elements n s"
    and M: "2 * length s + 1 < n \<Longrightarrow> json_members (Suc n) s = json_members n s" for s
    by blast+
  have "json_value (Suc (Suc n)) s = json_value (Suc n) s" if len: "2 * length s < Suc n" for s
  proof (cases "skip_ws s")
    case Nil
    then show ?thesis by (simp only: json_value.simps(2) list.case)
  next
    case (Cons c cs)
    with len have "2 * length cs + 1 < n" using skip_ws_length [of s] by simp
    then show ?thesis
      by (simp only: json_value.simps(2) Cons list.case M [of cs] E [of cs])
  qed
  moreover have "json_elements (Suc (Suc n)) s = json_elements (Suc n) s"
    if len: "2 * length s + 1 < Suc n" for s
  proof (cases "json_value n s")
    case None
    then show ?thesis using V [of s] len by (simp only: json_elements_Suc) simp
  next
    case (Some p)
    obtain v r where p: "p = (v, r)" by force
    with Some have "length r < length s" using json_value_shorter [of n] by blast
    then have "2 * length t + 1 < n" if "expect_char c r = Some t" for c t
      using expect_char_length [OF that] len by simp
    then have "expect_char c r = Some t \<Longrightarrow> json_elements (Suc n) t = json_elements n t" for c t
      using E by blast
    then show ?thesis
      using Some p V [of s] len
      by (subst (1 2) json_elements_Suc) (auto simp del: json_elements.simps json_value.simps split: option.split)
  qed
  moreover have "json_members (Suc (Suc n)) s = json_members (Suc n) s"
    if len: "2 * length s + 1 < Suc n" for s
  proof (cases "read_key s")
    case None
    then show ?thesis by (simp only: json_members_Suc) simp
  next
    case (Some q)
    obtain k u where q: "q = (k, u)" by force
    with Some have lu: "length u < length s" using read_key_length by blast
    then have Vu: "json_value (Suc n) u = json_value n u" using len V by simp
    have M': "json_members (Suc n) t = json_members n t"
      if "json_value n u = Some (v, r)" "expect_char c r = Some t" for v r c t
      using json_value_shorter [of n] that expect_char_length lu len
      by (intro M) fastforce
    show ?thesis
      using Some q M'
      by (subst (1 2) json_members_Suc) (auto simp: Vu simp del: json_members.simps json_value.simps split: option.split)
  qed
  ultimately show ?case by blast
qed

theorem json_value_fuel:
  assumes "2 * length s < n"
  shows "json_value n s = json_value (Suc (2 * length s)) s"
  using assms
proof (induction n)
  case (Suc n)
  show ?case
  proof (cases "2 * length s < n")
    case True
    with Suc.IH json_value_fuel_step [of n] show ?thesis by simp
  next
    case False
    with Suc.prems show ?thesis by (simp add: less_Suc_eq)
  qed
qed simp

section \<open>Values that have a canonical text\<close>

fun js_canonical :: "jsval \<Rightarrow> bool" where
  "js_canonical (JArr vs) = list_all js_canonical vs"
| "js_canonical (JObj kvs) = list_all (\<lambda>kv. js_canonical (snd kv)) kvs"
| "js_canonical (JNum n) = isSafeInteger (JNum n)"
| "js_canonical v = (v = JNull \<or> (\<exists>b. v = JBool b) \<or> (\<exists>s. v = JStr s))"

lemma collect_total: "(\<And>x. x \<in> set xs \<Longrightarrow> \<exists>y. f x = Inr y) \<Longrightarrow> \<exists>ys. collect f xs = Inr ys"
  by (induction xs) fastforce+

lemma canonicalJson_total: "js_canonical v \<Longrightarrow> \<exists>t. canonicalJson v = Inr t"
  unfolding canonicalJson_def
proof (induction v rule: canonicalSerialize.induct)
  case (9 vs)
  then have "\<exists>ts. collect canonicalSerialize vs = Inr ts"
    by (intro collect_total) (auto simp: list_all_iff)
  then show ?case by auto
next
  case (10 kvs)
  have "\<exists>ts. collect (\<lambda>kv. andthen (canonicalSerialize (snd kv))
      (\<lambda>t. Inr (json_quote (fst kv) @ '':'' @ t))) (sort_key fst kvs) = Inr ts"
  proof (rule collect_total)
    fix kv assume "kv \<in> set (sort_key fst kvs)"
    with 10 have "\<exists>t. canonicalSerialize (snd kv) = Inr t" by (auto simp: list_all_iff)
    then show "\<exists>y. andthen (canonicalSerialize (snd kv))
        (\<lambda>t. Inr (json_quote (fst kv) @ '':'' @ t)) = Inr y" by auto
  qed
  then show ?case by auto
qed auto

lemma js_canonical_normal [simp]: "js_canonical (js_normal v) = js_canonical v"
  by (induction v rule: js_normal.induct) (auto simp: list_all_iff)

text \<open>A copy of data that holds nothing exotic is the data itself.\<close>

lemma cloneDataGraph_canonical: "js_canonical v \<Longrightarrow> cloneDataGraph code v = Inr v"
proof (induction code v rule: cloneDataGraph.induct)
  case (1 code vs)
  then have "collect (cloneDataGraph code) vs = Inr (map (\<lambda>v. v) vs)"
    by (intro collect_id) (auto simp: list_all_iff)
  then show ?case by simp
next
  case (2 code kvs)
  then have "collect (\<lambda>kv. andthen (cloneDataGraph code (snd kv)) (\<lambda>w. Inr (fst kv, w))) kvs
      = Inr (map (\<lambda>kv. kv) kvs)"
    by (intro collect_id) (auto simp: list_all_iff)
  then show ?case by simp
qed auto

lemma exactRecord_canonical:
  "js_canonical (JObj kvs) \<Longrightarrow> map fst kvs = required \<Longrightarrow>
   exactRecord (JObj kvs) required optional code = Inr kvs"
  by (auto simp: exactRecord_def cloneDataGraph_canonical has_own_def list_ex_iff rev_image_eqI
      simp del: cloneDataGraph.simps)

lemma cloneDataGraph_Inr: "cloneDataGraph code v = Inr w \<Longrightarrow> w = v"
proof (induction code v arbitrary: w rule: cloneDataGraph.induct)
  case (1 code vs)
  then obtain ws where w: "w = JArr ws" and ws: "collect (cloneDataGraph code) vs = Inr ws" by auto
  have "list_all2 (\<lambda>x y. y = x) vs ws"
    using ws 1 unfolding collect_Inr_iff by (auto intro: list.rel_mono_strong)
  then show ?case by (auto simp: w list.rel_eq dest: list_all2_lengthD intro: nth_equalityI
    simp: list_all2_conv_all_nth)
next
  case (2 code kvs)
  then obtain ws where w: "w = JObj ws" and ws: "collect (\<lambda>kv. andthen (cloneDataGraph code (snd kv))
      (\<lambda>w. Inr (fst kv, w))) kvs = Inr ws" by auto
  have "list_all2 (\<lambda>x y. y = x) kvs ws"
    using ws 2 unfolding collect_Inr_iff by (auto intro: list.rel_mono_strong simp: prod_eq_iff)
  then show ?case by (auto simp: w list_all2_conv_all_nth intro: nth_equalityI)
qed auto

text \<open>What \<^verbatim>\<open>exactRecord\<close> returns is the object it was given.\<close>

lemma exactRecord_InrD: "exactRecord v required optional code = Inr kvs \<Longrightarrow> v = JObj kvs"
  by (auto simp: exactRecord_def simp del: cloneDataGraph.simps dest!: cloneDataGraph_Inr
      split: jsval.splits if_splits)

section \<open>Stored objects\<close>

text \<open>
  The entries of an object that was written as canonical JSON and read back: same properties, keys
  sorted. A closed-schema validator sees no difference.
\<close>

definition normal_entries :: "(string \<times> jsval) list \<Rightarrow> (string \<times> jsval) list" where
  "normal_entries kvs = map (\<lambda>kv. (fst kv, js_normal (snd kv))) (sort_key fst kvs)"

lemma js_normal_JObj: "js_normal (JObj kvs) = JObj (normal_entries kvs)"
  by (simp add: normal_entries_def)

lemma map_of_normal_entries:
  assumes "distinct (map fst kvs)"
  shows "map_of (normal_entries kvs) k = map_option js_normal (map_of kvs k)"
proof -
  have "map_of (sort_key fst kvs) = map_of kvs"
    using assms by (subst map_of_inject_set) (simp_all add: distinct_map)
  moreover have "map_of (map (\<lambda>kv. (fst kv, js_normal (snd kv))) l) k
      = map_option js_normal (map_of l k)" for l
    by (induction l) auto
  ultimately show ?thesis by (simp add: normal_entries_def)
qed

lemma get_prop_normal_entries:
  "distinct (map fst kvs) \<Longrightarrow> get_prop (normal_entries kvs) k = js_normal (get_prop kvs k)"
  by (simp add: get_prop_def map_of_normal_entries split: option.split)

lemma has_own_normal_entries [simp]: "has_own (normal_entries kvs) k = has_own kvs k"
  by (simp add: has_own_def normal_entries_def image_image)

lemma exactRecord_normal:
  assumes "js_canonical (JObj kvs)" "list_all (has_own kvs) required"
    "set (map fst kvs) \<subseteq> set required \<union> set optional"
  shows "exactRecord (js_normal (JObj kvs)) required optional code = Inr (normal_entries kvs)"
proof -
  have "js_canonical (JObj (normal_entries kvs))"
    using assms(1) js_canonical_normal [of "JObj kvs"]
    by (simp add: js_normal_JObj del: js_normal.simps)
  moreover have "set (map fst (normal_entries kvs)) \<subseteq> set required \<union> set optional"
    using assms(3) by (simp add: normal_entries_def image_image)
  ultimately show ?thesis
    using assms(2)
    by (auto simp: exactRecord_def js_normal_JObj cloneDataGraph_canonical list_ex_iff list_all_iff
        simp del: cloneDataGraph.simps js_normal.simps)
qed

text \<open>Objects with one canonical text have the same properties, up to the order of keys.\<close>

lemma canonicalJson_entries:
  assumes "canonicalJson (JObj kvs) = Inr t" and "canonicalJson (JObj kvs') = Inr t"
    and "js_wf (JObj kvs)" and "js_wf (JObj kvs')"
  shows "js_normal (get_prop kvs k) = js_normal (get_prop kvs' k)"
proof -
  have "Some (js_normal (JObj kvs)) = Some (js_normal (JObj kvs'))"
    using json_parse_canonicalJson [OF assms(3,1)] json_parse_canonicalJson [OF assms(4,2)] by simp
  then have "normal_entries kvs = normal_entries kvs'"
    by (simp add: js_normal_JObj del: js_normal.simps)
  then show ?thesis
    using get_prop_normal_entries [of kvs k] get_prop_normal_entries [of kvs' k] assms(3,4) by simp
qed

end
