(* ===== verification/PolicyEngine.thy ===== *)
theory PolicyEngine
  imports JsonText
begin

text \<open>
  \<^verbatim>\<open>src/kernel/policy-engine.mjs\<close>: validation and normalisation of policy documents, spend
  intents, wallets, x402 payment requirements and budget snapshots; selection of the one payment
  option a policy admits; the spend decision; and the closed schema of a stored decision.

  Every validator takes the raw value and returns the normalised record or the thrown code, its
  checks in the order of the source. SHA-256 and the WHATWG URL parser are outside the repository
  and are fields of \<^verbatim>\<open>host\<close>.
\<close>

section \<open>The host\<close>

record url =
  u_protocol :: string
  u_username :: string
  u_password :: string
  u_host :: string
  u_pathname :: string
  u_search :: string
  u_hash :: string
  u_origin :: string
  u_href :: string

text \<open>
  \<^verbatim>\<open>h_sha256\<close> is \<^verbatim>\<open>sha256(text)\<close> with its \<^verbatim>\<open>sha256:\<close> prefix and \<^verbatim>\<open>h_sha256_bytes\<close> the same of
  a buffer, a list of its bytes; \<^verbatim>\<open>h_url\<close> is \<^verbatim>\<open>new URL(value, base)\<close>, \<^const>\<open>None\<close> when it
  throws.
\<close>

record host =
  h_sha256 :: "string \<Rightarrow> string"
  h_sha256_bytes :: "string \<Rightarrow> string"
  h_url :: "string \<Rightarrow> string option \<Rightarrow> url option"

section \<open>Scalar validators\<close>

definition BASE_SEPOLIA :: string where "BASE_SEPOLIA = ''eip155:84532''"

definition BASE_SEPOLIA_USDC :: string where
  "BASE_SEPOLIA_USDC = ''0x036cbd53842c5426634e7929541ec2318f3dcf7e''"

definition DECISIONS :: "string list" where
  "DECISIONS = [''allow'', ''approval_required'', ''deny'']"

definition PRESELECTION_DENIALS :: "string list" where
  "PRESELECTION_DENIALS =
     [''X402_VERSION'', ''SCHEME_UNSUPPORTED'', ''NETWORK_MISMATCH'', ''ASSET_MISMATCH'',
      ''WALLET_MISMATCH'', ''METHOD_UNSUPPORTED'', ''SELLER_UNTRUSTED'', ''RESOURCE_PATH'',
      ''PAYEE_MISMATCH'', ''PAYMENT_OPTIONS_AMBIGUOUS'']"

definition SELECTED_DENIALS :: "string list" where
  "SELECTED_DENIALS =
     [''CHALLENGE_EXPIRED'', ''PER_REQUEST_LIMIT'', ''SELLER_SESSION_LIMIT'', ''SESSION_LIMIT'',
      ''ROLLING_24H_LIMIT'', ''APPROVAL_CAPACITY'']"

definition hash_pattern :: "string \<Rightarrow> bool" where
  "hash_pattern s \<longleftrightarrow>
     length s = 71 \<and> take 7 s = ''sha256:'' \<and> list_all is_lower_hex (drop 7 s)"

definition address_pattern :: "string \<Rightarrow> bool" where
  "address_pattern s \<longleftrightarrow> length s = 42 \<and> take 2 s = ''0x'' \<and> list_all is_hex (drop 2 s)"

definition canonical_address_pattern :: "string \<Rightarrow> bool" where
  "canonical_address_pattern s \<longleftrightarrow>
     length s = 42 \<and> take 2 s = ''0x'' \<and> list_all is_lower_hex (drop 2 s)"

text \<open>\<^verbatim>\<open>/%(?:2f|5c)/i\<close>.\<close>

definition encoded_path_separator :: "string \<Rightarrow> bool" where
  "encoded_path_separator s \<longleftrightarrow>
     contains (to_lower s) ''%2f'' \<or> contains (to_lower s) ''%5c''"

definition boundedString :: "jsval \<Rightarrow> string \<Rightarrow> nat \<Rightarrow> string res" where
  "boundedString v code maximum =
     (case v of
        JStr s \<Rightarrow> if s = [] \<or> maximum < utf8_length s then fail code else Inr s
      | _ \<Rightarrow> fail code)"

definition canonicalAddress :: "jsval \<Rightarrow> string \<Rightarrow> string res" where
  "canonicalAddress v code =
     (case v of
        JStr s \<Rightarrow> if \<not> address_pattern s then fail code else Inr (to_lower s)
      | _ \<Rightarrow> fail code)"

definition canonicalHash :: "jsval \<Rightarrow> string \<Rightarrow> string res" where
  "canonicalHash v code =
     (case v of
        JStr s \<Rightarrow> if \<not> hash_pattern s then fail code else Inr s
      | _ \<Rightarrow> fail code)"

definition atomicText :: "jsval \<Rightarrow> string \<Rightarrow> string res" where
  "atomicText v code = rethrow_as code (canonicalAtomic v)"

definition positiveSafeInteger :: "jsval \<Rightarrow> string \<Rightarrow> int \<Rightarrow> int res" where
  "positiveSafeInteger v code maximum =
     (case v of
        JNum n \<Rightarrow> if \<not> isSafeInteger (JNum n) \<or> n < 1 \<or> maximum < n then fail code else Inr n
      | _ \<Rightarrow> fail code)"

definition nonnegativeSafeInteger :: "jsval \<Rightarrow> string \<Rightarrow> int res" where
  "nonnegativeSafeInteger v code =
     (case v of
        JNum n \<Rightarrow> if \<not> isSafeInteger (JNum n) \<or> n < 0 then fail code else Inr n
      | _ \<Rightarrow> fail code)"

text \<open>The port part \<^verbatim>\<open>(?::[1-9][0-9]{0,4})?\<close> of the loopback pattern.\<close>

fun port_pattern :: "string \<Rightarrow> bool" where
  "port_pattern [] = True"
| "port_pattern (c # cs) =
     (c = CHR '':'' \<and>
      (case cs of
         [] \<Rightarrow> False
       | d # ds \<Rightarrow> is_digit d \<and> d \<noteq> CHR ''0'' \<and> length ds \<le> 4 \<and> list_all is_digit ds))"

definition loopback_authority :: "string \<Rightarrow> bool" where
  "loopback_authority a \<longleftrightarrow>
     (starts_with a ''127.0.0.1'' \<and> port_pattern (drop 9 a))
     \<or> (starts_with a ''[::1]'' \<and> port_pattern (drop 5 a))"

definition isCanonicalLiteralLoopbackHttp :: "string \<Rightarrow> url \<Rightarrow> bool" where
  "isCanonicalLiteralLoopbackHttp value parsed \<longleftrightarrow>
     u_protocol parsed = ''http:'' \<and> starts_with value ''http://''
     \<and> (let authority = takeWhile (\<lambda>c. c \<notin> set ''/?#'') (drop 7 value) in
          loopback_authority authority \<and> u_origin parsed = ''http://'' @ authority)"

definition normalizeOrigin :: "host \<Rightarrow> jsval \<Rightarrow> string \<Rightarrow> string res" where
  "normalizeOrigin h v code =
     andthen (boundedString v code 2048) (\<lambda>value.
       case h_url h value None of
         None \<Rightarrow> fail code
       | Some parsed \<Rightarrow>
           if u_username parsed \<noteq> [] \<or> u_password parsed \<noteq> [] \<or> u_pathname parsed \<noteq> ''/''
              \<or> u_search parsed \<noteq> [] \<or> u_hash parsed \<noteq> [] \<or> u_origin parsed = ''null''
           then fail code
           else if u_protocol parsed \<noteq> ''https:'' \<and> \<not> isCanonicalLiteralLoopbackHttp value parsed
           then fail code
           else Inr (u_origin parsed))"

definition canonicalPath :: "host \<Rightarrow> jsval \<Rightarrow> string \<Rightarrow> string \<Rightarrow> string res" where
  "canonicalPath h v origin code =
     andthen (boundedString v code 2048) (\<lambda>value.
       if \<not> starts_with value ''/'' \<or> starts_with value ''//'' \<or> contains value ''?''
          \<or> contains value ''#'' \<or> contains value [bs] \<or> encoded_path_separator value
       then fail code
       else
         case h_url h value (Some (origin @ ''/'')) of
           None \<Rightarrow> fail code
         | Some parsed \<Rightarrow>
             if u_origin parsed \<noteq> origin \<or> u_pathname parsed \<noteq> value
                \<or> u_search parsed \<noteq> [] \<or> u_hash parsed \<noteq> []
             then fail code else Inr value)"

record resource_url =
  ru_href :: string
  ru_origin :: string
  ru_pathname :: string

definition canonicalResourceUrl :: "host \<Rightarrow> jsval \<Rightarrow> string \<Rightarrow> resource_url res" where
  "canonicalResourceUrl h v code =
     andthen (boundedString v code 4096) (\<lambda>value.
       case h_url h value None of
         None \<Rightarrow> fail code
       | Some parsed \<Rightarrow>
           if (u_protocol parsed \<noteq> ''https:'' \<and> \<not> isCanonicalLiteralLoopbackHttp value parsed)
              \<or> u_username parsed \<noteq> [] \<or> u_password parsed \<noteq> []
              \<or> u_search parsed \<noteq> [] \<or> u_hash parsed \<noteq> [] \<or> u_href parsed \<noteq> value
              \<or> starts_with (u_pathname parsed) ''//'' \<or> contains (u_pathname parsed) [bs]
              \<or> encoded_path_separator (u_pathname parsed)
           then fail code
           else Inr \<lparr>ru_href = value, ru_origin = u_origin parsed, ru_pathname = u_pathname parsed\<rparr>)"

definition protocol_char :: "char \<Rightarrow> bool" where
  [string_preds]: "protocol_char c \<longleftrightarrow> is_alnum c \<or> c \<in> set ''._:+-''"

fun protocol_pattern :: "string \<Rightarrow> bool" where
  "protocol_pattern [] = False"
| "protocol_pattern (c # cs) = (is_alnum c \<and> list_all protocol_char cs)"

definition protocolToken :: "jsval \<Rightarrow> string \<Rightarrow> string res" where
  "protocolToken v code =
     (case v of
        JStr s \<Rightarrow> if 200 < length s \<or> \<not> protocol_pattern s then fail code else Inr s
      | _ \<Rightarrow> fail code)"

section \<open>Policy documents\<close>

record seller =
  s_origin :: string
  s_pathPrefixes :: "string list"
  s_payTo :: string
  s_evidencePath :: string
  s_executionSigner :: string
  s_refundSigner :: string
  s_refundSource :: string
  s_perRequestMaxAtomic :: string
  s_autoApproveAtomic :: string
  s_humanApproveAtomic :: string
  s_sellerSessionMaxAtomic :: string

record policy =
  p_asset :: string
  p_wallet :: string
  p_methods :: "string list"
  p_sellers :: "seller list"
  p_sessionMaxAtomic :: string
  p_rolling24hMaxAtomic :: string
  p_challengeMaxAgeMs :: int
  p_approvalTtlMs :: int
  p_maxPendingApprovals :: int

definition p_network :: "policy \<Rightarrow> string" where
  "p_network p = BASE_SEPOLIA"

definition POLICY_FIELDS :: "string list" where
  "POLICY_FIELDS =
     [''schemaVersion'', ''network'', ''asset'', ''wallet'', ''methods'', ''sellers'',
      ''sessionMaxAtomic'', ''rolling24hMaxAtomic'', ''challengeMaxAgeMs'', ''approvalTtlMs'',
      ''maxPendingApprovals'', ''defaultAction'']"

definition SELLER_FIELDS :: "string list" where
  "SELLER_FIELDS =
     [''origin'', ''pathPrefixes'', ''payTo'', ''evidencePath'', ''executionSigner'',
      ''refundSigner'', ''refundSource'', ''perRequestMaxAtomic'', ''autoApproveAtomic'',
      ''humanApproveAtomic'', ''sellerSessionMaxAtomic'']"

definition validatePolicySeller :: "host \<Rightarrow> jsval \<Rightarrow> seller res" where
  "validatePolicySeller h value =
     andthen (exactRecord value SELLER_FIELDS [] ''POLICY_SCHEMA'') (\<lambda>seller.
     andthen (normalizeOrigin h (get_prop seller ''origin'') ''POLICY_SELLER_ORIGIN'') (\<lambda>origin.
     case get_prop seller ''pathPrefixes'' of
       JArr entries \<Rightarrow>
         if length entries < 1 \<or> 100 < length entries then fail ''POLICY_RESOURCE_PATH''
         else
           andthen (collect (\<lambda>entry. canonicalPath h entry origin ''POLICY_RESOURCE_PATH'') entries)
             (\<lambda>pathPrefixes.
           if \<not> distinct pathPrefixes then fail ''POLICY_PATH_DUPLICATE''
           else
             andthen (atomicText (get_prop seller ''perRequestMaxAtomic'') ''POLICY_ATOMIC'')
               (\<lambda>perRequest.
             andthen (atomicText (get_prop seller ''autoApproveAtomic'') ''POLICY_ATOMIC'')
               (\<lambda>automatic.
             andthen (atomicText (get_prop seller ''humanApproveAtomic'') ''POLICY_ATOMIC'')
               (\<lambda>human.
             andthen (atomicText (get_prop seller ''sellerSessionMaxAtomic'') ''POLICY_ATOMIC'')
               (\<lambda>sellerSession.
             if text_int perRequest \<le> 0 \<or> text_int sellerSession \<le> 0
                \<or> text_int human < text_int automatic \<or> text_int perRequest < text_int human
             then fail ''POLICY_LIMIT_ORDER''
             else
               andthen (canonicalAddress (get_prop seller ''payTo'') ''POLICY_ADDRESS'') (\<lambda>payTo.
               andthen (canonicalPath h (get_prop seller ''evidencePath'') origin
                          ''POLICY_EVIDENCE_PATH'') (\<lambda>evidencePath.
               andthen (canonicalAddress (get_prop seller ''executionSigner'') ''POLICY_ADDRESS'')
                 (\<lambda>executionSigner.
               andthen (canonicalAddress (get_prop seller ''refundSigner'') ''POLICY_ADDRESS'')
                 (\<lambda>refundSigner.
               andthen (canonicalAddress (get_prop seller ''refundSource'') ''POLICY_ADDRESS'')
                 (\<lambda>refundSource.
               Inr \<lparr>s_origin = origin, s_pathPrefixes = pathPrefixes, s_payTo = payTo,
                    s_evidencePath = evidencePath, s_executionSigner = executionSigner,
                    s_refundSigner = refundSigner, s_refundSource = refundSource,
                    s_perRequestMaxAtomic = perRequest, s_autoApproveAtomic = automatic,
                    s_humanApproveAtomic = human,
                    s_sellerSessionMaxAtomic = sellerSession\<rparr> ))))))))))
     | _ \<Rightarrow> fail ''POLICY_RESOURCE_PATH'' ))"

fun method_pattern :: "string \<Rightarrow> bool" where
  "method_pattern [] = False"
| "method_pattern (c # cs) =
     (is_upper c \<and> length cs \<le> 31
      \<and> list_all (\<lambda>d. is_upper d \<or> is_digit d \<or> d = CHR ''-'') cs)"

text \<open>\<^verbatim>\<open>typeof method === 'string'\<close> and the pattern.\<close>

fun method_text :: "jsval \<Rightarrow> string option" where
  "method_text (JStr s) = (if method_pattern s then Some s else None)"
| "method_text _ = None"

definition policyMethods :: "jsval \<Rightarrow> string list res" where
  "policyMethods v =
     (case v of
        JArr ms \<Rightarrow>
          if length ms < 1 \<or> 32 < length ms \<or> list_ex (\<lambda>m. method_text m = None) ms
             \<or> \<not> distinct (map (the \<circ> method_text) ms)
          then fail ''POLICY_METHODS'' else Inr (map (the \<circ> method_text) ms)
      | _ \<Rightarrow> fail ''POLICY_METHODS'')"

definition policySellers :: "host \<Rightarrow> jsval \<Rightarrow> seller list res" where
  "policySellers h v =
     (case v of
        JArr vs \<Rightarrow>
          if length vs < 1 \<or> 100 < length vs then fail ''POLICY_SELLERS''
          else
            andthen (collect (validatePolicySeller h) vs) (\<lambda>sellers.
            if \<not> distinct (map s_origin sellers) then fail ''POLICY_SELLER_DUPLICATE''
            else Inr sellers)
      | _ \<Rightarrow> fail ''POLICY_SELLERS'')"

definition validatePolicyDocument :: "host \<Rightarrow> jsval \<Rightarrow> policy res" where
  "validatePolicyDocument h document =
     andthen (exactRecord document POLICY_FIELDS [] ''POLICY_SCHEMA'') (\<lambda>policy.
     if get_prop policy ''schemaVersion'' \<noteq> JNum 1 then fail ''POLICY_SCHEMA_VERSION''
     else if get_prop policy ''network'' \<noteq> JStr BASE_SEPOLIA then fail ''POLICY_NETWORK''
     else
       andthen (canonicalAddress (get_prop policy ''asset'') ''POLICY_ADDRESS'') (\<lambda>asset.
       if asset \<noteq> BASE_SEPOLIA_USDC then fail ''POLICY_ASSET''
       else
         andthen (policyMethods (get_prop policy ''methods'')) (\<lambda>methods.
         andthen (policySellers h (get_prop policy ''sellers'')) (\<lambda>sellers.
         andthen (atomicText (get_prop policy ''sessionMaxAtomic'') ''POLICY_ATOMIC'') (\<lambda>session.
         andthen (atomicText (get_prop policy ''rolling24hMaxAtomic'') ''POLICY_ATOMIC'') (\<lambda>rolling.
         if text_int session \<le> 0 \<or> text_int rolling \<le> 0 then fail ''POLICY_LIMIT_ORDER''
         else
           andthen (positiveSafeInteger (get_prop policy ''challengeMaxAgeMs'') ''POLICY_TIME''
                      MAX_SAFE_INTEGER) (\<lambda>challengeMaxAgeMs.
           andthen (positiveSafeInteger (get_prop policy ''approvalTtlMs'') ''POLICY_TIME''
                      MAX_SAFE_INTEGER) (\<lambda>approvalTtlMs.
           andthen (positiveSafeInteger (get_prop policy ''maxPendingApprovals'')
                      ''POLICY_APPROVAL_CAPACITY'' MAX_SAFE_INTEGER) (\<lambda>maxPendingApprovals.
           if get_prop policy ''defaultAction'' \<noteq> JStr ''deny'' then fail ''POLICY_DEFAULT''
           else
             andthen (canonicalAddress (get_prop policy ''wallet'') ''POLICY_ADDRESS'') (\<lambda>wallet.
             Inr \<lparr>p_asset = asset, p_wallet = wallet, p_methods = methods, p_sellers = sellers,
                  p_sessionMaxAtomic = session, p_rolling24hMaxAtomic = rolling,
                  p_challengeMaxAgeMs = challengeMaxAgeMs, p_approvalTtlMs = approvalTtlMs,
                  p_maxPendingApprovals = maxPendingApprovals\<rparr> ))))))))))"

text \<open>The objects the validators return, as values.\<close>

definition seller_js :: "seller \<Rightarrow> jsval" where
  "seller_js s = JObj
     [(''origin'', JStr (s_origin s)),
      (''pathPrefixes'', JArr (map JStr (s_pathPrefixes s))),
      (''payTo'', JStr (s_payTo s)),
      (''evidencePath'', JStr (s_evidencePath s)),
      (''executionSigner'', JStr (s_executionSigner s)),
      (''refundSigner'', JStr (s_refundSigner s)),
      (''refundSource'', JStr (s_refundSource s)),
      (''perRequestMaxAtomic'', JStr (s_perRequestMaxAtomic s)),
      (''autoApproveAtomic'', JStr (s_autoApproveAtomic s)),
      (''humanApproveAtomic'', JStr (s_humanApproveAtomic s)),
      (''sellerSessionMaxAtomic'', JStr (s_sellerSessionMaxAtomic s))]"

definition policy_js :: "policy \<Rightarrow> jsval" where
  "policy_js p = JObj
     [(''schemaVersion'', JNum 1),
      (''network'', JStr (p_network p)),
      (''asset'', JStr (p_asset p)),
      (''wallet'', JStr (p_wallet p)),
      (''methods'', JArr (map JStr (p_methods p))),
      (''sellers'', JArr (map seller_js (p_sellers p))),
      (''sessionMaxAtomic'', JStr (p_sessionMaxAtomic p)),
      (''rolling24hMaxAtomic'', JStr (p_rolling24hMaxAtomic p)),
      (''challengeMaxAgeMs'', JNum (p_challengeMaxAgeMs p)),
      (''approvalTtlMs'', JNum (p_approvalTtlMs p)),
      (''maxPendingApprovals'', JNum (p_maxPendingApprovals p)),
      (''defaultAction'', JStr ''deny'')]"


section \<open>Decision inputs\<close>

record intent =
  i_id :: string
  i_method :: string
  i_requestUrl :: string
  i_sellerOrigin :: string
  i_resourcePath :: string
  i_walletAddress :: string

record wallet =
  w_provider :: string
  w_walletId :: string
  w_address :: string
  w_network :: string

record candidate =
  c_scheme :: string
  c_network :: string
  c_asset :: string
  c_amount :: string
  c_payTo :: string
  c_maxTimeoutSeconds :: int
  c_name :: string
  c_version :: string
  c_assetTransferMethod :: "string option"

record payment_required =
  pr_x402Version :: int
  pr_error :: "string option"
  pr_url :: string
  pr_description :: string
  pr_mimeType :: string
  pr_accepts :: "candidate list"

record policy_version =
  pv_id :: string
  pv_hash :: string

record budget_snapshot =
  b_sellerSessionExposure :: string
  b_sessionExposure :: string
  b_rolling24hExposure :: string
  b_pendingApprovalCount :: int

definition validateIntent :: "host \<Rightarrow> jsval \<Rightarrow> intent res" where
  "validateIntent h value =
     andthen (exactRecord value [''id'', ''method'', ''requestUrl'', ''sellerOrigin'',
                ''resourcePath'', ''walletAddress''] [] ''INPUT_SCHEMA'') (\<lambda>intent.
     andthen (canonicalToken (get_prop intent ''id'')) (\<lambda>id.
     case method_text (get_prop intent ''method'') of
       None \<Rightarrow> fail ''INPUT_SCHEMA''
     | Some method \<Rightarrow>
         andthen (canonicalResourceUrl h (get_prop intent ''requestUrl'') ''INPUT_SCHEMA'') (\<lambda>request.
         andthen (normalizeOrigin h (get_prop intent ''sellerOrigin'') ''INPUT_SCHEMA'')
           (\<lambda>sellerOrigin.
         andthen (canonicalPath h (get_prop intent ''resourcePath'') sellerOrigin ''INPUT_SCHEMA'')
           (\<lambda>resourcePath.
         if ru_origin request \<noteq> sellerOrigin \<or> ru_pathname request \<noteq> resourcePath
         then fail ''INPUT_SCHEMA''
         else
           andthen (canonicalAddress (get_prop intent ''walletAddress'') ''INPUT_SCHEMA'')
             (\<lambda>walletAddress.
           Inr \<lparr>i_id = id, i_method = method, i_requestUrl = ru_href request,
                i_sellerOrigin = sellerOrigin, i_resourcePath = resourcePath,
                i_walletAddress = walletAddress\<rparr> ))))))"

definition validateWallet :: "jsval \<Rightarrow> wallet res" where
  "validateWallet value =
     andthen (exactRecord value [''provider'', ''walletId'', ''address'', ''network''] []
                ''INPUT_SCHEMA'') (\<lambda>wallet.
     andthen (canonicalToken (get_prop wallet ''provider'')) (\<lambda>provider.
     andthen (canonicalToken (get_prop wallet ''walletId'')) (\<lambda>walletId.
     andthen (canonicalAddress (get_prop wallet ''address'') ''INPUT_SCHEMA'') (\<lambda>address.
     andthen (protocolToken (get_prop wallet ''network'') ''INPUT_SCHEMA'') (\<lambda>network.
     Inr \<lparr>w_provider = provider, w_walletId = walletId, w_address = address,
          w_network = network\<rparr> )))))"

text \<open>The optional \<^verbatim>\<open>assetTransferMethod\<close> of a payment requirement's \<^verbatim>\<open>extra\<close>.\<close>

definition transferMethod :: "(string \<times> jsval) list \<Rightarrow> string option res" where
  "transferMethod extra =
     (if has_own extra ''assetTransferMethod''
      then andthen (boundedString (get_prop extra ''assetTransferMethod'') ''CHALLENGE_SCHEMA'' 100)
             (\<lambda>s. Inr (Some s))
      else Inr None)"

definition canonicalAddressText :: "jsval \<Rightarrow> string option" where
  "canonicalAddressText v =
     (case v of JStr s \<Rightarrow> if canonical_address_pattern s then Some s else None | _ \<Rightarrow> None)"

definition validateCandidate :: "jsval \<Rightarrow> candidate res" where
  "validateCandidate value =
     andthen (exactRecord value [''scheme'', ''network'', ''asset'', ''amount'', ''payTo'',
                ''maxTimeoutSeconds'', ''extra''] [] ''CHALLENGE_SCHEMA'') (\<lambda>candidate.
     andthen (exactRecord (get_prop candidate ''extra'') [''name'', ''version'']
                [''assetTransferMethod''] ''CHALLENGE_SCHEMA'') (\<lambda>extra.
     andthen (atomicText (get_prop candidate ''amount'') ''CHALLENGE_AMOUNT'') (\<lambda>amount.
     if text_int amount \<le> 0 then fail ''CHALLENGE_AMOUNT''
     else
       andthen (positiveSafeInteger (get_prop candidate ''maxTimeoutSeconds'')
                  ''CHALLENGE_TIMEOUT'' 3600) (\<lambda>maxTimeoutSeconds.
       case (canonicalAddressText (get_prop candidate ''asset''),
             canonicalAddressText (get_prop candidate ''payTo'')) of
         (Some asset, Some payTo) \<Rightarrow>
           andthen (transferMethod extra) (\<lambda>assetTransferMethod.
           andthen (protocolToken (get_prop candidate ''scheme'') ''CHALLENGE_SCHEMA'') (\<lambda>scheme.
           andthen (protocolToken (get_prop candidate ''network'') ''CHALLENGE_SCHEMA'') (\<lambda>network.
           andthen (boundedString (get_prop extra ''name'') ''CHALLENGE_SCHEMA'' 100) (\<lambda>name.
           andthen (boundedString (get_prop extra ''version'') ''CHALLENGE_SCHEMA'' 100) (\<lambda>version.
           Inr \<lparr>c_scheme = scheme, c_network = network, c_asset = asset, c_amount = amount,
                c_payTo = payTo, c_maxTimeoutSeconds = maxTimeoutSeconds, c_name = name,
                c_version = version, c_assetTransferMethod = assetTransferMethod\<rparr> )))))
       | _ \<Rightarrow> fail ''CHALLENGE_SCHEMA'' ))))"

definition mime_char :: "char \<Rightarrow> bool" where
  [string_preds]: "mime_char c \<longleftrightarrow> is_alnum c \<or> c \<in> set ''!#$&^_.+-''"

fun mime_half :: "string \<Rightarrow> bool" where
  "mime_half [] = False"
| "mime_half (c # cs) = (is_alnum c \<and> list_all mime_char cs)"

definition mime_pattern :: "string \<Rightarrow> bool" where
  "mime_pattern s \<longleftrightarrow>
     mime_half (takeWhile (\<lambda>c. c \<noteq> CHR ''/'') s)
     \<and> mime_half (drop 1 (dropWhile (\<lambda>c. c \<noteq> CHR ''/'') s))"

definition positiveVersion :: "jsval \<Rightarrow> string \<Rightarrow> int res" where
  "positiveVersion v code = positiveSafeInteger v code MAX_SAFE_INTEGER"

definition mimeType :: "jsval \<Rightarrow> string \<Rightarrow> string res" where
  "mimeType v code =
     andthen (boundedString v code 200) (\<lambda>s. if \<not> mime_pattern s then fail code else Inr s)"

definition validatePaymentRequired :: "host \<Rightarrow> jsval \<Rightarrow> payment_required res" where
  "validatePaymentRequired h value =
     andthen (exactRecord value [''x402Version'', ''resource'', ''accepts''] [''error'']
                ''CHALLENGE_SCHEMA'') (\<lambda>payment.
     andthen (positiveVersion (get_prop payment ''x402Version'') ''CHALLENGE_SCHEMA'') (\<lambda>x402Version.
     andthen (if has_own payment ''error''
              then andthen (boundedString (get_prop payment ''error'') ''CHALLENGE_SCHEMA'' 2048)
                     (\<lambda>s. Inr (Some s))
              else Inr None) (\<lambda>error.
     andthen (exactRecord (get_prop payment ''resource'') [''url'', ''description'', ''mimeType''] []
                ''CHALLENGE_SCHEMA'') (\<lambda>resource.
     andthen (canonicalResourceUrl h (get_prop resource ''url'') ''CHALLENGE_RESOURCE'')
       (\<lambda>parsedResource.
     andthen (boundedString (get_prop resource ''description'') ''CHALLENGE_SCHEMA'' 1024)
       (\<lambda>description.
     andthen (mimeType (get_prop resource ''mimeType'') ''CHALLENGE_SCHEMA'') (\<lambda>mime.
     case get_prop payment ''accepts'' of
       JArr options \<Rightarrow>
         if 100 < length options then fail ''CHALLENGE_SCHEMA''
         else
           andthen (collect validateCandidate options) (\<lambda>accepts.
           Inr \<lparr>pr_x402Version = x402Version, pr_error = error, pr_url = ru_href parsedResource,
                pr_description = description, pr_mimeType = mime, pr_accepts = accepts\<rparr> )
     | _ \<Rightarrow> fail ''CHALLENGE_SCHEMA'' )))))))"

definition validatePolicyVersion :: "jsval \<Rightarrow> policy_version res" where
  "validatePolicyVersion value =
     andthen (exactRecord value [''id'', ''hash''] [] ''INPUT_SCHEMA'') (\<lambda>version.
     andthen (canonicalToken (get_prop version ''id'')) (\<lambda>id.
     andthen (canonicalHash (get_prop version ''hash'') ''POLICY_HASH_MISMATCH'') (\<lambda>hash.
     Inr \<lparr>pv_id = id, pv_hash = hash\<rparr> )))"

definition validateBudgetSnapshot :: "jsval \<Rightarrow> budget_snapshot res" where
  "validateBudgetSnapshot value =
     andthen (exactRecord value [''sellerSessionExposureAtomic'', ''sessionExposureAtomic'',
                ''rolling24hExposureAtomic'', ''pendingApprovalCount''] [] ''INPUT_SCHEMA'')
       (\<lambda>snapshot.
     andthen (atomicText (get_prop snapshot ''sellerSessionExposureAtomic'') ''BUDGET_SNAPSHOT'')
       (\<lambda>sellerSession.
     andthen (atomicText (get_prop snapshot ''sessionExposureAtomic'') ''BUDGET_SNAPSHOT'')
       (\<lambda>session.
     andthen (atomicText (get_prop snapshot ''rolling24hExposureAtomic'') ''BUDGET_SNAPSHOT'')
       (\<lambda>rolling.
     andthen (nonnegativeSafeInteger (get_prop snapshot ''pendingApprovalCount'')
                ''BUDGET_SNAPSHOT'') (\<lambda>pending.
     Inr \<lparr>b_sellerSessionExposure = sellerSession, b_sessionExposure = session,
          b_rolling24hExposure = rolling, b_pendingApprovalCount = pending\<rparr> )))))"

section \<open>The challenge projection\<close>

record projection =
  pj_x402Version :: int
  pj_urlHash :: string
  pj_description :: string
  pj_mimeType :: string
  pj_accepts :: "candidate list"

definition challengeProjection :: "host \<Rightarrow> payment_required \<Rightarrow> projection" where
  "challengeProjection h pr =
     \<lparr>pj_x402Version = pr_x402Version pr, pj_urlHash = h_sha256 h (pr_url pr),
      pj_description = pr_description pr, pj_mimeType = pr_mimeType pr,
      pj_accepts = pr_accepts pr\<rparr>"

definition candidate_js :: "candidate \<Rightarrow> jsval" where
  "candidate_js c = JObj
     [(''scheme'', JStr (c_scheme c)),
      (''network'', JStr (c_network c)),
      (''asset'', JStr (c_asset c)),
      (''amount'', JStr (c_amount c)),
      (''payTo'', JStr (c_payTo c)),
      (''maxTimeoutSeconds'', JNum (c_maxTimeoutSeconds c)),
      (''extra'', JObj
        ([(''name'', JStr (c_name c)), (''version'', JStr (c_version c))]
         @ (case c_assetTransferMethod c of
              None \<Rightarrow> []
            | Some m \<Rightarrow> [(''assetTransferMethod'', JStr m)])))]"

definition projection_js :: "projection \<Rightarrow> jsval" where
  "projection_js pj = JObj
     [(''x402Version'', JNum (pj_x402Version pj)),
      (''resource'', JObj
        [(''urlHash'', JStr (pj_urlHash pj)),
         (''description'', JStr (pj_description pj)),
         (''mimeType'', JStr (pj_mimeType pj))]),
      (''accepts'', JArr (map candidate_js (pj_accepts pj)))]"

definition projectPaymentRequired :: "host \<Rightarrow> jsval \<Rightarrow> projection res" where
  "projectPaymentRequired h value =
     andthen (validatePaymentRequired h value) (\<lambda>pr. Inr (challengeProjection h pr))"

definition validateChallengeProjection :: "jsval \<Rightarrow> projection res" where
  "validateChallengeProjection value =
     andthen (exactRecord value [''x402Version'', ''resource'', ''accepts''] []
                ''CHALLENGE_PROJECTION_SCHEMA'') (\<lambda>projection.
     andthen (positiveVersion (get_prop projection ''x402Version'') ''CHALLENGE_PROJECTION_SCHEMA'')
       (\<lambda>x402Version.
     andthen (exactRecord (get_prop projection ''resource'')
                [''urlHash'', ''description'', ''mimeType''] [] ''CHALLENGE_PROJECTION_SCHEMA'')
       (\<lambda>resource.
     andthen (canonicalHash (get_prop resource ''urlHash'') ''CHALLENGE_PROJECTION_SCHEMA'')
       (\<lambda>urlHash.
     andthen (boundedString (get_prop resource ''description'') ''CHALLENGE_PROJECTION_SCHEMA'' 1024)
       (\<lambda>description.
     andthen (mimeType (get_prop resource ''mimeType'') ''CHALLENGE_PROJECTION_SCHEMA'') (\<lambda>mime.
     case get_prop projection ''accepts'' of
       JArr options \<Rightarrow>
         if 100 < length options then fail ''CHALLENGE_PROJECTION_SCHEMA''
         else
           andthen (rethrow_as ''CHALLENGE_PROJECTION_SCHEMA'' (collect validateCandidate options))
             (\<lambda>accepts.
           Inr \<lparr>pj_x402Version = x402Version, pj_urlHash = urlHash, pj_description = description,
                pj_mimeType = mime, pj_accepts = accepts\<rparr> )
     | _ \<Rightarrow> fail ''CHALLENGE_PROJECTION_SCHEMA'' ))))))"

section \<open>Selecting a payment option\<close>

definition sellerFor :: "policy \<Rightarrow> intent \<Rightarrow> seller option" where
  "sellerFor p i = find (\<lambda>s. s_origin s = i_sellerOrigin i) (p_sellers p)"

text \<open>
  The candidates of a validated challenge are distinct objects, so \<^verbatim>\<open>accepts.indexOf(accepted)\<close>
  is the accepted candidate's position; the analysis carries each candidate with its position.
\<close>

record analysis =
  a_scheme :: "(nat \<times> candidate) list"
  a_network :: "(nat \<times> candidate) list"
  a_asset :: "(nat \<times> candidate) list"
  a_seller :: "seller option"
  a_payee :: "(nat \<times> candidate) list"

definition candidateAnalysis :: "policy \<Rightarrow> intent \<Rightarrow> payment_required \<Rightarrow> analysis" where
  "candidateAnalysis p i pr =
     (let indexed = zip [0..<length (pr_accepts pr)] (pr_accepts pr);
          scheme = filter (\<lambda>(_, c). c_scheme c = ''exact''
                     \<and> (c_assetTransferMethod c = None
                        \<or> c_assetTransferMethod c = Some ''eip3009'')) indexed;
          network = filter (\<lambda>(_, c). c_network c = p_network p) scheme;
          asset = filter (\<lambda>(_, c). c_asset c = p_asset p \<and> c_name c = ''USDC''
                     \<and> c_version c = ''2'') network;
          seller = sellerFor p i;
          payee = (case seller of
                     Some s \<Rightarrow> filter (\<lambda>(_, c). c_payTo c = s_payTo s) asset
                   | None \<Rightarrow> [])
      in \<lparr>a_scheme = scheme, a_network = network, a_asset = asset, a_seller = seller,
          a_payee = payee\<rparr>)"

record selection =
  sel_index :: nat
  sel_accepted :: candidate

definition path_admitted :: "seller \<Rightarrow> intent \<Rightarrow> bool" where
  "path_admitted s i \<longleftrightarrow> list_ex (\<lambda>prefix. starts_with (i_resourcePath i) prefix) (s_pathPrefixes s)"

text \<open>\<^const>\<open>Inl\<close> is the reason code of a failed selection.\<close>

definition selectValidatedCandidate ::
  "policy \<Rightarrow> intent \<Rightarrow> payment_required \<Rightarrow> string + selection" where
  "selectValidatedCandidate p i pr =
     (let a = candidateAnalysis p i pr in
      if pr_x402Version pr \<noteq> 2 then Inl ''X402_VERSION''
      else if a_scheme a = [] then Inl ''SCHEME_UNSUPPORTED''
      else if a_network a = [] then Inl ''NETWORK_MISMATCH''
      else if a_asset a = [] then Inl ''ASSET_MISMATCH''
      else
        case a_seller a of
          None \<Rightarrow> Inl ''SELLER_UNTRUSTED''
        | Some s \<Rightarrow>
            if \<not> path_admitted s i then Inl ''RESOURCE_PATH''
            else if pr_url pr \<noteq> i_requestUrl i then Inl ''RESOURCE_PATH''
            else if a_payee a = [] then Inl ''PAYEE_MISMATCH''
            else if 1 < length (a_payee a) then Inl ''PAYMENT_OPTIONS_AMBIGUOUS''
            else Inr \<lparr>sel_index = fst (hd (a_payee a)), sel_accepted = snd (hd (a_payee a))\<rparr>)"

definition selectExactCandidate :: "host \<Rightarrow> jsval \<Rightarrow> (string + selection) res" where
  "selectExactCandidate h value =
     andthen (exactRecord value [''policy'', ''intent'', ''paymentRequired''] [] ''INPUT_SCHEMA'')
       (\<lambda>input.
     andthen (validatePolicyDocument h (get_prop input ''policy'')) (\<lambda>p.
     andthen (validateIntent h (get_prop input ''intent'')) (\<lambda>i.
     andthen (validatePaymentRequired h (get_prop input ''paymentRequired'')) (\<lambda>pr.
     Inr (selectValidatedCandidate p i pr) ))))"

section \<open>The decision\<close>

record evaluation =
  e_decision :: string
  e_reasonCode :: string
  e_policyHash :: string
  e_challengeHash :: string
  e_quoteId :: "string option"
  e_amountCeilingAtomic :: string
  e_acceptedIndex :: "int option"

text \<open>\<^verbatim>\<open>sha256(canonicalJson({ challengeHash, acceptedIndex }))\<close>.\<close>

definition quoteIdOf :: "host \<Rightarrow> string \<Rightarrow> int \<Rightarrow> string res" where
  "quoteIdOf h challengeHash acceptedIndex =
     andthen (canonicalJson (JObj [(''challengeHash'', JStr challengeHash),
                                   (''acceptedIndex'', JNum acceptedIndex)]))
       (\<lambda>t. Inr (h_sha256 h t))"

definition policy_decision ::
  "host \<Rightarrow> string \<Rightarrow> string \<Rightarrow> string \<Rightarrow> string \<Rightarrow> selection option \<Rightarrow> evaluation res" where
  "policy_decision h outcome reasonCode policyHash challengeHash selection =
     (if outcome \<notin> set DECISIONS then fail ''DECISION_SCHEMA''
      else
        case selection of
          None \<Rightarrow>
            Inr \<lparr>e_decision = outcome, e_reasonCode = reasonCode, e_policyHash = policyHash,
                 e_challengeHash = challengeHash, e_quoteId = None,
                 e_amountCeilingAtomic = ''0'', e_acceptedIndex = None\<rparr>
        | Some sel \<Rightarrow>
            andthen (quoteIdOf h challengeHash (int (sel_index sel))) (\<lambda>quoteId.
            Inr \<lparr>e_decision = outcome, e_reasonCode = reasonCode, e_policyHash = policyHash,
                 e_challengeHash = challengeHash, e_quoteId = Some quoteId,
                 e_amountCeilingAtomic = c_amount (sel_accepted sel),
                 e_acceptedIndex = Some (int (sel_index sel))\<rparr>))"

definition INPUT_FIELDS :: "string list" where
  "INPUT_FIELDS =
     [''policy'', ''policyVersion'', ''intent'', ''wallet'', ''paymentRequired'',
      ''challengeReceivedAtMs'', ''nowMs'', ''budgetSnapshot'']"

text \<open>
  The part of \<^verbatim>\<open>evaluateSpendPolicy\<close> after the input has been validated: first the checks that
  need no selected option.
\<close>

definition preselection ::
  "policy \<Rightarrow> intent \<Rightarrow> wallet \<Rightarrow> payment_required \<Rightarrow> string + seller \<times> selection" where
  "preselection p i w pr =
     (let a = candidateAnalysis p i pr in
      if pr_x402Version pr \<noteq> 2 then Inl ''X402_VERSION''
      else if a_scheme a = [] then Inl ''SCHEME_UNSUPPORTED''
      else if a_network a = [] \<or> w_network w \<noteq> p_network p then Inl ''NETWORK_MISMATCH''
      else if a_asset a = [] then Inl ''ASSET_MISMATCH''
      else if i_walletAddress i \<noteq> p_wallet p \<or> w_address w \<noteq> p_wallet p
      then Inl ''WALLET_MISMATCH''
      else if i_method i \<notin> set (p_methods p) then Inl ''METHOD_UNSUPPORTED''
      else
        case a_seller a of
          None \<Rightarrow> Inl ''SELLER_UNTRUSTED''
        | Some s \<Rightarrow>
            if \<not> path_admitted s i \<or> pr_url pr \<noteq> i_requestUrl i then Inl ''RESOURCE_PATH''
            else if a_payee a = [] then Inl ''PAYEE_MISMATCH''
            else if 1 < length (a_payee a) then Inl ''PAYMENT_OPTIONS_AMBIGUOUS''
            else Inr (s, \<lparr>sel_index = fst (hd (a_payee a)),
                          sel_accepted = snd (hd (a_payee a))\<rparr>))"

text \<open>Then the checks on the selected amount, and the outcome with its reason.\<close>

definition selected_outcome ::
  "policy \<Rightarrow> seller \<Rightarrow> candidate \<Rightarrow> budget_snapshot \<Rightarrow> int \<Rightarrow> int \<Rightarrow> string \<times> string" where
  "selected_outcome p s c b receivedAt now =
     (let amount = text_int (c_amount c) in
      if p_challengeMaxAgeMs p < now - receivedAt then (''deny'', ''CHALLENGE_EXPIRED'')
      else if text_int (s_perRequestMaxAtomic s) < amount
              \<or> text_int (s_humanApproveAtomic s) < amount
      then (''deny'', ''PER_REQUEST_LIMIT'')
      else if text_int (s_sellerSessionMaxAtomic s) < text_int (b_sellerSessionExposure b) + amount
      then (''deny'', ''SELLER_SESSION_LIMIT'')
      else if text_int (p_sessionMaxAtomic p) < text_int (b_sessionExposure b) + amount
      then (''deny'', ''SESSION_LIMIT'')
      else if text_int (p_rolling24hMaxAtomic p) < text_int (b_rolling24hExposure b) + amount
      then (''deny'', ''ROLLING_24H_LIMIT'')
      else if text_int (s_autoApproveAtomic s) < amount
              \<and> p_maxPendingApprovals p \<le> b_pendingApprovalCount b
      then (''deny'', ''APPROVAL_CAPACITY'')
      else if amount \<le> text_int (s_autoApproveAtomic s) then (''allow'', ''WITHIN_AUTO_LIMIT'')
      else (''approval_required'', ''HUMAN_APPROVAL_REQUIRED''))"

definition decideValidated ::
  "host \<Rightarrow> policy \<Rightarrow> string \<Rightarrow> string \<Rightarrow> intent \<Rightarrow> wallet \<Rightarrow> payment_required \<Rightarrow> budget_snapshot
   \<Rightarrow> int \<Rightarrow> int \<Rightarrow> evaluation res" where
  "decideValidated h p policyHash challengeHash i w pr b receivedAt now =
     (case preselection p i w pr of
        Inl reason \<Rightarrow> policy_decision h ''deny'' reason policyHash challengeHash None
      | Inr (s, sel) \<Rightarrow>
          (case selected_outcome p s (sel_accepted sel) b receivedAt now of
             (outcome, reason) \<Rightarrow>
               policy_decision h outcome reason policyHash challengeHash (Some sel)))"

definition policyHashOf :: "host \<Rightarrow> policy \<Rightarrow> string res" where
  "policyHashOf h p = andthen (canonicalJson (policy_js p)) (\<lambda>t. Inr (h_sha256 h t))"

definition challengeHashOf :: "host \<Rightarrow> payment_required \<Rightarrow> string res" where
  "challengeHashOf h pr =
     andthen (canonicalJson (projection_js (challengeProjection h pr))) (\<lambda>t. Inr (h_sha256 h t))"

text \<open>The validated input of \<^verbatim>\<open>evaluateSpendPolicy\<close>.\<close>

record spend_input =
  in_policy :: policy
  in_policyVersion :: policy_version
  in_intent :: intent
  in_wallet :: wallet
  in_paymentRequired :: payment_required
  in_budget :: budget_snapshot
  in_receivedAt :: int
  in_now :: int

definition validateSpendInput :: "host \<Rightarrow> jsval \<Rightarrow> spend_input res" where
  "validateSpendInput h value =
     andthen (exactRecord value INPUT_FIELDS [] ''INPUT_SCHEMA'') (\<lambda>input.
     andthen (validatePolicyDocument h (get_prop input ''policy'')) (\<lambda>p.
     andthen (validatePolicyVersion (get_prop input ''policyVersion'')) (\<lambda>version.
     andthen (validateIntent h (get_prop input ''intent'')) (\<lambda>i.
     andthen (validateWallet (get_prop input ''wallet'')) (\<lambda>w.
     andthen (validatePaymentRequired h (get_prop input ''paymentRequired'')) (\<lambda>pr.
     andthen (validateBudgetSnapshot (get_prop input ''budgetSnapshot'')) (\<lambda>b.
     andthen (nonnegativeSafeInteger (get_prop input ''challengeReceivedAtMs'') ''CHALLENGE_TIME'')
       (\<lambda>receivedAt.
     andthen (nonnegativeSafeInteger (get_prop input ''nowMs'') ''CHALLENGE_TIME'') (\<lambda>now.
     if now < receivedAt then fail ''CHALLENGE_TIME''
     else
       Inr \<lparr>in_policy = p, in_policyVersion = version, in_intent = i, in_wallet = w,
            in_paymentRequired = pr, in_budget = b, in_receivedAt = receivedAt,
            in_now = now\<rparr> )))))))))"

definition evaluateSpendPolicy :: "host \<Rightarrow> jsval \<Rightarrow> evaluation res" where
  "evaluateSpendPolicy h value =
     andthen (validateSpendInput h value) (\<lambda>inp.
     andthen (policyHashOf h (in_policy inp)) (\<lambda>policyHash.
     if pv_hash (in_policyVersion inp) \<noteq> policyHash then fail ''POLICY_HASH_MISMATCH''
     else
       andthen (challengeHashOf h (in_paymentRequired inp)) (\<lambda>challengeHash.
       decideValidated h (in_policy inp) policyHash challengeHash (in_intent inp) (in_wallet inp)
         (in_paymentRequired inp) (in_budget inp) (in_receivedAt inp) (in_now inp))))"

section \<open>Stored decisions\<close>

definition option_js :: "('a \<Rightarrow> jsval) \<Rightarrow> 'a option \<Rightarrow> jsval" where
  "option_js f x = (case x of None \<Rightarrow> JNull | Some y \<Rightarrow> f y)"

definition evaluation_js :: "evaluation \<Rightarrow> jsval" where
  "evaluation_js e = JObj
     [(''decision'', JStr (e_decision e)),
      (''reasonCode'', JStr (e_reasonCode e)),
      (''policyHash'', JStr (e_policyHash e)),
      (''challengeHash'', JStr (e_challengeHash e)),
      (''quoteId'', option_js JStr (e_quoteId e)),
      (''amountCeilingAtomic'', JStr (e_amountCeilingAtomic e)),
      (''acceptedIndex'', option_js JNum (e_acceptedIndex e))]"

definition reasonMatchesDecision :: "string \<Rightarrow> string \<Rightarrow> bool" where
  "reasonMatchesDecision outcome reason \<longleftrightarrow>
     (outcome = ''allow'' \<and> reason = ''WITHIN_AUTO_LIMIT'')
     \<or> (outcome = ''approval_required'' \<and> reason = ''HUMAN_APPROVAL_REQUIRED'')
     \<or> (outcome = ''deny'' \<and> reason \<in> set SELECTED_DENIALS)"

definition validatePolicyEvaluation :: "host \<Rightarrow> jsval \<Rightarrow> evaluation res" where
  "validatePolicyEvaluation h value =
     andthen (exactRecord value [''decision'', ''reasonCode'', ''policyHash'', ''challengeHash'',
                ''quoteId'', ''amountCeilingAtomic'', ''acceptedIndex''] []
                ''POLICY_DECISION_SCHEMA'') (\<lambda>ev.
     case get_prop ev ''decision'' of
       JStr outcome \<Rightarrow>
         if outcome \<notin> set DECISIONS then fail ''POLICY_DECISION_SCHEMA''
         else
           andthen (canonicalToken (get_prop ev ''reasonCode'')) (\<lambda>reason.
           andthen (canonicalHash (get_prop ev ''policyHash'') ''POLICY_DECISION_SCHEMA'')
             (\<lambda>policyHash.
           andthen (canonicalHash (get_prop ev ''challengeHash'') ''POLICY_DECISION_SCHEMA'')
             (\<lambda>challengeHash.
           andthen (atomicText (get_prop ev ''amountCeilingAtomic'') ''POLICY_DECISION_SCHEMA'')
             (\<lambda>amount.
           if get_prop ev ''acceptedIndex'' = JNull then
             if get_prop ev ''quoteId'' \<noteq> JNull \<or> text_int amount \<noteq> 0 \<or> outcome \<noteq> ''deny''
                \<or> reason \<notin> set PRESELECTION_DENIALS
             then fail ''POLICY_DECISION_SCHEMA''
             else
               Inr \<lparr>e_decision = outcome, e_reasonCode = reason, e_policyHash = policyHash,
                    e_challengeHash = challengeHash, e_quoteId = None,
                    e_amountCeilingAtomic = amount, e_acceptedIndex = None\<rparr>
           else
             andthen (nonnegativeSafeInteger (get_prop ev ''acceptedIndex'')
                        ''POLICY_DECISION_SCHEMA'') (\<lambda>index.
             if text_int amount \<le> 0 then fail ''POLICY_DECISION_SCHEMA''
             else
               andthen (quoteIdOf h challengeHash index) (\<lambda>expectedQuote.
               if get_prop ev ''quoteId'' \<noteq> JStr expectedQuote then fail ''POLICY_DECISION_SCHEMA''
               else if \<not> reasonMatchesDecision outcome reason
               then fail ''POLICY_DECISION_SCHEMA''
               else
                 Inr \<lparr>e_decision = outcome, e_reasonCode = reason, e_policyHash = policyHash,
                      e_challengeHash = challengeHash, e_quoteId = Some expectedQuote,
                      e_amountCeilingAtomic = amount, e_acceptedIndex = Some index\<rparr> ))))))
     | _ \<Rightarrow> fail ''POLICY_DECISION_SCHEMA'')"

end
