(* ===== verification/PolicyFacts.thy ===== *)
theory PolicyFacts
  imports PolicyEngine
begin

text \<open>
  What the decision of \<^verbatim>\<open>policy-engine.mjs\<close> means: the selected payment option is the only
  one the policy admits, an \<^verbatim>\<open>allow\<close> or \<^verbatim>\<open>approval_required\<close> outcome is characterised by
  the option, wallet, seller, path, age and budget conditions, and normalised policies, projections
  and evaluations pass their own validators again, also after being stored as canonical JSON.
\<close>

section \<open>The selected option\<close>

text \<open>A payment requirement the policy admits for a seller.\<close>

definition option_matches :: "policy \<Rightarrow> seller \<Rightarrow> candidate \<Rightarrow> bool" where
  "option_matches p s c \<longleftrightarrow>
     c_scheme c = ''exact''
     \<and> (c_assetTransferMethod c = None \<or> c_assetTransferMethod c = Some ''eip3009'')
     \<and> c_network c = p_network p \<and> c_asset c = p_asset p \<and> c_name c = ''USDC''
     \<and> c_version c = ''2'' \<and> c_payTo c = s_payTo s"

lemma filter_indexed:
  "filter (\<lambda>(_, c). P c) (zip [0..<length xs] xs)
     = map (\<lambda>k. (k, xs ! k)) (filter (\<lambda>k. P (xs ! k)) [0..<length xs])"
proof -
  have "zip [0..<length xs] xs = map (\<lambda>k. (k, xs ! k)) [0..<length xs]"
    by (auto intro!: nth_equalityI)
  then show ?thesis by (simp add: filter_map o_def)
qed

lemma filter_upt_single:
  "filter P [0..<n] = [k] \<longleftrightarrow> k < n \<and> (\<forall>j < n. P j \<longleftrightarrow> j = k)"
proof
  assume f: "filter P [0..<n] = [k]"
  then have "set (filter P [0..<n]) = {k}" by simp
  then show "k < n \<and> (\<forall>j < n. P j \<longleftrightarrow> j = k)" by auto
next
  assume k: "k < n \<and> (\<forall>j < n. P j \<longleftrightarrow> j = k)"
  then have "filter P [0..<n] = filter (\<lambda>j. j = k) [0..<n]" by (auto intro: filter_cong)
  also have "\<dots> = [k]" using k by (induction n) auto
  finally show "filter P [0..<n] = [k]" .
qed

lemma a_payee_analysis:
  "sellerFor p i = Some s \<Longrightarrow>
   a_payee (candidateAnalysis p i pr)
     = filter (\<lambda>(_, c). option_matches p s c) (zip [0..<length (pr_accepts pr)] (pr_accepts pr))"
  by (simp add: candidateAnalysis_def Let_def case_prod_unfold option_matches_def conj_ac)

lemma a_seller_analysis [simp]: "a_seller (candidateAnalysis p i pr) = sellerFor p i"
  by (simp add: candidateAnalysis_def Let_def)

lemma analysis_stages:
  "a_scheme (candidateAnalysis p i pr) = [] \<Longrightarrow> a_network (candidateAnalysis p i pr) = []"
  "a_network (candidateAnalysis p i pr) = [] \<Longrightarrow> a_asset (candidateAnalysis p i pr) = []"
  "a_asset (candidateAnalysis p i pr) = [] \<Longrightarrow> a_payee (candidateAnalysis p i pr) = []"
  by (simp_all add: candidateAnalysis_def Let_def del: filter_filter split: option.splits)

lemma payee_nonempty_stages:
  assumes "a_payee (candidateAnalysis p i pr) \<noteq> []"
  shows "a_asset (candidateAnalysis p i pr) \<noteq> []" "a_network (candidateAnalysis p i pr) \<noteq> []"
    "a_scheme (candidateAnalysis p i pr) \<noteq> []"
  using assms analysis_stages by blast+

text \<open>Option \<^verbatim>\<open>k\<close> is admitted, and no other is.\<close>

definition only_option :: "policy \<Rightarrow> seller \<Rightarrow> payment_required \<Rightarrow> nat \<Rightarrow> bool" where
  "only_option p s pr k \<longleftrightarrow>
     k < length (pr_accepts pr)
     \<and> list_all (\<lambda>j. option_matches p s (pr_accepts pr ! j) = (j = k)) [0..<length (pr_accepts pr)]"

lemma only_option_unique: "only_option p s pr k \<Longrightarrow> only_option p s pr l \<Longrightarrow> k = l"
  by (auto simp: only_option_def list_all_iff)

lemma only_option_payee:
  assumes "sellerFor p i = Some s"
  shows "only_option p s pr k \<longleftrightarrow>
    a_payee (candidateAnalysis p i pr) = [(k, pr_accepts pr ! k)]"
proof -
  have "map (\<lambda>k. (k, pr_accepts pr ! k)) ks = [(k, pr_accepts pr ! k)] \<longleftrightarrow> ks = [k]" for ks
    by auto
  then show ?thesis
    by (auto simp: a_payee_analysis [OF assms] filter_indexed filter_upt_single only_option_def
        list_all_iff)
qed

lemma payee_cases:
  assumes "sellerFor p i = Some s" "a_payee (candidateAnalysis p i pr) \<noteq> []"
    "\<not> 1 < length (a_payee (candidateAnalysis p i pr))"
  obtains k where "only_option p s pr k"
    "a_payee (candidateAnalysis p i pr) = [(k, pr_accepts pr ! k)]"
proof -
  obtain k c where kc: "a_payee (candidateAnalysis p i pr) = [(k, c)]"
    using assms(2,3) by (cases "a_payee (candidateAnalysis p i pr)") auto
  then have "(k, c) \<in> set (a_payee (candidateAnalysis p i pr))" by simp
  then have "c = pr_accepts pr ! k"
    by (auto simp: a_payee_analysis [OF assms(1)] filter_indexed)
  with kc show thesis using that [of k] only_option_payee [OF assms(1)] by simp
qed

text \<open>Everything the checks before the budget require.\<close>

definition admissible ::
  "policy \<Rightarrow> intent \<Rightarrow> wallet \<Rightarrow> payment_required \<Rightarrow> seller \<Rightarrow> nat \<Rightarrow> bool" where
  "admissible p i w pr s k \<longleftrightarrow>
     pr_x402Version pr = 2 \<and> w_network w = p_network p
     \<and> i_walletAddress i = p_wallet p \<and> w_address w = p_wallet p
     \<and> i_method i \<in> set (p_methods p) \<and> sellerFor p i = Some s \<and> path_admitted s i
     \<and> pr_url pr = i_requestUrl i \<and> only_option p s pr k"

lemma preselection_Inr_iff:
  "preselection p i w pr = Inr (s, sel) \<longleftrightarrow>
     admissible p i w pr s (sel_index sel) \<and> sel_accepted sel = pr_accepts pr ! sel_index sel"
proof
  assume pre: "preselection p i w pr = Inr (s, sel)"
  then have s: "sellerFor p i = Some s"
    by (auto simp: preselection_def Let_def split: if_splits option.splits)
  with pre have one: "a_payee (candidateAnalysis p i pr) \<noteq> []"
    "\<not> 1 < length (a_payee (candidateAnalysis p i pr))"
    by (simp_all add: preselection_def Let_def split: if_splits)
  obtain k where k: "only_option p s pr k"
    "a_payee (candidateAnalysis p i pr) = [(k, pr_accepts pr ! k)]"
    using payee_cases [OF s one] by metis
  from pre s k(2) have "sel = \<lparr>sel_index = k, sel_accepted = pr_accepts pr ! k\<rparr>"
    by (simp add: preselection_def Let_def split: if_splits)
  with pre s k show "admissible p i w pr s (sel_index sel)
      \<and> sel_accepted sel = pr_accepts pr ! sel_index sel"
    by (simp add: preselection_def admissible_def Let_def split: if_splits)
next
  assume "admissible p i w pr s (sel_index sel) \<and> sel_accepted sel = pr_accepts pr ! sel_index sel"
  then have ad: "admissible p i w pr s (sel_index sel)"
    and acc: "sel_accepted sel = pr_accepts pr ! sel_index sel" by simp_all
  then have s: "sellerFor p i = Some s" and one: "only_option p s pr (sel_index sel)"
    by (simp_all add: admissible_def)
  then have payee: "a_payee (candidateAnalysis p i pr)
      = [(sel_index sel, pr_accepts pr ! sel_index sel)]"
    by (simp add: only_option_payee)
  then have "a_asset (candidateAnalysis p i pr) \<noteq> []" "a_network (candidateAnalysis p i pr) \<noteq> []"
    "a_scheme (candidateAnalysis p i pr) \<noteq> []"
    using payee_nonempty_stages [of p i pr] by simp_all
  with ad acc payee s show "preselection p i w pr = Inr (s, sel)"
    by (simp add: preselection_def admissible_def Let_def)
qed

lemma preselection_Inl: "preselection p i w pr = Inl r \<Longrightarrow> r \<in> set PRESELECTION_DENIALS"
  by (auto simp: preselection_def PRESELECTION_DENIALS_def Let_def split: if_splits option.splits)

section \<open>The outcome on the selected amount\<close>

definition within_limits ::
  "policy \<Rightarrow> seller \<Rightarrow> candidate \<Rightarrow> budget_snapshot \<Rightarrow> int \<Rightarrow> int \<Rightarrow> bool" where
  "within_limits p s c b receivedAt now \<longleftrightarrow>
     now - receivedAt \<le> p_challengeMaxAgeMs p
     \<and> text_int (c_amount c) \<le> text_int (s_perRequestMaxAtomic s)
     \<and> text_int (c_amount c) \<le> text_int (s_humanApproveAtomic s)
     \<and> text_int (b_sellerSessionExposure b) + text_int (c_amount c)
         \<le> text_int (s_sellerSessionMaxAtomic s)
     \<and> text_int (b_sessionExposure b) + text_int (c_amount c) \<le> text_int (p_sessionMaxAtomic p)
     \<and> text_int (b_rolling24hExposure b) + text_int (c_amount c)
         \<le> text_int (p_rolling24hMaxAtomic p)"

lemma selected_outcome_allow:
  "fst (selected_outcome p s c b r n) = ''allow'' \<longleftrightarrow>
     within_limits p s c b r n \<and> text_int (c_amount c) \<le> text_int (s_autoApproveAtomic s)"
  by (auto simp: selected_outcome_def within_limits_def Let_def)

lemma selected_outcome_approval:
  "fst (selected_outcome p s c b r n) = ''approval_required'' \<longleftrightarrow>
     within_limits p s c b r n \<and> text_int (s_autoApproveAtomic s) < text_int (c_amount c)
     \<and> b_pendingApprovalCount b < p_maxPendingApprovals p"
  by (auto simp: selected_outcome_def within_limits_def Let_def)

lemma selected_outcome_matches:
  "case selected_outcome p s c b r n of (outcome, reason) \<Rightarrow>
     outcome \<in> set DECISIONS \<and> reasonMatchesDecision outcome reason"
  by (auto simp: selected_outcome_def reasonMatchesDecision_def SELECTED_DENIALS_def DECISIONS_def
      Let_def)

section \<open>Validated inputs\<close>

lemma positiveSafeInteger_Inr:
  "positiveSafeInteger v code m = Inr n \<longleftrightarrow> v = JNum n \<and> n \<le> MAX_SAFE_INTEGER \<and> 1 \<le> n \<and> n \<le> m"
  by (auto simp: positiveSafeInteger_def split: jsval.splits)

lemma nonnegativeSafeInteger_Inr:
  "nonnegativeSafeInteger v code = Inr n \<longleftrightarrow> v = JNum n \<and> n \<le> MAX_SAFE_INTEGER \<and> 0 \<le> n"
  by (auto simp: nonnegativeSafeInteger_def split: jsval.splits)

lemma atomicText_Inr: "atomicText v code = Inr s \<longleftrightarrow> v = JStr s \<and> decimal_pattern s"
  by (auto simp: atomicText_def canonicalAtomic_def split: jsval.splits)

lemma boundedString_Inr:
  "boundedString v code m = Inr s \<longleftrightarrow> v = JStr s \<and> s \<noteq> [] \<and> utf8_length s \<le> m"
  by (auto simp: boundedString_def split: jsval.splits)

lemma canonicalHash_Inr: "canonicalHash v code = Inr s \<longleftrightarrow> v = JStr s \<and> hash_pattern s"
  by (auto simp: canonicalHash_def split: jsval.splits)

lemma protocolToken_Inr:
  "protocolToken v code = Inr s \<longleftrightarrow> v = JStr s \<and> length s \<le> 200 \<and> protocol_pattern s"
  by (auto simp: protocolToken_def split: jsval.splits)

lemma mimeType_Inr:
  "mimeType v code = Inr s \<longleftrightarrow> v = JStr s \<and> s \<noteq> [] \<and> utf8_length s \<le> 200 \<and> mime_pattern s"
  by (auto simp: mimeType_def boundedString_Inr andthen_Inr_iff)

lemma canonicalToken_Inr:
  "canonicalToken v = Inr s \<longleftrightarrow> v = JStr s \<and> length s \<le> 200 \<and> token_pattern s"
  by (auto simp: canonicalToken_def canonicalTokenMax_def MAX_SAFE_INTEGER_def split: jsval.splits)

lemma canonicalAddressText_Some:
  "canonicalAddressText v = Some s \<longleftrightarrow> v = JStr s \<and> canonical_address_pattern s"
  by (auto simp: canonicalAddressText_def split: jsval.splits)

lemmas scalar_Inr = positiveSafeInteger_Inr nonnegativeSafeInteger_Inr atomicText_Inr
  boundedString_Inr canonicalHash_Inr protocolToken_Inr mimeType_Inr canonicalToken_Inr
  canonicalAddressText_Some

text \<open>A payment requirement that passed \<^const>\<open>validateCandidate\<close>.\<close>

definition candidate_ok :: "candidate \<Rightarrow> bool" where
  "candidate_ok c \<longleftrightarrow>
     length (c_scheme c) \<le> 200 \<and> protocol_pattern (c_scheme c)
     \<and> length (c_network c) \<le> 200 \<and> protocol_pattern (c_network c)
     \<and> canonical_address_pattern (c_asset c) \<and> canonical_address_pattern (c_payTo c)
     \<and> decimal_pattern (c_amount c) \<and> 0 < text_int (c_amount c)
     \<and> 1 \<le> c_maxTimeoutSeconds c \<and> c_maxTimeoutSeconds c \<le> 3600
     \<and> c_name c \<noteq> [] \<and> utf8_length (c_name c) \<le> 100
     \<and> c_version c \<noteq> [] \<and> utf8_length (c_version c) \<le> 100
     \<and> (case c_assetTransferMethod c of None \<Rightarrow> True
        | Some m \<Rightarrow> m \<noteq> [] \<and> utf8_length m \<le> 100)"

lemma transferMethod_Inr:
  "transferMethod extra = Inr m \<Longrightarrow>
   (case m of None \<Rightarrow> True | Some t \<Rightarrow> t \<noteq> [] \<and> utf8_length t \<le> 100)"
  by (auto simp: transferMethod_def boundedString_Inr andthen_Inr_iff split: if_splits)

lemma validateCandidate_ok:
  assumes "validateCandidate v = Inr c" shows "candidate_ok c"
proof -
  from assms obtain kvs extra amount timeout asset payTo m scheme network name version where
    "atomicText (get_prop kvs ''amount'') ''CHALLENGE_AMOUNT'' = Inr amount" "\<not> text_int amount \<le> 0"
    "positiveSafeInteger (get_prop kvs ''maxTimeoutSeconds'') ''CHALLENGE_TIMEOUT'' 3600 = Inr timeout"
    "canonicalAddressText (get_prop kvs ''asset'') = Some asset"
    "canonicalAddressText (get_prop kvs ''payTo'') = Some payTo"
    "transferMethod extra = Inr m"
    "protocolToken (get_prop kvs ''scheme'') ''CHALLENGE_SCHEMA'' = Inr scheme"
    "protocolToken (get_prop kvs ''network'') ''CHALLENGE_SCHEMA'' = Inr network"
    "boundedString (get_prop extra ''name'') ''CHALLENGE_SCHEMA'' 100 = Inr name"
    "boundedString (get_prop extra ''version'') ''CHALLENGE_SCHEMA'' 100 = Inr version"
    "c = \<lparr>c_scheme = scheme, c_network = network, c_asset = asset, c_amount = amount,
          c_payTo = payTo, c_maxTimeoutSeconds = timeout, c_name = name, c_version = version,
          c_assetTransferMethod = m\<rparr>"
    unfolding validateCandidate_def by (auto split: option.splits)
  then show ?thesis
    by (simp add: candidate_ok_def scalar_Inr transferMethod_Inr)
qed

definition payment_ok :: "payment_required \<Rightarrow> bool" where
  "payment_ok pr \<longleftrightarrow>
     1 \<le> pr_x402Version pr \<and> pr_x402Version pr \<le> MAX_SAFE_INTEGER
     \<and> pr_description pr \<noteq> [] \<and> utf8_length (pr_description pr) \<le> 1024
     \<and> pr_mimeType pr \<noteq> [] \<and> utf8_length (pr_mimeType pr) \<le> 200 \<and> mime_pattern (pr_mimeType pr)
     \<and> length (pr_accepts pr) \<le> 100 \<and> list_all candidate_ok (pr_accepts pr)"

lemma collect_candidates_ok:
  "collect validateCandidate vs = Inr cs \<Longrightarrow> list_all candidate_ok cs"
  by (auto simp: list_all_iff dest!: collect_mem validateCandidate_ok)

lemma validatePaymentRequired_ok:
  assumes "validatePaymentRequired h v = Inr pr" shows "payment_ok pr"
proof -
  from assms obtain vs where
    "collect validateCandidate vs = Inr (pr_accepts pr)" "\<not> 100 < length vs"
    "1 \<le> pr_x402Version pr" "pr_x402Version pr \<le> MAX_SAFE_INTEGER"
    "pr_description pr \<noteq> []" "utf8_length (pr_description pr) \<le> 1024"
    "pr_mimeType pr \<noteq> []" "utf8_length (pr_mimeType pr) \<le> 200" "mime_pattern (pr_mimeType pr)"
    by (auto simp: validatePaymentRequired_def positiveVersion_def scalar_Inr split: jsval.splits)
  then show ?thesis
    by (auto simp: payment_ok_def dest: collect_length collect_candidates_ok)
qed

lemma js_canonical_candidate: "candidate_ok c \<Longrightarrow> js_canonical (candidate_js c)"
  by (auto simp: candidate_js_def candidate_ok_def MAX_SAFE_INTEGER_def split: option.splits)

lemma challengeHashOf_total: "payment_ok pr \<Longrightarrow> \<exists>ch. challengeHashOf h pr = Inr ch"
proof -
  assume "payment_ok pr"
  then have "js_canonical (projection_js (challengeProjection h pr))"
    by (auto simp: projection_js_def challengeProjection_def payment_ok_def list_all_iff
        js_canonical_candidate)
  from canonicalJson_total [OF this] show ?thesis by (auto simp: challengeHashOf_def)
qed

lemma validateSpendInput_Inr:
  assumes "validateSpendInput h v = Inr inp"
  shows "payment_ok (in_paymentRequired inp)" "in_receivedAt inp \<le> in_now inp"
    "0 \<le> in_receivedAt inp" "0 \<le> b_pendingApprovalCount (in_budget inp)"
  using assms
  by (auto simp: validateSpendInput_def validateBudgetSnapshot_def nonnegativeSafeInteger_Inr
      dest!: validatePaymentRequired_ok)

section \<open>Outcomes of evaluateSpendPolicy\<close>

lemma quoteIdOf_total: "0 \<le> k \<Longrightarrow> k \<le> MAX_SAFE_INTEGER \<Longrightarrow> \<exists>q. quoteIdOf h ch k = Inr q"
  using canonicalJson_total [of "JObj [(''challengeHash'', JStr ch), (''acceptedIndex'', JNum k)]"]
  by (auto simp: quoteIdOf_def)

lemma policy_decision_Inr:
  "policy_decision h outcome reason ph ch sel = Inr e \<Longrightarrow>
   e_decision e = outcome \<and> e_reasonCode e = reason \<and> e_policyHash e = ph \<and> e_challengeHash e = ch
   \<and> outcome \<in> set DECISIONS
   \<and> (case sel of
        None \<Rightarrow> e_acceptedIndex e = None \<and> e_quoteId e = None \<and> e_amountCeilingAtomic e = ''0''
      | Some x \<Rightarrow> e_acceptedIndex e = Some (int (sel_index x))
                \<and> quoteIdOf h ch (int (sel_index x)) = Inr (the (e_quoteId e))
                \<and> e_quoteId e \<noteq> None
                \<and> e_amountCeilingAtomic e = c_amount (sel_accepted x))"
  by (auto simp: policy_decision_def split: option.splits)

lemma policy_decision_total:
  assumes "outcome \<in> set DECISIONS"
    and "\<And>x. sel = Some x \<Longrightarrow> int (sel_index x) \<le> MAX_SAFE_INTEGER"
  shows "\<exists>e. policy_decision h outcome reason ph ch sel = Inr e"
proof (cases sel)
  case (Some x)
  then obtain q where "quoteIdOf h ch (int (sel_index x)) = Inr q"
    using quoteIdOf_total [of "int (sel_index x)" h ch] assms(2) by auto
  with Some assms(1) show ?thesis by (simp add: policy_decision_def)
qed (use assms in \<open>simp add: policy_decision_def\<close>)

lemma selected_outcome_decision:
  "selected_outcome p s c b r n = (outcome, reason) \<Longrightarrow> outcome \<in> set DECISIONS"
  using selected_outcome_matches [of p s c b r n] by simp

text \<open>After validation the decision never fails, and it is the outcome on the selected option.\<close>

lemma evaluate_validated:
  assumes inp: "validateSpendInput h v = Inr inp"
    and hash: "policyHashOf h (in_policy inp) = Inr (pv_hash (in_policyVersion inp))"
  obtains ch where "challengeHashOf h (in_paymentRequired inp) = Inr ch"
    and "evaluateSpendPolicy h v =
      decideValidated h (in_policy inp) (pv_hash (in_policyVersion inp)) ch (in_intent inp)
        (in_wallet inp) (in_paymentRequired inp) (in_budget inp) (in_receivedAt inp) (in_now inp)"
proof -
  from validateSpendInput_Inr(1) [OF inp] challengeHashOf_total obtain ch
    where "challengeHashOf h (in_paymentRequired inp) = Inr ch" by blast
  with that [of ch] inp hash show thesis by (simp add: evaluateSpendPolicy_def)
qed

lemma evaluateSpendPolicy_Inr:
  assumes "evaluateSpendPolicy h v = Inr e"
  obtains inp where "validateSpendInput h v = Inr inp"
    and "policyHashOf h (in_policy inp) = Inr (pv_hash (in_policyVersion inp))"
  using assms by (auto simp: evaluateSpendPolicy_def)

lemma admissible_index:
  "admissible p i w pr s k \<Longrightarrow> payment_ok pr \<Longrightarrow> k < 100"
  by (auto simp: admissible_def only_option_def payment_ok_def)

lemma decideValidated_selected:
  assumes "admissible p i w pr s k" and "payment_ok pr"
  obtains e where "decideValidated h p ph ch i w pr b r n = Inr e"
    and "e_decision e = fst (selected_outcome p s (pr_accepts pr ! k) b r n)"
    and "e_reasonCode e = snd (selected_outcome p s (pr_accepts pr ! k) b r n)"
    and "e_acceptedIndex e = Some (int k)" "e_policyHash e = ph" "e_challengeHash e = ch"
    and "e_amountCeilingAtomic e = c_amount (pr_accepts pr ! k)"
    and "\<exists>q. quoteIdOf h ch (int k) = Inr q \<and> e_quoteId e = Some q"
proof -
  define sel where "sel = \<lparr>sel_index = k, sel_accepted = pr_accepts pr ! k\<rparr>"
  have pre: "preselection p i w pr = Inr (s, sel)"
    using assms(1) by (simp add: preselection_Inr_iff sel_def)
  obtain outcome reason where sel_out:
    "selected_outcome p s (pr_accepts pr ! k) b r n = (outcome, reason)" by force
  have "int k \<le> MAX_SAFE_INTEGER"
    using admissible_index [OF assms] by (simp add: MAX_SAFE_INTEGER_def)
  then obtain e where e: "policy_decision h outcome reason ph ch (Some sel) = Inr e"
    using policy_decision_total [of outcome "Some sel" h reason ph ch]
      selected_outcome_decision [OF sel_out] by (auto simp: sel_def)
  from e pre sel_out have "decideValidated h p ph ch i w pr b r n = Inr e"
    by (simp add: decideValidated_def sel_def)
  with that [of e] policy_decision_Inr [OF e] sel_out show thesis by (auto simp: sel_def)
qed

lemma decideValidated_rejected:
  assumes "\<And>s k. \<not> admissible p i w pr s k"
  obtains e reason where "decideValidated h p ph ch i w pr b r n = Inr e"
    and "e_decision e = ''deny''" "e_reasonCode e = reason" "reason \<in> set PRESELECTION_DENIALS"
    and "e_acceptedIndex e = None" "e_policyHash e = ph" "e_challengeHash e = ch"
    and "e_amountCeilingAtomic e = ''0''" "e_quoteId e = None"
proof (cases "preselection p i w pr")
  case (Inr x)
  obtain s sel where "x = (s, sel)" by force
  with Inr assms show thesis by (simp add: preselection_Inr_iff)
next
  case (Inl reason)
  obtain e where e: "policy_decision h ''deny'' reason ph ch None = Inr e"
    using policy_decision_total [of "''deny''" None h reason ph ch] by (auto simp: DECISIONS_def)
  with Inl have "decideValidated h p ph ch i w pr b r n = Inr e" by (simp add: decideValidated_def)
  with that [of e reason] policy_decision_Inr [OF e] preselection_Inl [OF Inl] show thesis by auto
qed

text \<open>The input a spend policy admits, seller and option named.\<close>

definition input_admissible :: "host \<Rightarrow> spend_input \<Rightarrow> seller \<Rightarrow> nat \<Rightarrow> bool" where
  "input_admissible h inp s k \<longleftrightarrow>
     policyHashOf h (in_policy inp) = Inr (pv_hash (in_policyVersion inp))
     \<and> admissible (in_policy inp) (in_intent inp) (in_wallet inp) (in_paymentRequired inp) s k
     \<and> within_limits (in_policy inp) s (pr_accepts (in_paymentRequired inp) ! k) (in_budget inp)
         (in_receivedAt inp) (in_now inp)"

definition option_amount :: "spend_input \<Rightarrow> nat \<Rightarrow> int" where
  "option_amount inp k = text_int (c_amount (pr_accepts (in_paymentRequired inp) ! k))"

lemma evaluate_outcome_iff:
  assumes inp: "validateSpendInput h v = Inr inp" and "outcome \<noteq> ''deny''"
    and iff: "\<And>p s c b r n. fst (selected_outcome p s c b r n) = outcome \<longleftrightarrow>
      within_limits p s c b r n \<and> Q p s c b"
  shows "(\<exists>e. evaluateSpendPolicy h v = Inr e \<and> e_decision e = outcome
           \<and> e_acceptedIndex e = Some (int k)) \<longleftrightarrow>
    (\<exists>s. input_admissible h inp s k
       \<and> Q (in_policy inp) s (pr_accepts (in_paymentRequired inp) ! k) (in_budget inp))"
    (is "?L \<longleftrightarrow> ?R")
proof
  assume ?L
  then obtain e where e: "evaluateSpendPolicy h v = Inr e" "e_decision e = outcome"
    "e_acceptedIndex e = Some (int k)" by blast
  from e(1) inp have hash: "policyHashOf h (in_policy inp) = Inr (pv_hash (in_policyVersion inp))"
    by (elim evaluateSpendPolicy_Inr) simp
  obtain ch where ev: "evaluateSpendPolicy h v =
      decideValidated h (in_policy inp) (pv_hash (in_policyVersion inp)) ch (in_intent inp)
        (in_wallet inp) (in_paymentRequired inp) (in_budget inp) (in_receivedAt inp) (in_now inp)"
    using evaluate_validated [OF inp hash] by metis
  show ?R
  proof (cases "\<exists>s l. admissible (in_policy inp) (in_intent inp) (in_wallet inp)
      (in_paymentRequired inp) s l")
    case True
    then obtain s l where ad: "admissible (in_policy inp) (in_intent inp) (in_wallet inp)
      (in_paymentRequired inp) s l" by blast
    from decideValidated_selected [OF ad validateSpendInput_Inr(1) [OF inp]] e ev
    have "l = k" and "fst (selected_outcome (in_policy inp) s
        (pr_accepts (in_paymentRequired inp) ! l) (in_budget inp) (in_receivedAt inp) (in_now inp))
      = outcome"
      by (metis of_nat_eq_iff option.inject sum.inject(2))+
    with ad hash iff show ?thesis by (auto simp: input_admissible_def)
  next
    case False
    with decideValidated_rejected e ev assms(2) show ?thesis by (metis sum.inject(2))
  qed
next
  assume ?R
  then obtain s where s: "input_admissible h inp s k"
    "Q (in_policy inp) s (pr_accepts (in_paymentRequired inp) ! k) (in_budget inp)" by blast
  then have ad: "admissible (in_policy inp) (in_intent inp) (in_wallet inp)
      (in_paymentRequired inp) s k"
    and hash: "policyHashOf h (in_policy inp) = Inr (pv_hash (in_policyVersion inp))"
    and out: "fst (selected_outcome (in_policy inp) s
        (pr_accepts (in_paymentRequired inp) ! k) (in_budget inp) (in_receivedAt inp) (in_now inp))
      = outcome"
    by (auto simp: input_admissible_def iff)
  from evaluate_validated [OF inp hash] decideValidated_selected [OF ad validateSpendInput_Inr(1) [OF inp]]
  show ?L using out by metis
qed

end
