(* ===== verification/PolicyRoundtrip.thy ===== *)
theory PolicyRoundtrip
  imports PolicyFacts
begin

text \<open>
  Normal forms of \<^verbatim>\<open>policy-engine.mjs\<close>: what the validators of policies, challenge
  projections and evaluations return is accepted by the same validators again, unchanged, after it
  was stored as canonical JSON and parsed back. That is what lets the store keep a policy, a
  projection or an evaluation as text and compare hashes.
\<close>

section \<open>Addresses and text patterns\<close>

lemma to_lower_hex: "is_hex c \<Longrightarrow> is_lower_hex (to_lower_char c)"
proof -
  assume c: "is_hex c"
  show ?thesis
  proof (cases "is_upper c")
    case True
    with c have r: "65 \<le> code_of c" "code_of c \<le> 70"
      unfolding is_hex_def is_lower_hex_def is_digit_def is_upper_def by linarith+
    then have "code_of (char_of (code_of c + 32) :: char) = code_of c + 32" by simp
    with True r show ?thesis unfolding to_lower_char_def is_lower_hex_def by simp
  next
    case False
    with c show ?thesis
      unfolding to_lower_char_def is_hex_def is_upper_def by auto
  qed
qed

lemma to_lower_char_lower_hex: "is_lower_hex c \<Longrightarrow> to_lower_char c = c"
  unfolding to_lower_char_def is_lower_hex_def is_upper_def is_digit_def by auto

lemma canonical_address_to_lower:
  assumes "address_pattern s" shows "canonical_address_pattern (to_lower s)"
proof -
  from assms have s: "length s = 42" "take 2 s = ''0x''" "list_all is_hex (drop 2 s)"
    by (simp_all add: address_pattern_def)
  have "take 2 (to_lower s) = map to_lower_char (take 2 s)" by (simp add: to_lower_def take_map)
  also have "\<dots> = ''0x''" unfolding s(2) by (simp add: to_lower_char_def is_upper_def)
  finally have "take 2 (to_lower s) = ''0x''" .
  with s show ?thesis
    by (auto simp: canonical_address_pattern_def to_lower_def drop_map list_all_iff
        intro: to_lower_hex)
qed

lemma canonical_address_lower:
  assumes "canonical_address_pattern s"
  shows "address_pattern s" "to_lower s = s"
proof -
  from assms have s: "length s = 42" "take 2 s = ''0x''" "list_all is_lower_hex (drop 2 s)"
    by (simp_all add: canonical_address_pattern_def)
  then show "address_pattern s" by (auto simp: address_pattern_def is_hex_def list_all_iff)
  have "to_lower s = map to_lower_char (take 2 s) @ map to_lower_char (drop 2 s)"
    by (simp add: to_lower_def flip: map_append)
  also have "map to_lower_char (drop 2 s) = drop 2 s"
    using s(3) by (intro map_idI) (simp add: list_all_iff to_lower_char_lower_hex)
  also have "map to_lower_char (take 2 s) = take 2 s"
    unfolding s(2) by (simp add: to_lower_char_def is_upper_def)
  finally show "to_lower s = s" by simp
qed

lemma canonicalAddress_Inr:
  "canonicalAddress v code = Inr a \<Longrightarrow> canonical_address_pattern a"
  by (auto simp: canonicalAddress_def canonical_address_to_lower split: jsval.splits if_splits)

lemma canonicalAddress_canonical:
  "canonical_address_pattern a \<Longrightarrow> canonicalAddress (JStr a) code = Inr a"
  by (simp add: canonicalAddress_def canonical_address_lower)

section \<open>Origins and paths\<close>

text \<open>
  What the WHATWG URL standard promises of origins: the empty text is no URL, and the serialized
  origin of an \<^verbatim>\<open>http\<close> or \<^verbatim>\<open>https\<close> URL parses to a URL with the same scheme and origin, no
  credentials, the path \<^verbatim>\<open>/\<close> and neither query nor fragment.
\<close>

definition url_stable :: "host \<Rightarrow> bool" where
  "url_stable h \<longleftrightarrow>
     h_url h [] None = None \<and>
     (\<forall>v u. h_url h v None = Some u \<longrightarrow> u_protocol u \<in> {''https:'', ''http:''} \<longrightarrow>
        (\<exists>u'. h_url h (u_origin u) None = Some u' \<and> u_protocol u' = u_protocol u
           \<and> u_username u' = [] \<and> u_password u' = [] \<and> u_pathname u' = ''/'' \<and> u_search u' = []
           \<and> u_hash u' = [] \<and> u_origin u' = u_origin u))"

definition origin_ok :: "host \<Rightarrow> string \<Rightarrow> bool" where
  "origin_ok h s \<longleftrightarrow> normalizeOrigin h (JStr s) [] = Inr s"

definition path_ok :: "host \<Rightarrow> string \<Rightarrow> string \<Rightarrow> bool" where
  "path_ok h origin s \<longleftrightarrow> canonicalPath h (JStr s) origin [] = Inr s"

lemma normalizeOrigin_code:
  "normalizeOrigin h v code = Inr s \<longleftrightarrow> normalizeOrigin h v code' = Inr s"
  by (auto simp: normalizeOrigin_def boundedString_def Let_def split: jsval.splits option.splits)

lemma canonicalPath_code:
  "canonicalPath h v origin code = Inr s \<longleftrightarrow> v = JStr s \<and> path_ok h origin s"
  by (auto simp: canonicalPath_def path_ok_def boundedString_def split: jsval.splits option.splits)

lemma port_pattern_chars: "port_pattern s \<Longrightarrow> c \<in> set s \<Longrightarrow> c \<notin> set ''/?#''"
  by (cases s) (auto simp: is_digit_def list_all_iff split: list.splits)

lemma loopback_authority_chars: "loopback_authority s \<Longrightarrow> c \<in> set s \<Longrightarrow> c \<notin> set ''/?#''"
  by (auto simp: loopback_authority_def starts_with_iff dest: port_pattern_chars)

lemma loopback_of_origin:
  assumes "isCanonicalLiteralLoopbackHttp value u"
    and "u_protocol u' = u_protocol u" "u_origin u' = u_origin u"
  shows "isCanonicalLiteralLoopbackHttp (u_origin u) u'"
proof -
  define a where "a = takeWhile (\<lambda>c. c \<notin> set ''/?#'') (drop 7 value)"
  from assms(1) have a: "loopback_authority a" "u_origin u = ''http://'' @ a"
    "u_protocol u = ''http:''"
    by (simp_all add: isCanonicalLiteralLoopbackHttp_def Let_def a_def)
  have "drop 7 (u_origin u) = a" by (simp add: a(2))
  moreover have "takeWhile (\<lambda>c. c \<notin> set ''/?#'') a = a"
    using loopback_authority_chars [OF a(1)] by (intro takeWhile_eq_all_conv [THEN iffD2]) auto
  moreover have "starts_with (u_origin u) ''http://''" by (simp add: a(2))
  ultimately show ?thesis
    using assms(2,3) a(1,3)
    by (simp only: isCanonicalLiteralLoopbackHttp_def Let_def a(2) [symmetric])
qed

lemma normalizeOrigin_ok:
  assumes stable: "url_stable h" and "normalizeOrigin h v code = Inr s"
    and "utf8_length s \<le> 2048"
  shows "origin_ok h s"
proof -
  from assms(2) obtain w u where u: "h_url h w None = Some u" "s = u_origin u"
    "u_origin u \<noteq> ''null''"
    "u_protocol u \<noteq> ''https:'' \<longrightarrow> isCanonicalLiteralLoopbackHttp w u"
    by (auto simp: normalizeOrigin_def split: option.splits if_splits)
  then have "u_protocol u \<in> {''https:'', ''http:''}"
    by (auto simp: isCanonicalLiteralLoopbackHttp_def)
  with stable u(1) obtain u' where parse: "h_url h s None = Some u'" "u_protocol u' = u_protocol u"
    "u_username u' = []" "u_password u' = []" "u_pathname u' = ''/''" "u_search u' = []"
    "u_hash u' = []" "u_origin u' = u_origin u"
    unfolding url_stable_def u(2) by blast
  moreover have "s \<noteq> []" using parse(1) stable by (auto simp: url_stable_def)
  ultimately show ?thesis
    using u assms(3) by (auto simp: origin_ok_def normalizeOrigin_def boundedString_def
        intro: loopback_of_origin)
qed

lemma origin_ok_normalize: "origin_ok h s \<Longrightarrow> normalizeOrigin h (JStr s) code = Inr s"
  unfolding origin_ok_def using normalizeOrigin_code by blast

section \<open>Policies\<close>

definition seller_ok :: "host \<Rightarrow> seller \<Rightarrow> bool" where
  "seller_ok h s \<longleftrightarrow>
     s_pathPrefixes s \<noteq> [] \<and> length (s_pathPrefixes s) \<le> 100
     \<and> list_all (path_ok h (s_origin s)) (s_pathPrefixes s) \<and> distinct (s_pathPrefixes s)
     \<and> path_ok h (s_origin s) (s_evidencePath s)
     \<and> list_all decimal_pattern [s_perRequestMaxAtomic s, s_autoApproveAtomic s,
          s_humanApproveAtomic s, s_sellerSessionMaxAtomic s]
     \<and> 0 < text_int (s_perRequestMaxAtomic s) \<and> 0 < text_int (s_sellerSessionMaxAtomic s)
     \<and> text_int (s_autoApproveAtomic s) \<le> text_int (s_humanApproveAtomic s)
     \<and> text_int (s_humanApproveAtomic s) \<le> text_int (s_perRequestMaxAtomic s)
     \<and> list_all canonical_address_pattern [s_payTo s, s_executionSigner s, s_refundSigner s,
          s_refundSource s]"

lemma list_all2_map_eq:
  "list_all2 (\<lambda>x y. x = f y \<and> P y) xs ys \<longleftrightarrow> xs = map f ys \<and> list_all P ys"
proof
  assume "list_all2 (\<lambda>x y. x = f y \<and> P y) xs ys"
  then show "xs = map f ys \<and> list_all P ys" by (induction rule: list_all2_induct) simp_all
next
  assume "xs = map f ys \<and> list_all P ys"
  then have "xs = map f ys" "list_all P ys" by simp_all
  then show "list_all2 (\<lambda>x y. x = f y \<and> P y) xs ys"
    by (induction ys arbitrary: xs) auto
qed

lemma collect_paths:
  "collect (\<lambda>entry. canonicalPath h entry origin code) entries = Inr ps \<longleftrightarrow>
     entries = map JStr ps \<and> list_all (path_ok h origin) ps"
  unfolding collect_Inr_iff canonicalPath_code by (rule list_all2_map_eq)

lemma validatePolicySeller_ok:
  assumes "validatePolicySeller h v = Inr s"
  shows "seller_ok h s"
proof -
  from assms obtain kvs o' entries prefixes pr au hu se pay ev ex rs ro where parts:
    "collect (\<lambda>entry. canonicalPath h entry o' ''POLICY_RESOURCE_PATH'') entries = Inr prefixes"
    "1 \<le> length entries" "length entries \<le> 100" "distinct prefixes"
    "atomicText (get_prop kvs ''perRequestMaxAtomic'') ''POLICY_ATOMIC'' = Inr pr"
    "atomicText (get_prop kvs ''autoApproveAtomic'') ''POLICY_ATOMIC'' = Inr au"
    "atomicText (get_prop kvs ''humanApproveAtomic'') ''POLICY_ATOMIC'' = Inr hu"
    "atomicText (get_prop kvs ''sellerSessionMaxAtomic'') ''POLICY_ATOMIC'' = Inr se"
    "0 < text_int pr" "0 < text_int se" "text_int au \<le> text_int hu" "text_int hu \<le> text_int pr"
    "canonicalAddress (get_prop kvs ''payTo'') ''POLICY_ADDRESS'' = Inr pay"
    "canonicalPath h (get_prop kvs ''evidencePath'') o' ''POLICY_EVIDENCE_PATH'' = Inr ev"
    "canonicalAddress (get_prop kvs ''executionSigner'') ''POLICY_ADDRESS'' = Inr ex"
    "canonicalAddress (get_prop kvs ''refundSigner'') ''POLICY_ADDRESS'' = Inr rs"
    "canonicalAddress (get_prop kvs ''refundSource'') ''POLICY_ADDRESS'' = Inr ro"
    and s: "s = \<lparr>s_origin = o', s_pathPrefixes = prefixes, s_payTo = pay, s_evidencePath = ev,
      s_executionSigner = ex, s_refundSigner = rs, s_refundSource = ro,
      s_perRequestMaxAtomic = pr, s_autoApproveAtomic = au, s_humanApproveAtomic = hu,
      s_sellerSessionMaxAtomic = se\<rparr>"
    unfolding validatePolicySeller_def by (auto simp: not_less not_le Suc_le_eq split: jsval.splits)
  from parts(1-3) have "prefixes \<noteq> []" "length prefixes \<le> 100" "list_all (path_ok h o') prefixes"
    by (auto simp: collect_paths)
  with parts(4-12) canonicalAddress_Inr [OF parts(13)] parts(14) canonicalAddress_Inr [OF parts(15)]
    canonicalAddress_Inr [OF parts(16)] canonicalAddress_Inr [OF parts(17)]
  show ?thesis by (simp add: s seller_ok_def canonicalPath_code atomicText_Inr)
qed

lemma validatePolicySeller_origin:
  assumes "validatePolicySeller h v = Inr s"
  shows "\<exists>w code. normalizeOrigin h w code = Inr (s_origin s)"
proof -
  from assms obtain kvs o' where "exactRecord v SELLER_FIELDS [] ''POLICY_SCHEMA'' = Inr kvs"
    and o': "normalizeOrigin h (get_prop kvs ''origin'') ''POLICY_SELLER_ORIGIN'' = Inr o'"
    by (auto simp: validatePolicySeller_def)
  with assms have "s_origin s = o'"
    by (auto simp: validatePolicySeller_def split: jsval.splits)
  with o' show ?thesis by blast
qed

definition policy_ok :: "host \<Rightarrow> policy \<Rightarrow> bool" where
  "policy_ok h p \<longleftrightarrow>
     p_asset p = BASE_SEPOLIA_USDC \<and> canonical_address_pattern (p_wallet p)
     \<and> p_methods p \<noteq> [] \<and> length (p_methods p) \<le> 32 \<and> list_all method_pattern (p_methods p)
     \<and> distinct (p_methods p)
     \<and> p_sellers p \<noteq> [] \<and> length (p_sellers p) \<le> 100 \<and> list_all (seller_ok h) (p_sellers p)
     \<and> distinct (map s_origin (p_sellers p))
     \<and> list_all decimal_pattern [p_sessionMaxAtomic p, p_rolling24hMaxAtomic p]
     \<and> 0 < text_int (p_sessionMaxAtomic p) \<and> 0 < text_int (p_rolling24hMaxAtomic p)
     \<and> list_all (\<lambda>n. 1 \<le> n \<and> n \<le> MAX_SAFE_INTEGER)
          [p_challengeMaxAgeMs p, p_approvalTtlMs p, p_maxPendingApprovals p]"

lemma method_text_Some: "method_text v = Some s \<longleftrightarrow> v = JStr s \<and> method_pattern s"
  by (cases v) (auto simp del: method_pattern.simps)

lemma policyMethods_Inr:
  "policyMethods v = Inr ms \<longleftrightarrow>
     v = JArr (map JStr ms) \<and> ms \<noteq> [] \<and> length ms \<le> 32 \<and> list_all method_pattern ms \<and> distinct ms"
proof
  assume m: "policyMethods v = Inr ms"
  then obtain vs where vs: "v = JArr vs" "ms = map (the \<circ> method_text) vs" "vs \<noteq> []"
    "length vs \<le> 32" "distinct ms" "\<forall>x \<in> set vs. \<exists>s. method_text x = Some s"
    by (auto simp: policyMethods_def list_ex_iff simp del: method_text.simps
        split: jsval.splits if_splits)
  then have "\<forall>x \<in> set vs. JStr (the (method_text x)) = x \<and> method_pattern (the (method_text x))"
    by (metis method_text_Some option.sel)
  then have "map JStr ms = vs" "list_all method_pattern ms"
    unfolding vs(2) by (auto simp: list_all_iff o_def intro: map_idI)
  with vs show "v = JArr (map JStr ms) \<and> ms \<noteq> [] \<and> length ms \<le> 32 \<and> list_all method_pattern ms
      \<and> distinct ms"
    by auto
next
  assume v: "v = JArr (map JStr ms) \<and> ms \<noteq> [] \<and> length ms \<le> 32 \<and> list_all method_pattern ms
      \<and> distinct ms"
  then have "map (\<lambda>x. the (method_text (JStr x))) ms = ms"
    by (intro map_idI) (auto simp: list_all_iff)
  with v show "policyMethods v = Inr ms"
    by (auto simp: policyMethods_def list_ex_iff list_all_iff o_def Suc_le_eq)
qed

lemma policySellers_Inr:
  assumes "policySellers h v = Inr ss"
  shows "ss \<noteq> [] \<and> length ss \<le> 100 \<and> list_all (seller_ok h) ss \<and> distinct (map s_origin ss)
   \<and> list_all (\<lambda>s. \<exists>w code. normalizeOrigin h w code = Inr (s_origin s)) ss"
proof -
  from assms obtain vs where vs: "collect (validatePolicySeller h) vs = Inr ss"
    "vs \<noteq> []" "length vs \<le> 100" "distinct (map s_origin ss)"
    by (auto simp: policySellers_def split: jsval.splits)
  from collect_mem [OF vs(1)] have "seller_ok h s \<and>
      (\<exists>w code. normalizeOrigin h w code = Inr (s_origin s))" if "s \<in> set ss" for s
    using that validatePolicySeller_ok validatePolicySeller_origin by blast
  with vs collect_length [OF vs(1)] show ?thesis by (auto simp: list_all_iff)
qed

lemma validatePolicyDocument_ok:
  assumes "validatePolicyDocument h v = Inr p"
  shows "policy_ok h p"
    and "list_all (\<lambda>s. \<exists>w code. normalizeOrigin h w code = Inr (s_origin s)) (p_sellers p)"
proof -
  from assms obtain kvs asset ms ss se ro ma tt mp w where parts:
    "asset = BASE_SEPOLIA_USDC"
    "policyMethods (get_prop kvs ''methods'') = Inr ms"
    "policySellers h (get_prop kvs ''sellers'') = Inr ss"
    "atomicText (get_prop kvs ''sessionMaxAtomic'') ''POLICY_ATOMIC'' = Inr se"
    "atomicText (get_prop kvs ''rolling24hMaxAtomic'') ''POLICY_ATOMIC'' = Inr ro"
    "0 < text_int se" "0 < text_int ro"
    "positiveSafeInteger (get_prop kvs ''challengeMaxAgeMs'') ''POLICY_TIME'' MAX_SAFE_INTEGER = Inr ma"
    "positiveSafeInteger (get_prop kvs ''approvalTtlMs'') ''POLICY_TIME'' MAX_SAFE_INTEGER = Inr tt"
    "positiveSafeInteger (get_prop kvs ''maxPendingApprovals'') ''POLICY_APPROVAL_CAPACITY''
       MAX_SAFE_INTEGER = Inr mp"
    "canonicalAddress (get_prop kvs ''wallet'') ''POLICY_ADDRESS'' = Inr w"
    and p: "p = \<lparr>p_asset = asset, p_wallet = w, p_methods = ms, p_sellers = ss,
      p_sessionMaxAtomic = se, p_rolling24hMaxAtomic = ro, p_challengeMaxAgeMs = ma,
      p_approvalTtlMs = tt, p_maxPendingApprovals = mp\<rparr>"
    unfolding validatePolicyDocument_def by (auto simp: not_less not_le)
  note sellers = policySellers_Inr [OF parts(3)]
  show "policy_ok h p"
    using parts(1,2,4-10) sellers canonicalAddress_Inr [OF parts(11)]
    by (simp add: p policy_ok_def policyMethods_Inr atomicText_Inr positiveSafeInteger_Inr)
  show "list_all (\<lambda>s. \<exists>w code. normalizeOrigin h w code = Inr (s_origin s)) (p_sellers p)"
    using sellers by (simp add: p)
qed

lemma policy_origins_ok:
  assumes "url_stable h" "validatePolicyDocument h v = Inr p"
    "list_all (\<lambda>s. utf8_length (s_origin s) \<le> 2048) (p_sellers p)"
  shows "list_all (\<lambda>s. origin_ok h (s_origin s)) (p_sellers p)"
  using validatePolicyDocument_ok(2) [OF assms(2)] assms(1,3) normalizeOrigin_ok
  unfolding list_all_iff by blast

section \<open>Stored policies\<close>

definition entries_of :: "jsval \<Rightarrow> (string \<times> jsval) list" where
  "entries_of v = (case v of JObj kvs \<Rightarrow> kvs | _ \<Rightarrow> [])"

text \<open>A closed-schema view of a stored object: the validator reads the properties written.\<close>

lemma stored_view:
  assumes "v = JObj (entries_of v)" "js_canonical v" "distinct (map fst (entries_of v))"
    "list_all (has_own (entries_of v)) required"
    "list_all (\<lambda>k. k \<in> set required \<union> set optional) (map fst (entries_of v))"
  shows "exactRecord (js_normal v) required optional code = Inr (normal_entries (entries_of v))"
    and "get_prop (normal_entries (entries_of v)) k = js_normal (get_prop (entries_of v) k)"
proof -
  have "js_canonical (JObj (entries_of v))" using assms(1,2) by simp
  moreover have "set (map fst (entries_of v)) \<subseteq> set required \<union> set optional"
    using assms(5) by (auto simp: list_all_iff)
  ultimately show "exactRecord (js_normal v) required optional code
      = Inr (normal_entries (entries_of v))"
    using exactRecord_normal [OF _ assms(4)] by (subst assms(1))
  show "get_prop (normal_entries (entries_of v)) k = js_normal (get_prop (entries_of v) k)"
    using assms(3) by (rule get_prop_normal_entries)
qed

lemma map_js_normal_JStr [simp]: "map (js_normal \<circ> JStr) ss = map JStr ss"
  by simp

lemma atomicText_canonical: "decimal_pattern s \<Longrightarrow> atomicText (JStr s) code = Inr s"
  by (simp add: atomicText_Inr)

lemma js_canonical_seller [simp]: "js_canonical (seller_js s)"
  by (simp add: seller_js_def list_all_iff)

lemma seller_stored:
  assumes "seller_ok h s" "origin_ok h (s_origin s)"
  shows "validatePolicySeller h (js_normal (seller_js s)) = Inr s"
proof -
  note view = stored_view [of "seller_js s" SELLER_FIELDS "[]"]
  have pre: "seller_js s = JObj (entries_of (seller_js s))"
    "distinct (map fst (entries_of (seller_js s)))"
    "list_all (has_own (entries_of (seller_js s))) SELLER_FIELDS"
    "list_all (\<lambda>k. k \<in> set SELLER_FIELDS \<union> set []) (map fst (entries_of (seller_js s)))"
    by (simp_all add: seller_js_def entries_of_def SELLER_FIELDS_def has_own_def)
  obtain es where ex: "exactRecord (js_normal (seller_js s)) SELLER_FIELDS [] ''POLICY_SCHEMA'' = Inr es"
    and gp: "\<And>k. get_prop es k = js_normal (get_prop (entries_of (seller_js s)) k)"
    using view [OF pre(1) js_canonical_seller pre(2-4)] by blast
  have paths: "collect (\<lambda>entry. canonicalPath h entry (s_origin s) c) (map JStr (s_pathPrefixes s))
      = Inr (s_pathPrefixes s)" for c
    using assms(1) by (simp add: collect_paths seller_ok_def)
  have path: "canonicalPath h (JStr (s_evidencePath s)) (s_origin s) c = Inr (s_evidencePath s)" for c
    using assms(1) by (simp add: canonicalPath_code seller_ok_def)
  show ?thesis
    unfolding validatePolicySeller_def ex andthen_simps using assms paths path
    by (simp add: gp entries_of_def seller_js_def
        origin_ok_normalize seller_ok_def atomicText_canonical canonicalAddress_canonical Suc_le_eq
        not_less)
qed

lemma js_canonical_policy: "policy_ok h p \<Longrightarrow> js_canonical (policy_js p)"
  by (auto simp: policy_js_def policy_ok_def list_all_iff)

lemma policySellers_stored:
  assumes "list_all (seller_ok h) ss" "list_all (\<lambda>s. origin_ok h (s_origin s)) ss"
    "ss \<noteq> []" "length ss \<le> 100" "distinct (map s_origin ss)"
  shows "policySellers h (JArr (map js_normal (map seller_js ss))) = Inr ss"
proof -
  have "collect (validatePolicySeller h) (map js_normal (map seller_js ss)) = Inr (map (\<lambda>s. s) ss)"
    unfolding collect_map using assms(1,2) by (intro collect_id) (auto simp: list_all_iff seller_stored)
  with assms(3-5) show ?thesis by (simp add: policySellers_def Suc_le_eq not_less)
qed

lemma policy_stored:
  assumes "policy_ok h p" "list_all (\<lambda>s. origin_ok h (s_origin s)) (p_sellers p)"
  shows "validatePolicyDocument h (js_normal (policy_js p)) = Inr p"
proof -
  note can = js_canonical_policy [OF assms(1)]
  note view = stored_view [of "policy_js p" POLICY_FIELDS "[]"]
  have pre: "policy_js p = JObj (entries_of (policy_js p))"
    "distinct (map fst (entries_of (policy_js p)))"
    "list_all (has_own (entries_of (policy_js p))) POLICY_FIELDS"
    "list_all (\<lambda>k. k \<in> set POLICY_FIELDS \<union> set []) (map fst (entries_of (policy_js p)))"
    by (simp_all add: policy_js_def entries_of_def POLICY_FIELDS_def has_own_def)
  obtain es where ex: "exactRecord (js_normal (policy_js p)) POLICY_FIELDS [] ''POLICY_SCHEMA'' = Inr es"
    and gp: "\<And>k. get_prop es k = js_normal (get_prop (entries_of (policy_js p)) k)"
    using view [OF pre(1) can pre(2-4)] by blast
  have sellers: "policySellers h (JArr (map js_normal (map seller_js (p_sellers p)))) = Inr (p_sellers p)"
    using assms by (intro policySellers_stored) (simp_all add: policy_ok_def)
  have methods: "policyMethods (JArr (map JStr (p_methods p))) = Inr (p_methods p)"
    using assms(1) by (simp add: policyMethods_Inr policy_ok_def)
  have asset: "canonicalAddress (JStr BASE_SEPOLIA_USDC) c = Inr BASE_SEPOLIA_USDC" for c
    by (rule canonicalAddress_canonical) code_simp
  have ints: "positiveSafeInteger (JNum n) c MAX_SAFE_INTEGER = Inr n"
    if "1 \<le> n" "n \<le> MAX_SAFE_INTEGER" for n c
    using that by (simp add: positiveSafeInteger_Inr)
  show ?thesis
    unfolding validatePolicyDocument_def ex andthen_simps using assms(1) sellers methods
    by (simp add: gp entries_of_def policy_js_def
        policy_ok_def p_network_def asset ints atomicText_canonical canonicalAddress_canonical
        not_less not_le)
qed

section \<open>Stored projections and evaluations\<close>

text \<open>SHA-256 digests are 64 lower-case hexadecimal digits.\<close>

definition sha_ok :: "host \<Rightarrow> bool" where
  "sha_ok h \<longleftrightarrow> (\<forall>t. hash_pattern (h_sha256 h t))"

definition extra_js :: "candidate \<Rightarrow> jsval" where
  "extra_js c = JObj
     ([(''name'', JStr (c_name c)), (''version'', JStr (c_version c))]
      @ (case c_assetTransferMethod c of None \<Rightarrow> [] | Some m \<Rightarrow> [(''assetTransferMethod'', JStr m)]))"

lemma candidate_js_extra:
  "candidate_js c = JObj
     [(''scheme'', JStr (c_scheme c)), (''network'', JStr (c_network c)),
      (''asset'', JStr (c_asset c)), (''amount'', JStr (c_amount c)),
      (''payTo'', JStr (c_payTo c)), (''maxTimeoutSeconds'', JNum (c_maxTimeoutSeconds c)),
      (''extra'', extra_js c)]"
  by (simp add: candidate_js_def extra_js_def)

lemma extra_stored:
  assumes "candidate_ok c"
  obtains es where
    "exactRecord (js_normal (extra_js c)) [''name'', ''version''] [''assetTransferMethod'']
       ''CHALLENGE_SCHEMA'' = Inr es"
    and "get_prop es ''name'' = JStr (c_name c)" "get_prop es ''version'' = JStr (c_version c)"
    and "transferMethod es = Inr (c_assetTransferMethod c)"
proof -
  have pre: "extra_js c = JObj (entries_of (extra_js c))" "js_canonical (extra_js c)"
    "distinct (map fst (entries_of (extra_js c)))"
    "list_all (has_own (entries_of (extra_js c))) [''name'', ''version'']"
    "list_all (\<lambda>k. k \<in> set [''name'', ''version''] \<union> set [''assetTransferMethod''])
       (map fst (entries_of (extra_js c)))"
    by (simp_all add: extra_js_def entries_of_def split: option.split)
  note view = stored_view [OF pre]
  show thesis
  proof (rule that)
    show "exactRecord (js_normal (extra_js c)) [''name'', ''version''] [''assetTransferMethod'']
       ''CHALLENGE_SCHEMA'' = Inr (normal_entries (entries_of (extra_js c)))"
      by (rule view)
    show "get_prop (normal_entries (entries_of (extra_js c))) ''name'' = JStr (c_name c)"
      "get_prop (normal_entries (entries_of (extra_js c))) ''version'' = JStr (c_version c)"
      unfolding view(2) by (simp_all add: extra_js_def entries_of_def)
    have "get_prop (normal_entries (entries_of (extra_js c))) ''assetTransferMethod''
        = (case c_assetTransferMethod c of None \<Rightarrow> JUndef | Some m \<Rightarrow> JStr m)"
      unfolding view(2) by (simp add: extra_js_def entries_of_def split: option.split)
    moreover have "has_own (normal_entries (entries_of (extra_js c))) ''assetTransferMethod''
        \<longleftrightarrow> c_assetTransferMethod c \<noteq> None"
      by (simp add: extra_js_def entries_of_def split: option.split)
    ultimately show "transferMethod (normal_entries (entries_of (extra_js c)))
        = Inr (c_assetTransferMethod c)"
      using assms
      by (auto simp: transferMethod_def candidate_ok_def boundedString_def split: option.splits)
  qed
qed

lemma scalars_accepted:
  "s \<noteq> [] \<Longrightarrow> utf8_length s \<le> m \<Longrightarrow> boundedString (JStr s) code m = Inr s"
  "length s \<le> 200 \<Longrightarrow> protocol_pattern s \<Longrightarrow> protocolToken (JStr s) code = Inr s"
  "canonical_address_pattern s \<Longrightarrow> canonicalAddressText (JStr s) = Some s"
  "hash_pattern s \<Longrightarrow> canonicalHash (JStr s) code = Inr s"
  "1 \<le> n \<Longrightarrow> n \<le> k \<Longrightarrow> n \<le> MAX_SAFE_INTEGER \<Longrightarrow> positiveSafeInteger (JNum n) code k = Inr n"
  "0 \<le> n \<Longrightarrow> n \<le> MAX_SAFE_INTEGER \<Longrightarrow> nonnegativeSafeInteger (JNum n) code = Inr n"
  "s \<noteq> [] \<Longrightarrow> utf8_length s \<le> 200 \<Longrightarrow> mime_pattern s \<Longrightarrow> mimeType (JStr s) code = Inr s"
  "length s \<le> 200 \<Longrightarrow> token_pattern s \<Longrightarrow> canonicalToken (JStr s) = Inr s"
  by (simp_all add: scalar_Inr)

lemma candidate_stored:
  assumes ok: "candidate_ok c" shows "validateCandidate (js_normal (candidate_js c)) = Inr c"
proof -
  let ?fields = "[''scheme'', ''network'', ''asset'', ''amount'', ''payTo'', ''maxTimeoutSeconds'',
    ''extra'']"
  have pre: "candidate_js c = JObj (entries_of (candidate_js c))" "js_canonical (candidate_js c)"
    "distinct (map fst (entries_of (candidate_js c)))"
    "list_all (has_own (entries_of (candidate_js c))) ?fields"
    "list_all (\<lambda>k. k \<in> set ?fields \<union> set []) (map fst (entries_of (candidate_js c)))"
    by (simp_all add: candidate_js_extra entries_of_def)
      (use js_canonical_candidate [OF ok] in \<open>simp add: candidate_js_extra\<close>)
  obtain es where ex: "exactRecord (js_normal (candidate_js c)) ?fields [] ''CHALLENGE_SCHEMA''
      = Inr es"
    and gp: "\<And>k. get_prop es k = js_normal (get_prop (entries_of (candidate_js c)) k)"
    using stored_view [OF pre] by blast
  obtain xs where extra: "exactRecord (js_normal (extra_js c)) [''name'', ''version'']
      [''assetTransferMethod''] ''CHALLENGE_SCHEMA'' = Inr xs"
    "get_prop xs ''name'' = JStr (c_name c)" "get_prop xs ''version'' = JStr (c_version c)"
    "transferMethod xs = Inr (c_assetTransferMethod c)"
    by (rule extra_stored [OF ok])
  have amount: "atomicText (JStr (c_amount c)) code = Inr (c_amount c)" for code
    using ok by (simp add: candidate_ok_def atomicText_canonical)
  have timeout: "positiveSafeInteger (JNum (c_maxTimeoutSeconds c)) code 3600
      = Inr (c_maxTimeoutSeconds c)" for code
    using ok by (intro scalars_accepted) (simp_all add: candidate_ok_def MAX_SAFE_INTEGER_def)
  show ?thesis
    unfolding validateCandidate_def ex andthen_simps
    using ok by (simp add: gp entries_of_def candidate_js_extra extra amount timeout scalars_accepted
        candidate_ok_def)
qed

lemma candidates_stored:
  assumes "list_all candidate_ok cs"
  shows "collect validateCandidate (map js_normal (map candidate_js cs)) = Inr cs"
proof -
  have "collect validateCandidate (map js_normal (map candidate_js cs)) = Inr (map (\<lambda>c. c) cs)"
    unfolding collect_map using assms
    by (intro collect_id) (auto simp: list_all_iff candidate_stored)
  then show ?thesis by simp
qed

lemma projection_stored:
  assumes "payment_ok pr" "hash_pattern (h_sha256 h (pr_url pr))"
  shows "validateChallengeProjection (js_normal (projection_js (challengeProjection h pr)))
    = Inr (challengeProjection h pr)"
proof -
  let ?pj = "challengeProjection h pr"
  let ?fields = "[''x402Version'', ''resource'', ''accepts'']"
  let ?rfields = "[''urlHash'', ''description'', ''mimeType'']"
  let ?code = "''CHALLENGE_PROJECTION_SCHEMA''"
  define res where "res = JObj [(''urlHash'', JStr (pj_urlHash ?pj)),
    (''description'', JStr (pj_description ?pj)), (''mimeType'', JStr (pj_mimeType ?pj))]"
  have js: "projection_js ?pj = JObj [(''x402Version'', JNum (pj_x402Version ?pj)),
      (''resource'', res), (''accepts'', JArr (map candidate_js (pj_accepts ?pj)))]"
    by (simp add: projection_js_def res_def)
  have can: "js_canonical (projection_js ?pj)"
    using assms(1) by (auto simp: projection_js_def challengeProjection_def payment_ok_def
        list_all_iff js_canonical_candidate)
  have pre: "projection_js ?pj = JObj (entries_of (projection_js ?pj))"
    "distinct (map fst (entries_of (projection_js ?pj)))"
    "list_all (has_own (entries_of (projection_js ?pj))) ?fields"
    "list_all (\<lambda>k. k \<in> set ?fields \<union> set []) (map fst (entries_of (projection_js ?pj)))"
    by (simp_all add: js entries_of_def)
  obtain es where ex: "exactRecord (js_normal (projection_js ?pj)) ?fields [] ?code = Inr es"
    and gp: "\<And>k. get_prop es k = js_normal (get_prop (entries_of (projection_js ?pj)) k)"
    using stored_view [OF pre(1) can pre(2-4)] by blast
  have pre': "res = JObj (entries_of res)" "js_canonical res" "distinct (map fst (entries_of res))"
    "list_all (has_own (entries_of res)) ?rfields"
    "list_all (\<lambda>k. k \<in> set ?rfields \<union> set []) (map fst (entries_of res))"
    by (simp_all add: res_def entries_of_def)
  obtain rs where rex: "exactRecord (js_normal res) ?rfields [] ?code = Inr rs"
    and rgp: "\<And>k. get_prop rs k = js_normal (get_prop (entries_of res) k)"
    using stored_view [OF pre'] by blast
  have ent: "entries_of (projection_js ?pj) = [(''x402Version'', JNum (pj_x402Version ?pj)),
      (''resource'', res), (''accepts'', JArr (map candidate_js (pj_accepts ?pj)))]"
    by (simp add: js entries_of_def)
  have rent: "entries_of res = [(''urlHash'', JStr (pj_urlHash ?pj)),
      (''description'', JStr (pj_description ?pj)), (''mimeType'', JStr (pj_mimeType ?pj))]"
    by (simp add: res_def entries_of_def)
  have cs: "collect validateCandidate (map js_normal (map candidate_js (pr_accepts pr)))
      = Inr (pr_accepts pr)"
    using assms(1) by (intro candidates_stored) (simp add: payment_ok_def)
  have fields: "get_prop es ''x402Version'' = JNum (pr_x402Version pr)"
    "get_prop es ''resource'' = js_normal res"
    "get_prop es ''accepts'' = JArr (map js_normal (map candidate_js (pr_accepts pr)))"
    "get_prop rs ''urlHash'' = JStr (h_sha256 h (pr_url pr))"
    "get_prop rs ''description'' = JStr (pr_description pr)"
    "get_prop rs ''mimeType'' = JStr (pr_mimeType pr)"
    by (simp_all add: gp ent rgp rent) (simp_all add: challengeProjection_def)
  show ?thesis
    unfolding validateChallengeProjection_def ex andthen_simps fields rex
    using assms cs by (simp add: positiveVersion_def scalars_accepted payment_ok_def not_less fields
        challengeProjection_def)
qed

text \<open>What every decision of \<^const>\<open>evaluateSpendPolicy\<close> looks like.\<close>

definition evaluation_ok :: "host \<Rightarrow> evaluation \<Rightarrow> bool" where
  "evaluation_ok h e \<longleftrightarrow>
     (case e_acceptedIndex e of
        None \<Rightarrow> e_quoteId e = None \<and> e_amountCeilingAtomic e = ''0'' \<and> e_decision e = ''deny''
          \<and> e_reasonCode e \<in> set PRESELECTION_DENIALS
      | Some k \<Rightarrow> 0 \<le> k \<and> k \<le> MAX_SAFE_INTEGER \<and> decimal_pattern (e_amountCeilingAtomic e)
          \<and> 0 < text_int (e_amountCeilingAtomic e)
          \<and> (case e_quoteId e of None \<Rightarrow> False | Some q \<Rightarrow> quoteIdOf h (e_challengeHash e) k = Inr q)
          \<and> e_decision e \<in> set DECISIONS
          \<and> reasonMatchesDecision (e_decision e) (e_reasonCode e))"

lemma only_option_candidate:
  "only_option p s pr k \<Longrightarrow> payment_ok pr \<Longrightarrow> candidate_ok (pr_accepts pr ! k)"
  by (auto simp: only_option_def payment_ok_def list_all_iff)

lemma decideValidated_ok:
  assumes pr: "payment_ok pr" and e: "decideValidated h p ph ch i w pr b r n = Inr e"
  shows "evaluation_ok h e \<and> e_policyHash e = ph \<and> e_challengeHash e = ch"
proof (cases "\<exists>s k. admissible p i w pr s k")
  case True
  then obtain s k where ad: "admissible p i w pr s k" by blast
  let ?out = "selected_outcome p s (pr_accepts pr ! k) b r n"
  obtain outcome reason where out: "?out = (outcome, reason)" by force
  have cand: "candidate_ok (pr_accepts pr ! k)" "int k \<le> MAX_SAFE_INTEGER"
    using ad pr only_option_candidate [of p s pr k] admissible_index [OF ad pr]
    by (auto simp: admissible_def MAX_SAFE_INTEGER_def)
  obtain e' where e': "decideValidated h p ph ch i w pr b r n = Inr e'"
    "e_decision e' = fst ?out" "e_reasonCode e' = snd ?out" "e_acceptedIndex e' = Some (int k)"
    "e_policyHash e' = ph" "e_challengeHash e' = ch"
    "e_amountCeilingAtomic e' = c_amount (pr_accepts pr ! k)"
    and quote: "\<exists>q. quoteIdOf h ch (int k) = Inr q \<and> e_quoteId e' = Some q"
    by (rule decideValidated_selected [OF ad pr])
  from quote obtain q where "quoteIdOf h ch (int k) = Inr q" "e_quoteId e' = Some q" by blast
  moreover have "e' = e" using e e'(1) by simp
  ultimately show ?thesis using e' cand selected_outcome_matches [of p s "pr_accepts pr ! k" b r n] out
    by (simp add: evaluation_ok_def candidate_ok_def)
next
  case False
  then have none: "\<And>s k. \<not> admissible p i w pr s k" by blast
  obtain e' reason where e': "decideValidated h p ph ch i w pr b r n = Inr e'"
    "e_decision e' = ''deny''" "e_reasonCode e' = reason" "reason \<in> set PRESELECTION_DENIALS"
    "e_acceptedIndex e' = None" "e_policyHash e' = ph" "e_challengeHash e' = ch"
    "e_amountCeilingAtomic e' = ''0''" "e_quoteId e' = None"
    by (rule decideValidated_rejected [OF none])
  moreover have "e' = e" using e e'(1) by simp
  ultimately show ?thesis by (simp add: evaluation_ok_def)
qed

lemma evaluateSpendPolicy_ok:
  assumes "evaluateSpendPolicy h v = Inr e"
  shows "evaluation_ok h e"
    and "sha_ok h \<Longrightarrow> hash_pattern (e_policyHash e) \<and> hash_pattern (e_challengeHash e)"
proof -
  obtain inp where inp: "validateSpendInput h v = Inr inp"
    and hash: "policyHashOf h (in_policy inp) = Inr (pv_hash (in_policyVersion inp))"
    by (rule evaluateSpendPolicy_Inr [OF assms])
  obtain ch where ch: "challengeHashOf h (in_paymentRequired inp) = Inr ch"
    and ev: "evaluateSpendPolicy h v =
      decideValidated h (in_policy inp) (pv_hash (in_policyVersion inp)) ch (in_intent inp)
        (in_wallet inp) (in_paymentRequired inp) (in_budget inp) (in_receivedAt inp) (in_now inp)"
    by (rule evaluate_validated [OF inp hash])
  note ok = decideValidated_ok [OF validateSpendInput_Inr(1) [OF inp] assms [unfolded ev]]
  show "evaluation_ok h e" using ok by simp
  show "hash_pattern (e_policyHash e) \<and> hash_pattern (e_challengeHash e)" if "sha_ok h"
    using that ok hash ch
    by (auto simp: policyHashOf_def challengeHashOf_def sha_ok_def dest: sym)
qed

lemma denial_tokens:
  "list_all (\<lambda>s. length s \<le> 200 \<and> token_pattern s)
     (PRESELECTION_DENIALS @ SELECTED_DENIALS @ [''WITHIN_AUTO_LIMIT'', ''HUMAN_APPROVAL_REQUIRED''])"
  by code_simp

lemma evaluation_reason_token:
  "evaluation_ok h e \<Longrightarrow> length (e_reasonCode e) \<le> 200 \<and> token_pattern (e_reasonCode e)"
  using denial_tokens
  by (auto simp: evaluation_ok_def reasonMatchesDecision_def list_all_iff split: option.splits)

lemma evaluation_stored:
  assumes ok: "evaluation_ok h e" and hashes: "hash_pattern (e_policyHash e)"
    "hash_pattern (e_challengeHash e)"
  shows "validatePolicyEvaluation h (js_normal (evaluation_js e)) = Inr e"
proof -
  let ?fields = "[''decision'', ''reasonCode'', ''policyHash'', ''challengeHash'', ''quoteId'',
    ''amountCeilingAtomic'', ''acceptedIndex'']"
  have can: "js_canonical (evaluation_js e)"
    using ok by (auto simp: evaluation_js_def evaluation_ok_def option_js_def split: option.splits)
  have pre: "evaluation_js e = JObj (entries_of (evaluation_js e))"
    "distinct (map fst (entries_of (evaluation_js e)))"
    "list_all (has_own (entries_of (evaluation_js e))) ?fields"
    "list_all (\<lambda>k. k \<in> set ?fields \<union> set []) (map fst (entries_of (evaluation_js e)))"
    by (simp_all add: evaluation_js_def entries_of_def)
  obtain es where ex: "exactRecord (js_normal (evaluation_js e)) ?fields [] ''POLICY_DECISION_SCHEMA''
      = Inr es"
    and gp: "\<And>k. get_prop es k = js_normal (get_prop (entries_of (evaluation_js e)) k)"
    using stored_view [OF pre(1) can pre(2-4)] by blast
  have fields: "get_prop es ''decision'' = JStr (e_decision e)"
    "get_prop es ''reasonCode'' = JStr (e_reasonCode e)"
    "get_prop es ''policyHash'' = JStr (e_policyHash e)"
    "get_prop es ''challengeHash'' = JStr (e_challengeHash e)"
    "get_prop es ''quoteId'' = option_js JStr (e_quoteId e)"
    "get_prop es ''amountCeilingAtomic'' = JStr (e_amountCeilingAtomic e)"
    "get_prop es ''acceptedIndex'' = option_js JNum (e_acceptedIndex e)"
    by (simp_all add: gp entries_of_def evaluation_js_def option_js_def split: option.split)
  have reason: "canonicalToken (JStr (e_reasonCode e)) = Inr (e_reasonCode e)"
    using evaluation_reason_token [OF ok] by (simp add: scalars_accepted)
  have amount: "decimal_pattern (e_amountCeilingAtomic e)"
    using ok by (auto simp: evaluation_ok_def split: option.splits)
  have dec: "e_decision e \<in> set DECISIONS"
    using ok by (auto simp: evaluation_ok_def DECISIONS_def split: option.splits)
  have zero: "text_int ''0'' = 0" by (simp add: text_int_def text_nat_def digit_value_def)
  show ?thesis
  proof (cases "e_acceptedIndex e")
    case None
    with ok amount show ?thesis
      unfolding validatePolicyEvaluation_def ex andthen_simps fields
      by (simp add: reason scalars_accepted hashes atomicText_canonical evaluation_ok_def
          option_js_def zero DECISIONS_def)
  next
    case (Some k)
    with ok obtain q where "e_quoteId e = Some q" "quoteIdOf h (e_challengeHash e) k = Inr q"
      "0 \<le> k" "k \<le> MAX_SAFE_INTEGER" "0 < text_int (e_amountCeilingAtomic e)"
      "reasonMatchesDecision (e_decision e) (e_reasonCode e)"
      by (auto simp: evaluation_ok_def split: option.splits)
    with Some amount dec show ?thesis
      unfolding validatePolicyEvaluation_def ex andthen_simps fields
      by (simp add: reason scalars_accepted hashes atomicText_canonical option_js_def not_le)
  qed
qed

end
