(* ===== verification/PolicyProperties.thy ===== *)
theory PolicyProperties
  imports PolicyRoundtrip
begin

text \<open>
  The properties of the policy engine, each with a witness on a small concrete policy, intent,
  wallet and payment challenge. The host of the witnesses parses three fixed URLs and hashes every
  text to the same digest, which the hypotheses allow.
\<close>

section \<open>A concrete host, policy and input\<close>

definition demo_url :: "string \<Rightarrow> string \<Rightarrow> url" where
  "demo_url path href =
     \<lparr>u_protocol = ''https:'', u_username = [], u_password = [], u_host = ''s.io'', u_pathname = path, u_search = [],
      u_hash = [], u_origin = ''https://s.io'', u_href = href\<rparr>"

fun demo_parse :: "string \<Rightarrow> string option \<Rightarrow> url option" where
  "demo_parse v None =
     (if v = ''https://s.io'' then Some (demo_url ''/'' ''https://s.io/'')
      else if v = ''https://s.io/p'' then Some (demo_url ''/p'' v) else None)"
| "demo_parse v (Some base) =
     (if base = ''https://s.io/'' \<and> v = ''/p'' then Some (demo_url v (''https://s.io'' @ v)) else None)"

definition demo_hash :: string where
  "demo_hash = ''sha256:'' @ replicate 64 (CHR ''a'')"

definition demo_host :: host where
  "demo_host = \<lparr>h_sha256 = (\<lambda>_. demo_hash), h_sha256_bytes = (\<lambda>_. demo_hash), h_url = demo_parse\<rparr>"

definition demo_address :: string where
  "demo_address = ''0x'' @ replicate 40 (CHR ''1'')"

definition demo_seller :: seller where
  "demo_seller = \<lparr>s_origin = ''https://s.io'', s_pathPrefixes = [''/p''], s_payTo = demo_address,
     s_evidencePath = ''/p'', s_executionSigner = demo_address, s_refundSigner = demo_address,
     s_refundSource = demo_address, s_perRequestMaxAtomic = ''30'', s_autoApproveAtomic = ''10'',
     s_humanApproveAtomic = ''20'', s_sellerSessionMaxAtomic = ''50''\<rparr>"

definition demo_policy :: policy where
  "demo_policy = \<lparr>p_asset = BASE_SEPOLIA_USDC, p_wallet = demo_address, p_methods = [''GET''],
     p_sellers = [demo_seller], p_sessionMaxAtomic = ''60'', p_rolling24hMaxAtomic = ''70'',
     p_challengeMaxAgeMs = 1000, p_approvalTtlMs = 1000, p_maxPendingApprovals = 2\<rparr>"

definition demo_candidate :: "string \<Rightarrow> candidate" where
  "demo_candidate amount =
     \<lparr>c_scheme = ''exact'', c_network = BASE_SEPOLIA, c_asset = BASE_SEPOLIA_USDC,
      c_amount = amount, c_payTo = demo_address, c_maxTimeoutSeconds = 60, c_name = ''USDC'',
      c_version = ''2'', c_assetTransferMethod = None\<rparr>"

definition demo_intent :: intent where
  "demo_intent = \<lparr>i_id = ''i1'', i_method = ''GET'', i_requestUrl = ''https://s.io/p'',
     i_sellerOrigin = ''https://s.io'', i_resourcePath = ''/p'', i_walletAddress = demo_address\<rparr>"

definition demo_wallet :: wallet where
  "demo_wallet = \<lparr>w_provider = ''wp'', w_walletId = ''w1'', w_address = demo_address,
     w_network = BASE_SEPOLIA\<rparr>"

definition demo_payment :: "string \<Rightarrow> payment_required" where
  "demo_payment amount = \<lparr>pr_x402Version = 2, pr_error = None, pr_url = ''https://s.io/p'',
     pr_description = ''d'', pr_mimeType = ''text/plain'', pr_accepts = [demo_candidate amount]\<rparr>"

definition payment_js :: "payment_required \<Rightarrow> jsval" where
  "payment_js pr = JObj
     [(''x402Version'', JNum (pr_x402Version pr)),
      (''resource'', JObj [(''url'', JStr (pr_url pr)), (''description'', JStr (pr_description pr)),
                          (''mimeType'', JStr (pr_mimeType pr))]),
      (''accepts'', JArr (map candidate_js (pr_accepts pr)))]"

definition demo_spend :: "string \<Rightarrow> jsval" where
  "demo_spend amount = JObj
     [(''policy'', policy_js demo_policy),
      (''policyVersion'', JObj [(''id'', JStr ''v1''), (''hash'', JStr demo_hash)]),
      (''intent'', JObj [(''id'', JStr ''i1''), (''method'', JStr ''GET''),
        (''requestUrl'', JStr ''https://s.io/p''), (''sellerOrigin'', JStr ''https://s.io''),
        (''resourcePath'', JStr ''/p''), (''walletAddress'', JStr demo_address)]),
      (''wallet'', JObj [(''provider'', JStr ''wp''), (''walletId'', JStr ''w1''),
        (''address'', JStr demo_address), (''network'', JStr BASE_SEPOLIA)]),
      (''paymentRequired'', payment_js (demo_payment amount)),
      (''challengeReceivedAtMs'', JNum 5), (''nowMs'', JNum 7),
      (''budgetSnapshot'', JObj [(''sellerSessionExposureAtomic'', JStr ''30''),
        (''sessionExposureAtomic'', JStr ''30''), (''rolling24hExposureAtomic'', JStr ''40''),
        (''pendingApprovalCount'', JNum 0)])]"

definition demo_input :: "string \<Rightarrow> spend_input" where
  "demo_input amount =
     \<lparr>in_policy = demo_policy, in_policyVersion = \<lparr>pv_id = ''v1'', pv_hash = demo_hash\<rparr>,
      in_intent = demo_intent, in_wallet = demo_wallet, in_paymentRequired = demo_payment amount,
      in_budget = \<lparr>b_sellerSessionExposure = ''30'', b_sessionExposure = ''30'',
        b_rolling24hExposure = ''40'', b_pendingApprovalCount = 0\<rparr>,
      in_receivedAt = 5, in_now = 7\<rparr>"

lemma demo_sha_ok: "sha_ok demo_host"
proof -
  have "hash_pattern demo_hash" by code_simp
  then show ?thesis by (simp add: sha_ok_def demo_host_def)
qed

lemma demo_parse_origin:
  "demo_parse v None = Some u \<Longrightarrow> u_origin u = ''https://s.io'' \<and> u_protocol u = ''https:''"
  unfolding demo_parse.simps by (auto simp: demo_url_def split: if_split_asm)

lemma demo_parse_self: "demo_parse ''https://s.io'' None = Some (demo_url ''/'' ''https://s.io/'')"
  by simp

lemma demo_url_stable: "url_stable demo_host"
proof -
  have parse: "\<exists>u'. demo_parse (u_origin u) None = Some u' \<and> u_protocol u' = u_protocol u
      \<and> u_username u' = [] \<and> u_password u' = [] \<and> u_pathname u' = ''/'' \<and> u_search u' = []
      \<and> u_hash u' = [] \<and> u_origin u' = u_origin u" if "demo_parse v None = Some u" for v u
    using demo_parse_origin [OF that] demo_parse_self
    by (intro exI [of _ "demo_url ''/'' ''https://s.io/''"]) (simp add: demo_url_def)
  have host: "h_url demo_host = demo_parse" by (simp add: demo_host_def)
  show ?thesis
    unfolding url_stable_def host
  proof (intro conjI allI impI)
    show "demo_parse [] None = None" by simp
  qed (rule parse)
qed

lemma demo_policy_ok: "policy_ok demo_host demo_policy"
  by code_simp

lemma demo_policy_valid: "validatePolicyDocument demo_host (policy_js demo_policy) = Inr demo_policy"
  by code_simp

lemma demo_policy_hash: "policyHashOf demo_host demo_policy = Inr demo_hash"
  using canonicalJson_total [OF js_canonical_policy [OF demo_policy_ok]]
  by (auto simp: policyHashOf_def demo_host_def)

lemma demo_parts_valid:
  "validatePolicyVersion (JObj [(''id'', JStr ''v1''), (''hash'', JStr demo_hash)])
     = Inr \<lparr>pv_id = ''v1'', pv_hash = demo_hash\<rparr>"
  "validateIntent demo_host (get_prop (entries_of (demo_spend [])) ''intent'') = Inr demo_intent"
  "validateWallet (get_prop (entries_of (demo_spend [])) ''wallet'') = Inr demo_wallet"
  "validateBudgetSnapshot (get_prop (entries_of (demo_spend [])) ''budgetSnapshot'')
     = Inr (in_budget (demo_input []))"
  by code_simp+

lemma demo_payment_valid:
  "validatePaymentRequired demo_host (payment_js (demo_payment ''10'')) = Inr (demo_payment ''10'')"
  "validatePaymentRequired demo_host (payment_js (demo_payment ''12'')) = Inr (demo_payment ''12'')"
  "validatePaymentRequired demo_host (payment_js (demo_payment ''21'')) = Inr (demo_payment ''21'')"
  by code_simp+

lemma demo_spend_view:
  assumes "validatePaymentRequired demo_host (payment_js (demo_payment a)) = Inr (demo_payment a)"
  shows "validateSpendInput demo_host (demo_spend a) = Inr (demo_input a)"
proof -
  have "js_canonical (demo_spend a)"
    using js_canonical_policy [OF demo_policy_ok]
    by (simp add: demo_spend_def payment_js_def demo_payment_def candidate_js_def demo_candidate_def
        MAX_SAFE_INTEGER_def)
  then have "exactRecord (demo_spend a) INPUT_FIELDS [] ''INPUT_SCHEMA''
      = Inr (entries_of (demo_spend a))"
    unfolding demo_spend_def entries_of_def jsval.case
    by (rule exactRecord_canonical) (simp add: INPUT_FIELDS_def)
  then show ?thesis
    using assms demo_parts_valid
    by (simp add: validateSpendInput_def entries_of_def demo_spend_def demo_policy_valid
        demo_input_def nonnegativeSafeInteger_def MAX_SAFE_INTEGER_def)
qed

lemmas demo_input_valid = demo_payment_valid [THEN demo_spend_view]

lemma demo_input_admissible:
  "input_admissible demo_host (demo_input ''10'') demo_seller 0"
  "input_admissible demo_host (demo_input ''12'') demo_seller 0"
proof -
  have "admissible demo_policy demo_intent demo_wallet (demo_payment ''10'') demo_seller 0"
    "within_limits demo_policy demo_seller (demo_candidate ''10'') (in_budget (demo_input ''10'')) 5 7"
    "admissible demo_policy demo_intent demo_wallet (demo_payment ''12'') demo_seller 0"
    "within_limits demo_policy demo_seller (demo_candidate ''12'') (in_budget (demo_input ''12'')) 5 7"
    by code_simp+
  then show "input_admissible demo_host (demo_input ''10'') demo_seller 0"
    "input_admissible demo_host (demo_input ''12'') demo_seller 0"
    by (simp_all add: input_admissible_def demo_policy_hash demo_input_def demo_payment_def)
qed

text \<open>A challenge that pays somebody the policy does not know.\<close>

definition demo_foreign :: payment_required where
  "demo_foreign = (demo_payment ''10'')\<lparr>pr_accepts :=
     [(demo_candidate ''10'')\<lparr>c_payTo := ''0x'' @ replicate 40 (CHR ''2'')\<rparr>]\<rparr>"

definition demo_foreign_spend :: jsval where
  "demo_foreign_spend = JObj (map (\<lambda>(k, v). if k = ''paymentRequired''
     then (k, payment_js demo_foreign) else (k, v)) (entries_of (demo_spend ''10'')))"

definition demo_foreign_input :: spend_input where
  "demo_foreign_input = (demo_input ''10'')\<lparr>in_paymentRequired := demo_foreign\<rparr>"

lemma demo_foreign_valid: "validateSpendInput demo_host demo_foreign_spend = Inr demo_foreign_input"
proof -
  have payment: "validatePaymentRequired demo_host (payment_js demo_foreign) = Inr demo_foreign"
    by code_simp
  have "js_canonical demo_foreign_spend"
    using js_canonical_policy [OF demo_policy_ok]
    by (simp add: demo_foreign_spend_def demo_spend_def entries_of_def payment_js_def demo_foreign_def
        demo_payment_def candidate_js_def demo_candidate_def MAX_SAFE_INTEGER_def)
  then have "exactRecord demo_foreign_spend INPUT_FIELDS [] ''INPUT_SCHEMA''
      = Inr (entries_of demo_foreign_spend)"
    unfolding demo_foreign_spend_def demo_spend_def entries_of_def jsval.case
    by (intro exactRecord_canonical) (simp_all add: INPUT_FIELDS_def)
  then show ?thesis
    using payment demo_parts_valid
    by (simp add: validateSpendInput_def demo_foreign_spend_def demo_foreign_input_def entries_of_def
        demo_spend_def demo_policy_valid demo_input_def nonnegativeSafeInteger_def MAX_SAFE_INTEGER_def)
qed

section \<open>Properties\<close>

text \<open>C37: on a validated input the decision is \<^verbatim>\<open>allow\<close> with option \<^verbatim>\<open>k\<close> exactly when the
  policy version's hash is the policy's, \<^verbatim>\<open>k\<close> is the only payment option the policy admits for
  the intent's seller, and the amount is within every ceiling and the automatic limit.\<close>

theorem spend_allow_iff:
  assumes "validateSpendInput h v = Inr inp"
  shows "(\<exists>e. evaluateSpendPolicy h v = Inr e \<and> e_decision e = ''allow''
            \<and> e_acceptedIndex e = Some (int k)) \<longleftrightarrow>
    (\<exists>s. input_admissible h inp s k
       \<and> option_amount inp k \<le> text_int (s_autoApproveAtomic s))"
  using evaluate_outcome_iff [OF assms, of "''allow''"
      "\<lambda>p s c b. text_int (c_amount c) \<le> text_int (s_autoApproveAtomic s)" k]
  by (simp add: selected_outcome_allow option_amount_def)

theorem spend_allow_iff_witness:
  "\<exists>e. evaluateSpendPolicy demo_host (demo_spend ''10'') = Inr e \<and> e_decision e = ''allow''
     \<and> e_acceptedIndex e = Some (int 0)"
proof -
  have "option_amount (demo_input ''10'') 0 \<le> text_int (s_autoApproveAtomic demo_seller)"
    by code_simp
  then show ?thesis
    using spend_allow_iff [OF demo_input_valid(1), of 0] demo_input_admissible(1) by blast
qed

text \<open>C38: on a validated input the decision is \<^verbatim>\<open>approval_required\<close> with option \<^verbatim>\<open>k\<close>
  exactly when the option is admissible and within every ceiling, its amount exceeds the automatic
  limit, and an approval slot is free.\<close>

theorem spend_approval_iff:
  assumes "validateSpendInput h v = Inr inp"
  shows "(\<exists>e. evaluateSpendPolicy h v = Inr e \<and> e_decision e = ''approval_required''
            \<and> e_acceptedIndex e = Some (int k)) \<longleftrightarrow>
    (\<exists>s. input_admissible h inp s k
       \<and> text_int (s_autoApproveAtomic s) < option_amount inp k
       \<and> b_pendingApprovalCount (in_budget inp) < p_maxPendingApprovals (in_policy inp))"
  using evaluate_outcome_iff [OF assms, of "''approval_required''"
      "\<lambda>p s c b. text_int (s_autoApproveAtomic s) < text_int (c_amount c)
         \<and> b_pendingApprovalCount b < p_maxPendingApprovals p" k]
  by (simp add: selected_outcome_approval option_amount_def)

theorem spend_approval_iff_witness:
  "\<exists>e. evaluateSpendPolicy demo_host (demo_spend ''12'') = Inr e
     \<and> e_decision e = ''approval_required'' \<and> e_acceptedIndex e = Some (int 0)"
proof -
  have "text_int (s_autoApproveAtomic demo_seller) < option_amount (demo_input ''12'') 0
      \<and> b_pendingApprovalCount (in_budget (demo_input ''12''))
        < p_maxPendingApprovals (in_policy (demo_input ''12''))"
    by code_simp
  then show ?thesis
    using spend_approval_iff [OF demo_input_valid(2), of 0] demo_input_admissible(2) by blast
qed

text \<open>Under the right policy hash a validated input always gets a decision.\<close>

lemma evaluated_default_deny:
  assumes "validateSpendInput h v = Inr inp"
    and "policyHashOf h (in_policy inp) = Inr (pv_hash (in_policyVersion inp))"
  shows "\<exists>e. evaluateSpendPolicy h v = Inr e \<and> e_decision e \<in> set DECISIONS \<and>
    (e_acceptedIndex e = None \<longleftrightarrow>
       \<not> (\<exists>s k. admissible (in_policy inp) (in_intent inp) (in_wallet inp)
                 (in_paymentRequired inp) s k)) \<and>
    (e_acceptedIndex e = None \<longrightarrow>
       e_decision e = ''deny'' \<and> e_quoteId e = None \<and> e_amountCeilingAtomic e = ''0''
       \<and> e_reasonCode e \<in> set PRESELECTION_DENIALS)"
proof -
  obtain ch where ev: "evaluateSpendPolicy h v =
      decideValidated h (in_policy inp) (pv_hash (in_policyVersion inp)) ch (in_intent inp)
        (in_wallet inp) (in_paymentRequired inp) (in_budget inp) (in_receivedAt inp) (in_now inp)"
    using evaluate_validated [OF assms] by metis
  note pr = validateSpendInput_Inr(1) [OF assms(1)]
  show ?thesis
  proof (cases "\<exists>s k. admissible (in_policy inp) (in_intent inp) (in_wallet inp)
                 (in_paymentRequired inp) s k")
    case True
    then obtain s k where ad: "admissible (in_policy inp) (in_intent inp) (in_wallet inp)
      (in_paymentRequired inp) s k" by blast
    obtain e where "evaluateSpendPolicy h v = Inr e" "e_acceptedIndex e = Some (int k)"
      unfolding ev using decideValidated_selected [OF ad pr] by metis
    moreover from this(1) have "e_decision e \<in> set DECISIONS"
      using evaluateSpendPolicy_ok(1) [of h v e] by (simp add: evaluation_ok_def \<open>e_acceptedIndex e = _\<close>)
    ultimately show ?thesis using True by auto
  next
    case False
    then have none: "\<And>s k. \<not> admissible (in_policy inp) (in_intent inp) (in_wallet inp)
      (in_paymentRequired inp) s k" by blast
    obtain e reason where "evaluateSpendPolicy h v = Inr e" "e_decision e = ''deny''"
      "e_reasonCode e = reason" "reason \<in> set PRESELECTION_DENIALS" "e_acceptedIndex e = None"
      "e_amountCeilingAtomic e = ''0''" "e_quoteId e = None"
      unfolding ev by (rule decideValidated_rejected [OF none])
    with False show ?thesis by (auto simp: DECISIONS_def)
  qed
qed

text \<open>C39: default deny. The policy of a validated input always hashes; when the hash is not the one of
  the named policy version, the evaluation throws \<^verbatim>\<open>POLICY_HASH_MISMATCH\<close>, and when it is, the
  evaluation always gives a decision, which names a payment option exactly when the policy admits a
  seller and an option for the intent, and which otherwise is a denial before selection, without an
  option, a quote or an amount.\<close>

theorem spend_default_deny:
  assumes "validateSpendInput h v = Inr inp"
  shows "\<exists>policyHash. policyHashOf h (in_policy inp) = Inr policyHash \<and>
    (if pv_hash (in_policyVersion inp) \<noteq> policyHash
     then evaluateSpendPolicy h v = fail ''POLICY_HASH_MISMATCH''
     else \<exists>e. evaluateSpendPolicy h v = Inr e \<and> e_decision e \<in> set DECISIONS \<and>
       (e_acceptedIndex e = None \<longleftrightarrow>
          \<not> (\<exists>s k. admissible (in_policy inp) (in_intent inp) (in_wallet inp)
                    (in_paymentRequired inp) s k)) \<and>
       (e_acceptedIndex e = None \<longrightarrow>
          e_decision e = ''deny'' \<and> e_quoteId e = None \<and> e_amountCeilingAtomic e = ''0''
          \<and> e_reasonCode e \<in> set PRESELECTION_DENIALS))"
proof -
  from assms obtain w where "validatePolicyDocument h w = Inr (in_policy inp)"
    by (auto simp: validateSpendInput_def split: if_splits)
  note ok = validatePolicyDocument_ok(1) [OF this]
  then obtain t where "canonicalJson (policy_js (in_policy inp)) = Inr t"
    using canonicalJson_total [OF js_canonical_policy] by blast
  then have hash: "policyHashOf h (in_policy inp) = Inr (h_sha256 h t)" by (simp add: policyHashOf_def)
  show ?thesis
  proof (cases "pv_hash (in_policyVersion inp) = h_sha256 h t")
    case False
    with assms hash show ?thesis by (simp add: evaluateSpendPolicy_def)
  next
    case True
    with evaluated_default_deny [OF assms] hash show ?thesis by simp
  qed
qed

theorem spend_default_deny_witness:
  "\<exists>e. evaluateSpendPolicy demo_host demo_foreign_spend = Inr e \<and> e_decision e = ''deny''
     \<and> e_acceptedIndex e = None \<and> e_quoteId e = None \<and> e_amountCeilingAtomic e = ''0''"
proof -
  have "\<not> admissible demo_policy demo_intent demo_wallet demo_foreign s k" for s k
  proof -
    have "sellerFor demo_policy demo_intent = Some demo_seller"
      "\<not> option_matches demo_policy demo_seller (pr_accepts demo_foreign ! 0)"
      "length (pr_accepts demo_foreign) = 1"
      by code_simp+
    then show ?thesis by (auto simp: admissible_def only_option_def)
  qed
  moreover have "in_policy demo_foreign_input = demo_policy" "in_intent demo_foreign_input = demo_intent"
      "in_wallet demo_foreign_input = demo_wallet" "in_paymentRequired demo_foreign_input = demo_foreign"
      "pv_hash (in_policyVersion demo_foreign_input) = demo_hash"
    by (simp_all add: demo_foreign_input_def demo_input_def)
  ultimately show ?thesis
    using spend_default_deny [OF demo_foreign_valid] demo_policy_hash by auto
qed

text \<open>Decisions are antitone in spending: when nothing but the budget snapshot differs and every
  exposure and the pending count are at most the other's, an allowed payment stays allowed with the
  same option and one that needed approval still only needs approval.\<close>

theorem spend_antitone:
  assumes "validateSpendInput h v = Inr inp"
    and "validateSpendInput h v' = Inr (inp\<lparr>in_budget := b\<rparr>)"
    and "text_int (b_sellerSessionExposure b) \<le> text_int (b_sellerSessionExposure (in_budget inp))"
    and "text_int (b_sessionExposure b) \<le> text_int (b_sessionExposure (in_budget inp))"
    and "text_int (b_rolling24hExposure b) \<le> text_int (b_rolling24hExposure (in_budget inp))"
    and "b_pendingApprovalCount b \<le> b_pendingApprovalCount (in_budget inp)"
    and "evaluateSpendPolicy h v = Inr e" and "e_decision e \<noteq> ''deny''"
    and "e_acceptedIndex e = Some (int k)"
  shows "\<exists>e'. evaluateSpendPolicy h v' = Inr e' \<and> e_decision e' = e_decision e
    \<and> e_acceptedIndex e' = Some (int k)"
proof -
  have adm: "input_admissible h inp s k \<Longrightarrow> input_admissible h (inp\<lparr>in_budget := b\<rparr>) s k" for s
    using assms(3-5) by (auto simp: input_admissible_def within_limits_def)
  have "e_decision e = ''allow'' \<or> e_decision e = ''approval_required''"
    using evaluateSpendPolicy_ok(1) [OF assms(7)] assms(8,9)
    by (auto simp: evaluation_ok_def DECISIONS_def)
  then show ?thesis
  proof
    assume dec: "e_decision e = ''allow''"
    with assms(7,9) have "\<exists>s. input_admissible h inp s k
       \<and> text_int (c_amount (pr_accepts (in_paymentRequired inp) ! k)) \<le> text_int (s_autoApproveAtomic s)"
      using evaluate_outcome_iff [OF assms(1), of "''allow''"
          "\<lambda>p s c b. text_int (c_amount c) \<le> text_int (s_autoApproveAtomic s)" k]
      by (auto simp: selected_outcome_allow)
    with adm show ?thesis
      using evaluate_outcome_iff [OF assms(2), of "''allow''"
          "\<lambda>p s c b. text_int (c_amount c) \<le> text_int (s_autoApproveAtomic s)" k] dec
      by (auto simp: selected_outcome_allow)
  next
    assume dec: "e_decision e = ''approval_required''"
    with assms(7,9) have "\<exists>s. input_admissible h inp s k
       \<and> text_int (s_autoApproveAtomic s) < text_int (c_amount (pr_accepts (in_paymentRequired inp) ! k))
       \<and> b_pendingApprovalCount (in_budget inp) < p_maxPendingApprovals (in_policy inp)"
      using evaluate_outcome_iff [OF assms(1), of "''approval_required''"
          "\<lambda>p s c b. text_int (s_autoApproveAtomic s) < text_int (c_amount c)
             \<and> b_pendingApprovalCount b < p_maxPendingApprovals p" k]
      by (auto simp: selected_outcome_approval)
    with adm assms(6) show ?thesis
      using evaluate_outcome_iff [OF assms(2), of "''approval_required''"
          "\<lambda>p s c b. text_int (s_autoApproveAtomic s) < text_int (c_amount c)
             \<and> b_pendingApprovalCount b < p_maxPendingApprovals p" k] dec
      by (auto simp: selected_outcome_approval)
  qed
qed

theorem spend_antitone_witness:
  "\<exists>e e'. evaluateSpendPolicy demo_host (demo_spend ''10'') = Inr e
     \<and> evaluateSpendPolicy demo_host (demo_spend ''10'') = Inr e' \<and> e_decision e' = e_decision e"
proof -
  obtain e where e: "evaluateSpendPolicy demo_host (demo_spend ''10'') = Inr e"
    "e_decision e = ''allow''" "e_acceptedIndex e = Some (int 0)"
    using evaluate_outcome_iff [OF demo_input_valid(1), of "''allow''"
        "\<lambda>p s c b. text_int (c_amount c) \<le> text_int (s_autoApproveAtomic s)" 0]
      demo_input_admissible(1) selected_outcome_allow
    by (force simp: demo_input_def demo_payment_def demo_candidate_def demo_seller_def)
  have "validateSpendInput demo_host (demo_spend ''10'')
      = Inr ((demo_input ''10'')\<lparr>in_budget := in_budget (demo_input ''10'')\<rparr>)"
    using demo_input_valid(1) by simp
  from spend_antitone [OF demo_input_valid(1) this _ _ _ _ e(1) _ e(3)] e show ?thesis by auto
qed

text \<open>C40: a normalised policy survives storage. Its canonical JSON text parses again, and the parsed
  document (its keys now sorted) validates to the same policy, so the stored hash stays the hash of
  the policy in force. URL parsing is only assumed to keep origins stable, as the URL standard
  promises, and origins to stay within the length bound.\<close>

theorem policy_storage_roundtrip:
  assumes "url_stable h" and "validatePolicyDocument h v = Inr p"
    and "list_all (\<lambda>s. utf8_length (s_origin s) \<le> 2048) (p_sellers p)"
  shows "\<exists>t q. canonicalJson (policy_js p) = Inr t \<and> parseCanonicalJson t code = Inr q
    \<and> validatePolicyDocument h q = Inr p"
proof -
  note ok = validatePolicyDocument_ok(1) [OF assms(2)]
  obtain t where t: "canonicalJson (policy_js p) = Inr t"
    using canonicalJson_total [OF js_canonical_policy [OF ok]] by blast
  have "js_wf (policy_js p)" by (simp add: policy_js_def seller_js_def list_all_iff)
  from parseCanonicalJson_canonical [OF this t]
  have "parseCanonicalJson t code = Inr (js_normal (policy_js p))" .
  moreover have "validatePolicyDocument h (js_normal (policy_js p)) = Inr p"
    using ok policy_origins_ok [OF assms] by (rule policy_stored)
  ultimately show ?thesis using t by blast
qed

theorem policy_storage_roundtrip_witness:
  "\<exists>t q. canonicalJson (policy_js demo_policy) = Inr t \<and> parseCanonicalJson t ''LEDGER_STATE'' = Inr q
    \<and> validatePolicyDocument demo_host q = Inr demo_policy"
proof -
  have "list_all (\<lambda>s. utf8_length (s_origin s) \<le> 2048) (p_sellers demo_policy)" by code_simp
  from policy_storage_roundtrip [OF demo_url_stable demo_policy_valid this] show ?thesis .
qed

text \<open>The decision \<^const>\<open>evaluateSpendPolicy\<close> returns passes the closed schema of stored
  decisions, also after being written as canonical JSON and parsed back, and comes back unchanged:
  outcome and reason agree, a preselection denial carries no quote and no amount, and the quote is
  the digest of challenge and option.\<close>

theorem evaluation_storage_roundtrip:
  assumes "sha_ok h" and "evaluateSpendPolicy h v = Inr e"
  shows "\<exists>t q. canonicalJson (evaluation_js e) = Inr t \<and> parseCanonicalJson t code = Inr q
    \<and> validatePolicyEvaluation h q = Inr e"
proof -
  note ok = evaluateSpendPolicy_ok(1) [OF assms(2)]
  have "js_canonical (evaluation_js e)"
    using ok by (auto simp: evaluation_js_def evaluation_ok_def option_js_def split: option.splits)
  then obtain t where t: "canonicalJson (evaluation_js e) = Inr t"
    using canonicalJson_total by blast
  have "js_wf (evaluation_js e)" by (simp add: evaluation_js_def option_js_def split: option.split)
  from parseCanonicalJson_canonical [OF this t]
  have "parseCanonicalJson t code = Inr (js_normal (evaluation_js e))" .
  moreover have "validatePolicyEvaluation h (js_normal (evaluation_js e)) = Inr e"
    using evaluation_stored [OF ok] evaluateSpendPolicy_ok(2) [OF assms(2) assms(1)] by simp
  ultimately show ?thesis using t by blast
qed

theorem evaluation_storage_roundtrip_witness:
  "\<exists>e t q. evaluateSpendPolicy demo_host (demo_spend ''10'') = Inr e
     \<and> canonicalJson (evaluation_js e) = Inr t \<and> parseCanonicalJson t ''APPROVAL_STATE'' = Inr q
     \<and> validatePolicyEvaluation demo_host q = Inr e"
proof -
  have "policyHashOf demo_host (in_policy (demo_input ''10''))
      = Inr (pv_hash (in_policyVersion (demo_input ''10'')))"
    by (simp add: demo_input_def demo_policy_hash)
  then obtain e where e: "evaluateSpendPolicy demo_host (demo_spend ''10'') = Inr e"
    using evaluate_validated [OF demo_input_valid(1)] validateSpendInput_Inr(1) [OF demo_input_valid(1)]
      decideValidated_selected decideValidated_rejected by metis
  from evaluation_storage_roundtrip [OF demo_sha_ok e] e show ?thesis by blast
qed

text \<open>The projection of a challenge that is kept in the store is accepted back by
  \<^const>\<open>validateChallengeProjection\<close>, unchanged, from its canonical JSON text.\<close>

theorem projection_storage_roundtrip:
  assumes "sha_ok h" and "projectPaymentRequired h v = Inr pj"
  shows "\<exists>t q. canonicalJson (projection_js pj) = Inr t \<and> parseCanonicalJson t code = Inr q
    \<and> validateChallengeProjection q = Inr pj"
proof -
  from assms(2) obtain pr where pr: "validatePaymentRequired h v = Inr pr"
    and pj: "pj = challengeProjection h pr"
    by (auto simp: projectPaymentRequired_def)
  note ok = validatePaymentRequired_ok [OF pr]
  have "js_canonical (projection_js pj)"
    using ok by (auto simp: pj projection_js_def challengeProjection_def payment_ok_def
        list_all_iff js_canonical_candidate)
  then obtain t where t: "canonicalJson (projection_js pj) = Inr t"
    using canonicalJson_total by blast
  have "js_wf (projection_js pj)"
    by (auto simp: projection_js_def candidate_js_def list_all_iff split: option.split)
  from parseCanonicalJson_canonical [OF this t]
  have "parseCanonicalJson t code = Inr (js_normal (projection_js pj))" .
  moreover have "validateChallengeProjection (js_normal (projection_js pj)) = Inr pj"
    unfolding pj using ok assms(1) by (intro projection_stored) (simp_all add: sha_ok_def)
  ultimately show ?thesis using t by blast
qed

theorem projection_storage_roundtrip_witness:
  "\<exists>pj t q. projectPaymentRequired demo_host (payment_js (demo_payment ''10'')) = Inr pj
     \<and> canonicalJson (projection_js pj) = Inr t \<and> parseCanonicalJson t ''LEDGER_STATE'' = Inr q
     \<and> validateChallengeProjection q = Inr pj"
proof -
  have "projectPaymentRequired demo_host (payment_js (demo_payment ''10''))
      = Inr (challengeProjection demo_host (demo_payment ''10''))"
    by (simp add: projectPaymentRequired_def demo_payment_valid)
  from projection_storage_roundtrip [OF demo_sha_ok this] this show ?thesis by blast
qed

text \<open>The option a decision names is the option \<^const>\<open>selectExactCandidate\<close> selects for the
  same policy, intent and challenge, and the amount ceiling is that option's amount.\<close>

theorem evaluation_selects_exact:
  assumes "validateSpendInput h v = Inr inp" and "evaluateSpendPolicy h v = Inr e"
    and "e_acceptedIndex e = Some (int k)"
  shows "selectValidatedCandidate (in_policy inp) (in_intent inp) (in_paymentRequired inp)
      = Inr \<lparr>sel_index = k, sel_accepted = pr_accepts (in_paymentRequired inp) ! k\<rparr>
    \<and> e_amountCeilingAtomic e = c_amount (pr_accepts (in_paymentRequired inp) ! k)"
proof -
  let ?pr = "in_paymentRequired inp"
  have hash: "policyHashOf h (in_policy inp) = Inr (pv_hash (in_policyVersion inp))"
    using assms(1) evaluateSpendPolicy_Inr [OF assms(2)] by auto
  obtain ch where ev: "evaluateSpendPolicy h v =
      decideValidated h (in_policy inp) (pv_hash (in_policyVersion inp)) ch (in_intent inp)
        (in_wallet inp) ?pr (in_budget inp) (in_receivedAt inp) (in_now inp)"
    using evaluate_validated [OF assms(1) hash] by metis
  note pr = validateSpendInput_Inr(1) [OF assms(1)]
  have "\<exists>s l. admissible (in_policy inp) (in_intent inp) (in_wallet inp) ?pr s l"
  proof (rule ccontr)
    assume "\<nexists>s l. admissible (in_policy inp) (in_intent inp) (in_wallet inp) ?pr s l"
    then have none: "\<And>s k. \<not> admissible (in_policy inp) (in_intent inp) (in_wallet inp) ?pr s k"
      by blast
    obtain e' where "evaluateSpendPolicy h v = Inr e'" "e_acceptedIndex e' = None"
      unfolding ev by (rule decideValidated_rejected [OF none])
    with assms show False by simp
  qed
  then obtain s l where ad: "admissible (in_policy inp) (in_intent inp) (in_wallet inp) ?pr s l"
    by blast
  obtain e' where e': "evaluateSpendPolicy h v = Inr e'" "e_acceptedIndex e' = Some (int l)"
    "e_amountCeilingAtomic e' = c_amount (pr_accepts ?pr ! l)"
    unfolding ev by (rule decideValidated_selected [OF ad pr])
  with assms have l: "l = k" "e' = e" by simp_all
  from ad have s: "sellerFor (in_policy inp) (in_intent inp) = Some s"
    and one: "only_option (in_policy inp) s ?pr l" by (simp_all add: admissible_def)
  note payee = iffD1 [OF only_option_payee [OF s] one]
  with payee_nonempty_stages [of "in_policy inp" "in_intent inp" ?pr] ad s
  have "selectValidatedCandidate (in_policy inp) (in_intent inp) ?pr
      = Inr \<lparr>sel_index = l, sel_accepted = pr_accepts ?pr ! l\<rparr>"
    by (simp add: selectValidatedCandidate_def admissible_def Let_def)
  with e' l show ?thesis by simp
qed

theorem evaluation_selects_exact_witness:
  "selectValidatedCandidate demo_policy demo_intent (demo_payment ''10'')
     = Inr \<lparr>sel_index = 0, sel_accepted = demo_candidate ''10''\<rparr>"
proof -
  obtain e where e: "evaluateSpendPolicy demo_host (demo_spend ''10'') = Inr e"
    "e_acceptedIndex e = Some (int 0)"
    using evaluate_outcome_iff [OF demo_input_valid(1), of "''allow''"
        "\<lambda>p s c b. text_int (c_amount c) \<le> text_int (s_autoApproveAtomic s)" 0]
      demo_input_admissible(1) selected_outcome_allow
    by (force simp: demo_input_def demo_payment_def demo_candidate_def demo_seller_def)
  from evaluation_selects_exact [OF demo_input_valid(1) e] show ?thesis
    by (simp add: demo_input_def demo_payment_def)
qed

end
