(* ===== verification/IsoTime.thy ===== *)
theory IsoTime
  imports JsValue
begin

text \<open>
  \<^verbatim>\<open>Date.parse\<close> and \<^verbatim>\<open>Date.prototype.toISOString\<close> as \<^verbatim>\<open>canonicalTimestamp\<close> of
  \<^verbatim>\<open>src/kernel/canonical.mjs\<close> uses them: a timestamp is canonical when printing its time value
  gives it back. Days are split into civil dates of the proleptic Gregorian calendar with years
  beginning in March (era of 400 years, century, four-year cycle, year), and printed with four-digit
  years or, outside 0..9999, with a sign and six digits. \<^verbatim>\<open>date_parse\<close> reads that format only;
  \<^verbatim>\<open>Date.parse\<close> reads others too, but no other text is its own \<^verbatim>\<open>toISOString\<close>.
\<close>

section \<open>Civil dates\<close>

definition DAY_MS :: int where
  "DAY_MS = 86400000"

definition MAX_TIME :: int where
  "MAX_TIME = 8640000000000000"

text \<open>Days since 1970-01-01 of a date, and the date of a day number.\<close>

definition days_from_civil :: "int \<Rightarrow> int \<Rightarrow> int \<Rightarrow> int" where
  "days_from_civil y m d =
     (let y' = (if m \<le> 2 then y - 1 else y);
          mp = (if m \<le> 2 then m + 9 else m - 3);
          era = y' div 400;
          yoe = y' mod 400;
          doy = (153 * mp + 2) div 5 + (d - 1);
          doe = 365 * yoe + yoe div 4 - yoe div 100 + doy
      in 146097 * era + doe - 719468)"

definition civil_from_days :: "int \<Rightarrow> int \<times> int \<times> int" where
  "civil_from_days days =
     (let z = days + 719468;
          era = z div 146097;
          doe = z mod 146097;
          c = min 3 (doe div 36524);
          doc = doe - 36524 * c;
          q = doc div 1461;
          doq = doc mod 1461;
          a = min 3 (doq div 365);
          doy = doq - 365 * a;
          yoe = 100 * c + 4 * q + a;
          mp = (5 * doy + 2) div 153;
          d = doy - (153 * mp + 2) div 5 + 1;
          m = (if mp < 10 then mp + 3 else mp - 9);
          y = 400 * era + yoe
      in (if m \<le> 2 then y + 1 else y, m, d))"

text \<open>The decomposition of the day of an era is exact.\<close>

lemma era_split:
  fixes doe :: int
  assumes "0 \<le> doe" "doe < 146097"
  defines "c \<equiv> min 3 (doe div 36524)"
  defines "doc \<equiv> doe - 36524 * c"
  defines "q \<equiv> doc div 1461"
  defines "doq \<equiv> doc mod 1461"
  defines "a \<equiv> min 3 (doq div 365)"
  defines "doy \<equiv> doq - 365 * a"
  defines "yoe \<equiv> 100 * c + 4 * q + a"
  shows "0 \<le> yoe" "yoe < 400" "0 \<le> doy" "doy \<le> 365"
    and "365 * yoe + yoe div 4 - yoe div 100 + doy = doe"
proof -
  have c: "0 \<le> c" "c \<le> 3" and doc: "0 \<le> doc" "doc \<le> 36524"
    using assms(1,2) unfolding c_def doc_def by (auto simp: min_def)
  then have q: "0 \<le> q" "q \<le> 24" and doq: "0 \<le> doq" "doq < 1461" and doc_eq: "doc = 1461 * q + doq"
    unfolding q_def doq_def by auto
  then have a: "0 \<le> a" "a \<le> 3" and doy: "0 \<le> doy" "doy \<le> 365"
    unfolding a_def doy_def by (auto simp: min_def)
  show "0 \<le> yoe" "yoe < 400" "0 \<le> doy" "doy \<le> 365"
    using c q a doy unfolding yoe_def by auto
  have "yoe div 4 = 25 * c + q" using a unfolding yoe_def by auto
  moreover have "yoe div 100 = c" using q a unfolding yoe_def by auto
  moreover have "doe = 36524 * c + 1461 * q + 365 * a + doy"
    using doc_eq unfolding doc_def doy_def by simp
  ultimately show "365 * yoe + yoe div 4 - yoe div 100 + doy = doe"
    unfolding yoe_def by simp
qed

definition civil_of_parts :: "int \<Rightarrow> int \<Rightarrow> int \<Rightarrow> int \<Rightarrow> int \<times> int \<times> int" where
  "civil_of_parts era yoe doy mp =
     (let d = doy - (153 * mp + 2) div 5 + 1 in
      if mp < 10 then (400 * era + yoe, mp + 3, d) else (400 * era + yoe + 1, mp - 9, d))"

lemma civil_from_days_parts:
  obtains era yoe doy mp where
    "civil_from_days days = civil_of_parts era yoe doy mp"
    and "0 \<le> yoe" "yoe < 400" "0 \<le> doy" "doy \<le> 365" "mp = (5 * doy + 2) div 153"
    and "146097 * era + (365 * yoe + yoe div 4 - yoe div 100 + doy) = days + 719468"
proof -
  define era where "era = (days + 719468) div 146097"
  define doe where "doe = (days + 719468) mod 146097"
  define c where "c = min 3 (doe div 36524)"
  define q where "q = (doe - 36524 * c) div 1461"
  define doq where "doq = (doe - 36524 * c) mod 1461"
  define a where "a = min 3 (doq div 365)"
  define doy where "doy = doq - 365 * a"
  define yoe where "yoe = 100 * c + 4 * q + a"
  define mp where "mp = (5 * doy + 2) div 153"
  have doe: "0 \<le> doe" "doe < 146097" by (simp_all add: doe_def)
  note split = era_split [OF doe, folded c_def, folded q_def doq_def, folded a_def,
      folded doy_def yoe_def]
  have "146097 * era + doe = days + 719468" unfolding era_def doe_def by simp
  moreover have "civil_from_days days = civil_of_parts era yoe doy mp"
  proof -
    have mp: "0 \<le> mp" "mp \<le> 11" using split(3,4) unfolding mp_def by linarith+
    show ?thesis
      unfolding civil_from_days_def civil_of_parts_def Let_def era_def [symmetric]
        doe_def [symmetric] c_def [symmetric] q_def [symmetric] doq_def [symmetric]
        a_def [symmetric] doy_def [symmetric] yoe_def [symmetric] mp_def [symmetric]
      using mp by simp
  qed
  ultimately show thesis
    using that [of era yoe doy mp] split mp_def by simp
qed

theorem days_from_civil_from_days:
  "(case civil_from_days days of (y, m, d) \<Rightarrow> days_from_civil y m d) = days"
proof -
  obtain era yoe doy mp where civil: "civil_from_days days = civil_of_parts era yoe doy mp"
    and b: "0 \<le> yoe" "yoe < 400" "0 \<le> doy" "doy \<le> 365" "mp = (5 * doy + 2) div 153"
    and days: "146097 * era + (365 * yoe + yoe div 4 - yoe div 100 + doy) = days + 719468"
    by (rule civil_from_days_parts)
  have mp: "0 \<le> mp" "mp \<le> 11" using b by auto
  have era: "(400 * era + yoe) div 400 = era" "(400 * era + yoe) mod 400 = yoe"
    "yoe mod 400 = yoe" "yoe div 400 = 0"
    using b(1,2) by auto
  show ?thesis
  proof (cases "mp < 10")
    case True
    with mp have "\<not> mp + 3 \<le> 2" by simp
    with True days show ?thesis
      by (simp add: civil civil_of_parts_def days_from_civil_def Let_def era)
  next
    case False
    with mp have "mp - 9 \<le> 2" by simp
    with False days show ?thesis
      by (simp add: civil civil_of_parts_def days_from_civil_def Let_def era)
  qed
qed

lemma civil_from_days_bounds:
  assumes "civil_from_days days = (y, m, d)"
  shows "1 \<le> m" "m \<le> 12" "1 \<le> d" "d \<le> 31"
    and "\<bar>days\<bar> \<le> 100000000 \<Longrightarrow> \<bar>y\<bar> < 1000000"
proof -
  obtain era yoe doy mp where civil: "civil_from_days days = civil_of_parts era yoe doy mp"
    and b: "0 \<le> yoe" "yoe < 400" "0 \<le> doy" "doy \<le> 365" "mp = (5 * doy + 2) div 153"
    and days: "146097 * era + (365 * yoe + yoe div 4 - yoe div 100 + doy) = days + 719468"
    by (rule civil_from_days_parts)
  have mp: "0 \<le> mp" "mp \<le> 11" using b by auto
  have d: "d = doy - (153 * mp + 2) div 5 + 1"
    and m: "m = (if mp < 10 then mp + 3 else mp - 9)"
    and y: "y = (if mp < 10 then 400 * era + yoe else 400 * era + yoe + 1)"
    using assms by (auto simp: civil civil_of_parts_def Let_def split: if_splits)
  show "1 \<le> m" "m \<le> 12" using mp m by auto
  define r where "r = (5 * doy + 2) mod 153"
  define k where "k = (153 * mp + 2) div 5"
  define l where "l = (153 * mp + 2) mod 5"
  have "5 * doy + 2 = 153 * mp + r" "0 \<le> r" "r < 153"
    unfolding b(5) r_def by simp_all
  moreover have "153 * mp + 2 = 5 * k + l" "0 \<le> l" "l < 5"
    unfolding k_def l_def by simp_all
  moreover have "d = doy - k + 1" using d k_def by simp
  ultimately show "1 \<le> d" "d \<le> 31" by linarith+
  show "\<bar>y\<bar> < 1000000" if "\<bar>days\<bar> \<le> 100000000"
  proof -
    have "0 \<le> 365 * yoe + yoe div 4 - yoe div 100 + doy"
      "365 * yoe + yoe div 4 - yoe div 100 + doy < 146700" using b by linarith+
    with days that have "-1000 < era" "era < 1000" by linarith+
    with b(1,2) show ?thesis by (auto simp: y)
  qed
qed

section \<open>Text\<close>

text \<open>\<^verbatim>\<open>String(n).padStart(k, '0')\<close> for a number of at most \<^verbatim>\<open>k\<close> digits.\<close>

fun pad_digits :: "nat \<Rightarrow> int \<Rightarrow> string" where
  "pad_digits 0 n = []"
| "pad_digits (Suc k) n = pad_digits k (n div 10) @ [digit_char (nat (n mod 10))]"

definition iso_year :: "int \<Rightarrow> string" where
  "iso_year y =
     (if 0 \<le> y \<and> y \<le> 9999 then pad_digits 4 y
      else if y < 0 then CHR ''-'' # pad_digits 6 (- y)
      else CHR ''+'' # pad_digits 6 y)"

definition toISOString :: "int \<Rightarrow> string" where
  "toISOString t =
     (case civil_from_days (t div DAY_MS) of
        (y, m, d) \<Rightarrow>
          let r = t mod DAY_MS in
          iso_year y @ ''-'' @ pad_digits 2 m @ ''-'' @ pad_digits 2 d @ ''T''
            @ pad_digits 2 (r div 3600000) @ '':'' @ pad_digits 2 (r div 60000 mod 60) @ '':''
            @ pad_digits 2 (r div 1000 mod 60) @ ''.'' @ pad_digits 3 (r mod 1000) @ ''Z'')"

text \<open>Reading \<^verbatim>\<open>k\<close> digits, and one fixed character.\<close>

definition take_digits :: "nat \<Rightarrow> string \<Rightarrow> (int \<times> string) option" where
  "take_digits k s =
     (if k \<le> length s \<and> list_all is_digit (take k s)
      then Some (text_int (take k s), drop k s) else None)"

definition take_char :: "char \<Rightarrow> string \<Rightarrow> string option" where
  "take_char c s = (case s of d # ds \<Rightarrow> if d = c then Some ds else None | [] \<Rightarrow> None)"

definition take_year :: "string \<Rightarrow> (int \<times> string) option" where
  "take_year s =
     (case s of
        [] \<Rightarrow> None
      | c # cs \<Rightarrow>
          if c = CHR ''-'' then map_option (apfst uminus) (take_digits 6 cs)
          else if c = CHR ''+'' then take_digits 6 cs
          else take_digits 4 s)"

definition date_parse :: "string \<Rightarrow> int option" where
  "date_parse s =
     Option.bind (take_year s) (\<lambda>(y, s).
     Option.bind (take_char (CHR ''-'') s) (\<lambda>s.
     Option.bind (take_digits 2 s) (\<lambda>(m, s).
     Option.bind (take_char (CHR ''-'') s) (\<lambda>s.
     Option.bind (take_digits 2 s) (\<lambda>(d, s).
     Option.bind (take_char (CHR ''T'') s) (\<lambda>s.
     Option.bind (take_digits 2 s) (\<lambda>(h, s).
     Option.bind (take_char (CHR '':'') s) (\<lambda>s.
     Option.bind (take_digits 2 s) (\<lambda>(mi, s).
     Option.bind (take_char (CHR '':'') s) (\<lambda>s.
     Option.bind (take_digits 2 s) (\<lambda>(sec, s).
     Option.bind (take_char (CHR ''.'') s) (\<lambda>s.
     Option.bind (take_digits 3 s) (\<lambda>(ms, s).
     Option.bind (take_char (CHR ''Z'') s) (\<lambda>s.
       if s = [] then
         let t = DAY_MS * days_from_civil y m d + 3600000 * h + 60000 * mi + 1000 * sec + ms
         in if \<bar>t\<bar> \<le> MAX_TIME then Some t else None
       else None))))))))))))))"

text \<open>\<^verbatim>\<open>Date.parse\<close> of a timestamp already known to be canonical.\<close>

definition date_ms :: "string \<Rightarrow> int" where
  "date_ms s = (case date_parse s of Some t \<Rightarrow> t | None \<Rightarrow> 0)"

definition canonical_time :: "string \<Rightarrow> bool" where
  "canonical_time s \<longleftrightarrow> (case date_parse s of None \<Rightarrow> False | Some t \<Rightarrow> toISOString t = s)"

definition canonicalTimestamp :: "jsval \<Rightarrow> string res" where
  "canonicalTimestamp v =
     (case v of
        JStr s \<Rightarrow> if canonical_time s then Inr s else fail ''TIMESTAMP_FORMAT''
      | _ \<Rightarrow> fail ''TIMESTAMP_FORMAT'')"

section \<open>Round trip\<close>

lemma length_pad_digits [simp]: "length (pad_digits k n) = k"
  by (induction k arbitrary: n) auto

lemma list_all_pad_digits: "list_all is_digit (pad_digits k n)"
proof (induction k arbitrary: n)
  case (Suc k)
  have "nat (n mod 10) < 10" by (simp add: nat_less_iff)
  with Suc show ?case by simp
qed simp

lemma text_nat_pad_digits: "0 \<le> n \<Longrightarrow> n < 10 ^ k \<Longrightarrow> int (text_nat (pad_digits k n)) = n"
proof (induction k arbitrary: n)
  case (Suc k)
  from Suc.prems have "int (text_nat (pad_digits k (n div 10))) = n div 10"
    by (intro Suc.IH) (auto simp: div_less_iff_less_mult)
  moreover have "nat (n mod 10) < 10" by (simp add: nat_less_iff)
  ultimately show ?case by simp
qed (simp add: text_nat_def)

lemma take_digits_pad_digits:
  "0 \<le> n \<Longrightarrow> n < 10 ^ k \<Longrightarrow> take_digits k (pad_digits k n @ r) = Some (n, r)"
  by (simp add: take_digits_def list_all_pad_digits text_int_def text_nat_pad_digits)

lemma take_char_same [simp]: "take_char c (c # r) = Some r"
  by (simp add: take_char_def)

lemma pad_digits_4_head: "\<exists>d cs. pad_digits 4 y = d # cs \<and> is_digit d"
  using list_all_pad_digits [of 4 y] length_pad_digits [of 4 y]
  by (cases "pad_digits 4 y") auto

lemma take_year_iso_year:
  assumes "\<bar>y\<bar> < 1000000"
  shows "take_year (iso_year y @ r) = Some (y, r)"
proof (cases "0 \<le> y \<and> y \<le> 9999")
  case True
  obtain d cs where "pad_digits 4 y = d # cs" "is_digit d" using pad_digits_4_head by blast
  moreover from this have "d \<noteq> CHR ''-''" "d \<noteq> CHR ''+''" by (auto simp: is_digit_def)
  ultimately show ?thesis
    using True take_digits_pad_digits [of y 4 r] by (simp add: take_year_def iso_year_def)
next
  case False
  then show ?thesis
    using assms take_digits_pad_digits [of y 6 r] take_digits_pad_digits [of "- y" 6 r]
    by (auto simp: take_year_def iso_year_def)
qed

theorem date_parse_toISOString:
  assumes "\<bar>t\<bar> \<le> MAX_TIME"
  shows "date_parse (toISOString t) = Some t"
proof -
  obtain y m d where civil: "civil_from_days (t div DAY_MS) = (y, m, d)"
    by (cases "civil_from_days (t div DAY_MS)") auto
  have "\<bar>t div DAY_MS\<bar> \<le> 100000000"
    using assms by (auto simp: MAX_TIME_def DAY_MS_def)
  note b = civil_from_days_bounds(1-4) [OF civil] civil_from_days_bounds(5) [OF civil this]
  define r where "r = t mod DAY_MS"
  have r: "0 \<le> r" "r < DAY_MS" by (simp_all add: r_def DAY_MS_def)
  have parts: "0 \<le> r div 3600000" "r div 3600000 < 100" "0 \<le> r div 60000 mod 60"
    "r div 60000 mod 60 < 100" "0 \<le> r div 1000 mod 60" "r div 1000 mod 60 < 100"
    "0 \<le> r mod 1000" "r mod 1000 < 1000"
    using r by (auto simp: DAY_MS_def)
  have split: "r div 60000 = r div 1000 div 60" "r div 3600000 = r div 1000 div 60 div 60"
    by (simp_all flip: zdiv_zmult2_eq)
  have sum: "3600000 * (r div 3600000) + 60000 * (r div 60000 mod 60) + 1000 * (r div 1000 mod 60)
      + r mod 1000 = r"
    using mult_div_mod_eq [of 1000 r] mult_div_mod_eq [of 60 "r div 1000"]
      mult_div_mod_eq [of 60 "r div 1000 div 60"]
    unfolding split by linarith
  have days: "days_from_civil y m d = t div DAY_MS"
    using days_from_civil_from_days [of "t div DAY_MS"] by (simp add: civil)
  have t: "DAY_MS * (t div DAY_MS) + r = t" by (simp add: r_def)
  have two: "take_digits 2 (pad_digits 2 n @ s) = Some (n, s)" if "0 \<le> n" "n < 100" for n s
    using that by (simp add: take_digits_pad_digits)
  have three: "take_digits 3 (pad_digits 3 n @ s) = Some (n, s)" if "0 \<le> n" "n < 1000" for n s
    using that by (simp add: take_digits_pad_digits)
  have iso: "toISOString t = iso_year y @ CHR ''-'' # pad_digits 2 m @ CHR ''-'' # pad_digits 2 d
      @ CHR ''T'' # pad_digits 2 (r div 3600000) @ CHR '':'' # pad_digits 2 (r div 60000 mod 60)
      @ CHR '':'' # pad_digits 2 (r div 1000 mod 60) @ CHR ''.'' # pad_digits 3 (r mod 1000)
      @ [CHR ''Z'']"
    by (simp add: toISOString_def civil Let_def r_def)
  have "m < 100" "d < 100" "0 \<le> m" "0 \<le> d" using b by auto
  note steps = take_year_iso_year [OF b(5)] two [OF \<open>0 \<le> m\<close> \<open>m < 100\<close>]
    two [OF \<open>0 \<le> d\<close> \<open>d < 100\<close>] two [OF parts(1,2)] two [OF parts(3,4)] two [OF parts(5,6)]
    three [OF parts(7,8)]
  have total: "DAY_MS * (t div DAY_MS) + 3600000 * (r div 3600000) + 60000 * (r div 60000 mod 60)
      + 1000 * (r div 1000 mod 60) + r mod 1000 = t"
    using sum t by linarith
  show ?thesis
    unfolding date_parse_def iso
    by (simp only: steps take_char_same Option.bind.bind_lunit split_conv days Let_def total assms
        simp_thms if_True)
qed

lemma canonical_time_iff: "canonical_time s \<longleftrightarrow> (\<exists>t. \<bar>t\<bar> \<le> MAX_TIME \<and> s = toISOString t)"
proof
  assume "canonical_time s"
  then obtain t where "date_parse s = Some t" and "toISOString t = s"
    by (auto simp: canonical_time_def split: option.splits)
  moreover from this(1) have "\<bar>t\<bar> \<le> MAX_TIME"
    by (auto simp: date_parse_def bind_eq_Some_conv Let_def split: if_splits)
  ultimately show "\<exists>t. \<bar>t\<bar> \<le> MAX_TIME \<and> s = toISOString t" by auto
qed (auto simp: canonical_time_def date_parse_toISOString)

text \<open>Canonical timestamps are equal exactly when they denote the same time.\<close>

lemma canonical_time_inject:
  "canonical_time s \<Longrightarrow> canonical_time t \<Longrightarrow> date_ms s = date_ms t \<longleftrightarrow> s = t"
  by (auto simp: canonical_time_iff date_ms_def date_parse_toISOString)

lemma date_ms_toISOString: "\<bar>t\<bar> \<le> MAX_TIME \<Longrightarrow> date_ms (toISOString t) = t"
  by (simp add: date_ms_def date_parse_toISOString)

lemma canonicalTimestamp_Inr:
  "canonicalTimestamp v = Inr s \<longleftrightarrow> v = JStr s \<and> canonical_time s"
  by (auto simp: canonicalTimestamp_def split: jsval.splits)

end
