(* ===== verification/KernelStore.thy ===== *)
theory KernelStore
  imports PolicyEngine IsoTime
begin

text \<open>
  The tables of \<^verbatim>\<open>src/kernel/sqlite-schema.mjs\<close> that carry spend authority, and the event log
  and transactions of \<^verbatim>\<open>src/kernel/sqlite-store.mjs\<close>.

  A table is the list of its rows in rowid order. A \<^verbatim>\<open>TEXT NOT NULL\<close> column is a string, an
  \<^verbatim>\<open>INTEGER NOT NULL\<close> column an int, a nullable column an option; a \<^verbatim>\<open>CHECK (state IN ...)\<close> column
  keeps its text. A \<^verbatim>\<open>UNIQUE\<close> or primary key conflict of an insert is a \<^verbatim>\<open>JsError\<close>. The event
  log's \<^verbatim>\<open>sequence\<close> is the position in its list.
\<close>

section \<open>Rows\<close>

record policy_version_row =
  pvr_id :: string
  pvr_schema_version :: int
  pvr_canonical_json :: string
  pvr_policy_hash :: string
  pvr_predecessor_hash :: "string option"
  pvr_applied_at :: string

record session_row =
  ss_id :: string
  ss_adapter_id :: string
  ss_wallet_address :: string
  ss_policy_version_id :: string
  ss_state :: string
  ss_created_at :: string
  ss_closed_at :: "string option"

record enrollment_row =
  ae_agent_instance_id :: string
  ae_credential_digest :: string
  ae_enrollment_hash :: string
  ae_agent_uid :: string
  ae_agent_gid :: string
  ae_state :: string
  ae_enrolled_by_operator_hash :: string
  ae_enrolled_at :: string
  ae_revoked_by_operator_hash :: "string option"
  ae_revoked_at :: "string option"

record attestation_row =
  ia_id :: string
  ia_report_hash :: string
  ia_enrollment_hash :: string
  ia_report_json :: string
  ia_state :: string
  ia_imported_by_operator_hash :: string
  ia_probed_at :: string
  ia_expires_at :: string
  ia_imported_at :: string
  ia_superseded_at :: "string option"

record binding_row =
  sb_id :: string
  sb_agent_instance_id :: string
  sb_credential_digest :: string
  sb_enrollment_hash :: string
  sb_session_id :: string
  sb_state :: string
  sb_created_at :: string
  sb_last_seen_at :: string
  sb_closed_at :: "string option"

record intent_row =
  si_id :: string
  si_request_id :: string
  si_session_id :: string
  si_enrollment_hash :: string
  si_route_id :: string
  si_method :: string
  si_request_url_hash :: string
  si_seller_origin :: string
  si_resource_path :: string
  si_body_hash :: string
  si_header_allowlist_hash :: string
  si_ordinary_fingerprint :: string
  si_purpose_label :: string
  si_correlation_id :: string
  si_idempotency_key :: string
  si_wallet_address :: string
  si_intent_hash :: string
  si_challenge_projection_json :: "string option"
  si_challenge_hash :: "string option"
  si_challenge_received_at :: "string option"
  si_state :: string
  si_created_at :: string
  si_updated_at :: string
  si_retry_matchable :: int

record decision_row =
  pd_intent_id :: string
  pd_policy_version_id :: string
  pd_decision :: string
  pd_reason_code :: string
  pd_challenge_hash :: string
  pd_accepted_index :: "int option"
  pd_quote_id :: "string option"
  pd_amount_ceiling_atomic :: string
  pd_decided_at :: string

record budget_row =
  br_intent_id :: string
  br_session_id :: string
  br_seller_origin :: string
  br_reserved_atomic :: string
  br_committed_atomic :: string
  br_released_atomic :: string
  br_unresolved_atomic :: string
  br_state :: string
  br_committed_at :: "string option"
  br_updated_at :: string

record approval_row =
  ap_id :: string
  ap_intent_id :: string
  ap_decision :: string
  ap_operator_id_hash :: "string option"
  ap_intent_hash :: string
  ap_challenge_hash :: string
  ap_quote_id :: string
  ap_accepted_index :: int
  ap_amount_ceiling_atomic :: string
  ap_wallet_address :: string
  ap_policy_version_id :: string
  ap_expires_at :: string
  ap_reason_code :: "string option"
  ap_decided_at :: "string option"
  ap_consumed_at :: "string option"

record attempt_row =
  pa_id :: string
  pa_intent_id :: string
  pa_state :: string
  pa_payment_required_projection_json :: string
  pa_accepted_index :: int
  pa_payment_payload_json :: "string option"
  pa_payment_header :: "string option"
  pa_payment_hash :: "string option"
  pa_quote_id :: string
  pa_nonce :: "string option"
  pa_valid_after :: "string option"
  pa_valid_before :: "string option"
  pa_settlement_json :: "string option"
  pa_transaction_id :: "string option"
  pa_reason_code :: "string option"
  pa_signing_claimed_at :: "string option"
  pa_signed_at :: "string option"
  pa_retry_started_at :: "string option"
  pa_settled_at :: "string option"
  pa_created_at :: string
  pa_updated_at :: string

text \<open>\<^verbatim>\<open>payment_reconciliation_candidates\<close>.\<close>

record candidate_row =
  rc_id :: string
  rc_intent_id :: string
  rc_transaction_id :: string
  rc_state :: string
  rc_evidence_json :: "string option"
  rc_created_at :: string
  rc_updated_at :: string

record outcome_row =
  eo_intent_id :: string
  eo_state :: string
  eo_http_status :: "int option"
  eo_response_hash :: "string option"
  eo_metadata_json :: string
  eo_recorded_at :: string

record resolution_row =
  er_intent_id :: string
  er_state :: string
  er_reason_code :: string
  er_blocks_wallet :: int
  er_opened_at :: string
  er_resolved_at :: "string option"

record refund_row =
  rf_id :: string
  rf_intent_id :: string
  rf_original_transaction_id :: string
  rf_amount_atomic :: string
  rf_state :: string
  rf_evidence_json :: "string option"
  rf_refund_transaction_id :: "string option"
  rf_created_at :: string
  rf_updated_at :: string

record reconciliation_row =
  rr_id :: string
  rr_intent_id :: string
  rr_kind :: string
  rr_outcome :: string
  rr_evidence_json :: string
  rr_operator_id_hash :: string
  rr_recorded_at :: string

record buyer_row =
  bo_intent_id :: string
  bo_status :: string
  bo_reason_code :: string
  bo_revision :: int
  bo_recorded_at :: string

record event_row =
  ev_entity_type :: string
  ev_entity_id :: string
  ev_event_type :: string
  ev_data_json :: string
  ev_previous_hash :: "string option"
  ev_event_hash :: string
  ev_created_at :: string

record db =
  db_metadata :: "(string \<times> string) list"
  db_policy_versions :: "policy_version_row list"
  db_sessions :: "session_row list"
  db_enrollments :: "enrollment_row list"
  db_attestations :: "attestation_row list"
  db_bindings :: "binding_row list"
  db_intents :: "intent_row list"
  db_decisions :: "decision_row list"
  db_budgets :: "budget_row list"
  db_approvals :: "approval_row list"
  db_attempts :: "attempt_row list"
  db_candidates :: "candidate_row list"
  db_outcomes :: "outcome_row list"
  db_resolutions :: "resolution_row list"
  db_refunds :: "refund_row list"
  db_reconciliations :: "reconciliation_row list"
  db_buyers :: "buyer_row list"
  db_events :: "event_row list"

section \<open>Statements\<close>

text \<open>\<^verbatim>\<open>SELECT ... WHERE key = ?\<close> with \<^verbatim>\<open>.get\<close>: the first matching row.\<close>

definition select_one :: "('r \<Rightarrow> bool) \<Rightarrow> 'r list \<Rightarrow> 'r option" where
  "select_one P rows = find P rows"

text \<open>\<^verbatim>\<open>UPDATE ... WHERE ...\<close>: the rows afterwards and \<^verbatim>\<open>changes\<close>.\<close>

definition update_rows :: "('r \<Rightarrow> bool) \<Rightarrow> ('r \<Rightarrow> 'r) \<Rightarrow> 'r list \<Rightarrow> 'r list \<times> nat" where
  "update_rows P f rows = (map (\<lambda>r. if P r then f r else r) rows, length (filter P rows))"

text \<open>An update that must change exactly one row, as every guarded update of the ledger does.\<close>

definition update_one :: "string \<Rightarrow> ('r \<Rightarrow> bool) \<Rightarrow> ('r \<Rightarrow> 'r) \<Rightarrow> 'r list \<Rightarrow> 'r list res" where
  "update_one code P f rows =
     (case update_rows P f rows of
        (rows', changes) \<Rightarrow> if changes \<noteq> 1 then fail code else Inr rows')"

section \<open>Events\<close>

record event =
  evt_entityType :: jsval
  evt_entityId :: jsval
  evt_eventType :: jsval
  evt_data :: jsval

definition option_string :: "string option \<Rightarrow> jsval" where
  "option_string x = (case x of None \<Rightarrow> JNull | Some s \<Rightarrow> JStr s)"

definition eventHash ::
  "host \<Rightarrow> string \<Rightarrow> string \<Rightarrow> string \<Rightarrow> jsval \<Rightarrow> string option \<Rightarrow> string \<Rightarrow> string res" where
  "eventHash h entityType entityId eventType data previousHash createdAt =
     andthen (canonicalJson (JObj
       [(''entityType'', JStr entityType), (''entityId'', JStr entityId),
        (''eventType'', JStr eventType), (''data'', data),
        (''previousHash'', option_string previousHash), (''createdAt'', JStr createdAt)]))
       (\<lambda>t. Inr (h_sha256 h t))"

definition last_hash :: "event_row list \<Rightarrow> string option" where
  "last_hash evs = (if evs = [] then None else Some (ev_event_hash (last evs)))"

text \<open>
  \<^verbatim>\<open>appendEvent\<close>; the store's clock is the argument \<^verbatim>\<open>now\<close>. The event object is built by the
  caller from the four fields, so its closed schema always holds; the data must be a plain object.
\<close>

definition appendEvent :: "host \<Rightarrow> string \<Rightarrow> event \<Rightarrow> db \<Rightarrow> (db \<times> string) res" where
  "appendEvent h now e db =
     andthen (cloneDataGraph ''EVENT_SCHEMA'' (evt_data e)) (\<lambda>data.
     andthen (canonicalToken (evt_entityType e)) (\<lambda>entityType.
     andthen (canonicalToken (evt_entityId e)) (\<lambda>entityId.
     andthen (canonicalToken (evt_eventType e)) (\<lambda>eventType.
     case data of
       JObj kvs \<Rightarrow>
         andthen (canonicalTimestamp (JStr now)) (\<lambda>createdAt.
         andthen (canonicalJson data) (\<lambda>dataJson.
         let previousHash = last_hash (db_events db) in
         andthen (eventHash h entityType entityId eventType data previousHash createdAt)
           (\<lambda>hash.
         if hash \<in> ev_event_hash ` set (db_events db) then Inl (JsError ''SQLITE_CONSTRAINT'')
         else
           Inr (db\<lparr>db_events := db_events db @
             [\<lparr>ev_entity_type = entityType, ev_entity_id = entityId, ev_event_type = eventType,
               ev_data_json = dataJson, ev_previous_hash = previousHash, ev_event_hash = hash,
               ev_created_at = createdAt\<rparr>]\<rparr>, hash) )))
     | _ \<Rightarrow> fail ''EVENT_SCHEMA'' ))))"

text \<open>\<^verbatim>\<open>verifyEventChain\<close>; \<^verbatim>\<open>JSON.parse\<close> throws on text that is not JSON.\<close>

fun verify_chain :: "host \<Rightarrow> string option \<Rightarrow> event_row list \<Rightarrow> bool res" where
  "verify_chain h previousHash [] = Inr True"
| "verify_chain h previousHash (row # rows) =
     (case json_parse (ev_data_json row) of
        None \<Rightarrow> Inl (JsError ''SyntaxError'')
      | Some data \<Rightarrow>
          andthen (eventHash h (ev_entity_type row) (ev_entity_id row) (ev_event_type row) data
                     previousHash (ev_created_at row)) (\<lambda>expected.
          if ev_previous_hash row \<noteq> previousHash \<or> ev_event_hash row \<noteq> expected then Inr False
          else verify_chain h (Some (ev_event_hash row)) rows))"

definition verifyEventChain :: "host \<Rightarrow> db \<Rightarrow> bool res" where
  "verifyEventChain h db = verify_chain h None (db_events db)"

section \<open>Transactions\<close>

text \<open>
  \<^verbatim>\<open>transaction\<close>: the operation's writes are committed when it returns and rolled back when it
  throws.
\<close>

definition transaction :: "(db \<Rightarrow> (db \<times> 'a) res) \<Rightarrow> db \<Rightarrow> db \<times> 'a res" where
  "transaction operation db =
     (case operation db of
        Inl e \<Rightarrow> (db, Inl e)
      | Inr (db', x) \<Rightarrow> (db', Inr x))"

lemma transaction_Inl: "snd (transaction op db) = Inl e \<Longrightarrow> fst (transaction op db) = db"
  by (auto simp: transaction_def split: sum.splits)

lemma transaction_Inr: "transaction op db = (db', Inr x) \<longleftrightarrow> op db = Inr (db', x)"
  by (auto simp: transaction_def split: sum.splits)

end
