(* ===== verification/LedgerAuthority.thy ===== *)
theory LedgerAuthority
  imports KernelStore
begin

text \<open>
  The first part of \<^verbatim>\<open>src/kernel/budget-ledger.mjs\<close>: its scalar checks, and the spend authority
  behind a reservation. \<^verbatim>\<open>loadReservationAuthority\<close> joins an intent with its session, enrollment,
  policy version, policy decision and challenge projection and accepts the join only when every
  persisted binding still holds; with \<^verbatim>\<open>requireReservable\<close> it also demands an open session under the
  active policy, a fresh challenge and, where the policy asked for it, one consumed approval.
\<close>

section \<open>Scalars\<close>

definition LEDGER_DAY_MS :: int where
  "LEDGER_DAY_MS = 24 * 60 * 60 * 1000"

definition evm_canonical_hash :: "string \<Rightarrow> bool" where
  "evm_canonical_hash s \<longleftrightarrow> length s = 66 \<and> take 2 s = ''0x'' \<and> list_all is_lower_hex (drop 2 s)"

definition canonicalEvmHashFor :: "jsval \<Rightarrow> string \<Rightarrow> string res" where
  "canonicalEvmHashFor v code = rethrow_as code (canonicalEvmHash v)"

definition ledgerAddress :: "jsval \<Rightarrow> string \<Rightarrow> string res" where
  "ledgerAddress v code =
     (case v of
        JStr s \<Rightarrow> if \<not> canonical_address_pattern s then fail code else Inr s
      | _ \<Rightarrow> fail code)"

definition canonicalOrigin :: "host \<Rightarrow> jsval \<Rightarrow> string \<Rightarrow> string res" where
  "canonicalOrigin h v code =
     (case v of
        JStr value \<Rightarrow>
          if value = [] \<or> 2048 < length value then fail code
          else
            (case h_url h value None of
               None \<Rightarrow> fail code
             | Some parsed \<Rightarrow>
                 let loopback = u_protocol parsed = ''http:'' \<and> loopback_authority (u_host parsed) in
                 if (u_protocol parsed \<noteq> ''https:'' \<and> \<not> loopback)
                    \<or> u_username parsed \<noteq> [] \<or> u_password parsed \<noteq> [] \<or> u_pathname parsed \<noteq> ''/''
                    \<or> u_search parsed \<noteq> [] \<or> u_hash parsed \<noteq> [] \<or> u_origin parsed \<noteq> value
                 then fail code else Inr value)
      | _ \<Rightarrow> fail code)"

definition canonicalPersistedTimestamp :: "jsval \<Rightarrow> string \<Rightarrow> string res" where
  "canonicalPersistedTimestamp v code = rethrow_as code (canonicalTimestamp v)"

definition canonicalAtomicText :: "jsval \<Rightarrow> string \<Rightarrow> string res" where
  "canonicalAtomicText v code = rethrow_as code (canonicalAtomic v)"

text \<open>INTEGER columns arrive as \<^verbatim>\<open>bigint\<close>, numbers of parsed JSON as numbers.\<close>

definition safeInteger :: "jsval \<Rightarrow> string \<Rightarrow> int res" where
  "safeInteger v code =
     (case v of
        JNum n \<Rightarrow> if 0 \<le> n \<and> n \<le> MAX_SAFE_INTEGER then Inr n else fail code
      | JBig n \<Rightarrow> if 0 \<le> n \<and> n \<le> MAX_SAFE_INTEGER then Inr n else fail code
      | _ \<Rightarrow> fail code)"

fun upper_code_pattern :: "string \<Rightarrow> bool" where
  "upper_code_pattern [] = False"
| "upper_code_pattern (c # cs) =
     (is_upper c \<and> length cs \<le> 99
      \<and> list_all (\<lambda>d. is_upper d \<or> is_digit d \<or> d = CHR ''_'') cs)"

text \<open>The chronology entries are the timestamps themselves; an absent one is skipped.\<close>

definition assertTransitionChronology :: "jsval \<Rightarrow> string option list \<Rightarrow> unit res" where
  "assertTransitionChronology transitionAt entries =
     andthen (canonicalPersistedTimestamp transitionAt ''BUDGET_CORRUPTION'') (\<lambda>transition.
     check_each
       (\<lambda>entry. case entry of
          None \<Rightarrow> Inr ()
        | Some t \<Rightarrow>
            andthen (canonicalPersistedTimestamp (JStr t) ''BUDGET_CORRUPTION'') (\<lambda>timestamp.
            if date_ms transition < date_ms timestamp then fail ''BUDGET_TIME'' else Inr ()))
       entries)"

definition attemptChronology :: "attempt_row \<Rightarrow> string option list" where
  "attemptChronology a =
     [Some (pa_created_at a), Some (pa_updated_at a), pa_signing_claimed_at a, pa_signed_at a,
      pa_retry_started_at a, pa_settled_at a]"

section \<open>Globally unique transactions\<close>

text \<open>The owner and the transaction of every row that names one, in the source's three groups.\<close>

definition transactionGroups :: "db \<Rightarrow> (string \<times> string) list list" where
  "transactionGroups db =
     [concat (map (\<lambda>a. case pa_transaction_id a of
                         None \<Rightarrow> [] | Some t \<Rightarrow> [(pa_intent_id a, t)]) (db_attempts db)),
      map (\<lambda>c. (rc_id c, rc_transaction_id c)) (db_candidates db),
      concat (map (\<lambda>r. case rf_refund_transaction_id r of
                         None \<Rightarrow> [] | Some t \<Rightarrow> [(rf_id r, t)]) (db_refunds db))]"

definition assertGloballyUniqueTransaction ::
  "db \<Rightarrow> string \<Rightarrow> string option \<Rightarrow> string option \<Rightarrow> string option \<Rightarrow> unit res" where
  "assertGloballyUniqueTransaction db transactionId allowedPayment allowedCandidate allowedRefund =
     check_each
       (\<lambda>(rows, allowedOwner).
          check_each
            (\<lambda>(owner, t).
               andthen (canonicalEvmHashFor (JStr t) ''TRANSACTION_BINDING_CORRUPTION'')
                 (\<lambda>canonical.
               if t \<noteq> canonical then fail ''TRANSACTION_BINDING_CORRUPTION''
               else if canonical = transactionId \<and> Some owner \<noteq> allowedOwner
               then fail ''TRANSACTION_REUSED'' else Inr ()))
            rows)
       (zip (transactionGroups db) [allowedPayment, allowedCandidate, allowedRefund])"

section \<open>Policy versions\<close>

record loaded_policy =
  lp_id :: string
  lp_hash :: string
  lp_policy :: policy

definition loadPolicyVersion :: "host \<Rightarrow> db \<Rightarrow> string \<Rightarrow> loaded_policy res" where
  "loadPolicyVersion h db policyVersionId =
     andthen (canonicalToken (JStr policyVersionId)) (\<lambda>id.
     case select_one (\<lambda>r. pvr_id r = id) (db_policy_versions db) of
       None \<Rightarrow> fail ''POLICY_DECISION_MISSING''
     | Some row \<Rightarrow>
         andthen (parseCanonicalJson (pvr_canonical_json row) ''BUDGET_CORRUPTION'') (\<lambda>parsed.
         andthen (rethrow_as ''BUDGET_CORRUPTION'' (validatePolicyDocument h parsed)) (\<lambda>policy.
         andthen (canonicalJson (policy_js policy)) (\<lambda>bytes.
         if bytes \<noteq> pvr_canonical_json row \<or> h_sha256 h bytes \<noteq> pvr_policy_hash row
            \<or> pvr_schema_version row \<noteq> 1
         then fail ''BUDGET_CORRUPTION''
         else
           andthen (case pvr_predecessor_hash row of
                      None \<Rightarrow> Inr []
                    | Some p \<Rightarrow> canonicalHash (JStr p) ''BUDGET_CORRUPTION'') (\<lambda>_.
           andthen (canonicalPersistedTimestamp (JStr (pvr_applied_at row)) ''BUDGET_CORRUPTION'')
             (\<lambda>_.
           Inr \<lparr>lp_id = id, lp_hash = h_sha256 h bytes, lp_policy = policy\<rparr> ))))))"

section \<open>Enrollment and session binding\<close>

fun positive_decimal :: "string \<Rightarrow> bool" where
  "positive_decimal [] = False"
| "positive_decimal (c # cs) = (is_digit c \<and> c \<noteq> CHR ''0'' \<and> list_all is_digit cs)"

definition uid_text_ok :: "string \<Rightarrow> bool" where
  "uid_text_ok s \<longleftrightarrow> positive_decimal s \<and> text_int s \<le> MAX_SAFE_INTEGER"

definition enrollmentDescriptor :: "enrollment_row \<Rightarrow> jsval" where
  "enrollmentDescriptor e = JObj
     [(''schemaVersion'', JNum 1),
      (''agentInstanceId'', JStr (ae_agent_instance_id e)),
      (''credentialDigest'', JStr (ae_credential_digest e)),
      (''agentUid'', JStr (ae_agent_uid e)),
      (''agentGid'', JStr (ae_agent_gid e))]"

text \<open>The fields of an active or of a revoked enrollment.\<close>

definition enrollmentStateFields :: "enrollment_row \<Rightarrow> string \<Rightarrow> unit res" where
  "enrollmentStateFields e enrolledAt =
     (if ae_state e = ''active'' then
        if ae_revoked_by_operator_hash e \<noteq> None \<or> ae_revoked_at e \<noteq> None
        then fail ''AGENT_ENROLLMENT_CORRUPTION'' else Inr ()
      else
        andthen (canonicalHash (option_string (ae_revoked_by_operator_hash e)) ''BUDGET_CORRUPTION'')
          (\<lambda>_.
        andthen (canonicalPersistedTimestamp (option_string (ae_revoked_at e)) ''BUDGET_CORRUPTION'')
          (\<lambda>revokedAt.
        if date_ms revokedAt < date_ms enrolledAt then fail ''AGENT_ENROLLMENT_CORRUPTION''
        else Inr ())))"

definition validateEnrollmentRow :: "host \<Rightarrow> intent_row \<Rightarrow> bool \<Rightarrow> enrollment_row \<Rightarrow> unit res" where
  "validateEnrollmentRow h intent requireActive e =
     (if ae_state e \<noteq> ''active'' \<and> ae_state e \<noteq> ''revoked''
      then fail ''AGENT_ENROLLMENT_CORRUPTION''
      else if requireActive \<and> ae_state e \<noteq> ''active'' then fail ''AGENT_REVOKED''
      else
        andthen (canonicalToken (JStr (ae_agent_instance_id e))) (\<lambda>agentInstanceId.
        andthen (canonicalHash (JStr (ae_credential_digest e)) ''BUDGET_CORRUPTION'') (\<lambda>_.
        andthen (canonicalHash (JStr (ae_enrollment_hash e)) ''BUDGET_CORRUPTION'')
          (\<lambda>enrollmentHash.
        if \<not> uid_text_ok (ae_agent_uid e) \<or> \<not> uid_text_ok (ae_agent_gid e)
        then fail ''AGENT_ENROLLMENT_CORRUPTION''
        else
          andthen (canonicalJson (enrollmentDescriptor e)) (\<lambda>bytes.
          if h_sha256 h bytes \<noteq> enrollmentHash \<or> enrollmentHash \<noteq> si_enrollment_hash intent
          then fail ''AGENT_ENROLLMENT_CORRUPTION''
          else
            andthen (canonicalHash (JStr (ae_enrolled_by_operator_hash e)) ''BUDGET_CORRUPTION'')
              (\<lambda>_.
            andthen (canonicalPersistedTimestamp (JStr (ae_enrolled_at e)) ''BUDGET_CORRUPTION'')
              (\<lambda>enrolledAt.
            enrollmentStateFields e enrolledAt )))))))"

definition optionalTimestamp :: "string option \<Rightarrow> string \<Rightarrow> string option res" where
  "optionalTimestamp t code =
     (case t of
        None \<Rightarrow> Inr None
      | Some s \<Rightarrow> andthen (canonicalPersistedTimestamp (JStr s) code) (\<lambda>x. Inr (Some x)))"

definition validateSessionBinding ::
  "session_row \<Rightarrow> enrollment_row \<Rightarrow> binding_row \<Rightarrow> unit res" where
  "validateSessionBinding session e binding =
     (let sessionIsClosed = (ss_state session = ''closed'') in
      if sb_state binding \<noteq> (if sessionIsClosed then ''closed'' else ''open'')
         \<or> sb_agent_instance_id binding \<noteq> ae_agent_instance_id e
         \<or> sb_credential_digest binding \<noteq> ae_credential_digest e
         \<or> sb_enrollment_hash binding \<noteq> ae_enrollment_hash e
         \<or> ss_adapter_id session \<noteq> ''pi:'' @ ae_agent_instance_id e
      then fail ''SESSION_AUTHORITY_AMBIGUOUS''
      else
        andthen (canonicalToken (JStr (sb_id binding))) (\<lambda>_.
        andthen (canonicalPersistedTimestamp (JStr (sb_created_at binding)) ''BUDGET_CORRUPTION'')
          (\<lambda>createdAt.
        andthen (canonicalPersistedTimestamp (JStr (sb_last_seen_at binding)) ''BUDGET_CORRUPTION'')
          (\<lambda>lastSeenAt.
        andthen (optionalTimestamp (ss_closed_at session) ''BUDGET_CORRUPTION'')
          (\<lambda>sessionClosedAt.
        andthen (optionalTimestamp (sb_closed_at binding) ''BUDGET_CORRUPTION'')
          (\<lambda>bindingClosedAt.
        if createdAt \<noteq> ss_created_at session \<or> date_ms lastSeenAt < date_ms createdAt
           \<or> (sessionIsClosed \<and> (sessionClosedAt = None \<or> bindingClosedAt \<noteq> sessionClosedAt
                \<or> Some lastSeenAt \<noteq> sessionClosedAt))
           \<or> (\<not> sessionIsClosed \<and> (sessionClosedAt \<noteq> None \<or> bindingClosedAt \<noteq> None))
        then fail ''SESSION_AUTHORITY_AMBIGUOUS'' else Inr () ))))))"

definition validateEnrollmentAndBinding ::
  "host \<Rightarrow> db \<Rightarrow> intent_row \<Rightarrow> session_row \<Rightarrow> bool \<Rightarrow> enrollment_row res" where
  "validateEnrollmentAndBinding h db intent session requireActive =
     (case select_one (\<lambda>e. ae_enrollment_hash e = si_enrollment_hash intent) (db_enrollments db) of
        None \<Rightarrow> fail ''AGENT_ENROLLMENT_REQUIRED''
      | Some e \<Rightarrow>
          andthen (validateEnrollmentRow h intent requireActive e) (\<lambda>_.
          case filter (\<lambda>b. sb_session_id b = ss_id session) (db_bindings db) of
            [binding] \<Rightarrow> andthen (validateSessionBinding session e binding) (\<lambda>_. Inr e)
          | _ \<Rightarrow> fail ''SESSION_AUTHORITY_AMBIGUOUS''))"


section \<open>The challenge the decision was made on\<close>

record projection_binding =
  pb_projection :: projection
  pb_selected :: candidate
  pb_seller :: seller
  pb_acceptedIndex :: int
  pb_challengeHash :: string

text \<open>The selected option still is one the policy admits, in the terms of the decision.\<close>

definition selectionBound ::
  "intent_row \<Rightarrow> decision_row \<Rightarrow> policy \<Rightarrow> projection \<Rightarrow> candidate \<Rightarrow> seller \<Rightarrow> bool" where
  "selectionBound intent decision p projection selected seller \<longleftrightarrow>
     pj_x402Version projection = 2
     \<and> c_scheme selected = ''exact''
     \<and> (c_assetTransferMethod selected = None \<or> c_assetTransferMethod selected = Some ''eip3009'')
     \<and> c_name selected = ''USDC'' \<and> c_version selected = ''2''
     \<and> c_network selected = p_network p \<and> c_asset selected = p_asset p
     \<and> c_payTo selected = s_payTo seller
     \<and> c_amount selected = pd_amount_ceiling_atomic decision
     \<and> pj_urlHash projection = si_request_url_hash intent
     \<and> list_ex (\<lambda>prefix. starts_with (si_resource_path intent) prefix) (s_pathPrefixes seller)
     \<and> si_method intent \<in> set (p_methods p)"

definition validateProjectionBinding ::
  "host \<Rightarrow> intent_row \<Rightarrow> decision_row \<Rightarrow> loaded_policy \<Rightarrow> projection_binding res" where
  "validateProjectionBinding h intent decision version =
     (case si_challenge_projection_json intent of
        None \<Rightarrow> fail ''POLICY_DECISION_CORRUPTION''
      | Some text \<Rightarrow>
          andthen (parseCanonicalJson text ''POLICY_DECISION_CORRUPTION'') (\<lambda>parsed.
          andthen (rethrow_as ''POLICY_DECISION_CORRUPTION'' (validateChallengeProjection parsed))
            (\<lambda>projection.
          andthen (canonicalJson (projection_js projection)) (\<lambda>projectionBytes.
          let challengeHash = h_sha256 h projectionBytes in
          andthen (safeInteger (option_js JBig (pd_accepted_index decision))
                     ''POLICY_DECISION_CORRUPTION'') (\<lambda>acceptedIndex.
          andthen (quoteIdOf h challengeHash acceptedIndex) (\<lambda>quoteId.
          case find (\<lambda>s. s_origin s = si_seller_origin intent) (p_sellers (lp_policy version)) of
            None \<Rightarrow> fail ''POLICY_DECISION_CORRUPTION''
          | Some seller \<Rightarrow>
              if length (pj_accepts projection) \<le> nat acceptedIndex
              then fail ''POLICY_DECISION_CORRUPTION''
              else
                let selected = pj_accepts projection ! nat acceptedIndex in
                if projectionBytes \<noteq> text
                   \<or> Some challengeHash \<noteq> si_challenge_hash intent
                   \<or> challengeHash \<noteq> pd_challenge_hash decision
                   \<or> pd_quote_id decision \<noteq> Some quoteId
                   \<or> \<not> selectionBound intent decision (lp_policy version) projection selected seller
                then fail ''POLICY_DECISION_CORRUPTION''
                else
                  Inr \<lparr>pb_projection = projection, pb_selected = selected, pb_seller = seller,
                       pb_acceptedIndex = acceptedIndex, pb_challengeHash = challengeHash\<rparr> ))))))"

section \<open>The authority of a reservation\<close>

record authority =
  au_intent :: intent_row
  au_session :: session_row
  au_decision :: decision_row
  au_version :: loaded_policy
  au_projection :: projection_binding
  au_enrollment :: enrollment_row
  au_amount :: string

definition approvalBound :: "authority \<Rightarrow> approval_row \<Rightarrow> bool" where
  "approvalBound au ap \<longleftrightarrow>
     ap_decision ap = ''consumed''
     \<and> ap_intent_hash ap = si_intent_hash (au_intent au)
     \<and> ap_challenge_hash ap = pd_challenge_hash (au_decision au)
     \<and> Some (ap_quote_id ap) = pd_quote_id (au_decision au)
     \<and> ap_amount_ceiling_atomic ap = pd_amount_ceiling_atomic (au_decision au)
     \<and> ap_wallet_address ap = ss_wallet_address (au_session au)
     \<and> ap_policy_version_id ap = lp_id (au_version au)
     \<and> ap_accepted_index ap = pb_acceptedIndex (au_projection au)
     \<and> ap_operator_id_hash ap \<noteq> None \<and> ap_reason_code ap = None"

definition validateConsumedApproval :: "db \<Rightarrow> authority \<Rightarrow> string \<Rightarrow> approval_row option res" where
  "validateConsumedApproval db au at =
     (let rows = filter (\<lambda>a. ap_intent_id a = si_id (au_intent au)) (db_approvals db) in
      if pd_decision (au_decision au) = ''allow'' then
        if rows \<noteq> [] then fail ''APPROVAL_BINDING_MISMATCH'' else Inr None
      else
        case rows of
          [ap] \<Rightarrow>
            andthen (safeInteger (JBig (ap_accepted_index ap)) ''APPROVAL_BINDING_MISMATCH'') (\<lambda>_.
            andthen (canonicalPersistedTimestamp (JStr (ap_expires_at ap))
                       ''APPROVAL_BINDING_MISMATCH'') (\<lambda>expiresAt.
            andthen (canonicalPersistedTimestamp (option_string (ap_decided_at ap))
                       ''APPROVAL_BINDING_MISMATCH'') (\<lambda>decidedAt.
            andthen (canonicalPersistedTimestamp (option_string (ap_consumed_at ap))
                       ''APPROVAL_BINDING_MISMATCH'') (\<lambda>consumedAt.
            if \<not> approvalBound au ap
               \<or> date_ms consumedAt < date_ms decidedAt
               \<or> date_ms expiresAt \<le> date_ms consumedAt
               \<or> date_ms at < date_ms consumedAt
               \<or> date_ms expiresAt \<le> date_ms at
            then fail ''APPROVAL_BINDING_MISMATCH''
            else
              andthen (canonicalToken (JStr (ap_id ap))) (\<lambda>_.
              andthen (canonicalHash (option_string (ap_operator_id_hash ap))
                         ''APPROVAL_BINDING_MISMATCH'') (\<lambda>_.
              Inr (Some ap) ))))))
        | _ \<Rightarrow> fail ''APPROVAL_REQUIRED'')"

text \<open>The persisted formats of intent, session and decision, and the decision's amount.\<close>

definition authorityFields ::
  "host \<Rightarrow> intent_row \<Rightarrow> session_row \<Rightarrow> decision_row \<Rightarrow> (string \<times> string \<times> string) res" where
  "authorityFields h intent session decision =
     andthen (canonicalToken (JStr (ss_id session))) (\<lambda>_.
     andthen (canonicalOrigin h (JStr (si_seller_origin intent)) ''BUDGET_CORRUPTION'') (\<lambda>_.
     andthen (ledgerAddress (JStr (ss_wallet_address session)) ''BUDGET_CORRUPTION'') (\<lambda>_.
     andthen (ledgerAddress (JStr (si_wallet_address intent)) ''BUDGET_CORRUPTION'') (\<lambda>_.
     andthen (canonicalHash (JStr (si_enrollment_hash intent)) ''BUDGET_CORRUPTION'') (\<lambda>_.
     andthen (canonicalHash (JStr (si_intent_hash intent)) ''BUDGET_CORRUPTION'') (\<lambda>_.
     andthen (canonicalHash (option_string (si_challenge_hash intent)) ''BUDGET_CORRUPTION'') (\<lambda>_.
     andthen (canonicalPersistedTimestamp (JStr (si_created_at intent)) ''BUDGET_CORRUPTION'') (\<lambda>_.
     andthen (canonicalPersistedTimestamp (JStr (si_updated_at intent)) ''BUDGET_CORRUPTION'') (\<lambda>_.
     andthen (canonicalPersistedTimestamp (option_string (si_challenge_received_at intent))
                ''BUDGET_CORRUPTION'') (\<lambda>challengeReceivedAt.
     andthen (canonicalPersistedTimestamp (JStr (ss_created_at session)) ''BUDGET_CORRUPTION'') (\<lambda>_.
     andthen (canonicalPersistedTimestamp (JStr (pd_decided_at decision)) ''BUDGET_CORRUPTION'')
       (\<lambda>decidedAt.
     andthen (canonicalAtomicText (JStr (pd_amount_ceiling_atomic decision))
                ''POLICY_DECISION_CORRUPTION'') (\<lambda>amount.
     Inr (challengeReceivedAt, decidedAt, amount) )))))))))))))"

text \<open>The decision authorises spending, under the policy its session runs.\<close>

definition authorityDecision ::
  "db \<Rightarrow> bool \<Rightarrow> intent_row \<Rightarrow> session_row \<Rightarrow> decision_row \<Rightarrow> loaded_policy \<Rightarrow> string \<Rightarrow> unit res" where
  "authorityDecision db requireReservable intent session decision version amount =
     (if requireReservable \<and> (pd_decision decision = ''deny'' \<or> text_int amount = 0)
      then fail ''POLICY_DENIED''
      else if pd_decision decision \<noteq> ''allow'' \<and> pd_decision decision \<noteq> ''approval_required''
      then fail ''POLICY_DECISION_CORRUPTION''
      else if (pd_decision decision = ''allow'' \<and> pd_reason_code decision \<noteq> ''WITHIN_AUTO_LIMIT'')
              \<or> (pd_decision decision = ''approval_required''
                 \<and> pd_reason_code decision \<noteq> ''HUMAN_APPROVAL_REQUIRED'')
      then fail ''POLICY_DECISION_CORRUPTION''
      else if ss_policy_version_id session \<noteq> lp_id version
              \<or> pd_policy_version_id decision \<noteq> lp_id version
              \<or> ss_wallet_address session \<noteq> p_wallet (lp_policy version)
              \<or> si_wallet_address intent \<noteq> ss_wallet_address session
      then fail ''POLICY_DECISION_CORRUPTION''
      else if requireReservable \<and> map_of (db_metadata db) ''active_policy_id'' \<noteq> Some (lp_id version)
      then fail ''POLICY_NOT_ACTIVE''
      else if requireReservable
              \<and> (si_state intent \<noteq> ''authorized'' \<or> ss_state session \<noteq> ''open''
                 \<or> ss_closed_at session \<noteq> None)
      then fail ''INTENT_STATE_CONFLICT''
      else Inr ())"

text \<open>The amount is within the immutable policy, and the clock within the challenge's life.\<close>

definition authorityLimits ::
  "bool \<Rightarrow> string \<Rightarrow> decision_row \<Rightarrow> policy \<Rightarrow> seller \<Rightarrow> int \<Rightarrow> string \<Rightarrow> string \<Rightarrow> unit res" where
  "authorityLimits requireReservable at decision p seller amount challengeReceivedAt decidedAt =
     (let automatic = text_int (s_autoApproveAtomic seller);
          human = text_int (s_humanApproveAtomic seller);
          perRequest = text_int (s_perRequestMaxAtomic seller)
      in if date_ms decidedAt < date_ms challengeReceivedAt
            \<or> (pd_decision decision = ''allow'' \<and> automatic < amount)
            \<or> (pd_decision decision = ''approval_required''
               \<and> (amount \<le> automatic \<or> human < amount \<or> perRequest < amount))
         then fail ''POLICY_DECISION_CORRUPTION''
         else if requireReservable
                 \<and> (date_ms at < date_ms challengeReceivedAt \<or> date_ms at < date_ms decidedAt)
         then fail ''BUDGET_TIME''
         else if requireReservable
                 \<and> p_challengeMaxAgeMs p < date_ms at - date_ms challengeReceivedAt
         then fail ''CHALLENGE_EXPIRED''
         else Inr ())"

definition loadReservationAuthority ::
  "host \<Rightarrow> db \<Rightarrow> string \<Rightarrow> bool \<Rightarrow> string \<Rightarrow> authority res" where
  "loadReservationAuthority h db intentId requireReservable at =
     andthen (canonicalToken (JStr intentId)) (\<lambda>id.
     case select_one (\<lambda>r. si_id r = id) (db_intents db) of
       None \<Rightarrow> fail ''INTENT_UNKNOWN''
     | Some intent \<Rightarrow>
         (case select_one (\<lambda>r. ss_id r = si_session_id intent) (db_sessions db) of
            None \<Rightarrow> fail ''SESSION_UNKNOWN''
          | Some session \<Rightarrow>
              (case select_one (\<lambda>r. pd_intent_id r = id) (db_decisions db) of
                 None \<Rightarrow> fail ''POLICY_DECISION_MISSING''
               | Some decision \<Rightarrow>
                   andthen (loadPolicyVersion h db (pd_policy_version_id decision)) (\<lambda>version.
                   andthen (authorityFields h intent session decision)
                     (\<lambda>(challengeReceivedAt, decidedAt, amount).
                   andthen (authorityDecision db requireReservable intent session decision version
                              amount) (\<lambda>_.
                   andthen (validateEnrollmentAndBinding h db intent session requireReservable)
                     (\<lambda>enrollment.
                   andthen (validateProjectionBinding h intent decision version) (\<lambda>projection.
                   andthen (authorityLimits requireReservable at decision (lp_policy version)
                              (pb_seller projection) (text_int amount) challengeReceivedAt decidedAt)
                     (\<lambda>_.
                   let au = \<lparr>au_intent = intent, au_session = session, au_decision = decision,
                             au_version = version, au_projection = projection,
                             au_enrollment = enrollment, au_amount = amount\<rparr> in
                   if requireReservable
                   then andthen (validateConsumedApproval db au at) (\<lambda>_. Inr au)
                   else Inr au )))))))))"

end
