(* ===== verification/LedgerAttempt.thy ===== *)
theory LedgerAttempt
  imports LedgerAuthority
begin

text \<open>
  The validators of persisted payment attempts in \<^verbatim>\<open>src/kernel/budget-ledger.mjs\<close>: the signed
  payload against the authority it was signed under, and the attempt row in every state of its
  life: reserved, signing, signed, retrying, unresolved, settled or rejected.
\<close>

section \<open>Records of persisted JSON\<close>

text \<open>\<^verbatim>\<open>exactObject\<close>: any schema error becomes the given code, which is \<^verbatim>\<open>exactRecord\<close>'s own.\<close>

definition exactObject ::
  "jsval \<Rightarrow> string list \<Rightarrow> string list \<Rightarrow> string \<Rightarrow> (string \<times> jsval) list res" where
  "exactObject value required optional code =
     rethrow_as code (exactRecord value required optional code)"

definition signature_pattern :: "string \<Rightarrow> bool" where
  "signature_pattern s \<longleftrightarrow> length s = 132 \<and> take 2 s = ''0x'' \<and> list_all is_hex (drop 2 s)"

definition text_matches :: "(string \<Rightarrow> bool) \<Rightarrow> jsval \<Rightarrow> bool" where
  "text_matches P v = (case v of JStr s \<Rightarrow> P s | _ \<Rightarrow> False)"

section \<open>The signed payload\<close>

definition resourceBound :: "host \<Rightarrow> authority \<Rightarrow> (string \<times> jsval) list \<Rightarrow> bool" where
  "resourceBound h au resource \<longleftrightarrow>
     (case get_prop resource ''url'' of
        JStr url \<Rightarrow>
          (case h_url h url None of
             None \<Rightarrow> False
           | Some resourceUrl \<Rightarrow>
               u_href resourceUrl = url
               \<and> u_origin resourceUrl = si_seller_origin (au_intent au)
               \<and> u_pathname resourceUrl = si_resource_path (au_intent au)
               \<and> u_username resourceUrl = [] \<and> u_password resourceUrl = []
               \<and> u_hash resourceUrl = []
               \<and> h_sha256 h url = si_request_url_hash (au_intent au)
               \<and> get_prop resource ''description''
                   = JStr (pj_description (pb_projection (au_projection au)))
               \<and> get_prop resource ''mimeType''
                   = JStr (pj_mimeType (pb_projection (au_projection au))))
      | _ \<Rightarrow> False)"

definition authorizationBound ::
  "authority \<Rightarrow> attempt_row \<Rightarrow> (string \<times> jsval) list \<Rightarrow> string \<Rightarrow> string \<Rightarrow> bool" where
  "authorizationBound au attempt authorization validAfter validBefore \<longleftrightarrow>
     ledgerAddress (get_prop authorization ''from'') ''PAYMENT_ATTEMPT_CORRUPTION''
       = Inr (ss_wallet_address (au_session au))
     \<and> ledgerAddress (get_prop authorization ''to'') ''PAYMENT_ATTEMPT_CORRUPTION''
         = Inr (c_payTo (pb_selected (au_projection au)))
     \<and> canonicalAtomicText (get_prop authorization ''value'') ''PAYMENT_ATTEMPT_CORRUPTION''
         = Inr (au_amount au)
     \<and> text_matches evm_canonical_hash (get_prop authorization ''nonce'')
     \<and> get_prop authorization ''nonce'' = option_string (pa_nonce attempt)
     \<and> Some validAfter = pa_valid_after attempt
     \<and> Some validBefore = pa_valid_before attempt
     \<and> text_int validAfter < text_int validBefore"

definition validatePaymentPayload ::
  "host \<Rightarrow> string \<Rightarrow> authority \<Rightarrow> attempt_row \<Rightarrow> jsval res" where
  "validatePaymentPayload h bytes au attempt =
     (let code = ''PAYMENT_ATTEMPT_CORRUPTION'' in
      andthen (parseCanonicalJson bytes code) (\<lambda>parsed.
      andthen (exactObject parsed [''x402Version'', ''resource'', ''accepted'', ''payload''] [] code)
        (\<lambda>payment.
      andthen (exactObject (get_prop payment ''resource'') [''url'', ''description'', ''mimeType'']
                 [] code) (\<lambda>resource.
      andthen (exactObject (get_prop payment ''accepted'')
                 [''scheme'', ''network'', ''asset'', ''amount'', ''payTo'', ''maxTimeoutSeconds'',
                  ''extra''] [] code) (\<lambda>accepted.
      andthen (exactObject (get_prop accepted ''extra'') [''name'', ''version'']
                 [''assetTransferMethod''] code) (\<lambda>extra.
      andthen (exactObject (get_prop payment ''payload'') [''signature'', ''authorization''] [] code)
        (\<lambda>payload.
      andthen (exactObject (get_prop payload ''authorization'')
                 [''from'', ''to'', ''value'', ''validAfter'', ''validBefore'', ''nonce''] [] code)
        (\<lambda>authorization.
      andthen (canonicalAtomicText (get_prop authorization ''validAfter'') code) (\<lambda>validAfter.
      andthen (canonicalAtomicText (get_prop authorization ''validBefore'') code) (\<lambda>validBefore.
      andthen (canonicalJson (JObj (set_entry ''extra'' (JObj extra) accepted))) (\<lambda>acceptedBytes.
      andthen (canonicalJson (candidate_js (pb_selected (au_projection au)))) (\<lambda>selectedBytes.
      if get_prop payment ''x402Version'' \<noteq> JNum 2
         \<or> \<not> resourceBound h au resource
         \<or> acceptedBytes \<noteq> selectedBytes
         \<or> \<not> text_matches signature_pattern (get_prop payload ''signature'')
         \<or> \<not> authorizationBound au attempt authorization validAfter validBefore
      then fail code else Inr parsed ))))))))))))"

section \<open>The attempt row\<close>

definition claimFields :: "attempt_row \<Rightarrow> string option list" where
  "claimFields row =
     [pa_nonce row, pa_valid_after row, pa_valid_before row, pa_signing_claimed_at row]"

definition signedPayloadFields :: "attempt_row \<Rightarrow> string option list" where
  "signedPayloadFields row =
     [pa_payment_payload_json row, pa_payment_header row, pa_payment_hash row, pa_signed_at row]"

definition all_present :: "string option list \<Rightarrow> bool" where
  "all_present xs = list_all (\<lambda>x. x \<noteq> None) xs"

definition all_absent :: "string option list \<Rightarrow> bool" where
  "all_absent xs = list_all (\<lambda>x. x = None) xs"

text \<open>None of the fields a paid retry or a settlement writes.\<close>

definition no_aftermath :: "attempt_row \<Rightarrow> bool" where
  "no_aftermath row \<longleftrightarrow>
     pa_retry_started_at row = None \<and> pa_settlement_json row = None
     \<and> pa_transaction_id row = None \<and> pa_settled_at row = None"

definition stable_reason :: "string option \<Rightarrow> bool" where
  "stable_reason r = (case r of None \<Rightarrow> False | Some s \<Rightarrow> upper_code_pattern s)"

definition time_of :: "string option \<Rightarrow> int" where
  "time_of t = (case t of None \<Rightarrow> 0 | Some s \<Rightarrow> date_ms s)"

definition ascii_printable :: "char \<Rightarrow> bool" where
  "ascii_printable c \<longleftrightarrow> 32 \<le> code_of c \<and> code_of c \<le> 126"

definition header_ok :: "string option \<Rightarrow> bool" where
  "header_ok v =
     (case v of
        None \<Rightarrow> False
      | Some s \<Rightarrow> s \<noteq> [] \<and> utf8_length s \<le> 16384 \<and> list_all ascii_printable s)"

text \<open>The binding and the times every attempt must have; the result is the creation time and the update
  time.\<close>

definition attemptBinding :: "authority \<Rightarrow> attempt_row \<Rightarrow> (string \<times> string) res" where
  "attemptBinding au row =
     (let code = ''PAYMENT_ATTEMPT_CORRUPTION'' in
      andthen (canonicalToken (JStr (pa_id row))) (\<lambda>_.
      andthen (safeInteger (JBig (pa_accepted_index row)) code) (\<lambda>acceptedIndex.
      if pa_intent_id row \<noteq> si_id (au_intent au)
         \<or> Some (pa_payment_required_projection_json row)
             \<noteq> si_challenge_projection_json (au_intent au)
         \<or> acceptedIndex \<noteq> pb_acceptedIndex (au_projection au)
         \<or> Some (pa_quote_id row) \<noteq> pd_quote_id (au_decision au)
      then fail code
      else
        andthen (canonicalPersistedTimestamp (JStr (pa_created_at row)) code) (\<lambda>createdAt.
        andthen (canonicalPersistedTimestamp (JStr (pa_updated_at row)) code) (\<lambda>updatedAt.
        if date_ms updatedAt < date_ms createdAt then fail code else Inr (createdAt, updatedAt) )))))"

text \<open>The chronology and the outcome fields of an attempt whose payload is signed.\<close>

definition retryChronology :: "attempt_row \<Rightarrow> string \<Rightarrow> string \<Rightarrow> unit res" where
  "retryChronology row signedAt updatedAt =
     (let code = ''PAYMENT_ATTEMPT_CORRUPTION'';
          needsRetry = pa_state row \<in> {''retrying'', ''settled''}
            \<or> (pa_state row \<in> {''unresolved'', ''rejected''} \<and> pa_retry_started_at row \<noteq> None)
      in if needsRetry then
           andthen (canonicalPersistedTimestamp (option_string (pa_retry_started_at row)) code)
             (\<lambda>retryStartedAt.
           if date_ms retryStartedAt < date_ms signedAt \<or> date_ms updatedAt < date_ms retryStartedAt
           then fail code else Inr ())
         else if pa_retry_started_at row \<noteq> None then fail code
         else Inr ())"

definition settlementFields :: "attempt_row \<Rightarrow> string \<Rightarrow> unit res" where
  "settlementFields row updatedAt =
     (let code = ''PAYMENT_ATTEMPT_CORRUPTION'' in
      if pa_state row = ''settled'' then
        (case (pa_settlement_json row, pa_transaction_id row, pa_settled_at row) of
           (Some settlement, Some transactionId, Some settled) \<Rightarrow>
             andthen (parseCanonicalJson settlement code) (\<lambda>_.
             andthen (canonicalEvmHashFor (JStr transactionId) code) (\<lambda>canonical.
             if canonical \<noteq> transactionId then fail code
             else
               andthen (canonicalPersistedTimestamp (JStr settled) code) (\<lambda>settledAt.
               if date_ms settledAt < time_of (pa_retry_started_at row)
                  \<or> date_ms updatedAt < date_ms settledAt \<or> settledAt \<noteq> updatedAt
               then fail code
               else if pa_reason_code row \<noteq> None
                       \<and> pa_reason_code row \<noteq> Some ''TRUSTED_RECONCILIATION''
               then fail code else Inr ())))
         | _ \<Rightarrow> fail code)
      else if pa_settlement_json row \<noteq> None \<or> pa_transaction_id row \<noteq> None
              \<or> pa_settled_at row \<noteq> None
      then fail code else Inr ())"

definition signedAttempt ::
  "host \<Rightarrow> authority \<Rightarrow> attempt_row \<Rightarrow> string \<Rightarrow> string \<Rightarrow> (attempt_row \<times> jsval option) res" where
  "signedAttempt h au row signingClaimedAt updatedAt =
     (let code = ''PAYMENT_ATTEMPT_CORRUPTION'' in
      case (pa_payment_header row, pa_payment_payload_json row) of
        (Some header, Some bytes) \<Rightarrow>
          if \<not> all_present (signedPayloadFields row) \<or> \<not> header_ok (Some header) then fail code
          else
            andthen (canonicalHash (option_string (pa_payment_hash row)) code) (\<lambda>paymentHash.
            if h_sha256 h header \<noteq> paymentHash then fail code
            else
              andthen (canonicalPersistedTimestamp (option_string (pa_signed_at row)) code)
                (\<lambda>signedAt.
              if date_ms signedAt < date_ms signingClaimedAt \<or> date_ms updatedAt < date_ms signedAt
              then fail code
              else
                andthen (retryChronology row signedAt updatedAt) (\<lambda>_.
                andthen (validatePaymentPayload h bytes au row) (\<lambda>paymentPayload.
                andthen (settlementFields row updatedAt) (\<lambda>_.
                if pa_state row = ''rejected'' \<and> \<not> stable_reason (pa_reason_code row)
                then fail code else Inr (row, Some paymentPayload) )))))
      | _ \<Rightarrow> fail code)"

text \<open>
  \<^verbatim>\<open>validatePaymentAttempt\<close>: the row of the intent in one of the allowed states, its payload when it
  carries one.
\<close>

definition validateAttemptRow ::
  "host \<Rightarrow> authority \<Rightarrow> attempt_row \<Rightarrow> (attempt_row \<times> jsval option) res" where
  "validateAttemptRow h au row =
     (let code = ''PAYMENT_ATTEMPT_CORRUPTION'' in
      andthen (attemptBinding au row) (\<lambda>(createdAt, updatedAt).
      let fullClaim = all_present (claimFields row); noClaim = all_absent (claimFields row);
          fullSignedPayload = all_present (signedPayloadFields row);
          noSignedPayload = all_absent (signedPayloadFields row) in
      if (\<not> fullClaim \<and> \<not> noClaim) \<or> (\<not> fullSignedPayload \<and> \<not> noSignedPayload) then fail code
      else if fullSignedPayload \<and> \<not> fullClaim then fail code
      else if pa_state row = ''reserved'' then
        if \<not> noClaim \<or> \<not> noSignedPayload \<or> \<not> no_aftermath row then fail code else Inr (row, None)
      else if pa_state row = ''rejected'' \<and> noClaim \<and> noSignedPayload then
        if \<not> no_aftermath row \<or> \<not> stable_reason (pa_reason_code row)
        then fail code else Inr (row, None)
      else if \<not> fullClaim then fail code
      else
        andthen (canonicalPersistedTimestamp (option_string (pa_signing_claimed_at row)) code)
          (\<lambda>signingClaimedAt.
        if date_ms signingClaimedAt < date_ms createdAt
           \<or> date_ms updatedAt < date_ms signingClaimedAt
        then fail code
        else if \<not> evm_canonical_hash (the (pa_nonce row))
                \<or> \<not> decimal_pattern (the (pa_valid_after row))
                \<or> \<not> decimal_pattern (the (pa_valid_before row))
                \<or> text_int (the (pa_valid_before row)) \<le> text_int (the (pa_valid_after row))
        then fail code
        else if pa_state row = ''signing'' \<and> fullSignedPayload then fail code
        else if noSignedPayload \<and> pa_state row \<in> {''signing'', ''unresolved'', ''rejected''} then
          if \<not> no_aftermath row then fail code
          else if pa_state row = ''rejected'' \<and> \<not> stable_reason (pa_reason_code row)
          then fail code else Inr (row, None)
        else signedAttempt h au row signingClaimedAt updatedAt)))"

definition validatePaymentAttempt ::
  "host \<Rightarrow> db \<Rightarrow> authority \<Rightarrow> string list \<Rightarrow> (attempt_row \<times> jsval option) res" where
  "validatePaymentAttempt h db au allowedStates =
     (case select_one (\<lambda>a. pa_intent_id a = si_id (au_intent au)) (db_attempts db) of
        None \<Rightarrow> fail ''PAYMENT_ATTEMPT_MISSING''
      | Some row \<Rightarrow>
          if pa_state row \<notin> set allowedStates then fail ''PAYMENT_ATTEMPT_STATE''
          else validateAttemptRow h au row)"

section \<open>Settlement evidence\<close>

record settlement_evidence =
  se_headerHash :: string
  se_transaction :: string
  se_network :: string
  se_payer :: string
  se_amountAtomic :: "string option"
  se_paymentHash :: string

definition evidence_js :: "settlement_evidence \<Rightarrow> jsval" where
  "evidence_js e = JObj
     ([(''source'', JStr ''x402-payment-response''),
       (''headerHash'', JStr (se_headerHash e)),
       (''success'', JBool True),
       (''transaction'', JStr (se_transaction e)),
       (''network'', JStr (se_network e)),
       (''payer'', JStr (se_payer e))]
      @ (case se_amountAtomic e of None \<Rightarrow> [] | Some a \<Rightarrow> [(''amountAtomic'', JStr a)])
      @ [(''paymentHash'', JStr (se_paymentHash e))])"

text \<open>The classifier result is a frozen value; freezing is not part of the model's values.\<close>

definition validateSettlementEvidence :: "jsval \<Rightarrow> settlement_evidence res" where
  "validateSettlementEvidence value =
     (let code = ''SETTLEMENT_EVIDENCE'' in
      andthen (exactRecord value [''source'', ''headerHash'', ''success'', ''transaction'',
                 ''network'', ''payer'', ''paymentHash''] [''amountAtomic''] code) (\<lambda>record.
      if get_prop record ''source'' \<noteq> JStr ''x402-payment-response''
         \<or> get_prop record ''success'' \<noteq> JBool True
      then fail code
      else
        andthen (canonicalHash (get_prop record ''headerHash'') code) (\<lambda>headerHash.
        andthen (canonicalEvmHash (get_prop record ''transaction'')) (\<lambda>transaction.
        andthen (canonicalToken (get_prop record ''network'')) (\<lambda>network.
        andthen (ledgerAddress (get_prop record ''payer'') code) (\<lambda>payer.
        andthen (if has_own record ''amountAtomic''
                 then andthen (canonicalAtomicText (get_prop record ''amountAtomic'') code)
                        (\<lambda>a. Inr (Some a))
                 else Inr None) (\<lambda>amount.
        andthen (canonicalHash (get_prop record ''paymentHash'') code) (\<lambda>paymentHash.
        Inr \<lparr>se_headerHash = headerHash, se_transaction = transaction, se_network = network,
             se_payer = payer, se_amountAtomic = amount, se_paymentHash = paymentHash\<rparr> ))))))))"

end
