(* ===== verification/LedgerHistory.thy ===== *)
theory LedgerHistory
  imports LedgerAttempt
begin

text \<open>
  Budget rows and their event history in \<^verbatim>\<open>src/kernel/budget-ledger.mjs\<close>. A row is accepted only
  when its four amounts conserve the decision's ceiling in the disposition of its state, when the
  authority it was reserved under still holds, and when its events, its payment attempt and its
  execution and refund rows tell the one history that leads to that state.
\<close>

section \<open>Budget rows\<close>

text \<open>A row of \<^verbatim>\<open>BUDGET_ROWS_SQL\<close>: the reservation with its left-joined intent, session and decision.\<close>

record joined_budget =
  jb_row :: budget_row
  jb_intent :: "intent_row option"
  jb_session :: "session_row option"
  jb_decision_amount :: "string option"

definition joinBudget :: "db \<Rightarrow> budget_row \<Rightarrow> joined_budget" where
  "joinBudget db row =
     \<lparr>jb_row = row,
      jb_intent = select_one (\<lambda>r. si_id r = br_intent_id row) (db_intents db),
      jb_session = select_one (\<lambda>r. ss_id r = br_session_id row) (db_sessions db),
      jb_decision_amount =
        map_option pd_amount_ceiling_atomic
          (select_one (\<lambda>r. pd_intent_id r = br_intent_id row) (db_decisions db))\<rparr>"

record budget =
  bu_intentId :: string
  bu_sessionId :: string
  bu_sellerOrigin :: string
  bu_walletAddress :: string
  bu_reserved :: string
  bu_committed :: string
  bu_released :: string
  bu_unresolved :: string
  bu_ceiling :: string
  bu_state :: string
  bu_committedAt :: "string option"
  bu_updatedAt :: string

definition dispositions :: "string \<Rightarrow> int \<Rightarrow> (int \<times> int \<times> int \<times> int) option" where
  "dispositions state ceiling =
     (if state = ''reserved'' then Some (ceiling, 0, 0, 0)
      else if state = ''committed'' then Some (0, ceiling, 0, 0)
      else if state = ''released'' then Some (0, 0, ceiling, 0)
      else if state = ''unresolved'' then Some (0, 0, 0, ceiling)
      else None)"

definition validateBudgetRow :: "host \<Rightarrow> joined_budget \<Rightarrow> budget res" where
  "validateBudgetRow h raw =
     (let row = jb_row raw; code = ''BUDGET_CORRUPTION'' in
      andthen (canonicalToken (JStr (br_intent_id row))) (\<lambda>intentId.
      andthen (canonicalToken (JStr (br_session_id row))) (\<lambda>sessionId.
      andthen (canonicalOrigin h (JStr (br_seller_origin row)) code) (\<lambda>sellerOrigin.
      andthen (canonicalAtomicText (JStr (br_reserved_atomic row)) code) (\<lambda>reserved.
      andthen (canonicalAtomicText (JStr (br_committed_atomic row)) code) (\<lambda>committed.
      andthen (canonicalAtomicText (JStr (br_released_atomic row)) code) (\<lambda>released.
      andthen (canonicalAtomicText (JStr (br_unresolved_atomic row)) code) (\<lambda>unresolved.
      andthen (canonicalAtomicText (option_string (jb_decision_amount raw)) code) (\<lambda>ceiling.
      andthen (canonicalPersistedTimestamp (JStr (br_updated_at row)) code) (\<lambda>updatedAt.
      andthen (optionalTimestamp (br_committed_at row) code) (\<lambda>committedAt.
      if map_option si_session_id (jb_intent raw) \<noteq> Some sessionId
         \<or> map_option si_seller_origin (jb_intent raw) \<noteq> Some sellerOrigin
         \<or> map_option si_wallet_address (jb_intent raw)
             \<noteq> map_option ss_wallet_address (jb_session raw)
         \<or> text_int reserved + text_int committed + text_int released + text_int unresolved
             \<noteq> text_int ceiling
         \<or> text_int ceiling \<le> 0
      then fail code
      else
        case dispositions (br_state row) (text_int ceiling) of
          None \<Rightarrow> fail code
        | Some expected \<Rightarrow>
            if (text_int reserved, text_int committed, text_int released, text_int unresolved)
                 \<noteq> expected
               \<or> (br_state row = ''committed'' \<and> committedAt = None)
               \<or> (br_state row \<in> {''reserved'', ''unresolved''} \<and> committedAt \<noteq> None)
            then fail code
            else
              andthen (ledgerAddress (option_string (map_option ss_wallet_address (jb_session raw)))
                         code) (\<lambda>walletAddress.
              Inr \<lparr>bu_intentId = intentId, bu_sessionId = sessionId, bu_sellerOrigin = sellerOrigin,
                   bu_walletAddress = walletAddress, bu_reserved = reserved,
                   bu_committed = committed, bu_released = released, bu_unresolved = unresolved,
                   bu_ceiling = ceiling, bu_state = br_state row, bu_committedAt = committedAt,
                   bu_updatedAt = updatedAt\<rparr> ))))))))))))"

section \<open>Completeness of the event log\<close>

definition budget_events :: "db \<Rightarrow> event_row list" where
  "budget_events db = filter (\<lambda>e. ev_entity_type e = ''budget_reservation'') (db_events db)"

definition BUDGET_EVENT_TYPES :: "string list" where
  "BUDGET_EVENT_TYPES =
     [''budget.reserved'', ''budget.committed'', ''budget.released'', ''budget.held_unresolved'',
      ''budget.payment_resolved'', ''budget.refund_confirmed'']"

definition count_events :: "db \<Rightarrow> string \<Rightarrow> string \<Rightarrow> nat" where
  "count_events db entity type =
     length (filter (\<lambda>e. ev_entity_id e = entity \<and> ev_event_type e = type) (budget_events db))"

text \<open>
  Each event type occurs at most once per reservation, is one of the six, and every entity has its
  \<^verbatim>\<open>budget.reserved\<close> event and its one row. Every failure has the same code, so checking event by
  event instead of group by group changes nothing.
\<close>

definition validateBudgetEventCompleteness :: "db \<Rightarrow> unit res" where
  "validateBudgetEventCompleteness db =
     andthen
       (check_each
          (\<lambda>e. andthen (rethrow_as ''BUDGET_CORRUPTION'' (canonicalToken (JStr (ev_entity_id e))))
             (\<lambda>intentId.
             if ev_event_type e \<notin> set BUDGET_EVENT_TYPES
                \<or> count_events db intentId (ev_event_type e) \<noteq> 1
             then fail ''BUDGET_CORRUPTION'' else Inr ()))
          (budget_events db))
       (\<lambda>_. check_each
          (\<lambda>e. if count_events db (ev_entity_id e) ''budget.reserved'' \<noteq> 1
                  \<or> length (filter (\<lambda>r. br_intent_id r = ev_entity_id e) (db_budgets db)) \<noteq> 1
               then fail ''BUDGET_CORRUPTION'' else Inr ())
          (budget_events db))"

definition validateHistoricalBudgetAuthority :: "host \<Rightarrow> db \<Rightarrow> budget \<Rightarrow> authority res" where
  "validateHistoricalBudgetAuthority h db row =
     andthen (rethrow_as ''BUDGET_CORRUPTION''
                (loadReservationAuthority h db (bu_intentId row) False [])) (\<lambda>au.
     if si_id (au_intent au) \<noteq> bu_intentId row
        \<or> si_session_id (au_intent au) \<noteq> bu_sessionId row
        \<or> ss_id (au_session au) \<noteq> bu_sessionId row
        \<or> si_seller_origin (au_intent au) \<noteq> bu_sellerOrigin row
        \<or> si_wallet_address (au_intent au) \<noteq> bu_walletAddress row
        \<or> ss_wallet_address (au_session au) \<noteq> bu_walletAddress row
        \<or> p_wallet (lp_policy (au_version au)) \<noteq> bu_walletAddress row
        \<or> au_amount au \<noteq> bu_ceiling row
     then fail ''BUDGET_CORRUPTION'' else Inr au)"

section \<open>The events of a reservation\<close>

text \<open>\<^verbatim>\<open>loadBudgetEvent\<close>: the parsed data of the one such event, \<^const>\<open>JNull\<close> when there is none.\<close>

definition loadBudgetEvent :: "db \<Rightarrow> string \<Rightarrow> string \<Rightarrow> jsval res" where
  "loadBudgetEvent db intentId eventType =
     (case filter (\<lambda>e. ev_entity_type e = ''budget_reservation'' \<and> ev_entity_id e = intentId
                      \<and> ev_event_type e = eventType) (db_events db) of
        [] \<Rightarrow> Inr JNull
      | [e] \<Rightarrow> parseCanonicalJson (ev_data_json e) ''BUDGET_CORRUPTION''
      | _ \<Rightarrow> fail ''BUDGET_CORRUPTION'')"

text \<open>A property of a parsed value that may not be an object.\<close>

definition prop_of :: "jsval \<Rightarrow> string \<Rightarrow> jsval" where
  "prop_of v k = (case v of JObj kvs \<Rightarrow> get_prop kvs k | _ \<Rightarrow> JUndef)"

definition stableReason :: "jsval \<Rightarrow> unit res" where
  "stableReason v =
     (if \<not> text_matches upper_code_pattern v then fail ''BUDGET_CORRUPTION'' else Inr ())"

definition validateReserveEvent :: "host \<Rightarrow> budget \<Rightarrow> jsval \<Rightarrow> string res" where
  "validateReserveEvent h row raw =
     (let code = ''BUDGET_CORRUPTION'' in
      andthen (exactObject raw [''sessionId'', ''sellerOrigin'', ''amountAtomic'',
                 ''previousState'', ''nextState'', ''updatedAt''] [] code) (\<lambda>reserve.
      andthen (canonicalPersistedTimestamp (get_prop reserve ''updatedAt'') code) (\<lambda>reserveAt.
      andthen (canonicalToken (get_prop reserve ''sessionId'')) (\<lambda>sessionId.
      if sessionId \<noteq> bu_sessionId row then fail code
      else
        andthen (canonicalOrigin h (get_prop reserve ''sellerOrigin'') code) (\<lambda>sellerOrigin.
        andthen (canonicalAtomicText (get_prop reserve ''amountAtomic'') code) (\<lambda>amount.
        if sellerOrigin \<noteq> bu_sellerOrigin row \<or> amount \<noteq> bu_ceiling row
           \<or> get_prop reserve ''previousState'' \<noteq> JNull
           \<or> get_prop reserve ''nextState'' \<noteq> JStr ''reserved''
           \<or> date_ms (bu_updatedAt row) < date_ms reserveAt
        then fail code else Inr reserveAt ))))))"

text \<open>A later event: \<^const>\<open>None\<close> when absent, its validated fields otherwise.\<close>

definition validateCommitEvent :: "budget \<Rightarrow> jsval \<Rightarrow> (string \<times> jsval) list option res" where
  "validateCommitEvent row raw =
     (let code = ''BUDGET_CORRUPTION'' in
      if raw = JNull then Inr None
      else
        andthen (exactObject raw [''amountAtomic'', ''transactionId'', ''paymentHash'',
                   ''headerHash'', ''previousState'', ''nextState'', ''committedAt''] [] code)
          (\<lambda>commit.
        andthen (canonicalEvmHashFor (get_prop commit ''transactionId'') code) (\<lambda>transactionId.
        andthen (canonicalAtomicText (get_prop commit ''amountAtomic'') code) (\<lambda>amount.
        andthen (canonicalHash (get_prop commit ''paymentHash'') code) (\<lambda>_.
        andthen (canonicalHash (get_prop commit ''headerHash'') code) (\<lambda>_.
        if get_prop commit ''transactionId'' \<noteq> JStr transactionId
           \<or> amount \<noteq> bu_ceiling row
           \<or> get_prop commit ''previousState'' \<noteq> JStr ''reserved''
           \<or> get_prop commit ''nextState'' \<noteq> JStr ''committed''
        then fail code
        else
          andthen (canonicalPersistedTimestamp (get_prop commit ''committedAt'') code) (\<lambda>_.
          Inr (Some commit) )))))))"

definition validateReleaseEvent ::
  "host \<Rightarrow> db \<Rightarrow> budget \<Rightarrow> authority \<Rightarrow> jsval \<Rightarrow> (string \<times> jsval) list option res" where
  "validateReleaseEvent h db row au raw =
     (let code = ''BUDGET_CORRUPTION'' in
      if raw = JNull then Inr None
      else
        andthen (exactObject raw [''amountAtomic'', ''reasonCode'', ''previousState'',
                   ''nextState'', ''releasedAt''] [] code) (\<lambda>rel.
        andthen (canonicalAtomicText (get_prop rel ''amountAtomic'') code) (\<lambda>amount.
        andthen (stableReason (get_prop rel ''reasonCode'')) (\<lambda>_.
        if amount \<noteq> bu_ceiling row
           \<or> get_prop rel ''previousState'' \<noteq> JStr ''reserved''
           \<or> get_prop rel ''nextState'' \<noteq> JStr ''released''
        then fail code
        else
          andthen (canonicalPersistedTimestamp (get_prop rel ''releasedAt'') code) (\<lambda>_.
          let preSign = (get_prop rel ''reasonCode'' = JStr ''WALLET_PRE_SIGN_REJECTED'') in
          case select_one (\<lambda>a. pa_intent_id a = bu_intentId row) (db_attempts db) of
            None \<Rightarrow> if preSign then fail code else Inr (Some rel)
          | Some _ \<Rightarrow>
              andthen (rethrow_as code (validatePaymentAttempt h db au [''rejected'']))
                (\<lambda>(attempt, _).
              let hasClaimOnly = pa_signing_claimed_at attempt \<noteq> None
                    \<and> pa_payment_payload_json attempt = None in
              if pa_payment_payload_json attempt \<noteq> None
                 \<or> option_string (pa_reason_code attempt) \<noteq> get_prop rel ''reasonCode''
                 \<or> JStr (pa_updated_at attempt) \<noteq> get_prop rel ''releasedAt''
                 \<or> hasClaimOnly \<noteq> preSign
              then fail code else Inr (Some rel) ))))))"

definition validateHoldEvent :: "budget \<Rightarrow> jsval \<Rightarrow> (string \<times> jsval) list option res" where
  "validateHoldEvent row raw =
     (let code = ''BUDGET_CORRUPTION'' in
      if raw = JNull then Inr None
      else
        andthen (exactObject raw [''amountAtomic'', ''reasonCode'', ''previousState'',
                   ''nextState'', ''heldAt''] [] code) (\<lambda>hold.
        andthen (canonicalAtomicText (get_prop hold ''amountAtomic'') code) (\<lambda>amount.
        andthen (stableReason (get_prop hold ''reasonCode'')) (\<lambda>_.
        if amount \<noteq> bu_ceiling row
           \<or> get_prop hold ''previousState'' \<noteq> JStr ''reserved''
           \<or> get_prop hold ''nextState'' \<noteq> JStr ''unresolved''
        then fail code
        else
          andthen (canonicalPersistedTimestamp (get_prop hold ''heldAt'') code) (\<lambda>_.
          Inr (Some hold) )))))"

text \<open>The fields by outcome of a payment resolution, then the fields both outcomes share.\<close>

definition resolutionFields :: "jsval \<Rightarrow> (string \<times> jsval) list res" where
  "resolutionFields raw =
     (let code = ''BUDGET_CORRUPTION'' in
      if prop_of raw ''outcome'' = JStr ''settled'' then
        andthen (exactObject raw [''evidenceId'', ''outcome'', ''transactionId'', ''amountAtomic'',
                   ''previousState'', ''nextState'', ''buyerOutcomeRevision'', ''resolvedAt''] []
                   code) (\<lambda>res.
        andthen (canonicalEvmHashFor (get_prop res ''transactionId'') code) (\<lambda>transactionId.
        if get_prop res ''transactionId'' \<noteq> JStr transactionId
           \<or> get_prop res ''previousState'' \<noteq> JStr ''unresolved''
           \<or> get_prop res ''nextState'' \<noteq> JStr ''committed''
        then fail code else Inr res))
      else if prop_of raw ''outcome'' = JStr ''rejected'' then
        andthen (exactObject raw [''evidenceId'', ''outcome'', ''amountAtomic'', ''previousState'',
                   ''nextState'', ''buyerOutcomeRevision'', ''resolvedAt''] [] code) (\<lambda>res.
        if get_prop res ''previousState'' \<noteq> JStr ''unresolved''
           \<or> get_prop res ''nextState'' \<noteq> JStr ''released''
        then fail code else Inr res)
      else fail code)"

definition validateResolutionEvent :: "budget \<Rightarrow> jsval \<Rightarrow> (string \<times> jsval) list option res" where
  "validateResolutionEvent row raw =
     (let code = ''BUDGET_CORRUPTION'' in
      if raw = JNull then Inr None
      else
        andthen (resolutionFields raw) (\<lambda>res.
        andthen (canonicalToken (get_prop res ''evidenceId'')) (\<lambda>_.
        andthen (canonicalAtomicText (get_prop res ''amountAtomic'') code) (\<lambda>amount.
        andthen (safeInteger (get_prop res ''buyerOutcomeRevision'') code) (\<lambda>revision.
        if amount \<noteq> bu_ceiling row \<or> revision < 1 then fail code
        else
          andthen (canonicalPersistedTimestamp (get_prop res ''resolvedAt'') code) (\<lambda>_.
          Inr (Some res) ))))))"

definition validateRefundEvent :: "budget \<Rightarrow> jsval \<Rightarrow> (string \<times> jsval) list option res" where
  "validateRefundEvent row raw =
     (let code = ''BUDGET_CORRUPTION'' in
      if raw = JNull then Inr None
      else
        andthen (exactObject raw [''evidenceId'', ''originalTransactionId'',
                   ''refundTransactionId'', ''amountAtomic'', ''previousState'', ''nextState'',
                   ''buyerOutcomeRevision'', ''confirmedAt''] [] code) (\<lambda>refund.
        andthen (canonicalEvmHashFor (get_prop refund ''originalTransactionId'') code)
          (\<lambda>originalTransactionId.
        andthen (canonicalEvmHashFor (get_prop refund ''refundTransactionId'') code)
          (\<lambda>refundTransactionId.
        if get_prop refund ''originalTransactionId'' \<noteq> JStr originalTransactionId
           \<or> get_prop refund ''refundTransactionId'' \<noteq> JStr refundTransactionId
           \<or> originalTransactionId = refundTransactionId
        then fail code
        else
          andthen (canonicalAtomicText (get_prop refund ''amountAtomic'') code) (\<lambda>amount.
          if amount \<noteq> bu_ceiling row then fail code
          else
            andthen (canonicalToken (get_prop refund ''evidenceId'')) (\<lambda>_.
            andthen (safeInteger (get_prop refund ''buyerOutcomeRevision'') code) (\<lambda>revision.
            if revision < 1
               \<or> get_prop refund ''previousState'' \<noteq> JStr ''committed''
               \<or> get_prop refund ''nextState'' \<noteq> JStr ''released''
            then fail code
            else
              andthen (canonicalPersistedTimestamp (get_prop refund ''confirmedAt'') code) (\<lambda>_.
              Inr (Some refund) ))))))))"


section \<open>The history that leads to a state\<close>

record budget_history =
  hi_reserveAt :: string
  hi_commit :: "(string \<times> jsval) list option"
  hi_release :: "(string \<times> jsval) list option"
  hi_hold :: "(string \<times> jsval) list option"
  hi_resolution :: "(string \<times> jsval) list option"
  hi_refund :: "(string \<times> jsval) list option"

definition loadBudgetHistory :: "host \<Rightarrow> db \<Rightarrow> budget \<Rightarrow> authority \<Rightarrow> budget_history res" where
  "loadBudgetHistory h db row au =
     (let load = loadBudgetEvent db (bu_intentId row) in
      andthen (load ''budget.reserved'') (\<lambda>rawReserve.
      andthen (validateReserveEvent h row rawReserve) (\<lambda>reserveAt.
      andthen (load ''budget.committed'') (\<lambda>rawCommit.
      andthen (load ''budget.released'') (\<lambda>rawRelease.
      andthen (load ''budget.held_unresolved'') (\<lambda>rawHold.
      andthen (load ''budget.payment_resolved'') (\<lambda>rawResolution.
      andthen (load ''budget.refund_confirmed'') (\<lambda>rawRefund.
      andthen (validateCommitEvent row rawCommit) (\<lambda>commit.
      andthen (validateReleaseEvent h db row au rawRelease) (\<lambda>rel.
      andthen (validateHoldEvent row rawHold) (\<lambda>hold.
      andthen (validateResolutionEvent row rawResolution) (\<lambda>resolution.
      andthen (validateRefundEvent row rawRefund) (\<lambda>refund.
      Inr \<lparr>hi_reserveAt = reserveAt, hi_commit = commit, hi_release = rel, hi_hold = hold,
           hi_resolution = resolution, hi_refund = refund\<rparr> )))))))))))))"

text \<open>A field of an event that may be absent.\<close>

definition event_field :: "(string \<times> jsval) list option \<Rightarrow> string \<Rightarrow> jsval" where
  "event_field e k = (case e of None \<Rightarrow> JUndef | Some kvs \<Rightarrow> get_prop kvs k)"

definition resolution_outcome :: "budget_history \<Rightarrow> string \<Rightarrow> bool" where
  "resolution_outcome hi outcome \<longleftrightarrow> event_field (hi_resolution hi) ''outcome'' = JStr outcome"

text \<open>
  \<^verbatim>\<open>assertCommittedOrigin\<close>: committed value comes from exactly one direct commit or one settled
  reconciliation, and the payment attempt was settled by it.
\<close>

definition assertCommittedOrigin ::
  "host \<Rightarrow> db \<Rightarrow> budget \<Rightarrow> authority \<Rightarrow> budget_history \<Rightarrow> unit res" where
  "assertCommittedOrigin h db row au hi =
     (let code = ''BUDGET_CORRUPTION'';
          directCommit = hi_commit hi \<noteq> None \<and> hi_hold hi = None \<and> hi_resolution hi = None;
          reconciledCommit = hi_commit hi = None \<and> hi_hold hi \<noteq> None
            \<and> resolution_outcome hi ''settled'';
          committedAt = (if directCommit then event_field (hi_commit hi) ''committedAt''
                         else event_field (hi_resolution hi) ''resolvedAt'');
          transactionId = (if directCommit then event_field (hi_commit hi) ''transactionId''
                           else event_field (hi_resolution hi) ''transactionId'')
      in if \<not> directCommit \<and> \<not> reconciledCommit then fail code
         else if option_string (bu_committedAt row) \<noteq> committedAt then fail code
         else
           andthen (rethrow_as code (validatePaymentAttempt h db au [''settled''])) (\<lambda>(attempt, _).
           case pa_settlement_json attempt of
             None \<Rightarrow> fail code
           | Some settlement \<Rightarrow>
               if option_string (pa_transaction_id attempt) \<noteq> transactionId
                  \<or> option_string (pa_settled_at attempt) \<noteq> committedAt
               then fail code
               else andthen (parseCanonicalJson settlement code) (\<lambda>_. Inr ()) ))"

definition transition_time :: "attempt_row \<Rightarrow> string option" where
  "transition_time a =
     (if pa_state a = ''reserved'' then Some (pa_created_at a)
      else if pa_state a = ''signing'' then pa_signing_claimed_at a
      else if pa_state a = ''signed'' then pa_signed_at a
      else pa_retry_started_at a)"

definition reservedHistory ::
  "host \<Rightarrow> db \<Rightarrow> budget \<Rightarrow> authority \<Rightarrow> budget_history \<Rightarrow> unit res" where
  "reservedHistory h db row au hi =
     (let code = ''BUDGET_CORRUPTION'' in
      if hi_commit hi \<noteq> None \<or> hi_release hi \<noteq> None \<or> hi_hold hi \<noteq> None
         \<or> hi_resolution hi \<noteq> None \<or> hi_refund hi \<noteq> None \<or> bu_updatedAt row \<noteq> hi_reserveAt hi
      then fail code
      else
        case select_one (\<lambda>a. pa_intent_id a = bu_intentId row) (db_attempts db) of
          None \<Rightarrow> Inr ()
        | Some _ \<Rightarrow>
            andthen (rethrow_as code (validatePaymentAttempt h db au
                       [''reserved'', ''signing'', ''signed'', ''retrying''])) (\<lambda>(attempt, _).
            if date_ms (pa_created_at attempt) < date_ms (hi_reserveAt hi)
               \<or> Some (pa_updated_at attempt) \<noteq> transition_time attempt
               \<or> pa_reason_code attempt \<noteq> None
            then fail code else Inr ()))"

definition unresolvedHistory ::
  "host \<Rightarrow> db \<Rightarrow> budget \<Rightarrow> authority \<Rightarrow> budget_history \<Rightarrow> unit res" where
  "unresolvedHistory h db row au hi =
     (let code = ''BUDGET_CORRUPTION'';
          heldAt = event_field (hi_hold hi) ''heldAt'' in
      if hi_hold hi = None \<or> hi_commit hi \<noteq> None \<or> hi_release hi \<noteq> None
         \<or> hi_resolution hi \<noteq> None \<or> hi_refund hi \<noteq> None \<or> JStr (bu_updatedAt row) \<noteq> heldAt
      then fail code
      else
        case select_one (\<lambda>a. pa_intent_id a = bu_intentId row) (db_attempts db) of
          None \<Rightarrow> Inr ()
        | Some _ \<Rightarrow>
            andthen (rethrow_as code (validatePaymentAttempt h db au
                       [''signing'', ''signed'', ''retrying'', ''unresolved''])) (\<lambda>(attempt, _).
            if pa_state attempt = ''unresolved'' \<and> JStr (pa_updated_at attempt) \<noteq> heldAt
            then fail code else Inr ()))"

definition releasedHistory ::
  "host \<Rightarrow> db \<Rightarrow> budget \<Rightarrow> authority \<Rightarrow> budget_history \<Rightarrow> unit res" where
  "releasedHistory h db row au hi =
     (let code = ''BUDGET_CORRUPTION'' in
      if hi_release hi \<noteq> None then
        if hi_commit hi \<noteq> None \<or> hi_hold hi \<noteq> None \<or> hi_resolution hi \<noteq> None
           \<or> hi_refund hi \<noteq> None \<or> bu_committedAt row \<noteq> None
           \<or> JStr (bu_updatedAt row) \<noteq> event_field (hi_release hi) ''releasedAt''
        then fail code else Inr ()
      else if resolution_outcome hi ''rejected'' then
        if hi_hold hi = None \<or> hi_commit hi \<noteq> None \<or> hi_refund hi \<noteq> None
           \<or> bu_committedAt row \<noteq> None
           \<or> JStr (bu_updatedAt row) \<noteq> event_field (hi_resolution hi) ''resolvedAt''
        then fail code
        else
          andthen (rethrow_as code (validatePaymentAttempt h db au [''rejected'']))
            (\<lambda>(attempt, _).
          if JStr (pa_updated_at attempt) \<noteq> event_field (hi_resolution hi) ''resolvedAt''
          then fail code else Inr ())
      else if hi_refund hi \<noteq> None then
        andthen (assertCommittedOrigin h db row au hi) (\<lambda>_.
        if JStr (bu_updatedAt row) \<noteq> event_field (hi_refund hi) ''confirmedAt''
        then fail code else Inr ())
      else fail code)"

definition stateHistory ::
  "host \<Rightarrow> db \<Rightarrow> budget \<Rightarrow> authority \<Rightarrow> budget_history \<Rightarrow> unit res" where
  "stateHistory h db row au hi =
     (if bu_state row = ''reserved'' then reservedHistory h db row au hi
      else if bu_state row = ''unresolved'' then unresolvedHistory h db row au hi
      else if bu_state row = ''committed'' then
        andthen (assertCommittedOrigin h db row au hi) (\<lambda>_.
        if hi_release hi \<noteq> None \<or> hi_refund hi \<noteq> None
           \<or> Some (bu_updatedAt row) \<noteq> bu_committedAt row
        then fail ''BUDGET_CORRUPTION'' else Inr ())
      else if bu_state row = ''released'' then releasedHistory h db row au hi
      else fail ''BUDGET_CORRUPTION'')"

section \<open>Execution, resolution and refund rows\<close>

definition executionRow :: "outcome_row \<Rightarrow> unit res" where
  "executionRow x =
     (let code = ''BUDGET_CORRUPTION'' in
      if eo_state x \<notin> {''succeeded'', ''failed'', ''unknown''} then fail code
      else
        andthen (case eo_http_status x of
                   None \<Rightarrow> Inr ()
                 | Some n \<Rightarrow> andthen (safeInteger (JBig n) code)
                              (\<lambda>status. if status < 100 \<or> 599 < status then fail code else Inr ()))
          (\<lambda>_.
        andthen (case eo_response_hash x of
                   None \<Rightarrow> Inr []
                 | Some s \<Rightarrow> canonicalHash (JStr s) code) (\<lambda>_.
        andthen (parseCanonicalJson (eo_metadata_json x) code) (\<lambda>_.
        andthen (canonicalPersistedTimestamp (JStr (eo_recorded_at x)) code) (\<lambda>_. Inr () )))))"

definition resolutionRow :: "resolution_row \<Rightarrow> unit res" where
  "resolutionRow r =
     (let code = ''BUDGET_CORRUPTION'' in
      andthen (stableReason (JStr (er_reason_code r))) (\<lambda>_.
      andthen (canonicalPersistedTimestamp (JStr (er_opened_at r)) code) (\<lambda>openedAt.
      andthen (safeInteger (JBig (er_blocks_wallet r)) code) (\<lambda>blocksWallet.
      if er_state r \<notin> {''refund_pending'', ''reconciliation_required'', ''resolved''}
         \<or> 1 < blocksWallet
      then fail code
      else if er_state r = ''resolved'' then
        andthen (canonicalPersistedTimestamp (option_string (er_resolved_at r)) code)
          (\<lambda>resolvedAt.
        if blocksWallet \<noteq> 0 \<or> date_ms resolvedAt < date_ms openedAt then fail code else Inr ())
      else if blocksWallet \<noteq> 1 \<or> er_resolved_at r \<noteq> None then fail code
      else Inr () ))))"

definition refundRow :: "budget \<Rightarrow> string option \<Rightarrow> refund_row \<Rightarrow> unit res" where
  "refundRow bu paidTransaction r =
     (let code = ''BUDGET_CORRUPTION'' in
      andthen (canonicalToken (JStr (rf_id r))) (\<lambda>_.
      andthen (canonicalEvmHashFor (JStr (rf_original_transaction_id r)) code)
        (\<lambda>originalTransactionId.
      if rf_original_transaction_id r \<noteq> originalTransactionId
         \<or> rf_intent_id r \<noteq> bu_intentId bu
         \<or> rf_amount_atomic r \<noteq> bu_ceiling bu
         \<or> Some originalTransactionId \<noteq> paidTransaction
         \<or> rf_state r \<notin> {''pending'', ''unresolved'', ''abandoned'', ''confirmed'', ''rejected''}
      then fail code
      else
        andthen (canonicalPersistedTimestamp (JStr (rf_created_at r)) code) (\<lambda>createdAt.
        andthen (canonicalPersistedTimestamp (JStr (rf_updated_at r)) code) (\<lambda>updatedAt.
        if date_ms updatedAt < date_ms createdAt then fail code
        else
          andthen (case rf_refund_transaction_id r of
                     None \<Rightarrow> Inr ()
                   | Some t \<Rightarrow>
                       andthen (canonicalEvmHashFor (JStr t) code) (\<lambda>refundTransactionId.
                       if t \<noteq> refundTransactionId \<or> refundTransactionId = originalTransactionId
                       then fail code else Inr ())) (\<lambda>_.
          case rf_evidence_json r of
            None \<Rightarrow> Inr ()
          | Some e \<Rightarrow> andthen (parseCanonicalJson e code) (\<lambda>_. Inr ()) ))))))"

definition refunds_in :: "refund_row list \<Rightarrow> string list \<Rightarrow> refund_row list" where
  "refunds_in refunds states = filter (\<lambda>r. rf_state r \<in> set states) refunds"

definition state_in :: "'r option \<Rightarrow> ('r \<Rightarrow> string) \<Rightarrow> string list \<Rightarrow> bool" where
  "state_in row state states = (case row of None \<Rightarrow> False | Some r \<Rightarrow> state r \<in> set states)"

text \<open>The combinations of execution, resolution and refund rows the ledger accepts.\<close>

definition caseConsistent ::
  "budget \<Rightarrow> outcome_row option \<Rightarrow> resolution_row option \<Rightarrow> refund_row list \<Rightarrow> unit res" where
  "caseConsistent bu execution resolution refunds =
     (let code = ''BUDGET_CORRUPTION'';
          active = refunds_in refunds [''pending'', ''unresolved''];
          confirmed = refunds_in refunds [''confirmed''];
          terminalHistoryOnly = refunds \<noteq> [] \<and> active = [] \<and> confirmed = []
            \<and> list_all (\<lambda>r. rf_state r \<in> {''abandoned'', ''rejected''}
                           \<and> rf_refund_transaction_id r \<noteq> None) refunds
      in if (execution = None) \<noteq> (resolution = None \<and> refunds = []) \<and> execution = None
         then fail code
         else if execution = None \<and> (resolution \<noteq> None \<or> refunds \<noteq> []) then fail code
         else if state_in execution eo_state [''failed'']
                 \<and> \<not> state_in resolution er_state [''refund_pending'', ''resolved'']
         then fail code
         else if state_in execution eo_state [''unknown'']
                 \<and> \<not> state_in resolution er_state [''reconciliation_required'']
         then fail code
         else if state_in resolution er_state [''refund_pending''] then
           if \<not> state_in execution eo_state [''failed''] \<or> bu_state bu \<noteq> ''committed''
              \<or> (length active \<noteq> 1 \<and> \<not> terminalHistoryOnly) \<or> confirmed \<noteq> []
           then fail code else Inr ()
         else if state_in resolution er_state [''reconciliation_required''] then
           if \<not> state_in execution eo_state [''unknown''] \<or> bu_state bu \<noteq> ''committed''
              \<or> refunds \<noteq> []
           then fail code else Inr ()
         else if active \<noteq> [] then fail code
         else Inr ())"

text \<open>A resolved successful execution rests on exactly one attested reconciliation.\<close>

definition attestedSuccess ::
  "host \<Rightarrow> db \<Rightarrow> budget \<Rightarrow> outcome_row \<Rightarrow> resolution_row \<Rightarrow> unit res" where
  "attestedSuccess h db bu execution resolution =
     (let code = ''BUDGET_CORRUPTION'' in
      case filter (\<lambda>r. rr_intent_id r = bu_intentId bu \<and> rr_kind r = ''execution''
                      \<and> rr_outcome r = ''execution_succeeded'') (db_reconciliations db) of
        [reconciliation] \<Rightarrow>
          andthen (parseCanonicalJson (rr_evidence_json reconciliation) code) (\<lambda>evidence.
          andthen (exactObject evidence [''kind'', ''attestationHash'', ''attestation''] [] code)
            (\<lambda>proof.
          if get_prop proof ''kind'' \<noteq> JStr ''execution_attested'' then fail code
          else
            andthen (canonicalHash (get_prop proof ''attestationHash'') code) (\<lambda>attestationHash.
            andthen (canonicalJson (get_prop proof ''attestation'')) (\<lambda>bytes.
            if attestationHash \<noteq> h_sha256 h bytes
               \<or> rr_recorded_at reconciliation \<noteq> eo_recorded_at execution
               \<or> Some (rr_recorded_at reconciliation) \<noteq> er_resolved_at resolution
            then fail code else Inr () ))))
      | _ \<Rightarrow> fail code)"

definition withoutRefundEvent ::
  "host \<Rightarrow> db \<Rightarrow> budget \<Rightarrow> outcome_row option \<Rightarrow> resolution_row option \<Rightarrow> refund_row list
   \<Rightarrow> unit res" where
  "withoutRefundEvent h db bu execution resolution refunds =
     (let code = ''BUDGET_CORRUPTION'' in
      if state_in resolution er_state [''resolved''] then
        (case (execution, resolution) of
           (Some x, Some r) \<Rightarrow>
             if eo_state x = ''succeeded'' \<and> bu_state bu = ''committed'' \<and> refunds = []
             then attestedSuccess h db bu x r else fail code
         | _ \<Rightarrow> fail code)
      else if refunds_in refunds [''confirmed''] \<noteq> [] then fail code
      else Inr ())"

definition withRefundEvent ::
  "db \<Rightarrow> budget \<Rightarrow> (string \<times> jsval) list \<Rightarrow> outcome_row option \<Rightarrow> resolution_row option
   \<Rightarrow> refund_row list \<Rightarrow> unit res" where
  "withRefundEvent db bu event execution resolution refunds =
     (let code = ''BUDGET_CORRUPTION'' in
      case (refunds_in refunds [''confirmed''], resolution) of
        ([refund], Some r) \<Rightarrow>
          if \<not> state_in execution eo_state [''failed''] \<or> er_state r \<noteq> ''resolved''
             \<or> er_blocks_wallet r \<noteq> 0
             \<or> option_string (er_resolved_at r) \<noteq> get_prop event ''confirmedAt''
          then fail code
          else if JStr (rf_original_transaction_id refund)
                    \<noteq> get_prop event ''originalTransactionId''
                  \<or> option_string (rf_refund_transaction_id refund)
                      \<noteq> get_prop event ''refundTransactionId''
                  \<or> JStr (rf_updated_at refund) \<noteq> get_prop event ''confirmedAt''
                  \<or> rf_evidence_json refund = None
          then fail code
          else
            (case select_one (\<lambda>q. JStr (rr_id q) = get_prop event ''evidenceId'')
                    (db_reconciliations db) of
               None \<Rightarrow> fail code
             | Some q \<Rightarrow>
                 if rr_intent_id q \<noteq> bu_intentId bu \<or> rr_kind q \<noteq> ''refund''
                    \<or> rr_outcome q \<noteq> ''refund_confirmed''
                    \<or> Some (rr_evidence_json q) \<noteq> rf_evidence_json refund
                 then fail code else Inr ())
      | _ \<Rightarrow> fail code)"

definition validateResolutionAndRefundHistory ::
  "host \<Rightarrow> db \<Rightarrow> budget \<Rightarrow> (string \<times> jsval) list option \<Rightarrow> unit res" where
  "validateResolutionAndRefundHistory h db bu refundEvent =
     (let execution = select_one (\<lambda>r. eo_intent_id r = bu_intentId bu) (db_outcomes db);
          resolution = select_one (\<lambda>r. er_intent_id r = bu_intentId bu) (db_resolutions db);
          refunds = filter (\<lambda>r. rf_intent_id r = bu_intentId bu) (db_refunds db);
          paid = Option.bind (select_one (\<lambda>a. pa_intent_id a = bu_intentId bu) (db_attempts db))
                   pa_transaction_id
      in andthen (case execution of None \<Rightarrow> Inr () | Some x \<Rightarrow> executionRow x) (\<lambda>_.
         andthen (case resolution of None \<Rightarrow> Inr () | Some r \<Rightarrow> resolutionRow r) (\<lambda>_.
         andthen (check_each (refundRow bu paid) refunds) (\<lambda>_.
         andthen (caseConsistent bu execution resolution refunds) (\<lambda>_.
         case refundEvent of
           None \<Rightarrow> withoutRefundEvent h db bu execution resolution refunds
         | Some event \<Rightarrow> withRefundEvent db bu event execution resolution refunds )))))"

definition validateBudgetHistory :: "host \<Rightarrow> db \<Rightarrow> budget \<Rightarrow> authority \<Rightarrow> unit res" where
  "validateBudgetHistory h db row au =
     andthen (loadBudgetHistory h db row au) (\<lambda>hi.
     andthen (stateHistory h db row au hi) (\<lambda>_.
     validateResolutionAndRefundHistory h db row (hi_refund hi)))"

section \<open>Reading budget rows\<close>

definition readValidated :: "host \<Rightarrow> db \<Rightarrow> budget_row \<Rightarrow> budget res" where
  "readValidated h db raw =
     andthen (validateBudgetRow h (joinBudget db raw)) (\<lambda>row.
     andthen (validateHistoricalBudgetAuthority h db row) (\<lambda>au.
     andthen (validateBudgetHistory h db row au) (\<lambda>_. Inr row)))"

definition validatedBudgetRows ::
  "host \<Rightarrow> db \<Rightarrow> (budget_row \<Rightarrow> bool) \<Rightarrow> budget list res" where
  "validatedBudgetRows h db P =
     andthen (validateBudgetEventCompleteness db) (\<lambda>_.
     collect (readValidated h db) (sort_key br_intent_id (filter P (db_budgets db))))"

definition readBudgetRow :: "host \<Rightarrow> db \<Rightarrow> string \<Rightarrow> budget option res" where
  "readBudgetRow h db intentId =
     andthen (validatedBudgetRows h db (\<lambda>r. br_intent_id r = intentId)) (\<lambda>rows.
     case rows of
       [] \<Rightarrow> Inr None
     | [row] \<Rightarrow> Inr (Some row)
     | _ \<Rightarrow> fail ''BUDGET_CORRUPTION'')"

section \<open>Snapshots\<close>

record blockers =
  bl_unresolvedBudget :: bool
  bl_resolutionRequired :: bool

definition intent_wallet :: "db \<Rightarrow> string \<Rightarrow> string option" where
  "intent_wallet db intentId =
     Option.bind (select_one (\<lambda>i. si_id i = intentId) (db_intents db)) (\<lambda>i.
     map_option ss_wallet_address (select_one (\<lambda>s. ss_id s = si_session_id i) (db_sessions db)))"

definition walletBlockers :: "db \<Rightarrow> string \<Rightarrow> budget list \<Rightarrow> blockers" where
  "walletBlockers db walletAddress rows =
     \<lparr>bl_unresolvedBudget = list_ex (\<lambda>r. bu_state r = ''unresolved'') rows,
      bl_resolutionRequired =
        list_ex (\<lambda>r. intent_wallet db (er_intent_id r) = Some walletAddress
                    \<and> er_state r \<noteq> ''resolved'' \<and> er_blocks_wallet r = 1) (db_resolutions db)
        \<or> list_ex (\<lambda>r. intent_wallet db (rf_intent_id r) = Some walletAddress
                      \<and> rf_state r \<in> {''pending'', ''unresolved''}) (db_refunds db)\<rparr>"

record ledger_snapshot =
  sn_sellerSessionExposure :: int
  sn_sessionExposure :: int
  sn_rolling24hExposure :: int
  sn_blockers :: blockers
  sn_walletAddress :: string
  sn_rows :: "budget list"

definition exposure :: "budget \<Rightarrow> int" where
  "exposure r = text_int (bu_reserved r) + text_int (bu_committed r) + text_int (bu_unresolved r)"

definition sumOf :: "(budget \<Rightarrow> int) \<Rightarrow> budget list \<Rightarrow> int" where
  "sumOf f rows = sum_list (map f rows)"

definition snapshotRows ::
  "db \<Rightarrow> string \<Rightarrow> string \<Rightarrow> string \<Rightarrow> string \<Rightarrow> budget list \<Rightarrow> ledger_snapshot" where
  "snapshotRows db sessionId sellerOrigin at walletAddress rows =
     (let windowStart = date_ms at - LEDGER_DAY_MS;
          rollingCommitted = sumOf (\<lambda>r. text_int (bu_committed r))
            (filter (\<lambda>r. 0 < text_int (bu_committed r) \<and> windowStart < time_of (bu_committedAt r))
               rows);
          rollingActive = sumOf (\<lambda>r. text_int (bu_reserved r) + text_int (bu_unresolved r)) rows
      in \<lparr>sn_sellerSessionExposure =
            sumOf exposure (filter (\<lambda>r. bu_sessionId r = sessionId
                                     \<and> bu_sellerOrigin r = sellerOrigin) rows),
          sn_sessionExposure = sumOf exposure (filter (\<lambda>r. bu_sessionId r = sessionId) rows),
          sn_rolling24hExposure = rollingCommitted + rollingActive,
          sn_blockers = walletBlockers db walletAddress rows,
          sn_walletAddress = walletAddress,
          sn_rows = rows\<rparr>)"

definition snapshotImpl ::
  "host \<Rightarrow> db \<Rightarrow> string \<Rightarrow> string \<Rightarrow> string \<Rightarrow> ledger_snapshot res" where
  "snapshotImpl h db sessionId sellerOrigin at =
     (case select_one (\<lambda>s. ss_id s = sessionId) (db_sessions db) of
        None \<Rightarrow> fail ''SESSION_UNKNOWN''
      | Some session \<Rightarrow>
          andthen (ledgerAddress (JStr (ss_wallet_address session)) ''BUDGET_CORRUPTION'')
            (\<lambda>walletAddress.
          andthen (validatedBudgetRows h db (\<lambda>_. True)) (\<lambda>rows.
          Inr (snapshotRows db sessionId sellerOrigin at walletAddress
                 (filter (\<lambda>r. bu_walletAddress r = walletAddress) rows)))))"

end
