(* ===== verification/LedgerOps.thy ===== *)
theory LedgerOps
  imports LedgerHistory
begin

text \<open>
  The operations of \<^verbatim>\<open>createBudgetLedger\<close> in \<^verbatim>\<open>src/kernel/budget-ledger.mjs\<close>: reserve, commit,
  release, hold unresolved, resolve a payment (settled or rejected) and record a confirmed refund.
  Each is a function of the database that returns the new database and the reservation, or throws.
  An operation reads the ledger's clock at most once and the store's clock once, for the event; both
  readings are in \<^verbatim>\<open>clock\<close>.
\<close>

record clock =
  ck_ledger :: string
  ck_store :: string

section \<open>Events and rows the operations write\<close>

definition budgetEvent :: "string \<Rightarrow> string \<Rightarrow> (string \<times> jsval) list \<Rightarrow> event" where
  "budgetEvent intentId eventType data =
     \<lparr>evt_entityType = JStr ''budget_reservation'', evt_entityId = JStr intentId,
      evt_eventType = JStr eventType, evt_data = JObj data\<rparr>"

text \<open>The guard of every update of \<^verbatim>\<open>budget_reservations\<close>: the row is exactly in the given disposition.\<close>

definition budgetAt :: "string \<Rightarrow> string \<Rightarrow> string \<Rightarrow> budget_row \<Rightarrow> bool" where
  "budgetAt intentId state amount r \<longleftrightarrow>
     br_intent_id r = intentId \<and> br_state r = state
     \<and> br_reserved_atomic r = (if state = ''reserved'' then amount else ''0'')
     \<and> br_committed_atomic r = (if state = ''committed'' then amount else ''0'')
     \<and> br_released_atomic r = ''0''
     \<and> br_unresolved_atomic r = (if state = ''unresolved'' then amount else ''0'')"

definition toCommitted :: "string \<Rightarrow> string \<Rightarrow> budget_row \<Rightarrow> budget_row" where
  "toCommitted amount at r =
     r\<lparr>br_reserved_atomic := ''0'', br_unresolved_atomic := ''0'', br_committed_atomic := amount,
       br_state := ''committed'', br_committed_at := Some at, br_updated_at := at\<rparr>"

definition toReleased :: "string \<Rightarrow> string \<Rightarrow> budget_row \<Rightarrow> budget_row" where
  "toReleased amount at r =
     r\<lparr>br_reserved_atomic := ''0'', br_unresolved_atomic := ''0'', br_committed_atomic := ''0'',
       br_released_atomic := amount, br_state := ''released'', br_updated_at := at\<rparr>"

definition toUnresolved :: "string \<Rightarrow> string \<Rightarrow> budget_row \<Rightarrow> budget_row" where
  "toUnresolved amount at r =
     r\<lparr>br_reserved_atomic := ''0'', br_unresolved_atomic := amount, br_state := ''unresolved'',
       br_updated_at := at\<rparr>"

text \<open>
  One guarded budget update, then the event. The updates of the source name only the columns that
  change; the guard fixes the others at zero, so writing them again is the same update.
\<close>

definition moveBudget ::
  "string \<Rightarrow> string \<Rightarrow> string \<Rightarrow> (budget_row \<Rightarrow> budget_row) \<Rightarrow> db \<Rightarrow> db res" where
  "moveBudget intentId state amount f db =
     andthen (update_one ''BUDGET_CONFLICT'' (budgetAt intentId state amount) f (db_budgets db))
       (\<lambda>rows. Inr (db\<lparr>db_budgets := rows\<rparr>))"

text \<open>The readings that end every transition: the moved row, then the whole wallet.\<close>

definition movedBudget :: "host \<Rightarrow> db \<Rightarrow> string \<Rightarrow> string \<Rightarrow> budget res" where
  "movedBudget h db intentId state =
     andthen (readBudgetRow h db intentId) (\<lambda>persisted.
     case persisted of
       None \<Rightarrow> fail ''BUDGET_CORRUPTION''
     | Some row \<Rightarrow> if bu_state row \<noteq> state then fail ''BUDGET_CORRUPTION'' else Inr row)"

definition walletAfter :: "host \<Rightarrow> db \<Rightarrow> budget \<Rightarrow> string \<Rightarrow> ledger_snapshot res" where
  "walletAfter h db row at = snapshotImpl h db (bu_sessionId row) (bu_sellerOrigin row) at"

definition requireReservation :: "host \<Rightarrow> db \<Rightarrow> string \<Rightarrow> budget res" where
  "requireReservation h db intentId =
     andthen (readBudgetRow h db intentId) (\<lambda>row.
     case row of None \<Rightarrow> fail ''BUDGET_RESERVATION_MISSING'' | Some r \<Rightarrow> Inr r)"

section \<open>Reserve\<close>

definition prepareReserve :: "jsval \<Rightarrow> (string \<times> string) res" where
  "prepareReserve input =
     andthen (exactRecord input [''intentId'', ''amountAtomic''] [] ''BUDGET_RESERVE_SCHEMA'')
       (\<lambda>record.
     andthen (canonicalAtomicText (get_prop record ''amountAtomic'') ''BUDGET_RESERVE'') (\<lambda>amount.
     if text_int amount \<le> 0 then fail ''BUDGET_RESERVE''
     else
       andthen (canonicalToken (get_prop record ''intentId'')) (\<lambda>intentId.
       Inr (intentId, amount))))"

definition reserveGuards ::
  "host \<Rightarrow> clock \<Rightarrow> db \<Rightarrow> string \<Rightarrow> string \<Rightarrow> (string \<times> authority) res" where
  "reserveGuards h ck db intentId amountText =
     andthen (readBudgetRow h db intentId) (\<lambda>existing.
     if existing \<noteq> None then fail ''BUDGET_ALREADY_RESERVED''
     else
       andthen (canonicalTimestamp (JStr (ck_ledger ck))) (\<lambda>updatedAt.
       andthen (loadReservationAuthority h db intentId True updatedAt) (\<lambda>au.
       if au_amount au \<noteq> amountText then fail ''BUDGET_AMOUNT_MISMATCH''
       else
         andthen (snapshotImpl h db (ss_id (au_session au)) (si_seller_origin (au_intent au))
                    updatedAt) (\<lambda>current.
         if bl_unresolvedBudget (sn_blockers current) then fail ''WALLET_UNRESOLVED''
         else if bl_resolutionRequired (sn_blockers current) then fail ''WALLET_RESOLUTION_REQUIRED''
         else
           let amount = text_int amountText;
               seller = pb_seller (au_projection au);
               p = lp_policy (au_version au) in
           if text_int (s_sellerSessionMaxAtomic seller) < sn_sellerSessionExposure current + amount
              \<or> text_int (p_sessionMaxAtomic p) < sn_sessionExposure current + amount
              \<or> text_int (p_rolling24hMaxAtomic p) < sn_rolling24hExposure current + amount
           then fail ''LIMIT_EXCEEDED'' else Inr (updatedAt, au) ))))"

definition newReservation :: "authority \<Rightarrow> string \<Rightarrow> string \<Rightarrow> string \<Rightarrow> budget_row" where
  "newReservation au intentId amount at =
     \<lparr>br_intent_id = intentId, br_session_id = ss_id (au_session au),
      br_seller_origin = si_seller_origin (au_intent au), br_reserved_atomic = amount,
      br_committed_atomic = ''0'', br_released_atomic = ''0'', br_unresolved_atomic = ''0'',
      br_state = ''reserved'', br_committed_at = None, br_updated_at = at\<rparr>"

definition reserveWrite ::
  "host \<Rightarrow> clock \<Rightarrow> db \<Rightarrow> string \<Rightarrow> string \<Rightarrow> string \<Rightarrow> authority \<Rightarrow> db res" where
  "reserveWrite h ck db intentId amount updatedAt au =
     (if intentId \<in> br_intent_id ` set (db_budgets db) then Inl (JsError ''SQLITE_CONSTRAINT'')
      else
        andthen (appendEvent h (ck_store ck)
                   (budgetEvent intentId ''budget.reserved''
                      [(''sessionId'', JStr (ss_id (au_session au))),
                       (''sellerOrigin'', JStr (si_seller_origin (au_intent au))),
                       (''amountAtomic'', JStr amount),
                       (''previousState'', JNull),
                       (''nextState'', JStr ''reserved''),
                       (''updatedAt'', JStr updatedAt)])
                   (db\<lparr>db_budgets := db_budgets db @ [newReservation au intentId amount updatedAt]\<rparr>))
          (\<lambda>(db', _). Inr db'))"

definition reserveImpl ::
  "host \<Rightarrow> clock \<Rightarrow> db \<Rightarrow> string \<Rightarrow> string \<Rightarrow> (db \<times> budget) res" where
  "reserveImpl h ck db intentId amount =
     andthen (reserveGuards h ck db intentId amount) (\<lambda>(updatedAt, au).
     andthen (reserveWrite h ck db intentId amount updatedAt au) (\<lambda>db'.
     andthen (readBudgetRow h db' intentId) (\<lambda>persisted.
     case persisted of
       None \<Rightarrow> fail ''BUDGET_CORRUPTION''
     | Some row \<Rightarrow>
         andthen (snapshotImpl h db' (ss_id (au_session au)) (si_seller_origin (au_intent au))
                    updatedAt) (\<lambda>_. Inr (db', row)))))"

definition reserveInTransaction :: "host \<Rightarrow> clock \<Rightarrow> jsval \<Rightarrow> db \<Rightarrow> (db \<times> budget) res" where
  "reserveInTransaction h ck input db =
     andthen (prepareReserve input) (\<lambda>(intentId, amount). reserveImpl h ck db intentId amount)"

definition reserve :: "host \<Rightarrow> clock \<Rightarrow> jsval \<Rightarrow> db \<Rightarrow> db \<times> budget res" where
  "reserve h ck input db =
     (case prepareReserve input of
        Inl e \<Rightarrow> (db, Inl e)
      | Inr (intentId, amount) \<Rightarrow> transaction (\<lambda>db. reserveImpl h ck db intentId amount) db)"

section \<open>Commit\<close>

definition prepareCommit :: "jsval \<Rightarrow> (string \<times> settlement_evidence) res" where
  "prepareCommit input =
     andthen (exactRecord input [''intentId'', ''settlementEvidence''] [] ''BUDGET_COMMIT_SCHEMA'')
       (\<lambda>record.
     andthen (validateSettlementEvidence (get_prop record ''settlementEvidence'')) (\<lambda>evidence.
     andthen (canonicalToken (get_prop record ''intentId'')) (\<lambda>intentId.
     Inr (intentId, evidence))))"

definition commitBinding :: "authority \<Rightarrow> settlement_evidence \<Rightarrow> bool" where
  "commitBinding au e \<longleftrightarrow>
     se_network e = p_network (lp_policy (au_version au))
     \<and> se_payer e = ss_wallet_address (au_session au)
     \<and> (se_amountAtomic e = None \<or> se_amountAtomic e = Some (au_amount au))"

text \<open>A replay of a commit must repeat the persisted settlement exactly.\<close>

definition commitReplay ::
  "host \<Rightarrow> db \<Rightarrow> string \<Rightarrow> settlement_evidence \<Rightarrow> string \<Rightarrow> authority \<Rightarrow> unit res" where
  "commitReplay h db intentId e evidenceJson au =
     andthen (validatePaymentAttempt h db au [''settled'']) (\<lambda>(attempt, _).
     andthen (loadBudgetEvent db intentId ''budget.committed'') (\<lambda>event.
     if pa_transaction_id attempt \<noteq> Some (se_transaction e)
        \<or> pa_payment_hash attempt \<noteq> Some (se_paymentHash e)
        \<or> pa_settlement_json attempt \<noteq> Some evidenceJson
        \<or> event = JNull
        \<or> prop_of event ''transactionId'' \<noteq> JStr (se_transaction e)
        \<or> prop_of event ''paymentHash'' \<noteq> JStr (se_paymentHash e)
        \<or> prop_of event ''headerHash'' \<noteq> JStr (se_headerHash e)
        \<or> prop_of event ''amountAtomic'' \<noteq> JStr (au_amount au)
        \<or> prop_of event ''previousState'' \<noteq> JStr ''reserved''
        \<or> prop_of event ''nextState'' \<noteq> JStr ''committed''
     then fail ''BUDGET_IDEMPOTENCY_CONFLICT'' else Inr ()))"

definition commitReady ::
  "host \<Rightarrow> clock \<Rightarrow> db \<Rightarrow> string \<Rightarrow> settlement_evidence \<Rightarrow> authority \<Rightarrow> string res" where
  "commitReady h ck db intentId e au =
     (if si_state (au_intent au) \<noteq> ''retrying'' then fail ''PAYMENT_ATTEMPT_STATE''
      else
        andthen (validatePaymentAttempt h db au [''retrying'']) (\<lambda>(attempt, _).
        if pa_payment_hash attempt \<noteq> Some (se_paymentHash e) then fail ''SETTLEMENT_BINDING_MISMATCH''
        else if list_ex (\<lambda>a. pa_transaction_id a = Some (se_transaction e)
                            \<and> pa_intent_id a \<noteq> intentId) (db_attempts db)
        then fail ''TRANSACTION_REUSED''
        else
          andthen (canonicalTimestamp (JStr (ck_ledger ck))) (\<lambda>committedAt.
          if date_ms committedAt < time_of (pa_retry_started_at attempt) then fail ''BUDGET_TIME''
          else Inr committedAt)))"

definition settleAttempt ::
  "string \<Rightarrow> string \<Rightarrow> string option \<Rightarrow> string \<Rightarrow> attempt_row \<Rightarrow> attempt_row" where
  "settleAttempt evidenceJson transactionId reason at a =
     a\<lparr>pa_state := ''settled'', pa_settlement_json := Some evidenceJson,
       pa_transaction_id := Some transactionId, pa_reason_code := reason,
       pa_settled_at := Some at, pa_updated_at := at\<rparr>"

definition commitWrite ::
  "host \<Rightarrow> clock \<Rightarrow> db \<Rightarrow> string \<Rightarrow> settlement_evidence \<Rightarrow> string \<Rightarrow> authority \<Rightarrow> string \<Rightarrow> db res" where
  "commitWrite h ck db intentId e evidenceJson au committedAt =
     andthen (update_one ''PAYMENT_ATTEMPT_STATE''
                (\<lambda>a. pa_intent_id a = intentId \<and> pa_state a = ''retrying''
                    \<and> pa_settlement_json a = None \<and> pa_transaction_id a = None
                    \<and> pa_settled_at a = None)
                (settleAttempt evidenceJson (se_transaction e) None committedAt) (db_attempts db))
       (\<lambda>attempts.
     andthen (moveBudget intentId ''reserved'' (au_amount au) (toCommitted (au_amount au) committedAt)
                (db\<lparr>db_attempts := attempts\<rparr>)) (\<lambda>db'.
     andthen (appendEvent h (ck_store ck)
                (budgetEvent intentId ''budget.committed''
                   [(''amountAtomic'', JStr (au_amount au)),
                    (''transactionId'', JStr (se_transaction e)),
                    (''paymentHash'', JStr (se_paymentHash e)),
                    (''headerHash'', JStr (se_headerHash e)),
                    (''previousState'', JStr ''reserved''),
                    (''nextState'', JStr ''committed''),
                    (''committedAt'', JStr committedAt)]) db') (\<lambda>(db'', _). Inr db'')))"

text \<open>The persisted attempt repeats the evidence.\<close>

definition commitConfirm ::
  "host \<Rightarrow> db \<Rightarrow> settlement_evidence \<Rightarrow> string \<Rightarrow> authority \<Rightarrow> unit res" where
  "commitConfirm h db e evidenceJson au =
     andthen (validatePaymentAttempt h db au [''settled'']) (\<lambda>(attempt, _).
     if pa_transaction_id attempt \<noteq> Some (se_transaction e)
        \<or> pa_payment_hash attempt \<noteq> Some (se_paymentHash e)
        \<or> pa_settlement_json attempt \<noteq> Some evidenceJson
     then fail ''PAYMENT_ATTEMPT_CORRUPTION'' else Inr ())"

definition commitImpl ::
  "host \<Rightarrow> clock \<Rightarrow> db \<Rightarrow> string \<Rightarrow> settlement_evidence \<Rightarrow> (db \<times> budget) res" where
  "commitImpl h ck db intentId e =
     andthen (loadReservationAuthority h db intentId False []) (\<lambda>au.
     andthen (requireReservation h db intentId) (\<lambda>reservation.
     andthen (canonicalJson (evidence_js e)) (\<lambda>evidenceJson.
     if \<not> commitBinding au e then fail ''SETTLEMENT_BINDING_MISMATCH''
     else
       andthen (assertGloballyUniqueTransaction db (se_transaction e) (Some intentId) None None)
         (\<lambda>_.
       if bu_state reservation = ''committed'' then
         andthen (commitReplay h db intentId e evidenceJson au) (\<lambda>_. Inr (db, reservation))
       else if bu_state reservation \<noteq> ''reserved'' then fail ''BUDGET_STATE''
       else
         andthen (commitReady h ck db intentId e au) (\<lambda>committedAt.
         andthen (commitWrite h ck db intentId e evidenceJson au committedAt) (\<lambda>db'.
         andthen (movedBudget h db' intentId ''committed'') (\<lambda>row.
         andthen (commitConfirm h db' e evidenceJson au) (\<lambda>_.
         andthen (walletAfter h db' row committedAt) (\<lambda>_.
         Inr (db', row) )))))))))"

definition commitInTransaction :: "host \<Rightarrow> clock \<Rightarrow> jsval \<Rightarrow> db \<Rightarrow> (db \<times> budget) res" where
  "commitInTransaction h ck input db =
     andthen (prepareCommit input) (\<lambda>(intentId, e). commitImpl h ck db intentId e)"

definition commit :: "host \<Rightarrow> clock \<Rightarrow> jsval \<Rightarrow> db \<Rightarrow> db \<times> budget res" where
  "commit h ck input db =
     (case prepareCommit input of
        Inl err \<Rightarrow> (db, Inl err)
      | Inr (intentId, e) \<Rightarrow> transaction (\<lambda>db. commitImpl h ck db intentId e) db)"

section \<open>Reason transitions\<close>

record reason_transition =
  rt_intentId :: string
  rt_reasonCode :: string
  rt_preSign :: "jsval option"

text \<open>
  \<^verbatim>\<open>prepareReasonTransition\<close>. With \<^verbatim>\<open>preSignField\<close> the record may carry \<^verbatim>\<open>preSignRejection\<close>, which is
  kept as it is: a \<^verbatim>\<open>WalletSigningError\<close> is an instance, not a data graph.
\<close>

definition preSignRecord :: "jsval \<Rightarrow> (string \<times> jsval) list res" where
  "preSignRecord input =
     (case input of
        JObj kvs \<Rightarrow>
          if \<not> has_own kvs ''intentId'' \<or> \<not> has_own kvs ''reasonCode''
             \<or> list_ex (\<lambda>kv. fst kv \<notin> {''intentId'', ''reasonCode'', ''preSignRejection''}) kvs
          then fail ''BUDGET_TRANSITION_SCHEMA'' else Inr kvs
      | _ \<Rightarrow> fail ''BUDGET_TRANSITION_SCHEMA'')"

definition prepareReasonTransition :: "bool \<Rightarrow> jsval \<Rightarrow> reason_transition res" where
  "prepareReasonTransition preSignField input =
     andthen (if preSignField then preSignRecord input
              else exactRecord input [''intentId'', ''reasonCode''] [] ''BUDGET_TRANSITION_SCHEMA'')
       (\<lambda>record.
     case get_prop record ''reasonCode'' of
       JStr reason \<Rightarrow>
         if \<not> upper_code_pattern reason then fail ''BUDGET_REASON''
         else
           andthen (canonicalToken (get_prop record ''intentId'')) (\<lambda>intentId.
           Inr \<lparr>rt_intentId = intentId, rt_reasonCode = reason,
                rt_preSign = (if has_own record ''preSignRejection''
                              then Some (get_prop record ''preSignRejection'') else None)\<rparr>)
     | _ \<Rightarrow> fail ''BUDGET_REASON'')"

text \<open>
  \<^verbatim>\<open>isExactPreSignRejection\<close>. Whether an instance is an exact \<^verbatim>\<open>WalletSigningError\<close> with the code
  \<^verbatim>\<open>WALLET_PRE_SIGN_REJECTED\<close> and no possible signature is its brand, the argument \<^verbatim>\<open>exact\<close>; a data
  value never is.
\<close>

definition isExactPreSignRejection :: "bool \<Rightarrow> jsval \<Rightarrow> bool" where
  "isExactPreSignRejection exact v \<longleftrightarrow> v = JExotic \<and> exact"

section \<open>Release\<close>

definition releaseTyped :: "bool \<Rightarrow> reason_transition \<Rightarrow> bool res" where
  "releaseTyped exact p =
     (let typed = (case rt_preSign p of
                     None \<Rightarrow> False
                   | Some v \<Rightarrow> isExactPreSignRejection exact v
                       \<and> rt_reasonCode p = ''WALLET_PRE_SIGN_REJECTED'')
      in if rt_preSign p \<noteq> None \<and> \<not> typed then fail ''BUDGET_RELEASE_UNSAFE''
         else if rt_reasonCode p = ''WALLET_PRE_SIGN_REJECTED'' \<and> \<not> typed
         then fail ''BUDGET_RELEASE_UNSAFE'' else Inr typed)"

definition attempt_of :: "db \<Rightarrow> string \<Rightarrow> attempt_row option" where
  "attempt_of db intentId = select_one (\<lambda>a. pa_intent_id a = intentId) (db_attempts db)"

definition releaseReplay ::
  "host \<Rightarrow> db \<Rightarrow> reason_transition \<Rightarrow> bool \<Rightarrow> authority \<Rightarrow> unit res" where
  "releaseReplay h db p typed au =
     andthen (loadBudgetEvent db (rt_intentId p) ''budget.released'') (\<lambda>event.
     andthen
       (case attempt_of db (rt_intentId p) of
          None \<Rightarrow> Inr ()
        | Some _ \<Rightarrow>
            andthen (validatePaymentAttempt h db au [''rejected'']) (\<lambda>(attempt, _).
            let claimOnly = pa_signing_claimed_at attempt \<noteq> None
                  \<and> pa_payment_payload_json attempt = None in
            if pa_payment_payload_json attempt \<noteq> None
               \<or> pa_reason_code attempt \<noteq> Some (rt_reasonCode p)
               \<or> claimOnly \<noteq> typed
            then fail ''BUDGET_IDEMPOTENCY_CONFLICT'' else Inr ()))
       (\<lambda>_.
     if event = JNull
        \<or> prop_of event ''reasonCode'' \<noteq> JStr (rt_reasonCode p)
        \<or> prop_of event ''amountAtomic'' \<noteq> JStr (au_amount au)
        \<or> prop_of event ''previousState'' \<noteq> JStr ''reserved''
        \<or> prop_of event ''nextState'' \<noteq> JStr ''released''
     then fail ''BUDGET_IDEMPOTENCY_CONFLICT'' else Inr ()))"

definition rejectAttempt :: "string \<Rightarrow> string \<Rightarrow> attempt_row \<Rightarrow> attempt_row" where
  "rejectAttempt reason at a =
     a\<lparr>pa_state := ''rejected'', pa_reason_code := Some reason, pa_updated_at := at\<rparr>"

text \<open>A signing attempt that claimed its nonce and signed nothing.\<close>

definition claimOnlyAttempt :: "string \<Rightarrow> attempt_row \<Rightarrow> bool" where
  "claimOnlyAttempt intentId a \<longleftrightarrow>
     pa_intent_id a = intentId \<and> pa_state a = ''signing''
     \<and> all_present (claimFields a) \<and> all_absent (signedPayloadFields a) \<and> no_aftermath a"

definition unsignedAttempt :: "string \<Rightarrow> attempt_row \<Rightarrow> bool" where
  "unsignedAttempt intentId a \<longleftrightarrow>
     pa_intent_id a = intentId \<and> pa_state a = ''reserved''
     \<and> all_absent (claimFields a) \<and> all_absent (signedPayloadFields a)"

definition releaseTypedAttempt ::
  "host \<Rightarrow> db \<Rightarrow> reason_transition \<Rightarrow> authority \<Rightarrow> string \<Rightarrow> db res" where
  "releaseTypedAttempt h db p au releasedAt =
     (if si_state (au_intent au) \<noteq> ''signing'' \<or> attempt_of db (rt_intentId p) = None
      then fail ''BUDGET_RELEASE_UNSAFE''
      else
        andthen (validatePaymentAttempt h db au [''signing'']) (\<lambda>(attempt, _).
        andthen (assertTransitionChronology (JStr releasedAt) (attemptChronology attempt)) (\<lambda>_.
        andthen (update_one ''BUDGET_RELEASE_UNSAFE'' (claimOnlyAttempt (rt_intentId p))
                   (rejectAttempt (rt_reasonCode p) releasedAt) (db_attempts db)) (\<lambda>attempts.
        Inr (db\<lparr>db_attempts := attempts\<rparr>)))))"

definition releaseUnsignedAttempt ::
  "host \<Rightarrow> db \<Rightarrow> reason_transition \<Rightarrow> authority \<Rightarrow> string \<Rightarrow> db res" where
  "releaseUnsignedAttempt h db p au releasedAt =
     (if si_state (au_intent au) \<noteq> ''authorized'' \<and> si_state (au_intent au) \<noteq> ''reserved''
      then fail ''BUDGET_RELEASE_UNSAFE''
      else
        case attempt_of db (rt_intentId p) of
          None \<Rightarrow> Inr db
        | Some _ \<Rightarrow>
            andthen (validatePaymentAttempt h db au [''reserved'']) (\<lambda>_.
            andthen (update_one ''BUDGET_RELEASE_UNSAFE'' (unsignedAttempt (rt_intentId p))
                       (rejectAttempt (rt_reasonCode p) releasedAt) (db_attempts db)) (\<lambda>attempts.
            Inr (db\<lparr>db_attempts := attempts\<rparr>))))"

definition releaseWrite ::
  "host \<Rightarrow> clock \<Rightarrow> db \<Rightarrow> reason_transition \<Rightarrow> authority \<Rightarrow> string \<Rightarrow> db res" where
  "releaseWrite h ck db p au releasedAt =
     andthen (moveBudget (rt_intentId p) ''reserved'' (au_amount au)
                (toReleased (au_amount au) releasedAt) db) (\<lambda>db'.
     andthen (appendEvent h (ck_store ck)
                (budgetEvent (rt_intentId p) ''budget.released''
                   [(''amountAtomic'', JStr (au_amount au)),
                    (''reasonCode'', JStr (rt_reasonCode p)),
                    (''previousState'', JStr ''reserved''),
                    (''nextState'', JStr ''released''),
                    (''releasedAt'', JStr releasedAt)]) db') (\<lambda>(db'', _). Inr db''))"

definition releaseImpl ::
  "host \<Rightarrow> clock \<Rightarrow> bool \<Rightarrow> db \<Rightarrow> reason_transition \<Rightarrow> (db \<times> budget) res" where
  "releaseImpl h ck exact db p =
     andthen (releaseTyped exact p) (\<lambda>typed.
     andthen (loadReservationAuthority h db (rt_intentId p) False []) (\<lambda>au.
     andthen (requireReservation h db (rt_intentId p)) (\<lambda>reservation.
     if bu_state reservation = ''released'' then
       andthen (releaseReplay h db p typed au) (\<lambda>_. Inr (db, reservation))
     else if bu_state reservation \<noteq> ''reserved'' then fail ''BUDGET_RELEASE_UNSAFE''
     else
       andthen (canonicalTimestamp (JStr (ck_ledger ck))) (\<lambda>releasedAt.
       andthen (if typed then releaseTypedAttempt h db p au releasedAt
                else releaseUnsignedAttempt h db p au releasedAt) (\<lambda>db1.
       andthen (releaseWrite h ck db1 p au releasedAt) (\<lambda>db'.
       andthen (movedBudget h db' (rt_intentId p) ''released'') (\<lambda>row.
       andthen (walletAfter h db' row releasedAt) (\<lambda>_.
       Inr (db', row) ))))))))"

definition releaseInTransaction ::
  "host \<Rightarrow> clock \<Rightarrow> bool \<Rightarrow> jsval \<Rightarrow> db \<Rightarrow> (db \<times> budget) res" where
  "releaseInTransaction h ck exact input db =
     andthen (prepareReasonTransition True input) (\<lambda>p. releaseImpl h ck exact db p)"

definition release :: "host \<Rightarrow> clock \<Rightarrow> jsval \<Rightarrow> db \<Rightarrow> db \<times> budget res" where
  "release h ck input db =
     (case prepareReasonTransition False input of
        Inl err \<Rightarrow> (db, Inl err)
      | Inr p \<Rightarrow> transaction (\<lambda>db. releaseImpl h ck False db p) db)"

section \<open>Hold unresolved\<close>

definition holdReplay :: "db \<Rightarrow> reason_transition \<Rightarrow> authority \<Rightarrow> unit res" where
  "holdReplay db p au =
     andthen (loadBudgetEvent db (rt_intentId p) ''budget.held_unresolved'') (\<lambda>event.
     if event = JNull
        \<or> prop_of event ''reasonCode'' \<noteq> JStr (rt_reasonCode p)
        \<or> prop_of event ''amountAtomic'' \<noteq> JStr (au_amount au)
        \<or> prop_of event ''previousState'' \<noteq> JStr ''reserved''
        \<or> prop_of event ''nextState'' \<noteq> JStr ''unresolved''
     then fail ''BUDGET_IDEMPOTENCY_CONFLICT'' else Inr ())"

definition holdWrite ::
  "host \<Rightarrow> clock \<Rightarrow> db \<Rightarrow> reason_transition \<Rightarrow> authority \<Rightarrow> string \<Rightarrow> db res" where
  "holdWrite h ck db p au heldAt =
     andthen (moveBudget (rt_intentId p) ''reserved'' (au_amount au)
                (toUnresolved (au_amount au) heldAt) db) (\<lambda>db'.
     andthen (appendEvent h (ck_store ck)
                (budgetEvent (rt_intentId p) ''budget.held_unresolved''
                   [(''amountAtomic'', JStr (au_amount au)),
                    (''reasonCode'', JStr (rt_reasonCode p)),
                    (''previousState'', JStr ''reserved''),
                    (''nextState'', JStr ''unresolved''),
                    (''heldAt'', JStr heldAt)]) db') (\<lambda>(db'', _). Inr db''))"

definition holdUnresolvedImpl ::
  "host \<Rightarrow> clock \<Rightarrow> db \<Rightarrow> reason_transition \<Rightarrow> (db \<times> budget) res" where
  "holdUnresolvedImpl h ck db p =
     andthen (loadReservationAuthority h db (rt_intentId p) False []) (\<lambda>au.
     andthen (requireReservation h db (rt_intentId p)) (\<lambda>reservation.
     if bu_state reservation = ''unresolved'' then
       andthen (holdReplay db p au) (\<lambda>_. Inr (db, reservation))
     else if bu_state reservation \<noteq> ''reserved'' then fail ''BUDGET_STATE''
     else
       andthen (canonicalTimestamp (JStr (ck_ledger ck))) (\<lambda>heldAt.
       andthen (holdWrite h ck db p au heldAt) (\<lambda>db'.
       andthen (movedBudget h db' (rt_intentId p) ''unresolved'') (\<lambda>row.
       andthen (walletAfter h db' row heldAt) (\<lambda>after.
       if \<not> bl_unresolvedBudget (sn_blockers after) then fail ''BUDGET_CORRUPTION''
       else Inr (db', row) ))))))"

definition holdUnresolvedInTransaction ::
  "host \<Rightarrow> clock \<Rightarrow> jsval \<Rightarrow> db \<Rightarrow> (db \<times> budget) res" where
  "holdUnresolvedInTransaction h ck input db =
     andthen (prepareReasonTransition False input) (\<lambda>p. holdUnresolvedImpl h ck db p)"

definition holdUnresolved :: "host \<Rightarrow> clock \<Rightarrow> jsval \<Rightarrow> db \<Rightarrow> db \<times> budget res" where
  "holdUnresolved h ck input db =
     (case prepareReasonTransition False input of
        Inl err \<Rightarrow> (db, Inl err)
      | Inr p \<Rightarrow> transaction (\<lambda>db. holdUnresolvedImpl h ck db p) db)"

section \<open>Snapshot\<close>

text \<open>\<^verbatim>\<open>prepareSnapshot\<close>: the time is the one asked for, or the ledger's clock.\<close>

definition prepareSnapshot :: "host \<Rightarrow> clock \<Rightarrow> jsval \<Rightarrow> (string \<times> string \<times> string) res" where
  "prepareSnapshot h ck input =
     andthen (exactRecord input [''sessionId'', ''sellerOrigin''] [''at''] ''BUDGET_SNAPSHOT_SCHEMA'')
       (\<lambda>record.
     andthen (canonicalToken (get_prop record ''sessionId'')) (\<lambda>sessionId.
     andthen (canonicalOrigin h (get_prop record ''sellerOrigin'') ''BUDGET_SCHEMA'') (\<lambda>sellerOrigin.
     andthen (canonicalTimestamp (if has_own record ''at'' then get_prop record ''at''
                                  else JStr (ck_ledger ck))) (\<lambda>at.
     Inr (sessionId, sellerOrigin, at)))))"

definition snapshot :: "host \<Rightarrow> clock \<Rightarrow> jsval \<Rightarrow> db \<Rightarrow> ledger_snapshot res" where
  "snapshot h ck input db =
     andthen (prepareSnapshot h ck input) (\<lambda>(sessionId, sellerOrigin, at).
     snapshotImpl h db sessionId sellerOrigin at)"

end
