(* ===== verification/LedgerResolve.thy ===== *)
theory LedgerResolve
  imports LedgerOps
begin

text \<open>
  The reconciling operations of \<^verbatim>\<open>createBudgetLedger\<close>: an unresolved payment is resolved as settled
  or rejected on the evidence of an operator's reconciliation, and a committed payment is released
  by a confirmed refund. Each names the exact evidence row, checks its proof against the persisted
  attempt, and moves the candidate, attempt, execution, buyer outcome and budget rows in one
  transaction.
\<close>

section \<open>Evidence\<close>

definition localAttemptBindingHash :: "host \<Rightarrow> authority \<Rightarrow> attempt_row \<Rightarrow> string res" where
  "localAttemptBindingHash h au a =
     (case pa_payment_payload_json a of
        None \<Rightarrow> Inl (JsError ''TypeError'')
      | Some payload \<Rightarrow>
          andthen (canonicalJson (JObj
            [(''schemaVersion'', JNum 1),
             (''domain'', JStr ''wallet-kernel.payment-attempt-binding.v1''),
             (''intentHash'', JStr (si_intent_hash (au_intent au))),
             (''challengeHash'', option_string (si_challenge_hash (au_intent au))),
             (''quoteId'', JStr (pa_quote_id a)),
             (''paymentPayloadHash'', JStr (h_sha256 h payload)),
             (''paymentHeaderHash'', option_string (pa_payment_hash a)),
             (''network'', JStr (p_network (lp_policy (au_version au)))),
             (''payer'', JStr (ss_wallet_address (au_session au))),
             (''payee'', JStr (c_payTo (pb_selected (au_projection au)))),
             (''asset'', JStr (p_asset (lp_policy (au_version au)))),
             (''amountAtomic'', JStr (au_amount au)),
             (''nonce'', option_string (pa_nonce a)),
             (''validAfter'', option_string (pa_valid_after a)),
             (''validBefore'', option_string (pa_valid_before a))]))
            (\<lambda>bytes. Inr (h_sha256 h bytes)))"

definition localRefundBindingHash ::
  "host \<Rightarrow> authority \<Rightarrow> attempt_row \<Rightarrow> string \<Rightarrow> string res" where
  "localRefundBindingHash h au a refundTransactionId =
     andthen (canonicalJson (JObj
       [(''schemaVersion'', JNum 1),
        (''domain'', JStr ''wallet-kernel.refund-binding.v1''),
        (''intentHash'', JStr (si_intent_hash (au_intent au))),
        (''originalTransactionId'', option_string (pa_transaction_id a)),
        (''refundTransactionId'', JStr refundTransactionId),
        (''network'', JStr (p_network (lp_policy (au_version au)))),
        (''sellerOrigin'', JStr (si_seller_origin (au_intent au))),
        (''asset'', JStr (p_asset (lp_policy (au_version au)))),
        (''originalPayer'', JStr (ss_wallet_address (au_session au))),
        (''originalPayee'', JStr (c_payTo (pb_selected (au_projection au)))),
        (''refundSource'', JStr (s_refundSource (pb_seller (au_projection au)))),
        (''refundSigner'', JStr (s_refundSigner (pb_seller (au_projection au)))),
        (''amountAtomic'', JStr (au_amount au))]))
       (\<lambda>bytes. Inr (h_sha256 h bytes))"

text \<open>\<^verbatim>\<open>loadReconciliation\<close>: the row and its parsed evidence, which must be an object.\<close>

definition loadReconciliation ::
  "db \<Rightarrow> string \<Rightarrow> string \<Rightarrow> string \<Rightarrow> string \<Rightarrow> (reconciliation_row \<times> jsval) res" where
  "loadReconciliation db intentId evidenceId kind outcome =
     (let code = ''RECONCILIATION_EVIDENCE_MISMATCH'' in
      andthen (canonicalToken (JStr evidenceId)) (\<lambda>id.
      case select_one (\<lambda>r. rr_id r = id) (db_reconciliations db) of
        None \<Rightarrow> fail code
      | Some row \<Rightarrow>
          if rr_intent_id row \<noteq> intentId \<or> rr_kind row \<noteq> kind \<or> rr_outcome row \<noteq> outcome
          then fail code
          else
            andthen (parseCanonicalJson (rr_evidence_json row) code) (\<lambda>evidence.
            case evidence of
              JObj _ \<Rightarrow>
                andthen (canonicalHash (JStr (rr_operator_id_hash row)) code) (\<lambda>_.
                andthen (canonicalPersistedTimestamp (JStr (rr_recorded_at row)) code) (\<lambda>_.
                Inr (row, evidence)))
            | _ \<Rightarrow> fail code)))"

definition validateSettledTransferEvidence ::
  "host \<Rightarrow> jsval \<Rightarrow> authority \<Rightarrow> attempt_row \<Rightarrow> string \<Rightarrow> unit res" where
  "validateSettledTransferEvidence h evidence au a candidateTransactionId =
     (let code = ''RECONCILIATION_EVIDENCE_MISMATCH'' in
      andthen (exactObject evidence [''kind'', ''transactionId'', ''rpcProofHash'',
                 ''localAttemptHash''] [] code) (\<lambda>proof.
      andthen (canonicalEvmHashFor (get_prop proof ''transactionId'') code) (\<lambda>transactionId.
      andthen (canonicalHash (get_prop proof ''rpcProofHash'') code) (\<lambda>rpcProofHash.
      andthen (canonicalHash (get_prop proof ''localAttemptHash'') code) (\<lambda>localHash.
      if get_prop proof ''kind'' \<noteq> JStr ''settled_transfer''
         \<or> get_prop proof ''transactionId'' \<noteq> JStr transactionId
         \<or> transactionId \<noteq> candidateTransactionId
         \<or> get_prop proof ''rpcProofHash'' \<noteq> JStr rpcProofHash
         \<or> get_prop proof ''localAttemptHash'' \<noteq> JStr localHash
      then fail code
      else
        andthen (localAttemptBindingHash h au a) (\<lambda>bound.
        if localHash \<noteq> bound then fail code else Inr ()) )))))"

text \<open>The seller's signed refund attestation, in the terms of the payment and the policy.\<close>

definition attestationBound ::
  "authority \<Rightarrow> (string \<times> jsval) list \<Rightarrow> string \<Rightarrow> string \<Rightarrow> string \<Rightarrow> string \<Rightarrow> bool" where
  "attestationBound au att originalTransactionId refundTransactionId issuedAt expiresAt \<longleftrightarrow>
     get_prop att ''schemaVersion'' = JNum 1
     \<and> get_prop att ''domain'' = JStr ''wallet-kernel.refund.v1''
     \<and> get_prop att ''network'' = JStr (p_network (lp_policy (au_version au)))
     \<and> get_prop att ''sellerOrigin'' = JStr (si_seller_origin (au_intent au))
     \<and> get_prop att ''intentHash'' = JStr (si_intent_hash (au_intent au))
     \<and> get_prop att ''originalTransactionId'' = JStr originalTransactionId
     \<and> get_prop att ''refundTransactionId'' = JStr refundTransactionId
     \<and> get_prop att ''asset'' = JStr (p_asset (lp_policy (au_version au)))
     \<and> get_prop att ''originalPayer'' = JStr (ss_wallet_address (au_session au))
     \<and> get_prop att ''originalPayee'' = JStr (c_payTo (pb_selected (au_projection au)))
     \<and> get_prop att ''refundSource'' = JStr (s_refundSource (pb_seller (au_projection au)))
     \<and> get_prop att ''amountAtomic'' = JStr (au_amount au)
     \<and> get_prop att ''signer'' = JStr (s_refundSigner (pb_seller (au_projection au)))
     \<and> date_ms issuedAt < date_ms expiresAt
     \<and> date_ms expiresAt - date_ms issuedAt \<le> 15 * 60 * 1000"

definition ATTESTATION_FIELDS :: "string list" where
  "ATTESTATION_FIELDS =
     [''schemaVersion'', ''domain'', ''network'', ''sellerOrigin'', ''intentHash'',
      ''originalTransactionId'', ''refundTransactionId'', ''asset'', ''originalPayer'',
      ''originalPayee'', ''refundSource'', ''amountAtomic'', ''issuedAt'', ''expiresAt'', ''signer'']"

definition validateConfirmedRefundEvidence ::
  "host \<Rightarrow> jsval \<Rightarrow> authority \<Rightarrow> attempt_row \<Rightarrow> string \<Rightarrow> unit res" where
  "validateConfirmedRefundEvidence h evidence au a refundTransactionId =
     (let code = ''REFUND_EVIDENCE_MISMATCH'' in
      andthen (exactObject evidence [''kind'', ''originalTransactionId'', ''refundTransactionId'',
                 ''attestationHash'', ''attestation'', ''rpcProofHash'', ''localRefundBindingHash'']
                 [] code) (\<lambda>proof.
      andthen (canonicalEvmHashFor (get_prop proof ''originalTransactionId'') code) (\<lambda>original.
      andthen (canonicalEvmHashFor (get_prop proof ''refundTransactionId'') code) (\<lambda>proofRefund.
      andthen (canonicalHash (get_prop proof ''attestationHash'') code) (\<lambda>attestationHash.
      andthen (exactObject (get_prop proof ''attestation'') ATTESTATION_FIELDS [] code)
        (\<lambda>attestation.
      andthen (canonicalPersistedTimestamp (get_prop attestation ''issuedAt'') code) (\<lambda>issuedAt.
      andthen (canonicalPersistedTimestamp (get_prop attestation ''expiresAt'') code) (\<lambda>expiresAt.
      andthen (canonicalHash (get_prop proof ''rpcProofHash'') code) (\<lambda>rpcProofHash.
      andthen (canonicalHash (get_prop proof ''localRefundBindingHash'') code) (\<lambda>localHash.
      if get_prop proof ''kind'' \<noteq> JStr ''refund_attested_and_confirmed''
         \<or> get_prop proof ''originalTransactionId'' \<noteq> JStr original
         \<or> get_prop proof ''refundTransactionId'' \<noteq> JStr proofRefund
         \<or> Some original \<noteq> pa_transaction_id a
         \<or> proofRefund \<noteq> refundTransactionId
         \<or> get_prop proof ''attestationHash'' \<noteq> JStr attestationHash
      then fail code
      else
        andthen (canonicalJson (JObj attestation)) (\<lambda>bytes.
        if h_sha256 h bytes \<noteq> attestationHash
           \<or> \<not> attestationBound au attestation original proofRefund issuedAt expiresAt
           \<or> get_prop proof ''rpcProofHash'' \<noteq> JStr rpcProofHash
           \<or> get_prop proof ''localRefundBindingHash'' \<noteq> JStr localHash
        then fail code
        else
          andthen (localRefundBindingHash h au a refundTransactionId) (\<lambda>bound.
          if localHash \<noteq> bound then fail code else Inr ()) )))))))))))"

definition UNUSED_FIELDS :: "string list" where
  "UNUSED_FIELDS =
     [''kind'', ''network'', ''asset'', ''payer'', ''nonce'', ''validBefore'',
      ''authorizationState'', ''observedBlockNumber'', ''observedBlockHash'',
      ''observedBlockTimestamp'', ''confirmations'']"

text \<open>
  \<^verbatim>\<open>validateUnusedAuthorizationEvidence\<close>: on a block past the authorization's expiry its nonce was
  not used, so it never can be.
\<close>

definition validateUnusedAuthorizationEvidence ::
  "host \<Rightarrow> jsval \<Rightarrow> authority \<Rightarrow> attempt_row \<Rightarrow> string \<Rightarrow> jsval \<Rightarrow> unit res" where
  "validateUnusedAuthorizationEvidence h evidence au a reconciliationRecordedAt resolvedAt =
     (let code = ''RECONCILIATION_EVIDENCE_MISMATCH'' in
      andthen (exactObject evidence UNUSED_FIELDS [] code) (\<lambda>proof.
      andthen (canonicalAtomicText (get_prop proof ''observedBlockNumber'') code) (\<lambda>blockNumber.
      andthen (canonicalAtomicText (get_prop proof ''observedBlockTimestamp'') code) (\<lambda>blockTime.
      andthen (canonicalAtomicText (get_prop proof ''validBefore'') code) (\<lambda>validBefore.
      andthen (safeInteger (get_prop proof ''confirmations'') code) (\<lambda>confirmations.
      andthen (canonicalPersistedTimestamp (JStr reconciliationRecordedAt) code) (\<lambda>recordedAt.
      andthen (canonicalPersistedTimestamp resolvedAt code) (\<lambda>resolutionTime.
      if get_prop proof ''kind'' \<noteq> JStr ''authorization_unused_after_expiry''
         \<or> get_prop proof ''network'' \<noteq> JStr (p_network (lp_policy (au_version au)))
         \<or> ledgerAddress (get_prop proof ''asset'') code
             \<noteq> Inr (p_asset (lp_policy (au_version au)))
         \<or> ledgerAddress (get_prop proof ''payer'') code \<noteq> Inr (ss_wallet_address (au_session au))
         \<or> \<not> text_matches evm_canonical_hash (get_prop proof ''nonce'')
         \<or> get_prop proof ''nonce'' \<noteq> option_string (pa_nonce a)
         \<or> Some validBefore \<noteq> pa_valid_before a
         \<or> get_prop proof ''authorizationState'' \<noteq> JBool False
         \<or> text_int blockNumber \<le> 0
         \<or> map_sum (\<lambda>_. ()) JStr (canonicalEvmHashFor (get_prop proof ''observedBlockHash'') code)
             \<noteq> Inr (get_prop proof ''observedBlockHash'')
         \<or> text_int blockTime < text_int validBefore
         \<or> date_ms recordedAt div 1000 < text_int blockTime
         \<or> date_ms resolutionTime < date_ms recordedAt
         \<or> confirmations < 1
      then fail code else Inr () ))))))))"

section \<open>Buyer outcomes\<close>

definition writeBuyerOutcome ::
  "db \<Rightarrow> string \<Rightarrow> string \<Rightarrow> string \<Rightarrow> string \<Rightarrow> string \<Rightarrow> (db \<times> int) res" where
  "writeBuyerOutcome db intentId status reasonCode recordedAt predecessor =
     (let code = ''BUYER_OUTCOME_CORRUPTION'' in
      case select_one (\<lambda>b. bo_intent_id b = intentId) (db_buyers db) of
        None \<Rightarrow> fail code
      | Some current \<Rightarrow>
          if bo_status current \<noteq> predecessor \<or> \<not> upper_code_pattern (bo_reason_code current)
          then fail code
          else
            andthen (canonicalPersistedTimestamp (JStr (bo_recorded_at current)) code) (\<lambda>_.
            if date_ms recordedAt < date_ms (bo_recorded_at current) then fail code
            else
              andthen (safeInteger (JBig (bo_revision current)) code) (\<lambda>last.
              let revision = last + 1 in
              if MAX_SAFE_INTEGER < revision then fail ''BUDGET_CORRUPTION''
              else
                andthen (update_one ''BUDGET_CONFLICT''
                           (\<lambda>b. bo_intent_id b = intentId \<and> bo_revision b = bo_revision current)
                           (\<lambda>b. b\<lparr>bo_status := status, bo_reason_code := reasonCode,
                                  bo_revision := revision, bo_recorded_at := recordedAt\<rparr>)
                           (db_buyers db)) (\<lambda>buyers.
                Inr (db\<lparr>db_buyers := buyers\<rparr>, revision)))))"

definition assertResolvedBuyerOutcome :: "db \<Rightarrow> string \<Rightarrow> string \<Rightarrow> string \<Rightarrow> buyer_row res" where
  "assertResolvedBuyerOutcome db intentId status reasonCode =
     (case select_one (\<lambda>b. bo_intent_id b = intentId) (db_buyers db) of
        None \<Rightarrow> fail ''BUDGET_IDEMPOTENCY_CONFLICT''
      | Some b \<Rightarrow>
          if bo_status b \<noteq> status \<or> bo_reason_code b \<noteq> reasonCode
          then fail ''BUDGET_IDEMPOTENCY_CONFLICT''
          else
            andthen (safeInteger (JBig (bo_revision b)) ''BUDGET_CORRUPTION'') (\<lambda>_.
            andthen (canonicalPersistedTimestamp (JStr (bo_recorded_at b)) ''BUDGET_CORRUPTION'') (\<lambda>_.
            Inr b)))"

definition buyerRecordedAt :: "db \<Rightarrow> string \<Rightarrow> string option" where
  "buyerRecordedAt db intentId =
     map_option bo_recorded_at (select_one (\<lambda>b. bo_intent_id b = intentId) (db_buyers db))"

section \<open>Payment candidates\<close>

record payment_resolution =
  pr_intentId :: string
  pr_outcome :: string
  pr_evidenceId :: string

definition preparePaymentResolution :: "jsval \<Rightarrow> payment_resolution res" where
  "preparePaymentResolution input =
     andthen (exactRecord input [''intentId'', ''outcome'', ''evidenceId''] []
                ''PAYMENT_RESOLUTION_SCHEMA'') (\<lambda>record.
     case get_prop record ''outcome'' of
       JStr outcome \<Rightarrow>
         if outcome \<noteq> ''settled'' \<and> outcome \<noteq> ''rejected'' then fail ''PAYMENT_RESOLUTION_OUTCOME''
         else
           andthen (canonicalToken (get_prop record ''intentId'')) (\<lambda>intentId.
           andthen (canonicalToken (get_prop record ''evidenceId'')) (\<lambda>evidenceId.
           Inr \<lparr>pr_intentId = intentId, pr_outcome = outcome, pr_evidenceId = evidenceId\<rparr>))
     | _ \<Rightarrow> fail ''PAYMENT_RESOLUTION_OUTCOME'')"

definition validatePaymentCandidate :: "string \<Rightarrow> candidate_row \<Rightarrow> unit res" where
  "validatePaymentCandidate intentId c =
     (let code = ''RECONCILIATION_EVIDENCE_MISMATCH'' in
      andthen (canonicalToken (JStr (rc_id c))) (\<lambda>_.
      andthen (canonicalEvmHash (JStr (rc_transaction_id c))) (\<lambda>transactionId.
      if rc_transaction_id c \<noteq> transactionId \<or> rc_intent_id c \<noteq> intentId
         \<or> rc_state c \<notin> {''pending'', ''abandoned'', ''rejected'', ''confirmed''}
      then fail code
      else
        andthen (canonicalPersistedTimestamp (JStr (rc_created_at c)) code) (\<lambda>_.
        andthen (canonicalPersistedTimestamp (JStr (rc_updated_at c)) code) (\<lambda>_.
        case rc_evidence_json c of
          None \<Rightarrow> Inr ()
        | Some evidence \<Rightarrow> andthen (parseCanonicalJson evidence code) (\<lambda>_. Inr ()) )))))"

text \<open>The validated candidates of an intent, in rowid order.\<close>

definition loadPaymentCandidates :: "db \<Rightarrow> string \<Rightarrow> candidate_row list res" where
  "loadPaymentCandidates db intentId =
     (let rows = filter (\<lambda>c. rc_intent_id c = intentId) (db_candidates db) in
      andthen (check_each (validatePaymentCandidate intentId) rows) (\<lambda>_. Inr rows))"

definition candidateTimes :: "candidate_row \<Rightarrow> string option list" where
  "candidateTimes c = [Some (rc_created_at c), Some (rc_updated_at c)]"

definition execution_of :: "db \<Rightarrow> string \<Rightarrow> outcome_row option" where
  "execution_of db intentId = select_one (\<lambda>r. eo_intent_id r = intentId) (db_outcomes db)"

definition resolution_of :: "db \<Rightarrow> string \<Rightarrow> resolution_row option" where
  "resolution_of db intentId = select_one (\<lambda>r. er_intent_id r = intentId) (db_resolutions db)"

text \<open>
  The replay guard of every resolution: the transition event exists and is not later than now. The
  event's time was checked to be canonical when the reservation was read.
\<close>

definition replayTime :: "clock \<Rightarrow> jsval \<Rightarrow> string \<Rightarrow> unit res" where
  "replayTime ck event key =
     andthen (canonicalTimestamp (JStr (ck_ledger ck))) (\<lambda>replayNow.
     if event = JNull then fail ''BUDGET_TIME''
     else
       case prop_of event key of
         JStr t \<Rightarrow> if date_ms replayNow < date_ms t then fail ''BUDGET_TIME'' else Inr ()
       | _ \<Rightarrow> Inr ())"

section \<open>A payment resolved as settled\<close>

definition settledReplayRows ::
  "db \<Rightarrow> payment_resolution \<Rightarrow> candidate_row \<Rightarrow> attempt_row \<Rightarrow> string \<Rightarrow> jsval \<Rightarrow> buyer_row \<Rightarrow> bool"
where
  "settledReplayRows db p c a evidenceJson event b \<longleftrightarrow>
     pa_transaction_id a = Some (rc_transaction_id c)
     \<and> pa_settlement_json a = Some evidenceJson
     \<and> rc_state c = ''confirmed''
     \<and> rc_evidence_json c = Some evidenceJson
     \<and> map_option eo_state (execution_of db (pr_intentId p)) = Some ''unknown''
     \<and> map_option er_state (resolution_of db (pr_intentId p)) = Some ''reconciliation_required''
     \<and> map_option er_blocks_wallet (resolution_of db (pr_intentId p)) = Some 1
     \<and> event \<noteq> JNull
     \<and> prop_of event ''evidenceId'' = JStr (pr_evidenceId p)
     \<and> prop_of event ''outcome'' = JStr ''settled''
     \<and> prop_of event ''transactionId'' = JStr (rc_transaction_id c)
     \<and> prop_of event ''previousState'' = JStr ''unresolved''
     \<and> prop_of event ''nextState'' = JStr ''committed''
     \<and> prop_of event ''buyerOutcomeRevision'' = JNum (bo_revision b)"

definition settledReplay ::
  "host \<Rightarrow> clock \<Rightarrow> db \<Rightarrow> payment_resolution \<Rightarrow> authority \<Rightarrow> budget \<Rightarrow> reconciliation_row
   \<Rightarrow> jsval \<Rightarrow> candidate_row \<Rightarrow> unit res" where
  "settledReplay h ck db p au reservation q evidence c =
     andthen (validatePaymentAttempt h db au [''settled'']) (\<lambda>(a, _).
     andthen (validateSettledTransferEvidence h evidence au a (rc_transaction_id c)) (\<lambda>_.
     andthen (assertGloballyUniqueTransaction db (rc_transaction_id c) (Some (pr_intentId p))
                (Some (rc_id c)) None) (\<lambda>_.
     andthen (loadBudgetEvent db (pr_intentId p) ''budget.payment_resolved'') (\<lambda>event.
     andthen (assertResolvedBuyerOutcome db (pr_intentId p) ''execution_unknown''
                ''PAYMENT_RECONCILED_EXECUTION_UNKNOWN'') (\<lambda>b.
     andthen (replayTime ck event ''resolvedAt'') (\<lambda>_.
     andthen (assertTransitionChronology (prop_of event ''resolvedAt'')
                ([Some (bu_updatedAt reservation), bu_committedAt reservation]
                 @ attemptChronology a @ candidateTimes c
                 @ [Some (rr_recorded_at q),
                    map_option eo_recorded_at (execution_of db (pr_intentId p)),
                    map_option er_opened_at (resolution_of db (pr_intentId p)),
                    Some (bo_recorded_at b)])) (\<lambda>_.
     if \<not> settledReplayRows db p c a (rr_evidence_json q) event b
     then fail ''BUDGET_IDEMPOTENCY_CONFLICT'' else Inr () )))))))"

text \<open>The guards of the first resolution; the result is the attempt and the resolution time.\<close>

definition settledReady ::
  "host \<Rightarrow> clock \<Rightarrow> db \<Rightarrow> payment_resolution \<Rightarrow> authority \<Rightarrow> budget \<Rightarrow> reconciliation_row
   \<Rightarrow> jsval \<Rightarrow> candidate_row \<Rightarrow> string res" where
  "settledReady h ck db p au reservation q evidence c =
     andthen (validatePaymentAttempt h db au [''unresolved'']) (\<lambda>(a, _).
     if rc_state c \<noteq> ''pending'' \<or> pa_payment_payload_json a = None \<or> rc_evidence_json c \<noteq> None
     then fail ''RECONCILIATION_EVIDENCE_MISMATCH''
     else
       andthen (validateSettledTransferEvidence h evidence au a (rc_transaction_id c)) (\<lambda>_.
       andthen (assertGloballyUniqueTransaction db (rc_transaction_id c) (Some (pr_intentId p))
                  (Some (rc_id c)) None) (\<lambda>_.
       andthen (canonicalTimestamp (JStr (ck_ledger ck))) (\<lambda>resolvedAt.
       andthen (assertTransitionChronology (JStr resolvedAt)
                  (Some (bu_updatedAt reservation) # attemptChronology a @ candidateTimes c
                   @ [Some (rr_recorded_at q), buyerRecordedAt db (pr_intentId p)])) (\<lambda>_.
       Inr resolvedAt)))))"

definition reconcileCandidate :: "string \<Rightarrow> string \<Rightarrow> string \<Rightarrow> candidate_row \<Rightarrow> candidate_row" where
  "reconcileCandidate state evidenceJson at c =
     c\<lparr>rc_state := state, rc_evidence_json := Some evidenceJson, rc_updated_at := at\<rparr>"

text \<open>
  The candidate, attempt and budget rows of a settled resolution. The candidate is pending here, so
  the branch for a confirmed one is not reached.
\<close>

definition settledRows ::
  "db \<Rightarrow> payment_resolution \<Rightarrow> authority \<Rightarrow> string \<Rightarrow> candidate_row \<Rightarrow> string \<Rightarrow> db res" where
  "settledRows db p au evidenceJson c resolvedAt =
     andthen (update_one ''RECONCILIATION_CONFLICT''
                (\<lambda>r. rc_id r = rc_id c \<and> rc_intent_id r = pr_intentId p \<and> rc_state r = ''pending''
                     \<and> rc_transaction_id r = rc_transaction_id c)
                (reconcileCandidate ''confirmed'' evidenceJson resolvedAt) (db_candidates db))
       (\<lambda>candidates.
     andthen (update_one ''PAYMENT_ATTEMPT_STATE''
                (\<lambda>a. pa_intent_id a = pr_intentId p \<and> pa_state a = ''unresolved''
                     \<and> pa_settlement_json a = None \<and> pa_transaction_id a = None)
                (settleAttempt evidenceJson (rc_transaction_id c) (Some ''TRUSTED_RECONCILIATION'')
                   resolvedAt) (db_attempts db)) (\<lambda>attempts.
     moveBudget (pr_intentId p) ''unresolved'' (au_amount au)
       (toCommitted (au_amount au) resolvedAt)
       (db\<lparr>db_candidates := candidates, db_attempts := attempts\<rparr>)))"

text \<open>The execution of a settled payment is unknown and blocks the wallet until it is resolved.\<close>

definition openExecutionCase :: "db \<Rightarrow> payment_resolution \<Rightarrow> string \<Rightarrow> db res" where
  "openExecutionCase db p resolvedAt =
     (if execution_of db (pr_intentId p) \<noteq> None \<or> resolution_of db (pr_intentId p) \<noteq> None
      then fail ''BUDGET_CORRUPTION''
      else
        andthen (canonicalJson (JObj
                   [(''reasonCode'', JStr ''PAYMENT_RECONCILED_EXECUTION_UNKNOWN''),
                    (''reconciliationEvidenceId'', JStr (pr_evidenceId p))])) (\<lambda>metadata.
        Inr (db\<lparr>db_outcomes := db_outcomes db @
                  [\<lparr>eo_intent_id = pr_intentId p, eo_state = ''unknown'', eo_http_status = None,
                    eo_response_hash = None, eo_metadata_json = metadata,
                    eo_recorded_at = resolvedAt\<rparr>],
                db_resolutions := db_resolutions db @
                  [\<lparr>er_intent_id = pr_intentId p, er_state = ''reconciliation_required'',
                    er_reason_code = ''PAYMENT_RECONCILED_EXECUTION_UNKNOWN'',
                    er_blocks_wallet = 1, er_opened_at = resolvedAt,
                    er_resolved_at = None\<rparr>]\<rparr>)))"

definition settledWrite ::
  "host \<Rightarrow> clock \<Rightarrow> db \<Rightarrow> payment_resolution \<Rightarrow> authority \<Rightarrow> string \<Rightarrow> candidate_row \<Rightarrow> string
   \<Rightarrow> db res" where
  "settledWrite h ck db p au evidenceJson c resolvedAt =
     andthen (settledRows db p au evidenceJson c resolvedAt) (\<lambda>db1.
     andthen (openExecutionCase db1 p resolvedAt) (\<lambda>db2.
     andthen (writeBuyerOutcome db2 (pr_intentId p) ''execution_unknown''
                ''PAYMENT_RECONCILED_EXECUTION_UNKNOWN'' resolvedAt ''payment_unresolved'')
       (\<lambda>(db3, revision).
     andthen (appendEvent h (ck_store ck)
                (budgetEvent (pr_intentId p) ''budget.payment_resolved''
                   [(''evidenceId'', JStr (pr_evidenceId p)),
                    (''outcome'', JStr ''settled''),
                    (''transactionId'', JStr (rc_transaction_id c)),
                    (''amountAtomic'', JStr (au_amount au)),
                    (''previousState'', JStr ''unresolved''),
                    (''nextState'', JStr ''committed''),
                    (''buyerOutcomeRevision'', JNum revision),
                    (''resolvedAt'', JStr resolvedAt)]) db3) (\<lambda>(db4, _). Inr db4))))"

definition resolveSettledPayment ::
  "host \<Rightarrow> clock \<Rightarrow> db \<Rightarrow> payment_resolution \<Rightarrow> authority \<Rightarrow> budget \<Rightarrow> reconciliation_row
   \<Rightarrow> jsval \<Rightarrow> (db \<times> budget) res" where
  "resolveSettledPayment h ck db p au reservation q evidence =
     andthen (loadPaymentCandidates db (pr_intentId p)) (\<lambda>candidates.
     case filter (\<lambda>c. rc_state c = ''pending'' \<or> rc_state c = ''confirmed'') candidates of
       [c] \<Rightarrow>
         if bu_state reservation = ''committed'' then
           andthen (settledReplay h ck db p au reservation q evidence c) (\<lambda>_. Inr (db, reservation))
         else if bu_state reservation \<noteq> ''unresolved'' then fail ''BUDGET_STATE''
         else
           andthen (settledReady h ck db p au reservation q evidence c) (\<lambda>resolvedAt.
           andthen (settledWrite h ck db p au (rr_evidence_json q) c resolvedAt) (\<lambda>db'.
           andthen (movedBudget h db' (pr_intentId p) ''committed'') (\<lambda>row.
           andthen (walletAfter h db' row resolvedAt) (\<lambda>after.
           if \<not> bl_resolutionRequired (sn_blockers after) then fail ''BUDGET_CORRUPTION''
           else Inr (db', row)))))
     | _ \<Rightarrow> fail ''RECONCILIATION_EVIDENCE_MISMATCH'')"

section \<open>A payment resolved as rejected\<close>

definition rejectedReplay ::
  "host \<Rightarrow> clock \<Rightarrow> db \<Rightarrow> payment_resolution \<Rightarrow> authority \<Rightarrow> budget \<Rightarrow> reconciliation_row
   \<Rightarrow> jsval \<Rightarrow> candidate_row list \<Rightarrow> unit res" where
  "rejectedReplay h ck db p au reservation q evidence candidates =
     andthen (validatePaymentAttempt h db au [''rejected'']) (\<lambda>(a, _).
     if pa_payment_payload_json a = None then fail ''BUDGET_IDEMPOTENCY_CONFLICT''
     else
       andthen (loadBudgetEvent db (pr_intentId p) ''budget.payment_resolved'') (\<lambda>event.
       andthen (replayTime ck event ''resolvedAt'') (\<lambda>_.
       andthen (validateUnusedAuthorizationEvidence h evidence au a (rr_recorded_at q)
                  (prop_of event ''resolvedAt'')) (\<lambda>_.
       andthen (assertResolvedBuyerOutcome db (pr_intentId p) ''payment_rejected''
                  ''AUTHORIZATION_UNUSED_AFTER_EXPIRY'') (\<lambda>b.
       andthen (assertTransitionChronology (prop_of event ''resolvedAt'')
                  (Some (bu_updatedAt reservation) # attemptChronology a
                   @ concat (map candidateTimes candidates)
                   @ [Some (rr_recorded_at q), Some (bo_recorded_at b)])) (\<lambda>_.
       if pa_reason_code a \<noteq> Some ''AUTHORIZATION_UNUSED_AFTER_EXPIRY''
          \<or> list_ex (\<lambda>c. rc_state c = ''pending'') candidates
          \<or> event = JNull
          \<or> prop_of event ''evidenceId'' \<noteq> JStr (pr_evidenceId p)
          \<or> prop_of event ''outcome'' \<noteq> JStr ''rejected''
          \<or> prop_of event ''previousState'' \<noteq> JStr ''unresolved''
          \<or> prop_of event ''nextState'' \<noteq> JStr ''released''
          \<or> prop_of event ''buyerOutcomeRevision'' \<noteq> JNum (bo_revision b)
       then fail ''BUDGET_IDEMPOTENCY_CONFLICT'' else Inr () ))))))"

definition rejectedReady ::
  "host \<Rightarrow> clock \<Rightarrow> db \<Rightarrow> payment_resolution \<Rightarrow> authority \<Rightarrow> budget \<Rightarrow> reconciliation_row
   \<Rightarrow> jsval \<Rightarrow> candidate_row list \<Rightarrow> string res" where
  "rejectedReady h ck db p au reservation q evidence candidates =
     andthen (validatePaymentAttempt h db au [''unresolved'']) (\<lambda>(a, _).
     if pa_payment_payload_json a = None then fail ''RECONCILIATION_EVIDENCE_MISMATCH''
     else
       andthen (canonicalTimestamp (JStr (ck_ledger ck))) (\<lambda>resolvedAt.
       andthen (assertTransitionChronology (JStr resolvedAt)
                  (Some (bu_updatedAt reservation) # attemptChronology a
                   @ concat (map candidateTimes candidates)
                   @ [Some (rr_recorded_at q), buyerRecordedAt db (pr_intentId p)])) (\<lambda>_.
       andthen (validateUnusedAuthorizationEvidence h evidence au a (rr_recorded_at q)
                  (JStr resolvedAt)) (\<lambda>_.
       if list_ex (\<lambda>c. rc_state c = ''pending'' \<and> rc_evidence_json c \<noteq> None) candidates
       then fail ''RECONCILIATION_EVIDENCE_MISMATCH'' else Inr resolvedAt))))"

text \<open>The loop over the pending candidates, one guarded update each.\<close>

fun rejectCandidates ::
  "string \<Rightarrow> string \<Rightarrow> string \<Rightarrow> candidate_row list \<Rightarrow> candidate_row list \<Rightarrow> candidate_row list res"
where
  "rejectCandidates intentId evidenceJson at [] rows = Inr rows"
| "rejectCandidates intentId evidenceJson at (c # cs) rows =
     andthen (update_one ''RECONCILIATION_CONFLICT''
                (\<lambda>r. rc_id r = rc_id c \<and> rc_intent_id r = intentId \<and> rc_state r = ''pending'')
                (reconcileCandidate ''rejected'' evidenceJson at) rows)
       (\<lambda>rows'. rejectCandidates intentId evidenceJson at cs rows')"

definition rejectedRows ::
  "db \<Rightarrow> payment_resolution \<Rightarrow> authority \<Rightarrow> string \<Rightarrow> candidate_row list \<Rightarrow> string \<Rightarrow> db res" where
  "rejectedRows db p au evidenceJson candidates resolvedAt =
     andthen (rejectCandidates (pr_intentId p) evidenceJson resolvedAt
                (filter (\<lambda>c. rc_state c = ''pending'') candidates) (db_candidates db)) (\<lambda>rows.
     andthen (update_one ''PAYMENT_ATTEMPT_STATE''
                (\<lambda>a. pa_intent_id a = pr_intentId p \<and> pa_state a = ''unresolved''
                     \<and> pa_transaction_id a = None \<and> pa_settlement_json a = None)
                (rejectAttempt ''AUTHORIZATION_UNUSED_AFTER_EXPIRY'' resolvedAt) (db_attempts db))
       (\<lambda>attempts.
     moveBudget (pr_intentId p) ''unresolved'' (au_amount au) (toReleased (au_amount au) resolvedAt)
       (db\<lparr>db_candidates := rows, db_attempts := attempts\<rparr>)))"

definition rejectedWrite ::
  "host \<Rightarrow> clock \<Rightarrow> db \<Rightarrow> payment_resolution \<Rightarrow> authority \<Rightarrow> string \<Rightarrow> candidate_row list \<Rightarrow> string
   \<Rightarrow> db res" where
  "rejectedWrite h ck db p au evidenceJson candidates resolvedAt =
     andthen (rejectedRows db p au evidenceJson candidates resolvedAt) (\<lambda>db1.
     if execution_of db1 (pr_intentId p) \<noteq> None then fail ''BUDGET_CORRUPTION''
     else
       andthen (writeBuyerOutcome db1 (pr_intentId p) ''payment_rejected''
                  ''AUTHORIZATION_UNUSED_AFTER_EXPIRY'' resolvedAt ''payment_unresolved'')
         (\<lambda>(db2, revision).
       andthen (appendEvent h (ck_store ck)
                  (budgetEvent (pr_intentId p) ''budget.payment_resolved''
                     [(''evidenceId'', JStr (pr_evidenceId p)),
                      (''outcome'', JStr ''rejected''),
                      (''amountAtomic'', JStr (au_amount au)),
                      (''previousState'', JStr ''unresolved''),
                      (''nextState'', JStr ''released''),
                      (''buyerOutcomeRevision'', JNum revision),
                      (''resolvedAt'', JStr resolvedAt)]) db2) (\<lambda>(db3, _). Inr db3)))"

definition resolveRejectedPayment ::
  "host \<Rightarrow> clock \<Rightarrow> db \<Rightarrow> payment_resolution \<Rightarrow> authority \<Rightarrow> budget \<Rightarrow> reconciliation_row
   \<Rightarrow> jsval \<Rightarrow> (db \<times> budget) res" where
  "resolveRejectedPayment h ck db p au reservation q evidence =
     andthen (loadPaymentCandidates db (pr_intentId p)) (\<lambda>candidates.
     if list_ex (\<lambda>c. rc_state c = ''confirmed'') candidates
     then fail ''RECONCILIATION_EVIDENCE_MISMATCH''
     else if bu_state reservation = ''released'' then
       andthen (rejectedReplay h ck db p au reservation q evidence candidates) (\<lambda>_.
       Inr (db, reservation))
     else if bu_state reservation \<noteq> ''unresolved'' then fail ''BUDGET_STATE''
     else
       andthen (rejectedReady h ck db p au reservation q evidence candidates) (\<lambda>resolvedAt.
       andthen (rejectedWrite h ck db p au (rr_evidence_json q) candidates resolvedAt) (\<lambda>db'.
       andthen (movedBudget h db' (pr_intentId p) ''released'') (\<lambda>row.
       andthen (walletAfter h db' row resolvedAt) (\<lambda>_.
       Inr (db', row))))))"

definition resolvePaymentImpl ::
  "host \<Rightarrow> clock \<Rightarrow> db \<Rightarrow> payment_resolution \<Rightarrow> (db \<times> budget) res" where
  "resolvePaymentImpl h ck db p =
     andthen (loadReservationAuthority h db (pr_intentId p) False []) (\<lambda>au.
     andthen (requireReservation h db (pr_intentId p)) (\<lambda>reservation.
     andthen (loadReconciliation db (pr_intentId p) (pr_evidenceId p) ''payment'' (pr_outcome p))
       (\<lambda>(q, evidence).
     if pr_outcome p = ''settled''
     then resolveSettledPayment h ck db p au reservation q evidence
     else resolveRejectedPayment h ck db p au reservation q evidence)))"

definition resolvePaymentInTransaction ::
  "host \<Rightarrow> clock \<Rightarrow> jsval \<Rightarrow> db \<Rightarrow> (db \<times> budget) res" where
  "resolvePaymentInTransaction h ck input db =
     andthen (preparePaymentResolution input) (\<lambda>p. resolvePaymentImpl h ck db p)"

definition resolvePayment :: "host \<Rightarrow> clock \<Rightarrow> jsval \<Rightarrow> db \<Rightarrow> db \<times> budget res" where
  "resolvePayment h ck input db =
     (case preparePaymentResolution input of
        Inl err \<Rightarrow> (db, Inl err)
      | Inr p \<Rightarrow> transaction (\<lambda>db. resolvePaymentImpl h ck db p) db)"

section \<open>A confirmed refund\<close>

record refund_confirmation =
  fc_intentId :: string
  fc_evidenceId :: string
  fc_refundTransactionId :: string

definition prepareRefund :: "jsval \<Rightarrow> refund_confirmation res" where
  "prepareRefund input =
     andthen (exactRecord input [''intentId'', ''evidenceId'', ''refundTransactionId''] []
                ''REFUND_CONFIRMATION_SCHEMA'') (\<lambda>record.
     andthen (canonicalToken (get_prop record ''intentId'')) (\<lambda>intentId.
     andthen (canonicalToken (get_prop record ''evidenceId'')) (\<lambda>evidenceId.
     andthen (canonicalEvmHash (get_prop record ''refundTransactionId'')) (\<lambda>transactionId.
     Inr \<lparr>fc_intentId = intentId, fc_evidenceId = evidenceId,
          fc_refundTransactionId = transactionId\<rparr>))))"

text \<open>The persisted refund the confirmation names.\<close>

definition refundOf :: "db \<Rightarrow> refund_confirmation \<Rightarrow> refund_row res" where
  "refundOf db p =
     (let rows = filter (\<lambda>r. rf_intent_id r = fc_intentId p) (db_refunds db) in
      andthen (check_each
                 (\<lambda>r. case rf_refund_transaction_id r of
                    None \<Rightarrow> Inr ()
                  | Some t \<Rightarrow>
                      andthen (canonicalEvmHashFor (JStr t) ''TRANSACTION_BINDING_CORRUPTION'')
                        (\<lambda>canonical.
                      if t \<noteq> canonical then fail ''TRANSACTION_BINDING_CORRUPTION'' else Inr ()))
                 rows) (\<lambda>_.
      case filter (\<lambda>r. rf_refund_transaction_id r = Some (fc_refundTransactionId p)) rows of
        [refund] \<Rightarrow> Inr refund
      | _ \<Rightarrow> fail ''REFUND_EVIDENCE_MISMATCH''))"

definition refundBinding ::
  "refund_confirmation \<Rightarrow> authority \<Rightarrow> attempt_row \<Rightarrow> refund_row \<Rightarrow> unit res" where
  "refundBinding p au a refund =
     andthen (canonicalToken (JStr (rf_id refund))) (\<lambda>_.
     andthen (canonicalAtomicText (JStr (rf_amount_atomic refund)) ''REFUND_EVIDENCE_MISMATCH'')
       (\<lambda>refundAmount.
     andthen (canonicalEvmHash (JStr (rf_original_transaction_id refund))) (\<lambda>original.
     if rf_original_transaction_id refund \<noteq> original
        \<or> Some original \<noteq> pa_transaction_id a
        \<or> refundAmount \<noteq> au_amount au
        \<or> Some (fc_refundTransactionId p) = pa_transaction_id a
     then fail ''REFUND_EVIDENCE_MISMATCH'' else Inr ())))"

definition refundReplay ::
  "clock \<Rightarrow> db \<Rightarrow> refund_confirmation \<Rightarrow> budget \<Rightarrow> reconciliation_row \<Rightarrow> attempt_row \<Rightarrow> refund_row
   \<Rightarrow> unit res" where
  "refundReplay ck db p reservation q a refund =
     (let execution = execution_of db (fc_intentId p);
          resolution = resolution_of db (fc_intentId p) in
      andthen (loadBudgetEvent db (fc_intentId p) ''budget.refund_confirmed'') (\<lambda>event.
      andthen (assertResolvedBuyerOutcome db (fc_intentId p) ''refunded'' ''REFUND_CONFIRMED'')
        (\<lambda>b.
      andthen (replayTime ck event ''confirmedAt'') (\<lambda>_.
      andthen (assertTransitionChronology (prop_of event ''confirmedAt'')
                 ([Some (bu_updatedAt reservation), bu_committedAt reservation]
                  @ attemptChronology a
                  @ [Some (rf_created_at refund), Some (rf_updated_at refund),
                     Some (rr_recorded_at q), map_option eo_recorded_at execution,
                     map_option er_opened_at resolution,
                     Option.bind resolution er_resolved_at, Some (bo_recorded_at b)])) (\<lambda>_.
      if rf_state refund \<noteq> ''confirmed''
         \<or> rf_evidence_json refund \<noteq> Some (rr_evidence_json q)
         \<or> map_option er_state resolution \<noteq> Some ''resolved''
         \<or> map_option er_blocks_wallet resolution \<noteq> Some 0
         \<or> event = JNull
         \<or> prop_of event ''evidenceId'' \<noteq> JStr (fc_evidenceId p)
         \<or> prop_of event ''refundTransactionId'' \<noteq> JStr (fc_refundTransactionId p)
         \<or> prop_of event ''originalTransactionId'' \<noteq> option_string (pa_transaction_id a)
         \<or> prop_of event ''previousState'' \<noteq> JStr ''committed''
         \<or> prop_of event ''nextState'' \<noteq> JStr ''released''
         \<or> prop_of event ''buyerOutcomeRevision'' \<noteq> JNum (bo_revision b)
      then fail ''BUDGET_IDEMPOTENCY_CONFLICT'' else Inr ())))))"

definition refundReady ::
  "clock \<Rightarrow> db \<Rightarrow> refund_confirmation \<Rightarrow> budget \<Rightarrow> reconciliation_row \<Rightarrow> attempt_row \<Rightarrow> refund_row
   \<Rightarrow> string res" where
  "refundReady ck db p reservation q a refund =
     (let execution = execution_of db (fc_intentId p);
          resolution = resolution_of db (fc_intentId p) in
      if bu_state reservation \<noteq> ''committed''
         \<or> map_option eo_state execution \<noteq> Some ''failed''
         \<or> map_option er_state resolution \<noteq> Some ''refund_pending''
         \<or> map_option er_blocks_wallet resolution \<noteq> Some 1
         \<or> Option.bind resolution er_resolved_at \<noteq> None
         \<or> (rf_state refund \<noteq> ''pending'' \<and> rf_state refund \<noteq> ''unresolved'')
         \<or> rf_evidence_json refund \<noteq> None
      then fail ''REFUND_STATE''
      else
        andthen (canonicalTimestamp (JStr (ck_ledger ck))) (\<lambda>confirmedAt.
        andthen (assertTransitionChronology (JStr confirmedAt)
                   ([bu_committedAt reservation, Some (bu_updatedAt reservation)]
                    @ attemptChronology a
                    @ [Some (rf_created_at refund), Some (rf_updated_at refund),
                       Some (rr_recorded_at q), map_option eo_recorded_at execution,
                       map_option er_opened_at resolution,
                       buyerRecordedAt db (fc_intentId p)])) (\<lambda>_.
        Inr confirmedAt)))"

definition refundRows ::
  "db \<Rightarrow> refund_confirmation \<Rightarrow> authority \<Rightarrow> string \<Rightarrow> attempt_row \<Rightarrow> refund_row \<Rightarrow> string \<Rightarrow> db res"
where
  "refundRows db p au evidenceJson a refund confirmedAt =
     andthen (update_one ''REFUND_CONFLICT''
                (\<lambda>r. rf_id r = rf_id refund \<and> rf_intent_id r = fc_intentId p
                     \<and> rf_state r = rf_state refund
                     \<and> rf_refund_transaction_id r = Some (fc_refundTransactionId p)
                     \<and> Some (rf_original_transaction_id r) = pa_transaction_id a
                     \<and> rf_amount_atomic r = au_amount au \<and> rf_evidence_json r = None)
                (\<lambda>r. r\<lparr>rf_state := ''confirmed'', rf_evidence_json := Some evidenceJson,
                       rf_updated_at := confirmedAt\<rparr>) (db_refunds db)) (\<lambda>refunds.
     andthen (update_one ''REFUND_CONFLICT''
                (\<lambda>r. er_intent_id r = fc_intentId p \<and> er_state r = ''refund_pending''
                     \<and> er_blocks_wallet r = 1 \<and> er_resolved_at r = None)
                (\<lambda>r. r\<lparr>er_state := ''resolved'', er_blocks_wallet := 0,
                       er_resolved_at := Some confirmedAt\<rparr>) (db_resolutions db)) (\<lambda>resolutions.
     moveBudget (fc_intentId p) ''committed'' (au_amount au)
       (toReleased (au_amount au) confirmedAt)
       (db\<lparr>db_refunds := refunds, db_resolutions := resolutions\<rparr>)))"

definition refundWrite ::
  "host \<Rightarrow> clock \<Rightarrow> db \<Rightarrow> refund_confirmation \<Rightarrow> authority \<Rightarrow> string \<Rightarrow> attempt_row \<Rightarrow> refund_row
   \<Rightarrow> string \<Rightarrow> db res" where
  "refundWrite h ck db p au evidenceJson a refund confirmedAt =
     andthen (refundRows db p au evidenceJson a refund confirmedAt) (\<lambda>db1.
     andthen (writeBuyerOutcome db1 (fc_intentId p) ''refunded'' ''REFUND_CONFIRMED'' confirmedAt
                ''execution_failed'') (\<lambda>(db2, revision).
     andthen (appendEvent h (ck_store ck)
                (budgetEvent (fc_intentId p) ''budget.refund_confirmed''
                   [(''evidenceId'', JStr (fc_evidenceId p)),
                    (''originalTransactionId'', option_string (pa_transaction_id a)),
                    (''refundTransactionId'', JStr (fc_refundTransactionId p)),
                    (''amountAtomic'', JStr (au_amount au)),
                    (''previousState'', JStr ''committed''),
                    (''nextState'', JStr ''released''),
                    (''buyerOutcomeRevision'', JNum revision),
                    (''confirmedAt'', JStr confirmedAt)]) db2) (\<lambda>(db3, _). Inr db3)))"

definition recordConfirmedRefundImpl ::
  "host \<Rightarrow> clock \<Rightarrow> db \<Rightarrow> refund_confirmation \<Rightarrow> (db \<times> budget) res" where
  "recordConfirmedRefundImpl h ck db p =
     andthen (loadReservationAuthority h db (fc_intentId p) False []) (\<lambda>au.
     andthen (requireReservation h db (fc_intentId p)) (\<lambda>reservation.
     andthen (loadReconciliation db (fc_intentId p) (fc_evidenceId p) ''refund'' ''refund_confirmed'')
       (\<lambda>(q, evidence).
     andthen (validatePaymentAttempt h db au [''settled'']) (\<lambda>(a, _).
     andthen (refundOf db p) (\<lambda>refund.
     andthen (refundBinding p au a refund) (\<lambda>_.
     andthen (validateConfirmedRefundEvidence h evidence au a (fc_refundTransactionId p)) (\<lambda>_.
     andthen (assertGloballyUniqueTransaction db (fc_refundTransactionId p) None None
                (Some (rf_id refund))) (\<lambda>_.
     if bu_state reservation = ''released'' then
       andthen (refundReplay ck db p reservation q a refund) (\<lambda>_. Inr (db, reservation))
     else
       andthen (refundReady ck db p reservation q a refund) (\<lambda>confirmedAt.
       andthen (refundWrite h ck db p au (rr_evidence_json q) a refund confirmedAt) (\<lambda>db'.
       andthen (movedBudget h db' (fc_intentId p) ''released'') (\<lambda>row.
       andthen (walletAfter h db' row confirmedAt) (\<lambda>_.
       Inr (db', row)))))))))))))"

definition recordConfirmedRefundInTransaction ::
  "host \<Rightarrow> clock \<Rightarrow> jsval \<Rightarrow> db \<Rightarrow> (db \<times> budget) res" where
  "recordConfirmedRefundInTransaction h ck input db =
     andthen (prepareRefund input) (\<lambda>p. recordConfirmedRefundImpl h ck db p)"

definition recordConfirmedRefund :: "host \<Rightarrow> clock \<Rightarrow> jsval \<Rightarrow> db \<Rightarrow> db \<times> budget res" where
  "recordConfirmedRefund h ck input db =
     (case prepareRefund input of
        Inl err \<Rightarrow> (db, Inl err)
      | Inr p \<Rightarrow> transaction (\<lambda>db. recordConfirmedRefundImpl h ck db p) db)"

end
