(* ===== verification/LedgerFacts.thy ===== *)
theory LedgerFacts
  imports LedgerResolve
begin

text \<open>
  What the operations of the budget ledger do to the database, read off their definitions: an
  operation that returns either replayed an earlier one and wrote nothing, or moved one reservation
  along one edge of its life cycle, appended one event to the log, left every table of spend
  authority alone and found the whole ledger valid afterwards.
\<close>

section \<open>Statements\<close>

lemma update_one_Inr:
  assumes "update_one code P f rows = Inr rows'"
  obtains xs r ys where "rows = xs @ r # ys" and "P r" and "rows' = xs @ f r # ys"
    and "\<forall>x \<in> set (xs @ ys). \<not> P x"
proof -
  have one: "length (filter P rows) = 1" and rows': "rows' = map (\<lambda>r. if P r then f r else r) rows"
    using assms by (simp_all add: update_one_def update_rows_def)
  from one obtain r where r: "filter P rows = [r]"
    by (metis One_nat_def length_0_conv length_Suc_conv)
  then obtain xs ys where rows: "rows = xs @ r # ys" and "P r"
    and xs: "\<forall>x \<in> set xs. \<not> P x" and ys: "filter P ys = []"
    by (auto simp: filter_eq_Cons_iff)
  moreover from ys have "\<forall>y \<in> set ys. \<not> P y" by (simp add: filter_empty_conv)
  moreover from calculation have "rows' = xs @ f r # ys"
    unfolding rows' by (simp add: map_idI)
  ultimately show thesis using that [OF rows \<open>P r\<close>] by auto
qed

lemma select_one_Some: "select_one P rows = Some r \<Longrightarrow> r \<in> set rows \<and> P r"
  by (auto simp: select_one_def find_Some_iff)

lemma select_one_None: "select_one P rows = None \<longleftrightarrow> (\<forall>r \<in> set rows. \<not> P r)"
  by (auto simp: select_one_def find_None_iff)

lemma select_one_unique:
  assumes "r \<in> set rows" and "P r" and "\<And>x. x \<in> set rows \<Longrightarrow> P x \<Longrightarrow> x = r"
  shows "select_one P rows = Some r"
proof (cases "select_one P rows")
  case None
  with assms(1,2) show ?thesis by (auto simp: select_one_None)
next
  case (Some x)
  then have "x \<in> set rows \<and> P x" by (rule select_one_Some)
  with assms(3) [of x] Some show ?thesis by simp
qed

lemma select_one_append:
  "select_one P (xs @ ys) = (case select_one P xs of None \<Rightarrow> select_one P ys | Some x \<Rightarrow> Some x)"
  by (induction xs) (simp_all add: select_one_def)

section \<open>What an operation leaves alone\<close>

text \<open>The tables of spend authority: no operation of the ledger writes them.\<close>

definition same_authority :: "db \<Rightarrow> db \<Rightarrow> bool" where
  "same_authority db db' \<longleftrightarrow>
     db_metadata db' = db_metadata db \<and> db_policy_versions db' = db_policy_versions db
     \<and> db_sessions db' = db_sessions db \<and> db_enrollments db' = db_enrollments db
     \<and> db_bindings db' = db_bindings db \<and> db_intents db' = db_intents db
     \<and> db_decisions db' = db_decisions db \<and> db_approvals db' = db_approvals db
     \<and> db_reconciliations db' = db_reconciliations db"

lemma same_authority_refl [simp]: "same_authority db db"
  by (simp add: same_authority_def)

lemma same_authority_trans: "same_authority a b \<Longrightarrow> same_authority b c \<Longrightarrow> same_authority a c"
  by (simp add: same_authority_def)

lemma loadPolicyVersion_cong:
  "db_policy_versions db' = db_policy_versions db \<Longrightarrow>
   loadPolicyVersion h db' pid = loadPolicyVersion h db pid"
  unfolding loadPolicyVersion_def by (simp only:)

lemma validateEnrollmentAndBinding_cong:
  "db_enrollments db' = db_enrollments db \<Longrightarrow> db_bindings db' = db_bindings db \<Longrightarrow>
   validateEnrollmentAndBinding h db' i s r = validateEnrollmentAndBinding h db i s r"
  unfolding validateEnrollmentAndBinding_def by (simp only:)

lemma loadReservationAuthority_cong:
  assumes "same_authority db db'"
  shows "loadReservationAuthority h db' i r at = loadReservationAuthority h db i r at"
proof -
  note eqs = assms [unfolded same_authority_def]
  have "loadPolicyVersion h db' = loadPolicyVersion h db"
    using eqs by (intro ext loadPolicyVersion_cong) simp
  moreover have "validateEnrollmentAndBinding h db' = validateEnrollmentAndBinding h db"
    using eqs by (intro ext validateEnrollmentAndBinding_cong) simp_all
  moreover have "authorityDecision db' = authorityDecision db"
    using eqs by (intro ext) (simp add: authorityDecision_def)
  moreover have "validateConsumedApproval db' = validateConsumedApproval db"
    using eqs by (intro ext) (simp add: validateConsumedApproval_def)
  ultimately show ?thesis
    unfolding loadReservationAuthority_def using eqs by (simp only:)
qed

lemma joinBudget_cong: "same_authority db db' \<Longrightarrow> joinBudget db' r = joinBudget db r"
  by (simp add: joinBudget_def same_authority_def)

section \<open>The life cycle of a reservation\<close>

text \<open>
  The abstract specification: a reservation is created reserved; its whole amount then moves from one
  disposition to another along six edges. Released is final.
\<close>

inductive budget_move :: "budget_row \<Rightarrow> budget_row \<Rightarrow> bool" where
  commit_move: "budgetAt i ''reserved'' a r \<Longrightarrow> budget_move r (toCommitted a t r)"
| release_move: "budgetAt i ''reserved'' a r \<Longrightarrow> budget_move r (toReleased a t r)"
| hold_move: "budgetAt i ''reserved'' a r \<Longrightarrow> budget_move r (toUnresolved a t r)"
| settle_move: "budgetAt i ''unresolved'' a r \<Longrightarrow> budget_move r (toCommitted a t r)"
| reject_move: "budgetAt i ''unresolved'' a r \<Longrightarrow> budget_move r (toReleased a t r)"
| refund_move: "budgetAt i ''committed'' a r \<Longrightarrow> budget_move r (toReleased a t r)"

definition fresh_reservation :: "budget_row \<Rightarrow> bool" where
  "fresh_reservation r \<longleftrightarrow>
     br_state r = ''reserved'' \<and> br_committed_atomic r = ''0'' \<and> br_released_atomic r = ''0''
     \<and> br_unresolved_atomic r = ''0'' \<and> br_committed_at r = None"

text \<open>A step of the table: the reservation of one intent is created or moves.\<close>

inductive budgets_step :: "string \<Rightarrow> budget_row list \<Rightarrow> budget_row list \<Rightarrow> bool" where
  open_reservation:
    "fresh_reservation r \<Longrightarrow> br_intent_id r = i \<Longrightarrow> i \<notin> br_intent_id ` set rows
     \<Longrightarrow> budgets_step i rows (rows @ [r])"
| move_reservation:
    "budget_move r r' \<Longrightarrow> br_intent_id r = i \<Longrightarrow> budgets_step i (xs @ r # ys) (xs @ r' # ys)"

inductive_cases budget_moveE: "budget_move r r'"
inductive_cases budgets_stepE: "budgets_step i rows rows'"

lemma moveBudget_step:
  assumes "moveBudget i st a f db = Inr db'"
    and "\<And>r. budgetAt i st a r \<Longrightarrow> budget_move r (f r)"
  shows "budgets_step i (db_budgets db) (db_budgets db')"
    and "db' = db\<lparr>db_budgets := db_budgets db'\<rparr>"
proof -
  from assms(1) have upd: "update_one ''BUDGET_CONFLICT'' (budgetAt i st a) f (db_budgets db)
      = Inr (db_budgets db')" and eq: "db' = db\<lparr>db_budgets := db_budgets db'\<rparr>"
    by (auto simp: moveBudget_def)
  show "db' = db\<lparr>db_budgets := db_budgets db'\<rparr>" by (rule eq)
  from upd show "budgets_step i (db_budgets db) (db_budgets db')"
    by (rule update_one_Inr) (auto intro!: move_reservation assms(2) simp: budgetAt_def)
qed

section \<open>The event log\<close>

definition budget_event_row :: "string \<Rightarrow> event_row \<Rightarrow> bool" where
  "budget_event_row i e \<longleftrightarrow> ev_entity_type e = ''budget_reservation'' \<and> ev_entity_id e = i"

text \<open>The appended event is the one the code would compute again from the stored row.\<close>

definition chained :: "host \<Rightarrow> event_row list \<Rightarrow> event_row \<Rightarrow> bool" where
  "chained h log e \<longleftrightarrow>
     ev_previous_hash e = last_hash log
     \<and> (\<exists>data. json_parse (ev_data_json e) = Some data
          \<and> eventHash h (ev_entity_type e) (ev_entity_id e) (ev_event_type e) data (last_hash log)
              (ev_created_at e) = Inr (ev_event_hash e))"

lemma eventHash_normal:
  "eventHash h et ei ev (js_normal data) p t = eventHash h et ei ev data p t"
proof -
  let ?o = "\<lambda>d. JObj [(''entityType'', JStr et), (''entityId'', JStr ei), (''eventType'', JStr ev),
    (''data'', d), (''previousHash'', option_string p), (''createdAt'', JStr t)]"
  have "canonicalSerialize (?o (js_normal data)) = canonicalSerialize (?o data)"
    by (cases "canonicalSerialize data") (simp_all add: canonicalSerialize_js_normal)
  then show ?thesis by (simp only: eventHash_def canonicalJson_def)
qed

lemma appendEvent_Inr:
  assumes "appendEvent h now e db = Inr (db', hash)" and wf: "js_wf (evt_data e)"
  obtains ev kvs where "db' = db\<lparr>db_events := db_events db @ [ev]\<rparr>"
    and "evt_entityType e = JStr (ev_entity_type ev)" and "evt_entityId e = JStr (ev_entity_id ev)"
    and "evt_eventType e = JStr (ev_event_type ev)" and "evt_data e = JObj kvs"
    and "canonicalJson (JObj kvs) = Inr (ev_data_json ev)"
    and "ev_event_hash ev \<notin> ev_event_hash ` set (db_events db)"
    and "chained h (db_events db) ev"
proof -
  have token: "v = JStr s" if "canonicalToken v = Inr s" for v s
    using that by (auto simp: canonicalToken_def canonicalTokenMax_def split: jsval.splits if_splits)
  obtain kvs et ei ty at bytes
    where data: "evt_data e = JObj kvs"
      and et: "canonicalToken (evt_entityType e) = Inr et"
      and ei: "canonicalToken (evt_entityId e) = Inr ei"
      and ty: "canonicalToken (evt_eventType e) = Inr ty"
      and bytes: "canonicalJson (JObj kvs) = Inr bytes"
      and hash: "eventHash h et ei ty (JObj kvs) (last_hash (db_events db)) at = Inr hash"
      and new: "hash \<notin> ev_event_hash ` set (db_events db)"
      and db': "db' = db\<lparr>db_events := db_events db @
             [\<lparr>ev_entity_type = et, ev_entity_id = ei, ev_event_type = ty,
               ev_data_json = bytes, ev_previous_hash = last_hash (db_events db), ev_event_hash = hash,
               ev_created_at = at\<rparr>]\<rparr>"
    using assms(1) unfolding appendEvent_def
    by (auto simp: Let_def dest!: cloneDataGraph_Inr split: jsval.splits)
  have "json_parse bytes = Some (js_normal (JObj kvs))"
    by (rule json_parse_canonicalJson) (use wf bytes data in simp_all)
  then have "chained h (db_events db)
      \<lparr>ev_entity_type = et, ev_entity_id = ei, ev_event_type = ty, ev_data_json = bytes,
       ev_previous_hash = last_hash (db_events db), ev_event_hash = hash, ev_created_at = at\<rparr>"
    using hash by (simp add: chained_def eventHash_normal del: js_normal.simps)
  then show thesis
    using that [OF db'] data bytes new token [OF et] token [OF ei] token [OF ty] by simp
qed

lemma verify_chain_append:
  "verify_chain h p log = Inr True \<Longrightarrow>
   verify_chain h p (log @ es)
     = verify_chain h (if log = [] then p else Some (ev_event_hash (last log))) es"
proof (induction log arbitrary: p)
  case (Cons row log)
  from Cons.prems obtain data where "json_parse (ev_data_json row) = Some data"
    and "eventHash h (ev_entity_type row) (ev_entity_id row) (ev_event_type row) data p
           (ev_created_at row) = Inr (ev_event_hash row)"
    and "ev_previous_hash row = p" and "verify_chain h (Some (ev_event_hash row)) log = Inr True"
    by (auto split: option.splits if_splits)
  then show ?case using Cons.IH by auto
qed simp

lemma verify_chain_append_one:
  assumes "verify_chain h None log = Inr True" and "chained h log e"
  shows "verify_chain h None (log @ [e]) = Inr True"
proof -
  have "verify_chain h None (log @ [e]) = verify_chain h (last_hash log) [e]"
    using verify_chain_append [OF assms(1)] by (simp add: last_hash_def)
  also have "\<dots> = Inr True" using assms(2) by (auto simp: chained_def)
  finally show ?thesis .
qed

section \<open>The effect of an operation\<close>

definition appended :: "host \<Rightarrow> string \<Rightarrow> db \<Rightarrow> db \<Rightarrow> bool" where
  "appended h i db db' \<longleftrightarrow>
     (\<exists>e. db_events db' = db_events db @ [e] \<and> budget_event_row i e \<and> chained h (db_events db) e)"

definition written :: "host \<Rightarrow> string \<Rightarrow> db \<Rightarrow> db \<Rightarrow> bool" where
  "written h i db db' \<longleftrightarrow>
     same_authority db db' \<and> budgets_step i (db_budgets db) (db_budgets db') \<and> appended h i db db'"

text \<open>Every reservation of the ledger passes every check.\<close>

definition ledger_valid :: "host \<Rightarrow> db \<Rightarrow> bool" where
  "ledger_valid h db \<longleftrightarrow> (\<exists>rows. validatedBudgetRows h db (\<lambda>_. True) = Inr rows)"

definition ledger_effect :: "host \<Rightarrow> string \<Rightarrow> db \<Rightarrow> db \<Rightarrow> bool" where
  "ledger_effect h i db db' \<longleftrightarrow> written h i db db' \<and> ledger_valid h db'"

lemma walletAfter_valid: "walletAfter h db row at = Inr s \<Longrightarrow> ledger_valid h db"
  by (auto simp: walletAfter_def snapshotImpl_def ledger_valid_def split: option.splits)

lemma budgetEvent_sel [simp]:
  "evt_entityType (budgetEvent i t d) = JStr ''budget_reservation''"
  "evt_entityId (budgetEvent i t d) = JStr i"
  "evt_eventType (budgetEvent i t d) = JStr t"
  "evt_data (budgetEvent i t d) = JObj d"
  by (simp_all add: budgetEvent_def)

lemma js_wf_option_string [simp]: "js_wf (option_string x)"
  by (simp add: option_string_def split: option.splits)

text \<open>Writes before the event, then the event.\<close>

lemma written_append:
  assumes "appendEvent h now (budgetEvent i t d) db1 = Inr (db', hash)" and "js_wf (JObj d)"
    and "same_authority db db1" and "budgets_step i (db_budgets db) (db_budgets db1)"
    and "db_events db1 = db_events db"
  shows "written h i db db'"
proof -
  from assms(1,2) obtain e where e: "db' = db1\<lparr>db_events := db_events db1 @ [e]\<rparr>"
      "budget_event_row i e" "chained h (db_events db1) e"
    by (elim appendEvent_Inr) (auto simp: budget_event_row_def)
  then show ?thesis
    using assms(3-5) by (auto simp: written_def appended_def same_authority_def)
qed

lemma written_move:
  assumes "moveBudget i st a f db1 = Inr db2"
    and "\<And>r. budgetAt i st a r \<Longrightarrow> budget_move r (f r)"
    and "same_authority db db1" and "db_budgets db1 = db_budgets db"
    and "db_events db1 = db_events db"
  shows "same_authority db db2" "budgets_step i (db_budgets db) (db_budgets db2)"
    "db_events db2 = db_events db"
proof -
  note m = moveBudget_step [OF assms(1,2)]
  show "same_authority db db2"
    using assms(3) by (subst m(2)) (simp_all add: same_authority_def)
  show "budgets_step i (db_budgets db) (db_budgets db2)" using m(1) assms(4) by simp
  show "db_events db2 = db_events db"
    using assms(5) by (subst m(2)) simp_all
qed

lemma reserveWrite_written:
  assumes "reserveWrite h ck db i a t au = Inr db'"
  shows "written h i db db'"
proof -
  let ?r = "newReservation au i a t"
  from assms have new: "i \<notin> br_intent_id ` set (db_budgets db)"
    by (auto simp: reserveWrite_def split: if_splits)
  have step: "budgets_step i (db_budgets db) (db_budgets db @ [?r])"
    using new by (intro open_reservation) (simp_all add: fresh_reservation_def newReservation_def)
  from assms new obtain hash d where
      "appendEvent h (ck_store ck) (budgetEvent i ''budget.reserved'' d)
         (db\<lparr>db_budgets := db_budgets db @ [?r]\<rparr>) = Inr (db', hash)" and "js_wf (JObj d)"
    unfolding reserveWrite_def by auto
  then show ?thesis
    by (rule written_append) (use step in \<open>simp_all add: same_authority_def\<close>)
qed

lemma commitWrite_written:
  assumes "commitWrite h ck db i e ej au t = Inr db'"
  shows "written h i db db'"
proof -
  from assms obtain ats db2 hash d where
      m: "moveBudget i ''reserved'' (au_amount au) (toCommitted (au_amount au) t)
           (db\<lparr>db_attempts := ats\<rparr>) = Inr db2"
    and ap: "appendEvent h (ck_store ck) (budgetEvent i ''budget.committed'' d) db2
          = Inr (db', hash)" and wf: "js_wf (JObj d)"
    unfolding commitWrite_def by auto
  show ?thesis
    by (rule written_append [OF ap wf]; rule written_move [OF m commit_move])
      (simp_all add: same_authority_def)
qed

lemma releaseWrite_written:
  assumes "releaseWrite h ck db p au t = Inr db'"
  shows "written h (rt_intentId p) db db'"
proof -
  from assms obtain db2 hash d where
      m: "moveBudget (rt_intentId p) ''reserved'' (au_amount au) (toReleased (au_amount au) t) db
          = Inr db2"
    and ap: "appendEvent h (ck_store ck) (budgetEvent (rt_intentId p) ''budget.released'' d) db2
          = Inr (db', hash)" and wf: "js_wf (JObj d)"
    unfolding releaseWrite_def by auto
  show ?thesis
    by (rule written_append [OF ap wf]; rule written_move [OF m release_move]) simp_all
qed

lemma holdWrite_written:
  assumes "holdWrite h ck db p au t = Inr db'"
  shows "written h (rt_intentId p) db db'"
proof -
  from assms obtain db2 hash d where
      m: "moveBudget (rt_intentId p) ''reserved'' (au_amount au) (toUnresolved (au_amount au) t) db
          = Inr db2"
    and ap: "appendEvent h (ck_store ck) (budgetEvent (rt_intentId p) ''budget.held_unresolved'' d)
          db2 = Inr (db', hash)" and wf: "js_wf (JObj d)"
    unfolding holdWrite_def by auto
  show ?thesis
    by (rule written_append [OF ap wf]; rule written_move [OF m hold_move]) simp_all
qed

text \<open>The steps around the budget move touch neither reservations, nor events, nor authority.\<close>

definition side_rows :: "db \<Rightarrow> db \<Rightarrow> bool" where
  "side_rows db db' \<longleftrightarrow>
     same_authority db db' \<and> db_budgets db' = db_budgets db \<and> db_events db' = db_events db"

lemma side_rows_refl [simp]: "side_rows db db"
  by (simp add: side_rows_def)

lemma writeBuyerOutcome_side:
  "writeBuyerOutcome db i st rc t pr = Inr (db', rv) \<Longrightarrow> side_rows db db'"
  unfolding writeBuyerOutcome_def
  by (auto simp: Let_def side_rows_def same_authority_def split: option.splits)

lemma openExecutionCase_side: "openExecutionCase db p t = Inr db' \<Longrightarrow> side_rows db db'"
  unfolding openExecutionCase_def
  by (auto simp: side_rows_def same_authority_def)

lemma releaseTypedAttempt_side:
  "releaseTypedAttempt h db p au t = Inr db' \<Longrightarrow> side_rows db db'"
  unfolding releaseTypedAttempt_def
  by (auto simp: side_rows_def same_authority_def)

lemma releaseUnsignedAttempt_side:
  "releaseUnsignedAttempt h db p au t = Inr db' \<Longrightarrow> side_rows db db'"
  unfolding releaseUnsignedAttempt_def
  by (auto simp: side_rows_def same_authority_def split: option.splits)

lemma written_before:
  "side_rows db db1 \<Longrightarrow> written h i db1 db' \<Longrightarrow> written h i db db'"
  by (auto simp: side_rows_def written_def appended_def same_authority_def)

text \<open>A budget move, then a buyer outcome and the event.\<close>

lemma written_sequence:
  assumes "moveBudget i st a f db1 = Inr db2"
    and "\<And>r. budgetAt i st a r \<Longrightarrow> budget_move r (f r)"
    and "side_rows db db1" and "side_rows db2 db3"
    and "appendEvent h now (budgetEvent i t d) db3 = Inr (db', hash)" and "js_wf (JObj d)"
  shows "written h i db db'"
proof -
  note m = written_move [OF assms(1,2), of db]
  have "same_authority db db3" "budgets_step i (db_budgets db) (db_budgets db3)"
      "db_events db3 = db_events db"
    using m assms(3,4) by (auto simp: side_rows_def same_authority_def)
  then show ?thesis by (rule written_append [OF assms(5,6)])
qed

lemma settledWrite_written:
  assumes "settledWrite h ck db p au ej c t = Inr db'"
  shows "written h (pr_intentId p) db db'"
proof -
  from assms obtain db1 db2 db3 rv hash d where
      rows: "settledRows db p au ej c t = Inr db1"
    and ex: "openExecutionCase db1 p t = Inr db2"
    and bo: "writeBuyerOutcome db2 (pr_intentId p) ''execution_unknown''
          ''PAYMENT_RECONCILED_EXECUTION_UNKNOWN'' t ''payment_unresolved'' = Inr (db3, rv)"
    and ap: "appendEvent h (ck_store ck) (budgetEvent (pr_intentId p) ''budget.payment_resolved'' d)
          db3 = Inr (db', hash)" and wf: "js_wf (JObj d)"
    unfolding settledWrite_def by auto
  from rows obtain cs ats where
      m: "moveBudget (pr_intentId p) ''unresolved'' (au_amount au) (toCommitted (au_amount au) t)
          (db\<lparr>db_candidates := cs, db_attempts := ats\<rparr>) = Inr db1"
    unfolding settledRows_def by auto
  show ?thesis
    by (rule written_sequence [OF m settle_move _ _ ap wf])
      (use openExecutionCase_side [OF ex] writeBuyerOutcome_side [OF bo] in
        \<open>simp_all add: side_rows_def same_authority_def\<close>)
qed

lemma rejectedWrite_written:
  assumes "rejectedWrite h ck db p au ej cands t = Inr db'"
  shows "written h (pr_intentId p) db db'"
proof -
  from assms obtain db1 db2 rv hash d where
      rows: "rejectedRows db p au ej cands t = Inr db1"
    and bo: "writeBuyerOutcome db1 (pr_intentId p) ''payment_rejected''
          ''AUTHORIZATION_UNUSED_AFTER_EXPIRY'' t ''payment_unresolved'' = Inr (db2, rv)"
    and ap: "appendEvent h (ck_store ck) (budgetEvent (pr_intentId p) ''budget.payment_resolved'' d)
          db2 = Inr (db', hash)" and wf: "js_wf (JObj d)"
    unfolding rejectedWrite_def by auto
  from rows obtain cs ats where
      m: "moveBudget (pr_intentId p) ''unresolved'' (au_amount au) (toReleased (au_amount au) t)
          (db\<lparr>db_candidates := cs, db_attempts := ats\<rparr>) = Inr db1"
    unfolding rejectedRows_def by auto
  show ?thesis
    by (rule written_sequence [OF m reject_move _ writeBuyerOutcome_side [OF bo] ap wf])
      (simp_all add: side_rows_def same_authority_def)
qed

lemma refundWrite_written:
  assumes "refundWrite h ck db p au ej a rf t = Inr db'"
  shows "written h (fc_intentId p) db db'"
proof -
  from assms obtain db1 db2 rv hash d where
      rows: "refundRows db p au ej a rf t = Inr db1"
    and bo: "writeBuyerOutcome db1 (fc_intentId p) ''refunded'' ''REFUND_CONFIRMED'' t
          ''execution_failed'' = Inr (db2, rv)"
    and ap: "appendEvent h (ck_store ck) (budgetEvent (fc_intentId p) ''budget.refund_confirmed'' d)
          db2 = Inr (db', hash)" and wf: "js_wf (JObj d)"
    unfolding refundWrite_def by auto
  from rows obtain rs es where
      m: "moveBudget (fc_intentId p) ''committed'' (au_amount au) (toReleased (au_amount au) t)
          (db\<lparr>db_refunds := rs, db_resolutions := es\<rparr>) = Inr db1"
    unfolding refundRows_def by auto
  show ?thesis
    by (rule written_sequence [OF m refund_move _ writeBuyerOutcome_side [OF bo] ap wf])
      (simp_all add: side_rows_def same_authority_def)
qed

section \<open>The effect of each operation\<close>

lemma movedBudget_Inr:
  "movedBudget h db i st = Inr row \<longleftrightarrow> readBudgetRow h db i = Inr (Some row) \<and> bu_state row = st"
  unfolding movedBudget_def by (auto split: option.splits)

lemma reserveImpl_obtains:
  assumes "reserveImpl h ck db i a = Inr (db', row)"
  obtains t au s where "reserveGuards h ck db i a = Inr (t, au)"
    and "reserveWrite h ck db i a t au = Inr db'"
    and "readBudgetRow h db' i = Inr (Some row)"
    and "snapshotImpl h db' (ss_id (au_session au)) (si_seller_origin (au_intent au)) t = Inr s"
  using assms unfolding reserveImpl_def by (auto split: option.splits)

lemma reserveImpl_effect:
  assumes "reserveImpl h ck db i a = Inr (db', row)"
  shows "ledger_effect h i db db'"
proof -
  from assms obtain t au s where w: "reserveWrite h ck db i a t au = Inr db'"
    and s: "snapshotImpl h db' (ss_id (au_session au)) (si_seller_origin (au_intent au)) t = Inr s"
    by (rule reserveImpl_obtains)
  from s have "ledger_valid h db'"
    by (auto simp: snapshotImpl_def ledger_valid_def split: option.splits)
  with reserveWrite_written [OF w] show ?thesis by (simp add: ledger_effect_def)
qed

lemma commitImpl_obtains:
  assumes "commitImpl h ck db i e = Inr (db', row)"
  obtains (replay) "db' = db" and "bu_state row = ''committed''"
      and "requireReservation h db i = Inr row"
  | (first) au ej t s where "loadReservationAuthority h db i False [] = Inr au"
      and "canonicalJson (evidence_js e) = Inr ej" and "commitBinding au e"
      and "assertGloballyUniqueTransaction db (se_transaction e) (Some i) None None = Inr ()"
      and "commitReady h ck db i e au = Inr t" and "commitWrite h ck db i e ej au t = Inr db'"
      and "movedBudget h db' i ''committed'' = Inr row" and "commitConfirm h db' e ej au = Inr ()"
      and "walletAfter h db' row t = Inr s"
  using assms unfolding commitImpl_def by (auto split: if_splits)

lemma commitImpl_effect:
  assumes "commitImpl h ck db i e = Inr (db', row)"
  shows "db' = db \<or> ledger_effect h i db db'"
  using assms
  by (rule commitImpl_obtains)
    (auto simp: ledger_effect_def dest: commitWrite_written walletAfter_valid)

lemma releaseImpl_obtains:
  assumes "releaseImpl h ck ex db p = Inr (db', row)"
  obtains (replay) "db' = db" and "bu_state row = ''released''"
      and "requireReservation h db (rt_intentId p) = Inr row"
  | (first) typed au t db1 s where "releaseTyped ex p = Inr typed"
      and "loadReservationAuthority h db (rt_intentId p) False [] = Inr au"
      and "(if typed then releaseTypedAttempt h db p au t
            else releaseUnsignedAttempt h db p au t) = Inr db1"
      and "releaseWrite h ck db1 p au t = Inr db'"
      and "movedBudget h db' (rt_intentId p) ''released'' = Inr row"
      and "walletAfter h db' row t = Inr s"
  using assms unfolding releaseImpl_def by (auto split: if_splits)

lemma releaseImpl_effect:
  assumes "releaseImpl h ck ex db p = Inr (db', row)"
  shows "db' = db \<or> ledger_effect h (rt_intentId p) db db'"
  using assms
proof (cases rule: releaseImpl_obtains)
  case (first typed au t db1 s)
  then have "side_rows db db1"
    by (auto split: if_splits dest: releaseTypedAttempt_side releaseUnsignedAttempt_side)
  then have "written h (rt_intentId p) db db'"
    by (rule written_before) (rule releaseWrite_written [OF first(4)])
  with walletAfter_valid [OF first(6)] show ?thesis by (simp add: ledger_effect_def)
qed simp

lemma holdUnresolvedImpl_obtains:
  assumes "holdUnresolvedImpl h ck db p = Inr (db', row)"
  obtains (replay) "db' = db" and "bu_state row = ''unresolved''"
      and "requireReservation h db (rt_intentId p) = Inr row"
  | (first) au t s where "loadReservationAuthority h db (rt_intentId p) False [] = Inr au"
      and "holdWrite h ck db p au t = Inr db'"
      and "movedBudget h db' (rt_intentId p) ''unresolved'' = Inr row"
      and "walletAfter h db' row t = Inr s" and "bl_unresolvedBudget (sn_blockers s)"
  using assms unfolding holdUnresolvedImpl_def by (auto split: if_splits)

lemma holdUnresolvedImpl_effect:
  assumes "holdUnresolvedImpl h ck db p = Inr (db', row)"
  shows "db' = db \<or> ledger_effect h (rt_intentId p) db db'"
  using assms
  by (rule holdUnresolvedImpl_obtains)
    (auto simp: ledger_effect_def dest: holdWrite_written walletAfter_valid)

lemma resolveSettledPayment_obtains:
  assumes "resolveSettledPayment h ck db p au rv q ev = Inr (db', row)"
  obtains (replay) "db' = db" and "row = rv" and "bu_state row = ''committed''"
  | (first) c t s where "bu_state rv = ''unresolved''"
      and "settledReady h ck db p au rv q ev c = Inr t"
      and "settledWrite h ck db p au (rr_evidence_json q) c t = Inr db'"
      and "movedBudget h db' (pr_intentId p) ''committed'' = Inr row"
      and "walletAfter h db' row t = Inr s" and "bl_resolutionRequired (sn_blockers s)"
  using assms unfolding resolveSettledPayment_def by (auto split: if_splits list.splits)

lemma resolveRejectedPayment_obtains:
  assumes "resolveRejectedPayment h ck db p au rv q ev = Inr (db', row)"
  obtains (replay) "db' = db" and "row = rv" and "bu_state row = ''released''"
  | (first) cs t s where "bu_state rv = ''unresolved''"
      and "loadPaymentCandidates db (pr_intentId p) = Inr cs"
      and "rejectedReady h ck db p au rv q ev cs = Inr t"
      and "rejectedWrite h ck db p au (rr_evidence_json q) cs t = Inr db'"
      and "movedBudget h db' (pr_intentId p) ''released'' = Inr row"
      and "walletAfter h db' row t = Inr s"
  using assms unfolding resolveRejectedPayment_def by (auto split: if_splits)

lemma resolvePaymentImpl_obtains:
  assumes "resolvePaymentImpl h ck db p = Inr (db', row)"
  obtains au rv q ev where "loadReservationAuthority h db (pr_intentId p) False [] = Inr au"
    and "requireReservation h db (pr_intentId p) = Inr rv"
    and "loadReconciliation db (pr_intentId p) (pr_evidenceId p) ''payment'' (pr_outcome p)
          = Inr (q, ev)"
    and "(if pr_outcome p = ''settled'' then resolveSettledPayment h ck db p au rv q ev
          else resolveRejectedPayment h ck db p au rv q ev) = Inr (db', row)"
  using assms unfolding resolvePaymentImpl_def by auto

lemma resolvePaymentImpl_effect:
  assumes "resolvePaymentImpl h ck db p = Inr (db', row)"
  shows "db' = db \<or> ledger_effect h (pr_intentId p) db db'"
  using assms
proof (cases rule: resolvePaymentImpl_obtains)
  case (1 au rv q ev)
  show ?thesis
  proof (cases "pr_outcome p = ''settled''")
    case True
    with 1 have "resolveSettledPayment h ck db p au rv q ev = Inr (db', row)" by simp
    then show ?thesis
      by (rule resolveSettledPayment_obtains)
        (auto simp: ledger_effect_def dest: settledWrite_written walletAfter_valid)
  next
    case False
    with 1 have "resolveRejectedPayment h ck db p au rv q ev = Inr (db', row)" by simp
    then show ?thesis
      by (rule resolveRejectedPayment_obtains)
        (auto simp: ledger_effect_def dest: rejectedWrite_written walletAfter_valid)
  qed
qed

lemma recordConfirmedRefundImpl_obtains:
  assumes "recordConfirmedRefundImpl h ck db p = Inr (db', row)"
  obtains (replay) "db' = db" and "bu_state row = ''released''"
  | (first) au ej a rf t s where "refundWrite h ck db p au ej a rf t = Inr db'"
      and "movedBudget h db' (fc_intentId p) ''released'' = Inr row"
      and "walletAfter h db' row t = Inr s"
  using assms unfolding recordConfirmedRefundImpl_def
  by (auto split: if_splits)

lemma recordConfirmedRefundImpl_effect:
  assumes "recordConfirmedRefundImpl h ck db p = Inr (db', row)"
  shows "db' = db \<or> ledger_effect h (fc_intentId p) db db'"
  using assms
  by (rule recordConfirmedRefundImpl_obtains)
    (auto simp: ledger_effect_def dest: refundWrite_written walletAfter_valid)

end
