(* ===== verification/LedgerSafety.thy ===== *)
theory LedgerSafety
  imports LedgerFacts
begin

text \<open>
  The contract every operation of the ledger shares, as a locale, its interpretation for each of
  the six operations, and the state machine of a ledger that is driven by calls to them.
\<close>

section \<open>The contract of an operation\<close>

locale ledger_op =
  fixes h :: host and step :: "db \<Rightarrow> (db \<times> budget) res"
  assumes effect: "step db = Inr (db', row) \<Longrightarrow> db' = db \<or> (\<exists>i. ledger_effect h i db db')"
begin

lemma call_error: "transaction step db = (db', Inl e) \<Longrightarrow> db' = db"
  using transaction_Inl [of step db e] by simp

lemma call_effect:
  "db' = fst (transaction step db) \<Longrightarrow> db' = db \<or> (\<exists>i. ledger_effect h i db db')"
  by (auto simp: transaction_def dest: effect split: sum.splits)

lemma call_valid: "ledger_valid h db \<Longrightarrow> ledger_valid h (fst (transaction step db))"
  using call_effect [OF refl, of db] by (auto simp: ledger_effect_def)

end

interpretation reserve_op: ledger_op h "\<lambda>db. reserveImpl h ck db i a" for h ck i a
  by unfold_locales (blast dest: reserveImpl_effect)

interpretation commit_op: ledger_op h "\<lambda>db. commitImpl h ck db i e" for h ck i e
  by unfold_locales (blast dest: commitImpl_effect)

interpretation release_op: ledger_op h "\<lambda>db. releaseImpl h ck exact db p" for h ck exact p
  by unfold_locales (blast dest: releaseImpl_effect)

interpretation hold_op: ledger_op h "\<lambda>db. holdUnresolvedImpl h ck db p" for h ck p
  by unfold_locales (blast dest: holdUnresolvedImpl_effect)

interpretation resolve_op: ledger_op h "\<lambda>db. resolvePaymentImpl h ck db p" for h ck p
  by unfold_locales (blast dest: resolvePaymentImpl_effect)

interpretation refund_op: ledger_op h "\<lambda>db. recordConfirmedRefundImpl h ck db p" for h ck p
  by unfold_locales (blast dest: recordConfirmedRefundImpl_effect)

section \<open>A ledger driven by calls\<close>

text \<open>The calls of \<^verbatim>\<open>createBudgetLedger\<close>'s interface that may write, with their inputs.\<close>

datatype ledger_call =
    Reserve jsval
  | Commit jsval
  | Release jsval
  | ReleaseTyped bool jsval
  | Hold jsval
  | ResolvePayment jsval
  | ConfirmRefund jsval

fun ledger_run :: "host \<Rightarrow> clock \<Rightarrow> ledger_call \<Rightarrow> db \<Rightarrow> db \<times> budget res" where
  "ledger_run h ck (Reserve input) = reserve h ck input"
| "ledger_run h ck (Commit input) = commit h ck input"
| "ledger_run h ck (Release input) = release h ck input"
| "ledger_run h ck (ReleaseTyped exact input) = transaction (releaseInTransaction h ck exact input)"
| "ledger_run h ck (Hold input) = holdUnresolved h ck input"
| "ledger_run h ck (ResolvePayment input) = resolvePayment h ck input"
| "ledger_run h ck (ConfirmRefund input) = recordConfirmedRefund h ck input"

lemma ledger_run_error: "ledger_run h ck c db = (db', Inl e) \<Longrightarrow> db' = db"
  by (cases c)
    (auto simp: reserve_def commit_def release_def holdUnresolved_def resolvePayment_def
      recordConfirmedRefund_def transaction_def split: sum.splits)

lemma ledger_run_effect:
  "db' = fst (ledger_run h ck c db) \<Longrightarrow> db' = db \<or> (\<exists>i. ledger_effect h i db db')"
proof (cases c)
  case (Reserve input)
  then show "db' = fst (ledger_run h ck c db) \<Longrightarrow> ?thesis"
    using reserve_op.call_effect [of _ h ck _ _ db] by (auto simp: reserve_def split: sum.splits)
next
  case (Commit input)
  then show "db' = fst (ledger_run h ck c db) \<Longrightarrow> ?thesis"
    using commit_op.call_effect [of _ h ck _ _ db] by (auto simp: commit_def split: sum.splits)
next
  case (Release input)
  then show "db' = fst (ledger_run h ck c db) \<Longrightarrow> ?thesis"
    using release_op.call_effect [of _ h ck False _ db] by (auto simp: release_def split: sum.splits)
next
  case (ReleaseTyped exact input)
  then show "db' = fst (ledger_run h ck c db) \<Longrightarrow> ?thesis"
    using release_op.effect [of h ck exact db]
    by (auto simp: transaction_def releaseInTransaction_def split: sum.splits)
next
  case (Hold input)
  then show "db' = fst (ledger_run h ck c db) \<Longrightarrow> ?thesis"
    using hold_op.call_effect [of _ h ck _ db] by (auto simp: holdUnresolved_def split: sum.splits)
next
  case (ResolvePayment input)
  then show "db' = fst (ledger_run h ck c db) \<Longrightarrow> ?thesis"
    using resolve_op.call_effect [of _ h ck _ db]
    by (auto simp: resolvePayment_def split: sum.splits)
next
  case (ConfirmRefund input)
  then show "db' = fst (ledger_run h ck c db) \<Longrightarrow> ?thesis"
    using refund_op.call_effect [of _ h ck _ db]
    by (auto simp: recordConfirmedRefund_def split: sum.splits)
qed

text \<open>
  The other components of the kernel share the database. None of them writes
  \<^verbatim>\<open>budget_reservations\<close>, and all of them write events only through \<^verbatim>\<open>appendEvent\<close>.
\<close>

inductive log_grows :: "host \<Rightarrow> event_row list \<Rightarrow> event_row list \<Rightarrow> bool" for h where
  same_log: "log_grows h log log"
| append_log: "log_grows h log log' \<Longrightarrow> chained h log' e \<Longrightarrow> log_grows h log (log' @ [e])"

inductive ledger_reach :: "host \<Rightarrow> db \<Rightarrow> db \<Rightarrow> bool" for h db0 where
  start: "ledger_reach h db0 db0"
| call: "ledger_reach h db0 db \<Longrightarrow> ledger_reach h db0 (fst (ledger_run h ck c db))"
| outside: "ledger_reach h db0 db \<Longrightarrow> db_budgets db' = db_budgets db \<Longrightarrow>
    log_grows h (db_events db) (db_events db') \<Longrightarrow> ledger_reach h db0 db'"

text \<open>What is kept by one step of the table is kept along every run.\<close>

lemma ledger_reach_budgets:
  assumes "ledger_reach h db0 db" and "P (db_budgets db0)"
    and step: "\<And>i rows rows'. budgets_step i rows rows' \<Longrightarrow> P rows \<Longrightarrow> P rows'"
  shows "P (db_budgets db)"
  using assms(1)
proof induction
  case (call db ck c)
  from ledger_run_effect [OF refl, of h ck c db] show ?case
    using call.IH by (auto simp: ledger_effect_def written_def intro: step)
qed (use assms(2) in simp_all)

lemma log_grows_trans: "log_grows h b c \<Longrightarrow> log_grows h a b \<Longrightarrow> log_grows h a c"
  by (induction rule: log_grows.induct) (auto intro: append_log)

lemma ledger_reach_log: "ledger_reach h db0 db \<Longrightarrow> log_grows h (db_events db0) (db_events db)"
proof (induction rule: ledger_reach.induct)
  case (call db ck c)
  from ledger_run_effect [OF refl, of h ck c db] show ?case
    using call.IH by (auto simp: ledger_effect_def written_def appended_def intro: append_log)
qed (auto intro: same_log log_grows_trans)

lemma log_grows_prefix: "log_grows h log log' \<Longrightarrow> \<exists>es. log' = log @ es"
  by (induction rule: log_grows.induct) auto

lemma log_grows_verify:
  "log_grows h log log' \<Longrightarrow> verify_chain h None log = Inr True \<Longrightarrow> verify_chain h None log' = Inr True"
  by (induction rule: log_grows.induct) (auto intro: verify_chain_append_one)

section \<open>Rows along a run\<close>

definition row_total :: "budget_row \<Rightarrow> int" where
  "row_total r = text_int (br_reserved_atomic r) + text_int (br_committed_atomic r)
     + text_int (br_released_atomic r) + text_int (br_unresolved_atomic r)"

definition same_claim :: "budget_row \<Rightarrow> budget_row \<Rightarrow> bool" where
  "same_claim r r' \<longleftrightarrow>
     br_intent_id r' = br_intent_id r \<and> br_session_id r' = br_session_id r
     \<and> br_seller_origin r' = br_seller_origin r \<and> row_total r' = row_total r"

lemma text_int_zero [simp]: "text_int ''0'' = 0"
  using text_int_int_text [of 0] by (simp add: int_text_def)

lemma budget_move_claim: "budget_move r r' \<Longrightarrow> same_claim r r'"
  by (auto elim!: budget_moveE
      simp: same_claim_def row_total_def budgetAt_def toCommitted_def toReleased_def toUnresolved_def)

text \<open>The distance of a disposition from the final one; every move shortens it.\<close>

definition row_rank :: "budget_row \<Rightarrow> nat" where
  "row_rank r = (if br_state r = ''reserved'' then 3 else if br_state r = ''unresolved'' then 2
     else if br_state r = ''committed'' then 1 else 0)"

lemma budget_move_rank: "budget_move r r' \<Longrightarrow> row_rank r' < row_rank r"
  by (auto elim!: budget_moveE
      simp: row_rank_def budgetAt_def toCommitted_def toReleased_def toUnresolved_def)

lemma budget_move_not_released: "budget_move r r' \<Longrightarrow> br_state r \<noteq> ''released''"
  by (auto elim!: budget_moveE simp: budgetAt_def)

lemma same_claim_refl: "same_claim r r"
  by (simp add: same_claim_def)

lemma same_claim_trans: "same_claim a b \<Longrightarrow> same_claim b c \<Longrightarrow> same_claim a c"
  by (simp add: same_claim_def)

lemma budgets_step_claim:
  assumes "budgets_step i rows rows'" and "r \<in> set rows"
  obtains r' where "r' \<in> set rows'" and "same_claim r r'" and "row_rank r' \<le> row_rank r"
  using assms(1)
proof (cases rule: budgets_step.cases)
  case (open_reservation x)
  with assms(2) that [of r] same_claim_refl show thesis by simp
next
  case (move_reservation x x' xs ys)
  show thesis
  proof (cases "r = x")
    case True
    with move_reservation that [of x'] budget_move_claim [of x x'] budget_move_rank [of x x']
    show thesis by simp
  next
    case False
    with move_reservation assms(2) that [of r] same_claim_refl show thesis by auto
  qed
qed

end
