(* ===== verification/LedgerReading.thy ===== *)
theory LedgerReading
  imports LedgerSafety
begin

text \<open>
  What the validators of the ledger establish when they accept: every row conserves its decision's
  amount in one disposition, reading a row returns that row, and the exposures of a snapshot are
  sums over the rows of the table.
\<close>

section \<open>Scalars\<close>

lemma canonicalAtomicText_Inr:
  "canonicalAtomicText v code = Inr t \<longleftrightarrow> v = JStr t \<and> decimal_pattern t"
  by (auto simp: canonicalAtomicText_def canonicalAtomic_def split: jsval.splits)

lemma canonicalPersistedTimestamp_Inr:
  "canonicalPersistedTimestamp v code = Inr t \<longleftrightarrow> v = JStr t \<and> canonical_time t"
  by (auto simp: canonicalPersistedTimestamp_def canonicalTimestamp_Inr)

lemma ledgerAddress_Inr:
  "ledgerAddress v code = Inr t \<longleftrightarrow> v = JStr t \<and> canonical_address_pattern t"
  by (auto simp: ledgerAddress_def split: jsval.splits)

lemma ledgerToken_Inr:
  "canonicalToken v = Inr t \<longleftrightarrow> v = JStr t \<and> length t \<le> 200 \<and> token_pattern t"
  by (auto simp: canonicalToken_def canonicalTokenMax_def MAX_SAFE_INTEGER_def split: jsval.splits)

lemma canonicalOrigin_InrD: "canonicalOrigin h v code = Inr t \<Longrightarrow> v = JStr t"
  by (auto simp: canonicalOrigin_def Let_def split: jsval.splits if_splits option.splits)

lemma optionalTimestamp_InrD: "optionalTimestamp t code = Inr u \<Longrightarrow> u = t"
  by (auto simp: optionalTimestamp_def canonicalPersistedTimestamp_Inr split: option.splits)

lemma option_string_JStr [simp]: "option_string x = JStr s \<longleftrightarrow> x = Some s"
  by (auto simp: option_string_def split: option.splits)

section \<open>Rows\<close>

text \<open>The facts a validated row carries.\<close>

definition row_read :: "joined_budget \<Rightarrow> budget \<Rightarrow> bool" where
  "row_read raw b \<longleftrightarrow>
     bu_intentId b = br_intent_id (jb_row raw) \<and> bu_sessionId b = br_session_id (jb_row raw)
     \<and> bu_sellerOrigin b = br_seller_origin (jb_row raw)
     \<and> bu_reserved b = br_reserved_atomic (jb_row raw)
     \<and> bu_committed b = br_committed_atomic (jb_row raw)
     \<and> bu_released b = br_released_atomic (jb_row raw)
     \<and> bu_unresolved b = br_unresolved_atomic (jb_row raw)
     \<and> bu_state b = br_state (jb_row raw) \<and> bu_committedAt b = br_committed_at (jb_row raw)
     \<and> bu_updatedAt b = br_updated_at (jb_row raw)
     \<and> jb_decision_amount raw = Some (bu_ceiling b)
     \<and> map_option ss_wallet_address (jb_session raw) = Some (bu_walletAddress b)"

text \<open>The row holds its whole ceiling in the disposition its state names.\<close>

definition conserved :: "budget \<Rightarrow> bool" where
  "conserved b \<longleftrightarrow>
     0 < text_int (bu_ceiling b)
     \<and> dispositions (bu_state b) (text_int (bu_ceiling b))
         = Some (text_int (bu_reserved b), text_int (bu_committed b), text_int (bu_released b),
                 text_int (bu_unresolved b))
     \<and> decimal_pattern (bu_ceiling b)"

lemma validateBudgetRow_Inr:
  assumes "validateBudgetRow h raw = Inr b"
  shows "row_read raw b" "conserved b"
proof -
  from assms have "row_read raw b \<and> conserved b"
    unfolding validateBudgetRow_def Let_def
    by (auto simp: row_read_def conserved_def canonicalAtomicText_Inr ledgerToken_Inr
        canonicalPersistedTimestamp_Inr ledgerAddress_Inr
        dest!: canonicalOrigin_InrD optionalTimestamp_InrD split: option.splits)
  then show "row_read raw b" "conserved b" by simp_all
qed

lemma readValidated_Inr:
  "readValidated h db r = Inr b \<Longrightarrow> validateBudgetRow h (joinBudget db r) = Inr b"
  by (auto simp: readValidated_def)

text \<open>The reading of a row, where there is one.\<close>

definition budget_of :: "host \<Rightarrow> db \<Rightarrow> budget_row \<Rightarrow> budget" where
  "budget_of h db r = projr (validateBudgetRow h (joinBudget db r))"

lemma readValidated_budget_of: "readValidated h db r = Inr b \<Longrightarrow> b = budget_of h db r"
  by (simp add: budget_of_def readValidated_Inr)

lemma budget_of_cong: "same_authority db db' \<Longrightarrow> budget_of h db' = budget_of h db"
  by (intro ext) (simp add: budget_of_def joinBudget_cong)

lemma validatedBudgetRows_Inr:
  assumes "validatedBudgetRows h db P = Inr rows"
  shows "mset rows = image_mset (budget_of h db) (mset (filter P (db_budgets db)))"
    and "r \<in> set (db_budgets db) \<Longrightarrow> P r \<Longrightarrow> readValidated h db r = Inr (budget_of h db r)"
    and "validateBudgetEventCompleteness db = Inr ()"
proof -
  let ?raw = "sort_key br_intent_id (filter P (db_budgets db))"
  from assms have all: "list_all2 (\<lambda>r b. readValidated h db r = Inr b) ?raw rows"
    and "validateBudgetEventCompleteness db = Inr ()"
    by (auto simp: validatedBudgetRows_def collect_Inr_iff)
  then show "validateBudgetEventCompleteness db = Inr ()" by simp
  from all have "rows = map (budget_of h db) ?raw"
    by (induction rule: list_all2_induct) (auto dest: readValidated_budget_of)
  then show "mset rows = image_mset (budget_of h db) (mset (filter P (db_budgets db)))"
    by simp
  assume "r \<in> set (db_budgets db)" "P r"
  then have "r \<in> set ?raw" by simp
  moreover from all have "\<forall>r \<in> set ?raw. \<exists>b. readValidated h db r = Inr b"
    by (induction rule: list_all2_induct) auto
  ultimately obtain b where "readValidated h db r = Inr b" by blast
  then show "readValidated h db r = Inr (budget_of h db r)"
    using readValidated_budget_of by simp
qed

lemma ledger_valid_row:
  assumes "ledger_valid h db" and "r \<in> set (db_budgets db)"
  shows "readValidated h db r = Inr (budget_of h db r)"
    and "row_read (joinBudget db r) (budget_of h db r)" and "conserved (budget_of h db r)"
proof -
  from assms show read: "readValidated h db r = Inr (budget_of h db r)"
    by (auto simp: ledger_valid_def dest: validatedBudgetRows_Inr(2))
  note row = validateBudgetRow_Inr [OF readValidated_Inr [OF read]]
  show "row_read (joinBudget db r) (budget_of h db r)" by (rule row(1))
  show "conserved (budget_of h db r)" by (rule row(2))
qed

lemma readBudgetRow_Some:
  assumes "readBudgetRow h db i = Inr (Some b)"
  obtains r where "filter (\<lambda>r. br_intent_id r = i) (db_budgets db) = [r]"
    and "b = budget_of h db r" and "readValidated h db r = Inr b"
    and "row_read (joinBudget db r) b" and "conserved b"
    and "validateBudgetEventCompleteness db = Inr ()"
proof -
  from assms have rows: "validatedBudgetRows h db (\<lambda>r. br_intent_id r = i) = Inr [b]"
    by (auto simp: readBudgetRow_def split: list.splits)
  note v = validatedBudgetRows_Inr [OF rows]
  from v(1) have "size (mset (filter (\<lambda>r. br_intent_id r = i) (db_budgets db))) = 1"
    by (metis size_image_mset size_mset length_Cons list.size(3) One_nat_def)
  then obtain r where r: "filter (\<lambda>r. br_intent_id r = i) (db_budgets db) = [r]"
    by (metis One_nat_def length_0_conv length_Suc_conv size_mset)
  with v(1) have b: "b = budget_of h db r" by simp
  have "r \<in> set (filter (\<lambda>r. br_intent_id r = i) (db_budgets db))" using r by simp
  then have "r \<in> set (db_budgets db)" "br_intent_id r = i" by simp_all
  with v(2) b have read: "readValidated h db r = Inr b" by simp
  note row = validateBudgetRow_Inr [OF readValidated_Inr [OF read]]
  show thesis using that [OF r b read row v(3)] .
qed

lemma readBudgetRow_None:
  assumes "readBudgetRow h db i = Inr None"
  shows "i \<notin> br_intent_id ` set (db_budgets db)"
proof -
  from assms have "validatedBudgetRows h db (\<lambda>r. br_intent_id r = i) = Inr []"
    by (auto simp: readBudgetRow_def split: list.splits)
  from validatedBudgetRows_Inr(1) [OF this]
  have "filter (\<lambda>r. br_intent_id r = i) (db_budgets db) = []" by simp
  then show ?thesis by (auto simp: filter_empty_conv)
qed

section \<open>Snapshots as sums over the table\<close>

lemma sum_list_mset_eq: "mset xs = mset ys \<Longrightarrow> sum_list (map f xs) = sum_list (map (f :: _ \<Rightarrow> int) ys)"
  by (metis sum_mset_sum_list mset_map)

lemma sumOf_filter:
  assumes "mset rows = image_mset g (mset raw)"
  shows "sumOf f (filter Q rows) = sum_list (map (\<lambda>r. f (g r)) (filter (\<lambda>r. Q (g r)) raw))"
proof -
  from assms have "mset rows = mset (map g raw)" by simp
  then have "mset (filter Q rows) = mset (filter Q (map g raw))" by (simp only: mset_filter)
  then have "sumOf f (filter Q rows) = sum_list (map f (filter Q (map g raw)))"
    unfolding sumOf_def by (rule sum_list_mset_eq)
  then show ?thesis by (simp add: filter_map o_def)
qed

lemma snapshotImpl_Inr:
  assumes "snapshotImpl h db sid so at = Inr sn"
  obtains s rows where "select_one (\<lambda>s. ss_id s = sid) (db_sessions db) = Some s"
    and "canonical_address_pattern (ss_wallet_address s)"
    and "validatedBudgetRows h db (\<lambda>_. True) = Inr rows"
    and "sn = snapshotRows db sid so at (ss_wallet_address s)
                (filter (\<lambda>r. bu_walletAddress r = ss_wallet_address s) rows)"
  using assms by (auto simp: snapshotImpl_def ledgerAddress_Inr split: option.splits)

definition wallet_rows :: "host \<Rightarrow> db \<Rightarrow> string \<Rightarrow> budget_row list" where
  "wallet_rows h db w = filter (\<lambda>r. bu_walletAddress (budget_of h db r) = w) (db_budgets db)"

text \<open>The three exposures of a snapshot, directly over the table's rows.\<close>

definition session_exposure :: "host \<Rightarrow> db \<Rightarrow> string \<Rightarrow> string \<Rightarrow> int" where
  "session_exposure h db w sid =
     sum_list (map (\<lambda>r. exposure (budget_of h db r))
       (filter (\<lambda>r. br_session_id r = sid) (wallet_rows h db w)))"

definition seller_exposure :: "host \<Rightarrow> db \<Rightarrow> string \<Rightarrow> string \<Rightarrow> string \<Rightarrow> int" where
  "seller_exposure h db w sid so =
     sum_list (map (\<lambda>r. exposure (budget_of h db r))
       (filter (\<lambda>r. br_session_id r = sid \<and> br_seller_origin r = so) (wallet_rows h db w)))"

definition rolling_amount :: "string \<Rightarrow> budget \<Rightarrow> int" where
  "rolling_amount at b =
     (if 0 < text_int (bu_committed b) \<and> date_ms at - LEDGER_DAY_MS < time_of (bu_committedAt b)
      then text_int (bu_committed b) else 0)
     + (text_int (bu_reserved b) + text_int (bu_unresolved b))"

definition rolling_exposure :: "host \<Rightarrow> db \<Rightarrow> string \<Rightarrow> string \<Rightarrow> int" where
  "rolling_exposure h db w at =
     sum_list (map (\<lambda>r. rolling_amount at (budget_of h db r)) (wallet_rows h db w))"

lemma sum_list_filter_if:
  "sum_list (map f (filter Q xs)) = sum_list (map (\<lambda>x. if Q x then f x else (0::int)) xs)"
  by (induction xs) simp_all

lemma filter_cong_conj:
  "(\<And>x. x \<in> set xs \<Longrightarrow> P x \<longleftrightarrow> P' x) \<Longrightarrow> filter P (filter Q xs) = filter P' (filter Q xs)"
  by (auto intro: filter_cong)

lemma snapshot_exposures:
  assumes "snapshotImpl h db sid so at = Inr sn"
  shows "sn_sessionExposure sn = session_exposure h db (sn_walletAddress sn) sid"
    and "sn_sellerSessionExposure sn = seller_exposure h db (sn_walletAddress sn) sid so"
    and "sn_rolling24hExposure sn = rolling_exposure h db (sn_walletAddress sn) at"
proof -
  from assms obtain s :: session_row and rows where rows: "validatedBudgetRows h db (\<lambda>_. True) = Inr rows"
    and sn: "sn = snapshotRows db sid so at (ss_wallet_address s)
                (filter (\<lambda>r. bu_walletAddress r = ss_wallet_address s) rows)"
    by (rule snapshotImpl_Inr)
  let ?w = "ss_wallet_address s" and ?b = "budget_of h db"
  let ?mine = "filter (\<lambda>r. bu_walletAddress r = ?w) rows"
  have valid: "ledger_valid h db" using rows by (auto simp: ledger_valid_def)
  have m: "mset ?mine = image_mset ?b (mset (wallet_rows h db ?w))"
    using validatedBudgetRows_Inr(1) [OF rows]
    by (simp add: wallet_rows_def filter_mset_image_mset)
  have key: "bu_sessionId (?b r) = br_session_id r \<and> bu_sellerOrigin (?b r) = br_seller_origin r"
    if "r \<in> set (wallet_rows h db ?w)" for r
  proof -
    from that have "r \<in> set (db_budgets db)" by (simp add: wallet_rows_def)
    from ledger_valid_row(2) [OF valid this] show ?thesis by (simp add: row_read_def joinBudget_def)
  qed
  have w: "sn_walletAddress sn = ?w" by (simp add: sn snapshotRows_def Let_def)
  have fs: "filter (\<lambda>r. bu_sessionId (?b r) = sid) (wallet_rows h db ?w)
      = filter (\<lambda>r. br_session_id r = sid) (wallet_rows h db ?w)"
    using key by (intro filter_cong) auto
  have fo: "filter (\<lambda>r. bu_sessionId (?b r) = sid \<and> bu_sellerOrigin (?b r) = so)
        (wallet_rows h db ?w)
      = filter (\<lambda>r. br_session_id r = sid \<and> br_seller_origin r = so) (wallet_rows h db ?w)"
    using key by (intro filter_cong) auto
  show "sn_sessionExposure sn = session_exposure h db (sn_walletAddress sn) sid"
    by (simp add: w session_exposure_def)
      (simp add: sn snapshotRows_def Let_def sumOf_filter [OF m] fs
        del: filter_filter)
  show "sn_sellerSessionExposure sn = seller_exposure h db (sn_walletAddress sn) sid so"
    by (simp add: w seller_exposure_def)
      (simp add: sn snapshotRows_def Let_def sumOf_filter [OF m] fo
        del: filter_filter)
  have all: "sumOf f ?mine = sum_list (map (\<lambda>r. f (?b r)) (wallet_rows h db ?w))" for f
    using sumOf_filter [OF m, of f "\<lambda>_. True"] by simp
  show "sn_rolling24hExposure sn = rolling_exposure h db (sn_walletAddress sn) at"
    by (simp add: w rolling_exposure_def rolling_amount_def sum_list_addf)
      (simp add: sn snapshotRows_def Let_def sumOf_filter [OF m] all sum_list_filter_if
        sum_list_addf del: filter_filter)
qed

end
