(* ===== verification/LedgerReserve.thy ===== *)
theory LedgerReserve
  imports LedgerReading
begin

text \<open>
  Facts about \<^verbatim>\<open>reserve\<close>: the guards a successful reservation passed, and what the new row adds to
  each exposure.
\<close>

section \<open>The authority behind a reservation\<close>

lemma loadReservationAuthority_obtains:
  assumes "loadReservationAuthority h db i req at = Inr au"
  obtains received decided where "select_one (\<lambda>r. si_id r = i) (db_intents db) = Some (au_intent au)"
    and "select_one (\<lambda>r. ss_id r = si_session_id (au_intent au)) (db_sessions db)
           = Some (au_session au)"
    and "select_one (\<lambda>r. pd_intent_id r = i) (db_decisions db) = Some (au_decision au)"
    and "loadPolicyVersion h db (pd_policy_version_id (au_decision au)) = Inr (au_version au)"
    and "authorityFields h (au_intent au) (au_session au) (au_decision au)
           = Inr (received, decided, au_amount au)"
    and "authorityDecision db req (au_intent au) (au_session au) (au_decision au) (au_version au)
           (au_amount au) = Inr ()"
    and "validateProjectionBinding h (au_intent au) (au_decision au) (au_version au)
           = Inr (au_projection au)"
    and "authorityLimits req at (au_decision au) (lp_policy (au_version au))
           (pb_seller (au_projection au)) (text_int (au_amount au)) received decided = Inr ()"
    and "req \<Longrightarrow> \<exists>ap. validateConsumedApproval db au at = Inr ap"
  using assms unfolding loadReservationAuthority_def Let_def
  by (auto simp: ledgerToken_Inr split: option.splits if_splits)

lemma authority_ids:
  assumes "loadReservationAuthority h db i req at = Inr au"
  shows "si_id (au_intent au) = i" "pd_intent_id (au_decision au) = i"
    "ss_id (au_session au) = si_session_id (au_intent au)"
  using assms by (auto elim!: loadReservationAuthority_obtains dest!: select_one_Some)

lemma authorityFields_Inr:
  assumes "authorityFields h i s d = Inr (received, decided, amount)"
  shows "amount = pd_amount_ceiling_atomic d" "decimal_pattern amount"
    "si_challenge_received_at i = Some received" "pd_decided_at d = decided"
    "canonical_time received" "canonical_time decided"
  using assms unfolding authorityFields_def
  by (auto simp: canonicalAtomicText_Inr canonicalPersistedTimestamp_Inr)

section \<open>The guards\<close>

lemma reserveGuards_obtains:
  assumes "reserveGuards h ck db i a = Inr (t, au)"
  obtains cur where "readBudgetRow h db i = Inr None" and "t = ck_ledger ck" and "canonical_time t"
    and "loadReservationAuthority h db i True t = Inr au" and "au_amount au = a"
    and "snapshotImpl h db (ss_id (au_session au)) (si_seller_origin (au_intent au)) t = Inr cur"
    and "\<not> bl_unresolvedBudget (sn_blockers cur)" and "\<not> bl_resolutionRequired (sn_blockers cur)"
    and "sn_sellerSessionExposure cur + text_int a
           \<le> text_int (s_sellerSessionMaxAtomic (pb_seller (au_projection au)))"
    and "sn_sessionExposure cur + text_int a
           \<le> text_int (p_sessionMaxAtomic (lp_policy (au_version au)))"
    and "sn_rolling24hExposure cur + text_int a
           \<le> text_int (p_rolling24hMaxAtomic (lp_policy (au_version au)))"
  using assms unfolding reserveGuards_def Let_def
  by (auto simp: canonicalTimestamp_Inr not_less)

lemma reserveWrite_budgets:
  "reserveWrite h ck db i a t au = Inr db' \<Longrightarrow>
   db_budgets db' = db_budgets db @ [newReservation au i a t]"
  unfolding reserveWrite_def by (auto simp: appendEvent_def Let_def split: jsval.splits if_splits)

text \<open>The operation as a whole.\<close>

lemma reserve_obtains:
  assumes "reserve h ck input db = (db', Inr row)"
  obtains i a t au s where "prepareReserve input = Inr (i, a)"
    and "reserveGuards h ck db i a = Inr (t, au)" and "reserveWrite h ck db i a t au = Inr db'"
    and "readBudgetRow h db' i = Inr (Some row)"
    and "snapshotImpl h db' (ss_id (au_session au)) (si_seller_origin (au_intent au)) t = Inr s"
  using assms unfolding reserve_def
  by (auto simp: transaction_Inr elim!: reserveImpl_obtains split: sum.splits)

section \<open>What the authority of a reservation says\<close>

lemma validateProjectionBinding_seller:
  "validateProjectionBinding h i d v = Inr pb \<Longrightarrow>
   find (\<lambda>s. s_origin s = si_seller_origin i) (p_sellers (lp_policy v)) = Some (pb_seller pb)"
  unfolding validateProjectionBinding_def Let_def by (auto split: option.splits)

lemma authorityDecision_Inr:
  assumes "authorityDecision db True i s d v amount = Inr ()"
  shows "pd_decision d = ''allow'' \<or> pd_decision d = ''approval_required''"
    and "map_of (db_metadata db) ''active_policy_id'' = Some (lp_id v)"
  using assms by (auto simp: authorityDecision_def split: if_splits)

lemma authorityLimits_Inr:
  assumes "authorityLimits True at d p s amount received decided = Inr ()"
  shows "date_ms received \<le> date_ms at" "date_ms at - date_ms received \<le> p_challengeMaxAgeMs p"
    "pd_decision d = ''allow'' \<Longrightarrow> amount \<le> text_int (s_autoApproveAtomic s)"
    "pd_decision d = ''approval_required'' \<Longrightarrow> text_int (s_autoApproveAtomic s) < amount
       \<and> amount \<le> text_int (s_humanApproveAtomic s) \<and> amount \<le> text_int (s_perRequestMaxAtomic s)"
  using assms by (auto simp: authorityLimits_def Let_def not_less split: if_splits)

lemma validateConsumedApproval_Inr:
  assumes "validateConsumedApproval db au at = Inr x"
  shows "pd_decision (au_decision au) = ''allow'' \<Longrightarrow>
      filter (\<lambda>a. ap_intent_id a = si_id (au_intent au)) (db_approvals db) = []"
    and "pd_decision (au_decision au) \<noteq> ''allow'' \<Longrightarrow>
      \<exists>a. filter (\<lambda>a. ap_intent_id a = si_id (au_intent au)) (db_approvals db) = [a]
        \<and> approvalBound au a \<and> date_ms at < date_ms (ap_expires_at a)"
  using assms unfolding validateConsumedApproval_def Let_def
  by (auto simp: canonicalPersistedTimestamp_Inr not_le split: if_splits list.splits)

lemma reserve_authority:
  assumes "loadReservationAuthority h db i True at = Inr au"
  obtains received where
    "select_one (\<lambda>d. pd_intent_id d = i) (db_decisions db) = Some (au_decision au)"
    and "loadPolicyVersion h db (pd_policy_version_id (au_decision au)) = Inr (au_version au)"
    and "map_of (db_metadata db) ''active_policy_id'' = Some (lp_id (au_version au))"
    and "find (\<lambda>s. s_origin s = si_seller_origin (au_intent au)) (p_sellers (lp_policy (au_version au)))
          = Some (pb_seller (au_projection au))"
    and "au_amount au = pd_amount_ceiling_atomic (au_decision au)"
    and "date_ms at - date_ms received \<le> p_challengeMaxAgeMs (lp_policy (au_version au))"
    and "date_ms received \<le> date_ms at"
    and "pd_decision (au_decision au) = ''allow''
          \<and> text_int (au_amount au) \<le> text_int (s_autoApproveAtomic (pb_seller (au_projection au)))
          \<and> filter (\<lambda>a. ap_intent_id a = i) (db_approvals db) = []
        \<or> pd_decision (au_decision au) = ''approval_required''
          \<and> text_int (s_autoApproveAtomic (pb_seller (au_projection au))) < text_int (au_amount au)
          \<and> text_int (au_amount au) \<le> text_int (s_humanApproveAtomic (pb_seller (au_projection au)))
          \<and> text_int (au_amount au) \<le> text_int (s_perRequestMaxAtomic (pb_seller (au_projection au)))
          \<and> (\<exists>a. filter (\<lambda>a. ap_intent_id a = i) (db_approvals db) = [a]
               \<and> approvalBound au a \<and> date_ms at < date_ms (ap_expires_at a))"
proof -
  from assms obtain received decided ap where
      d: "select_one (\<lambda>d. pd_intent_id d = i) (db_decisions db) = Some (au_decision au)"
    and v: "loadPolicyVersion h db (pd_policy_version_id (au_decision au)) = Inr (au_version au)"
    and f: "authorityFields h (au_intent au) (au_session au) (au_decision au)
           = Inr (received, decided, au_amount au)"
    and dec: "authorityDecision db True (au_intent au) (au_session au) (au_decision au)
           (au_version au) (au_amount au) = Inr ()"
    and p: "validateProjectionBinding h (au_intent au) (au_decision au) (au_version au)
           = Inr (au_projection au)"
    and lim: "authorityLimits True at (au_decision au) (lp_policy (au_version au))
           (pb_seller (au_projection au)) (text_int (au_amount au)) received decided = Inr ()"
    and ap: "validateConsumedApproval db au at = Inr ap"
    by (rule loadReservationAuthority_obtains) blast
  from authorityDecision_Inr(1) [OF dec] show thesis
    using that [of received] d v authorityDecision_Inr(2) [OF dec]
      validateProjectionBinding_seller [OF p] authorityFields_Inr(1) [OF f]
      authorityLimits_Inr [OF lim] validateConsumedApproval_Inr [OF ap] authority_ids(1) [OF assms]
    by auto
qed

section \<open>What the new row adds\<close>

lemma filter_append_new:
  assumes "filter (\<lambda>r. br_intent_id r = i) (rows @ [n]) = [r]" and "br_intent_id n = i"
  shows "r = n"
  using assms by (cases "filter (\<lambda>r. br_intent_id r = i) rows") auto

lemma reserve_row:
  assumes w: "reserveWrite h ck db i a t au = Inr db'"
    and r: "readBudgetRow h db' i = Inr (Some row)"
  shows "row = budget_of h db' (newReservation au i a t)"
    and "row_read (joinBudget db' (newReservation au i a t)) row" and "conserved row"
proof -
  from r obtain x where x: "filter (\<lambda>r. br_intent_id r = i) (db_budgets db') = [x]"
    and row: "row = budget_of h db' x" "row_read (joinBudget db' x) row" "conserved row"
    by (rule readBudgetRow_Some)
  have "x = newReservation au i a t"
    using x unfolding reserveWrite_budgets [OF w]
    by (rule filter_append_new) (simp add: newReservation_def)
  with row show "row = budget_of h db' (newReservation au i a t)"
      "row_read (joinBudget db' (newReservation au i a t)) row" "conserved row"
    by simp_all
qed

lemma reserve_row_fields:
  assumes "row_read (joinBudget db' (newReservation au i a t)) row"
  shows "bu_intentId row = i" "bu_sessionId row = ss_id (au_session au)"
    "bu_sellerOrigin row = si_seller_origin (au_intent au)" "bu_state row = ''reserved''"
    "bu_reserved row = a" "exposure row = text_int a" "rolling_amount at row = text_int a"
  using assms by (simp_all add: row_read_def joinBudget_def newReservation_def exposure_def
      rolling_amount_def)

lemma reserve_exposures:
  assumes w: "reserveWrite h ck db i a t au = Inr db'"
    and r: "readBudgetRow h db' i = Inr (Some row)"
    and wallet: "bu_walletAddress row = w"
  shows "session_exposure h db' w (bu_sessionId row)
      = session_exposure h db w (bu_sessionId row) + text_int a"
    and "seller_exposure h db' w (bu_sessionId row) (bu_sellerOrigin row)
      = seller_exposure h db w (bu_sessionId row) (bu_sellerOrigin row) + text_int a"
    and "rolling_exposure h db' w at = rolling_exposure h db w at + text_int a"
proof -
  let ?n = "newReservation au i a t"
  note row = reserve_row [OF w r]
  note fields = reserve_row_fields [OF row(2)]
  from reserveWrite_written [OF w] have "same_authority db db'" by (simp add: written_def)
  then have b: "budget_of h db' = budget_of h db" by (rule budget_of_cong)
  have "wallet_rows h db' w = wallet_rows h db w @ [?n]"
    using wallet row(1) by (simp add: wallet_rows_def reserveWrite_budgets [OF w] b)
  moreover have "br_session_id ?n = bu_sessionId row" "br_seller_origin ?n = bu_sellerOrigin row"
    using fields by (simp_all add: newReservation_def)
  moreover have "exposure (budget_of h db ?n) = text_int a"
      "rolling_amount at (budget_of h db ?n) = text_int a"
    using fields(6,7) row(1) b by simp_all
  ultimately show "session_exposure h db' w (bu_sessionId row)
      = session_exposure h db w (bu_sessionId row) + text_int a"
    and "seller_exposure h db' w (bu_sessionId row) (bu_sellerOrigin row)
      = seller_exposure h db w (bu_sessionId row) (bu_sellerOrigin row) + text_int a"
    and "rolling_exposure h db' w at = rolling_exposure h db w at + text_int a"
    by (simp_all add: session_exposure_def seller_exposure_def rolling_exposure_def b)
qed

text \<open>The wallet a snapshot is taken of is the wallet of the new row.\<close>

lemma snapshot_wallet:
  assumes "snapshotImpl h db sid so at = Inr s" and "row_read (joinBudget db r) b"
    and "br_session_id r = sid"
  shows "sn_walletAddress s = bu_walletAddress b"
  using assms by (auto elim!: snapshotImpl_Inr simp: row_read_def joinBudget_def snapshotRows_def Let_def)

lemma snapshot_wallet_cong:
  assumes "snapshotImpl h db sid so at = Inr s" and "snapshotImpl h db' sid so' at' = Inr s'"
    and "same_authority db db'"
  shows "sn_walletAddress s' = sn_walletAddress s"
  using assms
  by (auto elim!: snapshotImpl_Inr simp: same_authority_def snapshotRows_def Let_def)

lemma reserve_exposure_bound:
  assumes "reserveGuards h ck db i a = Inr (t, au)" and w: "reserveWrite h ck db i a t au = Inr db'"
    and r: "readBudgetRow h db' i = Inr (Some row)"
    and s: "snapshotImpl h db' (ss_id (au_session au)) (si_seller_origin (au_intent au)) t = Inr s"
  shows "sn_sellerSessionExposure s \<le> text_int (s_sellerSessionMaxAtomic (pb_seller (au_projection au)))"
    and "sn_sessionExposure s \<le> text_int (p_sessionMaxAtomic (lp_policy (au_version au)))"
    and "sn_rolling24hExposure s \<le> text_int (p_rolling24hMaxAtomic (lp_policy (au_version au)))"
proof -
  from assms(1) obtain cur where
      cur: "snapshotImpl h db (ss_id (au_session au)) (si_seller_origin (au_intent au)) t = Inr cur"
    and le: "sn_sellerSessionExposure cur + text_int a
           \<le> text_int (s_sellerSessionMaxAtomic (pb_seller (au_projection au)))"
       "sn_sessionExposure cur + text_int a
           \<le> text_int (p_sessionMaxAtomic (lp_policy (au_version au)))"
       "sn_rolling24hExposure cur + text_int a
           \<le> text_int (p_rolling24hMaxAtomic (lp_policy (au_version au)))"
    by (rule reserveGuards_obtains)
  note row = reserve_row [OF w r]
  note fields = reserve_row_fields [OF row(2)]
  from reserveWrite_written [OF w] have "same_authority db db'" by (simp add: written_def)
  then have same: "sn_walletAddress s = sn_walletAddress cur"
    by (rule snapshot_wallet_cong [OF cur s])
  have wallet: "bu_walletAddress row = sn_walletAddress s"
    using snapshot_wallet [OF s row(2)] by (simp add: newReservation_def)
  note ex = reserve_exposures [OF w r wallet, unfolded fields]
  show "sn_sellerSessionExposure s \<le> text_int (s_sellerSessionMaxAtomic (pb_seller (au_projection au)))"
    using le(1) ex(2) snapshot_exposures(2) [OF s] snapshot_exposures(2) [OF cur] same by simp
  show "sn_sessionExposure s \<le> text_int (p_sessionMaxAtomic (lp_policy (au_version au)))"
    using le(2) ex(1) snapshot_exposures(1) [OF s] snapshot_exposures(1) [OF cur] same by simp
  show "sn_rolling24hExposure s \<le> text_int (p_rolling24hMaxAtomic (lp_policy (au_version au)))"
    using le(3) ex(3) snapshot_exposures(3) [OF s] snapshot_exposures(3) [OF cur] same by simp
qed

section \<open>Blockers\<close>

lemma snapshot_unresolved:
  assumes "snapshotImpl h db sid so at = Inr s"
  shows "bl_unresolvedBudget (sn_blockers s)
    \<longleftrightarrow> (\<exists>r \<in> set (wallet_rows h db (sn_walletAddress s)). br_state r = ''unresolved'')"
proof -
  from assms obtain x :: session_row and rows
    where rows: "validatedBudgetRows h db (\<lambda>_. True) = Inr rows"
    and sn: "s = snapshotRows db sid so at (ss_wallet_address x)
                (filter (\<lambda>r. bu_walletAddress r = ss_wallet_address x) rows)"
    by (rule snapshotImpl_Inr)
  let ?b = "budget_of h db"
  have valid: "ledger_valid h db" using rows by (auto simp: ledger_valid_def)
  have st: "bu_state (?b r) = br_state r" if "r \<in> set (db_budgets db)" for r
    using ledger_valid_row(2) [OF valid that] by (simp add: row_read_def joinBudget_def)
  have "set rows = ?b ` set (db_budgets db)"
    using validatedBudgetRows_Inr(1) [OF rows] by (metis filter_True set_image_mset set_mset_mset)
  then have "bl_unresolvedBudget (sn_blockers s) \<longleftrightarrow>
      (\<exists>r \<in> set (db_budgets db). bu_walletAddress (?b r) = ss_wallet_address x
         \<and> bu_state (?b r) = ''unresolved'')"
    by (auto simp: sn snapshotRows_def Let_def walletBlockers_def list_ex_iff)
  also have "\<dots> \<longleftrightarrow> (\<exists>r \<in> set (wallet_rows h db (sn_walletAddress s)). br_state r = ''unresolved'')"
    using st by (auto simp: wallet_rows_def sn snapshotRows_def Let_def)
  finally show ?thesis .
qed

text \<open>A reservation waiting for an open execution case or an active refund of the same wallet.\<close>

definition wallet_case_open :: "db \<Rightarrow> string \<Rightarrow> bool" where
  "wallet_case_open db w \<longleftrightarrow>
     (\<exists>r \<in> set (db_resolutions db). intent_wallet db (er_intent_id r) = Some w
        \<and> er_state r \<noteq> ''resolved'' \<and> er_blocks_wallet r = 1)
     \<or> (\<exists>r \<in> set (db_refunds db). intent_wallet db (rf_intent_id r) = Some w
        \<and> rf_state r \<in> {''pending'', ''unresolved''})"

lemma snapshot_resolution:
  "snapshotImpl h db sid so at = Inr s \<Longrightarrow>
   bl_resolutionRequired (sn_blockers s) \<longleftrightarrow> wallet_case_open db (sn_walletAddress s)"
  by (erule snapshotImpl_Inr)
    (simp add: snapshotRows_def Let_def walletBlockers_def wallet_case_open_def list_ex_iff)

text \<open>A successful reservation found its wallet clear.\<close>

lemma reserve_clear_wallet:
  assumes "reserve h ck input db = (db', Inr row)"
  shows "\<forall>r \<in> set (wallet_rows h db (bu_walletAddress row)). br_state r \<noteq> ''unresolved''"
    and "\<not> wallet_case_open db (bu_walletAddress row)"
proof -
  from assms obtain i a t au s where g: "reserveGuards h ck db i a = Inr (t, au)"
    and w: "reserveWrite h ck db i a t au = Inr db'" and r: "readBudgetRow h db' i = Inr (Some row)"
    and s: "snapshotImpl h db' (ss_id (au_session au)) (si_seller_origin (au_intent au)) t = Inr s"
    by (rule reserve_obtains)
  from g obtain cur where
      cur: "snapshotImpl h db (ss_id (au_session au)) (si_seller_origin (au_intent au)) t = Inr cur"
    and blk: "\<not> bl_unresolvedBudget (sn_blockers cur)" "\<not> bl_resolutionRequired (sn_blockers cur)"
    by (rule reserveGuards_obtains)
  from reserveWrite_written [OF w] have "same_authority db db'" by (simp add: written_def)
  from snapshot_wallet_cong [OF cur s this] snapshot_wallet [OF s reserve_row(2) [OF w r]]
  have "bu_walletAddress row = sn_walletAddress cur" by (simp add: newReservation_def)
  with snapshot_unresolved [OF cur] snapshot_resolution [OF cur] blk
  show "\<forall>r \<in> set (wallet_rows h db (bu_walletAddress row)). br_state r \<noteq> ''unresolved''"
    and "\<not> wallet_case_open db (bu_walletAddress row)" by auto
qed

end
