(* ===== verification/LedgerReplay.thy ===== *)
theory LedgerReplay
  imports LedgerReserve
begin

text \<open>
  Facts about settlement: a transaction id belongs to one payment, and a transition that succeeded is
  answered again, without a write, when it is called again.
\<close>

section \<open>Transactions with one owner\<close>

text \<open>Every transaction id in the database is canonical.\<close>

definition transactions_canonical :: "db \<Rightarrow> bool" where
  "transactions_canonical db \<longleftrightarrow>
     (\<forall>ot \<in> set (concat (transactionGroups db)).
        canonicalEvmHashFor (JStr (snd ot)) ''TRANSACTION_BINDING_CORRUPTION'' = Inr (snd ot))"

text \<open>The payment, candidate and refund a transaction id may belong to.\<close>

definition owned_by ::
  "db \<Rightarrow> string \<Rightarrow> string option \<Rightarrow> string option \<Rightarrow> string option \<Rightarrow> bool" where
  "owned_by db t pay cand ref \<longleftrightarrow>
     (\<forall>a \<in> set (db_attempts db). pa_transaction_id a = Some t \<longrightarrow> Some (pa_intent_id a) = pay)
     \<and> (\<forall>c \<in> set (db_candidates db). rc_transaction_id c = t \<longrightarrow> Some (rc_id c) = cand)
     \<and> (\<forall>r \<in> set (db_refunds db). rf_refund_transaction_id r = Some t \<longrightarrow> Some (rf_id r) = ref)"

lemma unique_owner_check:
  "(case ot of (owner, t) \<Rightarrow>
      andthen (canonicalEvmHashFor (JStr t) code) (\<lambda>canonical.
        if t \<noteq> canonical then fail code
        else if canonical = tx \<and> Some owner \<noteq> allowed then fail code' else Inr ())) = Inr ()
   \<longleftrightarrow> canonicalEvmHashFor (JStr (snd ot)) code = Inr (snd ot)
       \<and> (snd ot = tx \<longrightarrow> Some (fst ot) = allowed)"
  by (cases ot) (auto simp: andthen_Inr_iff)

lemma unique_transaction_iff:
  "assertGloballyUniqueTransaction db t pay cand ref = Inr ()
   \<longleftrightarrow> transactions_canonical db \<and> owned_by db t pay cand ref"
proof -
  obtain A B C where g: "transactionGroups db = [A, B, C]" by (simp add: transactionGroups_def)
  let ?ok = "\<lambda>ot. canonicalEvmHashFor (JStr (snd ot)) ''TRANSACTION_BINDING_CORRUPTION'' = Inr (snd ot)"
  have "assertGloballyUniqueTransaction db t pay cand ref = Inr ()
    \<longleftrightarrow> (\<forall>ot \<in> set A. ?ok ot \<and> (snd ot = t \<longrightarrow> Some (fst ot) = pay))
        \<and> (\<forall>ot \<in> set B. ?ok ot \<and> (snd ot = t \<longrightarrow> Some (fst ot) = cand))
        \<and> (\<forall>ot \<in> set C. ?ok ot \<and> (snd ot = t \<longrightarrow> Some (fst ot) = ref))"
    unfolding assertGloballyUniqueTransaction_def g
    by (simp add: andthen_Inr_iff check_each_Inr_iff unique_owner_check)
  also have "\<dots> \<longleftrightarrow> transactions_canonical db
        \<and> (\<forall>ot \<in> set A. snd ot = t \<longrightarrow> Some (fst ot) = pay)
        \<and> (\<forall>ot \<in> set B. snd ot = t \<longrightarrow> Some (fst ot) = cand)
        \<and> (\<forall>ot \<in> set C. snd ot = t \<longrightarrow> Some (fst ot) = ref)"
    unfolding transactions_canonical_def g by auto
  also have "(\<forall>ot \<in> set A. snd ot = t \<longrightarrow> Some (fst ot) = pay)
        \<and> (\<forall>ot \<in> set B. snd ot = t \<longrightarrow> Some (fst ot) = cand)
        \<and> (\<forall>ot \<in> set C. snd ot = t \<longrightarrow> Some (fst ot) = ref) \<longleftrightarrow> owned_by db t pay cand ref"
    using g by (auto simp: transactionGroups_def owned_by_def split: option.splits)
  finally show ?thesis .
qed

section \<open>The event of a transition is read back\<close>

lemma completeness_count:
  assumes "validateBudgetEventCompleteness db = Inr ()" and "e \<in> set (budget_events db)"
  shows "count_events db (ev_entity_id e) (ev_event_type e) = 1"
proof -
  from assms have "andthen (rethrow_as ''BUDGET_CORRUPTION'' (canonicalToken (JStr (ev_entity_id e))))
             (\<lambda>intentId.
             if ev_event_type e \<notin> set BUDGET_EVENT_TYPES
                \<or> count_events db intentId (ev_event_type e) \<noteq> 1
             then fail ''BUDGET_CORRUPTION'' else Inr ()) = Inr ()"
    by (auto simp: validateBudgetEventCompleteness_def check_each_Inr_iff)
  then show ?thesis by (auto simp: ledgerToken_Inr)
qed

lemma appended_event_loaded:
  assumes "appendEvent h now (budgetEvent i ty d) db = Inr (db', hash)" and wf: "js_wf (JObj d)"
    and "validateBudgetEventCompleteness db' = Inr ()"
  shows "loadBudgetEvent db' i ty = Inr (JObj (normal_entries d))"
proof -
  from assms(1,2) obtain e where db': "db' = db\<lparr>db_events := db_events db @ [e]\<rparr>"
    and e: "ev_entity_type e = ''budget_reservation''" "ev_entity_id e = i" "ev_event_type e = ty"
    and json: "canonicalJson (JObj d) = Inr (ev_data_json e)"
    by (elim appendEvent_Inr) auto
  let ?P = "\<lambda>e. ev_entity_type e = ''budget_reservation'' \<and> ev_entity_id e = i \<and> ev_event_type e = ty"
  have "e \<in> set (budget_events db')" using db' e by (simp add: budget_events_def)
  with assms(3) e have "count_events db' i ty = 1" by (metis completeness_count)
  then have "length (filter ?P (db_events db')) = 1"
    by (simp add: count_events_def budget_events_def conj_commute conj_left_commute)
  moreover have "filter ?P (db_events db') = filter ?P (db_events db) @ [e]" using db' e by simp
  ultimately have "filter ?P (db_events db') = [e]" by simp
  then show ?thesis
    using parseCanonicalJson_canonical [OF wf json]
    by (simp add: loadBudgetEvent_def js_normal_JObj del: js_normal.simps)
qed

lemma prop_of_normal_entries:
  "distinct (map fst d) \<Longrightarrow> prop_of (JObj (normal_entries d)) k = js_normal (get_prop d k)"
  by (simp add: prop_of_def get_prop_normal_entries)

lemma readBudgetRow_complete:
  "readBudgetRow h db i = Inr (Some row) \<Longrightarrow> validateBudgetEventCompleteness db = Inr ()"
  by (erule readBudgetRow_Some)

section \<open>Commit\<close>

lemma commitWrite_obtains:
  assumes "commitWrite h ck db i e ej au t = Inr db'"
  obtains ats db1 hash d where
    "update_one ''PAYMENT_ATTEMPT_STATE''
       (\<lambda>a. pa_intent_id a = i \<and> pa_state a = ''retrying'' \<and> pa_settlement_json a = None
          \<and> pa_transaction_id a = None \<and> pa_settled_at a = None)
       (settleAttempt ej (se_transaction e) None t) (db_attempts db) = Inr ats"
    and "moveBudget i ''reserved'' (au_amount au) (toCommitted (au_amount au) t)
           (db\<lparr>db_attempts := ats\<rparr>) = Inr db1"
    and "appendEvent h (ck_store ck) (budgetEvent i ''budget.committed'' d) db1 = Inr (db', hash)"
    and "d = [(''amountAtomic'', JStr (au_amount au)),
              (''transactionId'', JStr (se_transaction e)),
              (''paymentHash'', JStr (se_paymentHash e)),
              (''headerHash'', JStr (se_headerHash e)),
              (''previousState'', JStr ''reserved''),
              (''nextState'', JStr ''committed''),
              (''committedAt'', JStr t)]"
  using assms unfolding commitWrite_def by auto

lemma moveBudget_frame:
  "moveBudget i st a f db = Inr db' \<Longrightarrow> db' = db\<lparr>db_budgets := db_budgets db'\<rparr>"
  by (auto simp: moveBudget_def)

lemma appendEvent_frame:
  "appendEvent h now e db = Inr (db', hash) \<Longrightarrow> db' = db\<lparr>db_events := db_events db'\<rparr>"
  by (auto simp: appendEvent_def Let_def split: jsval.splits if_splits)

lemma commitWrite_tables:
  assumes "commitWrite h ck db i e ej au t = Inr db'"
  shows "db_candidates db' = db_candidates db" "db_refunds db' = db_refunds db"
    "\<exists>xs a ys. db_attempts db = xs @ a # ys \<and> pa_intent_id a = i \<and> pa_transaction_id a = None
       \<and> db_attempts db' = xs @ settleAttempt ej (se_transaction e) None t a # ys"
proof -
  from assms obtain ats db1 hash d where up: "update_one ''PAYMENT_ATTEMPT_STATE''
       (\<lambda>a. pa_intent_id a = i \<and> pa_state a = ''retrying'' \<and> pa_settlement_json a = None
          \<and> pa_transaction_id a = None \<and> pa_settled_at a = None)
       (settleAttempt ej (se_transaction e) None t) (db_attempts db) = Inr ats"
    and m: "moveBudget i ''reserved'' (au_amount au) (toCommitted (au_amount au) t)
           (db\<lparr>db_attempts := ats\<rparr>) = Inr db1"
    and ap: "appendEvent h (ck_store ck) (budgetEvent i ''budget.committed'' d) db1 = Inr (db', hash)"
    by (rule commitWrite_obtains)
  have db1: "db_candidates db1 = db_candidates db" "db_refunds db1 = db_refunds db"
      "db_attempts db1 = ats" by (subst moveBudget_frame [OF m], simp)+
  have db': "db_candidates db' = db_candidates db" "db_refunds db' = db_refunds db"
      "db_attempts db' = ats" by (subst appendEvent_frame [OF ap], simp add: db1)+
  then show "db_candidates db' = db_candidates db" "db_refunds db' = db_refunds db" by simp_all
  from up show "\<exists>xs a ys. db_attempts db = xs @ a # ys \<and> pa_intent_id a = i
       \<and> pa_transaction_id a = None
       \<and> db_attempts db' = xs @ settleAttempt ej (se_transaction e) None t a # ys"
    by (rule update_one_Inr) (use db' in auto)
qed

lemma to_lower_id: "list_all (\<lambda>c. \<not> is_upper c) s \<Longrightarrow> to_lower s = s"
  by (induction s) (simp_all add: to_lower_def to_lower_char_def)

lemma commit_unique_after:
  assumes w: "commitWrite h ck db i e ej au t = Inr db'"
    and u: "assertGloballyUniqueTransaction db (se_transaction e) (Some i) None None = Inr ()"
    and c: "canonicalEvmHashFor (JStr (se_transaction e)) ''TRANSACTION_BINDING_CORRUPTION''
              = Inr (se_transaction e)"
  shows "assertGloballyUniqueTransaction db' (se_transaction e) (Some i) None None = Inr ()"
proof -
  note tab = commitWrite_tables [OF w]
  from tab(3) obtain xs a ys where at: "db_attempts db = xs @ a # ys" "pa_intent_id a = i"
      "pa_transaction_id a = None"
      "db_attempts db' = xs @ settleAttempt ej (se_transaction e) None t a # ys" by blast
  from u have ok: "transactions_canonical db" "owned_by db (se_transaction e) (Some i) None None"
    by (simp_all add: unique_transaction_iff)
  from ok(1) have "transactions_canonical db'"
    using tab(1,2) at c
    by (auto simp: transactions_canonical_def transactionGroups_def settleAttempt_def)
  moreover from ok(2) have "owned_by db' (se_transaction e) (Some i) None None"
    using tab(1,2) at by (auto simp: owned_by_def settleAttempt_def)
  ultimately show ?thesis by (simp add: unique_transaction_iff)
qed

text \<open>The settled attempt was accepted, so its transaction id is canonical.\<close>

lemma signedAttempt_Inr:
  assumes "signedAttempt h au row c u = Inr (a, pl)"
  shows "a = row" "settlementFields row u = Inr ()" "all_present (signedPayloadFields row)"
proof -
  from assms obtain hdr bytes where "pa_payment_header row = Some hdr"
      "pa_payment_payload_json row = Some bytes"
    unfolding signedAttempt_def Let_def
    by (cases "pa_payment_header row"; cases "pa_payment_payload_json row") simp_all
  with assms have "a = row \<and> settlementFields row u = Inr () \<and> all_present (signedPayloadFields row)"
    unfolding signedAttempt_def Let_def by auto
  then show "a = row" "settlementFields row u = Inr ()" "all_present (signedPayloadFields row)" by simp_all
qed

lemma validateAttemptRow_Inr:
  assumes "validateAttemptRow h au row = Inr (a, pl)"
  shows "a = row"
    "pa_state row = ''settled'' \<Longrightarrow> \<exists>u. settlementFields row u = Inr ()"
    "all_absent (signedPayloadFields row) \<or> (\<exists>c u. signedAttempt h au row c u = Inr (a, pl))"
proof -
  from assms obtain c u where b: "attemptBinding au row = Inr (c, u)"
    unfolding validateAttemptRow_def Let_def by (auto simp only: andthen_Inr_iff)
  have "a = row \<and> (pa_state row = ''settled'' \<longrightarrow> (\<exists>u. settlementFields row u = Inr ()))
     \<and> (all_absent (signedPayloadFields row) \<or> (\<exists>c u. signedAttempt h au row c u = Inr (a, pl)))"
  proof (cases "\<exists>c. signedAttempt h au row c u = Inr (a, pl)")
    case True
    then obtain c where "signedAttempt h au row c u = Inr (a, pl)" ..
    from signedAttempt_Inr [OF this] this show ?thesis by blast
  next
    case False
    with assms b show ?thesis
      unfolding validateAttemptRow_def Let_def
      by (simp split: if_split_asm) (auto elim!: andthen_InrE split: if_split_asm)
  qed
  then show "a = row"
    "pa_state row = ''settled'' \<Longrightarrow> \<exists>u. settlementFields row u = Inr ()"
    "all_absent (signedPayloadFields row) \<or> (\<exists>c u. signedAttempt h au row c u = Inr (a, pl))"
    using b by blast+
qed

lemma validatePaymentAttempt_obtains:
  assumes "validatePaymentAttempt h db au states = Inr (a, pl)"
  obtains "select_one (\<lambda>a. pa_intent_id a = si_id (au_intent au)) (db_attempts db) = Some a"
    and "pa_state a \<in> set states" and "validateAttemptRow h au a = Inr (a, pl)"
proof -
  from assms obtain row where "select_one (\<lambda>a. pa_intent_id a = si_id (au_intent au)) (db_attempts db)
      = Some row" "pa_state row \<in> set states" "validateAttemptRow h au row = Inr (a, pl)"
    unfolding validatePaymentAttempt_def by (auto split: option.splits)
  with validateAttemptRow_Inr(1) [OF this(3)] that show thesis by simp
qed

lemma settled_transaction_canonical:
  assumes "validatePaymentAttempt h db au [''settled''] = Inr (a, pl)"
    and "pa_transaction_id a = Some tx"
  shows "canonicalEvmHashFor (JStr tx) code = Inr tx"
proof -
  from assms(1) have "pa_state a = ''settled''" "validateAttemptRow h au a = Inr (a, pl)"
    by (auto elim: validatePaymentAttempt_obtains)
  with validateAttemptRow_Inr(2) [of h au a a pl] obtain u where "settlementFields a u = Inr ()"
    by blast
  with assms(2) \<open>pa_state a = ''settled''\<close>
  have "canonicalEvmHashFor (JStr tx) ''PAYMENT_ATTEMPT_CORRUPTION'' = Inr tx"
    unfolding settlementFields_def Let_def by (auto split: option.splits)
  then show ?thesis by (simp add: canonicalEvmHashFor_def)
qed

lemma commitReplay_after:
  assumes w: "commitWrite h ck db i e ej au t = Inr db'"
    and r: "readBudgetRow h db' i = Inr (Some row)"
    and c: "commitConfirm h db' e ej au = Inr ()"
  shows "commitReplay h db' i e ej au = Inr ()"
proof -
  from w obtain ats db1 hash d where
      ap: "appendEvent h (ck_store ck) (budgetEvent i ''budget.committed'' d) db1 = Inr (db', hash)"
    and d: "d = [(''amountAtomic'', JStr (au_amount au)),
              (''transactionId'', JStr (se_transaction e)),
              (''paymentHash'', JStr (se_paymentHash e)),
              (''headerHash'', JStr (se_headerHash e)),
              (''previousState'', JStr ''reserved''),
              (''nextState'', JStr ''committed''),
              (''committedAt'', JStr t)]"
    by (rule commitWrite_obtains)
  have wf: "js_wf (JObj d)" and dist: "distinct (map fst d)" by (simp_all add: d)
  have ev: "loadBudgetEvent db' i ''budget.committed'' = Inr (JObj (normal_entries d))"
    by (rule appended_event_loaded [OF ap wf readBudgetRow_complete [OF r]])
  have p: "prop_of (JObj (normal_entries d)) k = js_normal (get_prop d k)" for k
    by (rule prop_of_normal_entries [OF dist])
  let ?e = "JObj (normal_entries d)"
  have "prop_of ?e ''transactionId'' = JStr (se_transaction e)"
      "prop_of ?e ''paymentHash'' = JStr (se_paymentHash e)"
      "prop_of ?e ''headerHash'' = JStr (se_headerHash e)"
      "prop_of ?e ''amountAtomic'' = JStr (au_amount au)"
      "prop_of ?e ''previousState'' = JStr ''reserved''"
      "prop_of ?e ''nextState'' = JStr ''committed''"
    unfolding p by (simp_all add: d)
  with c show ?thesis
    unfolding commitReplay_def commitConfirm_def by (auto simp: ev)
qed

lemma commit_replayed:
  assumes "commitImpl h ck db i e = Inr (db', row)"
  shows "commitImpl h ck' db' i e = Inr (db', row)"
  using assms
proof (cases rule: commitImpl_obtains)
  case (first au ej t s)
  from first(7) have row: "readBudgetRow h db' i = Inr (Some row)" "bu_state row = ''committed''"
    by (simp_all add: movedBudget_Inr)
  have "same_authority db db'" using commitWrite_written [OF first(6)] by (simp add: written_def)
  with first(1) have au: "loadReservationAuthority h db' i False [] = Inr au"
    by (simp add: loadReservationAuthority_cong)
  from first(8) obtain a pl where "validatePaymentAttempt h db' au [''settled''] = Inr (a, pl)"
      "pa_transaction_id a = Some (se_transaction e)"
    by (auto simp: commitConfirm_def)
  then have "canonicalEvmHashFor (JStr (se_transaction e)) ''TRANSACTION_BINDING_CORRUPTION''
      = Inr (se_transaction e)" by (rule settled_transaction_canonical)
  then have "assertGloballyUniqueTransaction db' (se_transaction e) (Some i) None None
      = Inr ()" by (rule commit_unique_after [OF first(6,4)])
  then show ?thesis
    using au row first(2,3) commitReplay_after [OF first(6) row(1) first(8)]
    by (simp add: commitImpl_def requireReservation_def)
next
  case replay
  have "commitImpl h ck' db i e = commitImpl h ck db i e"
    unfolding commitImpl_def using replay(2,3)
    by (cases "loadReservationAuthority h db i False []"; cases "canonicalJson (evidence_js e)";
        cases "assertGloballyUniqueTransaction db (se_transaction e) (Some i) None None") simp_all
  with assms replay(1) show ?thesis by simp
qed

section \<open>Hold\<close>

lemma holdReplay_after:
  assumes w: "holdWrite h ck db p au t = Inr db'"
    and r: "readBudgetRow h db' (rt_intentId p) = Inr (Some row)"
  shows "holdReplay db' p au = Inr ()"
proof -
  let ?d = "[(''amountAtomic'', JStr (au_amount au)), (''reasonCode'', JStr (rt_reasonCode p)),
             (''previousState'', JStr ''reserved''), (''nextState'', JStr ''unresolved''),
             (''heldAt'', JStr t)]"
  from w obtain db1 hash where
      ap: "appendEvent h (ck_store ck) (budgetEvent (rt_intentId p) ''budget.held_unresolved'' ?d)
          db1 = Inr (db', hash)"
    unfolding holdWrite_def by auto
  have ev: "loadBudgetEvent db' (rt_intentId p) ''budget.held_unresolved''
      = Inr (JObj (normal_entries ?d))"
    by (rule appended_event_loaded [OF ap _ readBudgetRow_complete [OF r]]) simp
  have p: "prop_of (JObj (normal_entries ?d)) k = js_normal (get_prop ?d k)" for k
    by (rule prop_of_normal_entries) simp
  show ?thesis unfolding holdReplay_def by (simp add: ev p)
qed

lemma hold_replayed:
  assumes "holdUnresolvedImpl h ck db p = Inr (db', row)"
  shows "holdUnresolvedImpl h ck' db' p = Inr (db', row)"
  using assms
proof (cases rule: holdUnresolvedImpl_obtains)
  case (first au t s)
  from first(3) have row: "readBudgetRow h db' (rt_intentId p) = Inr (Some row)"
      "bu_state row = ''unresolved''" by (simp_all add: movedBudget_Inr)
  have "same_authority db db'" using holdWrite_written [OF first(2)] by (simp add: written_def)
  with first(1) have "loadReservationAuthority h db' (rt_intentId p) False [] = Inr au"
    by (simp add: loadReservationAuthority_cong)
  then show ?thesis
    using row holdReplay_after [OF first(2) row(1)]
    by (simp add: holdUnresolvedImpl_def requireReservation_def)
next
  case replay
  have "holdUnresolvedImpl h ck' db p = holdUnresolvedImpl h ck db p"
    unfolding holdUnresolvedImpl_def using replay(2,3)
    by (cases "loadReservationAuthority h db (rt_intentId p) False []") simp_all
  with assms replay(1) show ?thesis by simp
qed

end
