(* ===== verification/LedgerDemo.thy ===== *)
theory LedgerDemo
  imports LedgerReplay PolicyProperties
begin

text \<open>
  A small concrete ledger for the witnesses of the ledger's properties: one wallet, one session under
  the policy of the policy witnesses, one allowed intent over ten units, and its reservation,
  payment attempt and events.
\<close>

section \<open>Stored text\<close>

definition stored :: "jsval \<Rightarrow> string" where
  "stored v = (case canonicalJson v of Inr t \<Rightarrow> t | Inl _ \<Rightarrow> [])"

lemma stored_text: "js_canonical v \<Longrightarrow> canonicalJson v = Inr (stored v)"
  using canonicalJson_total [of v] by (auto simp: stored_def)

lemma stored_parse:
  "js_canonical v \<Longrightarrow> js_wf v \<Longrightarrow> parseCanonicalJson (stored v) code = Inr (js_normal v)"
  by (rule parseCanonicalJson_canonical [OF _ stored_text])

lemma demo_sha [simp]: "h_sha256 demo_host t = demo_hash"
  by (simp add: demo_host_def)

section \<open>The rows of the authority\<close>

definition t0 :: string where "t0 = ''2024-01-01T00:00:00.000Z''"

definition t1 :: string where "t1 = ''2024-01-01T00:00:00.500Z''"

lemma demo_times:
  "canonical_time t0" "canonical_time t1" "date_ms t0 = 1704067200000" "date_ms t1 = 1704067200500"
  by code_simp+

lemma demo_timestamps:
  "canonicalTimestamp (JStr t0) = Inr t0" "canonicalTimestamp (JStr t1) = Inr t1"
  "canonicalPersistedTimestamp (JStr t0) code = Inr t0"
  "canonicalPersistedTimestamp (JStr t1) code = Inr t1"
  by (simp_all add: canonicalTimestamp_Inr canonicalPersistedTimestamp_Inr demo_times)

lemma demo_scalars:
  "hash_pattern demo_hash" "canonical_address_pattern demo_address"
  "canonicalToken (JStr ''i1'') = Inr ''i1''" "canonicalToken (JStr ''s1'') = Inr ''s1''"
  "canonicalToken (JStr ''v1'') = Inr ''v1''" "canonicalToken (JStr ''b1'') = Inr ''b1''"
  "canonicalToken (JStr ''a1'') = Inr ''a1''" "canonicalToken (JStr ''agent'') = Inr ''agent''"
  "canonicalOrigin demo_host (JStr ''https://s.io'') code = Inr ''https://s.io''"
  "uid_text_ok ''501''" "uid_text_ok ''20''" "decimal_pattern ''10''" "decimal_pattern ''0''"
  "text_int ''10'' = 10" "demo_hash \<noteq> ''h0''" "demo_hash \<noteq> ''h1''"
  by code_simp+

lemma demo_amounts:
  "canonicalAtomicText (JStr ''10'') code = Inr ''10''" "canonicalAtomicText (JStr ''0'') code = Inr ''0''"
  by (simp_all add: canonicalAtomicText_Inr demo_scalars del: decimal_pattern.simps)

definition demo_version_row :: policy_version_row where
  "demo_version_row = \<lparr>pvr_id = ''v1'', pvr_schema_version = 1,
     pvr_canonical_json = stored (policy_js demo_policy), pvr_policy_hash = demo_hash,
     pvr_predecessor_hash = None, pvr_applied_at = t0\<rparr>"

definition demo_session :: session_row where
  "demo_session = \<lparr>ss_id = ''s1'', ss_adapter_id = ''pi:agent'', ss_wallet_address = demo_address,
     ss_policy_version_id = ''v1'', ss_state = ''open'', ss_created_at = t0, ss_closed_at = None\<rparr>"

definition demo_enrollment :: enrollment_row where
  "demo_enrollment = \<lparr>ae_agent_instance_id = ''agent'', ae_credential_digest = demo_hash,
     ae_enrollment_hash = demo_hash, ae_agent_uid = ''501'', ae_agent_gid = ''20'',
     ae_state = ''active'', ae_enrolled_by_operator_hash = demo_hash, ae_enrolled_at = t0,
     ae_revoked_by_operator_hash = None, ae_revoked_at = None\<rparr>"

definition demo_binding :: binding_row where
  "demo_binding = \<lparr>sb_id = ''b1'', sb_agent_instance_id = ''agent'', sb_credential_digest = demo_hash,
     sb_enrollment_hash = demo_hash, sb_session_id = ''s1'', sb_state = ''open'',
     sb_created_at = t0, sb_last_seen_at = t0, sb_closed_at = None\<rparr>"

definition demo_projection :: projection where
  "demo_projection = challengeProjection demo_host (demo_payment ''10'')"

definition demo_key :: string where
  "demo_key = ''wk_'' @ replicate 64 (CHR ''a'')"

definition demo_intent_row :: "string \<Rightarrow> intent_row" where
  "demo_intent_row st = \<lparr>si_id = ''i1'', si_request_id = ''r1'', si_session_id = ''s1'',
     si_enrollment_hash = demo_hash, si_route_id = ''route'', si_method = ''GET'',
     si_request_url_hash = demo_hash, si_seller_origin = ''https://s.io'', si_resource_path = ''/p'',
     si_body_hash = demo_hash, si_header_allowlist_hash = demo_hash, si_ordinary_fingerprint = demo_hash,
     si_purpose_label = ''purpose'', si_correlation_id = ''c1'',
     si_idempotency_key = demo_key,
     si_wallet_address = demo_address, si_intent_hash = demo_hash,
     si_challenge_projection_json = Some (stored (projection_js demo_projection)),
     si_challenge_hash = Some demo_hash, si_challenge_received_at = Some t0, si_state = st,
     si_created_at = t0, si_updated_at = t0, si_retry_matchable = 1\<rparr>"

definition demo_decision :: decision_row where
  "demo_decision = \<lparr>pd_intent_id = ''i1'', pd_policy_version_id = ''v1'', pd_decision = ''allow'',
     pd_reason_code = ''WITHIN_AUTO_LIMIT'', pd_challenge_hash = demo_hash,
     pd_accepted_index = Some 0, pd_quote_id = Some demo_hash, pd_amount_ceiling_atomic = ''10'',
     pd_decided_at = t0\<rparr>"

definition demo_ledger ::
  "string \<Rightarrow> budget_row list \<Rightarrow> attempt_row list \<Rightarrow> event_row list \<Rightarrow> db" where
  "demo_ledger st brs ats es =
     \<lparr>db_metadata = [(''active_policy_id'', ''v1'')], db_policy_versions = [demo_version_row],
      db_sessions = [demo_session], db_enrollments = [demo_enrollment],
      db_attestations = [], db_bindings = [demo_binding],
      db_intents = [demo_intent_row st], db_decisions = [demo_decision], db_budgets = brs,
      db_approvals = [], db_attempts = ats, db_candidates = [], db_outcomes = [],
      db_resolutions = [], db_refunds = [], db_reconciliations = [], db_buyers = [],
      db_events = es\<rparr>"

lemma demo_ledger_sel [simp]:
  "db_metadata (demo_ledger st brs ats es) = [(''active_policy_id'', ''v1'')]"
  "db_policy_versions (demo_ledger st brs ats es) = [demo_version_row]"
  "db_sessions (demo_ledger st brs ats es) = [demo_session]"
  "db_enrollments (demo_ledger st brs ats es) = [demo_enrollment]"
  "db_bindings (demo_ledger st brs ats es) = [demo_binding]"
  "db_intents (demo_ledger st brs ats es) = [demo_intent_row st]"
  "db_decisions (demo_ledger st brs ats es) = [demo_decision]"
  "db_budgets (demo_ledger st brs ats es) = brs" "db_approvals (demo_ledger st brs ats es) = []"
  "db_attempts (demo_ledger st brs ats es) = ats" "db_candidates (demo_ledger st brs ats es) = []"
  "db_outcomes (demo_ledger st brs ats es) = []" "db_resolutions (demo_ledger st brs ats es) = []"
  "db_refunds (demo_ledger st brs ats es) = []" "db_events (demo_ledger st brs ats es) = es"
  "db_budgets_update (\<lambda>_. brs') (demo_ledger st brs ats es) = demo_ledger st brs' ats es"
  "db_attempts_update (\<lambda>_. ats') (demo_ledger st brs ats es) = demo_ledger st brs ats' es"
  "db_events_update (\<lambda>_. es') (demo_ledger st brs ats es) = demo_ledger st brs ats es'"
  by (simp_all add: demo_ledger_def)

lemma select_one_simps [simp]:
  "select_one P [] = None"
  "select_one P (r # rs) = (if P r then Some r else select_one P rs)"
  by (simp_all add: select_one_def)

section \<open>The authority loads\<close>

lemma demo_version_loads:
  "loadPolicyVersion demo_host (demo_ledger st brs ats es) ''v1''
     = Inr \<lparr>lp_id = ''v1'', lp_hash = demo_hash, lp_policy = demo_policy\<rparr>"
proof -
  have can: "js_canonical (policy_js demo_policy)"
    by (rule js_canonical_policy [OF demo_policy_ok])
  have wf: "js_wf (policy_js demo_policy)" by (simp add: policy_js_def seller_js_def list_all_iff)
  have "list_all (\<lambda>s. utf8_length (s_origin s) \<le> 2048) (p_sellers demo_policy)" by code_simp
  from policy_origins_ok [OF demo_url_stable demo_policy_valid this]
  have "validatePolicyDocument demo_host (js_normal (policy_js demo_policy)) = Inr demo_policy"
    by (rule policy_stored [OF demo_policy_ok])
  then show ?thesis
    by (simp add: loadPolicyVersion_def demo_scalars demo_version_row_def stored_parse [OF can wf]
        stored_text [OF can] demo_timestamps
        demo_times)
qed

lemma demo_fields_load:
  "authorityFields demo_host (demo_intent_row st) demo_session demo_decision = Inr (t0, t0, ''10'')"
  by (simp add: authorityFields_def demo_intent_row_def demo_session_def demo_decision_def
      demo_scalars demo_times ledgerAddress_def canonicalHash_def option_string_def
      demo_timestamps demo_amounts)

lemma demo_enrollment_loads:
  "validateEnrollmentAndBinding demo_host (demo_ledger st brs ats es) (demo_intent_row st)
     demo_session req = Inr demo_enrollment"
proof -
  have "js_canonical (enrollmentDescriptor demo_enrollment)"
    by (simp add: enrollmentDescriptor_def MAX_SAFE_INTEGER_def)
  from stored_text [OF this]
  have "validateEnrollmentRow demo_host (demo_intent_row st) req demo_enrollment = Inr ()"
    by (simp add: validateEnrollmentRow_def enrollmentStateFields_def demo_intent_row_def
        demo_scalars demo_times canonicalHash_def demo_timestamps)
      (simp add: demo_enrollment_def enrollmentStateFields_def demo_scalars demo_times canonicalHash_def
        demo_timestamps)
  moreover have "validateSessionBinding demo_session demo_enrollment demo_binding = Inr ()"
    by (simp add: validateSessionBinding_def demo_session_def demo_enrollment_def demo_binding_def
        demo_scalars demo_times demo_timestamps
        optionalTimestamp_def)
  ultimately show ?thesis
    by (simp add: validateEnrollmentAndBinding_def)
      (simp add: demo_enrollment_def demo_binding_def demo_intent_row_def demo_session_def)
qed

definition demo_binding_of_projection :: projection_binding where
  "demo_binding_of_projection = \<lparr>pb_projection = demo_projection,
     pb_selected = demo_candidate ''10'', pb_seller = demo_seller, pb_acceptedIndex = 0,
     pb_challengeHash = demo_hash\<rparr>"

lemma demo_projection_loads:
  "validateProjectionBinding demo_host (demo_intent_row st) demo_decision
     \<lparr>lp_id = ''v1'', lp_hash = demo_hash, lp_policy = demo_policy\<rparr>
     = Inr demo_binding_of_projection"
proof -
  note ok = validatePaymentRequired_ok [OF demo_payment_valid(1)]
  have can: "js_canonical (projection_js demo_projection)"
    using ok by (auto simp: demo_projection_def projection_js_def challengeProjection_def
        payment_ok_def list_all_iff js_canonical_candidate)
  have wf: "js_wf (projection_js demo_projection)"
    by (auto simp: projection_js_def candidate_js_def list_all_iff split: option.split)
  have val: "validateChallengeProjection (js_normal (projection_js demo_projection))
      = Inr demo_projection"
    unfolding demo_projection_def using ok demo_sha_ok
    by (intro projection_stored) (simp_all add: sha_ok_def)
  have quote: "quoteIdOf demo_host demo_hash 0 = Inr demo_hash"
    using stored_text [of "JObj [(''challengeHash'', JStr demo_hash), (''acceptedIndex'', JNum 0)]"]
    by (simp add: quoteIdOf_def MAX_SAFE_INTEGER_def)
  have seller: "find (\<lambda>s. s_origin s = ''https://s.io'') (p_sellers demo_policy) = Some demo_seller"
    by (simp add: demo_policy_def demo_seller_def)
  have bound: "selectionBound (demo_intent_row st) demo_decision demo_policy demo_projection
      (demo_candidate ''10'') demo_seller"
    by (simp add: selectionBound_def p_network_def demo_projection_def challengeProjection_def demo_payment_def
        demo_candidate_def demo_policy_def demo_seller_def demo_decision_def demo_intent_row_def
        starts_with_iff)
  have accepts: "pj_accepts demo_projection = [demo_candidate ''10'']"
    by (simp add: demo_projection_def challengeProjection_def demo_payment_def)
  show ?thesis
    by (simp add: validateProjectionBinding_def demo_decision_def option_js_def safeInteger_def
        MAX_SAFE_INTEGER_def quote accepts demo_intent_row_def stored_parse [OF can wf] val
        stored_text [OF can] Let_def seller demo_binding_of_projection_def
        bound [unfolded demo_intent_row_def demo_decision_def])
qed

definition demo_au :: "string \<Rightarrow> authority" where
  "demo_au st = \<lparr>au_intent = demo_intent_row st, au_session = demo_session,
     au_decision = demo_decision,
     au_version = \<lparr>lp_id = ''v1'', lp_hash = demo_hash, lp_policy = demo_policy\<rparr>,
     au_projection = demo_binding_of_projection, au_enrollment = demo_enrollment,
     au_amount = ''10''\<rparr>"

lemma demo_limits:
  "authorityLimits False at demo_decision demo_policy demo_seller 10 t0 t0 = Inr ()"
  "authorityLimits True t1 demo_decision demo_policy demo_seller 10 t0 t0 = Inr ()"
proof -
  have "text_int (s_autoApproveAtomic demo_seller) = 10" "p_challengeMaxAgeMs demo_policy = 1000"
    by code_simp+
  then show "authorityLimits False at demo_decision demo_policy demo_seller 10 t0 t0 = Inr ()"
    "authorityLimits True t1 demo_decision demo_policy demo_seller 10 t0 t0 = Inr ()"
    by (simp_all add: authorityLimits_def demo_decision_def demo_times Let_def)
qed

lemma demo_authority_loads:
  "loadReservationAuthority demo_host (demo_ledger st brs ats es) ''i1'' False at = Inr (demo_au st)"
  "loadReservationAuthority demo_host (demo_ledger ''authorized'' brs ats es) ''i1'' True t1
     = Inr (demo_au ''authorized'')"
proof -
  have rows: "si_id (demo_intent_row st) = ''i1''" "ss_id demo_session = ''s1''"
    "si_session_id (demo_intent_row st) = ''s1''" "pd_intent_id demo_decision = ''i1''"
    "pd_policy_version_id demo_decision = ''v1''" for st
    by (simp_all add: demo_intent_row_def demo_session_def demo_decision_def)
  have seller: "pb_seller demo_binding_of_projection = demo_seller"
    by (simp add: demo_binding_of_projection_def)
  have wallet: "p_wallet demo_policy = demo_address" by (simp add: demo_policy_def)
  have dec: "authorityDecision (demo_ledger st brs ats es) False (demo_intent_row st) demo_session
      demo_decision \<lparr>lp_id = ''v1'', lp_hash = demo_hash, lp_policy = demo_policy\<rparr> ''10'' = Inr ()"
    for st
    by (simp add: authorityDecision_def wallet)
      (simp add: demo_decision_def demo_session_def demo_intent_row_def)
  have dec': "authorityDecision (demo_ledger ''authorized'' brs ats es) True
      (demo_intent_row ''authorized'') demo_session
      demo_decision \<lparr>lp_id = ''v1'', lp_hash = demo_hash, lp_policy = demo_policy\<rparr> ''10'' = Inr ()"
    by (simp add: authorityDecision_def wallet)
      (simp add: demo_decision_def demo_session_def demo_intent_row_def demo_scalars)
  have ap: "validateConsumedApproval (demo_ledger ''authorized'' brs ats es)
      (demo_au ''authorized'') t1 = Inr None"
    by (simp add: validateConsumedApproval_def demo_au_def demo_decision_def)
  show "loadReservationAuthority demo_host (demo_ledger st brs ats es) ''i1'' False at
      = Inr (demo_au st)"
    by (simp add: loadReservationAuthority_def demo_scalars rows demo_version_loads
        demo_fields_load dec demo_enrollment_loads demo_projection_loads seller demo_limits Let_def
        demo_au_def)
  show "loadReservationAuthority demo_host (demo_ledger ''authorized'' brs ats es) ''i1'' True t1
      = Inr (demo_au ''authorized'')"
    using ap
    by (simp add: loadReservationAuthority_def demo_scalars rows demo_version_loads
        demo_fields_load dec' demo_enrollment_loads demo_projection_loads seller demo_limits Let_def
        demo_au_def)
qed

section \<open>Events and rows\<close>

definition demo_event ::
  "string \<Rightarrow> (string \<times> jsval) list \<Rightarrow> string option \<Rightarrow> string \<Rightarrow> event_row" where
  "demo_event ty d prev hsh = \<lparr>ev_entity_type = ''budget_reservation'', ev_entity_id = ''i1'',
     ev_event_type = ty, ev_data_json = stored (JObj d), ev_previous_hash = prev,
     ev_event_hash = hsh, ev_created_at = t1\<rparr>"

lemma demo_event_sel [simp]:
  "ev_entity_type (demo_event ty d prev hsh) = ''budget_reservation''"
  "ev_entity_id (demo_event ty d prev hsh) = ''i1''" "ev_event_type (demo_event ty d prev hsh) = ty"
  "ev_data_json (demo_event ty d prev hsh) = stored (JObj d)"
  "ev_event_hash (demo_event ty d prev hsh) = hsh"
  by (simp_all add: demo_event_def)

definition reserve_data :: "(string \<times> jsval) list" where
  "reserve_data = [(''sessionId'', JStr ''s1''), (''sellerOrigin'', JStr ''https://s.io''),
     (''amountAtomic'', JStr ''10''), (''previousState'', JNull), (''nextState'', JStr ''reserved''),
     (''updatedAt'', JStr t1)]"

definition hold_data :: "(string \<times> jsval) list" where
  "hold_data = [(''amountAtomic'', JStr ''10''), (''reasonCode'', JStr ''TIMEOUT''),
     (''previousState'', JStr ''reserved''), (''nextState'', JStr ''unresolved''),
     (''heldAt'', JStr t1)]"

lemma event_text:
  assumes "js_canonical (JObj d)" and "js_wf (JObj d)"
  shows "parseCanonicalJson (stored (JObj d)) code = Inr (JObj (normal_entries d))"
    and "canonicalJson (JObj d) = Inr (stored (JObj d))"
    and "cloneDataGraph code (JObj d) = Inr (JObj d)"
    and "get_prop (normal_entries d) k = js_normal (get_prop d k)"
    and "set (map fst d) = set ks \<Longrightarrow>
      exactObject (JObj (normal_entries d)) ks [] code = Inr (normal_entries d)"
  using assms stored_parse [OF assms] stored_text [OF assms(1)] get_prop_normal_entries [of d k]
    cloneDataGraph_canonical [OF assms(1)]
    exactRecord_normal [OF assms(1), of ks "[]" code]
  by (auto simp: js_normal_JObj exactObject_def list_all_iff has_own_def
      simp del: js_normal.simps cloneDataGraph.simps)

lemma demo_data_ok:
  "js_canonical (JObj reserve_data)" "js_wf (JObj reserve_data)"
  "js_canonical (JObj hold_data)" "js_wf (JObj hold_data)"
  by (simp_all add: reserve_data_def hold_data_def)

lemmas reserve_text = event_text [OF demo_data_ok(1,2)]
lemmas hold_text = event_text [OF demo_data_ok(3,4)]

lemma demo_objects:
  "exactObject (JObj (normal_entries reserve_data)) [''sessionId'', ''sellerOrigin'',
     ''amountAtomic'', ''previousState'', ''nextState'', ''updatedAt''] [] code
     = Inr (normal_entries reserve_data)"
  "exactObject (JObj (normal_entries hold_data)) [''amountAtomic'', ''reasonCode'',
     ''previousState'', ''nextState'', ''heldAt''] [] code = Inr (normal_entries hold_data)"
  by (rule reserve_text(5) hold_text(5), simp add: reserve_data_def hold_data_def)+

lemma demo_props:
  "get_prop (normal_entries reserve_data) ''sessionId'' = JStr ''s1''"
  "get_prop (normal_entries reserve_data) ''sellerOrigin'' = JStr ''https://s.io''"
  "get_prop (normal_entries reserve_data) ''amountAtomic'' = JStr ''10''"
  "get_prop (normal_entries reserve_data) ''previousState'' = JNull"
  "get_prop (normal_entries reserve_data) ''nextState'' = JStr ''reserved''"
  "get_prop (normal_entries reserve_data) ''updatedAt'' = JStr t1"
  "get_prop (normal_entries hold_data) ''amountAtomic'' = JStr ''10''"
  "get_prop (normal_entries hold_data) ''reasonCode'' = JStr ''TIMEOUT''"
  "get_prop (normal_entries hold_data) ''previousState'' = JStr ''reserved''"
  "get_prop (normal_entries hold_data) ''nextState'' = JStr ''unresolved''"
  "get_prop (normal_entries hold_data) ''heldAt'' = JStr t1"
  unfolding reserve_text(4) hold_text(4) by (simp_all add: reserve_data_def hold_data_def)

definition demo_reserved :: budget_row where
  "demo_reserved = newReservation (demo_au ''authorized'') ''i1'' ''10'' t1"

definition demo_budget :: "string \<Rightarrow> string \<Rightarrow> string \<Rightarrow> string \<Rightarrow> string \<Rightarrow> budget" where
  "demo_budget st res com rel unr = \<lparr>bu_intentId = ''i1'', bu_sessionId = ''s1'',
     bu_sellerOrigin = ''https://s.io'', bu_walletAddress = demo_address, bu_reserved = res,
     bu_committed = com, bu_released = rel, bu_unresolved = unr, bu_ceiling = ''10'',
     bu_state = st, bu_committedAt = None, bu_updatedAt = t1\<rparr>"

lemma demo_budget_sel [simp]:
  "bu_intentId (demo_budget st res com rel unr) = ''i1''"
  "bu_sessionId (demo_budget st res com rel unr) = ''s1''"
  "bu_sellerOrigin (demo_budget st res com rel unr) = ''https://s.io''"
  "bu_walletAddress (demo_budget st res com rel unr) = demo_address"
  "bu_reserved (demo_budget st res com rel unr) = res"
  "bu_committed (demo_budget st res com rel unr) = com"
  "bu_released (demo_budget st res com rel unr) = rel"
  "bu_unresolved (demo_budget st res com rel unr) = unr"
  "bu_ceiling (demo_budget st res com rel unr) = ''10''"
  "bu_state (demo_budget st res com rel unr) = st"
  "bu_committedAt (demo_budget st res com rel unr) = None"
  "bu_updatedAt (demo_budget st res com rel unr) = t1"
  by (simp_all add: demo_budget_def)

lemma demo_row_validates:
  "validateBudgetRow demo_host (joinBudget (demo_ledger st brs ats es) demo_reserved)
     = Inr (demo_budget ''reserved'' ''10'' ''0'' ''0'' ''0'')"
  "validateBudgetRow demo_host (joinBudget (demo_ledger st brs ats es)
       (toUnresolved ''10'' t1 demo_reserved))
     = Inr (demo_budget ''unresolved'' ''0'' ''0'' ''0'' ''10'')"
proof -
  have rows: "si_id (demo_intent_row st) = ''i1''" "ss_id demo_session = ''s1''"
    "si_session_id (demo_intent_row st) = ''s1''" "pd_intent_id demo_decision = ''i1''"
    "pd_amount_ceiling_atomic demo_decision = ''10''" "ss_wallet_address demo_session = demo_address"
    "si_wallet_address (demo_intent_row st) = demo_address"
    "si_seller_origin (demo_intent_row st) = ''https://s.io''" for st
    by (simp_all add: demo_intent_row_def demo_session_def demo_decision_def)
  have row: "demo_reserved = \<lparr>br_intent_id = ''i1'', br_session_id = ''s1'',
      br_seller_origin = ''https://s.io'', br_reserved_atomic = ''10'', br_committed_atomic = ''0'',
      br_released_atomic = ''0'', br_unresolved_atomic = ''0'', br_state = ''reserved'',
      br_committed_at = None, br_updated_at = t1\<rparr>"
    by (simp add: demo_reserved_def newReservation_def demo_au_def rows)
  note defs = validateBudgetRow_def joinBudget_def row rows demo_scalars demo_amounts demo_timestamps
    optionalTimestamp_def dispositions_def ledgerAddress_def demo_budget_def Let_def option_string_def
  show "validateBudgetRow demo_host (joinBudget (demo_ledger st brs ats es) demo_reserved)
     = Inr (demo_budget ''reserved'' ''10'' ''0'' ''0'' ''0'')"
    by (simp add: defs)
  show "validateBudgetRow demo_host (joinBudget (demo_ledger st brs ats es)
       (toUnresolved ''10'' t1 demo_reserved))
     = Inr (demo_budget ''unresolved'' ''0'' ''0'' ''0'' ''10'')"
    by (simp add: defs toUnresolved_def)
qed

lemma demo_historical:
  "validateHistoricalBudgetAuthority demo_host (demo_ledger st brs ats es) (demo_budget s a b c d)
     = Inr (demo_au st)"
  by (simp add: validateHistoricalBudgetAuthority_def demo_authority_loads)
    (simp add: demo_au_def demo_intent_row_def demo_session_def demo_policy_def)

lemma demo_reserve_event:
  "validateReserveEvent demo_host (demo_budget s a b c d) (JObj (normal_entries reserve_data)) = Inr t1"
  by (simp add: validateReserveEvent_def demo_objects demo_props demo_scalars
      demo_amounts demo_timestamps)

lemma demo_hold_event:
  "validateHoldEvent (demo_budget s a b c d) (JObj (normal_entries hold_data))
     = Inr (Some (normal_entries hold_data))"
proof -
  have "upper_code_pattern ''TIMEOUT''" by code_simp
  then have "stableReason (JStr ''TIMEOUT'') = Inr ()" by (simp add: stableReason_def text_matches_def)
  then show ?thesis
    by (simp add: validateHoldEvent_def demo_objects demo_props demo_amounts
        demo_timestamps)
qed

text \<open>The history of a reservation with the given events and no execution case.\<close>

lemma demo_no_case:
  "validateResolutionAndRefundHistory demo_host (demo_ledger st brs ats es) (demo_budget s a b c d) None
     = Inr ()"
  by (simp add: validateResolutionAndRefundHistory_def caseConsistent_def withoutRefundEvent_def
      state_in_def refunds_in_def Let_def)

lemma demo_reserved_reads:
  assumes "reservedHistory demo_host (demo_ledger st [demo_reserved] ats [demo_event ''budget.reserved'' reserve_data p hsh])
     (demo_budget ''reserved'' ''10'' ''0'' ''0'' ''0'') (demo_au st)
     \<lparr>hi_reserveAt = t1, hi_commit = None, hi_release = None, hi_hold = None, hi_resolution = None,
      hi_refund = None\<rparr> = Inr ()"
  shows "readValidated demo_host (demo_ledger st [demo_reserved] ats
      [demo_event ''budget.reserved'' reserve_data p hsh]) demo_reserved
    = Inr (demo_budget ''reserved'' ''10'' ''0'' ''0'' ''0'')"
  using assms
  by (simp add: readValidated_def demo_row_validates demo_historical validateBudgetHistory_def
      loadBudgetHistory_def loadBudgetEvent_def reserve_text(1) demo_reserve_event Let_def
      validateCommitEvent_def validateReleaseEvent_def validateHoldEvent_def
      validateResolutionEvent_def validateRefundEvent_def stateHistory_def demo_no_case)

section \<open>Reading the ledger\<close>

lemma single_row:
  assumes "db_budgets db = [r]" and "validateBudgetEventCompleteness db = Inr ()"
    and "readValidated h db r = Inr b"
  shows "validatedBudgetRows h db (\<lambda>_. True) = Inr [b]"
    and "br_intent_id r = i \<Longrightarrow> readBudgetRow h db i = Inr (Some b)"
  using assms by (simp_all add: validatedBudgetRows_def readBudgetRow_def)

abbreviation reserved_event :: "string \<Rightarrow> event_row" where
  "reserved_event hsh \<equiv> demo_event ''budget.reserved'' reserve_data None hsh"

abbreviation held_event :: event_row where
  "held_event \<equiv> demo_event ''budget.held_unresolved'' hold_data (Some ''h0'') demo_hash"

lemma demo_completeness:
  "validateBudgetEventCompleteness (demo_ledger st [] ats []) = Inr ()"
  "br_intent_id r = ''i1'' \<Longrightarrow>
   validateBudgetEventCompleteness (demo_ledger st [r] ats [reserved_event hsh]) = Inr ()"
  "br_intent_id r = ''i1'' \<Longrightarrow>
   validateBudgetEventCompleteness (demo_ledger st [r] ats [reserved_event hsh, held_event]) = Inr ()"
  by (simp_all add: validateBudgetEventCompleteness_def budget_events_def count_events_def
      demo_scalars BUDGET_EVENT_TYPES_def)

lemma demo_reserved_id [simp]: "br_intent_id demo_reserved = ''i1''"
  by (simp add: demo_reserved_def newReservation_def)

lemma demo_reserved_read:
  "readValidated demo_host (demo_ledger st [demo_reserved] [] [reserved_event hsh]) demo_reserved
     = Inr (demo_budget ''reserved'' ''10'' ''0'' ''0'' ''0'')"
  by (rule demo_reserved_reads) (simp add: reservedHistory_def)

lemma demo_held_read:
  "readValidated demo_host
     (demo_ledger st [toUnresolved ''10'' t1 demo_reserved] [] [reserved_event hsh, held_event])
     (toUnresolved ''10'' t1 demo_reserved)
     = Inr (demo_budget ''unresolved'' ''0'' ''0'' ''0'' ''10'')"
  by (simp add: readValidated_def demo_row_validates demo_historical validateBudgetHistory_def
      loadBudgetHistory_def loadBudgetEvent_def reserve_text(1) hold_text(1) demo_reserve_event
      demo_hold_event Let_def validateCommitEvent_def validateReleaseEvent_def
      validateResolutionEvent_def validateRefundEvent_def stateHistory_def demo_no_case
      unresolvedHistory_def event_field_def demo_props)

definition demo_snapshot :: "db \<Rightarrow> budget list \<Rightarrow> ledger_snapshot" where
  "demo_snapshot db rows = snapshotRows db ''s1'' ''https://s.io'' t1 demo_address rows"

lemma demo_snapshots:
  assumes "validatedBudgetRows demo_host (demo_ledger st brs ats es) (\<lambda>_. True) = Inr rows"
    and "list_all (\<lambda>r. bu_walletAddress r = demo_address) rows"
  shows "snapshotImpl demo_host (demo_ledger st brs ats es) ''s1'' ''https://s.io'' t1
     = Inr (demo_snapshot (demo_ledger st brs ats es) rows)"
proof -
  have "ss_id demo_session = ''s1''" "ss_wallet_address demo_session = demo_address"
    by (simp_all add: demo_session_def)
  moreover have "filter (\<lambda>r. bu_walletAddress r = demo_address) rows = rows"
    using assms(2) by (simp add: list_all_iff)
  ultimately show ?thesis
    using assms(1) by (simp add: snapshotImpl_def ledgerAddress_def demo_scalars demo_snapshot_def)
qed

section \<open>Operations\<close>

definition demo_clock :: clock where
  "demo_clock = \<lparr>ck_ledger = t1, ck_store = t1\<rparr>"

lemma demo_append:
  assumes "js_canonical (JObj d)" and "js_wf (JObj d)" and "demo_hash \<notin> ev_event_hash ` set es"
    and "canonicalToken (JStr ty) = Inr ty" and "prev = last_hash es"
  shows "appendEvent demo_host t1 (budgetEvent ''i1'' ty d) (demo_ledger st brs ats es)
     = Inr (demo_ledger st brs ats (es @ [demo_event ty d prev demo_hash]), demo_hash)"
proof -
  have "js_canonical (JObj [(''entityType'', JStr ''budget_reservation''), (''entityId'', JStr ''i1''),
      (''eventType'', JStr ty), (''data'', JObj d), (''previousHash'', option_string prev),
      (''createdAt'', JStr t1)])"
    using assms(1) by (simp add: option_string_def split: option.split)
  from stored_text [OF this]
  have "eventHash demo_host ''budget_reservation'' ''i1'' ty (JObj d) prev t1 = Inr demo_hash"
    by (simp add: eventHash_def)
  moreover have "canonicalToken (JStr ''budget_reservation'') = Inr ''budget_reservation''"
    by code_simp
  ultimately show ?thesis
    using assms event_text(2,3) [OF assms(1,2)]
    by (simp add: appendEvent_def demo_scalars demo_timestamps Let_def demo_event_def
        del: cloneDataGraph.simps)
qed

definition demo_reserve_input :: jsval where
  "demo_reserve_input = JObj [(''intentId'', JStr ''i1''), (''amountAtomic'', JStr ''10'')]"

lemma demo_reserve_prepared: "prepareReserve demo_reserve_input = Inr (''i1'', ''10'')"
  by code_simp

definition demo_start :: db where
  "demo_start = demo_ledger ''authorized'' [] [] []"

lemma demo_au_sel [simp]:
  "au_amount (demo_au st) = ''10''" "ss_id (au_session (demo_au st)) = ''s1''"
  "si_seller_origin (au_intent (demo_au st)) = ''https://s.io''"
  "si_id (au_intent (demo_au st)) = ''i1''" "si_state (au_intent (demo_au st)) = st"
  "pb_seller (au_projection (demo_au st)) = demo_seller"
  "lp_policy (au_version (demo_au st)) = demo_policy"
  by (simp_all add: demo_au_def demo_session_def demo_intent_row_def demo_binding_of_projection_def)

lemma demo_reserve_guards:
  "reserveGuards demo_host demo_clock demo_start ''i1'' ''10'' = Inr (t1, demo_au ''authorized'')"
proof -
  have rows: "validatedBudgetRows demo_host demo_start P = Inr []" for P
    by (simp add: demo_start_def validatedBudgetRows_def demo_completeness)
  have snap: "snapshotImpl demo_host demo_start ''s1'' ''https://s.io'' t1
      = Inr (demo_snapshot demo_start [])"
    using rows unfolding demo_start_def by (intro demo_snapshots) simp_all
  have "text_int (s_sellerSessionMaxAtomic demo_seller) = 50"
      "text_int (p_sessionMaxAtomic demo_policy) = 60"
      "text_int (p_rolling24hMaxAtomic demo_policy) = 70"
    by code_simp+
  moreover have "sn_blockers (demo_snapshot demo_start [])
      = \<lparr>bl_unresolvedBudget = False, bl_resolutionRequired = False\<rparr>"
      "sn_sellerSessionExposure (demo_snapshot demo_start []) = 0"
      "sn_sessionExposure (demo_snapshot demo_start []) = 0"
      "sn_rolling24hExposure (demo_snapshot demo_start []) = 0"
    by (simp_all add: demo_snapshot_def snapshotRows_def walletBlockers_def demo_start_def
        sumOf_def Let_def)
  moreover have "readBudgetRow demo_host demo_start ''i1'' = Inr None"
    by (simp add: readBudgetRow_def rows)
  ultimately show ?thesis
    using snap demo_authority_loads(2) [of "[]" "[]" "[]"]
    by (simp add: reserveGuards_def demo_clock_def demo_timestamps demo_start_def [symmetric]
        Let_def demo_scalars)
qed

lemma demo_reserve:
  "reserve demo_host demo_clock demo_reserve_input demo_start
     = (demo_ledger ''authorized'' [demo_reserved] [] [reserved_event demo_hash],
        Inr (demo_budget ''reserved'' ''10'' ''0'' ''0'' ''0''))"
proof -
  let ?db = "demo_ledger ''authorized'' [demo_reserved] [] [reserved_event demo_hash]"
  have "canonicalToken (JStr ''budget.reserved'') = Inr ''budget.reserved''" by code_simp
  from demo_append [OF demo_data_ok(1,2) _ this, of "[]"]
  have w: "reserveWrite demo_host demo_clock demo_start ''i1'' ''10'' t1 (demo_au ''authorized'')
      = Inr ?db"
    by (simp add: reserveWrite_def demo_start_def demo_reserved_def [symmetric] demo_clock_def
        reserve_data_def [symmetric] last_hash_def)
  note row = single_row [of ?db, OF _ demo_completeness(2) demo_reserved_read]
  have "snapshotImpl demo_host ?db ''s1'' ''https://s.io'' t1
      = Inr (demo_snapshot ?db [demo_budget ''reserved'' ''10'' ''0'' ''0'' ''0''])"
    by (rule demo_snapshots [OF row(1)]) simp_all
  then show ?thesis
    using w row(2)
    by (simp add: reserve_def demo_reserve_prepared transaction_def reserveImpl_def
        demo_reserve_guards)
qed

definition demo_hold_input :: jsval where
  "demo_hold_input = JObj [(''intentId'', JStr ''i1''), (''reasonCode'', JStr ''TIMEOUT'')]"

lemma demo_hold_prepared:
  "prepareReasonTransition False demo_hold_input
     = Inr \<lparr>rt_intentId = ''i1'', rt_reasonCode = ''TIMEOUT'', rt_preSign = None\<rparr>"
  by code_simp

definition demo_open :: db where
  "demo_open = demo_ledger ''authorized'' [demo_reserved] [] [reserved_event ''h0'']"

definition demo_held :: db where
  "demo_held = demo_ledger ''authorized'' [toUnresolved ''10'' t1 demo_reserved] []
     [reserved_event ''h0'', held_event]"

lemma demo_reserved_at: "budgetAt ''i1'' ''reserved'' ''10'' demo_reserved"
  by (simp add: budgetAt_def demo_reserved_def newReservation_def)

lemma demo_held_rows:
  "validatedBudgetRows demo_host demo_held (\<lambda>_. True)
     = Inr [demo_budget ''unresolved'' ''0'' ''0'' ''0'' ''10'']"
  "readBudgetRow demo_host demo_held ''i1''
     = Inr (Some (demo_budget ''unresolved'' ''0'' ''0'' ''0'' ''10''))"
  "snapshotImpl demo_host demo_held ''s1'' ''https://s.io'' t1
     = Inr (demo_snapshot demo_held [demo_budget ''unresolved'' ''0'' ''0'' ''0'' ''10''])"
proof -
  have id: "br_intent_id (toUnresolved ''10'' t1 demo_reserved) = ''i1''"
    by (simp add: toUnresolved_def)
  note row = single_row [of demo_held, unfolded demo_held_def, OF _ demo_completeness(3) [OF id]
      demo_held_read]
  from row(1) show rows: "validatedBudgetRows demo_host demo_held (\<lambda>_. True)
     = Inr [demo_budget ''unresolved'' ''0'' ''0'' ''0'' ''10'']" by (simp add: demo_held_def)
  from row(2) [OF _ id] show "readBudgetRow demo_host demo_held ''i1''
     = Inr (Some (demo_budget ''unresolved'' ''0'' ''0'' ''0'' ''10''))" by (simp add: demo_held_def)
  from rows show "snapshotImpl demo_host demo_held ''s1'' ''https://s.io'' t1
     = Inr (demo_snapshot demo_held [demo_budget ''unresolved'' ''0'' ''0'' ''0'' ''10''])"
    unfolding demo_held_def by (rule demo_snapshots) simp
qed

lemma demo_hold:
  "holdUnresolved demo_host demo_clock demo_hold_input demo_open
     = (demo_held, Inr (demo_budget ''unresolved'' ''0'' ''0'' ''0'' ''10''))"
proof -
  let ?p = "\<lparr>rt_intentId = ''i1'', rt_reasonCode = ''TIMEOUT'', rt_preSign = None\<rparr>"
  let ?b = "demo_budget ''unresolved'' ''0'' ''0'' ''0'' ''10''"
  have open_row: "readBudgetRow demo_host demo_open ''i1''
      = Inr (Some (demo_budget ''reserved'' ''10'' ''0'' ''0'' ''0''))"
    unfolding demo_open_def
    by (rule single_row(2) [OF _ demo_completeness(2) demo_reserved_read]) simp_all
  have move: "moveBudget ''i1'' ''reserved'' ''10'' (toUnresolved ''10'' t1) demo_open
      = Inr (demo_ledger ''authorized'' [toUnresolved ''10'' t1 demo_reserved] [] [reserved_event ''h0''])"
    by (simp add: moveBudget_def update_one_def update_rows_def demo_open_def demo_reserved_at)
  have "canonicalToken (JStr ''budget.held_unresolved'') = Inr ''budget.held_unresolved''"
    by code_simp
  from demo_append [OF demo_data_ok(3,4) _ this, of "[reserved_event ''h0'']"]
  have w: "holdWrite demo_host demo_clock demo_open ?p (demo_au ''authorized'') t1 = Inr demo_held"
    by (simp add: holdWrite_def move demo_clock_def hold_data_def [symmetric] demo_scalars
        last_hash_def demo_held_def)
  have blocked: "bl_unresolvedBudget (sn_blockers (demo_snapshot demo_held [?b]))"
    by (simp add: demo_snapshot_def snapshotRows_def walletBlockers_def Let_def)
  have "loadReservationAuthority demo_host demo_open ''i1'' False [] = Inr (demo_au ''authorized'')"
    unfolding demo_open_def by (rule demo_authority_loads(1))
  then show ?thesis
    using w
    by (simp add: holdUnresolved_def demo_hold_prepared transaction_def holdUnresolvedImpl_def
        requireReservation_def open_row demo_clock_def demo_timestamps
        movedBudget_def demo_held_rows walletAfter_def blocked)
qed

end
