(* ===== verification/LedgerHeld.thy ===== *)
theory LedgerHeld
  imports LedgerReserve
begin

text \<open>
  A reservation held as unresolved. Only \<^verbatim>\<open>resolvePayment\<close> for its intent moves it on; whatever else
  happens to the database, the row stays as it is and blocks its wallet.
\<close>

section \<open>What keeps a held row\<close>

definition held_row :: "string \<Rightarrow> budget_row \<Rightarrow> db \<Rightarrow> bool" where
  "held_row n r db \<longleftrightarrow> r \<in> set (db_budgets db) \<and> br_intent_id r = n \<and> br_state r = ''unresolved''"

lemma held_row_update [simp]:
  "held_row n r (db\<lparr>db_attempts := ats\<rparr>) \<longleftrightarrow> held_row n r db"
  "held_row n r (db\<lparr>db_refunds := rs, db_resolutions := es\<rparr>) \<longleftrightarrow> held_row n r db"
  by (simp_all add: held_row_def)

lemma moveBudget_held:
  "moveBudget i st a f db = Inr db' \<Longrightarrow> st \<noteq> ''unresolved'' \<Longrightarrow> held_row n r db \<Longrightarrow> held_row n r db'"
  by (auto simp: moveBudget_def held_row_def budgetAt_def elim!: update_one_Inr)

lemma appendEvent_held: "appendEvent h now e db = Inr (db', x) \<Longrightarrow> held_row n r db' \<longleftrightarrow> held_row n r db"
  by (auto simp: appendEvent_def held_row_def Let_def split: jsval.splits)

lemma side_rows_held: "side_rows db db' \<Longrightarrow> held_row n r db' \<longleftrightarrow> held_row n r db"
  by (simp add: side_rows_def held_row_def)

lemma budgets_step_held:
  "budgets_step i (db_budgets db) (db_budgets db') \<Longrightarrow> i \<noteq> n \<Longrightarrow> held_row n r db \<Longrightarrow> held_row n r db'"
  by (auto simp: held_row_def elim!: budgets_stepE)

lemma reserveWrite_held:
  "reserveWrite h ck db i a t au = Inr db' \<Longrightarrow> held_row n r db \<Longrightarrow> held_row n r db'"
  using reserveWrite_budgets by (fastforce simp: held_row_def)

lemma commitWrite_held:
  "commitWrite h ck db i e ej au t = Inr db' \<Longrightarrow> held_row n r db \<Longrightarrow> held_row n r db'"
  by (auto simp: commitWrite_def appendEvent_held
      dest!: moveBudget_held [where n = n and r = r])

lemma releaseWrite_held:
  "releaseWrite h ck db p au t = Inr db' \<Longrightarrow> held_row n r db \<Longrightarrow> held_row n r db'"
  by (auto simp: releaseWrite_def appendEvent_held dest!: moveBudget_held [where n = n and r = r])

lemma holdWrite_held:
  "holdWrite h ck db p au t = Inr db' \<Longrightarrow> held_row n r db \<Longrightarrow> held_row n r db'"
  by (auto simp: holdWrite_def appendEvent_held dest!: moveBudget_held [where n = n and r = r])

lemma refundRows_held:
  "refundRows db p au ej a rf t = Inr db' \<Longrightarrow> held_row n r db \<Longrightarrow> held_row n r db'"
  by (auto simp: refundRows_def dest!: moveBudget_held [where n = n and r = r])

lemma refundWrite_held:
  "refundWrite h ck db p au ej a rf t = Inr db' \<Longrightarrow> held_row n r db \<Longrightarrow> held_row n r db'"
  by (auto simp: refundWrite_def appendEvent_held
      dest!: refundRows_held [where n = n and r = r] writeBuyerOutcome_side side_rows_held [where n = n and r = r])

section \<open>The contract of an operation that keeps it\<close>

locale held_op =
  fixes n :: string and step :: "db \<Rightarrow> (db \<times> budget) res"
  assumes keeps: "step db = Inr (db', row) \<Longrightarrow> held_row n r db \<Longrightarrow> held_row n r db'"
begin

lemma call_keeps: "held_row n r db \<Longrightarrow> held_row n r (fst (transaction step db))"
  by (auto simp: transaction_def dest: keeps split: sum.splits)

end

interpretation reserve_held: held_op n "\<lambda>db. reserveImpl h ck db i a" for n h ck i a
  by unfold_locales (elim reserveImpl_obtains, rule reserveWrite_held)

interpretation commit_held: held_op n "\<lambda>db. commitImpl h ck db i e" for n h ck i e
  by unfold_locales (elim commitImpl_obtains, simp, rule commitWrite_held)

interpretation release_held: held_op n "\<lambda>db. releaseImpl h ck exact db p" for n h ck exact p
proof
  fix db db' row r
  assume "releaseImpl h ck exact db p = Inr (db', row)" and held: "held_row n r db"
  then show "held_row n r db'"
  proof (cases rule: releaseImpl_obtains)
    case (first typed au t db1 s)
    then have "side_rows db db1"
      by (auto split: if_splits dest: releaseTypedAttempt_side releaseUnsignedAttempt_side)
    with held have "held_row n r db1" by (simp add: side_rows_held)
    with first(4) show ?thesis by (rule releaseWrite_held)
  qed simp
qed

interpretation hold_held: held_op n "\<lambda>db. holdUnresolvedImpl h ck db p" for n h ck p
  by unfold_locales (elim holdUnresolvedImpl_obtains, simp, rule holdWrite_held)

interpretation refund_held: held_op n "\<lambda>db. recordConfirmedRefundImpl h ck db p" for n h ck p
  by unfold_locales (elim recordConfirmedRefundImpl_obtains, simp, rule refundWrite_held)

lemma releaseTyped_held:
  "held_row n r db \<Longrightarrow> held_row n r (fst (transaction (releaseInTransaction h ck exact input) db))"
  by (auto simp: transaction_def releaseInTransaction_def dest: release_held.keeps split: sum.splits)

lemma resolvePaymentImpl_held:
  assumes "pr_intentId p \<noteq> n" and "held_row n r db"
  shows "held_row n r (fst (transaction (\<lambda>db. resolvePaymentImpl h ck db p) db))"
  using assms resolvePaymentImpl_effect [of h ck db p] budgets_step_held [of "pr_intentId p"]
  by (fastforce simp: transaction_def ledger_effect_def written_def split: sum.splits)

section \<open>Runs that do not resolve the payment\<close>

fun resolves :: "string \<Rightarrow> ledger_call \<Rightarrow> bool" where
  "resolves n (ResolvePayment input) =
     (case preparePaymentResolution input of Inl _ \<Rightarrow> False | Inr p \<Rightarrow> pr_intentId p = n)"
| "resolves n _ = False"

lemma ledger_run_held:
  assumes "\<not> resolves n c" and "held_row n r db"
  shows "held_row n r (fst (ledger_run h ck c db))"
  using assms
  by (cases c)
    (auto simp: reserve_def commit_def release_def holdUnresolved_def resolvePayment_def
      recordConfirmedRefund_def reserve_held.call_keeps commit_held.call_keeps release_held.call_keeps
      releaseTyped_held hold_held.call_keeps refund_held.call_keeps resolvePaymentImpl_held split: sum.splits)

text \<open>
  The ledger between a hold and its resolution: any calls but a \<^verbatim>\<open>resolvePayment\<close> for the intent, and
  any writes of other components, which write no reservation and change no session's wallet.
\<close>

definition session_wallet :: "db \<Rightarrow> string \<Rightarrow> string option" where
  "session_wallet db sid = map_option ss_wallet_address (select_one (\<lambda>s. ss_id s = sid) (db_sessions db))"

inductive held_reach :: "host \<Rightarrow> string \<Rightarrow> db \<Rightarrow> db \<Rightarrow> bool" for h n db0 where
  held_start: "held_reach h n db0 db0"
| held_call: "held_reach h n db0 db \<Longrightarrow> \<not> resolves n c \<Longrightarrow> held_reach h n db0 (fst (ledger_run h ck c db))"
| held_outside:
    "held_reach h n db0 db \<Longrightarrow> db_budgets db' = db_budgets db \<Longrightarrow>
     (\<And>sid w. session_wallet db sid = Some w \<Longrightarrow> session_wallet db' sid = Some w) \<Longrightarrow>
     held_reach h n db0 db'"

lemma held_reach_row: "held_reach h n db0 db \<Longrightarrow> held_row n r db0 \<Longrightarrow> held_row n r db"
proof (induction rule: held_reach.induct)
  case (held_call db c ck)
  then show ?case by (simp add: ledger_run_held)
qed (simp_all add: held_row_def)

lemma ledger_run_wallet: "session_wallet (fst (ledger_run h ck c db)) sid = session_wallet db sid"
  using ledger_run_effect [OF refl, of h ck c db]
  by (auto simp: ledger_effect_def written_def same_authority_def session_wallet_def)

lemma held_reach_wallet:
  "held_reach h n db0 db \<Longrightarrow> session_wallet db0 sid = Some w \<Longrightarrow> session_wallet db sid = Some w"
  by (induction rule: held_reach.induct) (simp_all add: ledger_run_wallet)

section \<open>The wallet of a held row\<close>

lemma holdUnresolved_held:
  assumes "holdUnresolved h ck input db = (db', Inr row)"
  obtains r where "held_row (bu_intentId row) r db'" and "br_session_id r = bu_sessionId row"
    and "session_wallet db' (bu_sessionId row) = Some (bu_walletAddress row)"
proof -
  from assms obtain p where "holdUnresolvedImpl h ck db p = Inr (db', row)"
    by (auto simp: holdUnresolved_def transaction_Inr split: sum.splits)
  then have held: "requireReservation h db' (rt_intentId p) = Inr row" "bu_state row = ''unresolved''"
    by (auto elim!: holdUnresolvedImpl_obtains simp: movedBudget_Inr requireReservation_def)
  then have "readBudgetRow h db' (rt_intentId p) = Inr (Some row)"
    by (auto simp: requireReservation_def split: option.splits)
  then obtain r where r: "filter (\<lambda>r. br_intent_id r = rt_intentId p) (db_budgets db') = [r]"
    and row: "row_read (joinBudget db' r) row"
    by (rule readBudgetRow_Some)
  have "r \<in> set (filter (\<lambda>r. br_intent_id r = rt_intentId p) (db_budgets db'))" using r by simp
  then have "r \<in> set (db_budgets db')" by simp
  with row held(2) that [of r] show thesis
    by (auto simp: held_row_def row_read_def joinBudget_def session_wallet_def)
qed

text \<open>A reservation is not made for the wallet of a held row.\<close>

lemma held_blocks_reserve:
  assumes "held_row n r db" and "session_wallet db (br_session_id r) = Some w"
    and "reserve h ck input db = (db', Inr b)"
  shows "bu_walletAddress b \<noteq> w"
proof
  assume w: "bu_walletAddress b = w"
  from assms(3) obtain i a t au where "reserveGuards h ck db i a = Inr (t, au)"
    by (rule reserve_obtains)
  then obtain cur where "snapshotImpl h db (ss_id (au_session au)) (si_seller_origin (au_intent au)) t = Inr cur"
    by (rule reserveGuards_obtains)
  then have "ledger_valid h db" by (auto simp: snapshotImpl_def ledger_valid_def split: option.splits)
  with assms(1) have "row_read (joinBudget db r) (budget_of h db r)"
    by (auto simp: held_row_def intro: ledger_valid_row(2))
  with assms(2) w have "bu_walletAddress (budget_of h db r) = bu_walletAddress b"
    by (auto simp: row_read_def joinBudget_def session_wallet_def)
  with assms(1) have "r \<in> set (wallet_rows h db (bu_walletAddress b))"
    by (simp add: wallet_rows_def held_row_def)
  with reserve_clear_wallet(1) [OF assms(3)] assms(1) show False by (simp add: held_row_def)
qed

text \<open>The wallet a reservation is made for is its session's.\<close>

lemma reserve_wallet:
  assumes "reserve h ck input db = (db', Inr b)" and "prepareReserve input = Inr (i, a)"
    and "loadReservationAuthority h db i True (ck_ledger ck) = Inr au"
  shows "bu_walletAddress b = ss_wallet_address (au_session au)"
proof -
  from assms(1) obtain i2 a2 t au2 where p: "prepareReserve input = Inr (i2, a2)"
    and g: "reserveGuards h ck db i2 a2 = Inr (t, au2)"
    and w: "reserveWrite h ck db i2 a2 t au2 = Inr db'" and rd: "readBudgetRow h db' i2 = Inr (Some b)"
    by (rule reserve_obtains)
  from g p assms(2,3) have au2: "au2 = au" by (auto elim: reserveGuards_obtains)
  from reserve_row(2) [OF w rd] reserveWrite_written [OF w]
  have "Some (bu_walletAddress b) = map_option ss_wallet_address
      (select_one (\<lambda>s. ss_id s = ss_id (au_session au)) (db_sessions db))"
    by (auto simp: row_read_def joinBudget_def newReservation_def au2 written_def same_authority_def)
  moreover have "select_one (\<lambda>s. ss_id s = ss_id (au_session au)) (db_sessions db) = Some (au_session au)"
    using authority_ids(3) [OF assms(3)] assms(3) by (auto elim: loadReservationAuthority_obtains)
  ultimately show ?thesis by simp
qed

end
