(* ===== verification/LedgerProperties.thy ===== *)
theory LedgerProperties
  imports LedgerDemo LedgerHeld
begin

text \<open>
  The properties of the budget ledger, with witnesses on the concrete ledger of \<^verbatim>\<open>LedgerDemo\<close>.
\<close>

section \<open>Every call\<close>

text \<open>C3: every call of the ledger refines the life cycle of a reservation. A call that throws leaves
  the database as it was; a call that returns either wrote nothing or took exactly one step of the
  abstract life cycle on one intent's reservation, appended exactly one chained event for that
  intent, left the tables of spend authority alone and found the whole ledger valid afterwards.\<close>

theorem ledger_call_refines:
  "case ledger_run h ck c db of
     (db', Inl e) \<Rightarrow> db' = db
   | (db', Inr row) \<Rightarrow>
       db' = db
       \<or> (\<exists>i. budgets_step i (db_budgets db) (db_budgets db') \<and> appended h i db db'
            \<and> same_authority db db' \<and> ledger_valid h db')"
proof -
  obtain db' r where run: "ledger_run h ck c db = (db', r)" by fastforce
  show ?thesis
  proof (cases r)
    case (Inl e)
    with run ledger_run_error show ?thesis by simp
  next
    case (Inr row)
    from ledger_run_effect [of db' h ck c db] run
    have "db' = db \<or> (\<exists>i. ledger_effect h i db db')" by simp
    with run Inr show ?thesis by (auto simp: ledger_effect_def written_def)
  qed
qed

text \<open>C7: released money stays released. Once a reservation is released, no sequence of ledger calls,
  whatever their inputs and clocks, and of other components' writes changes its row again.\<close>

theorem released_is_final:
  assumes "ledger_reach h db db'" and "r \<in> set (db_budgets db)" and "br_state r = ''released''"
  shows "r \<in> set (db_budgets db')"
  using assms(1,2)
proof (rule ledger_reach_budgets)
  fix i rows rows'
  assume "budgets_step i rows rows'" "r \<in> set rows"
  then show "r \<in> set rows'"
    using assms(3) by (auto elim!: budgets_stepE dest: budget_move_not_released)
qed

theorem released_is_final_witness:
  "toReleased ''10'' t1 demo_reserved
     \<in> set (db_budgets (fst (ledger_run demo_host demo_clock (Hold demo_hold_input)
          (demo_ledger ''signing'' [toReleased ''10'' t1 demo_reserved] [] []))))"
  by (rule released_is_final [OF call [OF start]]) (simp_all add: toReleased_def)

text \<open>C2: a reservation is conserved along every run: it keeps its intent, session and seller, the sum
  of its four amounts never changes, and it never moves back in its life cycle.\<close>

theorem reservation_conserved:
  assumes "ledger_reach h db db'" and "r \<in> set (db_budgets db)"
  shows "\<exists>r' \<in> set (db_budgets db'). same_claim r r' \<and> row_rank r' \<le> row_rank r"
  using assms(1)
proof (rule ledger_reach_budgets)
  show "\<exists>r' \<in> set (db_budgets db). same_claim r r' \<and> row_rank r' \<le> row_rank r"
    using assms(2) same_claim_refl by blast
next
  fix i rows rows'
  assume step: "budgets_step i rows rows'"
    and "\<exists>r' \<in> set rows. same_claim r r' \<and> row_rank r' \<le> row_rank r"
  then obtain x where "x \<in> set rows" "same_claim r x" "row_rank x \<le> row_rank r" by blast
  moreover from step this(1) obtain y where "y \<in> set rows'" "same_claim x y" "row_rank y \<le> row_rank x"
    by (rule budgets_step_claim)
  ultimately show "\<exists>r' \<in> set rows'. same_claim r r' \<and> row_rank r' \<le> row_rank r"
    by (meson same_claim_trans order_trans)
qed

theorem reservation_conserved_witness:
  "\<exists>r' \<in> set (db_budgets demo_held). same_claim demo_reserved r' \<and> row_rank r' \<le> row_rank demo_reserved"
proof -
  have "ledger_reach demo_host demo_open
      (fst (ledger_run demo_host demo_clock (Hold demo_hold_input) demo_open))"
    by (rule call [OF start])
  then have "ledger_reach demo_host demo_open demo_held" by (simp add: demo_hold)
  then show ?thesis by (rule reservation_conserved) (simp add: demo_open_def)
qed

text \<open>C8: along every run the event log only grows, and a log that verifies keeps verifying: each event
  hashes its own fields and its predecessor's hash.\<close>

theorem event_log_verified:
  assumes "ledger_reach h db db'" and "verifyEventChain h db = Inr True"
  shows "verifyEventChain h db' = Inr True \<and> (\<exists>es. db_events db' = db_events db @ es)"
  using ledger_reach_log [OF assms(1)] assms(2)
  by (auto simp: verifyEventChain_def intro: log_grows_verify dest: log_grows_prefix)

theorem event_log_verified_witness:
  "verifyEventChain demo_host (fst (reserve demo_host demo_clock demo_reserve_input demo_start))
     = Inr True"
proof -
  have "ledger_reach demo_host demo_start
      (fst (ledger_run demo_host demo_clock (Reserve demo_reserve_input) demo_start))"
    by (rule call [OF start])
  moreover have "verifyEventChain demo_host demo_start = Inr True"
    by (simp add: verifyEventChain_def demo_start_def)
  ultimately show ?thesis using event_log_verified [of demo_host demo_start] by simp
qed

text \<open>C9: the calls that move money always come to an end: there is no infinite sequence of calls that
  change the database without a new reservation, so a reservation is settled, released or waiting
  after finitely many calls.\<close>

theorem ledger_moves_terminate:
  "wf {(db', db). (\<exists>ck c. db' = fst (ledger_run h ck c db)) \<and> db' \<noteq> db
         \<and> length (db_budgets db') = length (db_budgets db)}"
proof (rule wf_subset)
  let ?m = "\<lambda>db. sum_list (map row_rank (db_budgets db))"
  show "wf (measure ?m)" by simp
  show "{(db', db). (\<exists>ck c. db' = fst (ledger_run h ck c db)) \<and> db' \<noteq> db
         \<and> length (db_budgets db') = length (db_budgets db)} \<subseteq> measure ?m"
  proof clarify
    fix db ck c
    let ?db' = "fst (ledger_run h ck c db)"
    assume "?db' \<noteq> db" and len: "length (db_budgets ?db') = length (db_budgets db)"
    with ledger_run_effect [OF refl, of h ck c db]
    obtain i where "budgets_step i (db_budgets db) (db_budgets ?db')"
      by (auto simp: ledger_effect_def written_def)
    then have "?m ?db' < ?m db"
      by (rule budgets_stepE) (use len in \<open>auto dest: budget_move_rank\<close>)
    then show "(?db', db) \<in> measure ?m" by simp
  qed
qed

section \<open>Reserve\<close>

text \<open>C1: a reservation never exceeds a ceiling. After a successful \<^verbatim>\<open>reserve\<close> the exposures the ledger
  itself computes for the new row's session and seller, at the ledger's clock, are within the
  seller-session, session and rolling 24-hour ceilings of the policy the decision was made under,
  and the row holds exactly the decision's amount.\<close>

theorem reserve_within_ceilings:
  assumes "reserve h ck input db = (db', Inr row)"
  shows "\<exists>au s. loadReservationAuthority h db (bu_intentId row) True (ck_ledger ck) = Inr au
    \<and> snapshotImpl h db' (bu_sessionId row) (bu_sellerOrigin row) (ck_ledger ck) = Inr s
    \<and> sn_sellerSessionExposure s \<le> text_int (s_sellerSessionMaxAtomic (pb_seller (au_projection au)))
    \<and> sn_sessionExposure s \<le> text_int (p_sessionMaxAtomic (lp_policy (au_version au)))
    \<and> sn_rolling24hExposure s \<le> text_int (p_rolling24hMaxAtomic (lp_policy (au_version au)))
    \<and> bu_state row = ''reserved'' \<and> bu_reserved row = au_amount au"
proof -
  from assms obtain i a t au s where g: "reserveGuards h ck db i a = Inr (t, au)"
    and w: "reserveWrite h ck db i a t au = Inr db'" and r: "readBudgetRow h db' i = Inr (Some row)"
    and s: "snapshotImpl h db' (ss_id (au_session au)) (si_seller_origin (au_intent au)) t = Inr s"
    by (rule reserve_obtains)
  from g have "t = ck_ledger ck" "loadReservationAuthority h db i True t = Inr au" "au_amount au = a"
    by (auto elim: reserveGuards_obtains)
  with reserve_exposure_bound [OF g w r s] reserve_row_fields [OF reserve_row(2) [OF w r]] s
  show ?thesis by auto
qed

theorem reserve_within_ceilings_witness:
  "\<exists>s. snapshotImpl demo_host (fst (reserve demo_host demo_clock demo_reserve_input demo_start))
      ''s1'' ''https://s.io'' t1 = Inr s \<and> sn_sessionExposure s \<le> 60"
proof -
  have max: "text_int (p_sessionMaxAtomic demo_policy) = 60" by code_simp
  from reserve_within_ceilings [OF demo_reserve] obtain au s where
      au: "loadReservationAuthority demo_host demo_start ''i1'' True t1 = Inr au"
    and s: "snapshotImpl demo_host (demo_ledger ''authorized'' [demo_reserved] []
          [reserved_event demo_hash]) ''s1'' ''https://s.io'' t1 = Inr s"
      "sn_sessionExposure s \<le> text_int (p_sessionMaxAtomic (lp_policy (au_version au)))"
    by (auto simp: demo_clock_def)
  from au have "au = demo_au ''authorized''"
    by (simp add: demo_start_def demo_authority_loads)
  with s max show ?thesis by (simp add: demo_reserve)
qed

text \<open>C5: no money is reserved while the wallet waits for a resolution. When \<^verbatim>\<open>reserve\<close> succeeds, no
  reservation of the same wallet is unresolved, and no execution case or refund of the wallet is
  open.\<close>

theorem reserve_needs_clear_wallet:
  assumes "reserve h ck input db = (db', Inr row)"
  shows "\<not> wallet_case_open db (bu_walletAddress row)
    \<and> (\<forall>r \<in> set (wallet_rows h db (bu_walletAddress row)). br_state r \<noteq> ''unresolved'')"
  using reserve_clear_wallet [OF assms] by simp

theorem reserve_needs_clear_wallet_witness:
  "\<not> wallet_case_open demo_start demo_address"
  using reserve_needs_clear_wallet [OF demo_reserve] by simp

section \<open>Holds\<close>

text \<open>C6: an unresolved hold blocks its wallet until it is resolved. After \<^verbatim>\<open>holdUnresolved\<close> succeeds,
  and whatever happens then (any calls of the ledger, with any inputs and clocks, except a
  \<^verbatim>\<open>resolvePayment\<close> for that intent, and any writes of other components, which write no reservation
  and change no session's wallet), the row is still unresolved, and every \<^verbatim>\<open>reserve\<close> either is refused
  and changes nothing or reserves money of another wallet.\<close>

theorem hold_blocks_wallet:
  assumes "holdUnresolved h ck input db = (db', Inr row)"
    and "held_reach h (bu_intentId row) db' db''"
  shows "(\<exists>r \<in> set (db_budgets db''). br_intent_id r = bu_intentId row \<and> br_state r = ''unresolved'')
    \<and> (case reserve h ck' input' db'' of
         (db3, Inl e) \<Rightarrow> db3 = db''
       | (db3, Inr b) \<Rightarrow> bu_walletAddress b \<noteq> bu_walletAddress row)"
proof -
  from assms(1) obtain r where r: "held_row (bu_intentId row) r db'" "br_session_id r = bu_sessionId row"
    and w: "session_wallet db' (bu_sessionId row) = Some (bu_walletAddress row)"
    by (rule holdUnresolved_held)
  have held: "held_row (bu_intentId row) r db''" by (rule held_reach_row [OF assms(2) r(1)])
  have wallet: "session_wallet db'' (br_session_id r) = Some (bu_walletAddress row)"
    unfolding r(2) by (rule held_reach_wallet [OF assms(2) w])
  from held_blocks_reserve [OF held wallet] ledger_run_error [of h ck' "Reserve input'"] held
  show ?thesis by (fastforce simp: held_row_def split: prod.split sum.split)
qed

text \<open>The hold of the concrete ledger, then any event of another component.\<close>

theorem hold_blocks_wallet_witness:
  "\<forall>e. \<exists>err. reserve demo_host demo_clock demo_reserve_input
       (demo_ledger ''authorized'' [toUnresolved ''10'' t1 demo_reserved] [] [reserved_event ''h0'', held_event, e])
     = (demo_ledger ''authorized'' [toUnresolved ''10'' t1 demo_reserved] [] [reserved_event ''h0'', held_event, e],
        Inl err)"
proof
  fix e
  let ?db = "demo_ledger ''authorized'' [toUnresolved ''10'' t1 demo_reserved] []
    [reserved_event ''h0'', held_event, e]"
  have "held_reach demo_host ''i1'' demo_held ?db"
    by (rule held_outside [OF held_start]) (simp_all add: demo_held_def session_wallet_def)
  then have "held_reach demo_host (bu_intentId (demo_budget ''unresolved'' ''0'' ''0'' ''0'' ''10'')) demo_held ?db"
    by simp
  note blocked = hold_blocks_wallet [OF demo_hold this, of demo_clock demo_reserve_input]
  obtain db3 x where run: "reserve demo_host demo_clock demo_reserve_input ?db = (db3, x)" by fastforce
  have "x \<noteq> Inr b" for b
  proof
    assume x: "x = Inr b"
    have "bu_walletAddress b = ss_wallet_address (au_session (demo_au ''authorized''))"
      by (rule reserve_wallet [OF run [unfolded x] demo_reserve_prepared])
        (simp add: demo_clock_def demo_authority_loads)
    with blocked run x show False by (simp add: demo_au_def demo_session_def)
  qed
  then obtain err where "x = Inl err" by (cases x) auto
  with blocked run show "\<exists>err. reserve demo_host demo_clock demo_reserve_input ?db = (?db, Inl err)" by simp
qed

text \<open>A hold is idempotent. Calling \<^verbatim>\<open>holdUnresolved\<close> again with the same input, at any later
  clock, returns the same reservation and writes nothing: the appended event is read back from its
  canonical text and repeats the transition.\<close>

theorem hold_replay_idempotent:
  assumes "holdUnresolved h ck input db = (db', Inr row)"
  shows "holdUnresolved h ck' input db' = (db', Inr row)"
proof -
  from assms obtain p where p: "prepareReasonTransition False input = Inr p"
    and "holdUnresolvedImpl h ck db p = Inr (db', row)"
    by (auto simp: holdUnresolved_def transaction_Inr split: sum.splits)
  from hold_replayed [OF this(2), of ck'] p show ?thesis
    by (simp add: holdUnresolved_def transaction_def)
qed

theorem hold_replay_idempotent_witness:
  "holdUnresolved demo_host demo_clock demo_hold_input demo_held
     = (demo_held, Inr (demo_budget ''unresolved'' ''0'' ''0'' ''0'' ''10''))"
  by (rule hold_replay_idempotent [OF demo_hold])

section \<open>Authority and bounds\<close>

text \<open>C4: every reservation is authorised. When \<^verbatim>\<open>reserve\<close> succeeds, the row's intent has a decision
  under the active policy version for exactly that amount, positive and made on a challenge that is
  still fresh at the ledger's clock; and either the policy admits the amount automatically and no
  approval exists, or the amount is within the limits for human approval and exactly one approval of
  that amount, for that wallet and policy, was consumed and has not expired.\<close>

theorem reserve_is_authorized:
  assumes "reserve h ck input db = (db', Inr row)"
  shows "\<exists>d v s received.
     select_one (\<lambda>d. pd_intent_id d = bu_intentId row) (db_decisions db) = Some d
     \<and> loadPolicyVersion h db (pd_policy_version_id d) = Inr v
     \<and> map_of (db_metadata db) ''active_policy_id'' = Some (lp_id v)
     \<and> find (\<lambda>s. s_origin s = bu_sellerOrigin row) (p_sellers (lp_policy v)) = Some s
     \<and> bu_reserved row = pd_amount_ceiling_atomic d \<and> 0 < text_int (bu_reserved row)
     \<and> date_ms (ck_ledger ck) - date_ms received \<le> p_challengeMaxAgeMs (lp_policy v)
     \<and> date_ms received \<le> date_ms (ck_ledger ck)
     \<and> (pd_decision d = ''allow'' \<and> text_int (bu_reserved row) \<le> text_int (s_autoApproveAtomic s)
          \<and> filter (\<lambda>a. ap_intent_id a = bu_intentId row) (db_approvals db) = []
        \<or> pd_decision d = ''approval_required''
          \<and> text_int (s_autoApproveAtomic s) < text_int (bu_reserved row)
          \<and> text_int (bu_reserved row) \<le> text_int (s_humanApproveAtomic s)
          \<and> text_int (bu_reserved row) \<le> text_int (s_perRequestMaxAtomic s)
          \<and> (\<exists>a. filter (\<lambda>a. ap_intent_id a = bu_intentId row) (db_approvals db) = [a]
               \<and> ap_decision a = ''consumed'' \<and> ap_amount_ceiling_atomic a = bu_reserved row
               \<and> ap_policy_version_id a = lp_id v \<and> Some (ap_quote_id a) = pd_quote_id d
               \<and> date_ms (ck_ledger ck) < date_ms (ap_expires_at a)))"
proof -
  from assms obtain i a t au s where g: "reserveGuards h ck db i a = Inr (t, au)"
    and w: "reserveWrite h ck db i a t au = Inr db'" and r: "readBudgetRow h db' i = Inr (Some row)"
    by (rule reserve_obtains)
  note row = reserve_row(3) [OF w r] reserve_row_fields [OF reserve_row(2) [OF w r]]
  from g have t: "t = ck_ledger ck" and au: "loadReservationAuthority h db i True t = Inr au"
      "au_amount au = a" by (auto elim: reserveGuards_obtains)
  from row au(2) have "bu_reserved row = au_amount au" "bu_intentId row = i"
      "bu_sellerOrigin row = si_seller_origin (au_intent au)" by simp_all
  moreover have "0 < text_int (bu_reserved row)"
    using row(1,5) by (simp add: conserved_def dispositions_def)
  ultimately show ?thesis
    using au(1) t
    by (elim reserve_authority, intro exI [of _ "au_decision au"] exI [of _ "au_version au"]
        exI [of _ "pb_seller (au_projection au)"] exI) (auto simp: approvalBound_def)
qed

theorem reserve_is_authorized_witness:
  "\<exists>d v. select_one (\<lambda>d. pd_intent_id d = ''i1'') (db_decisions demo_start) = Some d
     \<and> loadPolicyVersion demo_host demo_start (pd_policy_version_id d) = Inr v
     \<and> map_of (db_metadata demo_start) ''active_policy_id'' = Some (lp_id v)"
  using reserve_is_authorized [OF demo_reserve] by auto

text \<open>In a valid ledger every reservation holds exactly its decision's amount, a positive decimal,
  in the one disposition its state names, and nothing in the other three.\<close>

theorem valid_rows_conserve:
  assumes "ledger_valid h db" and "r \<in> set (db_budgets db)"
  shows "\<exists>d. select_one (\<lambda>d. pd_intent_id d = br_intent_id r) (db_decisions db) = Some d
    \<and> 0 < text_int (pd_amount_ceiling_atomic d)
    \<and> row_total r = text_int (pd_amount_ceiling_atomic d)
    \<and> dispositions (br_state r) (row_total r)
        = Some (text_int (br_reserved_atomic r), text_int (br_committed_atomic r),
                text_int (br_released_atomic r), text_int (br_unresolved_atomic r))"
proof -
  from ledger_valid_row [OF assms] have row: "row_read (joinBudget db r) (budget_of h db r)"
    and con: "conserved (budget_of h db r)" by simp_all
  from row obtain d where d: "select_one (\<lambda>d. pd_intent_id d = br_intent_id r) (db_decisions db) = Some d"
      "pd_amount_ceiling_atomic d = bu_ceiling (budget_of h db r)"
    by (auto simp: row_read_def joinBudget_def)
  have "row_total r = text_int (bu_ceiling (budget_of h db r))"
    using row con by (auto simp: row_read_def joinBudget_def conserved_def dispositions_def
        row_total_def split: if_splits)
  with d row con show ?thesis
    by (auto simp: row_read_def joinBudget_def conserved_def)
qed

theorem valid_rows_conserve_witness:
  "row_total (toUnresolved ''10'' t1 demo_reserved) = 10"
proof -
  have "ledger_valid demo_host demo_held" using demo_held_rows(1) by (auto simp: ledger_valid_def)
  from valid_rows_conserve [OF this, of "toUnresolved ''10'' t1 demo_reserved"]
  show ?thesis by (simp add: demo_held_def demo_decision_def demo_scalars toUnresolved_def)
qed

text \<open>C10: the three exposures of a snapshot are the sums over the wallet's rows of the table: what is
  reserved, committed or unresolved in the session, in the session at the seller, and, over the
  rolling window, every live amount and every amount committed less than 24 hours ago. The wallet is
  blocked by an unresolved row exactly when one of those rows is unresolved.\<close>

theorem snapshot_is_table_sum:
  assumes "snapshotImpl h db sid so at = Inr s"
  shows "sn_sessionExposure s = session_exposure h db (sn_walletAddress s) sid
    \<and> sn_sellerSessionExposure s = seller_exposure h db (sn_walletAddress s) sid so
    \<and> sn_rolling24hExposure s = rolling_exposure h db (sn_walletAddress s) at
    \<and> (bl_unresolvedBudget (sn_blockers s)
        \<longleftrightarrow> (\<exists>r \<in> set (wallet_rows h db (sn_walletAddress s)). br_state r = ''unresolved''))
    \<and> (bl_resolutionRequired (sn_blockers s) \<longleftrightarrow> wallet_case_open db (sn_walletAddress s))"
  using snapshot_exposures [OF assms] snapshot_unresolved [OF assms] snapshot_resolution [OF assms]
  by simp

theorem snapshot_is_table_sum_witness:
  "session_exposure demo_host demo_held demo_address ''s1'' = 10"
proof -
  let ?s = "demo_snapshot demo_held [demo_budget ''unresolved'' ''0'' ''0'' ''0'' ''10'']"
  have "sn_sessionExposure ?s = 10" "sn_walletAddress ?s = demo_address"
    by (simp_all add: demo_snapshot_def snapshotRows_def sumOf_def exposure_def Let_def demo_scalars)
  with snapshot_is_table_sum [OF demo_held_rows(3)] show ?thesis by simp
qed

end
