(* ===== verification/AtomicMoney.thy ===== *)
theory AtomicMoney
  imports JsValue
begin

text \<open>
  The atomic money kernel, \<^verbatim>\<open>src/prototype/atomic-money.mjs\<close>: decimal USDC amounts, basis points,
  the weighted allocation with its deterministic remainder, the royalty graph and the journals of
  external and internal gross amounts.

  A \<^verbatim>\<open>MoneyInputError\<close> is a \<^verbatim>\<open>RangeError\<close> with a code, here a \<^verbatim>\<open>JsError\<close> tagged with the
  code. Amounts that the code has checked are integers. Minus zero and zero are the same number to
  every operation of this module (comparison, \<^verbatim>\<open>BigInt\<close>, \<^verbatim>\<open>String\<close>), so \<^verbatim>\<open>JNum 0\<close> stands for
  both. The argument \<^verbatim>\<open>st\<close> gives \<^verbatim>\<open>String(v)\<close> of the values whose text \<^verbatim>\<open>jsval\<close> does not
  keep: fractions, numbers written with an exponent and exotic values, where it may throw.

  An argument that must be an array is an option, \<^verbatim>\<open>None\<close> for a value that is not one; the
  elements of such an array are the records of the properties the code reads, \<^verbatim>\<open>JUndef\<close> where
  \<^verbatim>\<open>share?.key\<close> finds none.
\<close>

abbreviation money_fail :: "string \<Rightarrow> 'a res" where
  "money_fail code \<equiv> Inl (JsError code)"

section \<open>Amounts and basis points\<close>

definition ATOMIC_PER_USDC :: int where
  "ATOMIC_PER_USDC = 10 ^ 6"

definition BPS_DENOMINATOR :: int where
  "BPS_DENOMINATOR = 10000"

definition assertAtomic :: "jsval \<Rightarrow> int res" where
  "assertAtomic value =
     (case value of
        JBig n \<Rightarrow> if n < 0 then money_fail ''ATOMIC_NEGATIVE'' else Inr n
      | _ \<Rightarrow> money_fail ''ATOMIC_TYPE'')"

definition assertBps :: "jsval \<Rightarrow> int res" where
  "assertBps value =
     (if \<not> isSafeInteger value then money_fail ''BPS_INTEGER''
      else case value of
        JNum n \<Rightarrow> if n < 0 \<or> 10000 < n then money_fail ''BPS_RANGE'' else Inr n
      | _ \<Rightarrow> money_fail ''BPS_INTEGER'')"

text \<open>\<^verbatim>\<open>value.trim()\<close>: the white space and line terminators among the code units below 256.\<close>

definition is_trim_space :: "char \<Rightarrow> bool" where
  "is_trim_space c \<longleftrightarrow> code_of c \<in> {9, 10, 11, 12, 13, 32, 160}"

definition js_trim :: "string \<Rightarrow> string" where
  "js_trim s = rev (dropWhile is_trim_space (rev (dropWhile is_trim_space s)))"

definition pad_end :: "nat \<Rightarrow> string \<Rightarrow> string" where
  "pad_end n s = s @ replicate (n - length s) CHR ''0''"

definition pad_start :: "nat \<Rightarrow> string \<Rightarrow> string" where
  "pad_start n s = replicate (n - length s) CHR ''0'' @ s"

text \<open>The groups of \<^verbatim>\<open>/^(0|[1-9]\d*)(?:\.(\d{1,6}))?$/\<close>; an absent fraction is empty.\<close>

definition usdc_groups :: "string \<Rightarrow> (string \<times> string) option" where
  "usdc_groups s =
     (let whole = takeWhile (\<lambda>c. c \<noteq> CHR ''.'') s;
          rest = dropWhile (\<lambda>c. c \<noteq> CHR ''.'') s in
      if \<not> decimal_pattern whole then None
      else case rest of
        [] \<Rightarrow> Some (whole, [])
      | c # fraction \<Rightarrow>
          if 1 \<le> length fraction \<and> length fraction \<le> 6 \<and> list_all is_digit fraction
          then Some (whole, fraction) else None)"

definition parseUsdc :: "jsval \<Rightarrow> int res" where
  "parseUsdc value =
     (case value of
        JStr s \<Rightarrow>
          (case usdc_groups (js_trim s) of
             None \<Rightarrow> money_fail ''DISPLAY_FORMAT''
           | Some (whole, fraction) \<Rightarrow>
               Inr (text_int whole * ATOMIC_PER_USDC + text_int (pad_end 6 fraction)))
      | _ \<Rightarrow> money_fail ''DISPLAY_TYPE'')"

definition formatUsdc :: "jsval \<Rightarrow> string res" where
  "formatUsdc value =
     andthen (assertAtomic value) (\<lambda>atomic.
     Inr (int_text (atomic div ATOMIC_PER_USDC) @ ''.''
          @ pad_start 6 (int_text (atomic mod ATOMIC_PER_USDC))))"

definition floorBps :: "jsval \<Rightarrow> jsval \<Rightarrow> int res" where
  "floorBps amountAtomic bps =
     andthen (assertAtomic amountAtomic) (\<lambda>amount.
     andthen (assertBps bps) (\<lambda>b. Inr (amount * b div BPS_DENOMINATOR)))"

definition weightToBigInt :: "jsval \<Rightarrow> int res" where
  "weightToBigInt value =
     (case value of
        JBig n \<Rightarrow> if n < 0 then money_fail ''WEIGHT_NEGATIVE'' else Inr n
      | JNum n \<Rightarrow> if \<not> isSafeInteger (JNum n) \<or> n < 0 then money_fail ''WEIGHT_INTEGER'' else Inr n
      | _ \<Rightarrow> money_fail ''WEIGHT_INTEGER'')"

section \<open>String\<close>

text \<open>
  \<^verbatim>\<open>String(value)\<close>. An array joins its elements' texts with commas, \<^verbatim>\<open>null\<close> and
  \<^verbatim>\<open>undefined\<close> being empty there. A plain object reads \<^verbatim>\<open>[object Object]\<close> unless it has a data
  property \<^verbatim>\<open>toString\<close>, which is not callable; then no conversion to a primitive is left.
\<close>

function js_text :: "(jsval \<Rightarrow> string res) \<Rightarrow> jsval \<Rightarrow> string res" where
  "js_text st JUndef = Inr ''undefined''"
| "js_text st JNull = Inr ''null''"
| "js_text st (JBool b) = Inr (if b then ''true'' else ''false'')"
| "js_text st (JNum n) = (if \<bar>n\<bar> < 10 ^ 21 then Inr (int_text n) else st (JNum n))"
| "js_text st JNumOther = st JNumOther"
| "js_text st (JBig n) = Inr (int_text n)"
| "js_text st (JStr s) = Inr s"
| "js_text st (JArr vs) =
     andthen (collect (\<lambda>v. if v = JUndef \<or> v = JNull then Inr [] else js_text st v) vs)
       (\<lambda>ts. Inr (join_comma ts))"
| "js_text st (JObj kvs) =
     (if has_own kvs ''toString'' then Inl (JsError ''TypeError'') else Inr ''[object Object]'')"
| "js_text st JExotic = st JExotic"
  by pat_completeness auto
termination
  by (relation "measure (size \<circ> snd)") (auto dest: size_elem_JArr simp del: jsval.size)

text \<open>\<^verbatim>\<open>String(value ?? '')\<close>.\<close>

definition text_or_empty :: "(jsval \<Rightarrow> string res) \<Rightarrow> jsval \<Rightarrow> string res" where
  "text_or_empty st v = (if v = JUndef \<or> v = JNull then Inr [] else js_text st v)"

section \<open>Weighted allocation\<close>

record share =
  sh_key :: jsval
  sh_weight :: jsval

text \<open>The loop over the shares, with the keys seen so far.\<close>

fun allocationRows ::
  "(jsval \<Rightarrow> string res) \<Rightarrow> string list \<Rightarrow> share list \<Rightarrow> (string \<times> int) list res" where
  "allocationRows st seen [] = Inr []"
| "allocationRows st seen (share # shares) =
     andthen (text_or_empty st (sh_key share)) (\<lambda>key.
     if key = [] then money_fail ''ALLOCATION_KEY''
     else if key \<in> set seen then money_fail ''ALLOCATION_DUPLICATE''
     else
       andthen (weightToBigInt (sh_weight share)) (\<lambda>weight.
       andthen (allocationRows st (key # seen) shares) (\<lambda>rows. Inr ((key, weight) # rows))))"

text \<open>One atomic unit of the remainder to each row of positive weight, in key order.\<close>

fun spreadRemainder :: "int \<Rightarrow> (string \<times> int \<times> int) list \<Rightarrow> int \<times> (string \<times> int \<times> int) list" where
  "spreadRemainder remainder [] = (remainder, [])"
| "spreadRemainder remainder ((key, weight, amount) # rows) =
     (if remainder = 0 then (remainder, (key, weight, amount) # rows)
      else if weight = 0
      then (let (r, rest) = spreadRemainder remainder rows in (r, (key, weight, amount) # rest))
      else (let (r, rest) = spreadRemainder (remainder - 1) rows
            in (r, (key, weight, amount + 1) # rest)))"

definition row_amount :: "string \<times> int \<times> int \<Rightarrow> int" where
  "row_amount row = snd (snd row)"

definition allocateByWeights ::
  "(jsval \<Rightarrow> string res) \<Rightarrow> jsval \<Rightarrow> share list option \<Rightarrow> (string \<times> int) list res" where
  "allocateByWeights st amountAtomic shares =
     andthen (assertAtomic amountAtomic) (\<lambda>amount.
     if shares = None \<or> shares = Some [] then money_fail ''ALLOCATIONS_EMPTY''
     else
       andthen (allocationRows st [] (the shares)) (\<lambda>unsorted.
       let rows = sort_key fst unsorted;
           totalWeight = sum_list (map snd rows) in
       if totalWeight = 0 then money_fail ''WEIGHTS_ZERO''
       else
         let allocations = map (\<lambda>(key, weight). (key, weight, amount * weight div totalWeight)) rows;
             (remainder, spread) =
               spreadRemainder (amount - sum_list (map row_amount allocations)) allocations in
         if remainder \<noteq> 0 then Inl (JsError ''INVARIANT_REMAINDER'')
         else Inr (map (\<lambda>row. (fst row, row_amount row)) spread)))"

fun bpsWeights :: "share list \<Rightarrow> share list res" where
  "bpsWeights [] = Inr []"
| "bpsWeights (share # shares) =
     andthen (assertBps (sh_weight share)) (\<lambda>bps.
     andthen (bpsWeights shares) (\<lambda>rest.
     Inr (\<lparr>sh_key = sh_key share, sh_weight = JBig bps\<rparr> # rest)))"

definition weight_of :: "share \<Rightarrow> int" where
  "weight_of share = (case sh_weight share of JBig n \<Rightarrow> n | _ \<Rightarrow> 0)"

definition allocateByBps ::
  "(jsval \<Rightarrow> string res) \<Rightarrow> jsval \<Rightarrow> share list option \<Rightarrow> (string \<times> int) list res" where
  "allocateByBps st amountAtomic shares =
     (if shares = None \<or> shares = Some [] then money_fail ''ALLOCATIONS_EMPTY''
      else
        andthen (bpsWeights (the shares)) (\<lambda>normalized.
        if sum_list (map weight_of normalized) \<noteq> BPS_DENOMINATOR then money_fail ''BPS_TOTAL''
        else allocateByWeights st amountAtomic (Some normalized)))"

section \<open>The royalty graph\<close>

definition MAX_ANCESTRY_DEPTH :: nat where
  "MAX_ANCESTRY_DEPTH = 32"

definition MAX_REACHABLE_SKILLS :: nat where
  "MAX_REACHABLE_SKILLS = 128"

definition MAX_DISTRIBUTION_VISITS :: nat where
  "MAX_DISTRIBUTION_VISITS = 1024"

text \<open>A skill; the weight of a holder is its \<^verbatim>\<open>bps\<close> and the key its \<^verbatim>\<open>recipientId\<close>.\<close>

record skill =
  sk_parentIds :: "jsval list option"
  sk_inheritBps :: jsval
  sk_holders :: "share list option"

text \<open>The own properties of \<^verbatim>\<open>skills\<close>, \<^verbatim>\<open>None\<close> for a value that is not an object.\<close>

type_synonym skills = "(string \<times> skill option) list"

record node =
  nd_parentIds :: "string list"
  nd_inheritBps :: jsval
  nd_holders :: "share list"

definition requireSkill :: "skills \<Rightarrow> string \<Rightarrow> skill res" where
  "requireSkill skills skillId =
     (case map_of skills skillId of
        Some (Some skill) \<Rightarrow> Inr skill
      | _ \<Rightarrow> money_fail ''SKILL_UNKNOWN'')"

definition normalizedNode :: "(jsval \<Rightarrow> string res) \<Rightarrow> skills \<Rightarrow> string \<Rightarrow> node res" where
  "normalizedNode st skills skillId =
     andthen (requireSkill skills skillId) (\<lambda>skill.
     case sk_parentIds skill of
       None \<Rightarrow> money_fail ''PARENTS_TYPE''
     | Some parents \<Rightarrow>
         (case sk_holders skill of
            None \<Rightarrow> money_fail ''HOLDERS_TYPE''
          | Some holders \<Rightarrow>
              andthen (collect (js_text st) parents) (\<lambda>texts.
              let parentIds = sort texts in
              if \<not> distinct parentIds then money_fail ''PARENT_DUPLICATE''
              else
                andthen (assertBps (sk_inheritBps skill)) (\<lambda>_.
                andthen (allocateByBps st (JBig 0) (Some holders)) (\<lambda>_.
                Inr \<lparr>nd_parentIds = parentIds, nd_inheritBps = sk_inheritBps skill,
                     nd_holders = holders\<rparr>)))))"

text \<open>The maps and sets of \<^verbatim>\<open>validateReachable\<close>; an association list keeps the newest entry first.\<close>

record validation =
  va_deepest :: "(string \<times> nat) list"
  va_validating :: "string list"
  va_reachable :: "string list"

function (sequential) validateReachable ::
    "(jsval \<Rightarrow> string res) \<Rightarrow> skills \<Rightarrow> string \<Rightarrow> nat \<Rightarrow> validation \<Rightarrow> validation res"
  and validateParents ::
    "(jsval \<Rightarrow> string res) \<Rightarrow> skills \<Rightarrow> string list \<Rightarrow> nat \<Rightarrow> validation \<Rightarrow> validation res" where
  "validateReachable st skills skillId depth va =
     (if MAX_ANCESTRY_DEPTH < depth then money_fail ''ANCESTRY_DEPTH''
      else if skillId \<in> set (va_validating va) then money_fail ''ANCESTRY_CYCLE''
      else
        let priorDepth = map_of (va_deepest va) skillId in
        if (case priorDepth of None \<Rightarrow> False | Some d \<Rightarrow> depth \<le> d) then Inr va
        else
          andthen (normalizedNode st skills skillId) (\<lambda>node.
          let reachable = List.insert skillId (va_reachable va) in
          if MAX_REACHABLE_SKILLS < length reachable then money_fail ''ANCESTRY_NODES''
          else
            andthen (validateParents st skills (nd_parentIds node) (depth + 1)
                       (va\<lparr>va_reachable := reachable,
                           va_validating := skillId # va_validating va\<rparr>)) (\<lambda>va'.
            Inr (va'\<lparr>va_validating := removeAll skillId (va_validating va'),
                     va_deepest := (skillId,
                       case priorDepth of None \<Rightarrow> depth | Some d \<Rightarrow> max depth d)
                         # va_deepest va'\<rparr>))))"
| "validateParents st skills [] depth va = Inr va"
| "validateParents st skills (parentId # parentIds) depth va =
     andthen (validateReachable st skills parentId depth va) (\<lambda>va'.
     validateParents st skills parentIds depth va')"
  by pat_completeness auto
termination
  by (relation "measures [case_sum (\<lambda>(st, skills, skillId, depth, va). 33 - depth)
                                   (\<lambda>(st, skills, ids, depth, va). 33 - depth),
                          case_sum (\<lambda>_. 0) (\<lambda>(st, skills, ids, depth, va). Suc (length ids))]")
    (auto simp: MAX_ANCESTRY_DEPTH_def)

datatype credit_kind = Holder | Ancestor

record credit =
  cr_recipientId :: string
  cr_viaSkillId :: string
  cr_depth :: nat
  cr_kind :: credit_kind
  cr_amount :: int

record distribution =
  di_credits :: "credit list"
  di_visits :: nat
  di_visiting :: "string list"

definition holderCredits :: "string \<Rightarrow> nat \<Rightarrow> (string \<times> int) list \<Rightarrow> credit list" where
  "holderCredits skillId depth rows =
     map (\<lambda>(key, amount). \<lparr>cr_recipientId = key, cr_viaSkillId = skillId, cr_depth = depth,
       cr_kind = (if depth = 0 then Holder else Ancestor), cr_amount = amount\<rparr>) rows"

definition ancestorPoolOf :: "node \<Rightarrow> int \<Rightarrow> int res" where
  "ancestorPoolOf node amount =
     (if nd_parentIds node = [] then Inr 0 else floorBps (JBig amount) (nd_inheritBps node))"

definition parentRows ::
  "(jsval \<Rightarrow> string res) \<Rightarrow> node \<Rightarrow> int \<Rightarrow> (string \<times> int) list res" where
  "parentRows st node ancestorPool =
     (if nd_parentIds node = [] \<or> ancestorPool \<le> 0 then Inr []
      else allocateByWeights st (JBig ancestorPool)
             (Some (map (\<lambda>parentId. \<lparr>sh_key = JStr parentId, sh_weight = JNum 1\<rparr>)
                (nd_parentIds node))))"

function (sequential) distribute ::
    "(jsval \<Rightarrow> string res) \<Rightarrow> skills \<Rightarrow> string \<Rightarrow> int \<Rightarrow> nat \<Rightarrow> distribution \<Rightarrow> distribution res"
  and distributeParents ::
    "(jsval \<Rightarrow> string res) \<Rightarrow> skills \<Rightarrow> (string \<times> int) list \<Rightarrow> nat \<Rightarrow> distribution
       \<Rightarrow> distribution res" where
  "distribute st skills skillId amount depth di =
     (let visits = di_visits di + 1 in
      if MAX_DISTRIBUTION_VISITS < visits then money_fail ''ANCESTRY_VISITS''
      else if MAX_ANCESTRY_DEPTH < depth then money_fail ''ANCESTRY_DEPTH''
      else if skillId \<in> set (di_visiting di) then money_fail ''ANCESTRY_CYCLE''
      else
        andthen (normalizedNode st skills skillId) (\<lambda>node.
        andthen (ancestorPoolOf node amount) (\<lambda>ancestorPool.
        andthen (allocateByBps st (JBig (amount - ancestorPool)) (Some (nd_holders node)))
          (\<lambda>holderRows.
        andthen (parentRows st node ancestorPool) (\<lambda>rows.
        andthen (distributeParents st skills rows (depth + 1)
                   (di\<lparr>di_visits := visits, di_visiting := skillId # di_visiting di,
                       di_credits := di_credits di @ holderCredits skillId depth holderRows\<rparr>))
          (\<lambda>di'.
        Inr (di'\<lparr>di_visiting := removeAll skillId (di_visiting di')\<rparr>)))))))"
| "distributeParents st skills [] depth di = Inr di"
| "distributeParents st skills ((parentId, amount) # rows) depth di =
     andthen (distribute st skills parentId amount depth di) (\<lambda>di'.
     distributeParents st skills rows depth di')"
  by pat_completeness auto
termination
  by (relation "measures [case_sum (\<lambda>(st, skills, skillId, amount, depth, di). 33 - depth)
                                   (\<lambda>(st, skills, rows, depth, di). 33 - depth),
                          case_sum (\<lambda>_. 0) (\<lambda>(st, skills, rows, depth, di). Suc (length rows))]")
    (auto simp: MAX_ANCESTRY_DEPTH_def)

declare validateReachable.simps [simp del] distribute.simps [simp del]

record royalty =
  ro_pool :: int
  ro_credits :: "credit list"
  ro_holderCredits :: "credit list"
  ro_ancestorCredits :: "credit list"

definition ROYALTY_ALLOCATION_POLICY :: string where
  "ROYALTY_ALLOCATION_POLICY = ''lrp-per-hop-v1''"

text \<open>An absent \<^verbatim>\<open>allocationPolicy\<close> (\<^verbatim>\<open>undefined\<close>) takes the default.\<close>

definition allocateRoyaltyGraph ::
  "(jsval \<Rightarrow> string res) \<Rightarrow> jsval \<Rightarrow> jsval \<Rightarrow> skills option \<Rightarrow> jsval \<Rightarrow> royalty res" where
  "allocateRoyaltyGraph st royaltyPoolAtomic leafSkillId skills allocationPolicy =
     andthen (assertAtomic royaltyPoolAtomic) (\<lambda>pool.
     if allocationPolicy \<noteq> JUndef \<and> allocationPolicy \<noteq> JStr ROYALTY_ALLOCATION_POLICY
     then money_fail ''ALLOCATION_POLICY_UNSUPPORTED''
     else
       case skills of
         None \<Rightarrow> money_fail ''SKILLS_TYPE''
       | Some table \<Rightarrow>
           andthen (text_or_empty st leafSkillId) (\<lambda>leaf.
           andthen (validateReachable st table leaf 0
                      \<lparr>va_deepest = [], va_validating = [], va_reachable = []\<rparr>) (\<lambda>_.
           andthen (distribute st table leaf pool 0
                      \<lparr>di_credits = [], di_visits = 0, di_visiting = []\<rparr>) (\<lambda>di.
           let credits = di_credits di in
           if sum_list (map cr_amount credits) \<noteq> pool then Inl (JsError ''INVARIANT_CREDITS'')
           else Inr \<lparr>ro_pool = pool, ro_credits = credits,
                     ro_holderCredits = filter (\<lambda>c. cr_kind c = Holder) credits,
                     ro_ancestorCredits = filter (\<lambda>c. cr_kind c = Ancestor) credits\<rparr>))))"

end
