(* ===== verification/AtomicJournal.thy ===== *)
theory AtomicJournal
  imports AtomicMoney
begin

text \<open>
  The journals of \<^verbatim>\<open>src/prototype/atomic-money.mjs\<close>: the split of an external gross amount
  into costs, fee, reserve and royalties, the split of an internal gross amount into costs and an
  Invocation award, and the check of a persisted internal journal against the same allocation.
\<close>

section \<open>Entries\<close>

record journal_entry =
  je_category :: string
  je_debitAccountId :: string
  je_creditAccountId :: string
  je_amount :: int

definition journalEntry :: "string \<Rightarrow> string \<Rightarrow> string \<Rightarrow> int \<Rightarrow> journal_entry res" where
  "journalEntry category debit credit amount =
     andthen (assertAtomic (JBig amount)) (\<lambda>a.
     Inr \<lparr>je_category = category, je_debitAccountId = debit, je_creditAccountId = credit,
          je_amount = a\<rparr>)"

definition requireCoveredGross :: "int \<Rightarrow> int list \<Rightarrow> int res" where
  "requireCoveredGross gross components =
     (let required = sum_list components in
      if gross < required then money_fail ''GROSS_INSUFFICIENT'' else Inr (gross - required))"

section \<open>External gross\<close>

record external_input =
  xi_gross :: jsval
  xi_executionCost :: jsval
  xi_settlementCost :: jsval
  xi_protocolFeeBps :: jsval
  xi_refundReserve :: jsval
  xi_leafSkillId :: jsval
  xi_skills :: "skills option"
  xi_allocationPolicy :: jsval

record external_allocation =
  xa_gross :: int
  xa_executionCost :: int
  xa_settlementCost :: int
  xa_protocolFee :: int
  xa_royaltyPool :: int
  xa_refundReserve :: int
  xa_credits :: "credit list"
  xa_holderCredits :: "credit list"
  xa_ancestorCredits :: "credit list"
  xa_journal :: "journal_entry list"

definition royaltyEntry :: "string \<Rightarrow> credit \<Rightarrow> journal_entry res" where
  "royaltyEntry debit c =
     journalEntry (if cr_kind c = Holder then ''royalty-holder'' else ''royalty-ancestor'')
       debit (''royalty:'' @ cr_recipientId c) (cr_amount c)"

definition allocateExternalGross ::
  "(jsval \<Rightarrow> string res) \<Rightarrow> external_input \<Rightarrow> external_allocation res" where
  "allocateExternalGross st input =
     andthen (assertAtomic (xi_gross input)) (\<lambda>gross.
     andthen (assertAtomic (xi_executionCost input)) (\<lambda>executionCost.
     andthen (assertAtomic (xi_settlementCost input)) (\<lambda>settlementCost.
     andthen (assertAtomic (xi_refundReserve input)) (\<lambda>refundReserve.
     andthen (floorBps (JBig gross) (xi_protocolFeeBps input)) (\<lambda>protocolFee.
     andthen (requireCoveredGross gross [executionCost, settlementCost, protocolFee, refundReserve])
       (\<lambda>royaltyPool.
     andthen (allocateRoyaltyGraph st (JBig royaltyPool) (xi_leafSkillId input) (xi_skills input)
                (xi_allocationPolicy input)) (\<lambda>royalty.
     let debit = ''wielder:external-gross'' in
     andthen (journalEntry ''execution-cogs'' debit ''provider:execution'' executionCost) (\<lambda>e1.
     andthen (journalEntry ''settlement-cogs'' debit ''provider:settlement'' settlementCost) (\<lambda>e2.
     andthen (journalEntry ''protocol-fee'' debit ''protocol:treasury'' protocolFee) (\<lambda>e3.
     andthen (journalEntry ''refund-reserve'' debit ''reserve:refund'' refundReserve) (\<lambda>e4.
     andthen (collect (royaltyEntry debit) (ro_credits royalty)) (\<lambda>es.
     Inr \<lparr>xa_gross = gross, xa_executionCost = executionCost, xa_settlementCost = settlementCost,
          xa_protocolFee = protocolFee, xa_royaltyPool = royaltyPool,
          xa_refundReserve = refundReserve, xa_credits = ro_credits royalty,
          xa_holderCredits = ro_holderCredits royalty,
          xa_ancestorCredits = ro_ancestorCredits royalty,
          xa_journal = [e1, e2, e3, e4] @ es\<rparr>))))))))))))"

section \<open>Internal gross\<close>

record internal_input =
  ii_gross :: jsval
  ii_executionCost :: jsval
  ii_protocolFee :: jsval
  ii_refundReserve :: jsval
  ii_recipientId :: jsval
  ii_employerId :: jsval

record internal_allocation =
  ia_gross :: int
  ia_executionCost :: int
  ia_protocolFee :: int
  ia_refundReserve :: int
  ia_award :: int
  ia_recipientId :: string
  ia_journal :: "journal_entry list"

definition employerIs :: "(jsval \<Rightarrow> string res) \<Rightarrow> jsval \<Rightarrow> string \<Rightarrow> bool res" where
  "employerIs st employerId recipient =
     (if employerId = JUndef \<or> employerId = JNull then Inr False
      else andthen (js_text st employerId) (\<lambda>employer. Inr (recipient = employer)))"

definition allocateInternalGross ::
  "(jsval \<Rightarrow> string res) \<Rightarrow> internal_input \<Rightarrow> internal_allocation res" where
  "allocateInternalGross st input =
     andthen (assertAtomic (ii_gross input)) (\<lambda>gross.
     andthen (assertAtomic (ii_executionCost input)) (\<lambda>executionCost.
     andthen (assertAtomic (ii_protocolFee input)) (\<lambda>protocolFee.
     andthen (assertAtomic (ii_refundReserve input)) (\<lambda>refundReserve.
     andthen (requireCoveredGross gross [executionCost, protocolFee, refundReserve]) (\<lambda>award.
     andthen (text_or_empty st (ii_recipientId input)) (\<lambda>recipient.
     if recipient = [] then money_fail ''RECIPIENT_REQUIRED''
     else
       andthen (employerIs st (ii_employerId input) recipient) (\<lambda>same.
       if same then money_fail ''EMPLOYER_AWARD_RECIPIENT''
       else
         let debit = ''employer:invocation-gross'' in
         andthen (journalEntry ''execution-cogs'' debit ''provider:execution'' executionCost) (\<lambda>e1.
         andthen (journalEntry ''protocol-fee'' debit ''protocol:treasury'' protocolFee) (\<lambda>e2.
         andthen (journalEntry ''refund-reserve'' debit ''reserve:refund'' refundReserve) (\<lambda>e3.
         andthen (journalEntry ''invocation-award'' debit (''employee:'' @ recipient) award) (\<lambda>e4.
         Inr \<lparr>ia_gross = gross, ia_executionCost = executionCost, ia_protocolFee = protocolFee,
              ia_refundReserve = refundReserve, ia_award = award, ia_recipientId = recipient,
              ia_journal = [e1, e2, e3, e4]\<rparr>)))))))))))"

text \<open>The gross of a known failure and its one entry.\<close>

definition allocateInternalFailureGross :: "jsval \<Rightarrow> (int \<times> journal_entry list) res" where
  "allocateInternalFailureGross executionCostAtomic =
     andthen (assertAtomic executionCostAtomic) (\<lambda>executionCost.
     andthen (journalEntry ''execution-cogs'' ''employer:invocation-gross'' ''provider:execution''
                executionCost) (\<lambda>e.
     Inr (executionCost, [e])))"

section \<open>The check of an internal journal\<close>

definition sameInternalJournalEntry :: "jsval \<Rightarrow> journal_entry \<Rightarrow> bool" where
  "sameInternalJournalEntry actual expected =
     (case actual of
        JObj kvs \<Rightarrow>
          sort (map fst kvs) = [''amountAtomic'', ''category'', ''creditAccountId'', ''debitAccountId'']
          \<and> get_prop kvs ''category'' = JStr (je_category expected)
          \<and> get_prop kvs ''debitAccountId'' = JStr (je_debitAccountId expected)
          \<and> get_prop kvs ''creditAccountId'' = JStr (je_creditAccountId expected)
          \<and> get_prop kvs ''amountAtomic'' = JBig (je_amount expected)
      | _ \<Rightarrow> False)"

text \<open>\<^verbatim>\<open>None\<close> is an input that is not an object.\<close>

record journal_check =
  jc_kind :: jsval
  jc_amounts :: internal_input
  jc_journal :: "jsval list option"

definition expectedJournal ::
  "(jsval \<Rightarrow> string res) \<Rightarrow> journal_check \<Rightarrow> journal_entry list res" where
  "expectedJournal st input =
     (if jc_kind input = JStr ''succeeded''
      then andthen (allocateInternalGross st (jc_amounts input)) (\<lambda>a. Inr (ia_journal a))
      else if jc_kind input = JStr ''failed_after_start''
      then
        andthen (allocateInternalFailureGross (ii_executionCost (jc_amounts input)))
          (\<lambda>(gross, entries).
        andthen (assertAtomic (ii_gross (jc_amounts input))) (\<lambda>actual.
        if actual \<noteq> gross then money_fail ''INTERNAL_JOURNAL_GROSS'' else Inr entries))
      else money_fail ''INTERNAL_JOURNAL_KIND'')"

definition validateInternalJournalEntries ::
  "(jsval \<Rightarrow> string res) \<Rightarrow> journal_check option \<Rightarrow> jsval list res" where
  "validateInternalJournalEntries st input =
     (case input of
        None \<Rightarrow> money_fail ''INTERNAL_JOURNAL_INPUT''
      | Some check \<Rightarrow>
          andthen (expectedJournal st check) (\<lambda>expected.
          case jc_journal check of
            None \<Rightarrow> money_fail ''INTERNAL_JOURNAL_MISMATCH''
          | Some actual \<Rightarrow>
              if length actual \<noteq> length expected
                 \<or> list_ex (\<lambda>(a, e). \<not> sameInternalJournalEntry a e) (zip actual expected)
              then money_fail ''INTERNAL_JOURNAL_MISMATCH'' else Inr actual))"

end
