(* ===== verification/AtomicMoneyFacts.thy ===== *)
theory AtomicMoneyFacts
  imports AtomicJournal
begin

text \<open>
  The lemmas of the atomic money kernel: checked scalars, the remainder of a weighted allocation,
  the soundness of the ancestry validation and what a distribution credits.
\<close>

section \<open>Scalars\<close>

lemma assertAtomic_Inr [simp]: "assertAtomic v = Inr n \<longleftrightarrow> v = JBig n \<and> 0 \<le> n"
  by (cases v) (auto simp: assertAtomic_def)

lemma assertAtomic_JBig [simp]: "0 \<le> n \<Longrightarrow> assertAtomic (JBig n) = Inr n"
  by simp

lemma assertBps_Inr: "assertBps v = Inr n \<longleftrightarrow> v = JNum n \<and> 0 \<le> n \<and> n \<le> 10000"
  by (cases v) (auto simp: assertBps_def MAX_SAFE_INTEGER_def)

lemma floorBps_Inr:
  "floorBps a b = Inr n \<longleftrightarrow>
     (\<exists>x y. a = JBig x \<and> 0 \<le> x \<and> b = JNum y \<and> 0 \<le> y \<and> y \<le> 10000 \<and> n = x * y div 10000)"
  by (auto simp: floorBps_def andthen_Inr_iff assertBps_Inr BPS_DENOMINATOR_def)

lemma floorBps_bounds:
  assumes "floorBps (JBig a) b = Inr n"
  shows "0 \<le> n" and "n \<le> a"
proof -
  from assms obtain y where y: "0 \<le> a" "0 \<le> y" "y \<le> 10000" "n = a * y div 10000"
    by (auto simp: floorBps_Inr)
  then show "0 \<le> n" by (simp add: pos_imp_zdiv_nonneg_iff)
  from y have "a * y \<le> a * 10000" by (intro mult_left_mono) auto
  then have "a * y div 10000 \<le> a * 10000 div 10000" by (rule zdiv_mono1) simp
  with y show "n \<le> a" by simp
qed

lemma weightToBigInt_Inr: "weightToBigInt v = Inr n \<Longrightarrow> 0 \<le> n"
  by (cases v) (auto simp: weightToBigInt_def split: if_splits)

section \<open>Weighted allocation\<close>

lemma allocationRows_Inr:
  assumes "allocationRows st seen ss = Inr rows"
  shows "distinct (map fst rows) \<and> (\<forall>row \<in> set rows. fst row \<notin> set seen \<and> fst row \<noteq> [] \<and> 0 \<le> snd row)
    \<and> length rows = length ss"
  using assms
proof (induction ss arbitrary: seen rows)
  case (Cons share ss)
  from Cons.prems obtain key w rest where
      k: "key \<noteq> []" "key \<notin> set seen" "weightToBigInt (sh_weight share) = Inr w"
    and rest: "allocationRows st (key # seen) ss = Inr rest" and rows: "rows = (key, w) # rest"
    by (auto split: if_splits)
  from Cons.IH [OF rest] k rows weightToBigInt_Inr [OF k(3)] show ?case by auto
qed simp

text \<open>What spreading does to the rows, one at a time.\<close>

definition row_spread :: "string \<times> int \<times> int \<Rightarrow> string \<times> int \<times> int \<Rightarrow> bool" where
  "row_spread x y \<longleftrightarrow> fst y = fst x \<and> fst (snd y) = fst (snd x)
     \<and> (row_amount y = row_amount x \<or> row_amount y = row_amount x + 1 \<and> fst (snd x) \<noteq> 0)"

lemma row_spread_refl [simp]: "row_spread x x"
  by (simp add: row_spread_def)

lemma spreadRemainder_rows:
  assumes "spreadRemainder r rows = (r', rows')"
  shows "list_all2 row_spread rows rows'
    \<and> sum_list (map row_amount rows') = sum_list (map row_amount rows) + (r - r')"
  using assms
proof (induction rows arbitrary: r rows')
  case (Cons row rows)
  obtain key w x where row: "row = (key, w, x)" by (cases row)
  show ?case
  proof (cases "r = 0")
    case True
    with Cons.prems row show ?thesis by (auto simp: list_all2_refl)
  next
    case False
    define s where "s = (if w = 0 then r else r - 1)"
    obtain rest where "spreadRemainder s rows = (r', rest)"
      "rows' = (key, w, if w = 0 then x else x + 1) # rest"
      using Cons.prems row False by (auto simp: s_def split: prod.splits if_splits)
    with Cons.IH [OF this(1)] row show ?thesis
      by (simp add: row_spread_def row_amount_def s_def)
  qed
qed simp

lemma row_spread_keys:
  "list_all2 row_spread xs ys \<Longrightarrow> map fst (map (\<lambda>row. (fst row, row_amount row)) ys) = map fst xs"
  by (induction rule: list_all2_induct) (simp_all add: row_spread_def)

lemma row_spread_shares:
  assumes "list_all2 row_spread (map (\<lambda>(key, w). (key, w, f w)) ws) rows" and "f 0 = 0"
  shows "list_all2 (\<lambda>weight row. snd row \<in> {f (snd weight), f (snd weight) + 1}
      \<and> (snd weight = 0 \<longrightarrow> snd row = 0)) ws (map (\<lambda>row. (fst row, row_amount row)) rows)"
  using assms(1) unfolding list_all2_map1 list_all2_map2
  by (rule list_all2_mono) (auto simp: row_spread_def row_amount_def assms(2))

lemma spreadRemainder_exhausts:
  assumes "spreadRemainder r rows = (r', rows')" and "0 \<le> r"
    and "r \<le> int (length (filter (\<lambda>row. fst (snd row) \<noteq> 0) rows))"
  shows "r' = 0"
  using assms
proof (induction rows arbitrary: r rows')
  case (Cons row rows)
  obtain key w x where row: "row = (key, w, x)" by (cases row)
  show ?case
  proof (cases "r = 0")
    case True
    with Cons.prems row show ?thesis by simp
  next
    case False
    define s where "s = (if w = 0 then r else r - 1)"
    obtain rest where "spreadRemainder s rows = (r', rest)"
      using Cons.prems(1) row False by (auto simp: s_def split: prod.splits if_splits)
    moreover have "0 \<le> s" "s \<le> int (length (filter (\<lambda>row. fst (snd row) \<noteq> 0) rows))"
      using Cons.prems(2,3) row False by (auto simp: s_def)
    ultimately show ?thesis by (rule Cons.IH)
  qed
qed simp

text \<open>The truncated shares fall short of the amount by less than the number of positive weights.\<close>

lemma floor_shortfall:
  fixes a t :: int
  assumes "0 < t" and "0 \<le> a" and "\<forall>w \<in> set ws. 0 \<le> w"
  shows "0 \<le> a * sum_list ws - t * sum_list (map (\<lambda>w. a * w div t) ws)"
    and "a * sum_list ws - t * sum_list (map (\<lambda>w. a * w div t) ws)
           \<le> (t - 1) * int (length (filter (\<lambda>w. w \<noteq> 0) ws))"
proof -
  have split: "a * w - t * (a * w div t) = a * w mod t" for w
    by (simp add: minus_mult_div_eq_mod)
  have eq: "a * sum_list ws - t * sum_list (map (\<lambda>w. a * w div t) ws)
      = sum_list (map (\<lambda>w. a * w mod t) ws)"
    by (induction ws) (simp_all add: algebra_simps split [symmetric])
  show "0 \<le> a * sum_list ws - t * sum_list (map (\<lambda>w. a * w div t) ws)"
    unfolding eq using assms(1) by (intro sum_list_nonneg) auto
  have "a * w mod t \<le> t - 1" for w using pos_mod_bound [OF assms(1), of "a * w"] by simp
  then have "sum_list (map (\<lambda>w. a * w mod t) ws) \<le> (t - 1) * int (length (filter (\<lambda>w. w \<noteq> 0) ws))"
  proof (induction ws)
    case (Cons w ws)
    then have "sum_list (map (\<lambda>w. a * w mod t) ws) \<le> (t - 1) * int (length (filter (\<lambda>w. w \<noteq> 0) ws))"
      and "a * w mod t \<le> t - 1" by blast+
    then show ?case by (cases "w = 0") (simp_all add: distrib_left)
  qed simp
  then show "a * sum_list ws - t * sum_list (map (\<lambda>w. a * w div t) ws)
           \<le> (t - 1) * int (length (filter (\<lambda>w. w \<noteq> 0) ws))" unfolding eq .
qed

lemma remainder_bounds:
  fixes a t :: int
  assumes "0 < t" and "0 \<le> a" and "\<forall>w \<in> set ws. 0 \<le> w" and "t = sum_list ws"
  defines "r \<equiv> a - sum_list (map (\<lambda>w. a * w div t) ws)"
  shows "0 \<le> r" and "r \<le> int (length (filter (\<lambda>w. w \<noteq> 0) ws))"
proof -
  let ?k = "int (length (filter (\<lambda>w. w \<noteq> 0) ws))"
  note f = floor_shortfall [OF assms(1-3)]
  have tr: "t * r = a * sum_list ws - t * sum_list (map (\<lambda>w. a * w div t) ws)"
    by (simp add: r_def assms(4) [symmetric] algebra_simps)
  then have "0 \<le> t * r" using f(1) by simp
  then show "0 \<le> r" using assms(1) by (simp add: zero_le_mult_iff)
  from tr f(2) have "t * r \<le> (t - 1) * ?k" by simp
  also have "\<dots> \<le> t * ?k" using assms(1) by (simp add: algebra_simps)
  finally show "r \<le> ?k" using assms(1) by simp
qed

text \<open>The rows of an allocation: sorted keys, exact sum, each truncated share or one more.\<close>

definition shares_out :: "int \<Rightarrow> (string \<times> int) list \<Rightarrow> (string \<times> int) list \<Rightarrow> bool" where
  "shares_out amount weights rows \<longleftrightarrow>
     map fst rows = map fst weights \<and> sum_list (map snd rows) = amount
     \<and> list_all2 (\<lambda>weight row.
          snd row \<in> {amount * snd weight div sum_list (map snd weights),
                     amount * snd weight div sum_list (map snd weights) + 1}
          \<and> (snd weight = 0 \<longrightarrow> snd row = 0)) weights rows"

lemma allocate_rows:
  assumes "0 \<le> amount" and pos: "0 < sum_list (map snd ws)" and nonneg: "\<forall>w \<in> set (map snd ws). 0 \<le> w"
  defines "al \<equiv> map (\<lambda>(key, weight). (key, weight, amount * weight div sum_list (map snd ws))) ws"
  assumes sp: "spreadRemainder (amount - sum_list (map row_amount al)) al = (r, spread)"
  shows "r = 0" and "shares_out amount ws (map (\<lambda>row. (fst row, row_amount row)) spread)"
proof -
  let ?t = "sum_list (map snd ws)"
  have am: "map row_amount al = map (\<lambda>w. amount * w div ?t) (map snd ws)"
    by (simp add: al_def row_amount_def case_prod_beta comp_def)
  have k: "length (filter (\<lambda>row. fst (snd row) \<noteq> 0) al) = length (filter (\<lambda>w. w \<noteq> 0) (map snd ws))"
    by (simp add: al_def filter_map comp_def case_prod_beta)
  note b = remainder_bounds [OF pos assms(1) nonneg refl]
  show r: "r = 0"
    by (rule spreadRemainder_exhausts [OF sp]) (use b am k in simp_all)
  have "map fst (map (\<lambda>row. (fst row, row_amount row)) spread) = map fst al"
    by (rule row_spread_keys) (use spreadRemainder_rows [OF sp] in blast)
  moreover have "map fst al = map fst ws" by (simp add: al_def case_prod_beta comp_def)
  moreover have "sum_list (map row_amount spread) = amount"
    using spreadRemainder_rows [OF sp] r by simp
  moreover have "list_all2 row_spread (map (\<lambda>(key, w). (key, w, amount * w div ?t)) ws) spread"
    using spreadRemainder_rows [OF sp] by (simp add: al_def)
  note row_spread_shares [OF this]
  ultimately show "shares_out amount ws (map (\<lambda>row. (fst row, row_amount row)) spread)"
    by (simp add: shares_out_def comp_def del: insert_iff)
qed

lemma sum_list_map_sort_key: "sum_list (map f (sort_key g xs)) = sum_list (map f (xs :: 'a list) :: int list)"
  by (metis mset_map mset_sort sum_mset_sum_list)

lemma allocateByWeights_total:
  assumes "0 \<le> amount" and "ss \<noteq> []" and rows: "allocationRows st [] ss = Inr ws"
    and "sum_list (map snd ws) \<noteq> 0"
  shows "\<exists>out. allocateByWeights st (JBig amount) (Some ss) = Inr out
    \<and> shares_out amount (sort_key fst ws) out"
proof -
  let ?ws = "sort_key fst ws"
  define al where "al = map (\<lambda>(key, weight). (key, weight, amount * weight div sum_list (map snd ?ws))) ?ws"
  obtain r spread where sp:
    "spreadRemainder (amount - sum_list (map row_amount al)) al = (r, spread)" by fastforce
  have nonneg: "\<forall>w \<in> set (map snd ?ws). 0 \<le> w" using allocationRows_Inr [OF rows] by auto
  then have "0 \<le> sum_list (map snd ?ws)" by (intro sum_list_nonneg) blast
  then have pos: "0 < sum_list (map snd ?ws)" using assms(4) by (simp add: sum_list_map_sort_key)
  note out = allocate_rows [OF assms(1) pos nonneg sp [unfolded al_def]]
  have "allocateByWeights st (JBig amount) (Some ss)
      = Inr (map (\<lambda>row. (fst row, row_amount row)) spread)"
    using assms sp [unfolded al_def] out(1) pos by (simp add: allocateByWeights_def Let_def)
  with out(2) show ?thesis by blast
qed

lemma allocateByWeights_obtains:
  assumes "allocateByWeights st v shares = Inr out"
  obtains amount ss ws where "v = JBig amount" and "0 \<le> amount" and "shares = Some ss" and "ss \<noteq> []"
    and "allocationRows st [] ss = Inr ws" and "sum_list (map snd ws) \<noteq> 0"
    and "shares_out amount (sort_key fst ws) out"
proof -
  from assms obtain amount ss ws where f: "v = JBig amount" "0 \<le> amount" "shares = Some ss" "ss \<noteq> []"
      "allocationRows st [] ss = Inr ws" "sum_list (map snd ws) \<noteq> 0"
    unfolding allocateByWeights_def
    by (cases shares) (auto simp: Let_def sum_list_map_sort_key split: if_splits)
  from allocateByWeights_total [OF f(2,4,5,6)] assms f(1,3) that [OF f] show thesis by auto
qed

lemma shares_out_nonneg:
  assumes "shares_out amount ws out" and "0 \<le> amount" and "\<forall>w \<in> set (map snd ws). 0 \<le> w"
  shows "\<forall>row \<in> set out. 0 \<le> snd row"
proof
  fix row assume "row \<in> set out"
  then obtain i where i: "i < length out" "row = out ! i" by (auto simp: in_set_conv_nth)
  define w where "w = ws ! i"
  have "length ws = length out" using assms(1) by (simp add: shares_out_def list_all2_iff)
  with i have w: "w \<in> set ws" by (simp add: w_def)
  have "snd row \<in> {amount * snd w div sum_list (map snd ws), amount * snd w div sum_list (map snd ws) + 1}"
    using assms(1) i unfolding shares_out_def w_def by (auto dest!: list_all2_nthD2)
  moreover have "0 \<le> sum_list (map snd ws)" using assms(3) by (intro sum_list_nonneg) blast
  then have "0 \<le> amount * snd w div sum_list (map snd ws)"
    using assms(2,3) w
    by (cases "sum_list (map snd ws) = 0") (simp_all add: pos_imp_zdiv_nonneg_iff)
  ultimately show "0 \<le> snd row" by auto
qed

lemma bpsWeights_ok:
  assumes "bpsWeights ss = Inr ns"
  shows "map sh_key ns = map sh_key ss \<and> length ns = length ss
    \<and> (\<forall>n \<in> set ns. \<exists>b. sh_weight n = JBig b \<and> 0 \<le> b)"
  using assms by (induction ss arbitrary: ns) (auto simp: assertBps_Inr)

lemma allocationRows_weights:
  assumes "allocationRows st seen ns = Inr ws" and "\<forall>n \<in> set ns. \<exists>b. sh_weight n = JBig b \<and> 0 \<le> b"
  shows "map snd ws = map weight_of ns"
  using assms
proof (induction ns arbitrary: seen ws)
  case (Cons n ns)
  then obtain b where "sh_weight n = JBig b" "0 \<le> b" by auto
  with Cons show ?case by (auto simp: weightToBigInt_def weight_of_def split: if_splits)
qed simp

lemma allocateByBps_obtains:
  assumes "allocateByBps st v shares = Inr out"
  obtains amount ss ns ws where "v = JBig amount" and "0 \<le> amount" and "shares = Some ss" and "ss \<noteq> []"
    and "bpsWeights ss = Inr ns" and "allocationRows st [] ns = Inr ws"
    and "sum_list (map snd ws) = 10000" and "sum_list (map weight_of ns) = 10000"
    and "shares_out amount (sort_key fst ws) out"
proof -
  from assms obtain ss ns where f: "shares = Some ss" "ss \<noteq> []" "bpsWeights ss = Inr ns"
      "sum_list (map weight_of ns) = 10000" and w: "allocateByWeights st v (Some ns) = Inr out"
    unfolding allocateByBps_def by (cases shares) (auto simp: BPS_DENOMINATOR_def split: if_splits)
  from w obtain amount ws where g: "v = JBig amount" "0 \<le> amount" "allocationRows st [] ns = Inr ws"
      "shares_out amount (sort_key fst ws) out"
    by (auto elim: allocateByWeights_obtains)
  have "map snd ws = map weight_of ns"
    using allocationRows_weights [OF g(3)] bpsWeights_ok [OF f(3)] by blast
  with f g that show thesis by simp
qed

lemma allocateByBps_any:
  assumes "allocateByBps st v (Some ss) = Inr out" and "0 \<le> amount"
  shows "\<exists>rows. allocateByBps st (JBig amount) (Some ss) = Inr rows"
  using assms(1)
proof (rule allocateByBps_obtains)
  fix n ss' ns ws
  assume f: "Some ss = Some ss'" "ss' \<noteq> []" "bpsWeights ss' = Inr ns" "allocationRows st [] ns = Inr ws"
    "sum_list (map snd ws) = 10000" "sum_list (map weight_of ns) = 10000"
  have "ns \<noteq> []" using bpsWeights_ok [OF f(3)] f(2) by auto
  from allocateByWeights_total [OF assms(2) this f(4)] f show ?thesis
    by (auto simp: allocateByBps_def BPS_DENOMINATOR_def)
qed

lemma allocateByBps_sum:
  assumes "allocateByBps st (JBig amount) shares = Inr out"
  shows "sum_list (map snd out) = amount" and "\<forall>row \<in> set out. 0 \<le> snd row"
proof -
  from assms obtain ns ws where ws: "0 \<le> amount" "allocationRows st [] ns = Inr ws"
      "shares_out amount (sort_key fst ws) out"
    by (auto elim: allocateByBps_obtains)
  from ws(3) show "sum_list (map snd out) = amount" by (simp add: shares_out_def)
  show "\<forall>row \<in> set out. 0 \<le> snd row"
    by (rule shares_out_nonneg [OF ws(3,1)]) (use allocationRows_Inr [OF ws(2)] in auto)
qed

section \<open>Ancestry\<close>

text \<open>
  The abstract meaning of a validated skill: the node reads well, and so does every ancestor on
  every path, within the depth left. The predicate is well founded, so it also excludes cycles.
\<close>

inductive sound_ancestry :: "(jsval \<Rightarrow> string res) \<Rightarrow> skills \<Rightarrow> string \<Rightarrow> nat \<Rightarrow> bool" for st skills where
  node: "\<lbrakk>depth \<le> MAX_ANCESTRY_DEPTH; normalizedNode st skills skillId = Inr nd;
     \<And>p. p \<in> set (nd_parentIds nd) \<Longrightarrow> sound_ancestry st skills p (Suc depth)\<rbrakk>
   \<Longrightarrow> sound_ancestry st skills skillId depth"

inductive_cases sound_ancestryE: "sound_ancestry st skills skillId depth"

lemma sound_ancestry_depth: "sound_ancestry st skills i d \<Longrightarrow> d \<le> MAX_ANCESTRY_DEPTH"
  by (auto elim: sound_ancestryE)

lemma sound_ancestry_parent:
  assumes "sound_ancestry st skills i d" and "normalizedNode st skills i = Inr nd" and "p \<in> set (nd_parentIds nd)"
  shows "sound_ancestry st skills p (Suc d)"
  using assms by (auto elim: sound_ancestryE)

text \<open>A shallower visit has more depth left.\<close>

lemma sound_ancestry_shallower:
  assumes "sound_ancestry st skills i d" and "d' \<le> d"
  shows "sound_ancestry st skills i d'"
  using assms
proof (induction arbitrary: d' rule: sound_ancestry.induct)
  case (node depth i nd)
  show ?case
    by (rule sound_ancestry.node [OF _ node(2)]) (use node in auto)
qed

definition validated :: "(jsval \<Rightarrow> string res) \<Rightarrow> skills \<Rightarrow> validation \<Rightarrow> bool" where
  "validated st skills va \<longleftrightarrow> (\<forall>(i, d) \<in> set (va_deepest va). sound_ancestry st skills i d)"

definition visiting_state :: "string \<Rightarrow> validation \<Rightarrow> validation" where
  "visiting_state i va = va\<lparr>va_reachable := List.insert i (va_reachable va),
     va_validating := i # va_validating va\<rparr>"

definition visited_state :: "string \<Rightarrow> nat \<Rightarrow> validation \<Rightarrow> validation" where
  "visited_state i d va = va\<lparr>va_validating := removeAll i (va_validating va),
     va_deepest := (i, d) # va_deepest va\<rparr>"

lemma visit_states [simp]:
  "va_deepest (visiting_state i va) = va_deepest va"
  "va_deepest (visited_state i d va) = (i, d) # va_deepest va"
  by (simp_all add: visiting_state_def visited_state_def)

lemma validateReachable_step:
  assumes "validateReachable st skills i depth va = Inr va'"
  obtains (memo) d where "map_of (va_deepest va) i = Some d" and "depth \<le> d" and "va' = va"
  | (visit) nd vb where "depth \<le> MAX_ANCESTRY_DEPTH" and "normalizedNode st skills i = Inr nd"
      and "i \<notin> set (va_validating va)"
      and "\<not> MAX_REACHABLE_SKILLS < length (List.insert i (va_reachable va))"
      and "\<not> (case map_of (va_deepest va) i of None \<Rightarrow> False | Some d \<Rightarrow> depth \<le> d)"
      and "validateParents st skills (nd_parentIds nd) (depth + 1) (visiting_state i va) = Inr vb"
      and "va' = visited_state i depth vb"
proof (cases "case map_of (va_deepest va) i of None \<Rightarrow> False | Some d \<Rightarrow> depth \<le> d")
  case True
  with assms have "va' = va" by (simp add: validateReachable.simps Let_def split: if_splits)
  with True memo show thesis by (cases "map_of (va_deepest va) i") simp_all
next
  case False
  then have d: "(case map_of (va_deepest va) i of None \<Rightarrow> depth | Some d \<Rightarrow> max depth d) = depth"
    by (cases "map_of (va_deepest va) i") simp_all
  from assms False obtain nd where n: "depth \<le> MAX_ANCESTRY_DEPTH" "i \<notin> set (va_validating va)"
      "normalizedNode st skills i = Inr nd"
      "\<not> MAX_REACHABLE_SKILLS < length (List.insert i (va_reachable va))"
    by (cases "normalizedNode st skills i")
      (simp_all add: validateReachable.simps Let_def split: if_splits)
  with assms False obtain vb where
      "validateParents st skills (nd_parentIds nd) (depth + 1) (visiting_state i va) = Inr vb"
      "va' = visited_state i depth vb"
    by (cases "validateParents st skills (nd_parentIds nd) (depth + 1) (visiting_state i va)")
      (simp_all add: validateReachable.simps Let_def visiting_state_def visited_state_def d)
  with n False visit show thesis by blast
qed

text \<open>The memoised traversal establishes the abstract predicate, at whatever depth it is asked.\<close>

lemma validateReachable_sound:
  "validateReachable st skills i depth va = Inr va' \<Longrightarrow> validated st skills va \<Longrightarrow>
     validated st skills va' \<and> sound_ancestry st skills i depth"
  "validateParents st skills ids depth va = Inr va' \<Longrightarrow> validated st skills va \<Longrightarrow>
     validated st skills va' \<and> (\<forall>i \<in> set ids. sound_ancestry st skills i depth)"
proof (induction st skills i depth va and st skills ids depth va arbitrary: va' and va'
    rule: validateReachable_validateParents.induct)
  case (1 st skills i depth va)
  from 1(2) show ?case
  proof (cases rule: validateReachable_step)
    case (memo d)
    with 1(3) show ?thesis
      by (auto simp: validated_def dest!: map_of_SomeD intro: sound_ancestry_shallower)
  next
    case (visit nd vb)
    have "validated st skills (visiting_state i va)" using 1(3) by (simp add: validated_def)
    with 1(1) [OF _ visit(3) refl visit(5) refl visit(4)] visit(1,6)
    have vb: "validated st skills vb"
      and parents: "\<forall>p \<in> set (nd_parentIds nd). sound_ancestry st skills p (depth + 1)"
      by (auto simp: visiting_state_def)
    have "sound_ancestry st skills i depth"
      by (rule sound_ancestry.node [OF visit(1,2)]) (use parents in auto)
    with vb show ?thesis by (simp add: visit(7) validated_def)
  qed
next
  case (2 st skills depth va)
  then show ?case by simp
next
  case (3 st skills p ps depth va)
  then show ?case by auto
qed

section \<open>Distribution\<close>

lemma normalizedNode_obtains:
  assumes "normalizedNode st skills i = Inr nd"
  obtains out n where "allocateByBps st (JBig 0) (Some (nd_holders nd)) = Inr out"
    and "distinct (nd_parentIds nd)" and "nd_inheritBps nd = JNum n" and "0 \<le> n" and "n \<le> 10000"
proof -
  from assms obtain skill ps hs where "sk_parentIds skill = Some ps" "sk_holders skill = Some hs"
      "requireSkill skills i = Inr skill"
    unfolding normalizedNode_def by (auto split: option.splits)
  with assms that show thesis
    by (auto simp: normalizedNode_def Let_def assertBps_Inr split: if_splits)
qed

lemma ancestorPoolOf_bounds:
  assumes "ancestorPoolOf nd amount = Inr pool" and "0 \<le> amount"
  shows "0 \<le> pool" and "pool \<le> amount" and "nd_parentIds nd = [] \<Longrightarrow> pool = 0"
  using assms floorBps_bounds [of amount "nd_inheritBps nd" pool]
  by (auto simp: ancestorPoolOf_def split: if_splits)

definition parent_shares :: "string list \<Rightarrow> share list" where
  "parent_shares ps = map (\<lambda>p. \<lparr>sh_key = JStr p, sh_weight = JNum 1\<rparr>) ps"

lemma allocationRows_parents:
  assumes "distinct ps" and "set ps \<inter> set seen = {}"
  shows "allocationRows st seen (parent_shares ps)
    = (if [] \<in> set ps then money_fail ''ALLOCATION_KEY'' else Inr (map (\<lambda>p. (p, 1)) ps))"
  using assms
  by (induction ps arbitrary: seen)
    (auto simp: parent_shares_def text_or_empty_def weightToBigInt_def MAX_SAFE_INTEGER_def)

lemma sum_list_ones: "sum_list (map (\<lambda>p. 1) ps) = int (length ps)"
  by (induction ps) simp_all

lemma parentRows_cases:
  assumes "distinct (nd_parentIds nd)" and "0 \<le> pool" and "nd_parentIds nd = [] \<longrightarrow> pool = 0"
  shows "parentRows st nd pool = money_fail ''ALLOCATION_KEY'' \<and> [] \<in> set (nd_parentIds nd)
    \<or> (\<exists>rows. parentRows st nd pool = Inr rows \<and> sum_list (map snd rows) = pool
         \<and> (\<forall>row \<in> set rows. 0 \<le> snd row \<and> fst row \<in> set (nd_parentIds nd)))"
proof (cases "nd_parentIds nd = [] \<or> pool \<le> 0")
  case True
  with assms(2,3) show ?thesis by (auto simp: parentRows_def)
next
  case False
  let ?ps = "nd_parentIds nd"
  let ?ws = "map (\<lambda>p. (p, 1 :: int)) ?ps"
  have r: "parentRows st nd pool = allocateByWeights st (JBig pool) (Some (parent_shares ?ps))"
    using False by (simp add: parentRows_def parent_shares_def)
  show ?thesis
  proof (cases "[] \<in> set ?ps")
    case True
    with False assms(1) r show ?thesis
      by (simp add: allocateByWeights_def allocationRows_parents assms(2))
        (simp add: parent_shares_def)
  next
    case ok: False
    have w: "allocationRows st [] (parent_shares ?ps) = Inr ?ws"
      using ok assms(1) by (simp add: allocationRows_parents)
    have n: "parent_shares ?ps \<noteq> []" "sum_list (map snd ?ws) \<noteq> 0"
      using False by (simp_all add: parent_shares_def comp_def sum_list_ones)
    from allocateByWeights_total [OF assms(2) n(1) w n(2)] r
    obtain rows where rows: "parentRows st nd pool = Inr rows" "shares_out pool (sort_key fst ?ws) rows"
      by auto
    have "\<forall>row \<in> set rows. 0 \<le> snd row"
      by (rule shares_out_nonneg [OF rows(2) assms(2)]) auto
    moreover have "set (map fst rows) = set (map fst (sort_key fst ?ws))"
      using rows(2) unfolding shares_out_def by (simp only:)
    then have "fst ` set rows = set ?ps" by (simp add: image_image)
    moreover have "sum_list (map snd rows) = pool" using rows(2) by (simp add: shares_out_def)
    ultimately show ?thesis using rows(1) by blast
  qed
qed

lemma holderCredits_sum [simp]: "map cr_amount (holderCredits i depth rows) = map snd rows"
  by (simp add: holderCredits_def comp_def case_prod_beta)

definition entered :: "string \<Rightarrow> nat \<Rightarrow> (string \<times> int) list \<Rightarrow> distribution \<Rightarrow> distribution" where
  "entered i depth rows di = di\<lparr>di_visits := di_visits di + 1, di_visiting := i # di_visiting di,
     di_credits := di_credits di @ holderCredits i depth rows\<rparr>"

definition left :: "string \<Rightarrow> distribution \<Rightarrow> distribution" where
  "left i di = di\<lparr>di_visiting := removeAll i (di_visiting di)\<rparr>"

lemma entered_sel [simp]:
  "di_visiting (entered i depth rows di) = i # di_visiting di"
  "di_credits (entered i depth rows di) = di_credits di @ holderCredits i depth rows"
  "di_visiting (left i di) = removeAll i (di_visiting di)"
  "di_credits (left i di) = di_credits di"
  by (simp_all add: entered_def left_def)

text \<open>One visit with the parts that cannot fail resolved.\<close>

definition visit_with ::
  "(jsval \<Rightarrow> string res) \<Rightarrow> skills \<Rightarrow> string \<Rightarrow> node \<Rightarrow> int \<Rightarrow> (string \<times> int) list \<Rightarrow> nat
     \<Rightarrow> distribution \<Rightarrow> distribution res" where
  "visit_with st skills i nd pool holders depth di =
      (if MAX_DISTRIBUTION_VISITS < di_visits di + 1 then money_fail ''ANCESTRY_VISITS''
       else if MAX_ANCESTRY_DEPTH < depth then money_fail ''ANCESTRY_DEPTH''
       else if i \<in> set (di_visiting di) then money_fail ''ANCESTRY_CYCLE''
       else andthen (parentRows st nd pool) (\<lambda>rows.
         andthen (distributeParents st skills rows (depth + 1) (entered i depth holders di))
           (\<lambda>di'. Inr (left i di'))))"

lemma distribute_step:
  assumes nd: "normalizedNode st skills i = Inr nd" and "0 \<le> amount"
  obtains pool holders where "0 \<le> pool" and "nd_parentIds nd = [] \<longrightarrow> pool = 0"
    and "sum_list (map snd holders) = amount - pool" and "\<forall>row \<in> set holders. 0 \<le> snd row"
    and "\<forall>depth di. distribute st skills i amount depth di = visit_with st skills i nd pool holders depth di"
proof -
  from nd obtain out n where hs: "allocateByBps st (JBig 0) (Some (nd_holders nd)) = Inr out"
    and n: "nd_inheritBps nd = JNum n" "0 \<le> n" "n \<le> 10000" by (rule normalizedNode_obtains)
  have "\<exists>pool. ancestorPoolOf nd amount = Inr pool"
    using n assms(2) by (simp add: ancestorPoolOf_def floorBps_Inr)
  then obtain pool where pool: "ancestorPoolOf nd amount = Inr pool" by blast
  note b = ancestorPoolOf_bounds [OF pool assms(2)]
  have "0 \<le> amount - pool" using b by simp
  from allocateByBps_any [OF hs this] obtain holders where
      h: "allocateByBps st (JBig (amount - pool)) (Some (nd_holders nd)) = Inr holders" by blast
  show thesis
    by (rule that [OF b(1) impI allocateByBps_sum [OF h]])
      (simp_all add: b(3) visit_with_def distribute.simps nd pool h entered_def left_def Let_def cong del: andthen_weak_cong)
qed

lemma distribute_node:
  assumes "distribute st skills i amount depth di = Inr di'"
  obtains nd where "normalizedNode st skills i = Inr nd"
  using assms by (cases "normalizedNode st skills i") (auto simp: distribute.simps Let_def split: if_splits)

text \<open>A visit credits exactly its amount, and restores the set of skills being visited.\<close>

definition credits_exactly :: "int \<Rightarrow> distribution \<Rightarrow> distribution \<Rightarrow> bool" where
  "credits_exactly amount di di' \<longleftrightarrow>
     (\<exists>cs. di_credits di' = di_credits di @ cs \<and> sum_list (map cr_amount cs) = amount
        \<and> (\<forall>c \<in> set cs. 0 \<le> cr_amount c))
     \<and> set (di_visiting di') = set (di_visiting di)"

lemma credits_exactly_refl [simp]: "credits_exactly 0 di di"
  by (simp add: credits_exactly_def)

lemma credits_exactly_trans:
  assumes "credits_exactly a di di'" and "credits_exactly b di' di''"
  shows "credits_exactly (a + b) di di''"
proof -
  from assms obtain cs cs' where
      "di_credits di' = di_credits di @ cs" "sum_list (map cr_amount cs) = a" "\<forall>c \<in> set cs. 0 \<le> cr_amount c"
      "di_credits di'' = di_credits di' @ cs'" "sum_list (map cr_amount cs') = b" "\<forall>c \<in> set cs'. 0 \<le> cr_amount c"
    by (auto simp: credits_exactly_def)
  then have "di_credits di'' = di_credits di @ (cs @ cs')" "sum_list (map cr_amount (cs @ cs')) = a + b"
      "\<forall>c \<in> set (cs @ cs'). 0 \<le> cr_amount c" by auto
  with assms show ?thesis unfolding credits_exactly_def by blast
qed

lemma credits_exactly_visit:
  assumes "sum_list (map snd holders) = amount - pool" and "\<forall>row \<in> set holders. 0 \<le> snd row"
    and "i \<notin> set (di_visiting di)" and "credits_exactly pool (entered i depth holders di) di'"
  shows "credits_exactly amount di (left i di')"
proof -
  from assms(4) obtain cs where
      cs: "di_credits di' = di_credits di @ (holderCredits i depth holders @ cs)"
      "sum_list (map cr_amount cs) = pool" "\<forall>c \<in> set cs. 0 \<le> cr_amount c"
    and vis: "set (di_visiting di') = insert i (set (di_visiting di))"
    by (auto simp: credits_exactly_def)
  have "cr_amount ` set (holderCredits i depth holders) = snd ` set holders"
    using holderCredits_sum [of i depth holders] by (metis list.set_map)
  with assms(2) have "\<forall>c \<in> set (holderCredits i depth holders). 0 \<le> cr_amount c"
    by (metis imageE imageI)
  with cs assms(1) have "\<forall>c \<in> set (holderCredits i depth holders @ cs). 0 \<le> cr_amount c"
    "sum_list (map cr_amount (holderCredits i depth holders @ cs)) = amount" by auto
  with cs(1) vis assms(3) show ?thesis unfolding credits_exactly_def by auto
qed

lemma distributeParents_credits:
  assumes "\<And>i amount di di'. \<lbrakk>distribute st skills i amount depth di = Inr di'; 0 \<le> amount\<rbrakk>
      \<Longrightarrow> credits_exactly amount di di'"
    and "distributeParents st skills rows depth di = Inr di'" and "\<forall>row \<in> set rows. 0 \<le> snd row"
  shows "credits_exactly (sum_list (map snd rows)) di di'"
  using assms(2,3)
proof (induction rows arbitrary: di)
  case (Cons row rows)
  obtain p a where row: "row = (p, a)" by (cases row)
  with Cons.prems obtain db where "distribute st skills p a depth di = Inr db"
    and "distributeParents st skills rows depth db = Inr di'" by auto
  with assms(1) [of p a di db] Cons row show ?case by (auto intro: credits_exactly_trans)
qed simp

lemma distribute_credits:
  assumes "distribute st skills i amount depth di = Inr di'" and "0 \<le> amount"
  shows "credits_exactly amount di di'"
  using assms
proof (induction "33 - depth" arbitrary: i amount depth di di' rule: less_induct)
  case less
  from less.prems(1) obtain nd where nd: "normalizedNode st skills i = Inr nd" by (rule distribute_node)
  obtain pool holders where pool: "0 \<le> pool" "nd_parentIds nd = [] \<longrightarrow> pool = 0"
    and hs: "sum_list (map snd holders) = amount - pool" "\<forall>row \<in> set holders. 0 \<le> snd row"
    and "\<forall>depth di. distribute st skills i amount depth di = visit_with st skills i nd pool holders depth di"
    by (rule distribute_step [OF nd less.prems(2)])
  then have eq: "distribute st skills i amount depth di =
      visit_with st skills i nd pool holders depth di" by blast
  from less.prems(1) obtain rows db where depth: "depth \<le> MAX_ANCESTRY_DEPTH"
    and fresh: "i \<notin> set (di_visiting di)" and rows: "parentRows st nd pool = Inr rows"
    and db: "distributeParents st skills rows (depth + 1) (entered i depth holders di) = Inr db"
    and di': "di' = left i db"
    by (auto simp: eq visit_with_def split: if_splits)
  from nd have "distinct (nd_parentIds nd)" by (rule normalizedNode_obtains)
  from parentRows_cases [OF this pool, of st] rows
  have sum: "sum_list (map snd rows) = pool" "\<forall>row \<in> set rows. 0 \<le> snd row" by auto
  have "credits_exactly (sum_list (map snd rows)) (entered i depth holders di) db"
    using less.hyps [of "depth + 1"] depth
    by (intro distributeParents_credits [OF _ db sum(2)]) (auto simp: MAX_ANCESTRY_DEPTH_def)
  with credits_exactly_visit [OF hs fresh] sum(1) di' show ?case by simp
qed

section \<open>No cycle, no depth error\<close>

text \<open>\<^verbatim>\<open>ancestry_path v i k\<close>: from \<^verbatim>\<open>v\<close> one reaches \<^verbatim>\<open>i\<close> in \<^verbatim>\<open>k\<close> parent steps.\<close>

inductive ancestry_path ::
  "(jsval \<Rightarrow> string res) \<Rightarrow> skills \<Rightarrow> string \<Rightarrow> string \<Rightarrow> nat \<Rightarrow> bool" for st skills v where
  here: "ancestry_path st skills v v 0"
| parent: "\<lbrakk>ancestry_path st skills v i k; normalizedNode st skills i = Inr nd;
     p \<in> set (nd_parentIds nd)\<rbrakk> \<Longrightarrow> ancestry_path st skills v p (Suc k)"

lemma ancestry_path_sound:
  assumes "ancestry_path st skills v i k" and "sound_ancestry st skills v d"
  shows "sound_ancestry st skills i (d + k)"
  using assms by (induction rule: ancestry_path.induct) (auto intro: sound_ancestry_parent)

lemma sound_ancestry_acyclic:
  assumes "ancestry_path st skills i i (Suc k)"
  shows "\<not> sound_ancestry st skills i d"
proof (induction "33 - d" arbitrary: d rule: less_induct)
  case less
  show ?case
  proof
    assume s: "sound_ancestry st skills i d"
    then have "d \<le> 32" using sound_ancestry_depth by (fastforce simp: MAX_ANCESTRY_DEPTH_def)
    with less [of "d + Suc k"] ancestry_path_sound [OF assms s] show False by simp
  qed
qed

lemma ancestry_path_child:
  assumes "ancestry_path st skills p j k" and "normalizedNode st skills i = Inr nd"
    and "p \<in> set (nd_parentIds nd)"
  shows "ancestry_path st skills i j (Suc k)"
  using assms by (induction rule: ancestry_path.induct) (auto intro: ancestry_path.intros)

text \<open>
  The two errors of a distribution over a validated ancestry: the cap on visits, and an ancestor whose
  identifier is empty, which is no allocation key.
\<close>

definition visit_error :: "(jsval \<Rightarrow> string res) \<Rightarrow> skills \<Rightarrow> string \<Rightarrow> js_error \<Rightarrow> bool" where
  "visit_error st skills i e \<longleftrightarrow>
     e = JsError ''ANCESTRY_VISITS''
     \<or> e = JsError ''ALLOCATION_KEY'' \<and> (\<exists>k. ancestry_path st skills i [] (Suc k))"

lemma visit_error_child:
  "visit_error st skills p e \<Longrightarrow> normalizedNode st skills i = Inr nd \<Longrightarrow> p \<in> set (nd_parentIds nd) \<Longrightarrow>
   visit_error st skills i e"
  by (auto simp: visit_error_def dest: ancestry_path_child)

definition on_path :: "(jsval \<Rightarrow> string res) \<Rightarrow> skills \<Rightarrow> string set \<Rightarrow> string \<Rightarrow> bool" where
  "on_path st skills vs i \<longleftrightarrow> (\<forall>v \<in> vs. \<exists>k. ancestry_path st skills v i (Suc k))"

lemma distributeParents_error:
  assumes "\<And>p a di e. \<lbrakk>p \<in> ps; set (di_visiting di) = vs; 0 \<le> a;
       distribute st skills p a depth di = Inl e\<rbrakk> \<Longrightarrow> visit_error st skills i e"
    and "set (di_visiting di) = vs" and "\<forall>row \<in> set rows. 0 \<le> snd row \<and> fst row \<in> ps"
    and "distributeParents st skills rows depth di = Inl e"
  shows "visit_error st skills i e"
  using assms(2-)
proof (induction rows arbitrary: di)
  case (Cons row rows)
  obtain p a where row: "row = (p, a)" by (cases row)
  show ?case
  proof (cases "distribute st skills p a depth di")
    case (Inl e')
    with Cons.prems row assms(1) [of p di a e'] show ?thesis by auto
  next
    case (Inr db)
    with Cons.prems(2) row have "set (di_visiting db) = set (di_visiting di)"
      using distribute_credits [OF Inr] by (simp add: credits_exactly_def)
    with Cons.prems row Inr show ?thesis by (intro Cons.IH [of db]) auto
  qed
qed simp

text \<open>
  After a successful validation a distribution fails only at the cap on visits (or at a parent with
  an empty identifier, which is no allocation key): neither its own depth check nor its own cycle
  check can fire.
\<close>

lemma distribute_error:
  assumes "sound_ancestry st skills i depth" and "on_path st skills (set (di_visiting di)) i"
    and "0 \<le> amount" and "distribute st skills i amount depth di = Inl e"
  shows "visit_error st skills i e"
  using assms
proof (induction "33 - depth" arbitrary: i amount depth di e rule: less_induct)
  case less
  from less.prems(1) obtain nd where depth: "depth \<le> MAX_ANCESTRY_DEPTH"
    and nd: "normalizedNode st skills i = Inr nd"
    and parents: "\<And>p. p \<in> set (nd_parentIds nd) \<Longrightarrow> sound_ancestry st skills p (Suc depth)"
    by (auto elim: sound_ancestryE)
  obtain pool holders where pool: "0 \<le> pool" "nd_parentIds nd = [] \<longrightarrow> pool = 0"
    and "sum_list (map snd holders) = amount - pool" "\<forall>row \<in> set holders. 0 \<le> snd row"
    and "\<forall>depth di. distribute st skills i amount depth di = visit_with st skills i nd pool holders depth di"
    by (rule distribute_step [OF nd less.prems(3)])
  then have eq: "distribute st skills i amount depth di =
      visit_with st skills i nd pool holders depth di" by blast
  have fresh: "i \<notin> set (di_visiting di)"
    using less.prems(1,2) sound_ancestry_acyclic by (auto simp: on_path_def)
  have di: "distinct (nd_parentIds nd)" using nd by (rule normalizedNode_obtains)
  show ?case
  proof (cases "MAX_DISTRIBUTION_VISITS < di_visits di + 1")
    case True
    with less.prems(4) show ?thesis by (simp add: eq visit_with_def visit_error_def)
  next
    case False
    from parentRows_cases [OF di pool, of st] show ?thesis
    proof
      assume "parentRows st nd pool = money_fail ''ALLOCATION_KEY'' \<and> [] \<in> set (nd_parentIds nd)"
      moreover from this have "ancestry_path st skills i [] (Suc 0)"
        using nd by (blast intro: ancestry_path.intros)
      ultimately show ?thesis
        using less.prems(4) False depth fresh by (auto simp: eq visit_with_def visit_error_def)
    next
      assume "\<exists>rows. parentRows st nd pool = Inr rows \<and> sum_list (map snd rows) = pool
         \<and> (\<forall>row \<in> set rows. 0 \<le> snd row \<and> fst row \<in> set (nd_parentIds nd))"
      then obtain rows where rows: "parentRows st nd pool = Inr rows"
        "\<forall>row \<in> set rows. 0 \<le> snd row \<and> fst row \<in> set (nd_parentIds nd)" by auto
      with less.prems(4) False depth fresh
      have err: "distributeParents st skills rows (depth + 1) (entered i depth holders di) = Inl e"
        by (cases "distributeParents st skills rows (depth + 1) (entered i depth holders di)")
          (simp_all add: eq visit_with_def)
      show ?thesis
      proof (rule distributeParents_error [OF _ refl rows(2) err])
        fix p a db e'
        assume mem: "p \<in> set (nd_parentIds nd)" and p: "0 \<le> a" "distribute st skills p a (depth + 1) db = Inl e'"
          and vs: "set (di_visiting db) = set (di_visiting (entered i depth holders di))"
        have "on_path st skills (set (di_visiting db)) p"
          unfolding on_path_def vs entered_sel(1)
        proof
          fix v assume "v \<in> set (i # di_visiting di)"
          then consider "v = i" | k where "ancestry_path st skills v i (Suc k)"
            using less.prems(2) by (auto simp: on_path_def)
          then show "\<exists>k. ancestry_path st skills v p (Suc k)"
            by cases (use nd mem in \<open>blast intro: ancestry_path.intros\<close>)+
        qed
        with less.hyps [of "depth + 1" p db a e'] parents [OF mem] p depth
        have "visit_error st skills p e'" by (simp add: MAX_ANCESTRY_DEPTH_def)
        then show "visit_error st skills i e'" using nd mem by (rule visit_error_child)
      qed
    qed
  qed
qed

end
