(* ===== verification/AtomicMoneyProperties.thy ===== *)
theory AtomicMoneyProperties
  imports AtomicMoneyFacts
begin

text \<open>
  The properties of the atomic money kernel, with witnesses on a three-skill ancestry.
\<close>

section \<open>Witness data\<close>

definition no_text :: "jsval \<Rightarrow> string res" where
  "no_text v = Inr ''?''"

definition holder :: "string \<Rightarrow> int \<Rightarrow> share" where
  "holder recipient bps = \<lparr>sh_key = JStr recipient, sh_weight = JNum bps\<rparr>"

definition demo_skills :: skills where
  "demo_skills =
     [(''leaf'', Some \<lparr>sk_parentIds = Some [JStr ''root'', JStr ''mid''], sk_inheritBps = JNum 3333,
        sk_holders = Some [holder ''ann'' 6000, holder ''bob'' 4000]\<rparr>),
      (''mid'', Some \<lparr>sk_parentIds = Some [JStr ''root''], sk_inheritBps = JNum 5000,
        sk_holders = Some [holder ''cyd'' 10000]\<rparr>),
      (''root'', Some \<lparr>sk_parentIds = Some [], sk_inheritBps = JNum 0,
        sk_holders = Some [holder ''dan'' 10000]\<rparr>)]"

section \<open>Display amounts\<close>

lemma dropWhile_head: "s \<noteq> [] \<Longrightarrow> \<not> P (hd s) \<Longrightarrow> dropWhile P s = s"
  by (cases s) simp_all

lemma js_trim_same:
  assumes "s \<noteq> []" and "\<not> is_trim_space (hd s)" and "\<not> is_trim_space (last s)"
  shows "js_trim s = s"
  using assms by (simp add: js_trim_def dropWhile_head hd_rev)

lemma is_digit_not_space: "is_digit c \<Longrightarrow> \<not> is_trim_space c"
  by (auto simp: is_digit_def is_trim_space_def)

lemma text_nat_zeros: "text_nat (replicate k CHR ''0'' @ s) = text_nat s"
  by (induction k) (simp_all add: text_nat_def digit_value_def)

lemma pad_start_digits:
  assumes "list_all is_digit s" and "length s \<le> 6"
  shows "list_all is_digit (pad_start 6 s) \<and> length (pad_start 6 s) = 6
    \<and> text_int (pad_start 6 s) = text_int s"
  using assms by (auto simp: pad_start_def list_all_iff text_int_def text_nat_zeros is_digit_def)

lemma length_nat_text: "n < 10 ^ k \<Longrightarrow> 0 < k \<Longrightarrow> length (nat_text n) \<le> k"
proof (induction k arbitrary: n)
  case (Suc k)
  show ?case
  proof (cases "n < 10")
    case True
    then show ?thesis by (subst nat_text.simps) simp
  next
    case False
    with Suc.prems have "n div 10 < 10 ^ k" "0 < k" by (auto intro: gr0I)
    from Suc.IH [OF this] False show ?thesis by (subst nat_text.simps) simp
  qed
qed simp

text \<open>\<^verbatim>\<open>parseUsdc\<close> reads back every amount \<^verbatim>\<open>formatUsdc\<close> writes: no atomic unit is lost or
  gained between the display text and the integer, whatever the size of the amount.\<close>

theorem usdc_roundtrip:
  assumes "0 \<le> n"
  shows "andthen (formatUsdc (JBig n)) (\<lambda>t. parseUsdc (JStr t)) = Inr n"
proof -
  define w where "w = int_text (n div ATOMIC_PER_USDC)"
  define f where "f = pad_start 6 (int_text (n mod ATOMIC_PER_USDC))"
  have pos: "0 \<le> n div ATOMIC_PER_USDC" "0 \<le> n mod ATOMIC_PER_USDC" "n mod ATOMIC_PER_USDC < 10 ^ 6"
    using assms by (simp_all add: ATOMIC_PER_USDC_def)
  have w: "decimal_pattern w" "text_int w = n div ATOMIC_PER_USDC" "list_all is_digit w" "w \<noteq> []"
    using pos by (simp_all add: w_def decimal_pattern_digits) (simp add: int_text_def)
  have "list_all is_digit (int_text (n mod ATOMIC_PER_USDC))"
      "length (int_text (n mod ATOMIC_PER_USDC)) \<le> 6"
    using pos decimal_pattern_digits length_nat_text [of "nat (n mod ATOMIC_PER_USDC)" 6]
    by (simp_all add: int_text_def nat_less_iff)
  from pad_start_digits [OF this] pos
  have f: "list_all is_digit f" "length f = 6" "text_int f = n mod ATOMIC_PER_USDC"
    by (simp_all add: f_def)
  have dot: "\<forall>c \<in> set w. c \<noteq> CHR ''.''" using w(3) by (auto simp: list_all_iff is_digit_def)
  have g: "usdc_groups (w @ ''.'' @ f) = Some (w, f)"
    using w f dot by (simp add: usdc_groups_def takeWhile_tail dropWhile_append2)
  have "js_trim (w @ ''.'' @ f) = w @ ''.'' @ f"
    using w f by (intro js_trim_same)
      (auto simp: hd_append last_append list_all_iff intro!: is_digit_not_space split: if_splits)
  moreover have "pad_end 6 f = f" using f by (simp add: pad_end_def)
  ultimately show ?thesis
    using assms g w f by (simp add: formatUsdc_def parseUsdc_def w_def [symmetric] f_def [symmetric])
qed

theorem usdc_roundtrip_witness:
  "andthen (formatUsdc (JBig 1234567890123)) (\<lambda>t. parseUsdc (JStr t)) = Inr 1234567890123"
  by (rule usdc_roundtrip) simp

section \<open>Weighted allocation\<close>



text \<open>The rows of the shares, without the order in which they are read.\<close>

definition share_row :: "(jsval \<Rightarrow> string res) \<Rightarrow> share \<Rightarrow> string \<times> int" where
  "share_row st share =
     (case text_or_empty st (sh_key share) of Inr k \<Rightarrow> k | _ \<Rightarrow> [],
      case weightToBigInt (sh_weight share) of Inr w \<Rightarrow> w | _ \<Rightarrow> 0)"

lemma allocationRows_iff:
  "allocationRows st seen ss = Inr ws \<longleftrightarrow>
     ws = map (share_row st) ss
     \<and> (\<forall>s \<in> set ss. (\<exists>k. text_or_empty st (sh_key s) = Inr k) \<and> (\<exists>w. weightToBigInt (sh_weight s) = Inr w))
     \<and> distinct (map fst ws) \<and> (\<forall>row \<in> set ws. fst row \<noteq> [] \<and> fst row \<notin> set seen)"
proof (induction ss arbitrary: seen ws)
  case (Cons s ss)
  show ?case
  proof (cases "(\<exists>k. text_or_empty st (sh_key s) = Inr k) \<and> (\<exists>w. weightToBigInt (sh_weight s) = Inr w)")
    case True
    then obtain k w where kw: "text_or_empty st (sh_key s) = Inr k" "weightToBigInt (sh_weight s) = Inr w"
      by blast
    then have row: "share_row st s = (k, w)" by (simp add: share_row_def)
    have "allocationRows st seen (s # ss) = Inr ws \<longleftrightarrow> k \<noteq> [] \<and> k \<notin> set seen
        \<and> (\<exists>rest. allocationRows st (k # seen) ss = Inr rest \<and> ws = (k, w) # rest)"
      using kw by (auto simp: andthen_Inr_iff)
    also have "\<dots> \<longleftrightarrow> ws = (k, w) # map (share_row st) ss \<and> k \<noteq> [] \<and> k \<notin> set seen
        \<and> (\<forall>s \<in> set ss. (\<exists>k. text_or_empty st (sh_key s) = Inr k) \<and> (\<exists>w. weightToBigInt (sh_weight s) = Inr w))
        \<and> distinct (map fst (map (share_row st) ss))
        \<and> (\<forall>row \<in> set (map (share_row st) ss). fst row \<noteq> [] \<and> fst row \<noteq> k \<and> fst row \<notin> set seen)"
      by (auto simp: Cons.IH)
    also have "\<dots> \<longleftrightarrow> ws = map (share_row st) (s # ss)
        \<and> (\<forall>s \<in> set (s # ss). (\<exists>k. text_or_empty st (sh_key s) = Inr k) \<and> (\<exists>w. weightToBigInt (sh_weight s) = Inr w))
        \<and> distinct (map fst ws) \<and> (\<forall>row \<in> set ws. fst row \<noteq> [] \<and> fst row \<notin> set seen)"
      using kw row by (cases "ws = (k, w) # map (share_row st) ss") (simp_all add: image_iff, blast)
    finally show ?thesis .
  next
    case False
    then have "allocationRows st seen (s # ss) \<noteq> Inr ws" by (auto simp: andthen_Inr_iff)
    with False show ?thesis by auto
  qed
qed auto

lemma sort_key_fst_perm:
  assumes "mset xs = mset ys" and "distinct (map fst xs)"
  shows "sort_key fst xs = sort_key fst (ys :: (string \<times> int) list)"
proof (rule properties_for_sort_key)
  show "mset (sort_key fst ys) = mset xs" using assms(1) by simp
  have ys: "distinct (map fst ys)" using assms by (metis mset_eq_imp_distinct_iff mset_map)
  have one: "filter (\<lambda>x. fst k = fst x) zs = [k]" if "k \<in> set zs" "distinct (map fst zs)"
    for k and zs :: "(string \<times> int) list"
    using that by (induction zs) (auto simp: filter_empty_conv image_iff)
  fix k assume k: "k \<in> set (sort_key fst ys)"
  then have "k \<in> set xs" using assms(1) by (metis mset_eq_setD set_sort)
  moreover have "distinct (map fst (sort_key fst ys))"
    using ys by (metis mset_eq_imp_distinct_iff mset_map mset_sort)
  ultimately show "filter (\<lambda>x. fst k = fst x) (sort_key fst ys) = filter (\<lambda>x. fst k = fst x) xs"
    using one [OF k] one [of k xs] assms(2) by simp
qed simp

text \<open>An allocation does not depend on the order in which its shares are listed: who receives the
  units of the remainder is decided by the keys alone.\<close>

theorem weights_order_free:
  assumes "allocateByWeights st v (Some ss) = Inr out" and "mset ss' = mset ss"
  shows "allocateByWeights st v (Some ss') = Inr out"
proof -
  from assms(1) obtain amount ws where v: "v = JBig amount" "0 \<le> amount" "ss \<noteq> []"
    and ws: "allocationRows st [] ss = Inr ws" by (auto elim: allocateByWeights_obtains)
  have ws': "allocationRows st [] ss' = Inr (map (share_row st) ss')"
    using ws assms(2) unfolding allocationRows_iff
    by (metis mset_eq_imp_distinct_iff mset_eq_setD mset_map)
  have "sort_key fst (map (share_row st) ss') = sort_key fst ws"
    by (rule sort_key_fst_perm) (use ws ws' assms(2) in \<open>auto simp: allocationRows_iff\<close>)
  moreover have "ss' \<noteq> []" using assms(2) v(3) by auto
  ultimately show ?thesis using assms(1) v ws ws'
    by (simp add: allocateByWeights_def)
qed

theorem weights_order_free_witness:
  "allocateByWeights no_text (JBig 100) (Some [holder ''a'' 1, holder ''c'' 1, holder ''b'' 1])
     = Inr [(''a'', 34), (''b'', 33), (''c'', 33)]"
proof (rule weights_order_free)
  show "allocateByWeights no_text (JBig 100) (Some [holder ''b'' 1, holder ''a'' 1, holder ''c'' 1])
     = Inr [(''a'', 34), (''b'', 33), (''c'', 33)]" by code_simp
qed (simp add: holder_def)

section \<open>The royalty graph\<close>

abbreviation fresh_validation :: validation where
  "fresh_validation \<equiv> \<lparr>va_deepest = [], va_validating = [], va_reachable = []\<rparr>"

lemma demo_validates:
  "\<exists>va. validateReachable no_text demo_skills ''leaf'' 0 fresh_validation = Inr va"
proof -
  have "case validateReachable no_text demo_skills ''leaf'' 0 fresh_validation of
      Inr va \<Rightarrow> True | Inl e \<Rightarrow> False" by code_simp
  then show ?thesis by (auto split: sum.splits)
qed

text \<open>A validated ancestry is a finite acyclic graph. When \<^verbatim>\<open>validateReachable\<close> accepts a leaf,
  every skill on every parent path from it reads well, no such path is longer than 32 steps and none
  of these skills is its own ancestor, although the traversal visits a shared ancestor again only
  when it is reached deeper than before.\<close>

theorem validated_ancestry:
  assumes "validateReachable st skills leaf 0 fresh_validation = Inr va"
    and "ancestry_path st skills leaf i k"
  shows "k \<le> MAX_ANCESTRY_DEPTH \<and> (\<exists>nd. normalizedNode st skills i = Inr nd)
    \<and> (\<forall>n. \<not> ancestry_path st skills i i (Suc n))"
proof -
  have "sound_ancestry st skills leaf 0"
    using validateReachable_sound(1) [OF assms(1)] by (simp add: validated_def)
  from ancestry_path_sound [OF assms(2) this] have s: "sound_ancestry st skills i k" by simp
  then show ?thesis
    using sound_ancestry_depth [OF s] sound_ancestry_acyclic by (auto elim: sound_ancestryE)
qed

theorem validated_ancestry_witness:
  "\<forall>n. \<not> ancestry_path no_text demo_skills ''leaf'' ''leaf'' (Suc n)"
proof -
  obtain va where "validateReachable no_text demo_skills ''leaf'' 0 fresh_validation = Inr va"
    using demo_validates by blast
  from validated_ancestry [OF this ancestry_path.here] show ?thesis by blast
qed

text \<open>C36: a royalty pool is distributed exactly or not at all. For a validated leaf
  \<^verbatim>\<open>allocateRoyaltyGraph\<close> either returns credits, none negative, whose sum is the pool and which
  are the holder credits and the ancestor credits together, or throws because of the cap on visits, or
  throws \<^verbatim>\<open>ALLOCATION_KEY\<close>, and then only when the leaf has an ancestor whose identifier is empty,
  which the validation lets pass. The check that the credits equal the pool, the cycle check and the
  depth check of the distribution never fire.\<close>

theorem royalty_exact_or_capped:
  assumes "0 \<le> pool" and "text_or_empty st leafId = Inr leaf"
    and "validateReachable st skills leaf 0 fresh_validation = Inr va"
  shows "case allocateRoyaltyGraph st (JBig pool) leafId (Some skills) JUndef of
      Inl e \<Rightarrow> e = JsError ''ANCESTRY_VISITS''
        \<or> e = JsError ''ALLOCATION_KEY'' \<and> (\<exists>k. ancestry_path st skills leaf [] (Suc k))
    | Inr r \<Rightarrow> ro_pool r = pool \<and> sum_list (map cr_amount (ro_credits r)) = pool
        \<and> (\<forall>c \<in> set (ro_credits r). 0 \<le> cr_amount c)
        \<and> mset (ro_credits r) = mset (ro_holderCredits r) + mset (ro_ancestorCredits r)"
proof -
  let ?di = "\<lparr>di_credits = [], di_visits = 0, di_visiting = []\<rparr>"
  have s: "sound_ancestry st skills leaf 0"
    using validateReachable_sound(1) [OF assms(3)] by (simp add: validated_def)
  have halves: "filter (\<lambda>c. cr_kind c = Ancestor) cs = filter (\<lambda>c. \<not> cr_kind c = Holder) cs" for cs
    by (rule filter_cong [OF refl]) (metis credit_kind.distinct(1) credit_kind.exhaust)
  show ?thesis
  proof (cases "distribute st skills leaf pool 0 ?di")
    case (Inl e)
    have "on_path st skills (set (di_visiting ?di)) leaf" by (simp add: on_path_def)
    from distribute_error [OF s this assms(1) Inl] show ?thesis
      using assms Inl by (simp add: allocateRoyaltyGraph_def visit_error_def)
  next
    case (Inr di)
    from distribute_credits [OF Inr assms(1)]
    have "sum_list (map cr_amount (di_credits di)) = pool"
        "\<forall>c \<in> set (di_credits di). 0 \<le> cr_amount c"
      by (auto simp: credits_exactly_def)
    then show ?thesis using assms Inr
      by (simp add: allocateRoyaltyGraph_def Let_def halves mset_filter)
  qed
qed

lemma demo_royalty_returns:
  "\<exists>r. allocateRoyaltyGraph no_text (JBig 1000001) (JStr ''leaf'') (Some demo_skills) JUndef = Inr r
     \<and> length (ro_holderCredits r) = 2 \<and> length (ro_ancestorCredits r) = 3"
proof -
  have "case allocateRoyaltyGraph no_text (JBig 1000001) (JStr ''leaf'') (Some demo_skills) JUndef of
      Inr r \<Rightarrow> length (ro_holderCredits r) = 2 \<and> length (ro_ancestorCredits r) = 3
    | Inl e \<Rightarrow> False" by code_simp
  then show ?thesis by (auto split: sum.splits)
qed

theorem royalty_exact_or_capped_witness:
  "\<exists>r. allocateRoyaltyGraph no_text (JBig 1000001) (JStr ''leaf'') (Some demo_skills) JUndef = Inr r
     \<and> sum_list (map cr_amount (ro_credits r)) = 1000001
     \<and> length (ro_holderCredits r) = 2 \<and> length (ro_ancestorCredits r) = 3"
proof -
  obtain va where v: "validateReachable no_text demo_skills ''leaf'' 0 fresh_validation = Inr va"
    using demo_validates by blast
  have t: "text_or_empty no_text (JStr ''leaf'') = Inr ''leaf''" by (simp add: text_or_empty_def)
  from royalty_exact_or_capped [OF _ t v, of 1000001] demo_royalty_returns show ?thesis
    by fastforce
qed

text \<open>
  An empty parent identifier passes the validation: whether the graph is refused depends on the amount.
  A pool of nothing is allocated, any amount that reaches the parent is refused.
\<close>

definition nameless_skills :: skills where
  "nameless_skills =
     [(''leaf'', Some \<lparr>sk_parentIds = Some [JStr []], sk_inheritBps = JNum 5000,
        sk_holders = Some [holder ''ann'' 10000]\<rparr>),
      ([], Some \<lparr>sk_parentIds = Some [], sk_inheritBps = JNum 0,
        sk_holders = Some [holder ''bob'' 10000]\<rparr>)]"

lemma nameless_parent_depends_on_amount:
  "(case allocateRoyaltyGraph no_text (JBig 1) (JStr ''leaf'') (Some nameless_skills) JUndef of
      Inr r \<Rightarrow> True | Inl e \<Rightarrow> False)
   \<and> allocateRoyaltyGraph no_text (JBig 2) (JStr ''leaf'') (Some nameless_skills) JUndef
       = Inl (JsError ''ALLOCATION_KEY'')"
proof
  show "case allocateRoyaltyGraph no_text (JBig 1) (JStr ''leaf'') (Some nameless_skills) JUndef of
      Inr r \<Rightarrow> True | Inl e \<Rightarrow> False" by code_simp
  have "case allocateRoyaltyGraph no_text (JBig 2) (JStr ''leaf'') (Some nameless_skills) JUndef of
      Inr r \<Rightarrow> False | Inl e \<Rightarrow> e = JsError ''ALLOCATION_KEY''" by code_simp
  then show "allocateRoyaltyGraph no_text (JBig 2) (JStr ''leaf'') (Some nameless_skills) JUndef
       = Inl (JsError ''ALLOCATION_KEY'')" by (auto split: sum.splits)
qed

section \<open>Journals\<close>

lemma journalEntry_amount [simp]:
  "journalEntry c d k n = Inr e \<longleftrightarrow> 0 \<le> n \<and> e = \<lparr>je_category = c, je_debitAccountId = d,
     je_creditAccountId = k, je_amount = n\<rparr>"
  by (auto simp: journalEntry_def andthen_Inr_iff)

lemma royaltyEntries_amounts:
  "collect (royaltyEntry d) cs = Inr es \<Longrightarrow> map je_amount es = map cr_amount cs
     \<and> (\<forall>e \<in> set es. 0 \<le> je_amount e)"
  by (induction cs arbitrary: es) (auto simp: royaltyEntry_def)

lemma allocateRoyaltyGraph_sum:
  "allocateRoyaltyGraph st (JBig pool) leafId skills p = Inr r \<Longrightarrow>
     sum_list (map cr_amount (ro_credits r)) = pool"
  by (auto simp: allocateRoyaltyGraph_def Let_def split: option.splits if_splits)

lemma allocateExternalGross_obtains:
  assumes "allocateExternalGross st input = Inr a"
  obtains gross ec sc rr fee pool r es where
    "floorBps (JBig gross) (xi_protocolFeeBps input) = Inr fee"
    and "requireCoveredGross gross [ec, sc, fee, rr] = Inr pool"
    and "allocateRoyaltyGraph st (JBig pool) (xi_leafSkillId input) (xi_skills input)
        (xi_allocationPolicy input) = Inr r"
    and "collect (royaltyEntry ''wielder:external-gross'') (ro_credits r) = Inr es"
    and "0 \<le> ec" and "0 \<le> sc" and "0 \<le> rr" and "0 \<le> fee"
    and "xa_gross a = gross" and "xa_executionCost a = ec" and "xa_settlementCost a = sc"
    and "xa_refundReserve a = rr" and "xa_protocolFee a = fee" and "xa_royaltyPool a = pool"
    and "xa_credits a = ro_credits r"
    and "map je_amount (xa_journal a) = [ec, sc, fee, rr] @ map je_amount es"
proof -
  from assms show thesis
    unfolding allocateExternalGross_def Let_def
    by (elim andthen_InrE) (rule that, (assumption | (clarsimp; fail))+)
qed

text \<open>The journal of an external gross amount balances: its entries are never negative and add up
  to the gross exactly, the protocol fee is the truncated share of the gross, and what is left after
  costs, fee and reserve is what the royalty credits add up to.\<close>

theorem external_journal_balances:
  assumes "allocateExternalGross st input = Inr a"
  shows "sum_list (map je_amount (xa_journal a)) = xa_gross a
    \<and> (\<forall>e \<in> set (xa_journal a). 0 \<le> je_amount e)
    \<and> (\<exists>bps. xi_protocolFeeBps input = JNum bps \<and> xa_protocolFee a = xa_gross a * bps div 10000)
    \<and> sum_list (map cr_amount (xa_credits a)) = xa_royaltyPool a
    \<and> xa_royaltyPool a = xa_gross a - xa_executionCost a - xa_settlementCost a - xa_protocolFee a
        - xa_refundReserve a"
proof -
  from assms obtain gross ec sc rr fee pool r es where
      fee: "floorBps (JBig gross) (xi_protocolFeeBps input) = Inr fee"
    and pool: "requireCoveredGross gross [ec, sc, fee, rr] = Inr pool"
    and r: "allocateRoyaltyGraph st (JBig pool) (xi_leafSkillId input) (xi_skills input)
        (xi_allocationPolicy input) = Inr r"
    and es: "collect (royaltyEntry ''wielder:external-gross'') (ro_credits r) = Inr es"
    and pos: "0 \<le> ec" "0 \<le> sc" "0 \<le> rr" "0 \<le> fee"
    and a: "xa_gross a = gross" "xa_executionCost a = ec" "xa_settlementCost a = sc"
        "xa_refundReserve a = rr" "xa_protocolFee a = fee" "xa_royaltyPool a = pool"
        "xa_credits a = ro_credits r"
    and j: "map je_amount (xa_journal a) = [ec, sc, fee, rr] @ map je_amount es"
    by (rule allocateExternalGross_obtains)
  have p: "pool = gross - (ec + sc + fee + rr)"
    using pool by (simp add: requireCoveredGross_def Let_def algebra_simps split: if_splits)
  note rs = royaltyEntries_amounts [OF es] allocateRoyaltyGraph_sum [OF r]
  have "je_amount ` set (xa_journal a) = set ([ec, sc, fee, rr] @ map je_amount es)"
    using j by (metis list.set_map)
  moreover have "\<forall>n \<in> set (map je_amount es). 0 \<le> n" unfolding set_map using rs(1) by blast
  ultimately have "\<forall>n \<in> je_amount ` set (xa_journal a). 0 \<le> n" using pos by simp
  moreover have "sum_list (map je_amount (xa_journal a)) = gross" using rs p j by simp
  moreover from fee obtain bps where "xi_protocolFeeBps input = JNum bps" "fee = gross * bps div 10000"
    by (auto simp: floorBps_Inr)
  ultimately show ?thesis using a rs p by auto
qed

definition demo_external :: external_input where
  "demo_external = \<lparr>xi_gross = JBig 2000003, xi_executionCost = JBig 400000,
     xi_settlementCost = JBig 1000, xi_protocolFeeBps = JNum 250, xi_refundReserve = JBig 5,
     xi_leafSkillId = JStr ''leaf'', xi_skills = Some demo_skills, xi_allocationPolicy = JUndef\<rparr>"

theorem external_journal_balances_witness:
  "\<exists>a. allocateExternalGross no_text demo_external = Inr a
     \<and> sum_list (map je_amount (xa_journal a)) = 2000003"
proof -
  have "case allocateExternalGross no_text demo_external of
      Inr a \<Rightarrow> xa_gross a = 2000003 | Inl e \<Rightarrow> False" by code_simp
  then obtain a where "allocateExternalGross no_text demo_external = Inr a" "xa_gross a = 2000003"
    by (auto split: sum.splits)
  with external_journal_balances [OF this(1)] show ?thesis by auto
qed

text \<open>A journal entry as the object the code persists, its properties in any order.\<close>

definition entry_object :: "journal_entry \<Rightarrow> jsval \<Rightarrow> bool" where
  "entry_object e v \<longleftrightarrow>
     (\<exists>kvs. v = JObj kvs \<and> mset kvs = mset [(''category'', JStr (je_category e)),
        (''debitAccountId'', JStr (je_debitAccountId e)),
        (''creditAccountId'', JStr (je_creditAccountId e)),
        (''amountAtomic'', JBig (je_amount e))])"

lemma mset_reorder: "mset [c, d, r, a] = mset [a, c, r, d]"
  by (simp add: add_mset_commute)

lemma entry_object_same:
  assumes "entry_object e v"
  shows "sameInternalJournalEntry v e"
proof -
  let ?kvs = "[(''category'', JStr (je_category e)), (''debitAccountId'', JStr (je_debitAccountId e)),
      (''creditAccountId'', JStr (je_creditAccountId e)), (''amountAtomic'', JBig (je_amount e))]"
  let ?keys = "[''amountAtomic'', ''category'', ''creditAccountId'', ''debitAccountId'']"
  from assms obtain kvs where v: "v = JObj kvs" and m: "mset kvs = mset ?kvs"
    by (auto simp: entry_object_def)
  have "mset (map fst kvs) = image_mset fst (mset kvs)" by simp
  also have "\<dots> = mset [''category'', ''debitAccountId'', ''creditAccountId'', ''amountAtomic'']"
    unfolding m by simp
  also have "\<dots> = mset ?keys" by (rule mset_reorder)
  finally have keys: "mset (map fst kvs) = mset ?keys" .
  have "sorted ?keys" by code_simp
  then have "sort (map fst kvs) = ?keys" by (rule properties_for_sort [OF keys [symmetric]])
  moreover have "distinct (map fst kvs)"
    unfolding mset_eq_imp_distinct_iff [OF keys] by simp
  then have got: "get_prop kvs k = x" if "(k, x) \<in> set kvs" for k x
    using map_of_is_SomeI [OF _ that] by (simp add: get_prop_def)
  have "set kvs = set ?kvs" by (rule mset_eq_setD [OF m])
  then have "get_prop kvs ''category'' = JStr (je_category e)"
      "get_prop kvs ''debitAccountId'' = JStr (je_debitAccountId e)"
      "get_prop kvs ''creditAccountId'' = JStr (je_creditAccountId e)"
      "get_prop kvs ''amountAtomic'' = JBig (je_amount e)"
    by (intro got; simp)+
  ultimately show ?thesis by (simp add: sameInternalJournalEntry_def v)
qed

lemma sameInternalJournalEntry_amount:
  assumes "sameInternalJournalEntry v e"
  shows "\<exists>kvs. v = JObj kvs \<and> get_prop kvs ''amountAtomic'' = JBig (je_amount e)
    \<and> get_prop kvs ''creditAccountId'' = JStr (je_creditAccountId e)"
  using assms by (auto simp: sameInternalJournalEntry_def split: jsval.splits)

lemma same_entries:
  "\<not> list_ex (\<lambda>(a, e). \<not> sameInternalJournalEntry a e) (zip vs es)
     \<longleftrightarrow> (\<forall>(a, e) \<in> set (zip vs es). sameInternalJournalEntry a e)"
  by (auto simp: list_ex_iff)

text \<open>A journal the kernel computed is accepted back. Whatever order the properties of the
  persisted entries have, \<^verbatim>\<open>validateInternalJournalEntries\<close> accepts the journal of a successful
  internal allocation unchanged.\<close>

theorem internal_journal_roundtrip:
  assumes "allocateInternalGross st amounts = Inr a"
    and "list_all2 entry_object (ia_journal a) vs"
  shows "validateInternalJournalEntries st
      (Some \<lparr>jc_kind = JStr ''succeeded'', jc_amounts = amounts, jc_journal = Some vs\<rparr>) = Inr vs"
proof -
  have "length vs = length (ia_journal a)" using assms(2) by (auto dest: list_all2_lengthD)
  moreover have "\<forall>(v, e) \<in> set (zip vs (ia_journal a)). sameInternalJournalEntry v e"
    using assms(2) by (auto simp: set_zip list_all2_conv_all_nth intro!: entry_object_same)
  ultimately show ?thesis
    using assms(1) by (simp add: validateInternalJournalEntries_def expectedJournal_def same_entries)
qed

definition demo_internal :: internal_input where
  "demo_internal = \<lparr>ii_gross = JBig 1000, ii_executionCost = JBig 300, ii_protocolFee = JBig 20,
     ii_refundReserve = JBig 5, ii_recipientId = JStr ''eve'', ii_employerId = JStr ''acme''\<rparr>"

definition demo_entry :: "journal_entry \<Rightarrow> jsval" where
  "demo_entry e = JObj [(''category'', JStr (je_category e)),
     (''debitAccountId'', JStr (je_debitAccountId e)),
     (''creditAccountId'', JStr (je_creditAccountId e)), (''amountAtomic'', JBig (je_amount e))]"

lemma demo_internal_allocates: "\<exists>a. allocateInternalGross no_text demo_internal = Inr a \<and> ia_gross a = 1000"
proof -
  have "case allocateInternalGross no_text demo_internal of
      Inr a \<Rightarrow> ia_gross a = 1000 | Inl e \<Rightarrow> False" by code_simp
  then show ?thesis by (auto split: sum.splits)
qed

theorem internal_journal_roundtrip_witness:
  "\<exists>a :: internal_allocation. validateInternalJournalEntries no_text
      (Some \<lparr>jc_kind = JStr ''succeeded'', jc_amounts = demo_internal,
             jc_journal = Some (map demo_entry (ia_journal a))\<rparr>) = Inr (map demo_entry (ia_journal a))"
proof -
  obtain a where a: "allocateInternalGross no_text demo_internal = Inr a"
    using demo_internal_allocates by blast
  have "list_all2 entry_object (ia_journal a) (map demo_entry (ia_journal a))"
    by (simp add: list_all2_map2 list_all2_same entry_object_def demo_entry_def)
  from internal_journal_roundtrip [OF a this] show ?thesis by blast
qed

lemma sum_zip_amounts:
  assumes "\<forall>(v, e) \<in> set (zip vs es). sameInternalJournalEntry v e" and "length vs = length es"
  shows "\<exists>ns. list_all2 (\<lambda>v n. \<exists>kvs. v = JObj kvs \<and> get_prop kvs ''amountAtomic'' = JBig n) vs ns
    \<and> ns = map je_amount es"
  using assms
proof (induction vs arbitrary: es)
  case (Cons v vs)
  from Cons.prems obtain e rest where es: "es = e # rest" by (cases es) auto
  from Cons.IH [of rest] Cons.prems es sameInternalJournalEntry_amount [of v e] show ?case by auto
qed simp

lemma allocateInternalGross_obtains:
  assumes "allocateInternalGross st input = Inr a"
  obtains gross where "ii_gross input = JBig gross"
    and "sum_list (map je_amount (ia_journal a)) = gross"
    and "ia_award a = gross - ia_executionCost a - ia_protocolFee a - ia_refundReserve a"
    and "0 \<le> ia_award a" and "ia_recipientId a \<noteq> []"
    and "employerIs st (ii_employerId input) (ia_recipientId a) = Inr False"
    and "je_creditAccountId (last (ia_journal a)) = ''employee:'' @ ia_recipientId a"
    and "je_amount (last (ia_journal a)) = ia_award a"
proof -
  from assms show thesis
    unfolding allocateInternalGross_def Let_def requireCoveredGross_def
    by (elim andthen_InrE) (rule that, (fastforce simp: algebra_simps split: if_splits)+)
qed

text \<open>An accepted internal journal balances and never pays the employer. When
  \<^verbatim>\<open>validateInternalJournalEntries\<close> accepts entries for a success, their amounts add up to the
  gross amount exactly, and the last entry pays the award, what is left after the costs, to a
  non-empty recipient other than the employer.\<close>

theorem internal_journal_sound:
  assumes "validateInternalJournalEntries st (Some check) = Inr vs"
    and "jc_kind check = JStr ''succeeded''"
  shows "\<exists>a ns. allocateInternalGross st (jc_amounts check) = Inr a
    \<and> list_all2 (\<lambda>v n. \<exists>kvs. v = JObj kvs \<and> get_prop kvs ''amountAtomic'' = JBig n) vs ns
    \<and> ii_gross (jc_amounts check) = JBig (sum_list ns)
    \<and> ns \<noteq> [] \<and> last ns = ia_award a \<and> 0 \<le> ia_award a
    \<and> ia_recipientId a \<noteq> []
    \<and> employerIs st (ii_employerId (jc_amounts check)) (ia_recipientId a) = Inr False"
proof -
  from assms obtain a where a: "allocateInternalGross st (jc_amounts check) = Inr a"
    and len: "length vs = length (ia_journal a)"
    and same: "\<not> list_ex (\<lambda>(a, e). \<not> sameInternalJournalEntry a e) (zip vs (ia_journal a))"
    by (auto simp: validateInternalJournalEntries_def expectedJournal_def
        split: option.splits if_splits)
  from same have "\<forall>(v, e) \<in> set (zip vs (ia_journal a)). sameInternalJournalEntry v e"
    by (simp add: same_entries)
  note ns = sum_zip_amounts [OF this len]
  have j: "ia_journal a \<noteq> []" using a by (auto simp: allocateInternalGross_def Let_def split: if_splits)
  from a show ?thesis
    by (rule allocateInternalGross_obtains) (use ns a j in \<open>auto simp: last_map\<close>)
qed

theorem internal_journal_sound_witness:
  "\<exists>a :: internal_allocation. ia_recipientId a \<noteq> []
     \<and> employerIs no_text (JStr ''acme'') (ia_recipientId a) = Inr False"
proof -
  obtain a where a: "allocateInternalGross no_text demo_internal = Inr a"
    using demo_internal_allocates by blast
  let ?check = "\<lparr>jc_kind = JStr ''succeeded'', jc_amounts = demo_internal,
      jc_journal = Some (map demo_entry (ia_journal a))\<rparr>"
  have "list_all2 (\<lambda>e v. sameInternalJournalEntry v e) (ia_journal a) (map demo_entry (ia_journal a))"
    by (simp add: list_all2_map2 list_all2_same entry_object_same entry_object_def demo_entry_def)
  then have "\<forall>(v, e) \<in> set (zip (map demo_entry (ia_journal a)) (ia_journal a)). sameInternalJournalEntry v e"
    by (auto simp: list_all2_conv_all_nth set_zip)
  then have "validateInternalJournalEntries no_text (Some ?check) = Inr (map demo_entry (ia_journal a))"
    using a by (simp add: validateInternalJournalEntries_def expectedJournal_def same_entries)
  from internal_journal_sound [OF this] show ?thesis by (auto simp: demo_internal_def)
qed

end
