(* ===== verification/AuthorizedPermit.thy ===== *)
theory AuthorizedPermit
  imports PolicyEngine IsoTime "HOL-Library.Word"
begin

text \<open>
  The permits of \<^verbatim>\<open>src/spikes/pi-wielder/src/kernel/authorized-permit.mjs\<close>: the closed binding
  a signature is made under, the window in which a signed authorization is valid, and the authority
  that issues one-time permits.

  A permit is an object, known by its identity alone. The two weak collections of the authority,
  keyed by identity, are association lists; an identity is either the n-th permit of this authority or
  one that it never made.
\<close>

section \<open>Bindings\<close>

record binding =
  bd_intentId :: string
  bd_intentHash :: string
  bd_challengeHash :: string
  bd_quoteId :: string
  bd_acceptedIndex :: int
  bd_requestUrl :: string
  bd_resourceDescription :: string
  bd_resourceMimeType :: string
  bd_walletAddress :: string
  bd_payTo :: string
  bd_amountAtomic :: string
  bd_validBefore :: string
  bd_nonce :: string
  bd_policyVersionId :: string

definition BINDING_FIELDS :: "string list" where
  "BINDING_FIELDS =
     [''intentId'', ''intentHash'', ''challengeHash'', ''quoteId'', ''acceptedIndex'',
      ''requestUrl'', ''resourceDescription'', ''resourceMimeType'', ''scheme'', ''network'',
      ''asset'', ''walletAddress'', ''payTo'', ''amountAtomic'', ''validAfter'', ''validBefore'',
      ''nonce'', ''policyVersionId'']"

definition MAX_UINT256 :: int where
  "MAX_UINT256 = 2 ^ 256 - 1"

definition nonce_pattern :: "string \<Rightarrow> bool" where
  "nonce_pattern s \<longleftrightarrow> length s = 66 \<and> take 2 s = ''0x'' \<and> list_all is_lower_hex (drop 2 s)"

definition permitAddress :: "jsval \<Rightarrow> string res" where
  "permitAddress v =
     (case v of
        JStr s \<Rightarrow> if \<not> canonical_address_pattern s then fail ''PERMIT_BINDING'' else Inr s
      | _ \<Rightarrow> fail ''PERMIT_BINDING'')"

definition canonicalUint256 :: "jsval \<Rightarrow> bool \<Rightarrow> string res" where
  "canonicalUint256 v positive =
     andthen (rethrow_as ''PERMIT_BINDING'' (canonicalAtomic v)) (\<lambda>atomic.
     if (positive \<and> text_int atomic = 0) \<or> MAX_UINT256 < text_int atomic
     then fail ''PERMIT_BINDING'' else Inr atomic)"

definition canonicalRequestUrl :: "host \<Rightarrow> jsval \<Rightarrow> string res" where
  "canonicalRequestUrl h v =
     andthen (boundedString v ''PERMIT_BINDING'' 4096) (\<lambda>value.
     case h_url h value None of
       None \<Rightarrow> fail ''PERMIT_BINDING''
     | Some parsed \<Rightarrow>
         if (u_protocol parsed \<noteq> ''https:'' \<and> \<not> isCanonicalLiteralLoopbackHttp value parsed)
            \<or> u_username parsed \<noteq> [] \<or> u_password parsed \<noteq> [] \<or> u_hash parsed \<noteq> []
            \<or> u_origin parsed = ''null'' \<or> u_href parsed \<noteq> value
         then fail ''PERMIT_BINDING'' else Inr value)"

definition canonicalIntentId :: "jsval \<Rightarrow> string res" where
  "canonicalIntentId v = rethrow_as ''PERMIT_BINDING'' (canonicalToken v)"

definition canonicalPolicyVersionId :: "jsval \<Rightarrow> string res" where
  "canonicalPolicyVersionId v = rethrow_as ''PERMIT_BINDING'' (canonicalToken v)"

definition boundedResourceDescription :: "jsval \<Rightarrow> string res" where
  "boundedResourceDescription v =
     andthen (boundedString v ''PERMIT_BINDING'' 1024) (\<lambda>s.
     if list_ex (\<lambda>c. code_of c < 32 \<or> code_of c = 127) s then fail ''PERMIT_BINDING'' else Inr s)"

definition canonicalResourceMimeType :: "jsval \<Rightarrow> string res" where
  "canonicalResourceMimeType v =
     (case v of
        JStr s \<Rightarrow>
          if 200 < utf8_length s \<or> \<not> mime_pattern s then fail ''PERMIT_BINDING'' else Inr s
      | _ \<Rightarrow> fail ''PERMIT_BINDING'')"

text \<open>The fields with one admitted value.\<close>

definition permitConstants :: "(string \<times> jsval) list \<Rightarrow> bool" where
  "permitConstants b \<longleftrightarrow>
     get_prop b ''scheme'' = JStr ''exact''
     \<and> get_prop b ''network'' = JStr BASE_SEPOLIA
     \<and> get_prop b ''asset'' = JStr BASE_SEPOLIA_USDC
     \<and> get_prop b ''validAfter'' = JStr ''0''"

definition validatePermitBinding :: "host \<Rightarrow> jsval \<Rightarrow> binding res" where
  "validatePermitBinding h value =
     andthen (exactRecord value BINDING_FIELDS [] ''PERMIT_BINDING'') (\<lambda>b.
     andthen (nonnegativeSafeInteger (get_prop b ''acceptedIndex'') ''PERMIT_BINDING'')
       (\<lambda>acceptedIndex.
     if \<not> permitConstants b then fail ''PERMIT_BINDING''
     else
       case get_prop b ''nonce'' of
         JStr nonce \<Rightarrow>
           if \<not> nonce_pattern nonce then fail ''PERMIT_BINDING''
           else
             andthen (canonicalHash (get_prop b ''challengeHash'') ''PERMIT_BINDING'')
               (\<lambda>challengeHash.
             andthen (canonicalHash (get_prop b ''quoteId'') ''PERMIT_BINDING'') (\<lambda>quoteId.
             andthen (quoteIdOf h challengeHash acceptedIndex) (\<lambda>expected.
             if quoteId \<noteq> expected then fail ''PERMIT_BINDING''
             else
               andthen (canonicalIntentId (get_prop b ''intentId'')) (\<lambda>intentId.
               andthen (canonicalHash (get_prop b ''intentHash'') ''PERMIT_BINDING'') (\<lambda>intentHash.
               andthen (canonicalRequestUrl h (get_prop b ''requestUrl'')) (\<lambda>requestUrl.
               andthen (boundedResourceDescription (get_prop b ''resourceDescription''))
                 (\<lambda>description.
               andthen (canonicalResourceMimeType (get_prop b ''resourceMimeType'')) (\<lambda>mime.
               andthen (permitAddress (get_prop b ''walletAddress'')) (\<lambda>wallet.
               andthen (permitAddress (get_prop b ''payTo'')) (\<lambda>payTo.
               andthen (canonicalUint256 (get_prop b ''amountAtomic'') True) (\<lambda>amount.
               andthen (canonicalUint256 (get_prop b ''validBefore'') True) (\<lambda>validBefore.
               andthen (canonicalPolicyVersionId (get_prop b ''policyVersionId''))
                 (\<lambda>policyVersionId.
               Inr \<lparr>bd_intentId = intentId, bd_intentHash = intentHash,
                    bd_challengeHash = challengeHash, bd_quoteId = quoteId,
                    bd_acceptedIndex = acceptedIndex, bd_requestUrl = requestUrl,
                    bd_resourceDescription = description, bd_resourceMimeType = mime,
                    bd_walletAddress = wallet, bd_payTo = payTo, bd_amountAtomic = amount,
                    bd_validBefore = validBefore, bd_nonce = nonce,
                    bd_policyVersionId = policyVersionId\<rparr>)))))))))))))
       | _ \<Rightarrow> fail ''PERMIT_BINDING''))"

section \<open>The authorization window\<close>

text \<open>What the injected \<^verbatim>\<open>randomBytes\<close> is and what its call gives.\<close>

datatype random_source =
    NotAFunction
  | Throws js_error
  | NotBytes
  | Bytes "8 word list"

definition WINDOW_FIELDS :: "string list" where
  "WINDOW_FIELDS =
     [''nowMs'', ''challengeReceivedAtMs'', ''challengeMaxAgeMs'', ''approvalExpiresAt'',
      ''maxTimeoutSeconds'', ''randomBytes'']"

definition closedWindowInput :: "jsval \<Rightarrow> (string \<times> jsval) list res" where
  "closedWindowInput v =
     (case v of
        JObj kvs \<Rightarrow>
          if list_ex (\<lambda>f. \<not> has_own kvs f) WINDOW_FIELDS
             \<or> list_ex (\<lambda>kv. fst kv \<notin> set WINDOW_FIELDS) kvs
          then fail ''AUTHORIZATION_WINDOW'' else Inr kvs
      | _ \<Rightarrow> fail ''AUTHORIZATION_WINDOW'')"

definition nonnegativeSafeMilliseconds :: "jsval \<Rightarrow> int res" where
  "nonnegativeSafeMilliseconds v = nonnegativeSafeInteger v ''AUTHORIZATION_WINDOW''"

definition windowInteger :: "jsval \<Rightarrow> int \<Rightarrow> int res" where
  "windowInteger v maximum = positiveSafeInteger v ''AUTHORIZATION_WINDOW'' maximum"

definition canonicalApprovalExpiry :: "jsval \<Rightarrow> string option res" where
  "canonicalApprovalExpiry v =
     (if v = JNull then Inr None
      else andthen (rethrow_as ''AUTHORIZATION_WINDOW'' (canonicalTimestamp v)) (\<lambda>t. Inr (Some t)))"

definition byte_hex :: "8 word \<Rightarrow> string" where
  "byte_hex b = [hex_char (unat b div 16), hex_char (unat b mod 16)]"

definition randomNonce :: "random_source \<Rightarrow> string res" where
  "randomNonce source =
     (case source of
        NotAFunction \<Rightarrow> fail ''AUTHORIZATION_WINDOW''
      | Throws e \<Rightarrow> Inl e
      | NotBytes \<Rightarrow> fail ''AUTHORIZATION_RANDOMNESS''
      | Bytes bytes \<Rightarrow>
          if length bytes \<noteq> 32 then fail ''AUTHORIZATION_RANDOMNESS''
          else Inr (''0x'' @ concat (map byte_hex bytes)))"

record authorization_window =
  aw_nonce :: string
  aw_validAfter :: string
  aw_validBefore :: string

text \<open>The three deadlines in seconds and their minimum.\<close>

definition validBeforeSeconds :: "int \<Rightarrow> int \<Rightarrow> int \<Rightarrow> int \<Rightarrow> string option \<Rightarrow> int" where
  "validBeforeSeconds nowMs receivedMs maxAgeMs timeout expiry =
     (let challengeDeadline = (receivedMs + maxAgeMs) div 1000;
          approvalDeadline = (case expiry of None \<Rightarrow> challengeDeadline
                                           | Some t \<Rightarrow> date_ms t div 1000)
      in min (nowMs div 1000 + timeout) (min challengeDeadline approvalDeadline))"

definition deriveAuthorizationWindow :: "random_source \<Rightarrow> jsval \<Rightarrow> authorization_window res" where
  "deriveAuthorizationWindow source value =
     andthen (closedWindowInput value) (\<lambda>input.
     andthen (nonnegativeSafeMilliseconds (get_prop input ''nowMs'')) (\<lambda>nowMs.
     andthen (nonnegativeSafeMilliseconds (get_prop input ''challengeReceivedAtMs'')) (\<lambda>receivedMs.
     andthen (windowInteger (get_prop input ''challengeMaxAgeMs'') MAX_SAFE_INTEGER) (\<lambda>maxAgeMs.
     andthen (windowInteger (get_prop input ''maxTimeoutSeconds'') 3600) (\<lambda>timeout.
     andthen (canonicalApprovalExpiry (get_prop input ''approvalExpiresAt'')) (\<lambda>expiry.
     if nowMs < receivedMs \<or> MAX_SAFE_INTEGER - maxAgeMs < receivedMs
     then fail ''AUTHORIZATION_WINDOW''
     else
       let validBefore = validBeforeSeconds nowMs receivedMs maxAgeMs timeout expiry in
       if \<not> isSafeInteger (JNum validBefore) \<or> validBefore \<le> nowMs div 1000
       then fail ''AUTHORIZATION_WINDOW''
       else
         andthen (randomNonce source) (\<lambda>nonce.
         Inr \<lparr>aw_nonce = nonce, aw_validAfter = ''0'', aw_validBefore = int_text validBefore\<rparr>)))))))"

section \<open>The authority\<close>

datatype permit = Issued nat | Foreign nat

record authority_state =
  as_made :: nat
  as_live :: "(permit \<times> binding) list"
  as_consumed :: "permit list"

definition createPermitAuthority :: authority_state where
  "createPermitAuthority = \<lparr>as_made = 0, as_live = [], as_consumed = []\<rparr>"

definition issue :: "host \<Rightarrow> jsval \<Rightarrow> authority_state \<Rightarrow> authority_state \<times> permit res" where
  "issue h value s =
     (case validatePermitBinding h value of
        Inl e \<Rightarrow> (s, Inl e)
      | Inr b \<Rightarrow>
          (let p = Issued (as_made s) in
           (s\<lparr>as_made := as_made s + 1, as_live := (p, b) # as_live s\<rparr>, Inr p)))"

definition verifyAndConsume :: "permit \<Rightarrow> authority_state \<Rightarrow> authority_state \<times> binding res" where
  "verifyAndConsume p s =
     (if p \<in> set (as_consumed s) then (s, Inl (JsError ''PERMIT_CONSUMED''))
      else
        case map_of (as_live s) p of
          None \<Rightarrow> (s, Inl (JsError ''PERMIT_FORGED''))
        | Some b \<Rightarrow>
            (s\<lparr>as_live := filter (\<lambda>kv. fst kv \<noteq> p) (as_live s), as_consumed := p # as_consumed s\<rparr>,
             Inr b))"

end
