(* ===== verification/PermitProperties.thy ===== *)
theory PermitProperties
  imports AuthorizedPermit PolicyProperties
begin

text \<open>
  What an authorized permit promises: it works exactly once, for the binding it was issued for, and a
  derived authorization window lies inside every deadline.
\<close>

section \<open>The authority along a run\<close>

text \<open>
  The history of an authority: which permits it made, for which validated binding, and which were
  used. Any value may be presented; a refused call leaves no mark.
\<close>

datatype permit_event = Made permit binding | Used permit binding

inductive permit_run :: "host \<Rightarrow> permit_event list \<Rightarrow> authority_state \<Rightarrow> bool" for h where
  start: "permit_run h [] createPermitAuthority"
| issued: "\<lbrakk>permit_run h tr s; issue h v s = (s', Inr p); validatePermitBinding h v = Inr b\<rbrakk>
    \<Longrightarrow> permit_run h (tr @ [Made p b]) s'"
| not_issued: "\<lbrakk>permit_run h tr s; issue h v s = (s', Inl e)\<rbrakk> \<Longrightarrow> permit_run h tr s'"
| used: "\<lbrakk>permit_run h tr s; verifyAndConsume p s = (s', Inr b)\<rbrakk> \<Longrightarrow> permit_run h (tr @ [Used p b]) s'"
| refused: "\<lbrakk>permit_run h tr s; verifyAndConsume p s = (s', Inl e)\<rbrakk> \<Longrightarrow> permit_run h tr s'"

definition unused :: "permit_event list \<Rightarrow> permit \<Rightarrow> binding \<Rightarrow> bool" where
  "unused tr p b \<longleftrightarrow> Made p b \<in> set tr \<and> (\<forall>c. Used p c \<notin> set tr)"

text \<open>The collections hold the unused permits and the used ones; identities are never made twice.\<close>

definition permits_ok :: "permit_event list \<Rightarrow> authority_state \<Rightarrow> bool" where
  "permits_ok tr s \<longleftrightarrow>
     distinct (map fst (as_live s))
     \<and> (\<forall>p b. (p, b) \<in> set (as_live s) \<longleftrightarrow> unused tr p b)
     \<and> (\<forall>p. p \<in> set (as_consumed s) \<longleftrightarrow> (\<exists>b. Used p b \<in> set tr))
     \<and> (\<forall>p b. Made p b \<in> set tr \<longrightarrow> (\<exists>n < as_made s. p = Issued n))
     \<and> (\<forall>p b. Used p b \<in> set tr \<longrightarrow> Made p b \<in> set tr)"

lemma permits_ok_fresh:
  assumes "permits_ok tr s"
  shows "Made (Issued (as_made s)) b \<notin> set tr" and "Used (Issued (as_made s)) b \<notin> set tr"
    and "Issued (as_made s) \<notin> fst ` set (as_live s)"
  using assms by (fastforce simp: permits_ok_def unused_def)+

lemma permits_ok_issue:
  assumes "permits_ok tr s" and "issue h v s = (s', Inr p)" and "validatePermitBinding h v = Inr b"
  shows "permits_ok (tr @ [Made p b]) s'"
proof -
  from assms(2,3) have s': "p = Issued (as_made s)"
      "s' = s\<lparr>as_made := as_made s + 1, as_live := (p, b) # as_live s\<rparr>"
    by (auto simp: issue_def Let_def)
  from permits_ok_fresh [OF assms(1)] s'(1)
  have "\<forall>b. Made p b \<notin> set tr" "\<forall>b. Used p b \<notin> set tr" "p \<notin> fst ` set (as_live s)" by auto
  with assms(1) s' show ?thesis
    unfolding permits_ok_def unused_def
    by (auto simp: less_Suc_eq)
qed

lemma permits_ok_use:
  assumes "permits_ok tr s" and "verifyAndConsume p s = (s', Inr b)"
  shows "permits_ok (tr @ [Used p b]) s'"
proof -
  from assms(2) have m: "map_of (as_live s) p = Some b"
    and s': "s' = s\<lparr>as_live := filter (\<lambda>kv. fst kv \<noteq> p) (as_live s), as_consumed := p # as_consumed s\<rparr>"
    by (auto simp: verifyAndConsume_def split: if_splits option.splits)
  from map_of_SomeD [OF m] assms(1) have "unused tr p b" by (simp add: permits_ok_def)
  with assms(1) s' show ?thesis
    unfolding permits_ok_def unused_def by (auto simp: distinct_map_filter)
qed

lemma permit_run_ok: "permit_run h tr s \<Longrightarrow> permits_ok tr s"
proof (induction rule: permit_run.induct)
  case start
  then show ?case by (simp add: permits_ok_def unused_def createPermitAuthority_def)
next
  case (issued tr s v s' p b)
  then show ?case by (blast intro: permits_ok_issue)
next
  case (not_issued tr s v s' e)
  then show ?case by (auto simp: issue_def Let_def split: sum.splits)
next
  case (used tr s p s' b)
  then show ?case by (blast intro: permits_ok_use)
next
  case (refused tr s p s' e)
  then show ?case by (auto simp: verifyAndConsume_def split: if_splits option.splits)
qed

text \<open>C20: a permit is good exactly once. At every point of every run \<^verbatim>\<open>verifyAndConsume\<close> gives a
  binding if and only if this authority issued the permit for that very binding and nobody has used
  the permit before; a forged or foreign permit is always refused.\<close>

theorem permit_single_use:
  assumes "permit_run h tr s"
  shows "snd (verifyAndConsume p s) = Inr b
    \<longleftrightarrow> Made p b \<in> set tr \<and> (\<forall>c. Used p c \<notin> set tr)"
proof -
  have ok: "permits_ok tr s" by (rule permit_run_ok [OF assms])
  show ?thesis
  proof (cases "p \<in> set (as_consumed s)")
    case True
    with ok show ?thesis by (auto simp: permits_ok_def verifyAndConsume_def)
  next
    case False
    have d: "distinct (map fst (as_live s))" using ok by (simp add: permits_ok_def)
    have "snd (verifyAndConsume p s) = Inr b \<longleftrightarrow> map_of (as_live s) p = Some b"
      using False by (auto simp: verifyAndConsume_def split: option.splits)
    also have "\<dots> \<longleftrightarrow> (p, b) \<in> set (as_live s)" using d by (rule map_of_eq_Some_iff)
    finally show ?thesis using ok by (simp add: permits_ok_def unused_def)
  qed
qed

section \<open>Windows\<close>

lemma is_lower_hex_hex_char: "n < 16 \<Longrightarrow> is_lower_hex (hex_char n)"
  by (auto simp: hex_char_def is_lower_hex_def is_digit_def)

lemma byte_hex_ok: "length (byte_hex b) = 2 \<and> list_all is_lower_hex (byte_hex b)"
proof -
  have "unat b < 256" using unsigned_less [of b] by simp
  then have "unat b div 16 < 16" by (simp add: div_less_iff_less_mult)
  then show ?thesis by (simp add: byte_hex_def is_lower_hex_hex_char)
qed

lemma bytes_hex_ok: "length (concat (map byte_hex ws)) = 2 * length ws
    \<and> list_all is_lower_hex (concat (map byte_hex ws))"
  using byte_hex_ok by (induction ws) simp_all

lemma randomNonce_Inr: "randomNonce source = Inr n \<Longrightarrow> nonce_pattern n"
  using bytes_hex_ok by (auto simp: randomNonce_def nonce_pattern_def split: random_source.splits if_splits)

lemma positiveWindow_Inr [simp]:
  "windowInteger v m = Inr n \<longleftrightarrow> v = JNum n \<and> 1 \<le> n \<and> n \<le> m \<and> \<bar>n\<bar> \<le> MAX_SAFE_INTEGER"
  by (auto simp: windowInteger_def positiveSafeInteger_def split: jsval.splits)

lemma nonnegativeWindow_Inr [simp]:
  "nonnegativeSafeMilliseconds v = Inr n \<longleftrightarrow> v = JNum n \<and> 0 \<le> n \<and> n \<le> MAX_SAFE_INTEGER"
  by (auto simp: nonnegativeSafeMilliseconds_def nonnegativeSafeInteger_def split: jsval.splits)

lemma canonicalApprovalExpiry_Inr:
  "canonicalApprovalExpiry v = Inr e \<Longrightarrow> (case e of None \<Rightarrow> v = JNull | Some t \<Rightarrow> v = JStr t)"
  by (auto simp: canonicalApprovalExpiry_def canonicalTimestamp_def split: if_splits jsval.splits)

lemma div_le_mult: "n \<le> m div 1000 \<Longrightarrow> n * 1000 \<le> (m :: int)"
  by linarith

text \<open>C21: a derived window lies inside every deadline. It starts at zero and ends strictly after the
  current second, at most the protocol timeout (and an hour) later, no later than the challenge's age
  limit and no later than the approval's expiry; its nonce and its end are exactly what the binding
  of a permit accepts.\<close>

theorem window_within_deadlines:
  assumes "deriveAuthorizationWindow source (JObj input) = Inr w"
  shows "\<exists>now received age timeout vb.
     get_prop input ''nowMs'' = JNum now \<and> get_prop input ''challengeReceivedAtMs'' = JNum received
     \<and> get_prop input ''challengeMaxAgeMs'' = JNum age
     \<and> get_prop input ''maxTimeoutSeconds'' = JNum timeout \<and> timeout \<le> 3600
     \<and> aw_validBefore w = int_text vb \<and> aw_validAfter w = ''0''
     \<and> now div 1000 < vb \<and> vb \<le> now div 1000 + timeout
     \<and> vb * 1000 \<le> received + age
     \<and> (\<forall>t. get_prop input ''approvalExpiresAt'' = JStr t \<longrightarrow> vb * 1000 \<le> date_ms t)
     \<and> nonce_pattern (aw_nonce w)
     \<and> canonicalUint256 (JStr (aw_validBefore w)) True = Inr (aw_validBefore w)"
proof -
  from assms obtain now received age timeout expiry vb where
      g: "get_prop input ''nowMs'' = JNum now" "get_prop input ''challengeReceivedAtMs'' = JNum received"
        "get_prop input ''challengeMaxAgeMs'' = JNum age"
        "get_prop input ''maxTimeoutSeconds'' = JNum timeout" "timeout \<le> 3600" "0 \<le> now"
    and e: "canonicalApprovalExpiry (get_prop input ''approvalExpiresAt'') = Inr expiry"
    and vb: "vb = validBeforeSeconds now received age timeout expiry" "vb \<le> MAX_SAFE_INTEGER"
        "now div 1000 < vb"
    and n: "randomNonce source = Inr (aw_nonce w)"
    and w: "aw_validBefore w = int_text vb" "aw_validAfter w = ''0''"
    unfolding deriveAuthorizationWindow_def
    by (auto simp: Let_def closedWindowInput_def split: if_splits)
  have m: "vb \<le> now div 1000 + timeout" "vb \<le> (received + age) div 1000"
      "\<forall>t. expiry = Some t \<longrightarrow> vb \<le> date_ms t div 1000"
    unfolding vb(1) validBeforeSeconds_def Let_def by (auto simp: min_le_iff_disj)
  have "0 < vb" using vb(3) g(6) by (smt (verit) pos_imp_zdiv_nonneg_iff)
  moreover have "vb \<le> MAX_UINT256"
    using vb(2) by (simp add: MAX_SAFE_INTEGER_def MAX_UINT256_def)
  ultimately have u: "canonicalUint256 (JStr (int_text vb)) True = Inr (int_text vb)"
    by (simp add: canonicalUint256_def canonicalAtomic_def)
  have "\<forall>t. get_prop input ''approvalExpiresAt'' = JStr t \<longrightarrow> vb * 1000 \<le> date_ms t"
    using canonicalApprovalExpiry_Inr [OF e] m(3) by (auto intro: div_le_mult split: option.splits)
  with g w m vb(3) u randomNonce_Inr [OF n] show ?thesis
    by (intro exI conjI) (assumption | simp add: div_le_mult)+
qed

section \<open>Witnesses\<close>

definition demo_binding_input :: jsval where
  "demo_binding_input = JObj
     [(''intentId'', JStr ''i1''), (''intentHash'', JStr demo_hash),
      (''challengeHash'', JStr demo_hash), (''quoteId'', JStr demo_hash),
      (''acceptedIndex'', JNum 0), (''requestUrl'', JStr ''https://s.io/p''),
      (''resourceDescription'', JStr ''a page''), (''resourceMimeType'', JStr ''text/html''),
      (''scheme'', JStr ''exact''), (''network'', JStr BASE_SEPOLIA),
      (''asset'', JStr BASE_SEPOLIA_USDC), (''walletAddress'', JStr demo_address),
      (''payTo'', JStr demo_address), (''amountAtomic'', JStr ''10''),
      (''validAfter'', JStr ''0''), (''validBefore'', JStr ''61''),
      (''nonce'', JStr (''0x'' @ replicate 64 CHR ''a'')), (''policyVersionId'', JStr ''v1'')]"

definition demo_window_input :: "(string \<times> jsval) list" where
  "demo_window_input =
     [(''nowMs'', JNum 5000), (''challengeReceivedAtMs'', JNum 1000),
      (''challengeMaxAgeMs'', JNum 60000), (''approvalExpiresAt'', JNull),
      (''maxTimeoutSeconds'', JNum 30), (''randomBytes'', JExotic)]"

lemma demo_binding_valid: "\<exists>b. validatePermitBinding demo_host demo_binding_input = Inr b"
proof -
  have "case validatePermitBinding demo_host demo_binding_input of Inr b \<Rightarrow> True | Inl e \<Rightarrow> False"
    by code_simp
  then show ?thesis by (auto split: sum.splits)
qed

theorem permit_single_use_witness:
  "\<exists>s b. permit_run demo_host [Made (Issued 0) b] s \<and> snd (verifyAndConsume (Issued 0) s) = Inr b
     \<and> (\<forall>c. snd (verifyAndConsume (Foreign 0) s) \<noteq> Inr c)"
proof -
  obtain b where b: "validatePermitBinding demo_host demo_binding_input = Inr b"
    using demo_binding_valid by blast
  define s where "s = fst (issue demo_host demo_binding_input createPermitAuthority)"
  have "issue demo_host demo_binding_input createPermitAuthority = (s, Inr (Issued 0))"
    using b by (simp add: s_def issue_def createPermitAuthority_def Let_def)
  from permit_run.issued [OF permit_run.start this b]
  have run: "permit_run demo_host [Made (Issued 0) b] s" by simp
  with permit_single_use [OF run] show ?thesis by (intro exI [of _ s] exI [of _ b]) simp
qed

theorem window_within_deadlines_witness:
  "\<exists>w. deriveAuthorizationWindow (Bytes (replicate 32 171)) (JObj demo_window_input) = Inr w
     \<and> canonicalUint256 (JStr (aw_validBefore w)) True = Inr (aw_validBefore w)"
proof -
  have "case deriveAuthorizationWindow (Bytes (replicate 32 171)) (JObj demo_window_input) of
      Inr w \<Rightarrow> True | Inl e \<Rightarrow> False" by code_simp
  then obtain w where "deriveAuthorizationWindow (Bytes (replicate 32 171)) (JObj demo_window_input) = Inr w"
    by (auto split: sum.splits)
  with window_within_deadlines [OF this] show ?thesis by blast
qed

end
