(* ===== verification/ApprovalAuthority.thy ===== *)
theory ApprovalAuthority
  imports KernelStore
begin

text \<open>
  The first half of \<^verbatim>\<open>src/spikes/pi-wielder/src/kernel/approval-queue.mjs\<close>: the authority behind an
  approval. \<^verbatim>\<open>loadAuthority\<close> joins an intent with its decision, session, enrollment and policy
  version, checks every binding between them and derives the one binding (intent, challenge, quote,
  amount, wallet, policy version, option and expiry) an approval of it may have.

  A check that lets minus zero through is followed by \<^verbatim>\<open>canonicalJson\<close>, which refuses it; here
  the check refuses it.
\<close>

section \<open>Scalars\<close>

definition OPEN_DECISIONS :: "string list" where
  "OPEN_DECISIONS = [''pending'', ''approved'']"

definition APPROVAL_DECISIONS :: "string list" where
  "APPROVAL_DECISIONS =
     [''pending'', ''approved'', ''denied'', ''expired'', ''cancelled'', ''consumed'']"

definition CANCEL_REASONS :: "string list" where
  "CANCEL_REASONS = [''POLICY_SUPERSEDED'', ''SESSION_CLOSED'', ''APPROVAL_CHALLENGE_CHANGED'']"

text \<open>Every thrown error, whatever its kind, becomes the corruption of the approval.\<close>

definition corrupting :: "'a res \<Rightarrow> 'a res" where
  "corrupting r = (case r of Inl e \<Rightarrow> fail ''APPROVAL_CORRUPTION'' | Inr x \<Rightarrow> Inr x)"

lemma corrupting_Inr [simp]: "corrupting r = Inr x \<longleftrightarrow> r = Inr x"
  by (simp add: corrupting_def split: sum.splits)

definition approvalAddress :: "jsval \<Rightarrow> string \<Rightarrow> string res" where
  "approvalAddress v code =
     (case v of
        JStr s \<Rightarrow> if \<not> canonical_address_pattern s then fail code else Inr s
      | _ \<Rightarrow> fail code)"

definition boundedToken :: "jsval \<Rightarrow> string \<Rightarrow> string res" where
  "boundedToken v code = rethrow_as code (canonicalToken v)"

definition canonicalIndex :: "jsval \<Rightarrow> string \<Rightarrow> int res" where
  "canonicalIndex v code =
     (case v of
        JNum n \<Rightarrow> if 0 \<le> n \<and> n \<le> MAX_SAFE_INTEGER then Inr n else fail code
      | JBig n \<Rightarrow> if 0 \<le> n \<and> n \<le> MAX_SAFE_INTEGER then Inr n else fail code
      | _ \<Rightarrow> fail code)"

definition canonicalLimit :: "jsval \<Rightarrow> int res" where
  "canonicalLimit v = positiveSafeInteger v ''APPROVAL_LIST_SCHEMA'' 1000"

definition approvalTimestamp :: "jsval \<Rightarrow> string \<Rightarrow> string res" where
  "approvalTimestamp v code = rethrow_as code (canonicalTimestamp v)"

definition nowTimestamp :: "string \<Rightarrow> string res" where
  "nowTimestamp now = approvalTimestamp (JStr now) ''APPROVAL_TIME''"

section \<open>The authority graph\<close>

definition parseWith :: "(jsval \<Rightarrow> 'a res) \<Rightarrow> string \<Rightarrow> 'a res" where
  "parseWith validate text =
     (case json_parse text of None \<Rightarrow> Inl (JsError ''SyntaxError'') | Some v \<Rightarrow> validate v)"

definition parsePolicyRow :: "host \<Rightarrow> policy_version_row option \<Rightarrow> (string \<times> policy) res" where
  "parsePolicyRow h row =
     (case row of
        None \<Rightarrow> fail ''APPROVAL_CORRUPTION''
      | Some r \<Rightarrow>
          corrupting
            (andthen (canonicalToken (JStr (pvr_id r))) (\<lambda>id.
             andthen (canonicalIndex (JBig (pvr_schema_version r)) ''APPROVAL_SCHEMA'')
               (\<lambda>schemaVersion.
             andthen (parseWith (validatePolicyDocument h) (pvr_canonical_json r)) (\<lambda>policy.
             andthen (canonicalJson (policy_js policy)) (\<lambda>canonical.
             if schemaVersion \<noteq> 1 \<or> canonical \<noteq> pvr_canonical_json r
                \<or> h_sha256 h canonical \<noteq> pvr_policy_hash r
             then fail ''APPROVAL_CORRUPTION''
             else
               andthen (canonicalTimestamp (JStr (pvr_applied_at r))) (\<lambda>_. Inr (id, policy))))))))"

definition parseChallengeProjection ::
  "host \<Rightarrow> string option \<Rightarrow> string \<Rightarrow> projection res" where
  "parseChallengeProjection h bytes expectedHash =
     corrupting
       (case bytes of
          None \<Rightarrow> fail ''APPROVAL_CORRUPTION''
        | Some text \<Rightarrow>
            andthen (parseWith validateChallengeProjection text) (\<lambda>projection.
            andthen (canonicalJson (projection_js projection)) (\<lambda>canonical.
            if canonical \<noteq> text \<or> h_sha256 h canonical \<noteq> expectedHash
            then fail ''APPROVAL_CORRUPTION'' else Inr projection)))"

record approval_binding =
  ab_intentId :: string
  ab_intentHash :: string
  ab_challengeHash :: string
  ab_quoteId :: string
  ab_amountCeilingAtomic :: string
  ab_walletAddress :: string
  ab_policyVersionId :: string
  ab_acceptedIndex :: int
  ab_expiresAt :: string

record approval_authority =
  aa_activePolicyId :: "string option"
  aa_binding :: approval_binding
  aa_challengeReceivedAt :: string
  aa_decidedAt :: string
  aa_enrollmentState :: string
  aa_intentState :: string
  aa_policy :: policy
  aa_sessionId :: string
  aa_sessionState :: string

text \<open>The checked fields of the intent, its decision and its session.\<close>

record authority_fields =
  af_sessionId :: string
  af_intentHash :: string
  af_intentChallengeHash :: string
  af_decisionChallengeHash :: string
  af_quoteId :: string
  af_amount :: string
  af_intentWallet :: string
  af_sessionWallet :: string
  af_policyVersionId :: string
  af_acceptedIndex :: int
  af_challengeReceivedAt :: string
  af_decidedAt :: string

definition readAuthorityFields ::
  "intent_row \<Rightarrow> decision_row \<Rightarrow> session_row \<Rightarrow> authority_fields res" where
  "readAuthorityFields intent decision session =
     (let code = ''APPROVAL_CORRUPTION'' in
      corrupting
        (andthen (canonicalToken (JStr (si_id intent))) (\<lambda>_.
         andthen (canonicalToken (JStr (si_session_id intent))) (\<lambda>sessionId.
         andthen (canonicalHash (JStr (si_intent_hash intent)) code) (\<lambda>intentHash.
         andthen (canonicalHash (option_string (si_challenge_hash intent)) code)
           (\<lambda>intentChallengeHash.
         andthen (canonicalHash (JStr (pd_challenge_hash decision)) code) (\<lambda>decisionChallengeHash.
         andthen (canonicalHash (option_string (pd_quote_id decision)) code) (\<lambda>quoteId.
         andthen (canonicalAtomic (JStr (pd_amount_ceiling_atomic decision))) (\<lambda>amount.
         andthen (approvalAddress (JStr (si_wallet_address intent)) code) (\<lambda>intentWallet.
         andthen (approvalAddress (JStr (ss_wallet_address session)) code) (\<lambda>sessionWallet.
         andthen (canonicalToken (JStr (pd_policy_version_id decision))) (\<lambda>policyVersionId.
         andthen (canonicalIndex (option_js JBig (pd_accepted_index decision)) code)
           (\<lambda>acceptedIndex.
         andthen (canonicalTimestamp (option_string (si_challenge_received_at intent)))
           (\<lambda>challengeReceivedAt.
         andthen (canonicalTimestamp (JStr (pd_decided_at decision))) (\<lambda>decidedAt.
         Inr \<lparr>af_sessionId = sessionId, af_intentHash = intentHash,
              af_intentChallengeHash = intentChallengeHash,
              af_decisionChallengeHash = decisionChallengeHash, af_quoteId = quoteId,
              af_amount = amount, af_intentWallet = intentWallet,
              af_sessionWallet = sessionWallet, af_policyVersionId = policyVersionId,
              af_acceptedIndex = acceptedIndex, af_challengeReceivedAt = challengeReceivedAt,
              af_decidedAt = decidedAt\<rparr>)))))))))))))))"

definition authorityBound ::
  "string \<Rightarrow> decision_row \<Rightarrow> session_row \<Rightarrow> string \<times> policy \<Rightarrow> authority_fields \<Rightarrow> string \<Rightarrow> bool" where
  "authorityBound intentId decision session version f expectedQuote \<longleftrightarrow>
     pd_intent_id decision = intentId
     \<and> pd_decision decision = ''approval_required''
     \<and> pd_reason_code decision = ''HUMAN_APPROVAL_REQUIRED''
     \<and> af_intentChallengeHash f = af_decisionChallengeHash f
     \<and> ss_policy_version_id session = af_policyVersionId f
     \<and> fst version = af_policyVersionId f
     \<and> af_intentWallet f = af_sessionWallet f
     \<and> af_intentWallet f = p_wallet (snd version)
     \<and> af_quoteId f = expectedQuote"

text \<open>The positions of the options the policy can pay for this seller.\<close>

definition compatible :: "policy \<Rightarrow> seller option \<Rightarrow> candidate \<Rightarrow> bool" where
  "compatible p seller c \<longleftrightarrow>
     c_scheme c = ''exact'' \<and> c_network c = p_network p \<and> c_asset c = p_asset p
     \<and> Some (c_payTo c) = map_option s_payTo seller
     \<and> c_name c = ''USDC'' \<and> c_version c = ''2''
     \<and> (c_assetTransferMethod c = None \<or> c_assetTransferMethod c = Some ''eip3009'')"

definition offerBound ::
  "intent_row \<Rightarrow> policy \<Rightarrow> projection \<Rightarrow> string \<Rightarrow> string \<Rightarrow> int \<Rightarrow> bool" where
  "offerBound intent p projection requestUrlHash amount acceptedIndex \<longleftrightarrow>
     (let seller = find (\<lambda>s. s_origin s = si_seller_origin intent) (p_sellers p);
          accepts = pj_accepts projection;
          options = filter (\<lambda>i. compatible p seller (accepts ! i)) [0..<length accepts] in
      nat acceptedIndex < length accepts
      \<and> options = [nat acceptedIndex]
      \<and> c_amount (accepts ! nat acceptedIndex) = amount
      \<and> pj_x402Version projection = 2
      \<and> pj_urlHash projection = requestUrlHash
      \<and> (case seller of
           None \<Rightarrow> False
         | Some s \<Rightarrow> list_ex (\<lambda>prefix. starts_with (si_resource_path intent) prefix) (s_pathPrefixes s))
      \<and> si_method intent \<in> set (p_methods p))"

text \<open>The earlier of the challenge's and the approval's deadline; \<^verbatim>\<open>toISOString\<close> throws past the
  largest time value.\<close>

definition approvalExpiry :: "policy \<Rightarrow> string \<Rightarrow> string \<Rightarrow> string res" where
  "approvalExpiry p challengeReceivedAt decidedAt =
     (let challengeDeadline = date_ms challengeReceivedAt + p_challengeMaxAgeMs p;
          approvalDeadline = date_ms decidedAt + p_approvalTtlMs p;
          deadline = min challengeDeadline approvalDeadline in
      if \<not> isSafeInteger (JNum challengeDeadline) \<or> \<not> isSafeInteger (JNum approvalDeadline)
         \<or> date_ms decidedAt < date_ms challengeReceivedAt
      then fail ''APPROVAL_CORRUPTION''
      else if MAX_TIME < \<bar>deadline\<bar> then Inl (JsError ''RangeError'')
      else Inr (toISOString deadline))"

text \<open>\<^verbatim>\<open>None\<close> when the intent does not exist.\<close>

definition loadAuthority :: "host \<Rightarrow> db \<Rightarrow> string \<Rightarrow> approval_authority option res" where
  "loadAuthority h db intentId =
     (case select_one (\<lambda>r. si_id r = intentId) (db_intents db) of
        None \<Rightarrow> Inr None
      | Some intent \<Rightarrow>
          (case (select_one (\<lambda>d. pd_intent_id d = intentId) (db_decisions db),
                 select_one (\<lambda>s. ss_id s = si_session_id intent) (db_sessions db),
                 select_one (\<lambda>e. ae_enrollment_hash e = si_enrollment_hash intent)
                   (db_enrollments db)) of
             (Some decision, Some session, Some enrollment) \<Rightarrow>
               andthen (parsePolicyRow h (select_one (\<lambda>r. pvr_id r = pd_policy_version_id decision)
                          (db_policy_versions db))) (\<lambda>version.
               andthen (readAuthorityFields intent decision session) (\<lambda>f.
               andthen (quoteIdOf h (af_decisionChallengeHash f) (af_acceptedIndex f)) (\<lambda>quote.
               if \<not> authorityBound intentId decision session version f quote
               then fail ''APPROVAL_CORRUPTION''
               else
                 andthen (parseChallengeProjection h (si_challenge_projection_json intent)
                            (af_intentChallengeHash f)) (\<lambda>projection.
                 andthen (corrupting (canonicalHash (JStr (si_request_url_hash intent))
                            ''APPROVAL_CORRUPTION'')) (\<lambda>requestUrlHash.
                 if \<not> offerBound intent (snd version) projection requestUrlHash (af_amount f)
                        (af_acceptedIndex f)
                 then fail ''APPROVAL_CORRUPTION''
                 else
                   andthen (approvalExpiry (snd version) (af_challengeReceivedAt f) (af_decidedAt f))
                     (\<lambda>expiresAt.
                   Inr (Some
                     \<lparr>aa_activePolicyId = map_of (db_metadata db) ''active_policy_id'',
                      aa_binding =
                        \<lparr>ab_intentId = intentId, ab_intentHash = af_intentHash f,
                         ab_challengeHash = af_decisionChallengeHash f,
                         ab_quoteId = af_quoteId f, ab_amountCeilingAtomic = af_amount f,
                         ab_walletAddress = af_intentWallet f,
                         ab_policyVersionId = af_policyVersionId f,
                         ab_acceptedIndex = af_acceptedIndex f, ab_expiresAt = expiresAt\<rparr>,
                      aa_challengeReceivedAt = af_challengeReceivedAt f,
                      aa_decidedAt = af_decidedAt f,
                      aa_enrollmentState = ae_state enrollment,
                      aa_intentState = si_state intent, aa_policy = snd version,
                      aa_sessionId = af_sessionId f, aa_sessionState = ss_state session\<rparr>)))))))
           | _ \<Rightarrow> fail ''APPROVAL_CORRUPTION''))"

section \<open>Bindings\<close>

definition binding_js :: "approval_binding \<Rightarrow> jsval" where
  "binding_js b = JObj
     [(''intentId'', JStr (ab_intentId b)), (''intentHash'', JStr (ab_intentHash b)),
      (''challengeHash'', JStr (ab_challengeHash b)), (''quoteId'', JStr (ab_quoteId b)),
      (''amountCeilingAtomic'', JStr (ab_amountCeilingAtomic b)),
      (''walletAddress'', JStr (ab_walletAddress b)),
      (''policyVersionId'', JStr (ab_policyVersionId b)),
      (''acceptedIndex'', JNum (ab_acceptedIndex b)), (''expiresAt'', JStr (ab_expiresAt b))]"

text \<open>\<^verbatim>\<open>canonicalJson(left) === canonicalJson(right)\<close>.\<close>

definition sameBinding :: "approval_binding \<Rightarrow> approval_binding \<Rightarrow> bool res" where
  "sameBinding left right =
     andthen (canonicalJson (binding_js left)) (\<lambda>l.
     andthen (canonicalJson (binding_js right)) (\<lambda>r. Inr (l = r)))"

definition exactBindingOrFail :: "approval_binding \<Rightarrow> approval_binding \<Rightarrow> unit res" where
  "exactBindingOrFail left right =
     andthen (sameBinding left right) (\<lambda>same.
     if \<not> same then fail ''APPROVAL_BINDING_MISMATCH'' else Inr ())"

definition REQUEST_FIELDS :: "string list" where
  "REQUEST_FIELDS =
     [''intentId'', ''intentHash'', ''challengeHash'', ''quoteId'', ''amountCeilingAtomic'',
      ''walletAddress'', ''policyVersionId'', ''acceptedIndex'']"

text \<open>A request names no expiry; the binding is completed with the given one.\<close>

definition requestInput :: "jsval \<Rightarrow> string \<Rightarrow> approval_binding res" where
  "requestInput value expiresAt =
     (let code = ''APPROVAL_SCHEMA'' in
      andthen (exactRecord value REQUEST_FIELDS [] code) (\<lambda>input.
      andthen (boundedToken (get_prop input ''intentId'') code) (\<lambda>intentId.
      andthen (canonicalHash (get_prop input ''intentHash'') code) (\<lambda>intentHash.
      andthen (canonicalHash (get_prop input ''challengeHash'') code) (\<lambda>challengeHash.
      andthen (canonicalHash (get_prop input ''quoteId'') code) (\<lambda>quoteId.
      andthen (canonicalAtomic (get_prop input ''amountCeilingAtomic'')) (\<lambda>amount.
      andthen (approvalAddress (get_prop input ''walletAddress'') code) (\<lambda>wallet.
      andthen (boundedToken (get_prop input ''policyVersionId'') code) (\<lambda>policyVersionId.
      andthen (canonicalIndex (get_prop input ''acceptedIndex'') code) (\<lambda>acceptedIndex.
      Inr \<lparr>ab_intentId = intentId, ab_intentHash = intentHash, ab_challengeHash = challengeHash,
           ab_quoteId = quoteId, ab_amountCeilingAtomic = amount, ab_walletAddress = wallet,
           ab_policyVersionId = policyVersionId, ab_acceptedIndex = acceptedIndex,
           ab_expiresAt = expiresAt\<rparr>))))))))))"

definition consumptionInput :: "jsval \<Rightarrow> approval_binding res" where
  "consumptionInput value =
     andthen (exactRecord value (REQUEST_FIELDS @ [''expiresAt'']) [] ''APPROVAL_SCHEMA'') (\<lambda>input.
     andthen (requestInput (JObj (filter (\<lambda>kv. fst kv \<noteq> ''expiresAt'') input)) []) (\<lambda>b.
     andthen (approvalTimestamp (get_prop input ''expiresAt'') ''APPROVAL_SCHEMA'') (\<lambda>expiresAt.
     Inr (b\<lparr>ab_expiresAt := expiresAt\<rparr>))))"

definition recordBinding :: "approval_row \<Rightarrow> approval_binding" where
  "recordBinding r =
     \<lparr>ab_intentId = ap_intent_id r, ab_intentHash = ap_intent_hash r,
      ab_challengeHash = ap_challenge_hash r, ab_quoteId = ap_quote_id r,
      ab_amountCeilingAtomic = ap_amount_ceiling_atomic r, ab_walletAddress = ap_wallet_address r,
      ab_policyVersionId = ap_policy_version_id r, ab_acceptedIndex = ap_accepted_index r,
      ab_expiresAt = ap_expires_at r\<rparr>"

end
