(* ===== verification/ApprovalLifecycle.thy ===== *)
theory ApprovalLifecycle
  imports ApprovalAuthority
begin

text \<open>
  The middle part of \<^verbatim>\<open>src/spikes/pi-wielder/src/kernel/approval-queue.mjs\<close>: the events of an
  approval, the check of a persisted approval against them, and \<^verbatim>\<open>validatedRecord\<close>, through which
  every operation reads an approval.

  A record has the columns of its row, so the row itself is the record. The position of an event in
  the log is its sequence number, at least one.
\<close>

section \<open>Events\<close>

text \<open>The events of one approval, each with the hash of the event before it in the whole log.\<close>

definition approvalEventRows :: "db \<Rightarrow> string \<Rightarrow> (event_row \<times> string option) list" where
  "approvalEventRows db approvalId =
     filter (\<lambda>(e, _). ev_entity_type e = ''approval'' \<and> ev_entity_id e = approvalId)
       (zip (db_events db) (None # map (\<lambda>e. Some (ev_event_hash e)) (db_events db)))"

definition APPROVAL_EVENT_TYPES :: "string list" where
  "APPROVAL_EVENT_TYPES =
     [''approval.requested'', ''approval.approved'', ''approval.denied'', ''approval.expired'',
      ''approval.cancelled'', ''approval.consumed'']"

definition eventData :: "event_row \<Rightarrow> string list \<Rightarrow> (string \<times> jsval) list res" where
  "eventData row required =
     corrupting
       (case json_parse (ev_data_json row) of
          None \<Rightarrow> Inl (JsError ''SyntaxError'')
        | Some data \<Rightarrow>
            andthen (canonicalJson data) (\<lambda>text.
            if text \<noteq> ev_data_json row then fail ''APPROVAL_CORRUPTION''
            else exactRecord data required [] ''APPROVAL_CORRUPTION''))"

definition optionalHash :: "string option \<Rightarrow> string \<Rightarrow> string option res" where
  "optionalHash t code =
     (case t of
        None \<Rightarrow> Inr None
      | Some s \<Rightarrow> andthen (canonicalHash (JStr s) code) (\<lambda>x. Inr (Some x)))"

text \<open>The recorded time of an event on the chain.\<close>

definition approvalEventEnvelope ::
  "host \<Rightarrow> event_row \<times> string option \<Rightarrow> string \<Rightarrow> string res" where
  "approvalEventEnvelope h entry approvalId =
     (case entry of
        (row, actual) \<Rightarrow>
          let code = ''APPROVAL_CORRUPTION'' in
          corrupting
            (andthen (boundedToken (JStr (ev_entity_id row)) code) (\<lambda>entityId.
             if ev_entity_type row \<noteq> ''approval'' \<or> entityId \<noteq> approvalId
                \<or> ev_event_type row \<notin> set APPROVAL_EVENT_TYPES
             then fail code
             else
               andthen (approvalTimestamp (JStr (ev_created_at row)) code) (\<lambda>createdAt.
               andthen (optionalHash (ev_previous_hash row) code) (\<lambda>previousHash.
               andthen (optionalHash actual code) (\<lambda>actualPreviousHash.
               andthen (canonicalHash (JStr (ev_event_hash row)) code) (\<lambda>persistedHash.
               case json_parse (ev_data_json row) of
                 None \<Rightarrow> Inl (JsError ''SyntaxError'')
               | Some data \<Rightarrow>
                   andthen (eventHash h ''approval'' approvalId (ev_event_type row) data previousHash
                              createdAt) (\<lambda>expectedHash.
                   if previousHash \<noteq> actualPreviousHash \<or> persistedHash \<noteq> expectedHash
                   then fail code else Inr createdAt))))))))"

record lifecycle_event =
  le_at :: string
  le_createdAt :: string
  le_type :: string
  le_previous :: "string option"

definition exactApprovalEventBinding :: "(string \<times> jsval) list \<Rightarrow> approval_row \<Rightarrow> unit res" where
  "exactApprovalEventBinding data record =
     (let code = ''APPROVAL_CORRUPTION'' in
      andthen (boundedToken (get_prop data ''intentId'') code) (\<lambda>intentId.
      andthen (canonicalHash (get_prop data ''intentHash'') code) (\<lambda>intentHash.
      if intentId \<noteq> ap_intent_id record \<or> intentHash \<noteq> ap_intent_hash record
      then fail code else Inr ())))"

definition REQUESTED_EVENT_FIELDS :: "string list" where
  "REQUESTED_EVENT_FIELDS = REQUEST_FIELDS @ [''expiresAt'', ''requestedAt'']"

text \<open>The transition time of each kind of event, with the decision it left where it names one.\<close>

definition requestedEvent :: "event_row \<Rightarrow> approval_row \<Rightarrow> (string \<times> string option) res" where
  "requestedEvent row record =
     (let code = ''APPROVAL_CORRUPTION'' in
      andthen (eventData row REQUESTED_EVENT_FIELDS) (\<lambda>data.
      andthen (boundedToken (get_prop data ''intentId'') code) (\<lambda>intentId.
      andthen (canonicalHash (get_prop data ''intentHash'') code) (\<lambda>intentHash.
      andthen (canonicalHash (get_prop data ''challengeHash'') code) (\<lambda>challengeHash.
      andthen (canonicalHash (get_prop data ''quoteId'') code) (\<lambda>quoteId.
      andthen (canonicalAtomic (get_prop data ''amountCeilingAtomic'')) (\<lambda>amount.
      andthen (approvalAddress (get_prop data ''walletAddress'') code) (\<lambda>wallet.
      andthen (boundedToken (get_prop data ''policyVersionId'') code) (\<lambda>policyVersionId.
      andthen (canonicalIndex (get_prop data ''acceptedIndex'') code) (\<lambda>acceptedIndex.
      andthen (approvalTimestamp (get_prop data ''expiresAt'') code) (\<lambda>expiresAt.
      andthen (sameBinding
                 \<lparr>ab_intentId = intentId, ab_intentHash = intentHash,
                  ab_challengeHash = challengeHash, ab_quoteId = quoteId,
                  ab_amountCeilingAtomic = amount, ab_walletAddress = wallet,
                  ab_policyVersionId = policyVersionId, ab_acceptedIndex = acceptedIndex,
                  ab_expiresAt = expiresAt\<rparr> (recordBinding record)) (\<lambda>same.
      if \<not> same then fail code
      else
        andthen (approvalTimestamp (get_prop data ''requestedAt'') code) (\<lambda>at.
        Inr (at, None))))))))))))))"

definition approvedEvent :: "event_row \<Rightarrow> approval_row \<Rightarrow> (string \<times> string option) res" where
  "approvedEvent row record =
     (let code = ''APPROVAL_CORRUPTION'' in
      andthen (eventData row [''intentId'', ''intentHash'', ''operatorIdHash'', ''approvedAt''])
        (\<lambda>data.
      andthen (exactApprovalEventBinding data record) (\<lambda>_.
      andthen (canonicalHash (get_prop data ''operatorIdHash'') code) (\<lambda>operatorIdHash.
      if Some operatorIdHash \<noteq> ap_operator_id_hash record then fail code
      else
        andthen (approvalTimestamp (get_prop data ''approvedAt'') code) (\<lambda>at. Inr (at, None))))))"

definition deniedEvent :: "event_row \<Rightarrow> approval_row \<Rightarrow> (string \<times> string option) res" where
  "deniedEvent row record =
     (let code = ''APPROVAL_CORRUPTION'' in
      andthen (eventData row [''intentId'', ''intentHash'', ''operatorIdHash'', ''reasonCode'',
                 ''deniedAt'']) (\<lambda>data.
      andthen (exactApprovalEventBinding data record) (\<lambda>_.
      andthen (canonicalHash (get_prop data ''operatorIdHash'') code) (\<lambda>operatorIdHash.
      andthen (boundedToken (get_prop data ''reasonCode'') code) (\<lambda>reasonCode.
      if Some operatorIdHash \<noteq> ap_operator_id_hash record \<or> Some reasonCode \<noteq> ap_reason_code record
      then fail code
      else
        andthen (approvalTimestamp (get_prop data ''deniedAt'') code) (\<lambda>at. Inr (at, None)))))))"

definition openDecision :: "jsval \<Rightarrow> string option" where
  "openDecision v =
     (case v of JStr s \<Rightarrow> if s \<in> set OPEN_DECISIONS then Some s else None | _ \<Rightarrow> None)"

definition expiredEvent :: "event_row \<Rightarrow> approval_row \<Rightarrow> (string \<times> string option) res" where
  "expiredEvent row record =
     (let code = ''APPROVAL_CORRUPTION'' in
      andthen (eventData row [''intentId'', ''intentHash'', ''previousDecision'', ''reasonCode'',
                 ''expiredAt'']) (\<lambda>data.
      andthen (exactApprovalEventBinding data record) (\<lambda>_.
      let previous = openDecision (get_prop data ''previousDecision'') in
      if previous = None \<or> get_prop data ''reasonCode'' \<noteq> JStr ''APPROVAL_EXPIRED''
         \<or> ap_reason_code record \<noteq> Some ''APPROVAL_EXPIRED''
      then fail code
      else
        andthen (approvalTimestamp (get_prop data ''expiredAt'') code) (\<lambda>at. Inr (at, previous)))))"

definition cancelledEvent :: "event_row \<Rightarrow> approval_row \<Rightarrow> (string \<times> string option) res" where
  "cancelledEvent row record =
     (let code = ''APPROVAL_CORRUPTION'' in
      andthen (eventData row [''intentId'', ''intentHash'', ''previousDecision'', ''reasonCode'',
                 ''cancelledAt'']) (\<lambda>data.
      andthen (exactApprovalEventBinding data record) (\<lambda>_.
      let previous = openDecision (get_prop data ''previousDecision'') in
      if previous = None \<or> get_prop data ''reasonCode'' \<notin> JStr ` set CANCEL_REASONS
         \<or> get_prop data ''reasonCode'' \<noteq> option_string (ap_reason_code record)
      then fail code
      else
        andthen (approvalTimestamp (get_prop data ''cancelledAt'') code) (\<lambda>at. Inr (at, previous)))))"

definition consumedEvent :: "event_row \<Rightarrow> approval_row \<Rightarrow> (string \<times> string option) res" where
  "consumedEvent row record =
     (let code = ''APPROVAL_CORRUPTION'' in
      andthen (eventData row [''intentId'', ''intentHash'', ''consumedAt'']) (\<lambda>data.
      andthen (exactApprovalEventBinding data record) (\<lambda>_.
      andthen (approvalTimestamp (get_prop data ''consumedAt'') code) (\<lambda>at. Inr (at, None)))))"

definition approvalLifecycleEvent ::
  "event_row \<Rightarrow> string \<Rightarrow> approval_row \<Rightarrow> lifecycle_event res" where
  "approvalLifecycleEvent row createdAt record =
     (let type = ev_event_type row in
      andthen
        (if type = ''approval.requested'' then requestedEvent row record
         else if type = ''approval.approved'' then approvedEvent row record
         else if type = ''approval.denied'' then deniedEvent row record
         else if type = ''approval.expired'' then expiredEvent row record
         else if type = ''approval.cancelled'' then cancelledEvent row record
         else consumedEvent row record) (\<lambda>(at, previous).
      if date_ms createdAt < date_ms at then fail ''APPROVAL_CORRUPTION''
      else Inr \<lparr>le_at = at, le_createdAt = createdAt, le_type = type, le_previous = previous\<rparr>))"

section \<open>The life cycle\<close>

definition expectedTypes :: "string \<Rightarrow> string option \<Rightarrow> string list option" where
  "expectedTypes decision terminalPrevious =
     (if decision = ''pending'' then Some [''approval.requested'']
      else if decision = ''approved'' then Some [''approval.requested'', ''approval.approved'']
      else if decision = ''denied'' then Some [''approval.requested'', ''approval.denied'']
      else if decision = ''consumed''
      then Some [''approval.requested'', ''approval.approved'', ''approval.consumed'']
      else if terminalPrevious = Some ''pending''
      then Some [''approval.requested'', ''approval.'' @ decision]
      else if terminalPrevious = Some ''approved''
      then Some [''approval.requested'', ''approval.approved'', ''approval.'' @ decision]
      else None)"

text \<open>The loop over the later events: times never go back.\<close>

fun chronological :: "string \<Rightarrow> string \<Rightarrow> lifecycle_event list \<Rightarrow> bool" where
  "chronological at createdAt [] = True"
| "chronological at createdAt (e # es) =
     (\<not> date_ms (le_at e) < date_ms at \<and> \<not> date_ms (le_createdAt e) < date_ms createdAt
      \<and> chronological (le_at e) (le_createdAt e) es)"

definition terminalMatches :: "approval_row \<Rightarrow> lifecycle_event option \<Rightarrow> lifecycle_event \<Rightarrow> bool" where
  "terminalMatches record approved terminal \<longleftrightarrow>
     (let decision = ap_decision record; expires = date_ms (ap_expires_at record) in
      (if decision = ''approved'' \<or> decision = ''consumed''
       then map_option le_at approved = ap_decided_at record
       else decision \<noteq> ''pending'' \<longrightarrow> Some (le_at terminal) = ap_decided_at record)
      \<and> (decision = ''consumed'' \<longrightarrow> Some (le_at terminal) = ap_consumed_at record)
      \<and> (case approved of None \<Rightarrow> True | Some e \<Rightarrow> date_ms (le_at e) < expires)
      \<and> (decision = ''denied'' \<longrightarrow> date_ms (le_at terminal) < expires)
      \<and> (decision = ''consumed'' \<longrightarrow>
           (case ap_consumed_at record of None \<Rightarrow> True | Some t \<Rightarrow> date_ms t < expires))
      \<and> (decision = ''expired'' \<longrightarrow> expires \<le> date_ms (le_at terminal))
      \<and> (decision = ''expired'' \<or> decision = ''cancelled'' \<longrightarrow>
           (le_previous terminal = Some ''pending'' \<longrightarrow> ap_operator_id_hash record = None)
           \<and> (le_previous terminal = Some ''approved'' \<longrightarrow>
                approved \<noteq> None \<and> ap_operator_id_hash record \<noteq> None)))"

record lifecycle =
  ly_approvedAt :: "string option"
  ly_lastTransitionAt :: string
  ly_requestedAt :: string

definition validateApprovalLifecycle ::
  "host \<Rightarrow> db \<Rightarrow> approval_authority \<Rightarrow> approval_row \<Rightarrow> lifecycle res" where
  "validateApprovalLifecycle h db authority record =
     corrupting
       (andthen (collect (\<lambda>entry.
                   andthen (approvalEventEnvelope h entry (ap_id record)) (\<lambda>createdAt.
                   approvalLifecycleEvent (fst entry) createdAt record))
                 (approvalEventRows db (ap_id record))) (\<lambda>events.
        case events of
          [] \<Rightarrow> fail ''APPROVAL_CORRUPTION''
        | first # later \<Rightarrow>
            let terminal = last events;
                approved = find (\<lambda>e. le_type e = ''approval.approved'') events in
            if expectedTypes (ap_decision record) (le_previous terminal) \<noteq> Some (map le_type events)
               \<or> date_ms (le_at first) < date_ms (aa_decidedAt authority)
               \<or> date_ms (ap_expires_at record) \<le> date_ms (le_at first)
               \<or> \<not> chronological (le_at first) (le_createdAt first) later
               \<or> \<not> terminalMatches record approved terminal
            then fail ''APPROVAL_CORRUPTION''
            else Inr \<lparr>ly_approvedAt = map_option le_at approved,
                      ly_lastTransitionAt = le_at terminal, ly_requestedAt = le_at first\<rparr>))"

section \<open>Records\<close>

definition lifecycleValid :: "approval_row \<Rightarrow> bool" where
  "lifecycleValid r \<longleftrightarrow>
     (let operator = ap_operator_id_hash r; reason = ap_reason_code r;
          decided = ap_decided_at r; consumed = ap_consumed_at r; decision = ap_decision r in
      decision = ''pending'' \<and> operator = None \<and> reason = None \<and> decided = None \<and> consumed = None
      \<or> decision = ''approved'' \<and> operator \<noteq> None \<and> reason = None \<and> decided \<noteq> None \<and> consumed = None
      \<or> decision = ''denied'' \<and> operator \<noteq> None \<and> reason \<noteq> None \<and> decided \<noteq> None \<and> consumed = None
      \<or> decision = ''expired'' \<and> reason = Some ''APPROVAL_EXPIRED'' \<and> decided \<noteq> None
          \<and> consumed = None
      \<or> decision = ''cancelled'' \<and> reason \<in> Some ` set CANCEL_REASONS \<and> decided \<noteq> None
          \<and> consumed = None
      \<or> decision = ''consumed'' \<and> operator \<noteq> None \<and> reason = None \<and> decided \<noteq> None
          \<and> consumed \<noteq> None)"

definition optionalStamp :: "string option \<Rightarrow> string option res" where
  "optionalStamp t =
     (case t of
        None \<Rightarrow> Inr None
      | Some s \<Rightarrow> andthen (approvalTimestamp (JStr s) ''APPROVAL_CORRUPTION'') (\<lambda>x. Inr (Some x)))"

definition optionalToken :: "string option \<Rightarrow> string option res" where
  "optionalToken t =
     (case t of
        None \<Rightarrow> Inr None
      | Some s \<Rightarrow> andthen (boundedToken (JStr s) ''APPROVAL_CORRUPTION'') (\<lambda>x. Inr (Some x)))"

definition consumedBeforeDecided :: "approval_row \<Rightarrow> bool" where
  "consumedBeforeDecided r \<longleftrightarrow>
     (case (ap_consumed_at r, ap_decided_at r) of
        (Some c, Some d) \<Rightarrow> date_ms c < date_ms d | _ \<Rightarrow> False)"

definition rowToRecord :: "approval_row \<Rightarrow> approval_row res" where
  "rowToRecord r =
     (let code = ''APPROVAL_CORRUPTION'' in
      corrupting
        (if ap_decision r \<notin> set APPROVAL_DECISIONS then fail code
         else
           andthen (optionalHash (ap_operator_id_hash r) code) (\<lambda>_.
           andthen (optionalToken (ap_reason_code r)) (\<lambda>_.
           andthen (optionalStamp (ap_decided_at r)) (\<lambda>_.
           andthen (optionalStamp (ap_consumed_at r)) (\<lambda>_.
           andthen (approvalTimestamp (JStr (ap_expires_at r)) code) (\<lambda>_.
           if \<not> lifecycleValid r \<or> consumedBeforeDecided r then fail code
           else
             andthen (canonicalToken (JStr (ap_id r))) (\<lambda>_.
             andthen (canonicalToken (JStr (ap_intent_id r))) (\<lambda>_.
             andthen (canonicalHash (JStr (ap_intent_hash r)) ''APPROVAL_SCHEMA'') (\<lambda>_.
             andthen (canonicalHash (JStr (ap_challenge_hash r)) ''APPROVAL_SCHEMA'') (\<lambda>_.
             andthen (canonicalHash (JStr (ap_quote_id r)) ''APPROVAL_SCHEMA'') (\<lambda>_.
             andthen (canonicalIndex (JBig (ap_accepted_index r)) code) (\<lambda>_.
             andthen (canonicalAtomic (JStr (ap_amount_ceiling_atomic r))) (\<lambda>_.
             andthen (approvalAddress (JStr (ap_wallet_address r)) code) (\<lambda>_.
             andthen (canonicalToken (JStr (ap_policy_version_id r))) (\<lambda>_.
             Inr r))))))))))))))))"

record validated_approval =
  va_authority :: approval_authority
  va_lifecycle :: lifecycle
  va_record :: approval_row

definition recordTimely :: "approval_row \<Rightarrow> approval_authority \<Rightarrow> bool" where
  "recordTimely r authority \<longleftrightarrow>
     (case ap_decided_at r of
        None \<Rightarrow> True | Some t \<Rightarrow> \<not> date_ms t < date_ms (aa_decidedAt authority))
     \<and> (ap_decision r = ''approved'' \<longrightarrow>
          (case ap_decided_at r of
             None \<Rightarrow> True | Some t \<Rightarrow> \<not> date_ms (ap_expires_at r) \<le> date_ms t))
     \<and> (ap_decision r = ''consumed'' \<longrightarrow>
          (case ap_consumed_at r of
             None \<Rightarrow> True | Some t \<Rightarrow> \<not> date_ms (ap_expires_at r) \<le> date_ms t))"

definition validatedRecord :: "host \<Rightarrow> db \<Rightarrow> approval_row \<Rightarrow> validated_approval res" where
  "validatedRecord h db row =
     andthen (rowToRecord row) (\<lambda>record.
     andthen (loadAuthority h db (ap_intent_id record)) (\<lambda>loaded.
     case loaded of
       None \<Rightarrow> fail ''APPROVAL_CORRUPTION''
     | Some authority \<Rightarrow>
         andthen (sameBinding (recordBinding record) (aa_binding authority)) (\<lambda>same.
         if \<not> same \<or> \<not> recordTimely record authority then fail ''APPROVAL_CORRUPTION''
         else
           andthen (validateApprovalLifecycle h db authority record) (\<lambda>lifecycle.
           Inr \<lparr>va_authority = authority, va_lifecycle = lifecycle, va_record = record\<rparr>))))"

end
