(* ===== verification/ApprovalQueue.thy ===== *)
theory ApprovalQueue
  imports ApprovalLifecycle
begin

text \<open>
  The operations of \<^verbatim>\<open>createApprovalQueue\<close> in
  \<^verbatim>\<open>src/spikes/pi-wielder/src/kernel/approval-queue.mjs\<close>: \<^verbatim>\<open>request\<close>, \<^verbatim>\<open>get\<close>, \<^verbatim>\<open>list\<close>,
  \<^verbatim>\<open>approve\<close>, \<^verbatim>\<open>listDue\<close>, \<^verbatim>\<open>findRetryable\<close> and the transitions another component runs in its
  own transaction: consumption, denial, expiry and cancellation.

  \<^verbatim>\<open>qc_now\<close> of the clock is the time of the queue's \<^verbatim>\<open>now\<close>, \<^verbatim>\<open>qc_store\<close> that of the store.
  An operation inside a transaction maps the database to an error or the new database and its
  result; the comparisons of times inside SQL are comparisons of text.
\<close>

record queue_clock =
  qc_now :: string
  qc_store :: string

section \<open>Statements\<close>

definition approvalById :: "db \<Rightarrow> string \<Rightarrow> approval_row option" where
  "approvalById db approvalId = select_one (\<lambda>a. ap_id a = approvalId) (db_approvals db)"

definition approvalByIntent :: "db \<Rightarrow> string \<Rightarrow> approval_row option" where
  "approvalByIntent db intentId = select_one (\<lambda>a. ap_intent_id a = intentId) (db_approvals db)"

definition transitionTime :: "string \<Rightarrow> approval_authority \<Rightarrow> string \<Rightarrow> string res" where
  "transitionTime now authority predecessorAt =
     andthen (nowTimestamp now) (\<lambda>at.
     if date_ms at < date_ms (aa_decidedAt authority) \<or> date_ms at < date_ms predecessorAt
     then fail ''APPROVAL_TIME'' else Inr at)"

definition approvalEvent :: "string \<Rightarrow> string \<Rightarrow> (string \<times> jsval) list \<Rightarrow> event" where
  "approvalEvent approvalId type data =
     \<lparr>evt_entityType = JStr ''approval'', evt_entityId = JStr approvalId, evt_eventType = JStr type,
      evt_data = JObj data\<rparr>"

text \<open>The record an operation returns: the row is read back and validated.\<close>

definition rereadApproval :: "host \<Rightarrow> db \<Rightarrow> string \<Rightarrow> approval_row res" where
  "rereadApproval h db approvalId =
     (case approvalById db approvalId of
        None \<Rightarrow> Inl (JsError ''TypeError'')
      | Some row \<Rightarrow> andthen (validatedRecord h db row) (\<lambda>v. Inr (va_record v)))"

text \<open>One conditional update, one event, one confirming read.\<close>

definition moveApproval ::
  "host \<Rightarrow> queue_clock \<Rightarrow> string \<Rightarrow> (approval_row \<Rightarrow> bool) \<Rightarrow> (approval_row \<Rightarrow> approval_row)
     \<Rightarrow> string \<Rightarrow> (string \<times> jsval) list \<Rightarrow> db \<Rightarrow> (db \<times> approval_row) res" where
  "moveApproval h ck approvalId condition change type data db =
     andthen (update_one ''APPROVAL_STATE_CONFLICT'' (\<lambda>a. ap_id a = approvalId \<and> condition a) change
                (db_approvals db)) (\<lambda>approvals.
     andthen (appendEvent h (qc_store ck) (approvalEvent approvalId type data)
                (db\<lparr>db_approvals := approvals\<rparr>)) (\<lambda>(db', _).
     andthen (rereadApproval h db' approvalId) (\<lambda>record. Inr (db', record))))"

section \<open>Request\<close>

definition pendingCount :: "db \<Rightarrow> int" where
  "pendingCount db = int (length (filter (\<lambda>a. ap_decision a = ''pending'') (db_approvals db)))"

definition newApproval :: "string \<Rightarrow> approval_binding \<Rightarrow> approval_row" where
  "newApproval approvalId b =
     \<lparr>ap_id = approvalId, ap_intent_id = ab_intentId b, ap_decision = ''pending'',
      ap_operator_id_hash = None, ap_intent_hash = ab_intentHash b,
      ap_challenge_hash = ab_challengeHash b, ap_quote_id = ab_quoteId b,
      ap_accepted_index = ab_acceptedIndex b, ap_amount_ceiling_atomic = ab_amountCeilingAtomic b,
      ap_wallet_address = ab_walletAddress b, ap_policy_version_id = ab_policyVersionId b,
      ap_expires_at = ab_expiresAt b, ap_reason_code = None, ap_decided_at = None,
      ap_consumed_at = None\<rparr>"

definition requestedData :: "approval_binding \<Rightarrow> string \<Rightarrow> (string \<times> jsval) list" where
  "requestedData b requestedAt =
     [(''intentId'', JStr (ab_intentId b)), (''intentHash'', JStr (ab_intentHash b)),
      (''challengeHash'', JStr (ab_challengeHash b)), (''quoteId'', JStr (ab_quoteId b)),
      (''amountCeilingAtomic'', JStr (ab_amountCeilingAtomic b)),
      (''walletAddress'', JStr (ab_walletAddress b)),
      (''policyVersionId'', JStr (ab_policyVersionId b)),
      (''acceptedIndex'', JNum (ab_acceptedIndex b)), (''expiresAt'', JStr (ab_expiresAt b)),
      (''requestedAt'', JStr requestedAt)]"

text \<open>The guards of a new approval: its authority is active, it has time left and there is room.\<close>

definition requestGuards :: "queue_clock \<Rightarrow> approval_authority \<Rightarrow> db \<Rightarrow> string res" where
  "requestGuards ck authority db =
     (if aa_intentState authority \<noteq> ''challenged'' \<or> aa_sessionState authority \<noteq> ''open''
         \<or> aa_enrollmentState authority \<noteq> ''active''
         \<or> aa_activePolicyId authority \<noteq> Some (ab_policyVersionId (aa_binding authority))
      then fail ''APPROVAL_AUTHORITY_INACTIVE''
      else
        andthen (transitionTime (qc_now ck) authority (aa_decidedAt authority)) (\<lambda>requestedAt.
        if date_ms (ab_expiresAt (aa_binding authority)) \<le> date_ms requestedAt
        then fail ''APPROVAL_EXPIRED''
        else if p_maxPendingApprovals (aa_policy authority) \<le> pendingCount db
        then fail ''APPROVAL_CAPACITY'' else Inr requestedAt))"

definition insertApproval ::
  "host \<Rightarrow> queue_clock \<Rightarrow> string \<Rightarrow> approval_binding \<Rightarrow> string \<Rightarrow> db \<Rightarrow> (db \<times> approval_row) res" where
  "insertApproval h ck approvalId b requestedAt db =
     (if approvalById db approvalId \<noteq> None then fail ''APPROVAL_ID_CONFLICT''
      else if approvalByIntent db (ab_intentId b) \<noteq> None then Inl (JsError ''SQLITE_CONSTRAINT'')
      else
        andthen (appendEvent h (qc_store ck)
                   (approvalEvent approvalId ''approval.requested'' (requestedData b requestedAt))
                   (db\<lparr>db_approvals := db_approvals db @ [newApproval approvalId b]\<rparr>))
          (\<lambda>(db', _).
        andthen (rereadApproval h db' approvalId) (\<lambda>record. Inr (db', record))))"

text \<open>The argument \<^verbatim>\<open>fresh\<close> is the value of \<^verbatim>\<open>idFactory('approval')\<close>.\<close>

definition requestInTransaction ::
  "host \<Rightarrow> queue_clock \<Rightarrow> jsval \<Rightarrow> jsval \<Rightarrow> db \<Rightarrow> (db \<times> approval_row) res" where
  "requestInTransaction h ck fresh value db =
     andthen (requestInput value []) (\<lambda>requested.
     andthen (loadAuthority h db (ab_intentId requested)) (\<lambda>loaded.
     case loaded of
       None \<Rightarrow> fail ''APPROVAL_BINDING_MISMATCH''
     | Some authority \<Rightarrow>
         let b = aa_binding authority in
         andthen (exactBindingOrFail (requested\<lparr>ab_expiresAt := ab_expiresAt b\<rparr>) b) (\<lambda>_.
         case approvalByIntent db (ab_intentId requested) of
           Some row \<Rightarrow> andthen (validatedRecord h db row) (\<lambda>v. Inr (db, va_record v))
         | None \<Rightarrow>
             andthen (requestGuards ck authority db) (\<lambda>requestedAt.
             andthen (boundedToken fresh ''ID_FACTORY'') (\<lambda>approvalId.
             insertApproval h ck approvalId b requestedAt db)))))"

definition request :: "host \<Rightarrow> queue_clock \<Rightarrow> jsval \<Rightarrow> jsval \<Rightarrow> db \<Rightarrow> db \<times> approval_row res" where
  "request h ck fresh value db = transaction (requestInTransaction h ck fresh value) db"

section \<open>Reads\<close>

definition getApproval :: "host \<Rightarrow> jsval \<Rightarrow> db \<Rightarrow> approval_row option res" where
  "getApproval h approvalId db =
     andthen (canonicalToken approvalId) (\<lambda>id.
     case approvalById db id of
       None \<Rightarrow> Inr None
     | Some row \<Rightarrow> andthen (validatedRecord h db row) (\<lambda>v. Inr (Some (va_record v))))"

text \<open>\<^verbatim>\<open>ORDER BY expires_at, id\<close>.\<close>

definition by_expiry :: "approval_row list \<Rightarrow> approval_row list" where
  "by_expiry rows = sort_key ap_expires_at (sort_key ap_id rows)"

definition listState :: "(string \<times> jsval) list \<Rightarrow> string option res" where
  "listState input =
     (if \<not> has_own input ''state'' \<or> get_prop input ''state'' = JNull then Inr None
      else case get_prop input ''state'' of
        JStr s \<Rightarrow> if s \<in> set APPROVAL_DECISIONS then Inr (Some s) else fail ''APPROVAL_LIST_SCHEMA''
      | _ \<Rightarrow> fail ''APPROVAL_LIST_SCHEMA'')"

definition listApprovals :: "host \<Rightarrow> jsval \<Rightarrow> db \<Rightarrow> approval_row list res" where
  "listApprovals h value db =
     andthen (exactRecord value [''limit''] [''state''] ''APPROVAL_LIST_SCHEMA'') (\<lambda>input.
     andthen (canonicalLimit (get_prop input ''limit'')) (\<lambda>limit.
     andthen (listState input) (\<lambda>state.
     collect (\<lambda>row. andthen (validatedRecord h db row) (\<lambda>v. Inr (va_record v)))
       (take (nat limit) (by_expiry
          (filter (\<lambda>a. state = None \<or> state = Some (ap_decision a)) (db_approvals db)))))))"

text \<open>The join with an intent that still waits for its approval.\<close>

definition awaitingIntent :: "db \<Rightarrow> approval_row \<Rightarrow> (intent_row \<Rightarrow> bool) \<Rightarrow> bool" where
  "awaitingIntent db a P =
     (ap_decision a \<in> set OPEN_DECISIONS
      \<and> list_ex (\<lambda>i. si_id i = ap_intent_id a \<and> si_state i = ''approval_pending''
                    \<and> si_retry_matchable i = 1 \<and> P i) (db_intents db))"

definition listDue :: "host \<Rightarrow> jsval \<Rightarrow> db \<Rightarrow> (string \<times> string \<times> string) list res" where
  "listDue h value db =
     andthen (exactRecord value [''at'', ''limit''] [] ''APPROVAL_LIST_SCHEMA'') (\<lambda>input.
     andthen (approvalTimestamp (get_prop input ''at'') ''APPROVAL_LIST_SCHEMA'') (\<lambda>at.
     andthen (canonicalLimit (get_prop input ''limit'')) (\<lambda>limit.
     collect (\<lambda>row. andthen (validatedRecord h db row) (\<lambda>v.
                Inr (ap_id (va_record v), ap_intent_id (va_record v), ap_intent_hash (va_record v))))
       (take (nat limit) (by_expiry
          (filter (\<lambda>a. awaitingIntent db a (\<lambda>_. True) \<and> ap_expires_at a \<le> at)
             (db_approvals db)))))))"

definition findRetryable :: "host \<Rightarrow> jsval \<Rightarrow> db \<Rightarrow> approval_row option res" where
  "findRetryable h value db =
     (let code = ''APPROVAL_RETRY_SCHEMA'' in
      andthen (exactRecord value [''sessionId'', ''intentHash''] [] code) (\<lambda>input.
      andthen (boundedToken (get_prop input ''sessionId'') code) (\<lambda>sessionId.
      andthen (canonicalHash (get_prop input ''intentHash'') code) (\<lambda>intentHash.
      case filter (\<lambda>a. awaitingIntent db a (\<lambda>i. si_session_id i = sessionId
                          \<and> si_intent_hash i = intentHash)) (db_approvals db) of
        [] \<Rightarrow> Inr None
      | [row] \<Rightarrow> andthen (validatedRecord h db row) (\<lambda>v. Inr (Some (va_record v)))
      | _ \<Rightarrow> fail ''APPROVAL_CORRUPTION''))))"

section \<open>Approve\<close>

definition toApproved :: "string \<Rightarrow> string \<Rightarrow> approval_row \<Rightarrow> approval_row" where
  "toApproved operator at a =
     a\<lparr>ap_decision := ''approved'', ap_operator_id_hash := Some operator, ap_decided_at := Some at\<rparr>"

definition approveInTransaction ::
  "host \<Rightarrow> queue_clock \<Rightarrow> jsval \<Rightarrow> db \<Rightarrow> (db \<times> approval_row) res" where
  "approveInTransaction h ck value db =
     (let code = ''APPROVAL_DECISION_SCHEMA'' in
      andthen (exactRecord value [''approvalId'', ''expectedIntentHash'', ''operatorIdHash''] [] code)
        (\<lambda>input.
      andthen (boundedToken (get_prop input ''approvalId'') code) (\<lambda>approvalId.
      andthen (canonicalHash (get_prop input ''expectedIntentHash'') code) (\<lambda>expected.
      andthen (canonicalHash (get_prop input ''operatorIdHash'') code) (\<lambda>operator.
      case approvalById db approvalId of
        None \<Rightarrow> fail ''APPROVAL_UNKNOWN''
      | Some row \<Rightarrow>
          andthen (validatedRecord h db row) (\<lambda>current.
          let r = va_record current in
          if ap_intent_hash r \<noteq> expected then fail ''APPROVAL_BINDING_MISMATCH''
          else if ap_decision r \<noteq> ''pending'' then fail ''APPROVAL_STATE_CONFLICT''
          else
            andthen (transitionTime (qc_now ck) (va_authority current)
                       (ly_lastTransitionAt (va_lifecycle current))) (\<lambda>approvedAt.
            if date_ms (ap_expires_at r) \<le> date_ms approvedAt then fail ''APPROVAL_EXPIRED''
            else
              moveApproval h ck approvalId
                (\<lambda>a. ap_intent_hash a = expected \<and> ap_decision a = ''pending''
                     \<and> approvedAt < ap_expires_at a)
                (toApproved operator approvedAt) ''approval.approved''
                [(''intentId'', JStr (ap_intent_id r)), (''intentHash'', JStr expected),
                 (''operatorIdHash'', JStr operator), (''approvedAt'', JStr approvedAt)] db)))))))"

definition approve :: "host \<Rightarrow> queue_clock \<Rightarrow> jsval \<Rightarrow> db \<Rightarrow> db \<times> approval_row res" where
  "approve h ck value db = transaction (approveInTransaction h ck value) db"

section \<open>Expiry\<close>

definition toExpired :: "string \<Rightarrow> approval_row \<Rightarrow> approval_row" where
  "toExpired at a =
     a\<lparr>ap_decision := ''expired'', ap_reason_code := Some ''APPROVAL_EXPIRED'',
       ap_decided_at := Some at\<rparr>"

definition expireLoaded ::
  "host \<Rightarrow> queue_clock \<Rightarrow> validated_approval \<Rightarrow> string \<Rightarrow> db \<Rightarrow> (db \<times> approval_row option) res" where
  "expireLoaded h ck current at db =
     (let r = va_record current; previous = ap_decision r in
      if previous \<notin> set OPEN_DECISIONS then Inr (db, None)
      else if date_ms at < date_ms (ap_expires_at r) then fail ''APPROVAL_NOT_DUE''
      else if date_ms at < date_ms (aa_decidedAt (va_authority current))
              \<or> date_ms at < date_ms (ly_lastTransitionAt (va_lifecycle current))
      then fail ''APPROVAL_TIME''
      else
        andthen (moveApproval h ck (ap_id r)
                   (\<lambda>a. ap_intent_id a = ap_intent_id r \<and> ap_intent_hash a = ap_intent_hash r
                        \<and> ap_decision a = previous \<and> ap_expires_at a \<le> at)
                   (toExpired at) ''approval.expired''
                   [(''intentId'', JStr (ap_intent_id r)), (''intentHash'', JStr (ap_intent_hash r)),
                    (''previousDecision'', JStr previous),
                    (''reasonCode'', JStr ''APPROVAL_EXPIRED''), (''expiredAt'', JStr at)] db)
          (\<lambda>(db', record). Inr (db', Some record)))"

definition expireForIntentInTransaction ::
  "host \<Rightarrow> queue_clock \<Rightarrow> jsval \<Rightarrow> db \<Rightarrow> (db \<times> approval_row option) res" where
  "expireForIntentInTransaction h ck value db =
     (let code = ''APPROVAL_EXPIRY_SCHEMA'' in
      andthen (exactRecord value [''approvalId'', ''intentId'', ''expectedIntentHash'', ''at''] [] code)
        (\<lambda>input.
      andthen (boundedToken (get_prop input ''approvalId'') code) (\<lambda>approvalId.
      andthen (boundedToken (get_prop input ''intentId'') code) (\<lambda>intentId.
      andthen (canonicalHash (get_prop input ''expectedIntentHash'') code) (\<lambda>expected.
      andthen (approvalTimestamp (get_prop input ''at'') code) (\<lambda>at.
      case approvalById db approvalId of
        None \<Rightarrow> fail ''APPROVAL_UNKNOWN''
      | Some row \<Rightarrow>
          andthen (validatedRecord h db row) (\<lambda>current.
          if ap_intent_id (va_record current) \<noteq> intentId
             \<or> ap_intent_hash (va_record current) \<noteq> expected
          then fail ''APPROVAL_BINDING_MISMATCH''
          else expireLoaded h ck current at db)))))))"

section \<open>Consumption\<close>

definition toConsumed :: "string \<Rightarrow> approval_row \<Rightarrow> approval_row" where
  "toConsumed at a = a\<lparr>ap_decision := ''consumed'', ap_consumed_at := Some at\<rparr>"

text \<open>An approved record past its expiry is expired instead, and nothing is consumed.\<close>

definition consumeLoaded ::
  "host \<Rightarrow> queue_clock \<Rightarrow> validated_approval \<Rightarrow> db \<Rightarrow> (db \<times> approval_row option) res" where
  "consumeLoaded h ck current db =
     (let r = va_record current in
      if ap_decision r \<noteq> ''approved'' then Inr (db, None)
      else
        andthen (transitionTime (qc_now ck) (va_authority current)
                   (ly_lastTransitionAt (va_lifecycle current))) (\<lambda>consumedAt.
        if date_ms (ap_expires_at r) \<le> date_ms consumedAt
        then andthen (expireLoaded h ck current consumedAt db) (\<lambda>(db', _). Inr (db', None))
        else if (case ap_decided_at r of None \<Rightarrow> False | Some t \<Rightarrow> date_ms consumedAt < date_ms t)
        then fail ''APPROVAL_TIME''
        else
          andthen (moveApproval h ck (ap_id r)
                     (\<lambda>a. ap_intent_id a = ap_intent_id r \<and> ap_intent_hash a = ap_intent_hash r
                          \<and> ap_decision a = ''approved'' \<and> consumedAt < ap_expires_at a)
                     (toConsumed consumedAt) ''approval.consumed''
                     [(''intentId'', JStr (ap_intent_id r)),
                      (''intentHash'', JStr (ap_intent_hash r)),
                      (''consumedAt'', JStr consumedAt)] db)
            (\<lambda>(db', record). Inr (db', Some record))))"

definition consumeForInTransaction ::
  "host \<Rightarrow> queue_clock \<Rightarrow> jsval \<Rightarrow> db \<Rightarrow> (db \<times> approval_row option) res" where
  "consumeForInTransaction h ck value db =
     andthen (consumptionInput value) (\<lambda>b.
     case approvalByIntent db (ab_intentId b) of
       None \<Rightarrow> fail ''APPROVAL_BINDING_MISMATCH''
     | Some row \<Rightarrow>
         andthen (validatedRecord h db row) (\<lambda>current.
         andthen (exactBindingOrFail b (aa_binding (va_authority current))) (\<lambda>_.
         consumeLoaded h ck current db)))"

section \<open>Denial and cancellation\<close>

definition toDenied :: "string \<Rightarrow> string \<Rightarrow> string \<Rightarrow> approval_row \<Rightarrow> approval_row" where
  "toDenied operator reason at a =
     a\<lparr>ap_decision := ''denied'', ap_operator_id_hash := Some operator,
       ap_reason_code := Some reason, ap_decided_at := Some at\<rparr>"

definition denyForIntentInTransaction ::
  "host \<Rightarrow> queue_clock \<Rightarrow> jsval \<Rightarrow> db \<Rightarrow> (db \<times> approval_row) res" where
  "denyForIntentInTransaction h ck value db =
     (let code = ''APPROVAL_DECISION_SCHEMA'' in
      andthen (exactRecord value [''approvalId'', ''intentId'', ''expectedIntentHash'',
                 ''operatorIdHash'', ''reasonCode''] [] code) (\<lambda>input.
      andthen (boundedToken (get_prop input ''approvalId'') code) (\<lambda>approvalId.
      andthen (boundedToken (get_prop input ''intentId'') code) (\<lambda>intentId.
      andthen (canonicalHash (get_prop input ''expectedIntentHash'') code) (\<lambda>expected.
      andthen (canonicalHash (get_prop input ''operatorIdHash'') code) (\<lambda>operator.
      andthen (boundedToken (get_prop input ''reasonCode'') code) (\<lambda>reason.
      case approvalById db approvalId of
        None \<Rightarrow> fail ''APPROVAL_UNKNOWN''
      | Some row \<Rightarrow>
          andthen (validatedRecord h db row) (\<lambda>current.
          let r = va_record current in
          if ap_intent_id r \<noteq> intentId \<or> ap_intent_hash r \<noteq> expected
          then fail ''APPROVAL_BINDING_MISMATCH''
          else if ap_decision r \<noteq> ''pending'' then fail ''APPROVAL_STATE_CONFLICT''
          else
            andthen (transitionTime (qc_now ck) (va_authority current)
                       (ly_lastTransitionAt (va_lifecycle current))) (\<lambda>deniedAt.
            if date_ms (ap_expires_at r) \<le> date_ms deniedAt then fail ''APPROVAL_EXPIRED''
            else
              moveApproval h ck approvalId
                (\<lambda>a. ap_intent_id a = intentId \<and> ap_intent_hash a = expected
                     \<and> ap_decision a = ''pending'' \<and> deniedAt < ap_expires_at a)
                (toDenied operator reason deniedAt) ''approval.denied''
                [(''intentId'', JStr intentId), (''intentHash'', JStr expected),
                 (''operatorIdHash'', JStr operator), (''reasonCode'', JStr reason),
                 (''deniedAt'', JStr deniedAt)] db)))))))))"

definition toCancelled :: "string \<Rightarrow> string \<Rightarrow> approval_row \<Rightarrow> approval_row" where
  "toCancelled reason at a =
     a\<lparr>ap_decision := ''cancelled'', ap_reason_code := Some reason, ap_decided_at := Some at\<rparr>"

definition cancelReason :: "jsval \<Rightarrow> string res" where
  "cancelReason v =
     (case v of
        JStr s \<Rightarrow> if s \<in> set CANCEL_REASONS then Inr s else fail ''APPROVAL_CANCEL_REASON''
      | _ \<Rightarrow> fail ''APPROVAL_CANCEL_REASON'')"

definition cancelLoaded ::
  "host \<Rightarrow> queue_clock \<Rightarrow> string \<Rightarrow> string \<Rightarrow> validated_approval \<Rightarrow> db
     \<Rightarrow> (db \<times> approval_row option) res" where
  "cancelLoaded h ck intentId reason current db =
     (let r = va_record current in
      if ap_decision r \<notin> set OPEN_DECISIONS then Inr (db, None)
      else
        andthen (transitionTime (qc_now ck) (va_authority current)
                   (ly_lastTransitionAt (va_lifecycle current))) (\<lambda>cancelledAt.
        andthen (moveApproval h ck (ap_id r)
                   (\<lambda>a. ap_intent_id a = intentId \<and> ap_intent_hash a = ap_intent_hash r
                        \<and> ap_decision a = ap_decision r)
                   (toCancelled reason cancelledAt) ''approval.cancelled''
                   [(''intentId'', JStr intentId), (''intentHash'', JStr (ap_intent_hash r)),
                    (''previousDecision'', JStr (ap_decision r)),
                    (''reasonCode'', JStr reason), (''cancelledAt'', JStr cancelledAt)] db)
          (\<lambda>(db', record). Inr (db', Some record))))"

definition cancelForIntentInTransaction ::
  "host \<Rightarrow> queue_clock \<Rightarrow> jsval \<Rightarrow> db \<Rightarrow> (db \<times> approval_row option) res" where
  "cancelForIntentInTransaction h ck value db =
     (let code = ''APPROVAL_CANCEL_SCHEMA'' in
      andthen (exactRecord value [''intentId'', ''reasonCode''] [] code) (\<lambda>input.
      andthen (boundedToken (get_prop input ''intentId'') code) (\<lambda>intentId.
      andthen (cancelReason (get_prop input ''reasonCode'')) (\<lambda>reason.
      case approvalByIntent db intentId of
        None \<Rightarrow> Inr (db, None)
      | Some row \<Rightarrow>
          andthen (validatedRecord h db row) (\<lambda>current.
          cancelLoaded h ck intentId reason current db)))))"

end
