(* ===== verification/ApprovalFacts.thy ===== *)
theory ApprovalFacts
  imports ApprovalQueue LedgerReading
begin

text \<open>
  What the operations of the approval queue do to the database. An approval is created pending and
  moves along five kinds of edges; an operation that returns a record either wrote nothing or took
  one such step, appended one chained event of that approval and read the new row back through every
  check of \<^verbatim>\<open>validatedRecord\<close>.
\<close>

section \<open>The life cycle of an approval\<close>

inductive approval_move :: "approval_row \<Rightarrow> approval_row \<Rightarrow> bool" where
  approve_move:
    "ap_decision a = ''pending'' \<Longrightarrow> t < ap_expires_at a \<Longrightarrow> approval_move a (toApproved op t a)"
| deny_move:
    "ap_decision a = ''pending'' \<Longrightarrow> t < ap_expires_at a \<Longrightarrow>
     approval_move a (toDenied op reason t a)"
| expire_move:
    "ap_decision a \<in> set OPEN_DECISIONS \<Longrightarrow> ap_expires_at a \<le> t \<Longrightarrow>
     approval_move a (toExpired t a)"
| cancel_move:
    "ap_decision a \<in> set OPEN_DECISIONS \<Longrightarrow> reason \<in> set CANCEL_REASONS \<Longrightarrow>
     approval_move a (toCancelled reason t a)"
| consume_move:
    "ap_decision a = ''approved'' \<Longrightarrow> t < ap_expires_at a \<Longrightarrow> approval_move a (toConsumed t a)"

definition fresh_approval :: "approval_row \<Rightarrow> bool" where
  "fresh_approval a \<longleftrightarrow>
     ap_decision a = ''pending'' \<and> ap_operator_id_hash a = None \<and> ap_reason_code a = None
     \<and> ap_decided_at a = None \<and> ap_consumed_at a = None"

text \<open>A step of the table: one approval is created or moves.\<close>

inductive approvals_step :: "string \<Rightarrow> approval_row list \<Rightarrow> approval_row list \<Rightarrow> bool" where
  open_approval:
    "fresh_approval a \<Longrightarrow> ap_id a = i \<Longrightarrow> i \<notin> ap_id ` set rows \<Longrightarrow>
     ap_intent_id a \<notin> ap_intent_id ` set rows \<Longrightarrow> approvals_step i rows (rows @ [a])"
| move_approval:
    "approval_move a a' \<Longrightarrow> ap_id a = i \<Longrightarrow> approvals_step i (xs @ a # ys) (xs @ a' # ys)"

inductive_cases approval_moveE: "approval_move a a'"
inductive_cases approvals_stepE: "approvals_step i rows rows'"

lemmas approval_changes =
  toApproved_def toDenied_def toExpired_def toCancelled_def toConsumed_def

text \<open>The primary key and the UNIQUE intent of the table.\<close>

definition approval_keys :: "approval_row list \<Rightarrow> bool" where
  "approval_keys rows \<longleftrightarrow> distinct (map ap_id rows) \<and> distinct (map ap_intent_id rows)"

lemma approval_move_fixed:
  "approval_move a a' \<Longrightarrow> ap_id a' = ap_id a \<and> recordBinding a' = recordBinding a
     \<and> ap_decision a \<in> set OPEN_DECISIONS"
  by (auto elim!: approval_moveE simp: approval_changes recordBinding_def OPEN_DECISIONS_def)

lemma approvals_step_keys: "approvals_step i rows rows' \<Longrightarrow> approval_keys rows \<Longrightarrow> approval_keys rows'"
proof (induction rule: approvals_step.induct)
  case (move_approval a a' i xs ys)
  from approval_move_fixed [OF move_approval(1)] have "ap_id a' = ap_id a" "ap_intent_id a' = ap_intent_id a"
    by (auto simp: recordBinding_def)
  with move_approval.prems show ?case by (simp add: approval_keys_def)
qed (auto simp: approval_keys_def)

text \<open>The distance from a final decision; every move shortens it.\<close>

definition approval_rank :: "approval_row \<Rightarrow> nat" where
  "approval_rank a = (if ap_decision a = ''pending'' then 2
     else if ap_decision a = ''approved'' then 1 else 0)"

lemma approval_move_rank: "approval_move a a' \<Longrightarrow> approval_rank a' < approval_rank a"
  by (auto elim!: approval_moveE simp: approval_rank_def approval_changes OPEN_DECISIONS_def)

section \<open>The effect of an operation\<close>

definition approval_event_row :: "string \<Rightarrow> event_row \<Rightarrow> bool" where
  "approval_event_row i e \<longleftrightarrow> ev_entity_type e = ''approval'' \<and> ev_entity_id e = i"

definition approval_effect :: "host \<Rightarrow> string \<Rightarrow> db \<Rightarrow> db \<Rightarrow> bool" where
  "approval_effect h i db db' \<longleftrightarrow>
     approvals_step i (db_approvals db) (db_approvals db')
     \<and> (\<exists>e. db_events db' = db_events db @ [e] \<and> approval_event_row i e
          \<and> chained h (db_events db) e)
     \<and> db' = db\<lparr>db_approvals := db_approvals db', db_events := db_events db'\<rparr>"

lemma approvalEvent_sel [simp]:
  "evt_entityType (approvalEvent i t d) = JStr ''approval''"
  "evt_entityId (approvalEvent i t d) = JStr i"
  "evt_eventType (approvalEvent i t d) = JStr t"
  "evt_data (approvalEvent i t d) = JObj d"
  by (simp_all add: approvalEvent_def)

lemma approval_append_effect:
  assumes "appendEvent h now (approvalEvent i type d) (db\<lparr>db_approvals := rows\<rparr>) = Inr (db', hash)"
    and "js_wf (JObj d)" and "approvals_step i (db_approvals db) rows"
  shows "approval_effect h i db db'" and "db_approvals db' = rows"
proof -
  from assms(1,2) obtain e where
      "db' = db\<lparr>db_approvals := rows\<rparr>\<lparr>db_events := db_events (db\<lparr>db_approvals := rows\<rparr>) @ [e]\<rparr>"
      "approval_event_row i e" "chained h (db_events (db\<lparr>db_approvals := rows\<rparr>)) e"
    by (elim appendEvent_Inr) (auto simp: approval_event_row_def)
  with assms(3) show "approval_effect h i db db'" and "db_approvals db' = rows"
    by (auto simp: approval_effect_def)
qed

text \<open>An accepted row is the record itself.\<close>

lemma rowToRecord_Inr: "rowToRecord r = Inr x \<Longrightarrow> x = r \<and> lifecycleValid r"
  by (auto simp: rowToRecord_def Let_def)

lemma validatedRecord_obtains:
  assumes "validatedRecord h db row = Inr v"
  obtains "va_record v = row" and "lifecycleValid row"
    and "loadAuthority h db (ap_intent_id row) = Inr (Some (va_authority v))"
    and "sameBinding (recordBinding row) (aa_binding (va_authority v)) = Inr True"
    and "recordTimely row (va_authority v)"
    and "validateApprovalLifecycle h db (va_authority v) row = Inr (va_lifecycle v)"
  using assms unfolding validatedRecord_def
  by (auto dest!: rowToRecord_Inr split: option.splits if_splits)

lemma rereadApproval_Inr:
  "rereadApproval h db i = Inr r \<longleftrightarrow>
     approvalById db i = Some r \<and> (\<exists>v. validatedRecord h db r = Inr v)"
  by (auto simp: rereadApproval_def split: option.splits elim: validatedRecord_obtains)

lemma approvalById_Some: "approvalById db i = Some a \<Longrightarrow> a \<in> set (db_approvals db) \<and> ap_id a = i"
  by (auto simp: approvalById_def dest: select_one_Some)

lemma approvalByIntent_Some:
  "approvalByIntent db i = Some a \<Longrightarrow> a \<in> set (db_approvals db) \<and> ap_intent_id a = i"
  by (auto simp: approvalByIntent_def dest: select_one_Some)

lemma moveApproval_obtains:
  assumes "moveApproval h ck i P f type d db = Inr (db', record)" and "js_wf (JObj d)"
    and "\<And>a. P a \<Longrightarrow> approval_move a (f a)"
  obtains xs a ys where "db_approvals db = xs @ a # ys" and "db_approvals db' = xs @ f a # ys"
    and "ap_id a = i" and "P a" and "approval_effect h i db db'"
    and "rereadApproval h db' i = Inr record"
proof -
  from assms(1) obtain rows hash where
      u: "update_one ''APPROVAL_STATE_CONFLICT'' (\<lambda>a. ap_id a = i \<and> P a) f (db_approvals db)
          = Inr rows"
    and e: "appendEvent h (qc_store ck) (approvalEvent i type d) (db\<lparr>db_approvals := rows\<rparr>)
          = Inr (db', hash)"
    and r: "rereadApproval h db' i = Inr record"
    by (auto simp: moveApproval_def)
  from u obtain xs a ys where a: "db_approvals db = xs @ a # ys" "ap_id a = i \<and> P a"
      "rows = xs @ f a # ys"
    by (rule update_one_Inr)
  then have "approvals_step i (db_approvals db) rows"
    by (auto intro: move_approval assms(3))
  from approval_append_effect [OF e assms(2) this] a r that show thesis by simp
qed

section \<open>The operations\<close>

definition approval_written :: "host \<Rightarrow> db \<Rightarrow> db \<Rightarrow> bool" where
  "approval_written h db db' \<longleftrightarrow>
     (\<exists>i a. approval_effect h i db db' \<and> rereadApproval h db' i = Inr a)"

lemma moveApproval_written:
  assumes "moveApproval h ck i P f type d db = Inr (db', record)" and "js_wf (JObj d)"
    and "\<And>a. P a \<Longrightarrow> approval_move a (f a)"
  shows "approval_written h db db'"
  using assms by (rule moveApproval_obtains) (auto simp: approval_written_def)

lemma insertApproval_obtains:
  assumes "insertApproval h ck i b t db = Inr (db', record)"
  obtains "approvalById db i = None" and "approvalByIntent db (ab_intentId b) = None"
    and "db_approvals db' = db_approvals db @ [newApproval i b]"
    and "approval_effect h i db db'" and "rereadApproval h db' i = Inr record"
proof -
  from assms obtain hash where i: "approvalById db i = None"
    and b: "approvalByIntent db (ab_intentId b) = None"
    and e: "appendEvent h (qc_store ck) (approvalEvent i ''approval.requested'' (requestedData b t))
      (db\<lparr>db_approvals := db_approvals db @ [newApproval i b]\<rparr>) = Inr (db', hash)"
    and r: "rereadApproval h db' i = Inr record"
    by (auto simp: insertApproval_def split: if_splits)
  have step: "approvals_step i (db_approvals db) (db_approvals db @ [newApproval i b])"
    using i b by (intro open_approval)
      (auto simp: fresh_approval_def newApproval_def approvalById_def approvalByIntent_def
        select_one_None)
  have "js_wf (JObj (requestedData b t))" by (simp add: requestedData_def)
  from approval_append_effect [OF e this step] i b r that show thesis by simp
qed

lemma validatedRecord_record: "validatedRecord h db row = Inr v \<Longrightarrow> va_record v = row"
  by (erule validatedRecord_obtains)

lemma requestInTransaction_obtains:
  assumes "requestInTransaction h ck fresh value db = Inr (db', record)"
  obtains (replay) r au v where "requestInput value [] = Inr r"
      and "loadAuthority h db (ab_intentId r) = Inr (Some au)"
      and "exactBindingOrFail (r\<lparr>ab_expiresAt := ab_expiresAt (aa_binding au)\<rparr>) (aa_binding au) = Inr ()"
      and "approvalByIntent db (ab_intentId r) = Some record"
      and "validatedRecord h db record = Inr v" and "db' = db"
  | (first) r au t i where "requestInput value [] = Inr r"
      and "loadAuthority h db (ab_intentId r) = Inr (Some au)"
      and "exactBindingOrFail (r\<lparr>ab_expiresAt := ab_expiresAt (aa_binding au)\<rparr>) (aa_binding au) = Inr ()"
      and "approvalByIntent db (ab_intentId r) = None"
      and "requestGuards ck au db = Inr t" and "boundedToken fresh ''ID_FACTORY'' = Inr i"
      and "insertApproval h ck i (aa_binding au) t db = Inr (db', record)"
proof -
  from assms obtain r au where r: "requestInput value [] = Inr r"
      "loadAuthority h db (ab_intentId r) = Inr (Some au)"
      "exactBindingOrFail (r\<lparr>ab_expiresAt := ab_expiresAt (aa_binding au)\<rparr>) (aa_binding au) = Inr ()"
    by (auto simp: requestInTransaction_def Let_def split: option.splits)
  show thesis
  proof (cases "approvalByIntent db (ab_intentId r)")
    case None
    with assms r show thesis by (auto simp: requestInTransaction_def Let_def intro: first)
  next
    case (Some row)
    with assms r obtain v where "validatedRecord h db row = Inr v" "db' = db" "record = va_record v"
      by (auto simp: requestInTransaction_def Let_def)
    moreover from this(1) have "va_record v = row" by (rule validatedRecord_record)
    ultimately show thesis using r Some replay by simp
  qed
qed

lemma requestInTransaction_written:
  assumes "requestInTransaction h ck fresh value db = Inr (db', record)"
  shows "db' = db \<or> approval_written h db db'"
  using assms
  by (rule requestInTransaction_obtains)
    (auto simp: approval_written_def elim: insertApproval_obtains)

text \<open>
  A move reads the approval, checks it and takes the time; \<^verbatim>\<open>r\<close> is the row before, \<^verbatim>\<open>v\<close> what its
  check established.
\<close>

lemma approveInTransaction_obtains:
  assumes "approveInTransaction h ck value db = Inr (db', record)"
  obtains i e op v t d r where "moveApproval h ck i
           (\<lambda>a. ap_intent_hash a = e \<and> ap_decision a = ''pending'' \<and> t < ap_expires_at a)
           (toApproved op t) ''approval.approved'' d db = Inr (db', record)"
    and "js_wf (JObj d)" and "approvalById db i = Some r" and "validatedRecord h db r = Inr v"
    and "ap_intent_hash (va_record v) = e" and "ap_decision (va_record v) = ''pending''"
    and "date_ms t < date_ms (ap_expires_at (va_record v))"
  using assms unfolding approveInTransaction_def Let_def
  by (elim handler_elims) (rule that, (assumption | (simp; fail))+)

lemma approveInTransaction_written:
  assumes "approveInTransaction h ck value db = Inr (db', record)"
  shows "approval_written h db db'"
  using assms
  by (rule approveInTransaction_obtains, elim moveApproval_written) (auto intro: approve_move)

lemma denyForIntentInTransaction_obtains:
  assumes "denyForIntentInTransaction h ck value db = Inr (db', record)"
  obtains i n e op reason v t d r where "moveApproval h ck i
           (\<lambda>a. ap_intent_id a = n \<and> ap_intent_hash a = e \<and> ap_decision a = ''pending''
              \<and> t < ap_expires_at a)
           (toDenied op reason t) ''approval.denied'' d db = Inr (db', record)"
    and "js_wf (JObj d)" and "approvalById db i = Some r" and "validatedRecord h db r = Inr v"
    and "ap_decision (va_record v) = ''pending''"
    and "date_ms t < date_ms (ap_expires_at (va_record v))"
  using assms unfolding denyForIntentInTransaction_def Let_def
  by (elim handler_elims) (rule that, (assumption | (simp; fail))+)

lemma expireLoaded_obtains:
  assumes "expireLoaded h ck v t db = Inr (db', result)"
  obtains (closed) "ap_decision (va_record v) \<notin> set OPEN_DECISIONS" and "db' = db" and "result = None"
  | (due) d a where "moveApproval h ck (ap_id (va_record v))
           (\<lambda>a. ap_intent_id a = ap_intent_id (va_record v)
              \<and> ap_intent_hash a = ap_intent_hash (va_record v)
              \<and> ap_decision a = ap_decision (va_record v) \<and> ap_expires_at a \<le> t)
           (toExpired t) ''approval.expired'' d db = Inr (db', a)"
      and "js_wf (JObj d)" and "ap_decision (va_record v) \<in> set OPEN_DECISIONS"
      and "result = Some a"
  using assms unfolding expireLoaded_def Let_def
  by (cases "ap_decision (va_record v) \<in> set OPEN_DECISIONS") (auto split: if_splits)

lemma expireForIntentInTransaction_obtains:
  assumes "expireForIntentInTransaction h ck value db = Inr (db', result)"
  obtains i t r v where "approvalById db i = Some r" and "validatedRecord h db r = Inr v"
    and "expireLoaded h ck v t db = Inr (db', result)"
  using assms unfolding expireForIntentInTransaction_def Let_def
  by (elim handler_elims) (rule that, assumption+)

lemma consumeLoaded_obtains:
  assumes "consumeLoaded h ck v db = Inr (db', result)"
  obtains (closed) "db' = db" and "result = None"
  | (late) t x where "expireLoaded h ck v t db = Inr (db', x)" and "result = None"
  | (consumed) t d a where "ap_decision (va_record v) = ''approved''"
      and "transitionTime (qc_now ck) (va_authority v) (ly_lastTransitionAt (va_lifecycle v)) = Inr t"
      and "date_ms t < date_ms (ap_expires_at (va_record v))"
      and "moveApproval h ck (ap_id (va_record v))
           (\<lambda>a. ap_intent_id a = ap_intent_id (va_record v)
              \<and> ap_intent_hash a = ap_intent_hash (va_record v)
              \<and> ap_decision a = ''approved'' \<and> t < ap_expires_at a)
           (toConsumed t) ''approval.consumed'' d db = Inr (db', a)"
      and "js_wf (JObj d)" and "result = Some a"
proof (cases "ap_decision (va_record v) = ''approved''")
  case False
  with assms closed show thesis by (simp add: consumeLoaded_def)
next
  case True
  with assms obtain t where t: "transitionTime (qc_now ck) (va_authority v)
      (ly_lastTransitionAt (va_lifecycle v)) = Inr t"
    by (auto simp: consumeLoaded_def Let_def)
  show thesis
  proof (cases "date_ms (ap_expires_at (va_record v)) \<le> date_ms t")
    case late': True
    with assms t True obtain x where "expireLoaded h ck v t db = Inr (db', x)" "result = None"
      by (auto simp: consumeLoaded_def Let_def)
    then show thesis by (rule late)
  next
    case False
    with assms t True show thesis
      by (auto simp: consumeLoaded_def Let_def split: if_splits intro: consumed [OF True t])
  qed
qed

lemma consumeForInTransaction_obtains:
  assumes "consumeForInTransaction h ck value db = Inr (db', result)"
  obtains b r v where "consumptionInput value = Inr b"
    and "approvalByIntent db (ab_intentId b) = Some r" and "validatedRecord h db r = Inr v"
    and "exactBindingOrFail b (aa_binding (va_authority v)) = Inr ()"
    and "consumeLoaded h ck v db = Inr (db', result)"
  using assms unfolding consumeForInTransaction_def
  by (elim handler_elims) (rule that, (assumption | (simp; fail))+)

lemma cancelLoaded_obtains:
  assumes "cancelLoaded h ck n reason v db = Inr (db', result)"
  obtains (closed) "db' = db" and "result = None"
  | (cancelled) t d a where "ap_decision (va_record v) \<in> set OPEN_DECISIONS"
      and "moveApproval h ck (ap_id (va_record v))
           (\<lambda>a. ap_intent_id a = n \<and> ap_intent_hash a = ap_intent_hash (va_record v)
              \<and> ap_decision a = ap_decision (va_record v))
           (toCancelled reason t) ''approval.cancelled'' d db = Inr (db', a)"
      and "js_wf (JObj d)" and "result = Some a"
  using assms unfolding cancelLoaded_def Let_def
  by (cases "ap_decision (va_record v) \<in> set OPEN_DECISIONS") auto

lemma cancelForIntentInTransaction_obtains:
  assumes "cancelForIntentInTransaction h ck value db = Inr (db', result)"
  obtains (absent) "db' = db" and "result = None"
  | (loaded) n reason r v where "reason \<in> set CANCEL_REASONS"
      and "approvalByIntent db n = Some r" and "validatedRecord h db r = Inr v"
      and "cancelLoaded h ck n reason v db = Inr (db', result)"
proof -
  have reason: "s \<in> set CANCEL_REASONS" if "cancelReason x = Inr s" for x s
    using that by (auto simp: cancelReason_def split: jsval.splits if_splits)
  from assms obtain n r where r: "r \<in> set CANCEL_REASONS"
    and c: "(case approvalByIntent db n of
        None \<Rightarrow> Inr (db, None)
      | Some row \<Rightarrow> andthen (validatedRecord h db row) (\<lambda>v. cancelLoaded h ck n r v db)) = Inr (db', result)"
    unfolding cancelForIntentInTransaction_def Let_def
    by (elim andthen_InrE) (rule that, erule reason, assumption)
  show thesis
  proof (cases "approvalByIntent db n")
    case None
    with c absent show thesis by simp
  next
    case (Some row)
    with c loaded [OF r Some] show thesis by auto
  qed
qed

section \<open>Every operation writes as the life cycle allows\<close>

lemma denyForIntentInTransaction_written:
  assumes "denyForIntentInTransaction h ck value db = Inr (db', record)"
  shows "approval_written h db db'"
  using assms
  by (rule denyForIntentInTransaction_obtains, elim moveApproval_written) (auto intro: deny_move)

lemma expireLoaded_written:
  assumes "expireLoaded h ck v t db = Inr (db', result)"
  shows "db' = db \<or> approval_written h db db'"
  using assms
proof (rule expireLoaded_obtains)
  fix d a
  assume m: "moveApproval h ck (ap_id (va_record v))
       (\<lambda>a. ap_intent_id a = ap_intent_id (va_record v)
          \<and> ap_intent_hash a = ap_intent_hash (va_record v)
          \<and> ap_decision a = ap_decision (va_record v) \<and> ap_expires_at a \<le> t)
       (toExpired t) ''approval.expired'' d db = Inr (db', a)" and "js_wf (JObj d)"
    and "ap_decision (va_record v) \<in> set OPEN_DECISIONS"
  then show ?thesis by (intro disjI2 moveApproval_written [OF m]) (auto intro: expire_move)
qed simp

lemma expireForIntentInTransaction_written:
  assumes "expireForIntentInTransaction h ck value db = Inr (db', result)"
  shows "db' = db \<or> approval_written h db db'"
  using assms by (rule expireForIntentInTransaction_obtains) (rule expireLoaded_written)

lemma consumeLoaded_written:
  assumes "consumeLoaded h ck v db = Inr (db', result)"
  shows "db' = db \<or> approval_written h db db'"
  using assms
proof (rule consumeLoaded_obtains)
  fix t x assume "expireLoaded h ck v t db = Inr (db', x)"
  then show ?thesis by (rule expireLoaded_written)
next
  fix t d a
  assume m: "moveApproval h ck (ap_id (va_record v))
           (\<lambda>a. ap_intent_id a = ap_intent_id (va_record v)
              \<and> ap_intent_hash a = ap_intent_hash (va_record v)
              \<and> ap_decision a = ''approved'' \<and> t < ap_expires_at a)
           (toConsumed t) ''approval.consumed'' d db = Inr (db', a)" and "js_wf (JObj d)"
  then show ?thesis by (intro disjI2 moveApproval_written [OF m]) (auto intro: consume_move)
qed simp

lemma consumeForInTransaction_written:
  assumes "consumeForInTransaction h ck value db = Inr (db', result)"
  shows "db' = db \<or> approval_written h db db'"
  using assms by (rule consumeForInTransaction_obtains) (rule consumeLoaded_written)

lemma cancelLoaded_written:
  assumes "cancelLoaded h ck n reason v db = Inr (db', result)" and "reason \<in> set CANCEL_REASONS"
  shows "db' = db \<or> approval_written h db db'"
  using assms(1)
proof (rule cancelLoaded_obtains)
  fix t d a
  assume m: "moveApproval h ck (ap_id (va_record v))
           (\<lambda>a. ap_intent_id a = n \<and> ap_intent_hash a = ap_intent_hash (va_record v)
              \<and> ap_decision a = ap_decision (va_record v))
           (toCancelled reason t) ''approval.cancelled'' d db = Inr (db', a)" and "js_wf (JObj d)"
    and "ap_decision (va_record v) \<in> set OPEN_DECISIONS"
  then show ?thesis
    using assms(2) by (intro disjI2 moveApproval_written [OF m]) (auto intro: cancel_move)
qed simp

lemma cancelForIntentInTransaction_written:
  assumes "cancelForIntentInTransaction h ck value db = Inr (db', result)"
  shows "db' = db \<or> approval_written h db db'"
  using assms by (rule cancelForIntentInTransaction_obtains) (simp, rule cancelLoaded_written)

end
