(* ===== verification/ApprovalSafety.thy ===== *)
theory ApprovalSafety
  imports ApprovalFacts
begin

text \<open>
  The contract the operations of the approval queue share, as a locale with its six interpretations,
  the queue driven by calls, and what holds along every run.
\<close>

section \<open>The contract of an operation\<close>

locale approval_op =
  fixes h :: host and step :: "db \<Rightarrow> (db \<times> 'r) res"
  assumes effect: "step db = Inr (db', x) \<Longrightarrow> db' = db \<or> approval_written h db db'"
begin

lemma call_error: "transaction step db = (db', Inl e) \<Longrightarrow> db' = db"
  using transaction_Inl [of step db e] by simp

lemma call_effect: "db' = fst (transaction step db) \<Longrightarrow> db' = db \<or> approval_written h db db'"
  by (auto simp: transaction_def dest: effect split: sum.splits)

end

interpretation request_op: approval_op h "requestInTransaction h ck fresh v" for h ck fresh v
  by unfold_locales (rule requestInTransaction_written)

interpretation approve_op: approval_op h "approveInTransaction h ck v" for h ck v
  by unfold_locales (rule disjI2, rule approveInTransaction_written)

interpretation deny_op: approval_op h "denyForIntentInTransaction h ck v" for h ck v
  by unfold_locales (rule disjI2, rule denyForIntentInTransaction_written)

interpretation expire_op: approval_op h "expireForIntentInTransaction h ck v" for h ck v
  by unfold_locales (rule expireForIntentInTransaction_written)

interpretation consume_op: approval_op h "consumeForInTransaction h ck v" for h ck v
  by unfold_locales (rule consumeForInTransaction_written)

interpretation cancel_op: approval_op h "cancelForIntentInTransaction h ck v" for h ck v
  by unfold_locales (rule cancelForIntentInTransaction_written)

section \<open>A queue driven by calls\<close>

text \<open>
  The writing operations of the queue with their inputs. The last four take the transaction of their
  caller; here each has its own.
\<close>

datatype approval_call =
    RequestApproval jsval jsval
  | Approve jsval
  | DenyApproval jsval
  | ExpireApproval jsval
  | ConsumeApproval jsval
  | CancelApproval jsval

definition some_result :: "(db \<Rightarrow> (db \<times> 'r) res) \<Rightarrow> db \<Rightarrow> (db \<times> 'r option) res" where
  "some_result step db = andthen (step db) (\<lambda>(db', x). Inr (db', Some x))"

fun approval_step :: "host \<Rightarrow> queue_clock \<Rightarrow> approval_call \<Rightarrow> db \<Rightarrow> (db \<times> approval_row option) res"
where
  "approval_step h ck (RequestApproval fresh v) = some_result (requestInTransaction h ck fresh v)"
| "approval_step h ck (Approve v) = some_result (approveInTransaction h ck v)"
| "approval_step h ck (DenyApproval v) = some_result (denyForIntentInTransaction h ck v)"
| "approval_step h ck (ExpireApproval v) = expireForIntentInTransaction h ck v"
| "approval_step h ck (ConsumeApproval v) = consumeForInTransaction h ck v"
| "approval_step h ck (CancelApproval v) = cancelForIntentInTransaction h ck v"

definition approval_run ::
  "host \<Rightarrow> queue_clock \<Rightarrow> approval_call \<Rightarrow> db \<Rightarrow> db \<times> approval_row option res" where
  "approval_run h ck c = transaction (approval_step h ck c)"

lemma request_is_run:
  "approval_run h ck (RequestApproval fresh v) db = map_prod id (map_sum id Some) (request h ck fresh v db)"
  by (simp add: approval_run_def request_def transaction_def some_result_def andthen_def
      split: sum.split prod.split)

lemma approve_is_run:
  "approval_run h ck (Approve v) db = map_prod id (map_sum id Some) (approve h ck v db)"
  by (simp add: approval_run_def approve_def transaction_def some_result_def andthen_def
      split: sum.split prod.split)

lemma some_result_Inr: "some_result step db = Inr (db', x) \<longleftrightarrow> (\<exists>y. step db = Inr (db', y) \<and> x = Some y)"
  by (auto simp: some_result_def andthen_Inr_iff)

interpretation any_op: approval_op h "approval_step h ck c" for h ck c
proof
  fix db db' x
  assume "approval_step h ck c db = Inr (db', x)"
  then show "db' = db \<or> approval_written h db db'"
    by (cases c)
      (auto simp: some_result_Inr dest: request_op.effect approve_op.effect deny_op.effect
        expire_op.effect consume_op.effect cancel_op.effect)
qed

lemma approval_run_error: "approval_run h ck c db = (db', Inl e) \<Longrightarrow> db' = db"
  unfolding approval_run_def by (rule any_op.call_error)

lemma approval_run_effect:
  "db' = fst (approval_run h ck c db) \<Longrightarrow> db' = db \<or> approval_written h db db'"
  unfolding approval_run_def by (rule any_op.call_effect)

text \<open>Other components share the database; they neither write approvals nor rewrite the log.\<close>

inductive approval_reach :: "host \<Rightarrow> db \<Rightarrow> db \<Rightarrow> bool" for h db0 where
  approval_start: "approval_reach h db0 db0"
| approval_called:
    "approval_reach h db0 db \<Longrightarrow> approval_reach h db0 (fst (approval_run h ck c db))"
| approval_outside:
    "approval_reach h db0 db \<Longrightarrow> db_approvals db' = db_approvals db \<Longrightarrow>
     log_grows h (db_events db) (db_events db') \<Longrightarrow> approval_reach h db0 db'"

lemma approval_reach_table:
  assumes "approval_reach h db0 db" and "P (db_approvals db0)"
    and step: "\<And>i rows rows'. approvals_step i rows rows' \<Longrightarrow> P rows \<Longrightarrow> P rows'"
  shows "P (db_approvals db)"
  using assms(1)
proof induction
  case (approval_called db ck c)
  from approval_run_effect [OF refl, of h ck c db] show ?case
    using approval_called.IH by (auto simp: approval_written_def approval_effect_def intro: step)
qed (use assms(2) in simp_all)

lemma approval_reach_keys:
  "approval_reach h db0 db \<Longrightarrow> approval_keys (db_approvals db0) \<Longrightarrow> approval_keys (db_approvals db)"
  by (rule approval_reach_table) (auto intro: approvals_step_keys)

lemma approval_reach_log:
  "approval_reach h db0 db \<Longrightarrow> log_grows h (db_events db0) (db_events db)"
proof (induction rule: approval_reach.induct)
  case (approval_called db ck c)
  from approval_run_effect [OF refl, of h ck c db] show ?case
    using approval_called.IH
    by (auto simp: approval_written_def approval_effect_def intro: append_log)
qed (auto intro: same_log log_grows_trans)

section \<open>Rows along a run\<close>

text \<open>What a later version of an approval keeps of it.\<close>

definition later_approval :: "approval_row \<Rightarrow> approval_row \<Rightarrow> bool" where
  "later_approval a a' \<longleftrightarrow>
     ap_id a' = ap_id a \<and> recordBinding a' = recordBinding a
     \<and> (ap_decision a \<notin> set OPEN_DECISIONS \<longrightarrow> a' = a)
     \<and> (ap_decision a = ''approved'' \<longrightarrow> ap_operator_id_hash a' = ap_operator_id_hash a)
     \<and> approval_rank a' \<le> approval_rank a"

lemma later_approval_refl: "later_approval a a"
  by (simp add: later_approval_def)

lemma approval_move_later: "approval_move a a' \<Longrightarrow> later_approval a a'"
  using approval_move_fixed [of a a'] approval_move_rank [of a a']
  by (auto elim!: approval_moveE simp: later_approval_def approval_changes)

lemma approval_move_decisions:
  "approval_move a a' \<Longrightarrow> ap_decision a' = ''approved'' \<or> ap_decision a' \<notin> set OPEN_DECISIONS"
  by (auto elim!: approval_moveE simp: approval_changes OPEN_DECISIONS_def)

lemma later_approval_move:
  assumes "later_approval a b" and "approval_move b c"
  shows "later_approval a c"
proof -
  have "ap_decision a \<in> set OPEN_DECISIONS"
    using assms by (auto simp: later_approval_def dest: approval_move_fixed)
  moreover have "ap_decision b = ''approved''" if "ap_decision a = ''approved''"
    using that assms approval_move_fixed [OF assms(2)]
    by (auto simp: later_approval_def approval_rank_def OPEN_DECISIONS_def split: if_splits)
  ultimately show ?thesis
    using assms approval_move_later [OF assms(2)] by (auto simp: later_approval_def)
qed

lemma approvals_step_later:
  assumes "approvals_step i rows rows'" and "\<exists>b \<in> set rows. later_approval a b"
  shows "\<exists>b \<in> set rows'. later_approval a b"
  using assms
proof (induction rule: approvals_step.induct)
  case (move_approval x x' i xs ys)
  then show ?case by (auto dest: later_approval_move)
qed auto

end
