(* ===== verification/ApprovalReading.thy ===== *)
theory ApprovalReading
  imports ApprovalSafety LedgerReserve
begin

text \<open>
  What the checks of the approval queue establish when they accept: equal binding texts are equal
  bindings, an approval's binding is that of its intent, decision and session, a validated approval
  has the events its decision says, and the ledger reads a consumed approval as the queue wrote it.
\<close>

section \<open>Bindings\<close>

lemma sameBinding_True:
  assumes "sameBinding l r = Inr True"
  shows "l = r"
proof -
  obtain kl kr where js: "binding_js l = JObj kl" "binding_js r = JObj kr"
    and wf: "js_wf (JObj kl)" "js_wf (JObj kr)"
    by (simp add: binding_js_def)
  from assms obtain t where "canonicalJson (JObj kl) = Inr t" "canonicalJson (JObj kr) = Inr t"
    by (auto simp: sameBinding_def js)
  then have eq: "js_normal (get_prop kl k) = js_normal (get_prop kr k)" for k
    using wf by (rule canonicalJson_entries)
  have "kl = (case binding_js l of JObj x \<Rightarrow> x | _ \<Rightarrow> [])" "kr = (case binding_js r of JObj x \<Rightarrow> x | _ \<Rightarrow> [])"
    by (simp_all add: js)
  with eq [of "''intentId''"] eq [of "''intentHash''"] eq [of "''challengeHash''"] eq [of "''quoteId''"]
    eq [of "''amountCeilingAtomic''"] eq [of "''walletAddress''"] eq [of "''policyVersionId''"]
    eq [of "''acceptedIndex''"] eq [of "''expiresAt''"]
  show ?thesis by (simp add: binding_js_def get_prop_def)
qed

lemma exactBindingOrFail_Inr: "exactBindingOrFail l r = Inr u \<Longrightarrow> l = r"
  by (auto simp: exactBindingOrFail_def intro: sameBinding_True split: if_splits)

section \<open>The authority\<close>

lemma approvalToken_Inr: "boundedToken v code = Inr t \<longleftrightarrow> canonicalToken v = Inr t"
  by (simp add: boundedToken_def)

lemma canonicalIndex_Inr:
  "canonicalIndex v code = Inr n \<Longrightarrow> (v = JNum n \<or> v = JBig n) \<and> 0 \<le> n \<and> n \<le> MAX_SAFE_INTEGER"
  by (auto simp: canonicalIndex_def split: jsval.splits if_splits)

lemma canonicalHash_InrD: "canonicalHash v code = Inr t \<Longrightarrow> v = JStr t \<and> hash_pattern t"
  by (auto simp: canonicalHash_def split: jsval.splits if_splits)

lemma approvalAddress_Inr:
  "approvalAddress v code = Inr t \<Longrightarrow> v = JStr t \<and> canonical_address_pattern t"
  by (auto simp: approvalAddress_def split: jsval.splits if_splits)

lemma canonicalAtomic_InrD: "canonicalAtomic v = Inr t \<Longrightarrow> v = JStr t \<and> decimal_pattern t"
  by (auto simp: canonicalAtomic_def split: jsval.splits if_splits)

text \<open>The binding of an authority is made of the rows it was read from.\<close>

lemma readAuthorityFields_Inr:
  assumes "readAuthorityFields i d s = Inr f"
  shows "si_intent_hash i = af_intentHash f" and "pd_challenge_hash d = af_decisionChallengeHash f"
    and "pd_quote_id d = Some (af_quoteId f)" and "pd_amount_ceiling_atomic d = af_amount f"
    and "si_wallet_address i = af_intentWallet f" and "ss_wallet_address s = af_sessionWallet f"
    and "pd_policy_version_id d = af_policyVersionId f"
    and "pd_accepted_index d = Some (af_acceptedIndex f)"
    and "decimal_pattern (af_amount f)" and "0 \<le> af_acceptedIndex f"
    and "af_acceptedIndex f \<le> MAX_SAFE_INTEGER"
    and "pd_decided_at d = af_decidedAt f" and "canonical_time (af_decidedAt f)"
  using assms unfolding readAuthorityFields_def Let_def
  by (auto simp: ledgerToken_Inr canonicalTimestamp_Inr option_js_def
      dest!: canonicalHash_InrD canonicalAtomic_InrD approvalAddress_Inr canonicalIndex_Inr
      split: option.splits)

lemma parsePolicyRow_Inr: "parsePolicyRow h row = Inr v \<Longrightarrow> \<exists>r. row = Some r \<and> pvr_id r = fst v"
  by (auto simp: parsePolicyRow_def ledgerToken_Inr split: option.splits)

lemma loadAuthority_obtains:
  assumes "loadAuthority h db i = Inr (Some A)"
  obtains intent decision session enrollment f p where
      "select_one (\<lambda>r. si_id r = i) (db_intents db) = Some intent"
    and "select_one (\<lambda>d. pd_intent_id d = i) (db_decisions db) = Some decision"
    and "select_one (\<lambda>s. ss_id s = si_session_id intent) (db_sessions db) = Some session"
    and "readAuthorityFields intent decision session = Inr f"
    and "pd_decision decision = ''approval_required''"
    and "af_intentWallet f = af_sessionWallet f"
    and "aa_binding A = \<lparr>ab_intentId = i, ab_intentHash = af_intentHash f,
           ab_challengeHash = af_decisionChallengeHash f, ab_quoteId = af_quoteId f,
           ab_amountCeilingAtomic = af_amount f, ab_walletAddress = af_intentWallet f,
           ab_policyVersionId = af_policyVersionId f, ab_acceptedIndex = af_acceptedIndex f,
           ab_expiresAt = ab_expiresAt (aa_binding A)\<rparr>"
    and "approvalExpiry p (aa_challengeReceivedAt A) (aa_decidedAt A)
           = Inr (ab_expiresAt (aa_binding A))"
    and "aa_policy A = p" and "aa_decidedAt A = af_decidedAt f"
    and "aa_intentState A = si_state intent" and "aa_sessionState A = ss_state session"
    and "aa_activePolicyId A = map_of (db_metadata db) ''active_policy_id''"
  using assms unfolding loadAuthority_def authorityBound_def
  by (auto simp: Let_def split: option.splits if_splits)

lemma loadAuthority_cong:
  assumes "db_policy_versions db' = db_policy_versions db" and "db_metadata db' = db_metadata db"
    and "db_intents db' = db_intents db" and "db_decisions db' = db_decisions db"
    and "db_sessions db' = db_sessions db" and "db_enrollments db' = db_enrollments db"
  shows "loadAuthority h db' i = loadAuthority h db i"
  unfolding loadAuthority_def using assms by (simp only:)

lemma approval_effect_step:
  "approval_effect h i db db' \<Longrightarrow> approvals_step i (db_approvals db) (db_approvals db')"
  by (simp only: approval_effect_def)

lemma approval_effect_frame:
  assumes "approval_effect h i db db'"
  shows "db_policy_versions db' = db_policy_versions db" and "db_metadata db' = db_metadata db"
    and "db_intents db' = db_intents db" and "db_decisions db' = db_decisions db"
    and "db_sessions db' = db_sessions db" and "db_enrollments db' = db_enrollments db"
proof -
  from assms have eq: "db' = db\<lparr>db_approvals := db_approvals db', db_events := db_events db'\<rparr>"
    by (simp add: approval_effect_def)
  show "db_policy_versions db' = db_policy_versions db" by (subst eq) simp
  show "db_metadata db' = db_metadata db" by (subst eq) simp
  show "db_intents db' = db_intents db" by (subst eq) simp
  show "db_decisions db' = db_decisions db" by (subst eq) simp
  show "db_sessions db' = db_sessions db" by (subst eq) simp
  show "db_enrollments db' = db_enrollments db" by (subst eq) simp
qed

lemma approval_effect_authority:
  "approval_effect h i db db' \<Longrightarrow> loadAuthority h db' n = loadAuthority h db n"
  by (rule loadAuthority_cong) (rule approval_effect_frame, assumption)+

text \<open>A validated approval is bound to its authority.\<close>

lemma validatedRecord_binding:
  assumes "validatedRecord h db row = Inr v"
  shows "recordBinding row = aa_binding (va_authority v)"
  using assms by (rule validatedRecord_obtains) (rule sameBinding_True)

section \<open>Keys\<close>

lemma distinct_map_eq:
  "distinct (map f xs) \<Longrightarrow> x \<in> set xs \<Longrightarrow> y \<in> set xs \<Longrightarrow> f x = f y \<Longrightarrow> x = y"
  by (auto simp: distinct_map inj_on_def)

lemma approval_keys_id:
  "approval_keys rows \<Longrightarrow> a \<in> set rows \<Longrightarrow> b \<in> set rows \<Longrightarrow> ap_id a = ap_id b \<Longrightarrow> a = b"
  unfolding approval_keys_def by (blast intro: distinct_map_eq)

lemma approval_keys_intent:
  "approval_keys rows \<Longrightarrow> a \<in> set rows \<Longrightarrow> b \<in> set rows \<Longrightarrow> ap_intent_id a = ap_intent_id b \<Longrightarrow> a = b"
  unfolding approval_keys_def by (blast intro: distinct_map_eq)

lemma approvalByIntent_row:
  assumes "approval_keys (db_approvals db)" and "a \<in> set (db_approvals db)" and "ap_intent_id a = n"
  shows "approvalByIntent db n = Some a"
  unfolding approvalByIntent_def
proof (rule select_one_unique [OF assms(2)])
  show "ap_intent_id a = n" by (rule assms(3))
next
  fix x assume "x \<in> set (db_approvals db)" "ap_intent_id x = n"
  then show "x = a" using assms by (intro approval_keys_intent [OF assms(1)]) simp_all
qed

lemma approvals_by_intent:
  assumes "approval_keys rows" and "a \<in> set rows"
  shows "filter (\<lambda>x. ap_intent_id x = ap_intent_id a) rows = [a]"
proof -
  from assms(2) obtain xs ys where rows: "rows = xs @ a # ys" by (auto simp: in_set_conv_decomp)
  with assms(1) have "ap_intent_id a \<notin> ap_intent_id ` (set xs \<union> set ys)"
    by (auto simp: approval_keys_def simp del: image_iff)
  then have "x \<in> set xs \<union> set ys \<Longrightarrow> ap_intent_id x \<noteq> ap_intent_id a" for x
    by (metis imageI)
  then have "filter (\<lambda>x. ap_intent_id x = ap_intent_id a) xs = []"
    "filter (\<lambda>x. ap_intent_id x = ap_intent_id a) ys = []"
    by (simp_all add: filter_empty_conv)
  with rows show ?thesis by simp
qed

text \<open>Where the keys hold, a move changes the one row it read and returns it.\<close>

lemma moveApproval_row:
  assumes "moveApproval h ck i P f type d db = Inr (db', record)" and "js_wf (JObj d)"
    and "\<And>a. P a \<Longrightarrow> approval_move a (f a)"
    and keys: "approval_keys (db_approvals db)" and r: "r \<in> set (db_approvals db)" "ap_id r = i"
  shows "P r" and "record = f r" and "record \<in> set (db_approvals db')"
    and "approval_keys (db_approvals db')" and "approval_effect h i db db'"
    and "\<exists>v. validatedRecord h db' record = Inr v"
proof -
  from assms(1-3) obtain xs a ys where a: "db_approvals db = xs @ a # ys"
      "db_approvals db' = xs @ f a # ys" "ap_id a = i" "P a"
    and eff: "approval_effect h i db db'" and rr: "rereadApproval h db' i = Inr record"
    by (rule moveApproval_obtains)
  have "r = a" using keys r a by (intro approval_keys_id [OF keys]) simp_all
  moreover have fa: "ap_id (f a) = i" using approval_move_fixed [OF assms(3) [OF a(4)]] a(3) by simp
  moreover have keys': "approval_keys (db_approvals db')"
    using approvals_step_keys [OF approval_effect_step [OF eff] keys] .
  moreover have rec: "record \<in> set (db_approvals db')" "ap_id record = i"
    using rr approvalById_Some by (auto simp: rereadApproval_Inr)
  ultimately show "P r" "record = f r" "record \<in> set (db_approvals db')"
    "approval_keys (db_approvals db')" "approval_effect h i db db'"
    using a eff approval_keys_id [OF keys' rec(1), of "f a"] by simp_all
  show "\<exists>v. validatedRecord h db' record = Inr v" using rr by (auto simp: rereadApproval_Inr)
qed

section \<open>Consumption\<close>

lemma transitionTime_Inr:
  "transitionTime now A p = Inr t \<Longrightarrow> t = now \<and> canonical_time t \<and> date_ms p \<le> date_ms t
     \<and> date_ms (aa_decidedAt A) \<le> date_ms t"
  by (auto simp: transitionTime_def nowTimestamp_def approvalTimestamp_def canonicalTimestamp_Inr)

lemma consumed_obtains:
  assumes "consumeForInTransaction h ck value db = Inr (db', Some row)"
    and keys: "approval_keys (db_approvals db)"
  obtains a A where "a \<in> set (db_approvals db)" and "consumptionInput value = Inr (recordBinding a)"
    and "ap_decision a = ''approved''" and "lifecycleValid a"
    and "row = toConsumed (qc_now ck) a" and "canonical_time (qc_now ck)"
    and "date_ms (qc_now ck) < date_ms (ap_expires_at a)"
    and "row \<in> set (db_approvals db')" and "approval_keys (db_approvals db')"
    and "approval_effect h (ap_id a) db db'" and "\<exists>v. validatedRecord h db' row = Inr v"
    and "loadAuthority h db (ap_intent_id a) = Inr (Some A)" and "recordBinding a = aa_binding A"
proof -
  from assms(1) obtain b r v where b: "consumptionInput value = Inr b"
    and r: "approvalByIntent db (ab_intentId b) = Some r" and v: "validatedRecord h db r = Inr v"
    and x: "exactBindingOrFail b (aa_binding (va_authority v)) = Inr ()"
    and c: "consumeLoaded h ck v db = Inr (db', Some row)"
    by (rule consumeForInTransaction_obtains)
  note va = validatedRecord_record [OF v]
  from r have rin: "r \<in> set (db_approvals db)" by (simp add: approvalByIntent_Some)
  from c obtain t d where dec: "ap_decision r = ''approved''"
    and t: "transitionTime (qc_now ck) (va_authority v) (ly_lastTransitionAt (va_lifecycle v)) = Inr t"
      "date_ms t < date_ms (ap_expires_at r)"
    and m: "moveApproval h ck (ap_id r)
           (\<lambda>a. ap_intent_id a = ap_intent_id r \<and> ap_intent_hash a = ap_intent_hash r
              \<and> ap_decision a = ''approved'' \<and> t < ap_expires_at a)
           (toConsumed t) ''approval.consumed'' d db = Inr (db', row)" and wf: "js_wf (JObj d)"
    by (rule consumeLoaded_obtains) (simp_all add: va)
  have move: "row = toConsumed t r" "row \<in> set (db_approvals db')"
      "approval_keys (db_approvals db')" "approval_effect h (ap_id r) db db'"
      "\<exists>v. validatedRecord h db' row = Inr v"
    by (rule moveApproval_row [OF m wf _ keys rin refl], simp add: consume_move)+
  have "consumptionInput value = Inr (recordBinding r)"
    using b exactBindingOrFail_Inr [OF x] validatedRecord_binding [OF v] by simp
  moreover from transitionTime_Inr [OF t(1)] have "t = qc_now ck" "canonical_time (qc_now ck)"
    by auto
  moreover from v obtain "lifecycleValid r"
      "loadAuthority h db (ap_intent_id r) = Inr (Some (va_authority v))"
    by (rule validatedRecord_obtains)
  ultimately show thesis
    using rin dec t(2) validatedRecord_binding [OF v] move
    by (intro that [of r "va_authority v"]) auto
qed

section \<open>Typed rows\<close>

definition is_token :: "string \<Rightarrow> bool" where
  "is_token t \<longleftrightarrow> length t \<le> 200 \<and> token_pattern t"

definition approval_typed :: "approval_row \<Rightarrow> bool" where
  "approval_typed r \<longleftrightarrow>
     is_token (ap_id r) \<and> is_token (ap_intent_id r) \<and> is_token (ap_policy_version_id r)
     \<and> hash_pattern (ap_intent_hash r) \<and> hash_pattern (ap_challenge_hash r)
     \<and> hash_pattern (ap_quote_id r) \<and> decimal_pattern (ap_amount_ceiling_atomic r)
     \<and> canonical_address_pattern (ap_wallet_address r)
     \<and> 0 \<le> ap_accepted_index r \<and> ap_accepted_index r \<le> MAX_SAFE_INTEGER
     \<and> canonical_time (ap_expires_at r) \<and> list_all canonical_time (case_option [] (\<lambda>t. [t]) (ap_decided_at r))
     \<and> list_all canonical_time (case_option [] (\<lambda>t. [t]) (ap_consumed_at r))
     \<and> list_all hash_pattern (case_option [] (\<lambda>t. [t]) (ap_operator_id_hash r))
     \<and> list_all is_token (case_option [] (\<lambda>t. [t]) (ap_reason_code r))"

lemma optionalStamp_Inr:
  "optionalStamp t = Inr x \<Longrightarrow> list_all canonical_time (case_option [] (\<lambda>t. [t]) t)"
  by (auto simp: optionalStamp_def approvalTimestamp_def canonicalTimestamp_Inr split: option.splits)

lemma optionalToken_Inr:
  "optionalToken t = Inr x \<Longrightarrow> list_all is_token (case_option [] (\<lambda>t. [t]) t)"
  by (auto simp: optionalToken_def boundedToken_def ledgerToken_Inr is_token_def split: option.splits)

lemma optionalHash_Inr:
  "optionalHash t code = Inr x \<Longrightarrow> list_all hash_pattern (case_option [] (\<lambda>t. [t]) t)"
  by (auto simp: optionalHash_def dest!: canonicalHash_InrD split: option.splits)

lemma rowToRecord_typed:
  assumes "rowToRecord r = Inr x"
  shows "approval_typed r" and "\<not> consumedBeforeDecided r"
proof -
  from assms obtain u1 u2 u3 u4 u5 where o: "optionalHash (ap_operator_id_hash r) ''APPROVAL_CORRUPTION'' = Inr u1"
      "optionalToken (ap_reason_code r) = Inr u2" "optionalStamp (ap_decided_at r) = Inr u3"
      "optionalStamp (ap_consumed_at r) = Inr u4"
      "approvalTimestamp (JStr (ap_expires_at r)) ''APPROVAL_CORRUPTION'' = Inr u5"
    and c: "\<not> consumedBeforeDecided r"
    and t: "is_token (ap_id r)" "is_token (ap_intent_id r)" "is_token (ap_policy_version_id r)"
      "hash_pattern (ap_intent_hash r)" "hash_pattern (ap_challenge_hash r)"
      "hash_pattern (ap_quote_id r)" "decimal_pattern (ap_amount_ceiling_atomic r)"
      "canonical_address_pattern (ap_wallet_address r)" "0 \<le> ap_accepted_index r"
      "ap_accepted_index r \<le> MAX_SAFE_INTEGER"
    unfolding rowToRecord_def Let_def
    by (auto simp: ledgerToken_Inr is_token_def
        dest!: canonicalHash_InrD canonicalAtomic_InrD approvalAddress_Inr canonicalIndex_Inr)
  from o(5) have "canonical_time (ap_expires_at r)"
    by (auto simp: approvalTimestamp_def canonicalTimestamp_Inr)
  with t show "approval_typed r"
    using optionalHash_Inr [OF o(1)] optionalToken_Inr [OF o(2)] optionalStamp_Inr [OF o(3)]
      optionalStamp_Inr [OF o(4)]
    unfolding approval_typed_def by blast
  show "\<not> consumedBeforeDecided r" by (rule c)
qed

lemma validatedRecord_typed:
  "validatedRecord h db r = Inr v \<Longrightarrow> approval_typed r \<and> \<not> consumedBeforeDecided r"
  by (auto simp: validatedRecord_def dest: rowToRecord_typed)

text \<open>The ledger's check of a consumed approval accepts what the queue consumed.\<close>

lemma consumed_accepted:
  assumes "consumeForInTransaction h ck value db = Inr (db', Some row)"
    and "approval_keys (db_approvals db)"
    and au: "select_one (\<lambda>r. si_id r = ap_intent_id row) (db_intents db') = Some (au_intent au)"
      "select_one (\<lambda>s. ss_id s = si_session_id (au_intent au)) (db_sessions db') = Some (au_session au)"
      "select_one (\<lambda>d. pd_intent_id d = ap_intent_id row) (db_decisions db') = Some (au_decision au)"
      "lp_id (au_version au) = pd_policy_version_id (au_decision au)"
      "pd_accepted_index (au_decision au) = Some (pb_acceptedIndex (au_projection au))"
    and at: "date_ms (qc_now ck) \<le> date_ms at" "date_ms at < date_ms (ap_expires_at row)"
  shows "validateConsumedApproval db' au at = Inr (Some row)"
proof -
  from assms(1,2) obtain a A where a: "ap_decision a = ''approved''" "lifecycleValid a"
      "row = toConsumed (qc_now ck) a" "canonical_time (qc_now ck)"
    and before: "date_ms (qc_now ck) < date_ms (ap_expires_at a)"
    and row: "row \<in> set (db_approvals db')" "approval_keys (db_approvals db')"
    and eff: "approval_effect h (ap_id a) db db'"
    and valid: "\<exists>v. validatedRecord h db' row = Inr v"
    and A: "loadAuthority h db (ap_intent_id a) = Inr (Some A)" "recordBinding a = aa_binding A"
    by (rule consumed_obtains)
  have n: "ap_intent_id row = ap_intent_id a" using a(3) by (simp add: toConsumed_def)
  note frame = approval_effect_frame [OF eff]
  from A(1) obtain f where f: "readAuthorityFields (au_intent au) (au_decision au) (au_session au) = Inr f"
    and req: "pd_decision (au_decision au) = ''approval_required''"
    and w: "af_intentWallet f = af_sessionWallet f"
    and b: "aa_binding A = \<lparr>ab_intentId = ap_intent_id a, ab_intentHash = af_intentHash f,
           ab_challengeHash = af_decisionChallengeHash f, ab_quoteId = af_quoteId f,
           ab_amountCeilingAtomic = af_amount f, ab_walletAddress = af_intentWallet f,
           ab_policyVersionId = af_policyVersionId f, ab_acceptedIndex = af_acceptedIndex f,
           ab_expiresAt = ab_expiresAt (aa_binding A)\<rparr>"
    by (rule loadAuthority_obtains) (use au frame n in auto)
  note rows = readAuthorityFields_Inr [OF f]
  from au(1) have id: "si_id (au_intent au) = ap_intent_id row"
    using select_one_Some by fastforce
  have "approvalBound au row"
    using a(1,2,3) trans [OF A(2) b] rows au(4,5) w
    by (auto simp: approvalBound_def toConsumed_def recordBinding_def lifecycleValid_def Let_def)
  moreover from valid have typed: "approval_typed row" "\<not> consumedBeforeDecided row"
    by (auto dest: validatedRecord_typed)
  then obtain d op where "ap_decided_at a = Some d" "canonical_time d"
      "\<not> date_ms (qc_now ck) < date_ms d" "ap_operator_id_hash a = Some op" "hash_pattern op"
    using a(1-3)
    by (auto simp: approval_typed_def consumedBeforeDecided_def lifecycleValid_def toConsumed_def
        Let_def)
  moreover have "ap_decided_at row = ap_decided_at a" "ap_consumed_at row = Some (qc_now ck)"
      "ap_operator_id_hash row = ap_operator_id_hash a" "ap_expires_at row = ap_expires_at a"
    by (simp_all add: a(3) toConsumed_def)
  moreover have "filter (\<lambda>x. ap_intent_id x = si_id (au_intent au)) (db_approvals db') = [row]"
    unfolding id by (rule approvals_by_intent [OF row(2,1)])
  moreover have "canonicalToken (JStr (ap_id row)) = Inr (ap_id row)"
      "safeInteger (JBig (ap_accepted_index row)) code = Inr (ap_accepted_index row)"
      "canonical_time (ap_expires_at row)" for code
    using typed(1) by (simp_all add: approval_typed_def is_token_def ledgerToken_Inr safeInteger_def)
  moreover have time: "canonicalPersistedTimestamp (JStr t) code = Inr t" if "canonical_time t" for t code
    using that by (simp add: canonicalPersistedTimestamp_Inr)
  moreover have "pd_decision (au_decision au) \<noteq> ''allow''" using req by simp
  ultimately show ?thesis
    using at before a(4)
    by (simp add: validateConsumedApproval_def canonicalHash_def option_string_def)
qed

section \<open>The events of a validated approval\<close>

text \<open>The event types a row's own columns name.\<close>

definition event_history :: "approval_row \<Rightarrow> string list" where
  "event_history r =
     [''approval.requested'']
     @ (if ap_operator_id_hash r \<noteq> None \<and> ap_decision r \<noteq> ''denied'' then [''approval.approved''] else [])
     @ (if ap_decision r \<in> set OPEN_DECISIONS then [] else [''approval.'' @ ap_decision r])"

lemma approvalLifecycleEvent_type:
  "approvalLifecycleEvent e c r = Inr x \<Longrightarrow> le_type x = ev_event_type e"
  by (auto simp: approvalLifecycleEvent_def Let_def)

lemma lifecycle_event_types:
  assumes "collect (\<lambda>entry. andthen (approvalEventEnvelope h entry i)
             (\<lambda>c. approvalLifecycleEvent (fst entry) c r)) es = Inr xs"
  shows "map le_type xs = map (ev_event_type \<circ> fst) es"
  using assms
  by (induction es arbitrary: xs) (auto dest: approvalLifecycleEvent_type)

lemma expected_history:
  assumes "expectedTypes (ap_decision r) (le_previous terminal) = Some types"
    and "terminalMatches r approved terminal" and "lifecycleValid r"
  shows "types = event_history r"
  using assms
  by (auto simp: expectedTypes_def terminalMatches_def lifecycleValid_def event_history_def
      OPEN_DECISIONS_def Let_def split: if_splits)

lemma validated_history:
  assumes "validatedRecord h db r = Inr v"
  shows "map (ev_event_type \<circ> fst) (approvalEventRows db (ap_id r)) = event_history r"
proof -
  from assms obtain "lifecycleValid r"
      and "validateApprovalLifecycle h db (va_authority v) r = Inr (va_lifecycle v)"
    by (rule validatedRecord_obtains)
  then obtain xs terminal approved where
      "collect (\<lambda>entry. andthen (approvalEventEnvelope h entry (ap_id r))
        (\<lambda>c. approvalLifecycleEvent (fst entry) c r)) (approvalEventRows db (ap_id r)) = Inr xs"
      "expectedTypes (ap_decision r) (le_previous terminal) = Some (map le_type xs)"
      "terminalMatches r approved terminal"
    unfolding validateApprovalLifecycle_def Let_def
    by (auto split: list.splits if_splits)
  then have "map le_type xs = map (ev_event_type \<circ> fst) (approvalEventRows db (ap_id r))"
      and "map le_type xs = event_history r"
    using expected_history [OF _ _ \<open>lifecycleValid r\<close>] by (auto dest: lifecycle_event_types)
  then show ?thesis by simp
qed

section \<open>Requests\<close>

lemma request_obtains:
  assumes "request h ck fresh value db = (db', Inr row)"
  obtains "requestInTransaction h ck fresh value db = Inr (db', row)"
  using assms by (auto simp: request_def transaction_Inr)

lemma approvalById_append:
  "approvalById db i = None \<Longrightarrow> db_approvals db' = db_approvals db @ [a] \<Longrightarrow>
   approvalById db' i = Some x \<Longrightarrow> x = a"
  by (simp add: approvalById_def select_one_append) (simp add: select_one_def split: if_splits)

lemma approvalByIntent_append:
  "approvalByIntent db n = None \<Longrightarrow> db_approvals db' = db_approvals db @ [a] \<Longrightarrow>
   ap_intent_id a = n \<Longrightarrow> approvalByIntent db' n = Some a"
  by (simp add: approvalByIntent_def select_one_append) (simp add: select_one_def)

lemma requestGuards_Inr:
  assumes "requestGuards ck A db = Inr t"
  shows "pendingCount db < p_maxPendingApprovals (aa_policy A)" and "t = qc_now ck"
    and "date_ms t < date_ms (ab_expiresAt (aa_binding A))"
    and "aa_intentState A = ''challenged''" and "aa_sessionState A = ''open''"
    and "aa_enrollmentState A = ''active''"
    and "aa_activePolicyId A = Some (ab_policyVersionId (aa_binding A))"
  using assms unfolding requestGuards_def
  by (auto dest: transitionTime_Inr split: if_splits)

lemma request_new:
  assumes "requestInTransaction h ck fresh value db = Inr (db', row)"
    and "approvalByIntent db (ap_intent_id row) = None"
  obtains A t i where "loadAuthority h db (ap_intent_id row) = Inr (Some A)"
    and "requestGuards ck A db = Inr t" and "row = newApproval i (aa_binding A)"
    and "db_approvals db' = db_approvals db @ [row]" and "approval_effect h i db db'"
    and "\<exists>v. validatedRecord h db' row = Inr v"
    and "requestInput value [] = Inr ((aa_binding A)\<lparr>ab_expiresAt := []\<rparr>)"
  using assms(1)
proof (cases rule: requestInTransaction_obtains)
  case (replay r A v)
  with assms(2) approvalByIntent_Some [OF replay(4)] show thesis by simp
next
  case (first r A t i)
  from first(7) have new: "approvalById db i = None"
      "db_approvals db' = db_approvals db @ [newApproval i (aa_binding A)]"
      "approval_effect h i db db'" "rereadApproval h db' i = Inr row"
    by (auto elim: insertApproval_obtains)
  then have row: "row = newApproval i (aa_binding A)"
    using approvalById_append [OF new(1,2)] by (simp add: rereadApproval_Inr)
  have eq: "r\<lparr>ab_expiresAt := ab_expiresAt (aa_binding A)\<rparr> = aa_binding A"
    using first(3) by (rule exactBindingOrFail_Inr)
  then have "ab_intentId r = ab_intentId (aa_binding A)" "r = (aa_binding A)\<lparr>ab_expiresAt := ab_expiresAt r\<rparr>"
    by (metis approval_binding.select_convs(1) approval_binding.surjective approval_binding.update_convs(9))+
  moreover have "ab_expiresAt r = []"
    using first(1) unfolding requestInput_def Let_def by auto
  ultimately show thesis
    using that [of A t i] first new row by (auto simp: newApproval_def rereadApproval_Inr)
qed

lemma request_again:
  assumes "requestInTransaction h ck fresh value db = Inr (db', row)"
  shows "requestInTransaction h ck' fresh' value db' = Inr (db', row)"
  using assms
proof (cases rule: requestInTransaction_obtains)
  case (replay r A v)
  moreover from replay(5) have "va_record v = row" by (rule validatedRecord_record)
  ultimately show ?thesis by (simp add: requestInTransaction_def)
next
  case (first r A t i)
  from first(7) have new: "approvalById db i = None"
      "db_approvals db' = db_approvals db @ [newApproval i (aa_binding A)]"
      "approval_effect h i db db'" "rereadApproval h db' i = Inr row"
    by (auto elim: insertApproval_obtains)
  then obtain v where row: "row = newApproval i (aa_binding A)" "validatedRecord h db' row = Inr v"
    using approvalById_append [OF new(1,2)] by (fastforce simp: rereadApproval_Inr)
  have "ab_intentId r = ab_intentId (aa_binding A)"
    using exactBindingOrFail_Inr [OF first(3)] by (metis approval_binding.select_convs(1)
        approval_binding.surjective approval_binding.update_convs(9))
  then have "approvalByIntent db' (ab_intentId r) = Some row"
    using approvalByIntent_append [OF first(4) new(2)] row(1) by (simp add: newApproval_def)
  moreover have "loadAuthority h db' (ab_intentId r) = Inr (Some A)"
    using first(2) approval_effect_authority [OF new(3)] by simp
  ultimately show ?thesis
    using first(1,3) row(2) validatedRecord_record [OF row(2)]
    by (simp add: requestInTransaction_def)
qed

end
