(* ===== verification/ApprovalDemo.thy ===== *)
theory ApprovalDemo
  imports ApprovalReading LedgerDemo
begin

text \<open>
  A small concrete approval queue for the witnesses: the wallet, session and policy of
  \<^verbatim>\<open>LedgerDemo\<close>, one challenged intent whose decision needs a human, and the approval of it. The
  hash of an event depends on its creation time, so that the events of one approval differ.
\<close>

section \<open>The host\<close>

definition queue_hash :: "char \<Rightarrow> string" where
  "queue_hash c = ''sha256:'' @ replicate 63 (CHR ''0'') @ [c]"

text \<open>The character at 34 of an event's canonical text is the first decimal of its seconds.\<close>

definition queue_sha :: "string \<Rightarrow> string" where
  "queue_sha t = queue_hash (if 34 < length t \<and> is_lower_hex (t ! 34) then t ! 34 else CHR ''f'')"

definition queue_host :: host where
  "queue_host = \<lparr>h_sha256 = queue_sha, h_sha256_bytes = queue_sha, h_url = demo_parse\<rparr>"

lemma queue_sha_host [simp]: "h_sha256 queue_host t = queue_sha t"
  by (simp add: queue_host_def)

lemma queue_hash_pattern: "hash_pattern (queue_hash c) \<longleftrightarrow> is_lower_hex c"
proof -
  have "is_lower_hex (CHR ''0'')" by code_simp
  then show ?thesis by (auto simp: queue_hash_def hash_pattern_def list_all_iff)
qed

lemma queue_sha_pattern [simp]: "hash_pattern (queue_sha t)"
proof -
  have "is_lower_hex (CHR ''f'')" by code_simp
  then show ?thesis by (simp add: queue_sha_def queue_hash_pattern)
qed

text \<open>The canonical text of an event starts with its creation time.\<close>

lemma event_fields_sorted:
  "sort_key fst [(''entityType'', a), (''entityId'', b), (''eventType'', c), (''data'', d),
      (''previousHash'', e), (''createdAt'', f)]
    = [(''createdAt'', f), (''data'', d), (''entityId'', b), (''entityType'', a),
       (''eventType'', c), (''previousHash'', e :: jsval)]"
  by code_simp

definition plain_time :: "string \<Rightarrow> bool" where
  "plain_time t \<longleftrightarrow> concat (map quote_char t) = t \<and> 20 < length t"

lemma queue_event_hash:
  assumes "eventHash queue_host et ei ty d p t = Inr x" and "plain_time t" and "is_lower_hex (t ! 20)"
  shows "x = queue_hash (t ! 20)"
proof -
  let ?o = "JObj [(''entityType'', JStr et), (''entityId'', JStr ei), (''eventType'', JStr ty),
    (''data'', d), (''previousHash'', option_string p), (''createdAt'', JStr t)]"
  from assms(1) obtain bytes where bytes: "canonicalSerialize ?o = Inr bytes" and x: "x = queue_sha bytes"
    by (auto simp: eventHash_def canonicalJson_def)
  from bytes obtain u r where "bytes = ''{'' @ join_comma ((json_quote ''createdAt'' @ '':'' @ json_quote t) # u # r) @ ''}''"
    by (auto simp: event_fields_sorted)
  then obtain r' where "bytes = ''{'' @ json_quote ''createdAt'' @ '':'' @ json_quote t @ r'"
    by simp
  moreover have "''{'' @ json_quote ''createdAt'' @ '':'' = CHR ''{'' # dq # ''createdAt'' @ [dq, CHR '':'']"
    by code_simp
  ultimately have "bytes = (CHR ''{'' # dq # ''createdAt'' @ [dq, CHR '':'', dq]) @ t @ dq # r'"
    using assms(2) by (simp add: plain_time_def json_quote_def [of t])
  then have "34 < length bytes" "bytes ! 34 = t ! 20"
    using assms(2) by (simp_all add: plain_time_def nth_append)
  with x assms(3) show ?thesis by (simp add: queue_sha_def)
qed

section \<open>The rows\<close>

definition t2 :: string where "t2 = ''2024-01-01T00:00:00.200Z''"

definition t9 :: string where "t9 = ''2024-01-01T00:00:01.000Z''"

lemma queue_times:
  "canonical_time t2" "canonical_time t9" "date_ms t2 = 1704067200200" "date_ms t9 = 1704067201000"
  "toISOString 1704067201000 = t9" "plain_time t0" "plain_time t1" "plain_time t2"
  "is_lower_hex (t0 ! 20)" "is_lower_hex (t1 ! 20)" "is_lower_hex (t2 ! 20)"
  "t0 < t9" "t1 < t9" "t2 < t9"
  "t0 ! 20 = CHR ''0''" "t1 ! 20 = CHR ''5''" "t2 ! 20 = CHR ''2''"
  by code_simp+

definition queue_challenge :: string where
  "queue_challenge = queue_sha (stored (projection_js demo_projection))"

definition queue_quote :: string where
  "queue_quote = queue_sha (stored (JObj [(''challengeHash'', JStr queue_challenge),
     (''acceptedIndex'', JNum 0)]))"

definition queue_version_row :: policy_version_row where
  "queue_version_row = demo_version_row\<lparr>pvr_policy_hash := queue_sha (stored (policy_js demo_policy))\<rparr>"

definition queue_intent :: "string \<Rightarrow> intent_row" where
  "queue_intent st = (demo_intent_row st)\<lparr>si_challenge_hash := Some queue_challenge\<rparr>"

definition queue_decision :: decision_row where
  "queue_decision = demo_decision\<lparr>pd_decision := ''approval_required'',
     pd_reason_code := ''HUMAN_APPROVAL_REQUIRED'', pd_challenge_hash := queue_challenge,
     pd_quote_id := Some queue_quote\<rparr>"

definition queue_db :: "approval_row list \<Rightarrow> event_row list \<Rightarrow> db" where
  "queue_db as es = (demo_ledger ''challenged'' [] [] es)\<lparr>db_policy_versions := [queue_version_row],
     db_intents := [queue_intent ''challenged''], db_decisions := [queue_decision],
     db_approvals := as\<rparr>"

lemma queue_db_sel [simp]:
  "db_metadata (queue_db as es) = [(''active_policy_id'', ''v1'')]"
  "db_policy_versions (queue_db as es) = [queue_version_row]"
  "db_sessions (queue_db as es) = [demo_session]"
  "db_enrollments (queue_db as es) = [demo_enrollment]"
  "db_intents (queue_db as es) = [queue_intent ''challenged'']"
  "db_decisions (queue_db as es) = [queue_decision]"
  "db_approvals (queue_db as es) = as" "db_events (queue_db as es) = es"
  "db_approvals_update (\<lambda>_. as') (queue_db as es) = queue_db as' es"
  "db_events_update (\<lambda>_. es') (queue_db as es) = queue_db as es'"
  by (simp_all add: queue_db_def demo_ledger_def)

definition queue_binding :: approval_binding where
  "queue_binding = \<lparr>ab_intentId = ''i1'', ab_intentHash = demo_hash,
     ab_challengeHash = queue_challenge, ab_quoteId = queue_quote, ab_amountCeilingAtomic = ''10'',
     ab_walletAddress = demo_address, ab_policyVersionId = ''v1'', ab_acceptedIndex = 0,
     ab_expiresAt = t9\<rparr>"

definition queue_authority :: approval_authority where
  "queue_authority = \<lparr>aa_activePolicyId = Some ''v1'', aa_binding = queue_binding,
     aa_challengeReceivedAt = t0, aa_decidedAt = t0, aa_enrollmentState = ''active'',
     aa_intentState = ''challenged'', aa_policy = demo_policy, aa_sessionId = ''s1'',
     aa_sessionState = ''open''\<rparr>"

section \<open>The authority loads\<close>

lemma corrupting_value [simp]: "corrupting (Inr x) = Inr x"
  by (simp add: corrupting_def)

lemma stored_parse_with:
  assumes "js_canonical v" and "js_wf v"
  shows "parseWith f (stored v) = f (js_normal v)"
  using json_parse_canonicalJson [OF assms(2) stored_text [OF assms(1)]] by (simp add: parseWith_def)

lemma queue_version_loads: "parsePolicyRow queue_host (Some queue_version_row) = Inr (''v1'', demo_policy)"
proof -
  have ok: "policy_ok queue_host demo_policy"
    and valid: "validatePolicyDocument queue_host (policy_js demo_policy) = Inr demo_policy"
    by code_simp+
  have stable: "url_stable queue_host"
    using demo_url_stable by (simp add: url_stable_def queue_host_def demo_host_def)
  have can: "js_canonical (policy_js demo_policy)" by (rule js_canonical_policy [OF ok])
  have wf: "js_wf (policy_js demo_policy)" by (simp add: policy_js_def seller_js_def list_all_iff)
  have "list_all (\<lambda>s. utf8_length (s_origin s) \<le> 2048) (p_sellers demo_policy)" by code_simp
  from policy_origins_ok [OF stable valid this]
  have "validatePolicyDocument queue_host (js_normal (policy_js demo_policy)) = Inr demo_policy"
    by (rule policy_stored [OF ok])
  then show ?thesis
    by (simp add: parsePolicyRow_def queue_version_row_def demo_version_row_def demo_scalars
        canonicalIndex_def MAX_SAFE_INTEGER_def stored_parse_with [OF can wf] stored_text [OF can]
        demo_timestamps)
qed

lemma queue_projection_loads:
  "parseChallengeProjection queue_host (Some (stored (projection_js demo_projection))) queue_challenge
     = Inr demo_projection"
proof -
  note ok = validatePaymentRequired_ok [OF demo_payment_valid(1)]
  have can: "js_canonical (projection_js demo_projection)"
    using ok by (auto simp: demo_projection_def projection_js_def challengeProjection_def
        payment_ok_def list_all_iff js_canonical_candidate)
  have wf: "js_wf (projection_js demo_projection)"
    by (auto simp: projection_js_def candidate_js_def list_all_iff split: option.split)
  have "validateChallengeProjection (js_normal (projection_js demo_projection)) = Inr demo_projection"
    unfolding demo_projection_def using ok demo_sha_ok
    by (intro projection_stored) (simp_all add: sha_ok_def)
  then show ?thesis
    by (simp add: parseChallengeProjection_def stored_parse_with [OF can wf] stored_text [OF can]
        queue_challenge_def)
qed

lemma queue_hashes [simp]:
  "hash_pattern queue_challenge" "hash_pattern queue_quote"
  by (simp_all add: queue_challenge_def queue_quote_def)

lemma queue_authority_loads:
  "loadAuthority queue_host (queue_db as es) ''i1'' = Inr (Some queue_authority)"
proof -
  let ?f = "\<lparr>af_sessionId = ''s1'', af_intentHash = demo_hash, af_intentChallengeHash = queue_challenge,
    af_decisionChallengeHash = queue_challenge, af_quoteId = queue_quote, af_amount = ''10'',
    af_intentWallet = demo_address, af_sessionWallet = demo_address, af_policyVersionId = ''v1'',
    af_acceptedIndex = 0, af_challengeReceivedAt = t0, af_decidedAt = t0\<rparr>"
  have fields: "readAuthorityFields (queue_intent ''challenged'') queue_decision demo_session = Inr ?f"
    by (simp add: readAuthorityFields_def queue_intent_def demo_intent_row_def queue_decision_def
        demo_decision_def demo_session_def demo_scalars demo_timestamps canonicalHash_def
        approvalAddress_def option_string_def option_js_def canonicalIndex_def canonicalAtomic_def
        MAX_SAFE_INTEGER_def del: decimal_pattern.simps)
  have quote: "quoteIdOf queue_host queue_challenge 0 = Inr queue_quote"
    using stored_text [of "JObj [(''challengeHash'', JStr queue_challenge), (''acceptedIndex'', JNum 0)]"]
    by (simp add: quoteIdOf_def MAX_SAFE_INTEGER_def queue_quote_def)
  have bound: "authorityBound ''i1'' queue_decision demo_session (''v1'', demo_policy) ?f queue_quote"
    by (simp add: authorityBound_def queue_decision_def demo_decision_def demo_session_def
        demo_policy_def)
  have accepts: "pj_accepts demo_projection = [demo_candidate ''10'']" "pj_x402Version demo_projection = 2"
      "pj_urlHash demo_projection = demo_hash"
    by (simp_all add: demo_projection_def challengeProjection_def demo_payment_def)
  have seller: "find (\<lambda>s. s_origin s = ''https://s.io'') (p_sellers demo_policy) = Some demo_seller"
    by (simp add: demo_policy_def demo_seller_def)
  have compat: "compatible demo_policy (Some demo_seller) (demo_candidate ''10'')"
    by (simp add: compatible_def demo_candidate_def demo_policy_def demo_seller_def p_network_def)
  have offer: "offerBound (queue_intent ''challenged'') demo_policy demo_projection demo_hash ''10'' 0"
    using seller compat
    by (simp add: offerBound_def accepts queue_intent_def demo_intent_row_def)
      (simp add: demo_seller_def demo_policy_def demo_candidate_def starts_with_iff)
  have expiry: "approvalExpiry demo_policy t0 t0 = Inr t9"
    by (simp add: approvalExpiry_def demo_policy_def demo_times queue_times isSafeInteger.simps
        MAX_SAFE_INTEGER_def MAX_TIME_def)
  have rows: "pvr_id queue_version_row = ''v1''" "pd_policy_version_id queue_decision = ''v1''"
      "ae_enrollment_hash demo_enrollment = demo_hash" "ss_id demo_session = ''s1''"
      "si_enrollment_hash (queue_intent ''challenged'') = demo_hash"
      "si_session_id (queue_intent ''challenged'') = ''s1''" "si_id (queue_intent ''challenged'') = ''i1''"
      "pd_intent_id queue_decision = ''i1''" "si_request_url_hash (queue_intent ''challenged'') = demo_hash"
      "si_challenge_projection_json (queue_intent ''challenged'')
         = Some (stored (projection_js demo_projection))"
      "si_state (queue_intent ''challenged'') = ''challenged''" "ae_state demo_enrollment = ''active''"
      "ss_state demo_session = ''open''"
    by (simp_all add: queue_version_row_def demo_version_row_def queue_decision_def demo_decision_def
        demo_enrollment_def demo_session_def queue_intent_def demo_intent_row_def)
  have hash: "canonicalHash (JStr demo_hash) code = Inr demo_hash" for code
    by (simp add: canonicalHash_def demo_scalars)
  show ?thesis
    using fields quote bound offer expiry queue_projection_loads queue_version_loads
    by (simp add: loadAuthority_def rows hash queue_authority_def queue_binding_def)
qed

section \<open>The approval and its events\<close>

definition queue_pending :: approval_row where
  "queue_pending = newApproval ''a1'' queue_binding"

definition queue_approved :: approval_row where
  "queue_approved = toApproved demo_hash t2 queue_pending"

definition queue_consumed :: approval_row where
  "queue_consumed = toConsumed t1 queue_approved"

definition queue_event :: "string \<Rightarrow> (string \<times> jsval) list \<Rightarrow> string option \<Rightarrow> string \<Rightarrow> event_row" where
  "queue_event type d p t = \<lparr>ev_entity_type = ''approval'', ev_entity_id = ''a1'',
     ev_event_type = type, ev_data_json = stored (JObj d), ev_previous_hash = p,
     ev_event_hash = queue_hash (t ! 20), ev_created_at = t\<rparr>"

definition approved_data :: "(string \<times> jsval) list" where
  "approved_data = [(''intentId'', JStr ''i1''), (''intentHash'', JStr demo_hash),
     (''operatorIdHash'', JStr demo_hash), (''approvedAt'', JStr t2)]"

definition consumed_data :: "(string \<times> jsval) list" where
  "consumed_data = [(''intentId'', JStr ''i1''), (''intentHash'', JStr demo_hash),
     (''consumedAt'', JStr t1)]"

definition requested_event :: event_row where
  "requested_event = queue_event ''approval.requested'' (requestedData queue_binding t0) None t0"

definition approved_event :: event_row where
  "approved_event = queue_event ''approval.approved'' approved_data (Some (queue_hash (CHR ''0''))) t2"

definition consumed_event :: event_row where
  "consumed_event = queue_event ''approval.consumed'' consumed_data (Some (queue_hash (CHR ''2''))) t1"

lemma queue_data_ok:
  "js_canonical (JObj (requestedData queue_binding t0))" "js_wf (JObj (requestedData queue_binding t0))"
  "js_canonical (JObj approved_data)" "js_wf (JObj approved_data)"
  "js_canonical (JObj consumed_data)" "js_wf (JObj consumed_data)"
  by (simp_all add: requestedData_def queue_binding_def approved_data_def consumed_data_def
      MAX_SAFE_INTEGER_def)

text \<open>The stored data reads back as it was written.\<close>

lemma queue_eventData:
  assumes "js_canonical (JObj d)" and "js_wf (JObj d)" and "set (map fst d) = set ks"
    and "ev_data_json e = stored (JObj d)"
  shows "eventData e ks = Inr (normal_entries d)"
proof -
  have "json_parse (stored (JObj d)) = Some (JObj (normal_entries d))"
    using json_parse_canonicalJson [OF assms(2) stored_text [OF assms(1)]]
    by (simp add: js_normal_JObj del: js_normal.simps)
  moreover have "canonicalJson (JObj (normal_entries d)) = Inr (stored (JObj d))"
    using stored_text [OF assms(1)] canonicalSerialize_js_normal [of "JObj d"]
    by (simp add: js_normal_JObj canonicalJson_def del: js_normal.simps canonicalSerialize.simps)
  moreover have "exactRecord (JObj (normal_entries d)) ks [] code = Inr (normal_entries d)" for code
    using exactRecord_normal [OF assms(1), of ks "[]" code] assms(3)
    by (simp add: js_normal_JObj list_all_iff has_own_def del: js_normal.simps)
  ultimately show ?thesis by (simp add: eventData_def assms(4))
qed

lemma queue_eventHash:
  assumes "js_canonical (JObj d)" and "js_wf (JObj d)" and "plain_time t" and "is_lower_hex (t ! 20)"
  shows "eventHash queue_host ''approval'' ''a1'' type (JObj (normal_entries d)) p t
     = Inr (queue_hash (t ! 20))"
    and "eventHash queue_host ''approval'' ''a1'' type (JObj d) p t = Inr (queue_hash (t ! 20))"
proof -
  let ?o = "JObj [(''entityType'', JStr ''approval''), (''entityId'', JStr ''a1''),
    (''eventType'', JStr type), (''data'', JObj d), (''previousHash'', option_string p),
    (''createdAt'', JStr t)]"
  have "js_canonical ?o" using assms(1) by (simp add: option_string_def split: option.splits)
  from stored_text [OF this] obtain x where x: "eventHash queue_host ''approval'' ''a1'' type (JObj d) p t = Inr x"
    by (simp add: eventHash_def)
  with queue_event_hash [OF x assms(3,4)]
  show second: "eventHash queue_host ''approval'' ''a1'' type (JObj d) p t = Inr (queue_hash (t ! 20))"
    by simp
  then show "eventHash queue_host ''approval'' ''a1'' type (JObj (normal_entries d)) p t
      = Inr (queue_hash (t ! 20))"
    using eventHash_normal [of queue_host _ _ _ "JObj d"]
    by (simp add: js_normal_JObj del: js_normal.simps)
qed

lemma queue_envelope:
  assumes "js_canonical (JObj d)" and "js_wf (JObj d)" and "plain_time t" and "is_lower_hex (t ! 20)"
    and "canonical_time t" and "type \<in> set APPROVAL_EVENT_TYPES"
    and "p = None \<or> (\<exists>c. p = Some (queue_hash c) \<and> is_lower_hex c)"
  shows "approvalEventEnvelope queue_host (queue_event type d p t, p) ''a1'' = Inr t"
proof -
  have "optionalHash p ''APPROVAL_CORRUPTION'' = Inr p"
    using assms(7) by (auto simp: optionalHash_def canonicalHash_def queue_hash_pattern)
  moreover have "json_parse (stored (JObj d)) = Some (JObj (normal_entries d))"
    using json_parse_canonicalJson [OF assms(2) stored_text [OF assms(1)]]
    by (simp add: js_normal_JObj del: js_normal.simps)
  moreover have "canonicalHash (JStr (queue_hash (t ! 20))) code = Inr (queue_hash (t ! 20))" for code
    using assms(4) by (simp add: canonicalHash_def queue_hash_pattern)
  moreover have "boundedToken (JStr ''a1'') code = Inr ''a1''" "approvalTimestamp (JStr t) code = Inr t" for code
    using assms(5) by (simp_all add: boundedToken_def demo_scalars approvalTimestamp_def canonicalTimestamp_def)
  ultimately show ?thesis
    using assms(6) queue_eventHash(1) [OF assms(1-4)]
    by (simp add: approvalEventEnvelope_def queue_event_def)
qed

lemma queue_rows [simp]:
  "ap_id queue_pending = ''a1''" "ap_intent_id queue_pending = ''i1''"
  "ap_intent_hash queue_pending = demo_hash" "ap_decision queue_pending = ''pending''"
  "ap_expires_at queue_pending = t9" "ap_operator_id_hash queue_pending = None"
  "ap_reason_code queue_pending = None" "ap_decided_at queue_pending = None"
  "ap_consumed_at queue_pending = None" "recordBinding queue_pending = queue_binding"
  "ap_id queue_approved = ''a1''" "ap_intent_id queue_approved = ''i1''"
  "ap_intent_hash queue_approved = demo_hash" "ap_decision queue_approved = ''approved''"
  "ap_expires_at queue_approved = t9" "ap_operator_id_hash queue_approved = Some demo_hash"
  "ap_reason_code queue_approved = None" "ap_decided_at queue_approved = Some t2"
  "ap_consumed_at queue_approved = None" "recordBinding queue_approved = queue_binding"
  "ap_id queue_consumed = ''a1''" "ap_intent_id queue_consumed = ''i1''"
  "ap_intent_hash queue_consumed = demo_hash" "ap_decision queue_consumed = ''consumed''"
  "ap_expires_at queue_consumed = t9" "ap_operator_id_hash queue_consumed = Some demo_hash"
  "ap_reason_code queue_consumed = None" "ap_decided_at queue_consumed = Some t2"
  "ap_consumed_at queue_consumed = Some t1" "recordBinding queue_consumed = queue_binding"
  by (simp_all add: queue_pending_def queue_approved_def queue_consumed_def newApproval_def
      toApproved_def toConsumed_def queue_binding_def recordBinding_def)

lemma queue_scalars:
  "canonicalHash (JStr demo_hash) code = Inr demo_hash"
  "canonicalHash (JStr queue_challenge) code = Inr queue_challenge"
  "canonicalHash (JStr queue_quote) code = Inr queue_quote"
  "boundedToken (JStr ''i1'') code = Inr ''i1''" "boundedToken (JStr ''a1'') code = Inr ''a1''"
  "boundedToken (JStr ''v1'') code = Inr ''v1''" "canonicalAtomic (JStr ''10'') = Inr ''10''"
  "approvalAddress (JStr demo_address) code = Inr demo_address"
  "approvalTimestamp (JStr t0) code = Inr t0" "approvalTimestamp (JStr t1) code = Inr t1"
  "approvalTimestamp (JStr t2) code = Inr t2" "approvalTimestamp (JStr t9) code = Inr t9"
  "canonicalIndex (JNum 0) code = Inr 0" "canonicalIndex (JBig 0) code = Inr 0"
  by (simp_all add: canonicalHash_def demo_scalars boundedToken_def canonicalAtomic_def
      approvalAddress_def approvalTimestamp_def canonicalTimestamp_def demo_times queue_times
      canonicalIndex_def MAX_SAFE_INTEGER_def del: decimal_pattern.simps)

lemma queue_same_binding: "sameBinding queue_binding queue_binding = Inr True"
proof -
  have "js_canonical (binding_js queue_binding)"
    by (simp add: binding_js_def queue_binding_def MAX_SAFE_INTEGER_def)
  from stored_text [OF this] show ?thesis by (simp add: sameBinding_def)
qed

text \<open>What a stored property reads as.\<close>

lemma queue_props:
  "distinct (map fst d) \<Longrightarrow> get_prop d k = JStr s \<Longrightarrow> get_prop (normal_entries d) k = JStr s"
  "distinct (map fst d) \<Longrightarrow> get_prop d k = JNum n \<Longrightarrow> get_prop (normal_entries d) k = JNum n"
  by (simp_all add: get_prop_normal_entries)

lemma requested_event_read:
  assumes "recordBinding r = queue_binding"
  shows "approvalLifecycleEvent requested_event t0 r
     = Inr \<lparr>le_at = t0, le_createdAt = t0, le_type = ''approval.requested'', le_previous = None\<rparr>"
proof -
  let ?d = "requestedData queue_binding t0"
  have data: "eventData requested_event REQUESTED_EVENT_FIELDS = Inr (normal_entries ?d)"
    by (rule queue_eventData [OF queue_data_ok(1,2)])
      (auto simp: requestedData_def REQUESTED_EVENT_FIELDS_def REQUEST_FIELDS_def requested_event_def
        queue_event_def)
  have dist: "distinct (map fst ?d)" by (simp add: requestedData_def)
  have props: "get_prop (normal_entries ?d) ''intentId'' = JStr ''i1''"
      "get_prop (normal_entries ?d) ''intentHash'' = JStr demo_hash"
      "get_prop (normal_entries ?d) ''challengeHash'' = JStr queue_challenge"
      "get_prop (normal_entries ?d) ''quoteId'' = JStr queue_quote"
      "get_prop (normal_entries ?d) ''amountCeilingAtomic'' = JStr ''10''"
      "get_prop (normal_entries ?d) ''walletAddress'' = JStr demo_address"
      "get_prop (normal_entries ?d) ''policyVersionId'' = JStr ''v1''"
      "get_prop (normal_entries ?d) ''acceptedIndex'' = JNum 0"
      "get_prop (normal_entries ?d) ''expiresAt'' = JStr t9"
      "get_prop (normal_entries ?d) ''requestedAt'' = JStr t0"
    by (rule queue_props [OF dist], simp add: requestedData_def queue_binding_def get_prop_def)+
  have "requestedEvent requested_event r = Inr (t0, None)"
    using data queue_same_binding
    by (simp add: requestedEvent_def Let_def props queue_scalars assms queue_binding_def [symmetric])
  then show ?thesis
    by (simp add: approvalLifecycleEvent_def requested_event_def queue_event_def)
qed

lemma approved_event_read:
  assumes "ap_intent_id r = ''i1''" and "ap_intent_hash r = demo_hash"
    and "ap_operator_id_hash r = Some demo_hash"
  shows "approvalLifecycleEvent approved_event t2 r
     = Inr \<lparr>le_at = t2, le_createdAt = t2, le_type = ''approval.approved'', le_previous = None\<rparr>"
proof -
  have data: "eventData approved_event [''intentId'', ''intentHash'', ''operatorIdHash'', ''approvedAt'']
      = Inr (normal_entries approved_data)"
    by (rule queue_eventData [OF queue_data_ok(3,4)])
      (auto simp: approved_data_def approved_event_def queue_event_def)
  have dist: "distinct (map fst approved_data)" by (simp add: approved_data_def)
  have props: "get_prop (normal_entries approved_data) ''intentId'' = JStr ''i1''"
      "get_prop (normal_entries approved_data) ''intentHash'' = JStr demo_hash"
      "get_prop (normal_entries approved_data) ''operatorIdHash'' = JStr demo_hash"
      "get_prop (normal_entries approved_data) ''approvedAt'' = JStr t2"
    by (rule queue_props [OF dist], simp add: approved_data_def get_prop_def)+
  have "approvedEvent approved_event r = Inr (t2, None)"
    using data
    by (simp add: approvedEvent_def exactApprovalEventBinding_def Let_def props queue_scalars assms)
  then show ?thesis
    by (simp add: approvalLifecycleEvent_def approved_event_def queue_event_def)
qed

lemma consumed_event_read:
  assumes "ap_intent_id r = ''i1''" and "ap_intent_hash r = demo_hash"
  shows "approvalLifecycleEvent consumed_event t1 r
     = Inr \<lparr>le_at = t1, le_createdAt = t1, le_type = ''approval.consumed'', le_previous = None\<rparr>"
proof -
  have data: "eventData consumed_event [''intentId'', ''intentHash'', ''consumedAt'']
      = Inr (normal_entries consumed_data)"
    by (rule queue_eventData [OF queue_data_ok(5,6)])
      (auto simp: consumed_data_def consumed_event_def queue_event_def)
  have dist: "distinct (map fst consumed_data)" by (simp add: consumed_data_def)
  have props: "get_prop (normal_entries consumed_data) ''intentId'' = JStr ''i1''"
      "get_prop (normal_entries consumed_data) ''intentHash'' = JStr demo_hash"
      "get_prop (normal_entries consumed_data) ''consumedAt'' = JStr t1"
    by (rule queue_props [OF dist], simp add: consumed_data_def get_prop_def)+
  have "consumedEvent consumed_event r = Inr (t1, None)"
    using data
    by (simp add: consumedEvent_def exactApprovalEventBinding_def Let_def props queue_scalars assms)
  then show ?thesis
    by (simp add: approvalLifecycleEvent_def consumed_event_def queue_event_def)
qed

lemma queue_envelopes:
  "approvalEventEnvelope queue_host (requested_event, None) ''a1'' = Inr t0"
  "approvalEventEnvelope queue_host (approved_event, Some (queue_hash (CHR ''0''))) ''a1'' = Inr t2"
  "approvalEventEnvelope queue_host (consumed_event, Some (queue_hash (CHR ''2''))) ''a1'' = Inr t1"
proof -
  have hex: "is_lower_hex (CHR ''0'')" "is_lower_hex (CHR ''2'')" "is_lower_hex (CHR ''5'')"
    by code_simp+
  show "approvalEventEnvelope queue_host (requested_event, None) ''a1'' = Inr t0"
    unfolding requested_event_def
    by (rule queue_envelope [OF queue_data_ok(1,2)])
      (use hex in \<open>simp_all add: queue_times demo_times APPROVAL_EVENT_TYPES_def\<close>)
  show "approvalEventEnvelope queue_host (approved_event, Some (queue_hash (CHR ''0''))) ''a1'' = Inr t2"
    unfolding approved_event_def
    by (rule queue_envelope [OF queue_data_ok(3,4)])
      (use hex in \<open>auto simp: queue_times APPROVAL_EVENT_TYPES_def\<close>)
  show "approvalEventEnvelope queue_host (consumed_event, Some (queue_hash (CHR ''2''))) ''a1'' = Inr t1"
    unfolding consumed_event_def
    by (rule queue_envelope [OF queue_data_ok(5,6)])
      (use hex in \<open>auto simp: queue_times demo_times APPROVAL_EVENT_TYPES_def\<close>)
qed

section \<open>The three states of the approval\<close>

definition queue_log1 :: "event_row list" where "queue_log1 = [requested_event]"

definition queue_log2 :: "event_row list" where "queue_log2 = [requested_event, approved_event]"

definition queue_log3 :: "event_row list" where
  "queue_log3 = [requested_event, approved_event, consumed_event]"

lemma queue_event_sel [simp]:
  "ev_event_hash requested_event = queue_hash (CHR ''0'')"
  "ev_event_hash approved_event = queue_hash (CHR ''2'')"
  "ev_event_hash consumed_event = queue_hash (CHR ''5'')"
  "ev_entity_type requested_event = ''approval''" "ev_entity_id requested_event = ''a1''"
  "ev_entity_type approved_event = ''approval''" "ev_entity_id approved_event = ''a1''"
  "ev_entity_type consumed_event = ''approval''" "ev_entity_id consumed_event = ''a1''"
  by (simp_all add: requested_event_def approved_event_def consumed_event_def queue_event_def
      queue_times)

lemma queue_columns [simp]:
  "r \<in> {queue_pending, queue_approved, queue_consumed} \<Longrightarrow> ap_challenge_hash r = queue_challenge"
  "r \<in> {queue_pending, queue_approved, queue_consumed} \<Longrightarrow> ap_quote_id r = queue_quote"
  "r \<in> {queue_pending, queue_approved, queue_consumed} \<Longrightarrow> ap_accepted_index r = 0"
  "r \<in> {queue_pending, queue_approved, queue_consumed} \<Longrightarrow> ap_amount_ceiling_atomic r = ''10''"
  "r \<in> {queue_pending, queue_approved, queue_consumed} \<Longrightarrow> ap_wallet_address r = demo_address"
  "r \<in> {queue_pending, queue_approved, queue_consumed} \<Longrightarrow> ap_policy_version_id r = ''v1''"
  by (auto simp: queue_pending_def queue_approved_def queue_consumed_def newApproval_def
      toApproved_def toConsumed_def queue_binding_def)

lemma queue_valid:
  "lifecycleValid queue_pending" "lifecycleValid queue_approved" "lifecycleValid queue_consumed"
  "\<not> consumedBeforeDecided queue_pending" "\<not> consumedBeforeDecided queue_approved"
  "\<not> consumedBeforeDecided queue_consumed"
  by (simp_all add: lifecycleValid_def consumedBeforeDecided_def queue_times demo_times)

lemma queue_decisions:
  "''pending'' \<in> set APPROVAL_DECISIONS" "''approved'' \<in> set APPROVAL_DECISIONS"
  "''consumed'' \<in> set APPROVAL_DECISIONS"
  by (simp_all add: APPROVAL_DECISIONS_def)

lemma queue_rows_read:
  "rowToRecord queue_pending = Inr queue_pending" "rowToRecord queue_approved = Inr queue_approved"
  "rowToRecord queue_consumed = Inr queue_consumed"
  by (simp_all add: rowToRecord_def Let_def queue_decisions queue_valid queue_scalars demo_scalars
      optionalHash_def optionalToken_def optionalStamp_def)

lemma queue_event_rows:
  "approvalEventRows (queue_db as queue_log1) ''a1'' = [(requested_event, None)]"
  "approvalEventRows (queue_db as queue_log2) ''a1''
     = [(requested_event, None), (approved_event, Some (queue_hash (CHR ''0'')))]"
  "approvalEventRows (queue_db as queue_log3) ''a1''
     = [(requested_event, None), (approved_event, Some (queue_hash (CHR ''0''))),
        (consumed_event, Some (queue_hash (CHR ''2'')))]"
  by (simp_all add: approvalEventRows_def queue_log1_def queue_log2_def queue_log3_def)

lemmas queue_lifecycle_simps =
  validateApprovalLifecycle_def queue_event_rows queue_envelopes expectedTypes_def
  terminalMatches_def queue_authority_def queue_times demo_times

lemma queue_lifecycles:
  "validateApprovalLifecycle queue_host (queue_db as queue_log1) queue_authority queue_pending
     = Inr \<lparr>ly_approvedAt = None, ly_lastTransitionAt = t0, ly_requestedAt = t0\<rparr>"
  "validateApprovalLifecycle queue_host (queue_db as queue_log2) queue_authority queue_approved
     = Inr \<lparr>ly_approvedAt = Some t2, ly_lastTransitionAt = t2, ly_requestedAt = t0\<rparr>"
  "validateApprovalLifecycle queue_host (queue_db as queue_log3) queue_authority queue_consumed
     = Inr \<lparr>ly_approvedAt = Some t2, ly_lastTransitionAt = t1, ly_requestedAt = t0\<rparr>"
  by (simp_all add: queue_lifecycle_simps requested_event_read approved_event_read
      consumed_event_read)

definition queue_validated :: "approval_row \<Rightarrow> string option \<Rightarrow> string \<Rightarrow> validated_approval" where
  "queue_validated r approved moved = \<lparr>va_authority = queue_authority,
     va_lifecycle = \<lparr>ly_approvedAt = approved, ly_lastTransitionAt = moved, ly_requestedAt = t0\<rparr>,
     va_record = r\<rparr>"

lemma queue_records:
  "validatedRecord queue_host (queue_db as queue_log1) queue_pending
     = Inr (queue_validated queue_pending None t0)"
  "validatedRecord queue_host (queue_db as queue_log2) queue_approved
     = Inr (queue_validated queue_approved (Some t2) t2)"
  "validatedRecord queue_host (queue_db as queue_log3) queue_consumed
     = Inr (queue_validated queue_consumed (Some t2) t1)"
proof -
  have b: "aa_binding queue_authority = queue_binding" "aa_decidedAt queue_authority = t0"
    by (simp_all add: queue_authority_def)
  show "validatedRecord queue_host (queue_db as queue_log1) queue_pending
     = Inr (queue_validated queue_pending None t0)"
    "validatedRecord queue_host (queue_db as queue_log2) queue_approved
     = Inr (queue_validated queue_approved (Some t2) t2)"
    "validatedRecord queue_host (queue_db as queue_log3) queue_consumed
     = Inr (queue_validated queue_consumed (Some t2) t1)"
    by (simp_all add: validatedRecord_def queue_rows_read queue_authority_loads b
        queue_same_binding queue_lifecycles recordTimely_def queue_times demo_times
        queue_validated_def)
qed

section \<open>Two operations\<close>

text \<open>The consumption of the approved approval, half a second after its request.\<close>

definition queue_clock_at :: "string \<Rightarrow> queue_clock" where
  "queue_clock_at t = \<lparr>qc_now = t, qc_store = t\<rparr>"

definition request_entries :: "(string \<times> jsval) list" where
  "request_entries = [(''intentId'', JStr ''i1''), (''intentHash'', JStr demo_hash),
      (''challengeHash'', JStr queue_challenge), (''quoteId'', JStr queue_quote),
      (''amountCeilingAtomic'', JStr ''10''), (''walletAddress'', JStr demo_address),
      (''policyVersionId'', JStr ''v1''), (''acceptedIndex'', JNum 0)]"

definition request_input :: jsval where "request_input = JObj request_entries"

definition consume_input :: jsval where
  "consume_input = JObj (request_entries @ [(''expiresAt'', JStr t9)])"

lemma queue_request_input:
  "requestInput request_input e = Inr (queue_binding\<lparr>ab_expiresAt := e\<rparr>)"
proof -
  have "js_canonical (JObj request_entries)"
    by (simp add: request_entries_def MAX_SAFE_INTEGER_def)
  then have "exactRecord (JObj request_entries) REQUEST_FIELDS [] code = Inr request_entries" for code
    by (rule exactRecord_canonical) (simp add: request_entries_def REQUEST_FIELDS_def)
  then show ?thesis
    by (simp add: requestInput_def request_input_def Let_def)
      (simp add: request_entries_def get_prop_def queue_binding_def queue_scalars)
qed

lemma queue_consume_input: "consumptionInput consume_input = Inr queue_binding"
proof -
  let ?kvs = "request_entries @ [(''expiresAt'', JStr t9)]"
  have "js_canonical (JObj ?kvs)"
    by (simp add: request_entries_def MAX_SAFE_INTEGER_def)
  then have "exactRecord (JObj ?kvs) (REQUEST_FIELDS @ [''expiresAt'']) [] code = Inr ?kvs" for code
    by (rule exactRecord_canonical) (simp add: request_entries_def REQUEST_FIELDS_def)
  moreover have "JObj (filter (\<lambda>kv. fst kv \<noteq> ''expiresAt'') ?kvs) = request_input"
    by (simp add: request_entries_def request_input_def)
  moreover have "get_prop ?kvs ''expiresAt'' = JStr t9"
    by (simp add: request_entries_def get_prop_def)
  ultimately show ?thesis
    by (simp add: consumptionInput_def consume_input_def queue_request_input queue_scalars)
      (simp add: queue_binding_def)
qed

lemma queue_append:
  assumes "js_canonical (JObj d)" and "js_wf (JObj d)" and "plain_time t" and "is_lower_hex (t ! 20)"
    and "canonical_time t" and "canonicalToken (JStr type) = Inr type"
    and "queue_hash (t ! 20) \<notin> ev_event_hash ` set es"
  shows "appendEvent queue_host t (approvalEvent ''a1'' type d) (queue_db as es)
     = Inr (queue_db as (es @ [queue_event type d (last_hash es) t]), queue_hash (t ! 20))"
proof -
  have "canonicalToken (JStr ''approval'') = Inr ''approval''" by code_simp
  then show ?thesis
    using assms(5-7) event_text(2,3) [OF assms(1,2)] queue_eventHash(2) [OF assms(1-4)]
    by (simp add: appendEvent_def demo_scalars canonicalTimestamp_def Let_def queue_event_def
        del: cloneDataGraph.simps)
qed

lemma queue_tokens:
  "canonicalToken (JStr ''approval.requested'') = Inr ''approval.requested''"
  "canonicalToken (JStr ''approval.approved'') = Inr ''approval.approved''"
  "canonicalToken (JStr ''approval.consumed'') = Inr ''approval.consumed''"
  by code_simp+

lemma queue_hex: "is_lower_hex (CHR ''0'')" "is_lower_hex (CHR ''2'')" "is_lower_hex (CHR ''5'')"
  by code_simp+

lemma queue_hash_inject [simp]: "queue_hash c = queue_hash d \<longleftrightarrow> c = d"
  by (simp add: queue_hash_def)

lemma queue_request:
  "request queue_host (queue_clock_at t0) (JStr ''a1'') request_input (queue_db [] [])
     = (queue_db [queue_pending] queue_log1, Inr queue_pending)"
proof -
  have b: "aa_binding queue_authority = queue_binding" by (simp add: queue_authority_def)
  have ap: "appendEvent queue_host t0 (approvalEvent ''a1'' ''approval.requested''
      (requestedData queue_binding t0)) (queue_db [queue_pending] [])
    = Inr (queue_db [queue_pending] queue_log1, queue_hash (CHR ''0''))"
    using queue_append [OF queue_data_ok(1,2), of t0 "''approval.requested''" "[]" "[queue_pending]"]
    by (simp add: queue_times demo_times queue_tokens queue_hex queue_log1_def requested_event_def
        last_hash_def)
  have guards: "requestGuards (queue_clock_at t0) queue_authority (queue_db [] []) = Inr t0"
    by (simp add: requestGuards_def queue_authority_def queue_binding_def transitionTime_def
        nowTimestamp_def queue_scalars queue_clock_at_def pendingCount_def demo_times queue_times
        demo_policy_def)
  have "insertApproval queue_host (queue_clock_at t0) ''a1'' queue_binding t0 (queue_db [] [])
    = Inr (queue_db [queue_pending] queue_log1, queue_pending)"
    using ap
    by (simp add: insertApproval_def approvalById_def approvalByIntent_def queue_clock_at_def
        rereadApproval_def queue_records queue_validated_def queue_pending_def [symmetric])
  moreover have "exactBindingOrFail queue_binding queue_binding = Inr ()"
    by (simp add: exactBindingOrFail_def queue_same_binding)
  moreover have "queue_binding\<lparr>ab_expiresAt := []\<rparr>\<lparr>ab_expiresAt := ab_expiresAt queue_binding\<rparr> = queue_binding"
    by (simp add: queue_binding_def)
  moreover have "ab_intentId queue_binding = ''i1''" by (simp add: queue_binding_def)
  ultimately show ?thesis
    using guards
    by (simp add: request_def transaction_def requestInTransaction_def queue_request_input b
        queue_authority_loads approvalByIntent_def queue_scalars Let_def)
qed

lemma queue_consume:
  "consumeForInTransaction queue_host (queue_clock_at t1) consume_input (queue_db [queue_approved] queue_log2)
     = Inr (queue_db [queue_consumed] queue_log3, Some queue_consumed)"
proof -
  have b: "aa_binding queue_authority = queue_binding" by (simp add: queue_authority_def)
  have ap: "appendEvent queue_host t1 (approvalEvent ''a1'' ''approval.consumed'' consumed_data)
      (queue_db [queue_consumed] queue_log2)
    = Inr (queue_db [queue_consumed] queue_log3, queue_hash (CHR ''5''))"
    using queue_append [OF queue_data_ok(5,6), of t1 "''approval.consumed''" queue_log2 "[queue_consumed]"]
    by (simp add: queue_times demo_times queue_tokens queue_hex queue_log2_def queue_log3_def
        consumed_event_def last_hash_def)
  have m: "moveApproval queue_host (queue_clock_at t1) ''a1''
      (\<lambda>a. ap_intent_id a = ''i1'' \<and> ap_intent_hash a = demo_hash
           \<and> ap_decision a = ''approved'' \<and> t1 < ap_expires_at a)
      (toConsumed t1) ''approval.consumed'' consumed_data (queue_db [queue_approved] queue_log2)
    = Inr (queue_db [queue_consumed] queue_log3, queue_consumed)"
    using ap
    by (simp add: moveApproval_def update_one_def update_rows_def queue_times queue_clock_at_def
        rereadApproval_def approvalById_def queue_records queue_validated_def
        queue_consumed_def [symmetric])
  have "consumeLoaded queue_host (queue_clock_at t1) (queue_validated queue_approved (Some t2) t2)
      (queue_db [queue_approved] queue_log2)
    = Inr (queue_db [queue_consumed] queue_log3, Some queue_consumed)"
    using m
    by (simp add: consumeLoaded_def queue_validated_def transitionTime_def nowTimestamp_def
        queue_clock_at_def queue_scalars queue_authority_def queue_times demo_times consumed_data_def
        Let_def)
  then show ?thesis
    by (simp add: consumeForInTransaction_def queue_consume_input approvalByIntent_def queue_records
        exactBindingOrFail_def queue_same_binding b queue_validated_def)
      (simp add: queue_binding_def approvalByIntent_def)
qed

end
