(* ===== verification/ApprovalProperties.thy ===== *)
theory ApprovalProperties
  imports ApprovalDemo
begin

text \<open>
  The properties of the approval queue, with witnesses on the concrete queue of \<^verbatim>\<open>ApprovalDemo\<close>.
\<close>

section \<open>Every call\<close>

text \<open>C11: every call of the approval queue refines the life cycle of an approval. A call that throws
  leaves the database as it was; a call that returns either wrote nothing or took exactly one step of
  the abstract life cycle on one approval, appended exactly one chained event of that approval, wrote
  nothing else, and the approval it wrote passes every check of \<^verbatim>\<open>validatedRecord\<close>.\<close>

theorem approval_call_refines:
  "case approval_run h ck c db of
     (db', Inl e) \<Rightarrow> db' = db
   | (db', Inr result) \<Rightarrow>
       db' = db
       \<or> (\<exists>i a v e. approvals_step i (db_approvals db) (db_approvals db')
            \<and> db_events db' = db_events db @ [e] \<and> approval_event_row i e
            \<and> chained h (db_events db) e
            \<and> db' = db\<lparr>db_approvals := db_approvals db', db_events := db_events db'\<rparr>
            \<and> approvalById db' i = Some a \<and> validatedRecord h db' a = Inr v)"
proof -
  obtain db' r where run: "approval_run h ck c db = (db', r)" by fastforce
  show ?thesis
  proof (cases r)
    case (Inl e)
    with run approval_run_error show ?thesis by simp
  next
    case (Inr result)
    from approval_run_effect [of db' h ck c db] run
    have "db' = db \<or> approval_written h db db'" by simp
    with run Inr show ?thesis
      unfolding approval_written_def approval_effect_def rereadApproval_Inr by auto
  qed
qed

text \<open>C14: a decided approval is final and no approval changes what it is for. Along every run of calls,
  whatever their inputs and clocks, and of other components' writes, an approval keeps its id and its
  whole binding (intent, challenge, quote, amount, wallet, policy version, option, expiry), keeps the
  operator that approved it, never moves back, and once denied, expired, cancelled or consumed never
  changes at all.\<close>

theorem approval_final:
  assumes "approval_reach h db db'" and "a \<in> set (db_approvals db)"
  shows "\<exists>a' \<in> set (db_approvals db'). ap_id a' = ap_id a \<and> recordBinding a' = recordBinding a
    \<and> (ap_decision a \<notin> set OPEN_DECISIONS \<longrightarrow> a' = a)
    \<and> (ap_decision a = ''approved'' \<longrightarrow> ap_operator_id_hash a' = ap_operator_id_hash a)
    \<and> approval_rank a' \<le> approval_rank a"
proof -
  have "\<exists>b \<in> set (db_approvals db'). later_approval a b"
    using assms(1)
  proof (rule approval_reach_table)
    show "\<exists>b \<in> set (db_approvals db). later_approval a b"
      using assms(2) later_approval_refl by blast
  qed (rule approvals_step_later)
  then show ?thesis by (simp add: later_approval_def)
qed

theorem approval_final_witness:
  "\<exists>a' \<in> set (db_approvals (queue_db [queue_consumed] queue_log3)).
     recordBinding a' = recordBinding queue_approved
     \<and> ap_operator_id_hash a' = ap_operator_id_hash queue_approved"
proof -
  have "approval_reach queue_host (queue_db [queue_approved] queue_log2)
      (fst (approval_run queue_host (queue_clock_at t1) (ConsumeApproval consume_input)
        (queue_db [queue_approved] queue_log2)))"
    by (rule approval_called [OF approval_start])
  then have "approval_reach queue_host (queue_db [queue_approved] queue_log2)
      (queue_db [queue_consumed] queue_log3)"
    by (simp add: approval_run_def transaction_def queue_consume)
  from approval_final [OF this, of queue_approved] show ?thesis by auto
qed

section \<open>Consumption\<close>

text \<open>C12: an approval authorises one spend, for exactly what the operator saw. When a consumption
  returns a record, the caller's binding is the binding of an approval that an operator had approved
  and whose expiry is later than the queue's clock, the returned record is that approval marked
  consumed at that time, and after it no consumption for the same intent ever returns a record again,
  whatever happens in between.\<close>

theorem consumption_authorized_once:
  assumes "consumeForInTransaction h ck value db = Inr (db', Some row)"
    and "approval_keys (db_approvals db)"
  shows "\<exists>a \<in> set (db_approvals db). \<exists>op. consumptionInput value = Inr (recordBinding a)
    \<and> ap_decision a = ''approved'' \<and> ap_operator_id_hash a = Some op
    \<and> row = toConsumed (qc_now ck) a \<and> date_ms (qc_now ck) < date_ms (ap_expires_at a)
    \<and> (\<forall>db'' value' b ck'. approval_reach h db' db'' \<longrightarrow> consumptionInput value' = Inr b \<longrightarrow>
         ab_intentId b = ap_intent_id a \<longrightarrow>
         (\<nexists>db3 x. consumeForInTransaction h ck' value' db'' = Inr (db3, Some x)))"
proof -
  from assms obtain a where a: "a \<in> set (db_approvals db)" "consumptionInput value = Inr (recordBinding a)"
      "ap_decision a = ''approved''" "lifecycleValid a" "row = toConsumed (qc_now ck) a"
      "date_ms (qc_now ck) < date_ms (ap_expires_at a)"
    and row: "row \<in> set (db_approvals db')" "approval_keys (db_approvals db')"
    by (rule consumed_obtains)
  from a(3,4) obtain op where op: "ap_operator_id_hash a = Some op"
    by (auto simp: lifecycleValid_def Let_def)
  have row': "ap_decision row = ''consumed''" "ap_intent_id row = ap_intent_id a"
    by (simp_all add: a(5) toConsumed_def)
  have "\<nexists>db3 x. consumeForInTransaction h ck' value' db'' = Inr (db3, Some x)"
    if reach: "approval_reach h db' db''" and b: "consumptionInput value' = Inr b"
      and i: "ab_intentId b = ap_intent_id a" for db'' value' b ck'
  proof
    assume "\<exists>db3 x. consumeForInTransaction h ck' value' db'' = Inr (db3, Some x)"
    then obtain db3 x where again: "consumeForInTransaction h ck' value' db'' = Inr (db3, Some x)"
      by blast
    have keys: "approval_keys (db_approvals db'')" by (rule approval_reach_keys [OF reach row(2)])
    from again keys obtain a' where a': "a' \<in> set (db_approvals db'')"
        "consumptionInput value' = Inr (recordBinding a')" "ap_decision a' = ''approved''"
      by (rule consumed_obtains)
    have "\<exists>r \<in> set (db_approvals db''). later_approval row r"
      using reach
    proof (rule approval_reach_table)
      show "\<exists>r \<in> set (db_approvals db'). later_approval row r"
        using row(1) later_approval_refl by blast
    qed (rule approvals_step_later)
    then have "row \<in> set (db_approvals db'')"
      using row'(1) by (auto simp: later_approval_def OPEN_DECISIONS_def)
    moreover have "ap_intent_id a' = ap_intent_id row"
      using b a'(2) i row'(2) by (auto simp: recordBinding_def)
    ultimately have "a' = row" using a'(1) by (intro approval_keys_intent [OF keys])
    with a'(3) row'(1) show False by simp
  qed
  with a op show ?thesis by blast
qed

theorem consumption_authorized_once_witness:
  "\<nexists>db3 x. consumeForInTransaction queue_host (queue_clock_at t1) consume_input
     (queue_db [queue_consumed] queue_log3) = Inr (db3, Some x)"
proof -
  have "approval_keys (db_approvals (queue_db [queue_approved] queue_log2))"
    by (simp add: approval_keys_def)
  from consumption_authorized_once [OF queue_consume this] show ?thesis
    using approval_start queue_consume_input by (fastforce simp: queue_binding_def)
qed

text \<open>C13: the ledger accepts what the queue consumed. After a consumption returned a record, the check
  \<^verbatim>\<open>reserve\<close> makes of the approval of that intent succeeds on the resulting database and finds that
  record, for the rows the ledger joins to the intent and at every time from the consumption to the
  expiry.\<close>

theorem ledger_accepts_consumed:
  assumes "consumeForInTransaction h ck value db = Inr (db', Some row)"
    and "approval_keys (db_approvals db)"
    and "select_one (\<lambda>r. si_id r = ap_intent_id row) (db_intents db') = Some (au_intent au)"
    and "select_one (\<lambda>s. ss_id s = si_session_id (au_intent au)) (db_sessions db') = Some (au_session au)"
    and "select_one (\<lambda>d. pd_intent_id d = ap_intent_id row) (db_decisions db') = Some (au_decision au)"
    and "lp_id (au_version au) = pd_policy_version_id (au_decision au)"
    and "pd_accepted_index (au_decision au) = Some (pb_acceptedIndex (au_projection au))"
    and "date_ms (qc_now ck) \<le> date_ms at" and "date_ms at < date_ms (ap_expires_at row)"
  shows "validateConsumedApproval db' au at = Inr (Some row)"
  using assms by (rule consumed_accepted)

theorem ledger_accepts_consumed_witness:
  "validateConsumedApproval (queue_db [queue_consumed] queue_log3)
     \<lparr>au_intent = queue_intent ''challenged'', au_session = demo_session,
      au_decision = queue_decision,
      au_version = \<lparr>lp_id = ''v1'', lp_hash = demo_hash, lp_policy = demo_policy\<rparr>,
      au_projection = demo_binding_of_projection, au_enrollment = demo_enrollment,
      au_amount = ''10''\<rparr> t1 = Inr (Some queue_consumed)"
proof -
  have "approval_keys (db_approvals (queue_db [queue_approved] queue_log2))"
    by (simp add: approval_keys_def)
  from ledger_accepts_consumed [OF queue_consume this] show ?thesis
    by (simp add: queue_intent_def demo_intent_row_def demo_session_def queue_decision_def
        demo_decision_def demo_binding_of_projection_def queue_clock_at_def queue_times demo_times)
qed

section \<open>Requests\<close>

text \<open>C15: pending approvals never exceed the policy's capacity. A request that creates an approval
  finds an active authority (intent challenged, session open, enrollment active, policy version
  active) that has not expired, adds exactly one pending row with the authority's own binding and no
  operator, and the number of pending approvals afterwards is within the policy's
  \<^verbatim>\<open>maxPendingApprovals\<close>.\<close>

theorem request_within_capacity:
  assumes "request h ck fresh value db = (db', Inr row)"
    and "approvalByIntent db (ap_intent_id row) = None"
  shows "\<exists>A. loadAuthority h db (ap_intent_id row) = Inr (Some A)
    \<and> pendingCount db' = pendingCount db + 1
    \<and> pendingCount db' \<le> p_maxPendingApprovals (aa_policy A)
    \<and> db_approvals db' = db_approvals db @ [row] \<and> fresh_approval row
    \<and> recordBinding row = aa_binding A \<and> date_ms (qc_now ck) < date_ms (ap_expires_at row)
    \<and> aa_intentState A = ''challenged'' \<and> aa_sessionState A = ''open''
    \<and> aa_enrollmentState A = ''active''
    \<and> map_of (db_metadata db) ''active_policy_id'' = Some (ap_policy_version_id row)"
proof -
  from assms(1) have "requestInTransaction h ck fresh value db = Inr (db', row)"
    by (rule request_obtains)
  then obtain A t i where A: "loadAuthority h db (ap_intent_id row) = Inr (Some A)"
    and g: "requestGuards ck A db = Inr t" and row: "row = newApproval i (aa_binding A)"
    and rows: "db_approvals db' = db_approvals db @ [row]"
    using assms(2) by (rule request_new)
  from A have "aa_activePolicyId A = map_of (db_metadata db) ''active_policy_id''"
    by (rule loadAuthority_obtains)
  with A rows requestGuards_Inr [OF g] show ?thesis
    by (intro exI [of _ A])
      (simp add: pendingCount_def row newApproval_def fresh_approval_def recordBinding_def)
qed

theorem request_within_capacity_witness:
  "pendingCount (queue_db [queue_pending] queue_log1) \<le> 2"
proof -
  have "approvalByIntent (queue_db [] []) (ap_intent_id queue_pending) = None"
    by (simp add: approvalByIntent_def)
  from request_within_capacity [OF queue_request this] obtain A where
      "loadAuthority queue_host (queue_db [] []) ''i1'' = Inr (Some A)"
      "pendingCount (queue_db [queue_pending] queue_log1) \<le> p_maxPendingApprovals (aa_policy A)"
    by auto
  then show ?thesis
    using queue_authority_loads by (auto simp: queue_authority_def demo_policy_def)
qed

text \<open>A request is idempotent. Repeating a request that succeeded, at any clock and with any fresh
  identifier, returns the same approval and writes nothing, so an agent that retries never opens a
  second approval for the same intent.\<close>

theorem request_idempotent:
  assumes "request h ck fresh value db = (db', Inr row)"
  shows "request h ck' fresh' value db' = (db', Inr row)"
  using request_again [OF request_obtains [OF assms]] by (simp add: request_def transaction_def)

theorem request_idempotent_witness:
  "request queue_host (queue_clock_at t9) JNull request_input (queue_db [queue_pending] queue_log1)
     = (queue_db [queue_pending] queue_log1, Inr queue_pending)"
  by (rule request_idempotent [OF queue_request])

section \<open>Records\<close>

text \<open>C16: what the queue returns is well typed. A record that \<^verbatim>\<open>validatedRecord\<close> accepts has canonical
  tokens, hashes, address, decimal amount, index and timestamps, the optional columns its decision
  calls for, the binding of its authority, and as its events exactly the sequence that its own
  decision and operator name.\<close>

theorem valid_approval_typed:
  assumes "validatedRecord h db row = Inr v"
  shows "va_record v = row \<and> approval_typed row \<and> lifecycleValid row
    \<and> loadAuthority h db (ap_intent_id row) = Inr (Some (va_authority v))
    \<and> recordBinding row = aa_binding (va_authority v)
    \<and> map (ev_event_type \<circ> fst) (approvalEventRows db (ap_id row)) = event_history row"
  using assms validatedRecord_typed [OF assms] validatedRecord_binding [OF assms]
    validated_history [OF assms] by (auto elim: validatedRecord_obtains)

theorem valid_approval_typed_witness:
  "map (ev_event_type \<circ> fst) (approvalEventRows (queue_db [queue_consumed] queue_log3) ''a1'')
     = [''approval.requested'', ''approval.approved'', ''approval.consumed'']"
  using valid_approval_typed [OF queue_records(3), of "[queue_consumed]"]
  by (simp add: event_history_def OPEN_DECISIONS_def)

end
