(* ===== verification/PolicyRepository.thy ===== *)
theory PolicyRepository
  imports KernelStore
begin

text \<open>
  \<^verbatim>\<open>src/spikes/pi-wielder/src/kernel/policy-repository.mjs\<close>: policy versions and their activation,
  and the recording of a policy decision, which re-derives from the persisted intent, policy and
  challenge everything about the decision that does not depend on the exposures of the moment.

  The store's clock is an argument. An operation inside a transaction maps the database to an error
  or the new database and its result.
\<close>

section \<open>Persisted rows\<close>

record stored_policy =
  sp_id :: string
  sp_schemaVersion :: int
  sp_policy :: policy
  sp_canonicalJson :: string
  sp_hash :: string
  sp_predecessorHash :: "string option"
  sp_appliedAt :: string

definition rowToPolicyVersion :: "host \<Rightarrow> policy_version_row \<Rightarrow> stored_policy res" where
  "rowToPolicyVersion h row =
     (case json_parse (pvr_canonical_json row) of
        None \<Rightarrow> fail ''POLICY_CORRUPTION''
      | Some parsed \<Rightarrow>
          andthen (validatePolicyDocument h parsed) (\<lambda>policy.
          andthen (canonicalJson (policy_js policy)) (\<lambda>canonical.
          let hash = h_sha256 h canonical in
          if canonical \<noteq> pvr_canonical_json row \<or> hash \<noteq> pvr_policy_hash row
          then fail ''POLICY_CORRUPTION''
          else if pvr_schema_version row \<noteq> 1 then fail ''POLICY_CORRUPTION''
          else
            andthen (case pvr_predecessor_hash row of
                       None \<Rightarrow> Inr []
                     | Some p \<Rightarrow> canonicalHash (JStr p) ''POLICY_CORRUPTION'') (\<lambda>_.
            andthen (canonicalToken (JStr (pvr_id row))) (\<lambda>id.
            andthen (canonicalTimestamp (JStr (pvr_applied_at row))) (\<lambda>appliedAt.
            Inr \<lparr>sp_id = id, sp_schemaVersion = 1, sp_policy = policy,
                 sp_canonicalJson = canonical, sp_hash = hash,
                 sp_predecessorHash = pvr_predecessor_hash row, sp_appliedAt = appliedAt\<rparr>))))))"

definition storedPolicyById :: "host \<Rightarrow> db \<Rightarrow> string \<Rightarrow> stored_policy option res" where
  "storedPolicyById h db policyId =
     (case select_one (\<lambda>r. pvr_id r = policyId) (db_policy_versions db) of
        None \<Rightarrow> Inr None
      | Some row \<Rightarrow> andthen (rowToPolicyVersion h row) (\<lambda>v. Inr (Some v)))"

text \<open>The decision's fields but its time; a decision row has the columns of the decision.\<close>

definition decision_js :: "decision_row \<Rightarrow> jsval" where
  "decision_js d = JObj
     [(''intentId'', JStr (pd_intent_id d)), (''policyVersionId'', JStr (pd_policy_version_id d)),
      (''decision'', JStr (pd_decision d)), (''reasonCode'', JStr (pd_reason_code d)),
      (''challengeHash'', JStr (pd_challenge_hash d)),
      (''acceptedIndex'', option_js JNum (pd_accepted_index d)),
      (''quoteId'', option_string (pd_quote_id d)),
      (''amountCeilingAtomic'', JStr (pd_amount_ceiling_atomic d))]"

definition sameDecision :: "decision_row \<Rightarrow> decision_row \<Rightarrow> bool res" where
  "sameDecision left right =
     andthen (canonicalJson (decision_js left)) (\<lambda>l.
     andthen (canonicalJson (decision_js right)) (\<lambda>r. Inr (l = r)))"

definition parsePersistedProjection :: "string option \<Rightarrow> projection res" where
  "parsePersistedProjection bytes =
     (case bytes of
        None \<Rightarrow> fail ''POLICY_DECISION_CORRUPTION''
      | Some text \<Rightarrow>
          (case json_parse text of
             None \<Rightarrow> fail ''POLICY_DECISION_CORRUPTION''
           | Some parsed \<Rightarrow>
               andthen (rethrow_as ''POLICY_DECISION_CORRUPTION'' (validateChallengeProjection parsed))
                 (\<lambda>projection.
               andthen (canonicalJson (projection_js projection)) (\<lambda>canonical.
               if canonical \<noteq> text then fail ''POLICY_DECISION_CORRUPTION'' else Inr projection))))"

section \<open>The decision re-derived\<close>

text \<open>The stages of the analysis, each candidate with its position.\<close>

definition candidateStages :: "policy \<Rightarrow> seller option \<Rightarrow> candidate list \<Rightarrow> analysis" where
  "candidateStages p seller accepts =
     (let indexed = zip [0..<length accepts] accepts;
          scheme = filter (\<lambda>(_, c). c_scheme c = ''exact''
                     \<and> (c_assetTransferMethod c = None
                        \<or> c_assetTransferMethod c = Some ''eip3009'')) indexed;
          network = filter (\<lambda>(_, c). c_network c = p_network p) scheme;
          asset = filter (\<lambda>(_, c). c_asset c = p_asset p \<and> c_name c = ''USDC''
                     \<and> c_version c = ''2'') network;
          payee = (case seller of
                     Some s \<Rightarrow> filter (\<lambda>(_, c). c_payTo c = s_payTo s) asset
                   | None \<Rightarrow> [])
      in \<lparr>a_scheme = scheme, a_network = network, a_asset = asset, a_seller = seller,
          a_payee = payee\<rparr>)"

definition persistedPreselectionReason ::
  "policy \<Rightarrow> projection \<Rightarrow> intent_row \<Rightarrow> session_row \<Rightarrow> string option \<times> analysis" where
  "persistedPreselectionReason p projection intent session =
     (let seller = find (\<lambda>s. s_origin s = si_seller_origin intent) (p_sellers p);
          a = candidateStages p seller (pj_accepts projection);
          reason =
            (if pj_x402Version projection \<noteq> 2 then Some ''X402_VERSION''
             else if a_scheme a = [] then Some ''SCHEME_UNSUPPORTED''
             else if a_network a = [] then Some ''NETWORK_MISMATCH''
             else if a_asset a = [] then Some ''ASSET_MISMATCH''
             else if si_wallet_address intent \<noteq> p_wallet p \<or> ss_wallet_address session \<noteq> p_wallet p
             then Some ''WALLET_MISMATCH''
             else if si_method intent \<notin> set (p_methods p) then Some ''METHOD_UNSUPPORTED''
             else
               case seller of
                 None \<Rightarrow> Some ''SELLER_UNTRUSTED''
               | Some s \<Rightarrow>
                   if \<not> list_ex (\<lambda>prefix. starts_with (si_resource_path intent) prefix)
                          (s_pathPrefixes s)
                      \<or> pj_urlHash projection \<noteq> si_request_url_hash intent
                   then Some ''RESOURCE_PATH''
                   else if a_payee a = [] then Some ''PAYEE_MISMATCH''
                   else if 1 < length (a_payee a) then Some ''PAYMENT_OPTIONS_AMBIGUOUS''
                   else None)
      in (reason, a))"

text \<open>A denial may also rest on the wallet of the moment, which is not persisted.\<close>

definition preselectionReasonIsReproducible ::
  "string \<Rightarrow> string option \<Rightarrow> analysis \<Rightarrow> projection \<Rightarrow> bool" where
  "preselectionReasonIsReproducible evaluationReason staticReason a projection \<longleftrightarrow>
     (if Some evaluationReason = staticReason then True
      else if evaluationReason = ''NETWORK_MISMATCH''
      then pj_x402Version projection = 2 \<and> a_scheme a \<noteq> []
      else if evaluationReason = ''WALLET_MISMATCH''
      then pj_x402Version projection = 2 \<and> a_scheme a \<noteq> [] \<and> a_network a \<noteq> [] \<and> a_asset a \<noteq> []
      else False)"

text \<open>The selected option and its amount against the seller's static limits.\<close>

definition staticLimitsHold :: "seller \<Rightarrow> int \<Rightarrow> bool \<Rightarrow> evaluation \<Rightarrow> bool" where
  "staticLimitsHold s amount expired e \<longleftrightarrow>
     (let automatic = text_int (s_autoApproveAtomic s); human = text_int (s_humanApproveAtomic s);
          perRequest = text_int (s_perRequestMaxAtomic s); reason = e_reasonCode e in
      if e_decision e = ''allow''
      then \<not> (expired \<or> reason \<noteq> ''WITHIN_AUTO_LIMIT'' \<or> automatic < amount)
      else if e_decision e = ''approval_required''
      then \<not> (expired \<or> reason \<noteq> ''HUMAN_APPROVAL_REQUIRED'' \<or> amount \<le> automatic
              \<or> human < amount \<or> perRequest < amount)
      else if reason = ''CHALLENGE_EXPIRED'' then expired
      else if expired then False
      else if reason = ''PER_REQUEST_LIMIT'' then \<not> (amount \<le> human \<and> amount \<le> perRequest)
      else if human < amount \<or> perRequest < amount then False
      else \<not> (reason = ''APPROVAL_CAPACITY'' \<and> amount \<le> automatic))"

definition assertPersistedEvaluationBinding ::
  "host \<Rightarrow> policy \<Rightarrow> intent_row \<Rightarrow> session_row \<Rightarrow> projection \<Rightarrow> evaluation \<Rightarrow> string \<Rightarrow> unit res" where
  "assertPersistedEvaluationBinding h p intent session projection e decidedAt =
     (let code = ''POLICY_DECISION_CORRUPTION'' in
      andthen (canonicalJson (projection_js projection)) (\<lambda>bytes.
      if Some (h_sha256 h bytes) \<noteq> si_challenge_hash intent \<or> h_sha256 h bytes \<noteq> e_challengeHash e
      then fail code
      else
        andthen (canonicalTimestamp (option_string (si_challenge_received_at intent))) (\<lambda>receivedAt.
        let elapsed = date_ms decidedAt - date_ms receivedAt;
            expired = p_challengeMaxAgeMs p < elapsed in
        if elapsed < 0 then fail code
        else
          case persistedPreselectionReason p projection intent session of
            (staticReason, a) \<Rightarrow>
              (case e_acceptedIndex e of
                 None \<Rightarrow>
                   if e_decision e \<noteq> ''deny''
                      \<or> \<not> preselectionReasonIsReproducible (e_reasonCode e) staticReason a projection
                   then fail code else Inr ()
               | Some acceptedIndex \<Rightarrow>
                   (case (staticReason, a_payee a, a_seller a) of
                      (None, (position, selected) # _, Some seller) \<Rightarrow>
                        if int position \<noteq> acceptedIndex \<or> c_amount selected \<noteq> e_amountCeilingAtomic e
                           \<or> \<not> staticLimitsHold seller (text_int (c_amount selected)) expired e
                        then fail code else Inr ()
                    | _ \<Rightarrow> fail code)))))"

section \<open>Recording a decision\<close>

definition newDecision :: "string \<Rightarrow> string \<Rightarrow> evaluation \<Rightarrow> string \<Rightarrow> decision_row" where
  "newDecision intentId policyVersionId e decidedAt =
     \<lparr>pd_intent_id = intentId, pd_policy_version_id = policyVersionId,
      pd_decision = e_decision e, pd_reason_code = e_reasonCode e,
      pd_challenge_hash = e_challengeHash e, pd_accepted_index = e_acceptedIndex e,
      pd_quote_id = e_quoteId e, pd_amount_ceiling_atomic = e_amountCeilingAtomic e,
      pd_decided_at = decidedAt\<rparr>"

definition decisionEvent :: "decision_row \<Rightarrow> event" where
  "decisionEvent d =
     \<lparr>evt_entityType = JStr ''spend_intent'', evt_entityId = JStr (pd_intent_id d),
      evt_eventType = JStr ''policy.decision_recorded'',
      evt_data = JObj
        [(''policyVersionId'', JStr (pd_policy_version_id d)), (''decision'', JStr (pd_decision d)),
         (''reasonCode'', JStr (pd_reason_code d)), (''challengeHash'', JStr (pd_challenge_hash d)),
         (''acceptedIndex'', option_js JNum (pd_accepted_index d)),
         (''quoteId'', option_string (pd_quote_id d)),
         (''amountCeilingAtomic'', JStr (pd_amount_ceiling_atomic d)),
         (''decidedAt'', JStr (pd_decided_at d))]\<rparr>"

text \<open>A replay with an evaluation that is not valid is corruption, whatever the error was.\<close>

definition replayedEvaluation :: "host \<Rightarrow> decision_row option \<Rightarrow> jsval \<Rightarrow> evaluation res" where
  "replayedEvaluation h existing v =
     (case validatePolicyEvaluation h v of
        Inl err \<Rightarrow> if existing \<noteq> None then fail ''POLICY_DECISION_CORRUPTION'' else Inl err
      | Inr e \<Rightarrow> Inr e)"

text \<open>The intent with the session it belongs to.\<close>

definition decidedIntent :: "db \<Rightarrow> string \<Rightarrow> (intent_row \<times> session_row) option" where
  "decidedIntent db intentId =
     (case select_one (\<lambda>i. si_id i = intentId) (db_intents db) of
        None \<Rightarrow> None
      | Some intent \<Rightarrow>
          map_option (Pair intent)
            (select_one (\<lambda>s. ss_id s = si_session_id intent) (db_sessions db)))"

definition writeDecision ::
  "host \<Rightarrow> string \<Rightarrow> policy \<Rightarrow> intent_row \<Rightarrow> session_row \<Rightarrow> projection \<Rightarrow> evaluation
     \<Rightarrow> decision_row option \<Rightarrow> decision_row \<Rightarrow> db \<Rightarrow> (db \<times> decision_row) res" where
  "writeDecision h now p intent session projection e existing expected db =
     (case existing of
        Some d \<Rightarrow>
          andthen (sameDecision d expected) (\<lambda>same.
          if \<not> same then fail ''POLICY_DECISION_CORRUPTION''
          else
            andthen (assertPersistedEvaluationBinding h p intent session projection e
                       (pd_decided_at d)) (\<lambda>_. Inr (db, d)))
      | None \<Rightarrow>
          andthen (assertPersistedEvaluationBinding h p intent session projection e
                     (pd_decided_at expected)) (\<lambda>_.
          andthen (appendEvent h now (decisionEvent expected)
                     (db\<lparr>db_decisions := db_decisions db @ [expected]\<rparr>)) (\<lambda>(db', _).
          Inr (db', expected))))"

definition recordDecisionInTransaction ::
  "host \<Rightarrow> string \<Rightarrow> jsval \<Rightarrow> db \<Rightarrow> (db \<times> decision_row) res" where
  "recordDecisionInTransaction h now value db =
     andthen (exactRecord value [''intentId'', ''policyVersionId'', ''evaluation'', ''decidedAt''] []
                ''POLICY_DECISION_SCHEMA'') (\<lambda>input.
     andthen (canonicalToken (get_prop input ''intentId'')) (\<lambda>intentId.
     andthen (canonicalToken (get_prop input ''policyVersionId'')) (\<lambda>policyVersionId.
     andthen (canonicalTimestamp (get_prop input ''decidedAt'')) (\<lambda>decidedAt.
     let existing = select_one (\<lambda>d. pd_intent_id d = intentId) (db_decisions db) in
     andthen (replayedEvaluation h existing (get_prop input ''evaluation'')) (\<lambda>e.
     if (case existing of None \<Rightarrow> False | Some d \<Rightarrow> pd_policy_version_id d \<noteq> policyVersionId)
     then fail ''POLICY_DECISION_CORRUPTION''
     else
       andthen (storedPolicyById h db policyVersionId) (\<lambda>version.
       case version of
         None \<Rightarrow> fail ''POLICY_DECISION_MISSING''
       | Some v \<Rightarrow>
           (case decidedIntent db intentId of
              None \<Rightarrow> fail ''POLICY_DECISION_MISSING''
            | Some (intent, session) \<Rightarrow>
                if ss_policy_version_id session \<noteq> policyVersionId
                then fail ''POLICY_DECISION_CORRUPTION''
                else if e_policyHash e \<noteq> sp_hash v then fail ''POLICY_HASH_MISMATCH''
                else if si_challenge_hash intent \<noteq> Some (e_challengeHash e)
                then fail ''POLICY_CHALLENGE_MISMATCH''
                else
                  andthen (parsePersistedProjection (si_challenge_projection_json intent))
                    (\<lambda>projection.
                  writeDecision h now (sp_policy v) intent session projection e existing
                    (newDecision intentId policyVersionId e decidedAt) db))))))))"

section \<open>Activating a policy\<close>

definition loadActive :: "host \<Rightarrow> db \<Rightarrow> stored_policy option res" where
  "loadActive h db =
     (case map_of (db_metadata db) ''active_policy_id'' of
        None \<Rightarrow> if db_policy_versions db \<noteq> [] then fail ''POLICY_CORRUPTION'' else Inr None
      | Some activeId \<Rightarrow>
          andthen (storedPolicyById h db activeId) (\<lambda>active.
          if active = None then fail ''POLICY_CORRUPTION'' else Inr active))"

definition liveSessions :: "db \<Rightarrow> session_row list" where
  "liveSessions db =
     sort_key ss_id
       (filter (\<lambda>s. ss_state s \<in> {''open'', ''policy_blocked''}) (db_sessions db))"

definition setMetadata :: "string \<Rightarrow> string \<Rightarrow> (string \<times> string) list \<Rightarrow> (string \<times> string) list" where
  "setMetadata key value kvs =
     (if key \<in> fst ` set kvs then map (\<lambda>kv. if fst kv = key then (key, value) else kv) kvs
      else kvs @ [(key, value)])"

text \<open>The two loops over the sessions that were open.\<close>

fun blockSessions :: "string list \<Rightarrow> session_row list \<Rightarrow> session_row list res" where
  "blockSessions [] sessions = Inr sessions"
| "blockSessions (sessionId # rest) sessions =
     andthen (update_one ''POLICY_CORRUPTION'' (\<lambda>s. ss_id s = sessionId \<and> ss_state s = ''open'')
                (\<lambda>s. s\<lparr>ss_state := ''policy_blocked''\<rparr>) sessions) (\<lambda>sessions'.
     blockSessions rest sessions')"

definition blockedEvent :: "string option \<Rightarrow> string \<Rightarrow> string \<Rightarrow> event" where
  "blockedEvent previousId targetId sessionId =
     \<lparr>evt_entityType = JStr ''spend_session'', evt_entityId = JStr sessionId,
      evt_eventType = JStr ''session.policy_blocked'',
      evt_data = JObj [(''previousPolicyVersionId'', option_string previousId),
                       (''targetPolicyVersionId'', JStr targetId)]\<rparr>"

fun appendBlocked ::
  "host \<Rightarrow> string \<Rightarrow> string option \<Rightarrow> string \<Rightarrow> string list \<Rightarrow> db \<Rightarrow> db res" where
  "appendBlocked h now previousId targetId [] db = Inr db"
| "appendBlocked h now previousId targetId (sessionId # rest) db =
     andthen (appendEvent h now (blockedEvent previousId targetId sessionId) db) (\<lambda>(db', _).
     appendBlocked h now previousId targetId rest db')"

definition appliedEvent :: "stored_policy \<Rightarrow> string list \<Rightarrow> event" where
  "appliedEvent v blocked =
     \<lparr>evt_entityType = JStr ''policy'', evt_entityId = JStr (sp_id v),
      evt_eventType = JStr ''policy.applied'',
      evt_data = JObj [(''policyHash'', JStr (sp_hash v)),
                       (''predecessorHash'', option_string (sp_predecessorHash v)),
                       (''blockedSessionIds'', JArr (map JStr blocked))]\<rparr>"

record policy_applied =
  pa_policyVersion :: "stored_policy option"
  pa_blockedSessionIds :: "string list"
  pa_idempotent :: bool

definition policyRow :: "stored_policy \<Rightarrow> policy_version_row" where
  "policyRow v =
     \<lparr>pvr_id = sp_id v, pvr_schema_version = sp_schemaVersion v,
      pvr_canonical_json = sp_canonicalJson v, pvr_policy_hash = sp_hash v,
      pvr_predecessor_hash = sp_predecessorHash v, pvr_applied_at = sp_appliedAt v\<rparr>"

text \<open>The writes of a new version: the row, the active pointer, the blocked sessions, the events.\<close>

definition activateVersion ::
  "host \<Rightarrow> string \<Rightarrow> stored_policy option \<Rightarrow> stored_policy \<Rightarrow> db \<Rightarrow> (db \<times> policy_applied) res" where
  "activateVersion h now current v db =
     (let blocked = map ss_id (filter (\<lambda>s. ss_state s = ''open'') (liveSessions db)) in
      if sp_id v \<in> pvr_id ` set (db_policy_versions db) then Inl (JsError ''SQLITE_CONSTRAINT'')
      else
        andthen (blockSessions blocked (db_sessions db)) (\<lambda>sessions.
        andthen (appendEvent h now (appliedEvent v blocked)
                   (db\<lparr>db_policy_versions := db_policy_versions db @ [policyRow v],
                       db_metadata := setMetadata ''active_policy_id'' (sp_id v) (db_metadata db),
                       db_sessions := sessions\<rparr>)) (\<lambda>(db1, _).
        andthen (appendBlocked h now (map_option sp_id current) (sp_id v) blocked db1) (\<lambda>db2.
        andthen (storedPolicyById h db2 (sp_id v)) (\<lambda>loaded.
        Inr (db2, \<lparr>pa_policyVersion = loaded, pa_blockedSessionIds = blocked,
                   pa_idempotent = False\<rparr>))))))"

definition applyInTransaction ::
  "host \<Rightarrow> string \<Rightarrow> policy \<Rightarrow> string \<Rightarrow> string \<Rightarrow> string \<Rightarrow> db \<Rightarrow> (db \<times> policy_applied) res" where
  "applyInTransaction h now policy canonical hash appliedAt db =
     andthen (loadActive h db) (\<lambda>current.
     if list_ex (\<lambda>s. ss_wallet_address s \<noteq> p_wallet policy) (liveSessions db)
     then fail ''POLICY_WALLET_MISMATCH''
     else
       let count = int (length (db_policy_versions db));
           fresh = \<lparr>sp_id = ''policy-'' @ int_text (count + 1), sp_schemaVersion = 1,
                    sp_policy = policy, sp_canonicalJson = canonical, sp_hash = hash,
                    sp_predecessorHash = map_option sp_hash current, sp_appliedAt = appliedAt\<rparr>;
           insert =
             (if hash \<in> pvr_policy_hash ` set (db_policy_versions db)
              then fail ''POLICY_VERSION_REUSE''
              else if MAX_SAFE_INTEGER \<le> count then fail ''POLICY_CORRUPTION''
              else activateVersion h now current fresh db) in
       case current of
         Some v \<Rightarrow>
           if sp_hash v = hash
           then Inr (db, \<lparr>pa_policyVersion = Some v, pa_blockedSessionIds = [], pa_idempotent = True\<rparr>)
           else insert
       | None \<Rightarrow> insert)"

definition applyPolicy ::
  "host \<Rightarrow> string \<Rightarrow> jsval \<Rightarrow> jsval \<Rightarrow> db \<Rightarrow> db \<times> policy_applied res" where
  "applyPolicy h now document appliedAt db =
     (case andthen (validatePolicyDocument h document) (\<lambda>policy.
           andthen (canonicalJson (policy_js policy)) (\<lambda>canonical.
           andthen (canonicalTimestamp appliedAt) (\<lambda>timestamp.
           Inr (policy, canonical, timestamp)))) of
        Inl e \<Rightarrow> (db, Inl e)
      | Inr (policy, canonical, timestamp) \<Rightarrow>
          transaction
            (applyInTransaction h now policy canonical (h_sha256 h canonical) timestamp) db)"

section \<open>Reads\<close>

definition activePolicy :: "host \<Rightarrow> db \<Rightarrow> stored_policy option res" where
  "activePolicy h db = loadActive h db"

definition policyHistory :: "host \<Rightarrow> db \<Rightarrow> stored_policy list res" where
  "policyHistory h db = collect (rowToPolicyVersion h) (db_policy_versions db)"

definition getPolicy :: "host \<Rightarrow> jsval \<Rightarrow> db \<Rightarrow> stored_policy option res" where
  "getPolicy h policyId db = andthen (canonicalToken policyId) (\<lambda>id. storedPolicyById h db id)"

end
