(* ===== verification/PolicyRepositoryFacts.thy ===== *)
theory PolicyRepositoryFacts
  imports PolicyRepository PolicyRoundtrip LedgerFacts
begin

text \<open>
  The repository re-derives what the engine decided: its static reason is the engine's, but for the
  wallet of the moment. Activating a policy blocks every open session.
\<close>

section \<open>The static reason is the engine's\<close>

text \<open>The persisted rows hold what the engine was given.\<close>

definition persisted_as :: "host \<Rightarrow> spend_input \<Rightarrow> intent_row \<Rightarrow> session_row \<Rightarrow> string \<Rightarrow> bool" where
  "persisted_as h inp intent session decidedAt \<longleftrightarrow>
     si_method intent = i_method (in_intent inp)
     \<and> si_seller_origin intent = i_sellerOrigin (in_intent inp)
     \<and> si_resource_path intent = i_resourcePath (in_intent inp)
     \<and> si_wallet_address intent = i_walletAddress (in_intent inp)
     \<and> si_request_url_hash intent = h_sha256 h (i_requestUrl (in_intent inp))
     \<and> ss_wallet_address session = w_address (in_wallet inp)
     \<and> (case si_challenge_received_at intent of
          None \<Rightarrow> False
        | Some r \<Rightarrow> canonical_time r \<and> date_ms r = in_receivedAt inp)
     \<and> date_ms decidedAt = in_now inp"

lemma candidateStages_analysis:
  "candidateStages p (sellerFor p i) (pr_accepts pr) = candidateAnalysis p i pr"
  unfolding candidateStages_def candidateAnalysis_def Let_def ..

lemma static_reason:
  assumes "si_method intent = i_method i" and "si_seller_origin intent = i_sellerOrigin i"
    and "si_resource_path intent = i_resourcePath i" and "si_wallet_address intent = i_walletAddress i"
    and "si_request_url_hash intent = h_sha256 h (i_requestUrl i)"
    and "ss_wallet_address session = w_address w"
    and injective: "h_sha256 h (pr_url pr) = h_sha256 h (i_requestUrl i) \<Longrightarrow> pr_url pr = i_requestUrl i"
  shows "persistedPreselectionReason p (challengeProjection h pr) intent session
    = (case preselection p i (w\<lparr>w_network := p_network p\<rparr>) pr of
         Inl r \<Rightarrow> (Some r, candidateAnalysis p i pr) | Inr _ \<Rightarrow> (None, candidateAnalysis p i pr))"
proof -
  have "find (\<lambda>s. s_origin s = si_seller_origin intent) (p_sellers p) = sellerFor p i"
    by (simp add: sellerFor_def assms(2))
  moreover have "h_sha256 h (pr_url pr) = h_sha256 h (i_requestUrl i) \<longleftrightarrow> pr_url pr = i_requestUrl i"
    using injective by auto
  ultimately show ?thesis
    using assms(1-6)
    by (simp add: persistedPreselectionReason_def preselection_def candidateStages_analysis
        challengeProjection_def path_admitted_def Let_def split: option.split)
qed

text \<open>The engine's denial without its wallet's network is the same, or names the network.\<close>

lemma preselection_network:
  "preselection p i (w\<lparr>w_network := p_network p\<rparr>) pr = preselection p i w pr
   \<or> preselection p i w pr = Inl ''NETWORK_MISMATCH''
     \<and> pr_x402Version pr = 2 \<and> a_scheme (candidateAnalysis p i pr) \<noteq> []"
  by (auto simp: preselection_def Let_def)

lemma preselection_reproducible:
  assumes "preselection p i w pr = Inl r"
    and "static = (case preselection p i (w\<lparr>w_network := p_network p\<rparr>) pr of Inl r \<Rightarrow> Some r | Inr _ \<Rightarrow> None)"
  shows "preselectionReasonIsReproducible r static (candidateAnalysis p i pr) (challengeProjection h pr)"
  using preselection_network [of p i w pr] assms
  by (auto simp: preselectionReasonIsReproducible_def challengeProjection_def)

lemma selected_limits:
  assumes "selected_outcome p s c b r n = (outcome, reason)"
    and "e_decision e = outcome" and "e_reasonCode e = reason"
  shows "staticLimitsHold s (text_int (c_amount c)) (p_challengeMaxAgeMs p < n - r) e"
  using assms by (auto simp: selected_outcome_def staticLimitsHold_def Let_def split: if_splits)

text \<open>What the engine decided passes the repository's check.\<close>

lemma decided_binding:
  assumes dec: "decideValidated h p ph ch i w pr b r n = Inr e"
    and bytes: "challengeHashOf h pr = Inr ch"
    and row: "si_method intent = i_method i" "si_seller_origin intent = i_sellerOrigin i"
      "si_resource_path intent = i_resourcePath i" "si_wallet_address intent = i_walletAddress i"
      "si_request_url_hash intent = h_sha256 h (i_requestUrl i)"
      "ss_wallet_address session = w_address w" "si_challenge_hash intent = Some ch"
    and time: "si_challenge_received_at intent = Some t" "canonical_time t" "date_ms t = r"
      "date_ms decidedAt = n" "r \<le> n"
    and injective: "h_sha256 h (pr_url pr) = h_sha256 h (i_requestUrl i) \<Longrightarrow> pr_url pr = i_requestUrl i"
  shows "assertPersistedEvaluationBinding h p intent session (challengeProjection h pr) e decidedAt
    = Inr ()"
proof -
  note static = static_reason [OF row(1-6) injective, of p]
  have stamp: "canonicalTimestamp (option_string (si_challenge_received_at intent)) = Inr t"
    using time(1,2) by (simp add: canonicalTimestamp_def option_string_def)
  from bytes obtain canon where canon: "canonicalJson (projection_js (challengeProjection h pr)) = Inr canon"
      "h_sha256 h canon = ch"
    by (auto simp: challengeHashOf_def)
  show ?thesis
  proof (cases "preselection p i w pr")
    case (Inl reason)
    with dec have e: "policy_decision h ''deny'' reason ph ch None = Inr e"
      by (simp add: decideValidated_def)
    from policy_decision_Inr [OF e]
    have "e_acceptedIndex e = None" "e_decision e = ''deny''" "e_reasonCode e = reason"
      "e_challengeHash e = ch" by simp_all
    with preselection_reproducible [OF Inl refl, of h] canon row(7) stamp time
    show ?thesis
      by (auto simp: assertPersistedEvaluationBinding_def static Let_def split: sum.splits)
  next
    case (Inr x)
    obtain s sel where x: "x = (s, sel)" by (cases x)
    obtain outcome reason where o: "selected_outcome p s (sel_accepted sel) b r n = (outcome, reason)"
      by fastforce
    with dec Inr x have e: "policy_decision h outcome reason ph ch (Some sel) = Inr e"
      by (simp add: decideValidated_def)
    note fields = policy_decision_Inr [OF e]
    from Inr x have ad: "admissible p i w pr s (sel_index sel)"
        and acc: "sel_accepted sel = pr_accepts pr ! sel_index sel"
      by (simp_all add: preselection_Inr_iff)
    then have same: "preselection p i (w\<lparr>w_network := p_network p\<rparr>) pr = Inr (s, sel)"
      by (simp add: preselection_Inr_iff admissible_def)
    from ad have seller: "sellerFor p i = Some s" and one: "only_option p s pr (sel_index sel)"
      by (simp_all add: admissible_def)
    then have payee: "a_payee (candidateAnalysis p i pr) = [(sel_index sel, sel_accepted sel)]"
      by (simp add: only_option_payee [OF seller] acc)
    have limits: "staticLimitsHold s (text_int (c_amount (sel_accepted sel)))
        (p_challengeMaxAgeMs p < n - r) e"
      using selected_limits [OF o] fields by simp
    show ?thesis
      using canon row(7) stamp time fields same payee seller limits
      by (simp add: assertPersistedEvaluationBinding_def static Let_def)
  qed
qed

lemma engine_binding:
  assumes "validateSpendInput h v = Inr inp" and "evaluateSpendPolicy h v = Inr e"
    and "persisted_as h inp intent session t" and "si_challenge_hash intent = Some (e_challengeHash e)"
    and "h_sha256 h (pr_url (in_paymentRequired inp)) = h_sha256 h (i_requestUrl (in_intent inp))
      \<Longrightarrow> pr_url (in_paymentRequired inp) = i_requestUrl (in_intent inp)"
  shows "assertPersistedEvaluationBinding h (in_policy inp) intent session
      (challengeProjection h (in_paymentRequired inp)) e t = Inr ()"
    and "e_policyHash e = pv_hash (in_policyVersion inp)"
proof -
  have hash: "policyHashOf h (in_policy inp) = Inr (pv_hash (in_policyVersion inp))"
    using evaluateSpendPolicy_Inr [OF assms(2)] assms(1) by force
  obtain ch where ch: "challengeHashOf h (in_paymentRequired inp) = Inr ch"
    and dec: "decideValidated h (in_policy inp) (pv_hash (in_policyVersion inp)) ch (in_intent inp)
        (in_wallet inp) (in_paymentRequired inp) (in_budget inp) (in_receivedAt inp) (in_now inp) = Inr e"
    using evaluate_validated [OF assms(1) hash] assms(2) by metis
  note sound = decideValidated_ok [OF validateSpendInput_Inr(1) [OF assms(1)] dec]
  obtain r where r: "si_challenge_received_at intent = Some r" "canonical_time r"
      "date_ms r = in_receivedAt inp"
    using assms(3) by (auto simp: persisted_as_def split: option.splits)
  show "assertPersistedEvaluationBinding h (in_policy inp) intent session
      (challengeProjection h (in_paymentRequired inp)) e t = Inr ()"
    by (rule decided_binding [OF dec ch])
      (use assms(3-5) r sound validateSpendInput_Inr(2) [OF assms(1)] in
        \<open>simp_all add: persisted_as_def\<close>)
  show "e_policyHash e = pv_hash (in_policyVersion inp)" using sound by simp
qed

text \<open>The stored challenge reads back.\<close>

lemma stored_projection_parses:
  assumes "payment_ok pr" and "sha_ok h"
    and "canonicalJson (projection_js (challengeProjection h pr)) = Inr bytes"
  shows "parsePersistedProjection (Some bytes) = Inr (challengeProjection h pr)"
proof -
  have "js_wf (projection_js (challengeProjection h pr))"
    by (auto simp: projection_js_def candidate_js_def list_all_iff split: option.split)
  from json_parse_canonicalJson [OF this assms(3)]
  have "json_parse bytes = Some (js_normal (projection_js (challengeProjection h pr)))" .
  moreover have "validateChallengeProjection (js_normal (projection_js (challengeProjection h pr)))
      = Inr (challengeProjection h pr)"
    using assms(1,2) by (intro projection_stored) (simp_all add: sha_ok_def)
  ultimately show ?thesis
    using assms(3) by (simp add: parsePersistedProjection_def rethrow_as_def)
qed

text \<open>The record that is handed over to be written; its evaluation is the engine's.\<close>

definition decision_input :: "string \<Rightarrow> string \<Rightarrow> evaluation \<Rightarrow> string \<Rightarrow> jsval" where
  "decision_input intentId policyVersionId e decidedAt = JObj
     [(''intentId'', JStr intentId), (''policyVersionId'', JStr policyVersionId),
      (''evaluation'', js_normal (evaluation_js e)), (''decidedAt'', JStr decidedAt)]"

lemma js_canonical_evaluation: "evaluation_ok h e \<Longrightarrow> js_canonical (evaluation_js e)"
  by (auto simp: evaluation_js_def evaluation_ok_def option_js_def split: option.splits)

lemma decision_input_reads:
  assumes "evaluation_ok h e" and "hash_pattern (e_policyHash e)" and "hash_pattern (e_challengeHash e)"
  shows "exactRecord (decision_input n pid e t)
      [''intentId'', ''policyVersionId'', ''evaluation'', ''decidedAt''] [] code
    = Inr (entries_of (decision_input n pid e t))"
    and "replayedEvaluation h existing (js_normal (evaluation_js e)) = Inr e"
proof -
  have "js_canonical (js_normal (evaluation_js e))"
    using js_canonical_evaluation [OF assms(1)] js_canonical_normal by blast
  then show "exactRecord (decision_input n pid e t)
      [''intentId'', ''policyVersionId'', ''evaluation'', ''decidedAt''] [] code
    = Inr (entries_of (decision_input n pid e t))"
    unfolding decision_input_def entries_of_def jsval.case
    by (intro exactRecord_canonical) simp_all
  show "replayedEvaluation h existing (js_normal (evaluation_js e)) = Inr e"
    using evaluation_stored [OF assms] by (simp add: replayedEvaluation_def)
qed

lemma decision_input_props [simp]:
  "get_prop (entries_of (decision_input n pid e t)) ''intentId'' = JStr n"
  "get_prop (entries_of (decision_input n pid e t)) ''policyVersionId'' = JStr pid"
  "get_prop (entries_of (decision_input n pid e t)) ''evaluation'' = js_normal (evaluation_js e)"
  "get_prop (entries_of (decision_input n pid e t)) ''decidedAt'' = JStr t"
  by (simp_all add: decision_input_def entries_of_def)

lemma newDecision_sel [simp]:
  "pd_intent_id (newDecision n pid e t) = n" "pd_policy_version_id (newDecision n pid e t) = pid"
  "pd_decision (newDecision n pid e t) = e_decision e" "pd_decided_at (newDecision n pid e t) = t"
  "pd_accepted_index (newDecision n pid e t) = e_acceptedIndex e"
  "pd_amount_ceiling_atomic (newDecision n pid e t) = e_amountCeilingAtomic e"
  by (simp_all add: newDecision_def)

text \<open>A first decision that passes the check is written with its event.\<close>

lemma recordDecision_new:
  assumes "evaluation_ok h e" and "hash_pattern (e_policyHash e)" and "hash_pattern (e_challengeHash e)"
    and "canonicalToken (JStr n) = Inr n" and "canonicalToken (JStr pid) = Inr pid"
    and "canonical_time t" and "\<forall>d \<in> set (db_decisions db). pd_intent_id d \<noteq> n"
    and "storedPolicyById h db pid = Inr (Some pv)" and "e_policyHash e = sp_hash pv"
    and "decidedIntent db n = Some (intent, session)" and "ss_policy_version_id session = pid"
    and "si_challenge_hash intent = Some (e_challengeHash e)"
    and "parsePersistedProjection (si_challenge_projection_json intent) = Inr pj"
    and "assertPersistedEvaluationBinding h (sp_policy pv) intent session pj e t = Inr ()"
  shows "recordDecisionInTransaction h now (decision_input n pid e t) db =
    andthen (appendEvent h now (decisionEvent (newDecision n pid e t))
               (db\<lparr>db_decisions := db_decisions db @ [newDecision n pid e t]\<rparr>))
      (\<lambda>(db', _). Inr (db', newDecision n pid e t))"
proof -
  have "select_one (\<lambda>d. pd_intent_id d = n) (db_decisions db) = None"
    using assms(7) by (simp add: select_one_None)
  moreover have "canonicalTimestamp (JStr t) = Inr t"
    using assms(6) by (simp add: canonicalTimestamp_def)
  ultimately show ?thesis
    using assms(4,5,8-14) decision_input_reads [OF assms(1-3)]
    by (simp add: recordDecisionInTransaction_def Let_def writeDecision_def)
qed

text \<open>The first event of a store is always written.\<close>

lemma appendEvent_first:
  assumes "js_canonical (JObj kvs)" and "canonicalToken (JStr et) = Inr et"
    and "canonicalToken (JStr ei) = Inr ei" and "canonicalToken (JStr ty) = Inr ty"
    and "canonical_time now" and "db_events db = []"
  shows "\<exists>db' x. appendEvent h now \<lparr>evt_entityType = JStr et, evt_entityId = JStr ei,
    evt_eventType = JStr ty, evt_data = JObj kvs\<rparr> db = Inr (db', x)"
proof -
  have "js_canonical (JObj [(''entityType'', JStr et), (''entityId'', JStr ei), (''eventType'', JStr ty),
      (''data'', JObj kvs), (''previousHash'', JNull), (''createdAt'', JStr now)])"
    using assms(1) by simp
  from canonicalJson_total [OF this] obtain x
    where "eventHash h et ei ty (JObj kvs) None now = Inr x"
    by (auto simp: eventHash_def option_string_def)
  moreover from canonicalJson_total [OF assms(1)] obtain t where "canonicalJson (JObj kvs) = Inr t" ..
  moreover have "cloneDataGraph ''EVENT_SCHEMA'' (JObj kvs) = Inr (JObj kvs)"
    by (rule cloneDataGraph_canonical [OF assms(1)])
  moreover have "canonicalTimestamp (JStr now) = Inr now"
    using assms(5) by (simp add: canonicalTimestamp_def)
  ultimately show ?thesis
    using assms(2-4,6) by (simp add: appendEvent_def last_hash_def del: cloneDataGraph.simps)
qed

section \<open>What an accepted decision says\<close>

lemma binding_allow:
  assumes "assertPersistedEvaluationBinding h p intent session projection e decidedAt = Inr ()"
    and "e_acceptedIndex e = Some k"
  obtains t s position c rest where
      "si_challenge_received_at intent = Some t"
    and "0 \<le> date_ms decidedAt - date_ms t"
    and "persistedPreselectionReason p projection intent session
           = (None, candidateStages p (Some s) (pj_accepts projection))"
    and "find (\<lambda>s. s_origin s = si_seller_origin intent) (p_sellers p) = Some s"
    and "a_payee (candidateStages p (Some s) (pj_accepts projection)) = (position, c) # rest"
    and "int position = k" and "c_amount c = e_amountCeilingAtomic e"
    and "staticLimitsHold s (text_int (c_amount c))
           (p_challengeMaxAgeMs p < date_ms decidedAt - date_ms t) e"
proof -
  obtain reason a where pre: "persistedPreselectionReason p projection intent session = (reason, a)"
    by fastforce
  from assms(1) pre obtain t where t: "canonicalTimestamp (option_string (si_challenge_received_at intent)) = Inr t"
      "0 \<le> date_ms decidedAt - date_ms t"
    and body: "(case (reason, a_payee a, a_seller a) of
          (None, (position, selected) # _, Some seller) \<Rightarrow>
            if int position \<noteq> k \<or> c_amount selected \<noteq> e_amountCeilingAtomic e
               \<or> \<not> staticLimitsHold seller (text_int (c_amount selected))
                     (p_challengeMaxAgeMs p < date_ms decidedAt - date_ms t) e
            then fail ''POLICY_DECISION_CORRUPTION'' else Inr ()
        | _ \<Rightarrow> fail ''POLICY_DECISION_CORRUPTION'') = Inr ()"
    by (auto simp: assertPersistedEvaluationBinding_def Let_def assms(2) split: if_splits)
  from body obtain s position c rest where b: "reason = None" "a_payee a = (position, c) # rest"
      "a_seller a = Some s" "int position = k" "c_amount c = e_amountCeilingAtomic e"
      "staticLimitsHold s (text_int (c_amount c))
         (p_challengeMaxAgeMs p < date_ms decidedAt - date_ms t) e"
    by (auto split: option.splits list.splits if_splits)
  from pre have a: "a = candidateStages p (find (\<lambda>s. s_origin s = si_seller_origin intent) (p_sellers p))
      (pj_accepts projection)"
    by (simp add: persistedPreselectionReason_def Let_def)
  then have "find (\<lambda>s. s_origin s = si_seller_origin intent) (p_sellers p) = Some s"
    using b(3) by (simp add: candidateStages_def Let_def)
  with that t b a pre show thesis
    by (auto simp: canonicalTimestamp_Inr option_string_def split: option.splits)
qed

text \<open>The decision is within what the policy of its session grants for the stored challenge.\<close>

definition within_authority ::
  "policy \<Rightarrow> intent_row \<Rightarrow> session_row \<Rightarrow> projection \<Rightarrow> seller \<Rightarrow> nat \<Rightarrow> decision_row \<Rightarrow> bool" where
  "within_authority p intent session pj s k d \<longleftrightarrow>
     pj_x402Version pj = 2
     \<and> si_wallet_address intent = p_wallet p \<and> ss_wallet_address session = p_wallet p
     \<and> si_method intent \<in> set (p_methods p)
     \<and> find (\<lambda>s. s_origin s = si_seller_origin intent) (p_sellers p) = Some s
     \<and> list_ex (\<lambda>prefix. starts_with (si_resource_path intent) prefix) (s_pathPrefixes s)
     \<and> pj_urlHash pj = si_request_url_hash intent
     \<and> k < length (pj_accepts pj)
     \<and> (\<forall>j < length (pj_accepts pj). option_matches p s (pj_accepts pj ! j) = (j = k))
     \<and> pd_accepted_index d = Some (int k)
     \<and> pd_amount_ceiling_atomic d = c_amount (pj_accepts pj ! k)
     \<and> (case si_challenge_received_at intent of
          None \<Rightarrow> False
        | Some r \<Rightarrow> 0 \<le> date_ms (pd_decided_at d) - date_ms r
                    \<and> date_ms (pd_decided_at d) - date_ms r \<le> p_challengeMaxAgeMs p)
     \<and> (let amount = text_int (c_amount (pj_accepts pj ! k));
            automatic = text_int (s_autoApproveAtomic s) in
        if pd_decision d = ''allow'' then amount \<le> automatic
        else pd_decision d = ''approval_required'' \<and> automatic < amount
          \<and> amount \<le> text_int (s_humanApproveAtomic s)
          \<and> amount \<le> text_int (s_perRequestMaxAtomic s))"

lemma candidateStages_payee:
  "a_payee (candidateStages p (Some s) cs) = filter (\<lambda>(_, c). option_matches p s c) (zip [0..<length cs] cs)"
  by (simp add: candidateStages_def Let_def case_prod_unfold option_matches_def conj_ac)

lemma static_selected:
  assumes "persistedPreselectionReason p pj intent session = (None, candidateStages p (Some s) (pj_accepts pj))"
    and "find (\<lambda>s. s_origin s = si_seller_origin intent) (p_sellers p) = Some s"
  obtains k where "a_payee (candidateStages p (Some s) (pj_accepts pj)) = [(k, pj_accepts pj ! k)]"
    and "k < length (pj_accepts pj)"
    and "\<forall>j < length (pj_accepts pj). option_matches p s (pj_accepts pj ! j) = (j = k)"
    and "pj_x402Version pj = 2" "si_wallet_address intent = p_wallet p"
    and "ss_wallet_address session = p_wallet p" "si_method intent \<in> set (p_methods p)"
    and "list_ex (\<lambda>prefix. starts_with (si_resource_path intent) prefix) (s_pathPrefixes s)"
    and "pj_urlHash pj = si_request_url_hash intent"
proof -
  let ?a = "candidateStages p (Some s) (pj_accepts pj)"
  from assms have facts: "pj_x402Version pj = 2" "si_wallet_address intent = p_wallet p"
      "ss_wallet_address session = p_wallet p" "si_method intent \<in> set (p_methods p)"
      "list_ex (\<lambda>prefix. starts_with (si_resource_path intent) prefix) (s_pathPrefixes s)"
      "pj_urlHash pj = si_request_url_hash intent" "a_payee ?a \<noteq> []" "\<not> 1 < length (a_payee ?a)"
    by (simp_all add: persistedPreselectionReason_def Let_def split: if_splits)
  then obtain x where "a_payee ?a = [x]" by (cases "a_payee ?a") auto
  then obtain k where k: "filter (\<lambda>j. option_matches p s (pj_accepts pj ! j)) [0..<length (pj_accepts pj)] = [k]"
    by (auto simp: candidateStages_payee filter_indexed)
  then have "a_payee ?a = [(k, pj_accepts pj ! k)]"
    by (simp add: candidateStages_payee filter_indexed)
  with that facts(1-6) k show thesis by (simp add: filter_upt_single)
qed

lemma binding_authority:
  assumes "assertPersistedEvaluationBinding h p intent session pj e t = Inr ()"
    and "e_decision e \<in> set DECISIONS" and "e_decision e \<noteq> ''deny''"
  shows "\<exists>s k. within_authority p intent session pj s k (newDecision n pid e t)"
proof -
  from assms(1,3) obtain i where i: "e_acceptedIndex e = Some i"
    by (auto simp: assertPersistedEvaluationBinding_def Let_def split: option.splits if_splits prod.splits)
  obtain r s position c rest where b: "si_challenge_received_at intent = Some r"
      "0 \<le> date_ms t - date_ms r"
      "persistedPreselectionReason p pj intent session = (None, candidateStages p (Some s) (pj_accepts pj))"
      "find (\<lambda>s. s_origin s = si_seller_origin intent) (p_sellers p) = Some s"
      "a_payee (candidateStages p (Some s) (pj_accepts pj)) = (position, c) # rest"
      "int position = i" "c_amount c = e_amountCeilingAtomic e"
      "staticLimitsHold s (text_int (c_amount c)) (p_challengeMaxAgeMs p < date_ms t - date_ms r) e"
    by (rule binding_allow [OF assms(1) i])
  obtain k where k: "a_payee (candidateStages p (Some s) (pj_accepts pj)) = [(k, pj_accepts pj ! k)]"
      "k < length (pj_accepts pj)"
      "\<forall>j < length (pj_accepts pj). option_matches p s (pj_accepts pj ! j) = (j = k)"
      "pj_x402Version pj = 2" "si_wallet_address intent = p_wallet p"
      "ss_wallet_address session = p_wallet p" "si_method intent \<in> set (p_methods p)"
      "list_ex (\<lambda>prefix. starts_with (si_resource_path intent) prefix) (s_pathPrefixes s)"
      "pj_urlHash pj = si_request_url_hash intent"
    by (rule static_selected [OF b(3,4)])
  have c: "c = pj_accepts pj ! k" "i = int k" using b(5,6) k(1) by auto
  have "e_decision e = ''allow'' \<or> e_decision e = ''approval_required''"
    using assms(2,3) by (auto simp: DECISIONS_def)
  then have "within_authority p intent session pj s k (newDecision n pid e t)"
    using b k c i by (auto simp: within_authority_def staticLimitsHold_def Let_def)
  then show ?thesis by blast
qed

text \<open>A decision equal to another in all but its time is the other at its own time.\<close>

lemma sameDecision_True:
  assumes "sameDecision d (newDecision n pid e t) = Inr True"
  shows "d = newDecision n pid e (pd_decided_at d)"
proof -
  obtain kl kr where js: "decision_js d = JObj kl" "decision_js (newDecision n pid e t) = JObj kr"
    and wf: "js_wf (JObj kl)" "js_wf (JObj kr)"
    by (simp add: decision_js_def option_js_def option_string_def split: option.splits)
  from assms obtain x where "canonicalJson (JObj kl) = Inr x" "canonicalJson (JObj kr) = Inr x"
    by (auto simp: sameDecision_def js)
  then have eq: "js_normal (get_prop kl k) = js_normal (get_prop kr k)" for k
    using wf by (rule canonicalJson_entries)
  have "kl = entries_of (decision_js d)" "kr = entries_of (decision_js (newDecision n pid e t))"
    by (simp_all add: js entries_of_def)
  with eq [of "''intentId''"] eq [of "''policyVersionId''"] eq [of "''decision''"]
    eq [of "''reasonCode''"] eq [of "''challengeHash''"] eq [of "''acceptedIndex''"]
    eq [of "''quoteId''"] eq [of "''amountCeilingAtomic''"]
  show ?thesis
    by (cases d) (simp add: decision_js_def entries_of_def get_prop_def newDecision_def option_js_def
        option_string_def split: option.splits)
qed

lemma writeDecision_Inr:
  assumes "writeDecision h now p intent session pj e existing (newDecision n pid e t) db = Inr (db', d)"
    and "existing = select_one (\<lambda>d. pd_intent_id d = n) (db_decisions db)"
  obtains t' where "d = newDecision n pid e t'" and "d \<in> set (db_decisions db')"
    and "assertPersistedEvaluationBinding h p intent session pj e t' = Inr ()"
proof (cases existing)
  case None
  with assms(1) obtain x where b: "assertPersistedEvaluationBinding h p intent session pj e t = Inr ()"
      and a: "appendEvent h now (decisionEvent d) (db\<lparr>db_decisions := db_decisions db @ [d]\<rparr>) = Inr (db', x)"
      and d: "d = newDecision n pid e t"
    by (auto simp: writeDecision_def)
  have "js_wf (evt_data (decisionEvent d))"
    by (simp add: decisionEvent_def option_js_def option_string_def split: option.splits)
  with a have "d \<in> set (db_decisions db')" by (elim appendEvent_Inr) auto
  with that b d show thesis by blast
next
  case (Some x)
  with assms(1) have "sameDecision d (newDecision n pid e t) = Inr True" "x = d" "db' = db"
      "assertPersistedEvaluationBinding h p intent session pj e (pd_decided_at d) = Inr ()"
    by (auto simp: writeDecision_def split: if_splits)
  with that sameDecision_True [of d n pid e t] Some assms(2) select_one_Some [of _ _ x] show thesis
    by metis
qed

lemma replayedEvaluation_decision:
  "replayedEvaluation h existing v = Inr e \<Longrightarrow> e_decision e \<in> set DECISIONS"
  by (auto simp: replayedEvaluation_def validatePolicyEvaluation_def
      split: sum.splits if_splits jsval.splits)

lemma case_prod_InrE:
  assumes "(case x of (a, b) \<Rightarrow> f a b) = Inr y"
  obtains a b where "x = (a, b)" and "f a b = Inr y"
  using assms by (cases x) auto

lemma recordDecision_obtains:
  assumes "recordDecisionInTransaction h now value db = Inr (db', d)"
  obtains e t pv intent session pj where
      "d = newDecision (pd_intent_id d) (pd_policy_version_id d) e t"
    and "e_decision e \<in> set DECISIONS"
    and "storedPolicyById h db (pd_policy_version_id d) = Inr (Some pv)"
    and "decidedIntent db (pd_intent_id d) = Some (intent, session)"
    and "ss_policy_version_id session = pd_policy_version_id d" and "e_policyHash e = sp_hash pv"
    and "si_challenge_hash intent = Some (pd_challenge_hash d)"
    and "parsePersistedProjection (si_challenge_projection_json intent) = Inr pj"
    and "assertPersistedEvaluationBinding h (sp_policy pv) intent session pj e t = Inr ()"
    and "d \<in> set (db_decisions db')"
proof -
  from assms obtain n pid e v t pv intent session pj where
      w: "writeDecision h now (sp_policy pv) intent session pj e
        (select_one (\<lambda>d. pd_intent_id d = n) (db_decisions db)) (newDecision n pid e t) db = Inr (db', d)"
    and e: "replayedEvaluation h (select_one (\<lambda>d. pd_intent_id d = n) (db_decisions db)) v = Inr e"
    and facts: "storedPolicyById h db pid = Inr (Some pv)"
      "decidedIntent db n = Some (intent, session)" "ss_policy_version_id session = pid"
      "e_policyHash e = sp_hash pv" "si_challenge_hash intent = Some (e_challengeHash e)"
      "parsePersistedProjection (si_challenge_projection_json intent) = Inr pj"
    unfolding recordDecisionInTransaction_def Let_def
    by (elim handler_elims case_prod_InrE) (rule that, (assumption | (simp; fail))+)
  obtain t' where "d = newDecision n pid e t'" "d \<in> set (db_decisions db')"
    "assertPersistedEvaluationBinding h (sp_policy pv) intent session pj e t' = Inr ()"
    by (rule writeDecision_Inr [OF w refl])
  with that facts replayedEvaluation_decision [OF e] show thesis
    by (simp add: newDecision_def)
qed

section \<open>Blocking sessions\<close>

lemma blockSessions_open:
  "blockSessions ids sessions = Inr sessions' \<Longrightarrow>
   s \<in> set sessions' \<Longrightarrow> ss_state s = ''open'' \<Longrightarrow> s \<in> set sessions \<and> ss_id s \<notin> set ids"
proof (induction ids arbitrary: sessions)
  case (Cons i ids)
  from Cons.prems(1) obtain rows where
      u: "update_one ''POLICY_CORRUPTION'' (\<lambda>s. ss_id s = i \<and> ss_state s = ''open'')
        (\<lambda>s. s\<lparr>ss_state := ''policy_blocked''\<rparr>) sessions = Inr rows"
    and rest: "blockSessions ids rows = Inr sessions'"
    by auto
  from Cons.IH [OF rest Cons.prems(2,3)] have "s \<in> set rows" "ss_id s \<notin> set ids" by simp_all
  moreover from u obtain xs x ys where "sessions = xs @ x # ys"
      "rows = xs @ x\<lparr>ss_state := ''policy_blocked''\<rparr> # ys"
      "\<forall>y \<in> set (xs @ ys). \<not> (ss_id y = i \<and> ss_state y = ''open'')"
    by (rule update_one_Inr)
  ultimately show ?case using Cons.prems(3) by auto
qed simp

text \<open>A session is left as it is, or it was open and is blocked.\<close>

definition session_blocked :: "session_row \<Rightarrow> session_row \<Rightarrow> bool" where
  "session_blocked s s' \<longleftrightarrow>
     s' = s \<or> ss_state s = ''open'' \<and> s' = s\<lparr>ss_state := ''policy_blocked''\<rparr>"

lemma blockSessions_blocked:
  "blockSessions ids sessions = Inr sessions' \<Longrightarrow> list_all2 session_blocked sessions sessions'"
proof (induction ids arbitrary: sessions)
  case Nil
  then show ?case by (auto simp: session_blocked_def intro: list_all2_refl)
next
  case (Cons i ids)
  then obtain rows where
      u: "update_one ''POLICY_CORRUPTION'' (\<lambda>s. ss_id s = i \<and> ss_state s = ''open'')
        (\<lambda>s. s\<lparr>ss_state := ''policy_blocked''\<rparr>) sessions = Inr rows"
    and rest: "blockSessions ids rows = Inr sessions'"
    by auto
  from u have "list_all2 session_blocked sessions rows"
    by (rule update_one_Inr)
      (auto simp: session_blocked_def list_all2_append intro!: list_all2_appendI list_all2_refl)
  then show ?case using Cons.IH [OF rest]
    by (rule list_all2_trans [rotated]) (auto simp: session_blocked_def)
qed

lemma appendBlocked_frame:
  "appendBlocked h now p t ids db = Inr db' \<Longrightarrow> db' = db\<lparr>db_events := db_events db'\<rparr>"
proof (induction ids arbitrary: db)
  case (Cons i ids)
  then obtain db1 x where "appendEvent h now (blockedEvent p t i) db = Inr (db1, x)"
      "appendBlocked h now p t ids db1 = Inr db'"
    by auto
  with Cons.IH [of db1] show ?case
    by (elim appendEvent_Inr) (auto simp: blockedEvent_def option_string_def split: option.splits)
qed simp

section \<open>The policy versions\<close>

text \<open>
  The versions are numbered from one without a gap, each names its predecessor by hash, no policy
  occurs twice, and the last one is active.
\<close>

definition policy_chain :: "db \<Rightarrow> bool" where
  "policy_chain db \<longleftrightarrow>
     (let versions = db_policy_versions db in
      map pvr_id versions = map (\<lambda>k. ''policy-'' @ int_text (int k + 1)) [0..<length versions]
      \<and> map pvr_predecessor_hash versions
          = take (length versions) (None # map (Some \<circ> pvr_policy_hash) versions)
      \<and> distinct (map pvr_policy_hash versions)
      \<and> map_of (db_metadata db) ''active_policy_id''
          = (if versions = [] then None else Some (pvr_id (List.last versions))))"

lemma policy_chain_ids:
  assumes "policy_chain db"
  shows "distinct (map pvr_id (db_policy_versions db))"
proof -
  have "inj_on (\<lambda>k. ''policy-'' @ int_text (int k + 1)) A" for A
  proof (rule inj_onI)
    fix j k :: nat
    assume "''policy-'' @ int_text (int j + 1) = ''policy-'' @ int_text (int k + 1)"
    then have "text_int (int_text (int j + 1)) = text_int (int_text (int k + 1))" by simp
    then show "j = k" by simp
  qed
  moreover have "map pvr_id (db_policy_versions db)
      = map (\<lambda>k. ''policy-'' @ int_text (int k + 1)) [0..<length (db_policy_versions db)]"
    using assms by (simp only: policy_chain_def Let_def)
  ultimately show ?thesis by (simp only: distinct_map distinct_upt simp_thms)
qed

lemma rowToPolicyVersion_Inr:
  assumes "rowToPolicyVersion h row = Inr v"
  shows "sp_id v = pvr_id row" "sp_hash v = pvr_policy_hash row"
    "sp_canonicalJson v = pvr_canonical_json row"
    "canonicalJson (policy_js (sp_policy v)) = Inr (pvr_canonical_json row)"
    "pvr_policy_hash row = h_sha256 h (pvr_canonical_json row)"
  using assms
  by (auto simp: rowToPolicyVersion_def Let_def canonicalToken_Inr split: option.splits if_splits)

text \<open>The active version is the last one.\<close>

lemma loadActive_last:
  assumes "policy_chain db" and "loadActive h db = Inr current"
  shows "map_option sp_hash current
    = (if db_policy_versions db = [] then None else Some (pvr_policy_hash (List.last (db_policy_versions db))))"
proof (cases "db_policy_versions db = []")
  case True
  then have "map_of (db_metadata db) ''active_policy_id'' = None"
    using assms(1) by (simp add: policy_chain_def)
  with assms(2) True show ?thesis by (simp add: loadActive_def)
next
  case False
  let ?row = "List.last (db_policy_versions db)"
  from False have active: "map_of (db_metadata db) ''active_policy_id'' = Some (pvr_id ?row)"
    using assms(1) by (simp add: policy_chain_def Let_def)
  have "select_one (\<lambda>r. pvr_id r = pvr_id ?row) (db_policy_versions db) = Some ?row"
    by (rule select_one_unique) (use policy_chain_ids [OF assms(1)] False in
      \<open>auto simp: distinct_map dest: inj_onD\<close>)
  with assms(2) active obtain v where "rowToPolicyVersion h ?row = Inr v" "current = Some v"
    by (auto simp: loadActive_def storedPolicyById_def split: if_splits)
  with False rowToPolicyVersion_Inr(2) show ?thesis by simp
qed

section \<open>Activation\<close>

lemma setMetadata_same [simp]: "map_of (setMetadata key x kvs) key = Some x"
proof (cases "key \<in> fst ` set kvs")
  case True
  then show ?thesis by (induction kvs) (auto simp: setMetadata_def split: if_splits)
next
  case False
  then have "map_of kvs key = None" by (simp add: map_of_eq_None_iff)
  with False show ?thesis by (simp add: setMetadata_def map_add_def)
qed

lemma activateVersion_obtains:
  assumes "activateVersion h now current v db = Inr (db', r)"
  obtains sessions es where "db' = db\<lparr>db_policy_versions := db_policy_versions db @ [policyRow v],
        db_metadata := setMetadata ''active_policy_id'' (sp_id v) (db_metadata db),
        db_sessions := sessions, db_events := es\<rparr>"
    and "blockSessions (pa_blockedSessionIds r) (db_sessions db) = Inr sessions"
    and "pa_blockedSessionIds r = map ss_id (filter (\<lambda>s. ss_state s = ''open'') (liveSessions db))"
    and "\<not> pa_idempotent r"
proof -
  let ?db = "\<lambda>sessions. db\<lparr>db_policy_versions := db_policy_versions db @ [policyRow v],
        db_metadata := setMetadata ''active_policy_id'' (sp_id v) (db_metadata db),
        db_sessions := sessions\<rparr>"
  from assms obtain sessions db1 x where
      b: "blockSessions (map ss_id (filter (\<lambda>s. ss_state s = ''open'') (liveSessions db)))
        (db_sessions db) = Inr sessions"
    and a: "appendEvent h now (appliedEvent v (map ss_id (filter (\<lambda>s. ss_state s = ''open'') (liveSessions db))))
        (?db sessions) = Inr (db1, x)"
    and c: "appendBlocked h now (map_option sp_id current) (sp_id v)
        (map ss_id (filter (\<lambda>s. ss_state s = ''open'') (liveSessions db))) db1 = Inr db'"
    and r: "pa_blockedSessionIds r = map ss_id (filter (\<lambda>s. ss_state s = ''open'') (liveSessions db))"
      "\<not> pa_idempotent r"
    by (auto simp: activateVersion_def Let_def split: if_split_asm)
  have "js_wf (evt_data (appliedEvent v ids))" for ids
    by (simp add: appliedEvent_def option_string_def list_all_iff split: option.split)
  with a obtain es where db1: "db1 = (?db sessions)\<lparr>db_events := es\<rparr>"
    by (elim appendEvent_Inr) blast
  from appendBlocked_frame [OF c] have "db' = (?db sessions)\<lparr>db_events := db_events db'\<rparr>"
    unfolding db1 by simp
  with b r that show thesis by metis
qed

lemma applyInTransaction_obtains:
  assumes "applyInTransaction h now policy canonical hash at db = Inr (db', r)"
  obtains current where "loadActive h db = Inr current"
    and "\<forall>s \<in> set (liveSessions db). ss_wallet_address s = p_wallet policy"
    and "if pa_idempotent r then db' = db \<and> current \<noteq> None \<and> sp_hash (the current) = hash
         else hash \<notin> pvr_policy_hash ` set (db_policy_versions db)
           \<and> activateVersion h now current
               \<lparr>sp_id = ''policy-'' @ int_text (int (length (db_policy_versions db)) + 1),
                sp_schemaVersion = 1, sp_policy = policy, sp_canonicalJson = canonical,
                sp_hash = hash, sp_predecessorHash = map_option sp_hash current,
                sp_appliedAt = at\<rparr> db = Inr (db', r)"
proof -
  from assms obtain current where c: "loadActive h db = Inr current"
      "\<forall>s \<in> set (liveSessions db). ss_wallet_address s = p_wallet policy"
    by (auto simp: applyInTransaction_def list_ex_iff split: if_split_asm)
  show thesis
  proof (cases "\<exists>v. current = Some v \<and> sp_hash v = hash")
    case True
    with assms c have "r = \<lparr>pa_policyVersion = current, pa_blockedSessionIds = [], pa_idempotent = True\<rparr>"
        "db' = db"
      by (auto simp: applyInTransaction_def list_ex_iff Let_def)
    with True that [OF c] show thesis by auto
  next
    case False
    with assms c have a: "hash \<notin> pvr_policy_hash ` set (db_policy_versions db)"
        "activateVersion h now current
               \<lparr>sp_id = ''policy-'' @ int_text (int (length (db_policy_versions db)) + 1),
                sp_schemaVersion = 1, sp_policy = policy, sp_canonicalJson = canonical,
                sp_hash = hash, sp_predecessorHash = map_option sp_hash current,
                sp_appliedAt = at\<rparr> db = Inr (db', r)"
      by (auto simp: applyInTransaction_def list_ex_iff Let_def split: option.split_asm if_split_asm)
    from activateVersion_obtains [OF a(2)] have "\<not> pa_idempotent r" by blast
    with a that [OF c] show thesis by simp
  qed
qed

lemma applied_chain:
  assumes "policy_chain db" and "loadActive h db = Inr current"
    and "db_policy_versions db' = db_policy_versions db @ [row]"
    and "pvr_id row = ''policy-'' @ int_text (int (length (db_policy_versions db)) + 1)"
    and "pvr_predecessor_hash row = map_option sp_hash current"
    and "pvr_policy_hash row \<notin> pvr_policy_hash ` set (db_policy_versions db)"
    and "map_of (db_metadata db') ''active_policy_id'' = Some (pvr_id row)"
  shows "policy_chain db'"
proof -
  have "take (Suc (length vs)) (None # map (Some \<circ> pvr_policy_hash) (vs @ [row]))
      = take (length vs) (None # map (Some \<circ> pvr_policy_hash) vs)
        @ [if vs = [] then None else Some (pvr_policy_hash (List.last vs))]" for vs
    by (cases vs rule: rev_cases) simp_all
  then show ?thesis
    using assms loadActive_last [OF assms(1,2)] by (simp add: policy_chain_def Let_def)
qed

lemma all_sessions_stopped:
  assumes "blockSessions (map ss_id (filter (\<lambda>s. ss_state s = ''open'') (liveSessions db)))
      (db_sessions db) = Inr sessions"
  shows "\<forall>s \<in> set sessions. ss_state s \<noteq> ''open''"
proof
  fix s assume s: "s \<in> set sessions"
  show "ss_state s \<noteq> ''open''"
    using blockSessions_open [OF assms s] by (auto simp: liveSessions_def)
qed

text \<open>What a policy that was not the active one changes.\<close>

definition policy_activated :: "policy \<Rightarrow> string \<Rightarrow> string \<Rightarrow> db \<Rightarrow> db \<Rightarrow> bool" where
  "policy_activated policy canonical hash db db' \<longleftrightarrow>
     (\<exists>row. db_policy_versions db' = db_policy_versions db @ [row]
        \<and> pvr_canonical_json row = canonical \<and> pvr_policy_hash row = hash)
     \<and> (\<forall>s \<in> set (liveSessions db). ss_wallet_address s = p_wallet policy)
     \<and> (\<forall>s \<in> set (db_sessions db'). ss_state s \<noteq> ''open'')
     \<and> list_all2 session_blocked (db_sessions db) (db_sessions db')"

lemma applyInTransaction_effect:
  assumes "policy_chain db"
    and "applyInTransaction h now policy canonical hash at db = Inr (db', r)"
  shows "policy_chain db'
    \<and> (if pa_idempotent r then db' = db else policy_activated policy canonical hash db db')"
  using assms(2)
proof (cases rule: applyInTransaction_obtains)
  case (1 current)
  show ?thesis
  proof (cases "pa_idempotent r")
    case True
    with 1 assms(1) show ?thesis by simp
  next
    case False
    with 1(3) obtain v where v: "activateVersion h now current v db = Inr (db', r)"
        "sp_id v = ''policy-'' @ int_text (int (length (db_policy_versions db)) + 1)"
        "sp_canonicalJson v = canonical" "sp_hash v = hash"
        "sp_predecessorHash v = map_option sp_hash current"
      and fresh: "hash \<notin> pvr_policy_hash ` set (db_policy_versions db)"
      by auto
    from v(1) obtain sessions es where w: "db' = db\<lparr>db_policy_versions := db_policy_versions db @ [policyRow v],
        db_metadata := setMetadata ''active_policy_id'' (sp_id v) (db_metadata db),
        db_sessions := sessions, db_events := es\<rparr>"
      and b: "blockSessions (pa_blockedSessionIds r) (db_sessions db) = Inr sessions"
        "pa_blockedSessionIds r = map ss_id (filter (\<lambda>s. ss_state s = ''open'') (liveSessions db))"
      by (rule activateVersion_obtains)
    have "policy_chain db'"
      by (rule applied_chain [OF assms(1) 1(1), of _ "policyRow v"])
        (use w v fresh in \<open>simp_all add: policyRow_def\<close>)
    with False 1(2) w v all_sessions_stopped [OF b(1) [unfolded b(2)]] blockSessions_blocked [OF b(1)]
    show ?thesis by (simp add: policy_activated_def policyRow_def)
  qed
qed

end
