(* ===== verification/PolicyRepositoryProperties.thy ===== *)
theory PolicyRepositoryProperties
  imports PolicyRepositoryFacts ApprovalDemo
begin

text \<open>
  The properties of the policy repository: the engine's decision passes the check of the repository
  and is written as it is, an accepted decision is within the policy of its session, and a new
  policy stops every open session.
\<close>

section \<open>A concrete repository\<close>

text \<open>The rows of the policy witnesses' input, received at 5 ms and decided at 7 ms.\<close>

definition early :: "string \<Rightarrow> string" where
  "early digit = ''1970-01-01T00:00:00.00'' @ digit @ ''Z''"

lemma early_times:
  "canonical_time (early ''5'')" "date_ms (early ''5'') = 5"
  "canonical_time (early ''7'')" "date_ms (early ''7'') = 7"
  by code_simp+

definition record_intent :: intent_row where
  "record_intent = (demo_intent_row ''challenged'')\<lparr>si_challenge_received_at := Some (early ''5'')\<rparr>"

definition record_db :: db where
  "record_db = (demo_ledger ''challenged'' [] [] [])\<lparr>db_intents := [record_intent], db_decisions := []\<rparr>"

definition demo_stored_policy :: stored_policy where
  "demo_stored_policy = \<lparr>sp_id = ''v1'', sp_schemaVersion = 1, sp_policy = demo_policy,
     sp_canonicalJson = stored (policy_js demo_policy), sp_hash = demo_hash,
     sp_predecessorHash = None, sp_appliedAt = t0\<rparr>"

lemma demo_version_stored:
  assumes "canonicalToken (JStr i) = Inr i"
  shows "rowToPolicyVersion demo_host (demo_version_row\<lparr>pvr_id := i\<rparr>)
    = Inr (demo_stored_policy\<lparr>sp_id := i\<rparr>)"
proof -
  have can: "js_canonical (policy_js demo_policy)"
    by (rule js_canonical_policy [OF demo_policy_ok])
  have wf: "js_wf (policy_js demo_policy)" by (simp add: policy_js_def seller_js_def list_all_iff)
  have "list_all (\<lambda>s. utf8_length (s_origin s) \<le> 2048) (p_sellers demo_policy)" by code_simp
  from policy_origins_ok [OF demo_url_stable demo_policy_valid this]
  have "validatePolicyDocument demo_host (js_normal (policy_js demo_policy)) = Inr demo_policy"
    by (rule policy_stored [OF demo_policy_ok])
  then show ?thesis
    by (simp add: rowToPolicyVersion_def demo_version_row_def assms demo_scalars demo_timestamps
        json_parse_canonicalJson [OF wf stored_text [OF can]] stored_text [OF can]
        demo_stored_policy_def)
qed

lemma record_rows:
  "persisted_as demo_host (demo_input ''10'') record_intent demo_session (early ''7'')"
  "storedPolicyById demo_host record_db ''v1'' = Inr (Some demo_stored_policy)"
  "decidedIntent record_db ''i1'' = Some (record_intent, demo_session)"
  "si_challenge_projection_json record_intent = Some (stored (projection_js demo_projection))"
  "canonicalJson (projection_js (challengeProjection demo_host (in_paymentRequired (demo_input ''10''))))
     = Inr (stored (projection_js demo_projection))"
  "pr_url (in_paymentRequired (demo_input ''10'')) = i_requestUrl (in_intent (demo_input ''10''))"
  "sp_policy demo_stored_policy = in_policy (demo_input ''10'')"
  "sp_hash demo_stored_policy = demo_hash" "pv_hash (in_policyVersion (demo_input ''10'')) = demo_hash"
  "ss_policy_version_id demo_session = ''v1''" "db_decisions record_db = []"
  "si_challenge_hash record_intent = Some demo_hash" "db_events record_db = []"
proof -
  obtain ch where "challengeHashOf demo_host (in_paymentRequired (demo_input ''10'')) = Inr ch"
    using challengeHashOf_total [OF validateSpendInput_Inr(1) [OF demo_input_valid(1)]] by blast
  then show "canonicalJson (projection_js (challengeProjection demo_host
        (in_paymentRequired (demo_input ''10'')))) = Inr (stored (projection_js demo_projection))"
    by (auto simp: challengeHashOf_def demo_projection_def demo_input_def stored_def)
  show "storedPolicyById demo_host record_db ''v1'' = Inr (Some demo_stored_policy)"
    using demo_version_stored [of "''v1''"] demo_scalars
    by (simp add: storedPolicyById_def record_db_def demo_version_row_def demo_stored_policy_def)
qed (simp_all add: decidedIntent_def persisted_as_def record_db_def record_intent_def demo_intent_row_def
    demo_input_def demo_intent_def demo_session_def demo_wallet_def early_times demo_payment_def
    demo_stored_policy_def)

lemma demo_decides:
  "\<exists>e. evaluateSpendPolicy demo_host (demo_spend ''10'') = Inr e \<and> e_decision e = ''allow''
     \<and> e_challengeHash e = demo_hash \<and> e_policyHash e = demo_hash"
proof -
  obtain e where e: "evaluateSpendPolicy demo_host (demo_spend ''10'') = Inr e"
    "e_decision e = ''allow''" "e_acceptedIndex e = Some (int 0)"
    using evaluate_outcome_iff [OF demo_input_valid(1), of "''allow''"
        "\<lambda>p s c b. text_int (c_amount c) \<le> text_int (s_autoApproveAtomic s)" 0]
      demo_input_admissible(1) selected_outcome_allow
    by (force simp: demo_input_def demo_payment_def demo_candidate_def demo_seller_def)
  have hash: "policyHashOf demo_host (in_policy (demo_input ''10''))
      = Inr (pv_hash (in_policyVersion (demo_input ''10'')))"
    by (simp add: demo_input_def demo_policy_hash)
  obtain ch where ch: "challengeHashOf demo_host (in_paymentRequired (demo_input ''10'')) = Inr ch"
    and "decideValidated demo_host (in_policy (demo_input ''10''))
        (pv_hash (in_policyVersion (demo_input ''10''))) ch
        (in_intent (demo_input ''10'')) (in_wallet (demo_input ''10''))
        (in_paymentRequired (demo_input ''10'')) (in_budget (demo_input ''10''))
        (in_receivedAt (demo_input ''10'')) (in_now (demo_input ''10'')) = Inr e"
    using evaluate_validated [OF demo_input_valid(1) hash] e(1) by metis
  from decideValidated_ok [OF validateSpendInput_Inr(1) [OF demo_input_valid(1)] this(2)] ch e
  show ?thesis by (auto simp: challengeHashOf_def record_rows)
qed

lemma demo_records:
  "\<exists>e db' d. recordDecisionInTransaction demo_host t0 (decision_input ''i1'' ''v1'' e (early ''7'')) record_db
     = Inr (db', d) \<and> pd_decision d = ''allow''"
proof -
  obtain e where e: "evaluateSpendPolicy demo_host (demo_spend ''10'') = Inr e"
      "e_decision e = ''allow''" "e_challengeHash e = demo_hash" "e_policyHash e = demo_hash"
    using demo_decides by blast
  have "parsePersistedProjection (Some (stored (projection_js demo_projection)))
      = Inr (challengeProjection demo_host (in_paymentRequired (demo_input ''10'')))"
    using validateSpendInput_Inr(1) [OF demo_input_valid(1)] demo_sha_ok record_rows(5)
    by (rule stored_projection_parses)
  moreover have "assertPersistedEvaluationBinding demo_host (sp_policy demo_stored_policy) record_intent
      demo_session (challengeProjection demo_host (in_paymentRequired (demo_input ''10''))) e (early ''7'')
      = Inr ()"
    unfolding record_rows(7)
    by (rule engine_binding(1) [OF demo_input_valid(1) e(1) record_rows(1) _ record_rows(6)])
      (simp add: record_rows e(3))
  ultimately have run: "recordDecisionInTransaction demo_host t0
      (decision_input ''i1'' ''v1'' e (early ''7'')) record_db
    = andthen (appendEvent demo_host t0 (decisionEvent (newDecision ''i1'' ''v1'' e (early ''7'')))
        (record_db\<lparr>db_decisions := db_decisions record_db @ [newDecision ''i1'' ''v1'' e (early ''7'')]\<rparr>))
      (\<lambda>(db', _). Inr (db', newDecision ''i1'' ''v1'' e (early ''7'')))"
    using evaluateSpendPolicy_ok(1) [OF e(1)] e
    by (intro recordDecision_new [OF _ _ _ _ _ _ _ record_rows(2) _ record_rows(3)])
      (simp_all add: demo_scalars early_times record_rows)
  let ?d = "newDecision ''i1'' ''v1'' e (early ''7'')"
  have "js_canonical (evt_data (decisionEvent ?d))"
    using evaluateSpendPolicy_ok(1) [OF e(1)]
    by (auto simp: decisionEvent_def evaluation_ok_def option_js_def option_string_def newDecision_def
        split: option.splits)
  moreover have "canonicalToken (JStr ''spend_intent'') = Inr ''spend_intent''"
    "canonicalToken (JStr ''policy.decision_recorded'') = Inr ''policy.decision_recorded''"
    by code_simp+
  ultimately obtain db' x where "appendEvent demo_host t0 (decisionEvent ?d)
      (record_db\<lparr>db_decisions := db_decisions record_db @ [?d]\<rparr>) = Inr (db', x)"
    using appendEvent_first [of "entries_of (evt_data (decisionEvent ?d))" "''spend_intent''" "''i1''"
        "''policy.decision_recorded''" t0 "record_db\<lparr>db_decisions := db_decisions record_db @ [?d]\<rparr>"
        demo_host] demo_scalars demo_times(1) record_rows(13)
    by (auto simp: decisionEvent_def entries_of_def)
  with run e(2) have "recordDecisionInTransaction demo_host t0
      (decision_input ''i1'' ''v1'' e (early ''7'')) record_db = Inr (db', ?d)
      \<and> pd_decision ?d = ''allow''"
    by simp
  then show ?thesis by blast
qed

section \<open>Recording what the engine decided\<close>

text \<open>C17: the repository accepts every decision of the engine: when the stored policy version, intent
  and session hold what \<^const>\<open>evaluateSpendPolicy\<close> was given, the re-derivation of the decision from
  the persisted bytes agrees with the engine on every branch, denials included, and recording it
  writes exactly that decision and its event. No two different URLs may share a hash.\<close>

theorem engine_decision_recorded:
  assumes "sha_ok h" and "validateSpendInput h v = Inr inp" and "evaluateSpendPolicy h v = Inr e"
    and "persisted_as h inp intent session t"
    and "canonicalToken (JStr n) = Inr n" and "canonicalToken (JStr pid) = Inr pid"
    and "canonical_time t"
    and "\<forall>d \<in> set (db_decisions db). pd_intent_id d \<noteq> n"
    and "storedPolicyById h db pid = Inr (Some pv)" and "sp_policy pv = in_policy inp"
    and "sp_hash pv = pv_hash (in_policyVersion inp)"
    and "decidedIntent db n = Some (intent, session)" and "ss_policy_version_id session = pid"
    and "si_challenge_hash intent = Some (e_challengeHash e)"
    and "si_challenge_projection_json intent = Some bytes"
    and "canonicalJson (projection_js (challengeProjection h (in_paymentRequired inp))) = Inr bytes"
    and "h_sha256 h (pr_url (in_paymentRequired inp)) = h_sha256 h (i_requestUrl (in_intent inp))
      \<Longrightarrow> pr_url (in_paymentRequired inp) = i_requestUrl (in_intent inp)"
  shows "recordDecisionInTransaction h now (decision_input n pid e t) db =
    andthen (appendEvent h now (decisionEvent (newDecision n pid e t))
               (db\<lparr>db_decisions := db_decisions db @ [newDecision n pid e t]\<rparr>))
      (\<lambda>(db', _). Inr (db', newDecision n pid e t))"
proof -
  note ok = evaluateSpendPolicy_ok(1) [OF assms(3)] evaluateSpendPolicy_ok(2) [OF assms(3,1)]
  note engine = engine_binding [OF assms(2-4,14,17)]
  have "parsePersistedProjection (Some bytes)
      = Inr (challengeProjection h (in_paymentRequired inp))"
    using validateSpendInput_Inr(1) [OF assms(2)] assms(1,16) by (rule stored_projection_parses)
  then show ?thesis
    using ok engine assms(10,11,15)
    by (intro recordDecision_new [OF _ _ _ assms(5-9) _ assms(12-14)]) simp_all
qed

theorem engine_decision_recorded_witness:
  "\<exists>e. evaluateSpendPolicy demo_host (demo_spend ''10'') = Inr e
     \<and> recordDecisionInTransaction demo_host t0 (decision_input ''i1'' ''v1'' e (early ''7'')) record_db
       = andthen (appendEvent demo_host t0 (decisionEvent (newDecision ''i1'' ''v1'' e (early ''7'')))
           (record_db\<lparr>db_decisions := [newDecision ''i1'' ''v1'' e (early ''7'')]\<rparr>))
         (\<lambda>(db', _). Inr (db', newDecision ''i1'' ''v1'' e (early ''7'')))"
proof -
  obtain e where e: "evaluateSpendPolicy demo_host (demo_spend ''10'') = Inr e"
      "e_challengeHash e = demo_hash"
    using demo_decides by blast
  have "recordDecisionInTransaction demo_host t0
      (decision_input ''i1'' ''v1'' e (early ''7'')) record_db
    = andthen (appendEvent demo_host t0 (decisionEvent (newDecision ''i1'' ''v1'' e (early ''7'')))
        (record_db\<lparr>db_decisions := db_decisions record_db @ [newDecision ''i1'' ''v1'' e (early ''7'')]\<rparr>))
      (\<lambda>(db', _). Inr (db', newDecision ''i1'' ''v1'' e (early ''7'')))"
    by (rule engine_decision_recorded [OF demo_sha_ok demo_input_valid(1) e(1) record_rows(1) _ _ _ _
          record_rows(2) _ _ record_rows(3) _ _ record_rows(4) record_rows(5) record_rows(6)])
      (simp_all add: demo_scalars early_times record_rows e(2))
  then show ?thesis using e by (auto simp: record_rows)
qed

section \<open>What a recorded decision means\<close>

text \<open>C18: a decision that is not a denial is only ever recorded, first or again, for an intent
  whose session is under that policy version, over the challenge the intent stores, for the only
  payment option the policy admits and its exact amount, in time, and with the amount within the
  automatic limit for \<^verbatim>\<open>allow\<close> or above it and within both human limits for
  \<^verbatim>\<open>approval_required\<close>, whatever evaluation the caller passed.\<close>

theorem recorded_decision_within_authority:
  assumes "recordDecisionInTransaction h now value db = Inr (db', d)" and "pd_decision d \<noteq> ''deny''"
  shows "d \<in> set (db_decisions db') \<and>
    (\<exists>pv intent session pj s k.
       storedPolicyById h db (pd_policy_version_id d) = Inr (Some pv)
     \<and> decidedIntent db (pd_intent_id d) = Some (intent, session)
     \<and> ss_policy_version_id session = pd_policy_version_id d
     \<and> si_challenge_hash intent = Some (pd_challenge_hash d)
     \<and> parsePersistedProjection (si_challenge_projection_json intent) = Inr pj
     \<and> within_authority (sp_policy pv) intent session pj s k d)"
proof -
  obtain e t pv intent session pj where
      d: "d = newDecision (pd_intent_id d) (pd_policy_version_id d) e t"
    and e: "e_decision e \<in> set DECISIONS"
    and facts: "storedPolicyById h db (pd_policy_version_id d) = Inr (Some pv)"
      "decidedIntent db (pd_intent_id d) = Some (intent, session)"
      "ss_policy_version_id session = pd_policy_version_id d" "e_policyHash e = sp_hash pv"
      "si_challenge_hash intent = Some (pd_challenge_hash d)"
      "parsePersistedProjection (si_challenge_projection_json intent) = Inr pj"
    and bound: "assertPersistedEvaluationBinding h (sp_policy pv) intent session pj e t = Inr ()"
    and stored: "d \<in> set (db_decisions db')"
    by (rule recordDecision_obtains [OF assms(1)])
  have "e_decision e \<noteq> ''deny''" using assms(2) d newDecision_sel(3) by metis
  from binding_authority [OF bound e this] d
  obtain s k where "within_authority (sp_policy pv) intent session pj s k d" by metis
  with facts stored show ?thesis by blast
qed

theorem recorded_decision_within_authority_witness:
  "\<exists>e db' d p intent session pj s k.
     recordDecisionInTransaction demo_host t0 (decision_input ''i1'' ''v1'' e (early ''7'')) record_db
       = Inr (db', d)
     \<and> pd_decision d = ''allow'' \<and> within_authority p intent session pj s k d"
proof -
  obtain e db' d where run: "recordDecisionInTransaction demo_host t0
      (decision_input ''i1'' ''v1'' e (early ''7'')) record_db = Inr (db', d)" "pd_decision d = ''allow''"
    using demo_records by blast
  from run(2) have "pd_decision d \<noteq> ''deny''" by simp
  from recorded_decision_within_authority [OF run(1) this] obtain p intent session pj s k
    where "within_authority p intent session pj s k d" by blast
  with run show ?thesis by (intro exI conjI)
qed

section \<open>Activating a policy\<close>

text \<open>C19: applying a policy keeps the history of versions intact: numbered without a gap, each naming
  its predecessor by hash, no policy twice, the last one active. It changes nothing when it fails or
  when the policy is the active one already; otherwise the new version is active, every live
  session has the policy's wallet, and no session stays open: each open session is blocked and no
  other session changes.\<close>

theorem policy_switch:
  assumes "policy_chain db"
  shows "case applyPolicy h now document at db of (db', result) \<Rightarrow>
    policy_chain db' \<and>
    (case result of
       Inl _ \<Rightarrow> db' = db
     | Inr r \<Rightarrow>
         if pa_idempotent r then db' = db
         else (\<exists>policy canonical.
           validatePolicyDocument h document = Inr policy
           \<and> canonicalJson (policy_js policy) = Inr canonical
           \<and> policy_activated policy canonical (h_sha256 h canonical) db db'))"
proof (cases "snd (applyPolicy h now document at db)")
  case (Inl x)
  then have "applyPolicy h now document at db = (db, Inl x)"
    by (auto simp: applyPolicy_def transaction_def split: sum.splits prod.splits)
  with assms show ?thesis by simp
next
  case (Inr r)
  obtain db' where run: "applyPolicy h now document at db = (db', Inr r)"
    using Inr by (metis surjective_pairing)
  then obtain policy canonical time where "validatePolicyDocument h document = Inr policy"
      "canonicalJson (policy_js policy) = Inr canonical"
      "applyInTransaction h now policy canonical (h_sha256 h canonical) time db = Inr (db', r)"
    by (auto simp: applyPolicy_def transaction_Inr split: sum.split_asm prod.split_asm)
  with applyInTransaction_effect [OF assms this(3)] run show ?thesis by auto
qed

text \<open>The first policy, applied while a session waits in \<^verbatim>\<open>policy_blocked\<close>.\<close>

definition fresh_db :: db where
  "fresh_db = (demo_ledger ''challenged'' [] [] [])\<lparr>db_metadata := [], db_policy_versions := [],
     db_sessions := [demo_session\<lparr>ss_state := ''policy_blocked''\<rparr>]\<rparr>"

definition first_version :: stored_policy where
  "first_version = demo_stored_policy\<lparr>sp_id := ''policy-1''\<rparr>"

lemma first_policy_applies:
  "\<exists>db' r. applyPolicy demo_host t0 (policy_js demo_policy) (JStr t0) fresh_db = (db', Inr r)
     \<and> \<not> pa_idempotent r"
proof -
  have can: "canonicalJson (policy_js demo_policy) = Inr (stored (policy_js demo_policy))"
    by (rule stored_text [OF js_canonical_policy [OF demo_policy_ok]])
  have token: "canonicalToken (JStr ''policy-1'') = Inr ''policy-1''"
    "canonicalToken (JStr ''policy'') = Inr ''policy''"
    "canonicalToken (JStr ''policy.applied'') = Inr ''policy.applied''"
    "''policy-'' @ int_text 1 = ''policy-1''"
    by code_simp+
  have row: "policyRow first_version = demo_version_row\<lparr>pvr_id := ''policy-1''\<rparr>"
    by (simp add: policyRow_def first_version_def demo_stored_policy_def demo_version_row_def)
  let ?db = "fresh_db\<lparr>db_policy_versions := [policyRow first_version],
    db_metadata := [(''active_policy_id'', ''policy-1'')], db_sessions := db_sessions fresh_db\<rparr>"
  have fresh: "db_policy_versions fresh_db = []" "db_metadata fresh_db = []" "db_events fresh_db = []"
    "map ss_id (filter (\<lambda>s. ss_state s = ''open'') (liveSessions fresh_db)) = []"
    "list_ex (\<lambda>s. ss_wallet_address s \<noteq> p_wallet demo_policy) (liveSessions fresh_db) = False"
    by (simp_all add: fresh_db_def liveSessions_def demo_session_def demo_policy_def)
  obtain db' x where ev: "appendEvent demo_host t0 (appliedEvent first_version []) ?db = Inr (db', x)"
    using appendEvent_first [of "entries_of (evt_data (appliedEvent first_version []))" "''policy''"
        "''policy-1''" "''policy.applied''" t0 ?db demo_host] token demo_times(1)
    by (auto simp: appliedEvent_def entries_of_def first_version_def demo_stored_policy_def
        option_string_def fresh)
  then have "db_policy_versions db' = [policyRow first_version]"
    by (elim appendEvent_Inr) (auto simp: appliedEvent_def option_string_def list_all_iff split: option.splits)
  then have loaded: "storedPolicyById demo_host db' ''policy-1'' = Inr (Some first_version)"
    using demo_version_stored [OF token(1)]
    by (simp add: storedPolicyById_def row) (simp add: first_version_def)
  have act: "activateVersion demo_host t0 None first_version fresh_db
      = Inr (db', \<lparr>pa_policyVersion = Some first_version, pa_blockedSessionIds = [], pa_idempotent = False\<rparr>)"
    using ev loaded
    by (simp add: activateVersion_def fresh setMetadata_def) (simp add: first_version_def)
  have "applyInTransaction demo_host t0 demo_policy (stored (policy_js demo_policy)) demo_hash t0 fresh_db
      = activateVersion demo_host t0 None first_version fresh_db"
    using token(4)
    by (simp add: applyInTransaction_def loadActive_def fresh first_version_def demo_stored_policy_def
        MAX_SAFE_INTEGER_def)
  then show ?thesis
    by (simp add: applyPolicy_def demo_policy_valid can demo_timestamps transaction_def act)
qed

theorem policy_switch_witness:
  "\<exists>db' r. applyPolicy demo_host t0 (policy_js demo_policy) (JStr t0) fresh_db = (db', Inr r)
     \<and> \<not> pa_idempotent r \<and> policy_chain db' \<and> length (db_policy_versions db') = 1"
proof -
  obtain db' r where run: "applyPolicy demo_host t0 (policy_js demo_policy) (JStr t0) fresh_db = (db', Inr r)"
      "\<not> pa_idempotent r"
    using first_policy_applies by blast
  have "policy_chain fresh_db" by (simp add: policy_chain_def fresh_db_def)
  from policy_switch [OF this, of demo_host "policy_js demo_policy" t0 "JStr t0"] run
  show ?thesis by (auto simp: policy_activated_def fresh_db_def)
qed

end
