(* ===== verification/IntentRequest.thy ===== *)
theory IntentRequest
  imports ApprovalAuthority
begin

text \<open>
  The first part of \<^verbatim>\<open>src/spikes/pi-wielder/src/kernel/intent-builder.mjs\<close>: an agent's request and its
  fingerprint. A request is admitted with an allowlist of headers, an exact queryless URL and bounded
  inert bytes, and is then known by the hashes of its normalised parts.

  The body is a separate argument, the list of its bytes, or \<^const>\<open>None\<close> when the value is not a
  plain \<^verbatim>\<open>Uint8Array\<close> or \<^verbatim>\<open>Buffer\<close> over unshared memory; in the request object its place holds an
  opaque value.
\<close>

section \<open>Closed records\<close>

text \<open>\<^verbatim>\<open>closedRecord\<close> checks the keys only: a nested value is copied by reference.\<close>

definition closedRecord ::
  "jsval \<Rightarrow> string list \<Rightarrow> string list \<Rightarrow> string \<Rightarrow> (string \<times> jsval) list res" where
  "closedRecord value required optional code =
     (case value of
        JObj kvs \<Rightarrow>
          if list_ex (\<lambda>k. \<not> has_own kvs k) required
             \<or> list_ex (\<lambda>kv. \<not> (fst kv \<in> set (required @ optional))) kvs
          then fail code else Inr kvs
      | _ \<Rightarrow> fail code)"

definition intentAddress :: "jsval \<Rightarrow> string \<Rightarrow> string res" where
  "intentAddress v code =
     (case v of
        JStr s \<Rightarrow> if \<not> canonical_address_pattern s then fail code else Inr s
      | _ \<Rightarrow> fail code)"

definition persistedTimestamp :: "jsval \<Rightarrow> string \<Rightarrow> string res" where
  "persistedTimestamp v code = rethrow_as code (canonicalTimestamp v)"

definition timestampIsBefore :: "string \<Rightarrow> string \<Rightarrow> bool" where
  "timestampIsBefore left right \<longleftrightarrow> date_ms left < date_ms right"

section \<open>Instance identifiers\<close>

text \<open>\<^verbatim>\<open>base64url\<close> without padding, as \<^verbatim>\<open>Buffer\<close> reads and writes it: sextets and bytes.\<close>

definition b64_value :: "char \<Rightarrow> nat" where
  "b64_value c =
     (if is_upper c then code_of c - 65
      else if is_lower c then code_of c - 71
      else if is_digit c then code_of c + 4
      else if c = CHR ''-'' then 62 else 63)"

definition b64_char :: "nat \<Rightarrow> char" where
  "b64_char n =
     (if n < 26 then char_of (n + 65)
      else if n < 52 then char_of (n + 71)
      else if n < 62 then char_of (n - 4)
      else if n = 62 then CHR ''-'' else CHR ''_'')"

fun b64_decode :: "nat list \<Rightarrow> nat list" where
  "b64_decode (a # b # c # d # rest) =
     (a * 4 + b div 16) # (b mod 16 * 16 + c div 4) # (c mod 4 * 64 + d) # b64_decode rest"
| "b64_decode [a, b, c] = [a * 4 + b div 16, b mod 16 * 16 + c div 4]"
| "b64_decode [a, b] = [a * 4 + b div 16]"
| "b64_decode _ = []"

fun b64_encode :: "nat list \<Rightarrow> nat list" where
  "b64_encode (x # y # z # rest) =
     (x div 4) # (x mod 4 * 16 + y div 16) # (y mod 16 * 4 + z div 64) # (z mod 64) # b64_encode rest"
| "b64_encode [x, y] = [x div 4, x mod 4 * 16 + y div 16, y mod 16 * 4]"
| "b64_encode [x] = [x div 4, x mod 4 * 16]"
| "b64_encode [] = []"

definition b64url_char :: "char \<Rightarrow> bool" where
  [string_preds]: "b64url_char c \<longleftrightarrow> is_alnum c \<or> c = CHR ''-'' \<or> c = CHR ''_''"

fun instance_id_pattern :: "string \<Rightarrow> bool" where
  "instance_id_pattern [] = False"
| "instance_id_pattern (c # cs) = (is_alnum c \<and> length cs = 21 \<and> list_all b64url_char cs)"

definition canonicalInstanceId :: "jsval \<Rightarrow> string res" where
  "canonicalInstanceId v =
     (case v of
        JStr s \<Rightarrow>
          if \<not> instance_id_pattern s then fail ''AGENT_INSTANCE_ID''
          else
            let decoded = b64_decode (map b64_value s) in
            if length decoded \<noteq> 16 \<or> map b64_char (b64_encode decoded) \<noteq> s
            then fail ''AGENT_INSTANCE_ID'' else Inr s
      | _ \<Rightarrow> fail ''AGENT_INSTANCE_ID'')"

section \<open>URL and method\<close>

record request_url =
  iu_href :: string
  iu_origin :: string
  iu_pathname :: string

definition intentRequestUrl :: "host \<Rightarrow> bool \<Rightarrow> jsval \<Rightarrow> request_url res" where
  "intentRequestUrl h allowLoopbackHttp v =
     (case v of
        JStr value \<Rightarrow>
          if value = [] \<or> 4096 < utf8_length value then fail ''REQUEST_URL''
          else
            (case h_url h value None of
               None \<Rightarrow> fail ''REQUEST_URL''
             | Some parsed \<Rightarrow>
                 let allowedProtocol =
                   u_protocol parsed = ''https:''
                   \<or> (allowLoopbackHttp \<and> isCanonicalLiteralLoopbackHttp value parsed) in
                 if \<not> allowedProtocol \<or> u_username parsed \<noteq> [] \<or> u_password parsed \<noteq> []
                    \<or> contains value ''?'' \<or> contains value ''#'' \<or> u_search parsed \<noteq> []
                    \<or> u_hash parsed \<noteq> [] \<or> u_href parsed \<noteq> value
                    \<or> starts_with (u_pathname parsed) ''//'' \<or> contains (u_pathname parsed) [bs]
                    \<or> encoded_path_separator (u_pathname parsed)
                 then fail ''REQUEST_URL''
                 else Inr \<lparr>iu_href = value, iu_origin = u_origin parsed,
                           iu_pathname = u_pathname parsed\<rparr>)
      | _ \<Rightarrow> fail ''REQUEST_URL'')"

text \<open>
  \<^verbatim>\<open>toUpperCase\<close>: sharp s becomes two letters; the other letters above 127 become letters the
  pattern refuses as well.
\<close>

definition upper_char :: "char \<Rightarrow> string" where
  "upper_char c =
     (if is_lower c then [char_of (code_of c - 32)] else if code_of c = 223 then ''SS'' else [c])"

definition to_upper :: "string \<Rightarrow> string" where
  "to_upper s = concat (map upper_char s)"

definition canonicalMethod :: "jsval \<Rightarrow> string res" where
  "canonicalMethod v =
     (case v of
        JStr s \<Rightarrow>
          if s = [] \<or> 32 < length s then fail ''REQUEST_METHOD''
          else if \<not> method_pattern (to_upper s) then fail ''REQUEST_METHOD''
          else Inr (to_upper s)
      | _ \<Rightarrow> fail ''REQUEST_METHOD'')"

section \<open>Headers\<close>

definition FORBIDDEN_AGENT_HEADERS :: "string list" where
  "FORBIDDEN_AGENT_HEADERS =
     [''payment-required'', ''payment-signature'', ''payment-response'', ''x-payment'',
      ''x-payment-required'', ''x-payment-response'', ''idempotency-key'', ''x-approval-id'',
      ''x-spend-session'']"

definition ALLOWED_HEADERS :: "string list" where
  "ALLOWED_HEADERS = [''accept'', ''content-type'', ''user-agent'']"

definition header_name_char :: "char \<Rightarrow> bool" where
  [string_preds]: "header_name_char c \<longleftrightarrow>
     is_alnum c \<or> c \<in> set ''!#$%&*+-.^_`|~'' \<or> code_of c = 39"

text \<open>\<^verbatim>\<open>/[\x00-\x08\x0a-\x1f\x7f]/\<close>: a tab is let through.\<close>

definition control_char :: "char \<Rightarrow> bool" where
  "control_char c \<longleftrightarrow> code_of c < 9 \<or> (10 \<le> code_of c \<and> code_of c < 32) \<or> code_of c = 127"

definition header_space :: "char \<Rightarrow> bool" where
  "header_space c \<longleftrightarrow> code_of c = 32 \<or> code_of c = 9"

definition trim_header :: "string \<Rightarrow> string" where
  "trim_header s = rev (dropWhile header_space (rev (dropWhile header_space s)))"

text \<open>The loop over the own keys; \<^verbatim>\<open>normalized\<close> is what the map holds so far.\<close>

fun normalizeHeaders ::
  "(string \<times> jsval) list \<Rightarrow> (string \<times> string) list \<Rightarrow> (string \<times> string) list res" where
  "normalizeHeaders [] normalized = Inr normalized"
| "normalizeHeaders ((key, v) # rest) normalized =
     (let lower = to_lower key in
      if key = [] \<or> \<not> list_all header_name_char key then fail ''AGENT_HEADER_SCHEMA''
      else if lower \<in> fst ` set normalized then fail ''AGENT_HEADER_SCHEMA''
      else if lower \<in> set FORBIDDEN_AGENT_HEADERS then fail ''AGENT_HEADER_FORBIDDEN''
      else if lower \<notin> set ALLOWED_HEADERS then fail ''AGENT_HEADER_UNSUPPORTED''
      else
        case v of
          JStr raw \<Rightarrow>
            if list_ex control_char raw \<or> 8192 < utf8_length raw then fail ''AGENT_HEADER_SCHEMA''
            else if trim_header raw = [] then fail ''AGENT_HEADER_SCHEMA''
            else normalizeHeaders rest (normalized @ [(lower, trim_header raw)])
        | _ \<Rightarrow> fail ''AGENT_HEADER_SCHEMA'')"

definition canonicalHeaders :: "jsval \<Rightarrow> (string \<times> string) list res" where
  "canonicalHeaders v =
     (case v of
        JObj kvs \<Rightarrow> andthen (normalizeHeaders kvs []) (\<lambda>hs. Inr (sort_key fst hs))
      | _ \<Rightarrow> fail ''AGENT_HEADER_SCHEMA'')"

section \<open>Route metadata\<close>

record route_metadata =
  rm_description :: string
  rm_mimeType :: string

definition routeMetadataEntry :: "string \<times> jsval \<Rightarrow> (string \<times> route_metadata) res" where
  "routeMetadataEntry entry =
     (let code = ''ROUTE_METADATA'' in
      andthen (boundedToken (JStr (fst entry)) code) (\<lambda>routeId.
      andthen (closedRecord (snd entry) [''description'', ''mimeType''] [] code) (\<lambda>metadata.
      case (get_prop metadata ''description'', get_prop metadata ''mimeType'') of
        (JStr description, JStr mime) \<Rightarrow>
          if description = [] \<or> 1024 < utf8_length description
             \<or> list_ex (\<lambda>c. code_of c < 32 \<or> code_of c = 127) description
             \<or> 200 < utf8_length mime \<or> \<not> mime_pattern mime
          then fail code
          else Inr (routeId, \<lparr>rm_description = description, rm_mimeType = mime\<rparr>)
      | _ \<Rightarrow> fail code)))"

definition canonicalRouteMetadata :: "jsval \<Rightarrow> (string \<times> route_metadata) list res" where
  "canonicalRouteMetadata v =
     (case v of
        JObj kvs \<Rightarrow> collect routeMetadataEntry kvs
      | _ \<Rightarrow> Inl (JsError ''TypeError''))"

section \<open>The fingerprint\<close>

definition MAX_BODY_BYTES :: nat where
  "MAX_BODY_BYTES = 1048576"

definition copyBodyBytes :: "string option \<Rightarrow> string res" where
  "copyBodyBytes body =
     (case body of
        None \<Rightarrow> fail ''REQUEST_BODY''
      | Some bytes \<Rightarrow> if MAX_BODY_BYTES < length bytes then fail ''REQUEST_BODY'' else Inr bytes)"

record fingerprint =
  fp_routeId :: string
  fp_method :: string
  fp_requestUrl :: string
  fp_requestUrlHash :: string
  fp_sellerOrigin :: string
  fp_resourcePath :: string
  fp_bodyHash :: string
  fp_headerAllowlistHash :: string
  fp_purposeLabel :: string
  fp_ordinaryFingerprint :: string
  fp_correlationId :: "string option"

definition headers_js :: "(string \<times> string) list \<Rightarrow> jsval" where
  "headers_js hs = JObj (map (\<lambda>kv. (fst kv, JStr (snd kv))) hs)"

text \<open>What a retry is recognised by.\<close>

definition ordinary_js :: "string \<Rightarrow> string \<Rightarrow> string \<Rightarrow> string \<Rightarrow> string \<Rightarrow> string \<Rightarrow> jsval" where
  "ordinary_js routeId method requestUrlHash bodyHash headerAllowlistHash purposeLabel = JObj
     [(''routeId'', JStr routeId), (''method'', JStr method), (''requestUrlHash'', JStr requestUrlHash),
      (''bodyHash'', JStr bodyHash), (''headerAllowlistHash'', JStr headerAllowlistHash),
      (''purposeLabel'', JStr purposeLabel)]"

definition FINGERPRINT_FIELDS :: "string list" where
  "FINGERPRINT_FIELDS =
     [''routeId'', ''method'', ''requestUrl'', ''headers'', ''bodyBytes'', ''purposeLabel'']"

definition requestCorrelation :: "bool \<Rightarrow> (string \<times> jsval) list \<Rightarrow> string option res" where
  "requestCorrelation allowCorrelation request =
     (if allowCorrelation \<and> has_own request ''correlationId''
      then andthen (boundedToken (get_prop request ''correlationId'') ''CORRELATION_ID'')
             (\<lambda>c. Inr (Some c))
      else Inr None)"

definition prepareFingerprintInput ::
  "host \<Rightarrow> bool \<Rightarrow> bool \<Rightarrow> jsval \<Rightarrow> string option \<Rightarrow> fingerprint res" where
  "prepareFingerprintInput h allowLoopbackHttp allowCorrelation value body =
     andthen (closedRecord value FINGERPRINT_FIELDS
                (if allowCorrelation then [''correlationId''] else []) ''INTENT_SCHEMA'') (\<lambda>request.
     andthen (boundedToken (get_prop request ''routeId'') ''ROUTE_ID'') (\<lambda>routeId.
     andthen (canonicalMethod (get_prop request ''method'')) (\<lambda>method.
     andthen (intentRequestUrl h allowLoopbackHttp (get_prop request ''requestUrl'')) (\<lambda>url.
     andthen (canonicalHeaders (get_prop request ''headers'')) (\<lambda>headers.
     andthen (copyBodyBytes body) (\<lambda>bodyBytes.
     andthen (boundedToken (get_prop request ''purposeLabel'') ''PURPOSE_LABEL'') (\<lambda>purposeLabel.
     andthen (canonicalJson (headers_js headers)) (\<lambda>headerText.
     let requestUrlHash = h_sha256 h (iu_href url); bodyHash = h_sha256_bytes h bodyBytes;
         headerAllowlistHash = h_sha256 h headerText in
     andthen (canonicalJson (ordinary_js routeId method requestUrlHash bodyHash headerAllowlistHash
                purposeLabel)) (\<lambda>ordinary.
     andthen (requestCorrelation allowCorrelation request) (\<lambda>correlationId.
     Inr \<lparr>fp_routeId = routeId, fp_method = method, fp_requestUrl = iu_href url,
          fp_requestUrlHash = requestUrlHash, fp_sellerOrigin = iu_origin url,
          fp_resourcePath = iu_pathname url, fp_bodyHash = bodyHash,
          fp_headerAllowlistHash = headerAllowlistHash, fp_purposeLabel = purposeLabel,
          fp_ordinaryFingerprint = h_sha256 h ordinary, fp_correlationId = correlationId\<rparr>))))))))))"

text \<open>The exported function; its frozen copy of strings is the record itself.\<close>

definition canonicalIntentFingerprint :: "host \<Rightarrow> jsval \<Rightarrow> string option \<Rightarrow> fingerprint res" where
  "canonicalIntentFingerprint h value body = prepareFingerprintInput h False False value body"

end
