(* ===== verification/IntentSession.thy ===== *)
theory IntentSession
  imports IntentRequest LedgerAuthority
begin

text \<open>
  The second part of \<^verbatim>\<open>src/spikes/pi-wielder/src/kernel/intent-builder.mjs\<close>: the authority of a
  Spend Session. \<^verbatim>\<open>loadSessionAuthority\<close> joins a session with its one binding, the enrollment and
  the policy version it was opened under, and accepts the join only when the rows agree with each
  other and with the events of the session's life.
\<close>

section \<open>Policy versions and enrollments\<close>

record intent_policy =
  ip_id :: string
  ip_policy :: policy
  ip_hash :: string
  ip_predecessorHash :: "string option"
  ip_appliedAt :: string

definition validatePolicyRow :: "host \<Rightarrow> policy_version_row option \<Rightarrow> intent_policy res" where
  "validatePolicyRow h found =
     (case found of
        None \<Rightarrow> fail ''POLICY_VERSION_MISSING''
      | Some row \<Rightarrow>
          let code = ''POLICY_CORRUPTION'' in
          (case json_parse (pvr_canonical_json row) of
             None \<Rightarrow> fail code
           | Some parsed \<Rightarrow>
               andthen (rethrow_as code (validatePolicyDocument h parsed)) (\<lambda>policy.
               andthen (canonicalJson (policy_js policy)) (\<lambda>canonical.
               let hash = h_sha256 h canonical in
               andthen (boundedToken (JStr (pvr_id row)) code) (\<lambda>id.
               andthen (persistedTimestamp (JStr (pvr_applied_at row)) code) (\<lambda>appliedAt.
               andthen (case pvr_predecessor_hash row of
                          None \<Rightarrow> Inr None
                        | Some p \<Rightarrow> andthen (canonicalHash (JStr p) code) (\<lambda>x. Inr (Some x)))
                 (\<lambda>predecessorHash.
               if canonical \<noteq> pvr_canonical_json row \<or> hash \<noteq> pvr_policy_hash row
                  \<or> \<not> hash_pattern (pvr_policy_hash row) \<or> pvr_schema_version row \<noteq> 1
               then fail code
               else Inr \<lparr>ip_id = id, ip_policy = policy, ip_hash = hash,
                         ip_predecessorHash = predecessorHash, ip_appliedAt = appliedAt\<rparr>)))))))"

definition policyRowById :: "db \<Rightarrow> string \<Rightarrow> policy_version_row option" where
  "policyRowById db i = select_one (\<lambda>r. pvr_id r = i) (db_policy_versions db)"

definition activePolicyId :: "db \<Rightarrow> string option" where
  "activePolicyId db = map_of (db_metadata db) ''active_policy_id''"

text \<open>The revocation columns; every returned field is the row's, so the result is the row.\<close>

definition validateRevocation :: "enrollment_row \<Rightarrow> string \<Rightarrow> unit res" where
  "validateRevocation row enrolledAt =
     (let code = ''AGENT_ENROLLMENT_CORRUPTION'' in
      if ae_state row = ''active''
      then
        if ae_revoked_by_operator_hash row \<noteq> None \<or> ae_revoked_at row \<noteq> None
        then fail code else Inr ()
      else
        andthen (canonicalHash (option_string (ae_revoked_by_operator_hash row)) code) (\<lambda>_.
        andthen (persistedTimestamp (option_string (ae_revoked_at row)) code) (\<lambda>revokedAt.
        if timestampIsBefore revokedAt enrolledAt then fail code else Inr ())))"

definition validateEnrollmentRow :: "host \<Rightarrow> bool \<Rightarrow> enrollment_row option \<Rightarrow> enrollment_row res" where
  "validateEnrollmentRow h requireActive found =
     (case found of
        None \<Rightarrow> fail ''AGENT_ENROLLMENT_REQUIRED''
      | Some row \<Rightarrow>
          let code = ''AGENT_ENROLLMENT_CORRUPTION'' in
          if requireActive \<and> ae_state row \<noteq> ''active'' then fail ''AGENT_REVOKED''
          else if ae_state row \<noteq> ''active'' \<and> ae_state row \<noteq> ''revoked'' then fail code
          else
            andthen (rethrow_as code (canonicalInstanceId (JStr (ae_agent_instance_id row)))) (\<lambda>_.
            andthen (canonicalHash (JStr (ae_credential_digest row)) code) (\<lambda>_.
            if \<not> uid_text_ok (ae_agent_uid row) \<or> \<not> uid_text_ok (ae_agent_gid row) then fail code
            else
              andthen (canonicalHash (JStr (ae_enrollment_hash row)) code) (\<lambda>enrollmentHash.
              andthen (canonicalJson (enrollmentDescriptor row)) (\<lambda>bytes.
              if h_sha256 h bytes \<noteq> enrollmentHash then fail code
              else
                andthen (canonicalHash (JStr (ae_enrolled_by_operator_hash row)) code) (\<lambda>_.
                andthen (persistedTimestamp (JStr (ae_enrolled_at row)) code) (\<lambda>enrolledAt.
                andthen (validateRevocation row enrolledAt) (\<lambda>_. Inr row))))))))"

section \<open>Derived identifiers\<close>

text \<open>The digest without its \<^verbatim>\<open>sha256:\<close> prefix.\<close>

definition digestOf :: "host \<Rightarrow> jsval \<Rightarrow> string res" where
  "digestOf h v = andthen (canonicalJson v) (\<lambda>t. Inr (drop 7 (h_sha256 h t)))"

definition bindingIdFor :: "host \<Rightarrow> string \<Rightarrow> string res" where
  "bindingIdFor h sessionId =
     andthen (digestOf h (JObj [(''domain'', JStr ''wallet-kernel.session-binding.v1''),
                                (''sessionId'', JStr sessionId)]))
       (\<lambda>d. Inr (''binding-'' @ d))"

definition correlationAliasIdFor :: "host \<Rightarrow> string \<Rightarrow> string \<Rightarrow> string res" where
  "correlationAliasIdFor h sessionId correlationId =
     andthen (digestOf h (JObj [(''domain'', JStr ''wallet-kernel.intent-correlation-alias.v1''),
                                (''sessionId'', JStr sessionId),
                                (''correlationId'', JStr correlationId)]))
       (\<lambda>d. Inr (''correlation-'' @ d))"

section \<open>The public session\<close>

record session_authority =
  sa_id :: string
  sa_adapterId :: string
  sa_walletAddress :: string
  sa_policyVersionId :: string
  sa_state :: string
  sa_createdAt :: string
  sa_closedAt :: "string option"
  sa_bindingId :: string
  sa_agentInstanceId :: string
  sa_credentialDigest :: string
  sa_enrollmentHash :: string
  sa_bindingState :: string
  sa_bindingCreatedAt :: string
  sa_lastSeenAt :: string
  sa_bindingClosedAt :: "string option"
  sa_policy :: intent_policy
  sa_enrollment :: enrollment_row

definition sessionProjection :: "session_authority \<Rightarrow> jsval" where
  "sessionProjection a = JObj
     [(''session'', JObj
        [(''id'', JStr (sa_id a)), (''adapterId'', JStr (sa_adapterId a)),
         (''walletAddress'', JStr (sa_walletAddress a)),
         (''policyVersionId'', JStr (sa_policyVersionId a)), (''state'', JStr (sa_state a)),
         (''createdAt'', JStr (sa_createdAt a)), (''closedAt'', option_string (sa_closedAt a))]),
      (''binding'', JObj
        [(''id'', JStr (sa_bindingId a)), (''agentInstanceId'', JStr (sa_agentInstanceId a)),
         (''credentialDigest'', JStr (sa_credentialDigest a)),
         (''enrollmentHash'', JStr (sa_enrollmentHash a)), (''sessionId'', JStr (sa_id a)),
         (''state'', JStr (sa_bindingState a)), (''createdAt'', JStr (sa_bindingCreatedAt a)),
         (''lastSeenAt'', JStr (sa_lastSeenAt a)),
         (''closedAt'', option_string (sa_bindingClosedAt a))])]"

record public_session =
  ps_id :: string
  ps_adapterId :: string
  ps_agentInstanceId :: string
  ps_enrollmentHash :: string
  ps_walletAddress :: string
  ps_policyVersionId :: string
  ps_state :: string
  ps_createdAt :: string
  ps_closedAt :: "string option"
  ps_sessionHash :: string

definition publicSession :: "host \<Rightarrow> session_authority \<Rightarrow> public_session res" where
  "publicSession h a =
     andthen (canonicalJson (sessionProjection a)) (\<lambda>bytes.
     Inr \<lparr>ps_id = sa_id a, ps_adapterId = sa_adapterId a,
          ps_agentInstanceId = sa_agentInstanceId a, ps_enrollmentHash = sa_enrollmentHash a,
          ps_walletAddress = sa_walletAddress a, ps_policyVersionId = sa_policyVersionId a,
          ps_state = sa_state a, ps_createdAt = sa_createdAt a, ps_closedAt = sa_closedAt a,
          ps_sessionHash = h_sha256 h bytes\<rparr>)"

text \<open>The authority as it was when the session was opened.\<close>

definition initialAuthority :: "session_authority \<Rightarrow> session_authority" where
  "initialAuthority a = a\<lparr>sa_state := ''open'', sa_closedAt := None, sa_bindingState := ''open'',
     sa_lastSeenAt := sa_createdAt a, sa_bindingClosedAt := None\<rparr>"

section \<open>Events\<close>

definition eventsOf :: "db \<Rightarrow> string \<Rightarrow> string \<Rightarrow> string \<Rightarrow> event_row list" where
  "eventsOf db entityType entityId eventType =
     filter (\<lambda>e. ev_entity_type e = entityType \<and> ev_entity_id e = entityId
              \<and> ev_event_type e = eventType) (db_events db)"

definition exactEventData :: "event_row \<Rightarrow> string list \<Rightarrow> string \<Rightarrow> (string \<times> jsval) list res" where
  "exactEventData row required code =
     (case json_parse (ev_data_json row) of
        None \<Rightarrow> fail code
      | Some parsed \<Rightarrow>
          andthen (closedRecord parsed required [] code) (\<lambda>data.
          andthen (canonicalJson (JObj data)) (\<lambda>text.
          if text \<noteq> ev_data_json row then fail code
          else andthen (persistedTimestamp (JStr (ev_created_at row)) code) (\<lambda>_. Inr data))))"

definition sameJson :: "(string \<times> jsval) list \<Rightarrow> (string \<times> jsval) list \<Rightarrow> bool res" where
  "sameJson left right =
     andthen (canonicalJson (JObj left)) (\<lambda>l. andthen (canonicalJson (JObj right)) (\<lambda>r. Inr (l = r)))"

definition startedData :: "string \<Rightarrow> string \<Rightarrow> string \<Rightarrow> string \<Rightarrow> string \<Rightarrow> string \<Rightarrow> (string \<times> jsval) list" where
  "startedData adapterId enrollmentHash policyVersionId sessionHash walletAddress createdAt =
     [(''adapterId'', JStr adapterId), (''enrollmentHash'', JStr enrollmentHash),
      (''policyVersionId'', JStr policyVersionId), (''sessionHash'', JStr sessionHash),
      (''walletAddress'', JStr walletAddress), (''createdAt'', JStr createdAt)]"

definition openedData :: "string \<Rightarrow> string \<Rightarrow> string \<Rightarrow> string \<Rightarrow> (string \<times> jsval) list" where
  "openedData agentInstanceId enrollmentHash sessionId createdAt =
     [(''agentInstanceId'', JStr agentInstanceId), (''enrollmentHash'', JStr enrollmentHash),
      (''sessionId'', JStr sessionId), (''createdAt'', JStr createdAt)]"

definition validateSessionGenesisEvents :: "host \<Rightarrow> db \<Rightarrow> session_authority \<Rightarrow> unit res" where
  "validateSessionGenesisEvents h db a =
     (let code = ''SESSION_AUTHORITY_AMBIGUOUS'' in
      andthen (publicSession h (initialAuthority a)) (\<lambda>initial.
      case (eventsOf db ''spend_session'' (sa_id a) ''session.started'',
            eventsOf db ''session_binding'' (sa_bindingId a) ''session.binding_opened'') of
        ([started], [opened]) \<Rightarrow>
          andthen (exactEventData started [''adapterId'', ''enrollmentHash'', ''policyVersionId'',
                     ''sessionHash'', ''walletAddress'', ''createdAt''] code) (\<lambda>sessionData.
          andthen (exactEventData opened [''agentInstanceId'', ''enrollmentHash'', ''sessionId'',
                     ''createdAt''] code) (\<lambda>bindingData.
          andthen (sameJson sessionData (startedData (sa_adapterId a) (sa_enrollmentHash a)
                     (sa_policyVersionId a) (ps_sessionHash initial) (sa_walletAddress a)
                     (sa_createdAt a))) (\<lambda>sameSession.
          andthen (if sameSession
                   then sameJson bindingData (openedData (sa_agentInstanceId a) (sa_enrollmentHash a)
                          (sa_id a) (sa_createdAt a))
                   else Inr False) (\<lambda>same.
          if \<not> same then fail code else Inr ()))))
      | _ \<Rightarrow> fail code))"

definition CLOSED_FIELDS :: "string list" where
  "CLOSED_FIELDS = [''expectedSessionHash'', ''closedSessionHash'', ''closedAt'']"

definition TRANSITIONED_FIELDS :: "string list" where
  "TRANSITIONED_FIELDS =
     [''expectedSessionHash'', ''targetPolicyVersionId'', ''closedSessionHash'',
      ''replacementSessionId'', ''replacementSessionHash'', ''transitionedAt'']"

definition loadSessionCommandEvent ::
  "db \<Rightarrow> string \<Rightarrow> string \<Rightarrow> (string \<times> jsval) list option res" where
  "loadSessionCommandEvent db sessionId eventType =
     (let code = ''SESSION_AUTHORITY_AMBIGUOUS'' in
      case eventsOf db ''spend_session'' sessionId eventType of
        [] \<Rightarrow> Inr None
      | [row] \<Rightarrow>
          andthen (if eventType = ''session.closed'' then Inr CLOSED_FIELDS
                   else if eventType = ''session.policy_transitioned'' then Inr TRANSITIONED_FIELDS
                   else fail code) (\<lambda>fields.
          andthen (exactEventData row fields code) (\<lambda>data.
          andthen (canonicalHash (get_prop data ''expectedSessionHash'') code) (\<lambda>_.
          andthen (canonicalHash (get_prop data ''closedSessionHash'') code) (\<lambda>_.
          if eventType = ''session.closed''
          then andthen (persistedTimestamp (get_prop data ''closedAt'') code) (\<lambda>_. Inr (Some data))
          else
            andthen (boundedToken (get_prop data ''targetPolicyVersionId'') code) (\<lambda>_.
            andthen (boundedToken (get_prop data ''replacementSessionId'') code) (\<lambda>_.
            andthen (canonicalHash (get_prop data ''replacementSessionHash'') code) (\<lambda>_.
            andthen (persistedTimestamp (get_prop data ''transitionedAt'') code) (\<lambda>_.
            Inr (Some data)))))))))
      | _ \<Rightarrow> fail code)"

section \<open>Loading the authority\<close>

definition optionalTimestamp :: "string option \<Rightarrow> string \<Rightarrow> string option res" where
  "optionalTimestamp x code =
     (case x of
        None \<Rightarrow> Inr None
      | Some t \<Rightarrow> andthen (persistedTimestamp (JStr t) code) (\<lambda>p. Inr (Some p)))"

text \<open>The agreement of the session with its binding, enrollment and policy version.\<close>

definition pairIsValid ::
  "string \<Rightarrow> string \<Rightarrow> session_row \<Rightarrow> binding_row \<Rightarrow> enrollment_row \<Rightarrow> intent_policy \<Rightarrow> bool" where
  "pairIsValid sessionId bindingId s b e policy \<longleftrightarrow>
     (let sessionOpen = ss_state s = ''open'' \<or> ss_state s = ''policy_blocked'' in
      ss_id s = sessionId
      \<and> sb_id b = bindingId
      \<and> sb_agent_instance_id b = ae_agent_instance_id e
      \<and> sb_credential_digest b = ae_credential_digest e
      \<and> sb_enrollment_hash b = ae_enrollment_hash e
      \<and> sb_state b = (if sessionOpen then ''open'' else ''closed'')
      \<and> ss_adapter_id s = ''pi:'' @ ae_agent_instance_id e
      \<and> ss_wallet_address s = p_wallet (ip_policy policy)
      \<and> ip_id policy = ss_policy_version_id s
      \<and> sb_created_at b = ss_created_at s
      \<and> \<not> timestampIsBefore (sb_last_seen_at b) (ss_created_at s)
      \<and> ((sessionOpen \<and> ss_closed_at s = None \<and> sb_closed_at b = None)
         \<or> (ss_state s = ''closed'' \<and> ss_closed_at s \<noteq> None \<and> sb_closed_at b = ss_closed_at s
            \<and> Some (sb_last_seen_at b) = ss_closed_at s)))"

text \<open>An open session is under the active policy version, a blocked one is not.\<close>

definition activeBinding :: "db \<Rightarrow> session_row \<Rightarrow> unit res" where
  "activeBinding db s =
     (let code = ''SESSION_AUTHORITY_AMBIGUOUS'' in
      andthen (case activePolicyId db of
                 None \<Rightarrow> Inr []
               | Some a \<Rightarrow> boundedToken (JStr a) code) (\<lambda>_.
      if ss_state s = ''open'' \<and> activePolicyId db \<noteq> Some (ss_policy_version_id s) then fail code
      else if ss_state s = ''policy_blocked'' \<and> activePolicyId db = Some (ss_policy_version_id s)
      then fail code
      else Inr ()))"

definition sessionAuthority ::
  "session_row \<Rightarrow> binding_row \<Rightarrow> enrollment_row \<Rightarrow> intent_policy \<Rightarrow> session_authority" where
  "sessionAuthority s b e policy =
     \<lparr>sa_id = ss_id s, sa_adapterId = ss_adapter_id s, sa_walletAddress = ss_wallet_address s,
      sa_policyVersionId = ss_policy_version_id s, sa_state = ss_state s,
      sa_createdAt = ss_created_at s, sa_closedAt = ss_closed_at s, sa_bindingId = sb_id b,
      sa_agentInstanceId = sb_agent_instance_id b, sa_credentialDigest = sb_credential_digest b,
      sa_enrollmentHash = sb_enrollment_hash b, sa_bindingState = sb_state b,
      sa_bindingCreatedAt = sb_created_at b, sa_lastSeenAt = sb_last_seen_at b,
      sa_bindingClosedAt = sb_closed_at b, sa_policy = policy, sa_enrollment = e\<rparr>"

definition sessionFields :: "session_row \<Rightarrow> binding_row \<Rightarrow> unit res" where
  "sessionFields s b =
     (let code = ''SESSION_AUTHORITY_AMBIGUOUS'' in
      andthen (boundedToken (JStr (ss_id s)) code) (\<lambda>_.
      andthen (boundedToken (JStr (ss_policy_version_id s)) code) (\<lambda>_.
      andthen (intentAddress (JStr (ss_wallet_address s)) code) (\<lambda>_.
      andthen (persistedTimestamp (JStr (ss_created_at s)) code) (\<lambda>_.
      andthen (persistedTimestamp (JStr (sb_last_seen_at b)) code) (\<lambda>_.
      andthen (persistedTimestamp (JStr (sb_created_at b)) code) (\<lambda>_.
      andthen (optionalTimestamp (ss_closed_at s) code) (\<lambda>_.
      andthen (optionalTimestamp (sb_closed_at b) code) (\<lambda>_.
      if ss_state s \<noteq> ''open'' \<and> ss_state s \<noteq> ''policy_blocked'' \<and> ss_state s \<noteq> ''closed''
      then fail code else Inr ())))))))))"

text \<open>\<^verbatim>\<open>loadSessionAuthority\<close> with \<^verbatim>\<open>validateEvents\<close> false.\<close>

definition loadSessionRows :: "host \<Rightarrow> db \<Rightarrow> string \<Rightarrow> bool \<Rightarrow> session_authority res" where
  "loadSessionRows h db sessionId requireActive =
     (let code = ''SESSION_AUTHORITY_AMBIGUOUS'' in
      case select_one (\<lambda>s. ss_id s = sessionId) (db_sessions db) of
        None \<Rightarrow> fail ''SESSION_UNKNOWN''
      | Some s \<Rightarrow>
          (case filter (\<lambda>b. sb_session_id b = sessionId) (db_bindings db) of
             [b] \<Rightarrow>
               andthen (validateEnrollmentRow h requireActive
                          (select_one (\<lambda>e. ae_enrollment_hash e = sb_enrollment_hash b)
                            (db_enrollments db))) (\<lambda>e.
               andthen (validatePolicyRow h (policyRowById db (ss_policy_version_id s))) (\<lambda>policy.
               andthen (sessionFields s b) (\<lambda>_.
               andthen (bindingIdFor h (ss_id s)) (\<lambda>bindingId.
               if \<not> pairIsValid sessionId bindingId s b e policy then fail code
               else
                 andthen (activeBinding db s) (\<lambda>_. Inr (sessionAuthority s b e policy))))))
           | _ \<Rightarrow> fail code))"

definition loadHistoricalReplacementSession ::
  "host \<Rightarrow> db \<Rightarrow> (string \<times> jsval) list \<Rightarrow> session_authority \<Rightarrow> public_session res" where
  "loadHistoricalReplacementSession h db event previous =
     (case get_prop event ''replacementSessionId'' of
        JStr replacementId \<Rightarrow>
          andthen (loadSessionRows h db replacementId False) (\<lambda>replacement.
          andthen (validateSessionGenesisEvents h db replacement) (\<lambda>_.
          andthen (publicSession h (initialAuthority replacement)) (\<lambda>replacementSession.
          if Some (sa_createdAt replacement) \<noteq> sa_closedAt previous
             \<or> sa_adapterId replacement \<noteq> sa_adapterId previous
             \<or> sa_agentInstanceId replacement \<noteq> sa_agentInstanceId previous
             \<or> sa_enrollmentHash replacement \<noteq> sa_enrollmentHash previous
             \<or> sa_walletAddress replacement \<noteq> sa_walletAddress previous
             \<or> JStr (sa_policyVersionId replacement) \<noteq> get_prop event ''targetPolicyVersionId''
             \<or> JStr (ps_sessionHash replacementSession) \<noteq> get_prop event ''replacementSessionHash''
          then fail ''SESSION_AUTHORITY_AMBIGUOUS'' else Inr replacementSession)))
      | _ \<Rightarrow> fail ''SESSION_UNKNOWN'')"

text \<open>A closed session has one binding close and one command that closed it.\<close>

definition closedLifecycle ::
  "host \<Rightarrow> db \<Rightarrow> session_authority \<Rightarrow> event_row \<Rightarrow> (string \<times> jsval) list option
     \<Rightarrow> (string \<times> jsval) list option \<Rightarrow> unit res" where
  "closedLifecycle h db a bindingEvent closeEvent transitionEvent =
     (let code = ''SESSION_AUTHORITY_AMBIGUOUS'' in
      andthen (exactEventData bindingEvent [''sessionId'', ''closedAt'', ''reasonCode''] code)
        (\<lambda>bindingData.
      andthen (boundedToken (get_prop bindingData ''reasonCode'') code) (\<lambda>reasonCode.
      andthen (persistedTimestamp (get_prop bindingData ''closedAt'') code) (\<lambda>closedAt.
      andthen (publicSession h a) (\<lambda>closed.
      if get_prop bindingData ''sessionId'' \<noteq> JStr (sa_id a) \<or> Some closedAt \<noteq> sa_closedAt a
      then fail code
      else
        case (closeEvent, transitionEvent) of
          (Some close, _) \<Rightarrow>
            if reasonCode \<noteq> ''SESSION_CLOSED''
               \<or> get_prop close ''closedAt'' \<noteq> option_string (sa_closedAt a)
               \<or> get_prop close ''closedSessionHash'' \<noteq> JStr (ps_sessionHash closed)
            then fail code else Inr ()
        | (None, Some event) \<Rightarrow>
            if reasonCode \<noteq> ''POLICY_SUPERSEDED''
               \<or> get_prop event ''transitionedAt'' \<noteq> option_string (sa_closedAt a)
               \<or> get_prop event ''closedSessionHash'' \<noteq> JStr (ps_sessionHash closed)
               \<or> get_prop event ''replacementSessionId'' = JStr (sa_id a)
            then fail code
            else andthen (loadHistoricalReplacementSession h db event a) (\<lambda>_. Inr ())
        | (None, None) \<Rightarrow> fail code)))))"

definition validateSessionLifecycleEvents :: "host \<Rightarrow> db \<Rightarrow> session_authority \<Rightarrow> unit res" where
  "validateSessionLifecycleEvents h db a =
     (let code = ''SESSION_AUTHORITY_AMBIGUOUS'';
          bindingEvents = eventsOf db ''session_binding'' (sa_bindingId a) ''session.binding_closed'' in
      andthen (loadSessionCommandEvent db (sa_id a) ''session.closed'') (\<lambda>closeEvent.
      andthen (loadSessionCommandEvent db (sa_id a) ''session.policy_transitioned'') (\<lambda>transitionEvent.
      if sa_state a \<noteq> ''closed''
      then
        if bindingEvents \<noteq> [] \<or> closeEvent \<noteq> None \<or> transitionEvent \<noteq> None
        then fail code else Inr ()
      else
        case bindingEvents of
          [bindingEvent] \<Rightarrow>
            if (closeEvent \<noteq> None) = (transitionEvent \<noteq> None) then fail code
            else closedLifecycle h db a bindingEvent closeEvent transitionEvent
        | _ \<Rightarrow> fail code)))"

definition loadSessionAuthority :: "host \<Rightarrow> db \<Rightarrow> string \<Rightarrow> bool \<Rightarrow> session_authority res" where
  "loadSessionAuthority h db sessionId requireActive =
     andthen (loadSessionRows h db sessionId requireActive) (\<lambda>a.
     andthen (validateSessionGenesisEvents h db a) (\<lambda>_.
     andthen (validateSessionLifecycleEvents h db a) (\<lambda>_. Inr a)))"

end
