(* ===== verification/IntentHistory.thy ===== *)
theory IntentHistory
  imports IntentSession
begin

text \<open>
  The third part of \<^verbatim>\<open>src/spikes/pi-wielder/src/kernel/intent-builder.mjs\<close>: the check of a persisted
  Spend Intent. \<^verbatim>\<open>rowToIntent\<close> recomputes every hash and derived identifier of the row;
  \<^verbatim>\<open>validateIntentEvents\<close> replays the intent's events along the legal transitions and ends at the
  row's state. Every field of a decoded intent is the row's, so the result is the row.
\<close>

section \<open>Legal transitions\<close>

definition LEGAL_TRANSITIONS :: "(string \<times> string list) list" where
  "LEGAL_TRANSITIONS =
     [(''captured'', [''challenged'', ''terminal'']),
      (''challenged'', [''approval_pending'', ''authorized'', ''terminal'']),
      (''approval_pending'', [''authorized'', ''terminal'']),
      (''authorized'', [''reserved'', ''terminal'']),
      (''reserved'', [''signing'', ''terminal'']),
      (''signing'', [''signed'', ''unresolved'']),
      (''signed'', [''retrying'', ''unresolved'']),
      (''retrying'', [''terminal'', ''unresolved'']),
      (''unresolved'', [''terminal'']),
      (''terminal'', [])]"

definition known_state :: "string \<Rightarrow> bool" where
  "known_state st \<longleftrightarrow> st \<in> fst ` set LEGAL_TRANSITIONS"

definition legal_edge :: "string \<Rightarrow> string \<Rightarrow> bool" where
  "legal_edge st st' \<longleftrightarrow>
     (case map_of LEGAL_TRANSITIONS st of None \<Rightarrow> False | Some next \<Rightarrow> st' \<in> set next)"

section \<open>Derived fields of an intent\<close>

definition idempotencyKeyFor ::
  "host \<Rightarrow> string \<Rightarrow> string \<Rightarrow> string \<Rightarrow> string \<Rightarrow> string \<Rightarrow> string \<Rightarrow> string res" where
  "idempotencyKeyFor h intentId requestId sessionId enrollmentHash ordinaryFingerprint correlationId =
     andthen (digestOf h (JObj
       [(''domain'', JStr ''wallet-kernel.intent-idempotency.v1''), (''intentId'', JStr intentId),
        (''requestId'', JStr requestId), (''sessionId'', JStr sessionId),
        (''enrollmentHash'', JStr enrollmentHash),
        (''ordinaryFingerprint'', JStr ordinaryFingerprint),
        (''correlationId'', JStr correlationId)])) (\<lambda>d. Inr (''wk_'' @ d))"

text \<open>What the intent hash binds, read from the columns of the row.\<close>

definition intentBinding_js :: "intent_row \<Rightarrow> string \<Rightarrow> jsval" where
  "intentBinding_js i policyVersionId = JObj
     [(''requestId'', JStr (si_request_id i)), (''sessionId'', JStr (si_session_id i)),
      (''enrollmentHash'', JStr (si_enrollment_hash i)), (''routeId'', JStr (si_route_id i)),
      (''method'', JStr (si_method i)), (''requestUrlHash'', JStr (si_request_url_hash i)),
      (''sellerOrigin'', JStr (si_seller_origin i)), (''resourcePath'', JStr (si_resource_path i)),
      (''bodyHash'', JStr (si_body_hash i)),
      (''headerAllowlistHash'', JStr (si_header_allowlist_hash i)),
      (''purposeLabel'', JStr (si_purpose_label i)), (''correlationId'', JStr (si_correlation_id i)),
      (''walletAddress'', JStr (si_wallet_address i)), (''policyVersionId'', JStr policyVersionId)]"

definition intentHashFor :: "host \<Rightarrow> intent_row \<Rightarrow> string \<Rightarrow> string res" where
  "intentHashFor h i policyVersionId =
     andthen (canonicalJson (intentBinding_js i policyVersionId)) (\<lambda>t. Inr (h_sha256 h t))"

definition intentOrdinary_js :: "intent_row \<Rightarrow> jsval" where
  "intentOrdinary_js i =
     ordinary_js (si_route_id i) (si_method i) (si_request_url_hash i) (si_body_hash i)
       (si_header_allowlist_hash i) (si_purpose_label i)"

section \<open>The row\<close>

definition intentScalars :: "intent_row \<Rightarrow> unit res" where
  "intentScalars i =
     (let code = ''INTENT_CORRUPTION'' in
      andthen (boundedToken (JStr (si_id i)) code) (\<lambda>_.
      andthen (boundedToken (JStr (si_request_id i)) code) (\<lambda>_.
      andthen (boundedToken (JStr (si_session_id i)) code) (\<lambda>_.
      andthen (canonicalHash (JStr (si_enrollment_hash i)) code) (\<lambda>_.
      andthen (boundedToken (JStr (si_route_id i)) code) (\<lambda>_.
      andthen (canonicalMethod (JStr (si_method i))) (\<lambda>method.
      if method \<noteq> si_method i then fail code
      else
        andthen (canonicalHash (JStr (si_request_url_hash i)) code) (\<lambda>_.
        andthen (canonicalHash (JStr (si_body_hash i)) code) (\<lambda>_.
        andthen (canonicalHash (JStr (si_header_allowlist_hash i)) code) (\<lambda>_.
        andthen (canonicalHash (JStr (si_ordinary_fingerprint i)) code) (\<lambda>_.
        andthen (boundedToken (JStr (si_purpose_label i)) code) (\<lambda>_.
        andthen (boundedToken (JStr (si_correlation_id i)) code) (\<lambda>_.
        andthen (intentAddress (JStr (si_wallet_address i)) code) (\<lambda>_.
        andthen (canonicalHash (JStr (si_intent_hash i)) code) (\<lambda>_.
        andthen (persistedTimestamp (JStr (si_created_at i)) code) (\<lambda>createdAt.
        andthen (persistedTimestamp (JStr (si_updated_at i)) code) (\<lambda>updatedAt.
        if timestampIsBefore updatedAt createdAt then fail code
        else if \<not> known_state (si_state i) then fail code
        else if (si_retry_matchable i \<noteq> 0 \<and> si_retry_matchable i \<noteq> 1)
                \<or> (si_state i = ''terminal'') \<noteq> (si_retry_matchable i = 0)
        then fail code else Inr ())))))))))))))))))"

definition intentUrl :: "host \<Rightarrow> bool \<Rightarrow> intent_row \<Rightarrow> unit res" where
  "intentUrl h allowLoopbackHttp i =
     (let code = ''INTENT_CORRUPTION'' in
      andthen (rethrow_as code (intentRequestUrl h allowLoopbackHttp
                 (JStr (si_seller_origin i @ si_resource_path i)))) (\<lambda>url.
      if iu_origin url \<noteq> si_seller_origin i \<or> iu_pathname url \<noteq> si_resource_path i
         \<or> h_sha256 h (iu_href url) \<noteq> si_request_url_hash i
      then fail code else Inr ()))"

definition intentBound :: "host \<Rightarrow> intent_row \<Rightarrow> session_authority \<Rightarrow> unit res" where
  "intentBound h i a =
     (let code = ''INTENT_CORRUPTION'' in
      andthen (canonicalJson (intentOrdinary_js i)) (\<lambda>ordinary.
      if si_ordinary_fingerprint i \<noteq> h_sha256 h ordinary then fail code
      else if si_session_id i \<noteq> sa_id a \<or> si_enrollment_hash i \<noteq> sa_enrollmentHash a
              \<or> si_wallet_address i \<noteq> sa_walletAddress a
              \<or> timestampIsBefore (si_created_at i) (sa_createdAt a)
      then fail code
      else
        andthen (idempotencyKeyFor h (si_id i) (si_request_id i) (si_session_id i)
                   (si_enrollment_hash i) (si_ordinary_fingerprint i) (si_correlation_id i))
          (\<lambda>key.
        if si_idempotency_key i \<noteq> key then fail code
        else
          andthen (intentHashFor h i (sa_policyVersionId a)) (\<lambda>hash.
          if si_intent_hash i \<noteq> hash then fail code else Inr ()))))"

definition challengeBound :: "host \<Rightarrow> intent_row \<Rightarrow> string \<Rightarrow> string \<Rightarrow> string \<Rightarrow> unit res" where
  "challengeBound h i projectionJson challengeHash receivedAt =
     (let code = ''INTENT_CORRUPTION'' in
      case json_parse projectionJson of
        None \<Rightarrow> fail code
      | Some parsed \<Rightarrow>
          andthen (rethrow_as code (andthen (validateChallengeProjection parsed) (\<lambda>projection.
                     andthen (canonicalJson (projection_js projection)) (\<lambda>t.
                     Inr (projection, t))))) (\<lambda>(projection, canonical).
          andthen (canonicalHash (JStr challengeHash) code) (\<lambda>_.
          andthen (persistedTimestamp (JStr receivedAt) code) (\<lambda>_.
          if canonical \<noteq> projectionJson \<or> h_sha256 h canonical \<noteq> challengeHash
             \<or> pj_urlHash projection \<noteq> si_request_url_hash i \<or> si_state i = ''captured''
             \<or> timestampIsBefore receivedAt (si_created_at i)
             \<or> timestampIsBefore (si_updated_at i) receivedAt
          then fail code else Inr ()))))"

definition intentChallenge :: "host \<Rightarrow> intent_row \<Rightarrow> unit res" where
  "intentChallenge h i =
     (case (si_challenge_projection_json i, si_challenge_hash i, si_challenge_received_at i) of
        (Some p, Some c, Some r) \<Rightarrow> challengeBound h i p c r
      | (None, None, None) \<Rightarrow>
          if si_state i \<noteq> ''captured'' \<and> si_state i \<noteq> ''terminal'' then fail ''INTENT_CORRUPTION''
          else Inr ()
      | _ \<Rightarrow> fail ''INTENT_CORRUPTION'')"

definition rowToIntent :: "host \<Rightarrow> bool \<Rightarrow> session_authority \<Rightarrow> intent_row \<Rightarrow> intent_row res" where
  "rowToIntent h allowLoopbackHttp a i =
     rethrow_as ''INTENT_CORRUPTION''
       (andthen (intentScalars i) (\<lambda>_.
        andthen (intentUrl h allowLoopbackHttp i) (\<lambda>_.
        andthen (intentBound h i a) (\<lambda>_.
        andthen (intentChallenge h i) (\<lambda>_. Inr i)))))"

section \<open>The events\<close>

definition captureData :: "intent_row \<Rightarrow> string \<Rightarrow> (string \<times> jsval) list" where
  "captureData i policyVersionId =
     [(''requestId'', JStr (si_request_id i)), (''sessionId'', JStr (si_session_id i)),
      (''enrollmentHash'', JStr (si_enrollment_hash i)), (''routeId'', JStr (si_route_id i)),
      (''method'', JStr (si_method i)), (''requestUrlHash'', JStr (si_request_url_hash i)),
      (''sellerOrigin'', JStr (si_seller_origin i)), (''resourcePath'', JStr (si_resource_path i)),
      (''bodyHash'', JStr (si_body_hash i)),
      (''headerAllowlistHash'', JStr (si_header_allowlist_hash i)),
      (''ordinaryFingerprint'', JStr (si_ordinary_fingerprint i)),
      (''purposeLabel'', JStr (si_purpose_label i)), (''correlationId'', JStr (si_correlation_id i)),
      (''idempotencyKey'', JStr (si_idempotency_key i)),
      (''walletAddress'', JStr (si_wallet_address i)), (''policyVersionId'', JStr policyVersionId),
      (''intentHash'', JStr (si_intent_hash i)), (''createdAt'', JStr (si_created_at i))]"

definition CAPTURE_FIELDS :: "string list" where
  "CAPTURE_FIELDS =
     [''requestId'', ''sessionId'', ''enrollmentHash'', ''routeId'', ''method'', ''requestUrlHash'',
      ''sellerOrigin'', ''resourcePath'', ''bodyHash'', ''headerAllowlistHash'',
      ''ordinaryFingerprint'', ''purposeLabel'', ''correlationId'', ''idempotencyKey'',
      ''walletAddress'', ''policyVersionId'', ''intentHash'', ''createdAt'']"

text \<open>The intent's events in order; the query names the three event types.\<close>

definition intentEvents :: "db \<Rightarrow> string \<Rightarrow> event_row list" where
  "intentEvents db intentId =
     filter (\<lambda>e. ev_entity_type e = ''spend_intent'' \<and> ev_entity_id e = intentId
              \<and> ev_event_type e \<in> {''intent.captured'', ''intent.challenge_attached'',
                                   ''intent.transitioned''}) (db_events db)"

text \<open>Where the replay stands: the state, its time, and the challenges seen.\<close>

record replay =
  rp_state :: string
  rp_updatedAt :: string
  rp_challenges :: nat

definition attachedEvent :: "intent_row \<Rightarrow> event_row \<Rightarrow> replay \<Rightarrow> replay res" where
  "attachedEvent i e rp =
     (let code = ''INTENT_CORRUPTION'' in
      if rp_challenges rp \<noteq> 0 \<or> rp_state rp \<noteq> ''captured'' \<or> si_challenge_hash i = None
      then fail code
      else
        andthen (exactEventData e [''challengeHash'', ''challengeReceivedAt'', ''projectionHash'',
                   ''updatedAt''] code) (\<lambda>data.
        andthen (persistedTimestamp (get_prop data ''updatedAt'') code) (\<lambda>updatedAt.
        if get_prop data ''challengeHash'' \<noteq> option_string (si_challenge_hash i)
           \<or> get_prop data ''projectionHash'' \<noteq> option_string (si_challenge_hash i)
           \<or> get_prop data ''challengeReceivedAt'' \<noteq> option_string (si_challenge_received_at i)
           \<or> (case si_challenge_received_at i of
                None \<Rightarrow> False | Some r \<Rightarrow> timestampIsBefore updatedAt r)
           \<or> timestampIsBefore updatedAt (rp_updatedAt rp)
        then fail code
        else Inr \<lparr>rp_state = ''challenged'', rp_updatedAt = updatedAt,
                  rp_challenges = Suc (rp_challenges rp)\<rparr>)))"

definition transitionedEvent :: "event_row \<Rightarrow> replay \<Rightarrow> replay res" where
  "transitionedEvent e rp =
     (let code = ''INTENT_CORRUPTION'' in
      andthen (exactEventData e [''previousState'', ''nextState'', ''reasonCode'', ''retryMatchable'',
                 ''updatedAt''] code) (\<lambda>data.
      case (get_prop data ''previousState'', get_prop data ''nextState'') of
        (JStr previous, JStr next) \<Rightarrow>
          if \<not> known_state previous \<or> \<not> known_state next \<or> previous \<noteq> rp_state rp
             \<or> next = ''challenged'' \<or> \<not> legal_edge (rp_state rp) next
             \<or> get_prop data ''retryMatchable'' \<noteq> JBool (next \<noteq> ''terminal'')
          then fail code
          else
            andthen (boundedToken (get_prop data ''reasonCode'') code) (\<lambda>_.
            andthen (persistedTimestamp (get_prop data ''updatedAt'') code) (\<lambda>updatedAt.
            if timestampIsBefore updatedAt (rp_updatedAt rp) then fail code
            else Inr (rp\<lparr>rp_state := next, rp_updatedAt := updatedAt\<rparr>)))
      | _ \<Rightarrow> fail code))"

fun replayEvents :: "intent_row \<Rightarrow> event_row list \<Rightarrow> replay \<Rightarrow> replay res" where
  "replayEvents i [] rp = Inr rp"
| "replayEvents i (e # es) rp =
     andthen (if ev_event_type e = ''intent.captured'' then fail ''INTENT_CORRUPTION''
              else if ev_event_type e = ''intent.challenge_attached'' then attachedEvent i e rp
              else transitionedEvent e rp) (\<lambda>rp'. replayEvents i es rp')"

definition validateIntentEvents :: "db \<Rightarrow> intent_row \<Rightarrow> session_authority \<Rightarrow> unit res" where
  "validateIntentEvents db i a =
     (let code = ''INTENT_CORRUPTION''; rows = intentEvents db (si_id i) in
      case rows of
        [] \<Rightarrow> fail code
      | first # rest \<Rightarrow>
          if length (filter (\<lambda>e. ev_event_type e = ''intent.captured'') rows) \<noteq> 1
             \<or> ev_event_type first \<noteq> ''intent.captured''
          then fail code
          else
            andthen (exactEventData first CAPTURE_FIELDS code) (\<lambda>data.
            andthen (sameJson data (captureData i (sa_policyVersionId a))) (\<lambda>same.
            if \<not> same then fail code
            else
              andthen (replayEvents i rest \<lparr>rp_state = ''captured'', rp_updatedAt = si_created_at i,
                         rp_challenges = 0\<rparr>) (\<lambda>rp.
              if (if si_challenge_hash i = None then 0 else 1) \<noteq> rp_challenges rp
                 \<or> rp_state rp \<noteq> si_state i \<or> rp_updatedAt rp \<noteq> si_updated_at i
              then fail code else Inr ()))))"

definition decodeIntent ::
  "host \<Rightarrow> bool \<Rightarrow> db \<Rightarrow> session_authority \<Rightarrow> intent_row \<Rightarrow> intent_row res" where
  "decodeIntent h allowLoopbackHttp db a i =
     andthen (rowToIntent h allowLoopbackHttp a i) (\<lambda>intent.
     andthen (validateIntentEvents db intent a) (\<lambda>_. Inr intent))"

end
