(* ===== verification/IntentRepository.thy ===== *)
theory IntentRepository
  imports IntentHistory
begin

text \<open>
  The fourth part of \<^verbatim>\<open>src/spikes/pi-wielder/src/kernel/intent-builder.mjs\<close>: the operations of
  \<^verbatim>\<open>createIntentRepository\<close> on Spend Sessions and Spend Intents.

  The options of the repository, its clock and identifier factory and the store's clock are the
  record \<^verbatim>\<open>intent_env\<close>; \<^verbatim>\<open>ie_ids env kind n\<close> is what the \<^verbatim>\<open>n\<close>-th call of the factory for that
  kind returns within one operation. An operation inside a transaction maps the database to an error
  or the new database and its result.
\<close>

record intent_env =
  ie_host :: host
  ie_loopback :: bool
  ie_routes :: "(string \<times> route_metadata) list"
  ie_ids :: "string \<Rightarrow> nat \<Rightarrow> jsval"
  ie_now :: string
  ie_store :: string

section \<open>Fresh identifiers\<close>

definition MAX_ID_ATTEMPTS :: nat where
  "MAX_ID_ATTEMPTS = 32"

definition generatedId :: "jsval \<Rightarrow> string res" where
  "generatedId drawn = boundedToken drawn ''ID_FACTORY''"

text \<open>The collision loop of the four identifier generators; \<^verbatim>\<open>taken\<close> is its pair of queries.\<close>

fun drawId :: "(nat \<Rightarrow> jsval) \<Rightarrow> (string \<Rightarrow> bool res) \<Rightarrow> nat \<Rightarrow> nat \<Rightarrow> string res" where
  "drawId draw taken attempt 0 = fail ''ID_FACTORY_COLLISION''"
| "drawId draw taken attempt (Suc left_over) =
     andthen (generatedId (draw attempt)) (\<lambda>id.
     andthen (taken id) (\<lambda>collides.
     if \<not> collides then Inr id else drawId draw taken (Suc attempt) left_over))"

definition nextSessionIdentity :: "intent_env \<Rightarrow> db \<Rightarrow> (string \<times> string) res" where
  "nextSessionIdentity env db =
     andthen (drawId (ie_ids env ''session'') (\<lambda>id.
                andthen (bindingIdFor (ie_host env) id) (\<lambda>bindingId.
                Inr (id \<in> ss_id ` set (db_sessions db) \<or> bindingId \<in> sb_id ` set (db_bindings db))))
                0 MAX_ID_ATTEMPTS) (\<lambda>id.
     andthen (bindingIdFor (ie_host env) id) (\<lambda>bindingId. Inr (id, bindingId)))"

definition nextIntentId :: "intent_env \<Rightarrow> db \<Rightarrow> string res" where
  "nextIntentId env db =
     drawId (ie_ids env ''intent'') (\<lambda>id. Inr (id \<in> si_id ` set (db_intents db))) 0 MAX_ID_ATTEMPTS"

definition nextRequestId :: "intent_env \<Rightarrow> db \<Rightarrow> string res" where
  "nextRequestId env db =
     drawId (ie_ids env ''request'') (\<lambda>id. Inr (id \<in> si_request_id ` set (db_intents db)))
       0 MAX_ID_ATTEMPTS"

definition correlatedRow :: "db \<Rightarrow> string \<Rightarrow> string \<Rightarrow> intent_row option" where
  "correlatedRow db sessionId correlationId =
     select_one (\<lambda>i. si_session_id i = sessionId \<and> si_correlation_id i = correlationId)
       (db_intents db)"

definition nextCorrelationId :: "intent_env \<Rightarrow> db \<Rightarrow> string \<Rightarrow> string res" where
  "nextCorrelationId env db sessionId =
     drawId (ie_ids env ''correlation'') (\<lambda>id.
       andthen (correlationAliasIdFor (ie_host env) sessionId id) (\<lambda>aliasId.
       Inr (correlatedRow db sessionId id \<noteq> None
            \<or> eventsOf db ''intent_correlation'' aliasId ''intent.correlation_bound'' \<noteq> [])))
       0 MAX_ID_ATTEMPTS"

section \<open>Writes\<close>

definition kernelEvent :: "string \<Rightarrow> string \<Rightarrow> string \<Rightarrow> (string \<times> jsval) list \<Rightarrow> event" where
  "kernelEvent entityType entityId eventType data =
     \<lparr>evt_entityType = JStr entityType, evt_entityId = JStr entityId,
      evt_eventType = JStr eventType, evt_data = JObj data\<rparr>"

definition writeEvent ::
  "intent_env \<Rightarrow> string \<Rightarrow> string \<Rightarrow> string \<Rightarrow> (string \<times> jsval) list \<Rightarrow> db \<Rightarrow> db res" where
  "writeEvent env entityType entityId eventType data db =
     andthen (appendEvent (ie_host env) (ie_store env) (kernelEvent entityType entityId eventType data) db)
       (\<lambda>(db', _). Inr db')"

text \<open>The inserts with the uniqueness constraints of the schema.\<close>

definition insertSession :: "session_row \<Rightarrow> db \<Rightarrow> db res" where
  "insertSession s db =
     (if list_ex (\<lambda>r. ss_id r = ss_id s
                 \<or> (ss_state r = ''open'' \<and> ss_state s = ''open''
                    \<and> ss_adapter_id r = ss_adapter_id s \<and> ss_wallet_address r = ss_wallet_address s
                    \<and> ss_policy_version_id r = ss_policy_version_id s)) (db_sessions db)
      then Inl (JsError ''SQLITE_CONSTRAINT'')
      else Inr (db\<lparr>db_sessions := db_sessions db @ [s]\<rparr>))"

definition insertBinding :: "binding_row \<Rightarrow> db \<Rightarrow> db res" where
  "insertBinding b db =
     (if list_ex (\<lambda>r. sb_id r = sb_id b \<or> sb_session_id r = sb_session_id b
                 \<or> (sb_state r = ''open'' \<and> sb_state b = ''open''
                    \<and> (sb_agent_instance_id r = sb_agent_instance_id b
                       \<or> sb_credential_digest r = sb_credential_digest b))) (db_bindings db)
      then Inl (JsError ''SQLITE_CONSTRAINT'')
      else Inr (db\<lparr>db_bindings := db_bindings db @ [b]\<rparr>))"

definition intentCollides :: "intent_row \<Rightarrow> intent_row \<Rightarrow> bool" where
  "intentCollides i r \<longleftrightarrow>
     si_id r = si_id i \<or> si_request_id r = si_request_id i
     \<or> si_idempotency_key r = si_idempotency_key i \<or> si_intent_hash r = si_intent_hash i
     \<or> (si_session_id r = si_session_id i
        \<and> (si_correlation_id r = si_correlation_id i
           \<or> (si_ordinary_fingerprint r = si_ordinary_fingerprint i
              \<and> si_retry_matchable r = 1 \<and> si_retry_matchable i = 1)))"

definition insertIntent :: "intent_row \<Rightarrow> db \<Rightarrow> db res" where
  "insertIntent i db =
     (if list_ex (intentCollides i) (db_intents db) then Inl (JsError ''SQLITE_CONSTRAINT'')
      else Inr (db\<lparr>db_intents := db_intents db @ [i]\<rparr>))"

definition newSession :: "string \<Rightarrow> string \<Rightarrow> string \<Rightarrow> string \<Rightarrow> string \<Rightarrow> session_row" where
  "newSession sessionId adapterId walletAddress policyVersionId createdAt =
     \<lparr>ss_id = sessionId, ss_adapter_id = adapterId, ss_wallet_address = walletAddress,
      ss_policy_version_id = policyVersionId, ss_state = ''open'', ss_created_at = createdAt,
      ss_closed_at = None\<rparr>"

definition newBinding :: "string \<Rightarrow> string \<Rightarrow> string \<Rightarrow> string \<Rightarrow> string \<Rightarrow> string \<Rightarrow> binding_row" where
  "newBinding bindingId agentInstanceId credentialDigest enrollmentHash sessionId createdAt =
     \<lparr>sb_id = bindingId, sb_agent_instance_id = agentInstanceId,
      sb_credential_digest = credentialDigest, sb_enrollment_hash = enrollmentHash,
      sb_session_id = sessionId, sb_state = ''open'', sb_created_at = createdAt,
      sb_last_seen_at = createdAt, sb_closed_at = None\<rparr>"

section \<open>Opening a session\<close>

definition getSession :: "intent_env \<Rightarrow> jsval \<Rightarrow> db \<Rightarrow> public_session option res" where
  "getSession env sessionId db =
     andthen (boundedToken sessionId ''SESSION_SCHEMA'') (\<lambda>id.
     if id \<notin> ss_id ` set (db_sessions db) then Inr None
     else
       andthen (loadSessionAuthority (ie_host env) db id False) (\<lambda>a.
       andthen (publicSession (ie_host env) a) (\<lambda>p. Inr (Some p))))"

definition matchingBinding :: "enrollment_row \<Rightarrow> binding_row \<Rightarrow> bool" where
  "matchingBinding e b \<longleftrightarrow>
     sb_agent_instance_id b = ae_agent_instance_id e
     \<or> sb_credential_digest b = ae_credential_digest e
     \<or> sb_enrollment_hash b = ae_enrollment_hash e"

text \<open>The sessions that already carry authority for the agent, by identifier.\<close>

definition authorityRows :: "db \<Rightarrow> enrollment_row \<Rightarrow> string list" where
  "authorityRows db e =
     sort (remdups (map ss_id (filter (\<lambda>s.
       let bindings = filter (\<lambda>b. sb_session_id b = ss_id s) (db_bindings db) in
       (ss_state s \<in> {''open'', ''policy_blocked''}
        \<and> (ss_adapter_id s = ''pi:'' @ ae_agent_instance_id e
           \<or> list_ex (matchingBinding e) bindings))
       \<or> list_ex (\<lambda>b. sb_state b = ''open'' \<and> matchingBinding e b) bindings) (db_sessions db))))"

definition activeEnrollment :: "intent_env \<Rightarrow> db \<Rightarrow> string \<Rightarrow> enrollment_row res" where
  "activeEnrollment env db agentInstanceId =
     (let active = filter (\<lambda>e. ae_state e = ''active'') (db_enrollments db) in
      if 1 < length active then fail ''AGENT_ENROLLMENT_AMBIGUOUS''
      else
        case find (\<lambda>e. ae_agent_instance_id e = agentInstanceId) active of
          None \<Rightarrow>
            (case select_one (\<lambda>e. ae_agent_instance_id e = agentInstanceId) (db_enrollments db) of
               None \<Rightarrow> fail ''AGENT_ENROLLMENT_REQUIRED''
             | Some e \<Rightarrow> fail (if ae_state e = ''revoked'' then ''AGENT_REVOKED''
                              else ''AGENT_ENROLLMENT_REQUIRED''))
        | Some e \<Rightarrow> validateEnrollmentRow (ie_host env) True (Some e))"

text \<open>The one session that exists must be the one asked for.\<close>

definition resumeSession ::
  "intent_env \<Rightarrow> db \<Rightarrow> string \<Rightarrow> enrollment_row \<Rightarrow> string \<Rightarrow> string \<Rightarrow> public_session res" where
  "resumeSession env db sessionId e walletAddress policyVersionId =
     andthen (loadSessionAuthority (ie_host env) db sessionId False) (\<lambda>a.
     if sa_state a \<noteq> ''open'' \<or> ae_state (sa_enrollment a) \<noteq> ''active''
        \<or> sa_agentInstanceId a \<noteq> ae_agent_instance_id e
        \<or> sa_enrollmentHash a \<noteq> ae_enrollment_hash e \<or> sa_walletAddress a \<noteq> walletAddress
        \<or> sa_policyVersionId a \<noteq> policyVersionId
     then fail ''AGENT_SESSION_UNAVAILABLE'' else publicSession (ie_host env) a)"

text \<open>The two genesis events of a session.\<close>

definition startSession ::
  "intent_env \<Rightarrow> session_row \<Rightarrow> binding_row \<Rightarrow> string \<Rightarrow> db \<Rightarrow> db res" where
  "startSession env s b sessionHash db =
     andthen (writeEvent env ''spend_session'' (ss_id s) ''session.started''
                (startedData (ss_adapter_id s) (sb_enrollment_hash b) (ss_policy_version_id s)
                  sessionHash (ss_wallet_address s) (ss_created_at s)) db) (\<lambda>db1.
     writeEvent env ''session_binding'' (sb_id b) ''session.binding_opened''
       (openedData (sb_agent_instance_id b) (sb_enrollment_hash b) (ss_id s) (ss_created_at s)) db1)"

definition openSession ::
  "intent_env \<Rightarrow> enrollment_row \<Rightarrow> string \<Rightarrow> string \<Rightarrow> db \<Rightarrow> (db \<times> public_session) res" where
  "openSession env e walletAddress policyVersionId db =
     andthen (nextSessionIdentity env db) (\<lambda>(id, bindingId).
     andthen (canonicalTimestamp (JStr (ie_now env))) (\<lambda>createdAt.
     let s = newSession id (''pi:'' @ ae_agent_instance_id e) walletAddress policyVersionId createdAt;
         b = newBinding bindingId (ae_agent_instance_id e) (ae_credential_digest e)
               (ae_enrollment_hash e) id createdAt in
     andthen (insertSession s db) (\<lambda>db1.
     andthen (insertBinding b db1) (\<lambda>db2.
     andthen (loadSessionRows (ie_host env) db2 id True) (\<lambda>a.
     andthen (publicSession (ie_host env) a) (\<lambda>session.
     andthen (startSession env s b (ps_sessionHash session) db2) (\<lambda>db3.
     andthen (loadSessionAuthority (ie_host env) db3 id True) (\<lambda>a'.
     andthen (publicSession (ie_host env) a') (\<lambda>persisted.
     if ps_sessionHash persisted \<noteq> ps_sessionHash session then fail ''SESSION_AUTHORITY_AMBIGUOUS''
     else Inr (db3, persisted))))))))))"

definition openInTransaction ::
  "intent_env \<Rightarrow> string \<Rightarrow> string \<Rightarrow> string \<Rightarrow> db \<Rightarrow> (db \<times> public_session) res" where
  "openInTransaction env agentInstanceId walletAddress policyVersionId db =
     andthen (activeEnrollment env db agentInstanceId) (\<lambda>e.
     andthen (validatePolicyRow (ie_host env) (policyRowById db policyVersionId)) (\<lambda>policy.
     if activePolicyId db \<noteq> Some policyVersionId then fail ''POLICY_NOT_ACTIVE''
     else if p_wallet (ip_policy policy) \<noteq> walletAddress then fail ''POLICY_WALLET_MISMATCH''
     else
       case authorityRows db e of
         [] \<Rightarrow> openSession env e walletAddress policyVersionId db
       | [sessionId] \<Rightarrow>
           andthen (resumeSession env db sessionId e walletAddress policyVersionId)
             (\<lambda>session. Inr (db, session))
       | _ \<Rightarrow> fail ''SESSION_AUTHORITY_AMBIGUOUS''))"

definition openOrResumeSession :: "intent_env \<Rightarrow> jsval \<Rightarrow> db \<Rightarrow> db \<times> public_session res" where
  "openOrResumeSession env input db =
     (case andthen (closedRecord input [''agentInstanceId'', ''walletAddress'', ''policyVersionId''] []
                      ''SESSION_SCHEMA'') (\<lambda>request.
           andthen (canonicalInstanceId (get_prop request ''agentInstanceId'')) (\<lambda>agentInstanceId.
           andthen (intentAddress (get_prop request ''walletAddress'') ''SESSION_SCHEMA'') (\<lambda>wallet.
           andthen (boundedToken (get_prop request ''policyVersionId'') ''SESSION_SCHEMA'')
             (\<lambda>policyVersionId. Inr (agentInstanceId, wallet, policyVersionId))))) of
        Inl err \<Rightarrow> (db, Inl err)
      | Inr (agentInstanceId, wallet, policyVersionId) \<Rightarrow>
          transaction (openInTransaction env agentInstanceId wallet policyVersionId) db)"

section \<open>Capturing a request\<close>

definition requireOpen :: "session_authority \<Rightarrow> unit res" where
  "requireOpen a =
     (if sa_state a \<noteq> ''open''
      then fail (if sa_state a = ''policy_blocked'' then ''SESSION_POLICY_BLOCKED''
                 else ''SESSION_CLOSED'')
      else Inr ())"

definition exactIntentMatch :: "intent_row \<Rightarrow> fingerprint \<Rightarrow> bool" where
  "exactIntentMatch i p \<longleftrightarrow>
     si_route_id i = fp_routeId p \<and> si_method i = fp_method p
     \<and> si_request_url_hash i = fp_requestUrlHash p \<and> si_seller_origin i = fp_sellerOrigin p
     \<and> si_resource_path i = fp_resourcePath p \<and> si_body_hash i = fp_bodyHash p
     \<and> si_header_allowlist_hash i = fp_headerAllowlistHash p
     \<and> si_ordinary_fingerprint i = fp_ordinaryFingerprint p
     \<and> si_purpose_label i = fp_purposeLabel p"

definition intentById :: "db \<Rightarrow> string \<Rightarrow> intent_row option" where
  "intentById db intentId = select_one (\<lambda>i. si_id i = intentId) (db_intents db)"

definition decodeIntentFor ::
  "intent_env \<Rightarrow> db \<Rightarrow> session_authority \<Rightarrow> intent_row \<Rightarrow> intent_row res" where
  "decodeIntentFor env db a i = decodeIntent (ie_host env) (ie_loopback env) db a i"

text \<open>The intent an alias event names.\<close>

definition aliasTarget ::
  "intent_env \<Rightarrow> db \<Rightarrow> string \<Rightarrow> string \<Rightarrow> session_authority \<Rightarrow> event_row \<Rightarrow> intent_row res" where
  "aliasTarget env db sessionId correlationId a row =
     (let code = ''INTENT_CORRUPTION'' in
      andthen (exactEventData row [''sessionId'', ''intentId'', ''correlationId'',
                 ''ordinaryFingerprint''] code) (\<lambda>data.
      andthen (boundedToken (get_prop data ''intentId'') code) (\<lambda>intentId.
      andthen (canonicalHash (get_prop data ''ordinaryFingerprint'') code) (\<lambda>print.
      if get_prop data ''sessionId'' \<noteq> JStr sessionId
         \<or> get_prop data ''correlationId'' \<noteq> JStr correlationId
      then fail code
      else
        case intentById db intentId of
          None \<Rightarrow> fail code
        | Some i \<Rightarrow>
            andthen (decodeIntentFor env db a i) (\<lambda>intent.
            if si_session_id intent \<noteq> sessionId \<or> si_ordinary_fingerprint intent \<noteq> print
            then fail code else Inr intent)))))"

definition loadCorrelatedIntent ::
  "intent_env \<Rightarrow> db \<Rightarrow> string \<Rightarrow> string \<Rightarrow> session_authority \<Rightarrow> intent_row option res" where
  "loadCorrelatedIntent env db sessionId correlationId a =
     andthen (correlationAliasIdFor (ie_host env) sessionId correlationId) (\<lambda>aliasId.
     let primary = correlatedRow db sessionId correlationId;
         aliases = eventsOf db ''intent_correlation'' aliasId ''intent.correlation_bound'' in
     if 1 < length aliases \<or> (primary \<noteq> None \<and> aliases \<noteq> []) then fail ''INTENT_CORRUPTION''
     else
       case primary of
         Some i \<Rightarrow> andthen (decodeIntentFor env db a i) (\<lambda>intent. Inr (Some intent))
       | None \<Rightarrow>
           (case aliases of
              [] \<Rightarrow> Inr None
            | row # _ \<Rightarrow>
                andthen (aliasTarget env db sessionId correlationId a row) (\<lambda>intent.
                Inr (Some intent))))"

definition appendCorrelationAlias ::
  "intent_env \<Rightarrow> intent_row \<Rightarrow> string \<Rightarrow> db \<Rightarrow> db res" where
  "appendCorrelationAlias env i correlationId db =
     (if correlationId = si_correlation_id i then Inr db
      else
        andthen (correlationAliasIdFor (ie_host env) (si_session_id i) correlationId) (\<lambda>aliasId.
        if correlatedRow db (si_session_id i) correlationId \<noteq> None
           \<or> eventsOf db ''intent_correlation'' aliasId ''intent.correlation_bound'' \<noteq> []
        then fail ''INTENT_CORRUPTION''
        else
          writeEvent env ''intent_correlation'' aliasId ''intent.correlation_bound''
            [(''sessionId'', JStr (si_session_id i)), (''intentId'', JStr (si_id i)),
             (''correlationId'', JStr correlationId),
             (''ordinaryFingerprint'', JStr (si_ordinary_fingerprint i))] db))"

definition CAPTURE_INPUT :: "string list" where
  "CAPTURE_INPUT =
     [''sessionId'', ''routeId'', ''method'', ''requestUrl'', ''headers'', ''bodyBytes'', ''purposeLabel'']"

text \<open>The request without its session, as it is fingerprinted.\<close>

definition prepareCapture ::
  "intent_env \<Rightarrow> jsval \<Rightarrow> string option \<Rightarrow> (string \<times> fingerprint) res" where
  "prepareCapture env input body =
     andthen (closedRecord input CAPTURE_INPUT [''correlationId''] ''INTENT_SCHEMA'') (\<lambda>request.
     andthen (boundedToken (get_prop request ''sessionId'') ''INTENT_SCHEMA'') (\<lambda>sessionId.
     andthen (prepareFingerprintInput (ie_host env) (ie_loopback env) True
                (JObj (map (\<lambda>k. (k, get_prop request k))
                  (FINGERPRINT_FIELDS
                   @ (if has_own request ''correlationId'' then [''correlationId''] else []))))
                body) (\<lambda>p. Inr (sessionId, p))))"

text \<open>The live retry of the same request in the session.\<close>

definition retryRows :: "db \<Rightarrow> string \<Rightarrow> fingerprint \<Rightarrow> intent_row list" where
  "retryRows db sessionId p =
     filter (\<lambda>i. si_session_id i = sessionId
              \<and> si_ordinary_fingerprint i = fp_ordinaryFingerprint p \<and> si_retry_matchable i = 1)
       (db_intents db)"

definition boundIntent :: "intent_row \<Rightarrow> fingerprint \<Rightarrow> session_authority \<Rightarrow> bool" where
  "boundIntent i p a \<longleftrightarrow>
     exactIntentMatch i p \<and> si_enrollment_hash i = sa_enrollmentHash a
     \<and> si_wallet_address i = sa_walletAddress a"

text \<open>The row of a new intent; its hash and key are filled in from its other columns.\<close>

definition capturedRow ::
  "string \<Rightarrow> string \<Rightarrow> string \<Rightarrow> fingerprint \<Rightarrow> session_authority \<Rightarrow> string \<Rightarrow> string \<Rightarrow> string
     \<Rightarrow> string \<Rightarrow> string \<Rightarrow> intent_row" where
  "capturedRow intentId requestId sessionId p a correlationId key hash createdAt updatedAt =
     \<lparr>si_id = intentId, si_request_id = requestId, si_session_id = sessionId,
      si_enrollment_hash = sa_enrollmentHash a, si_route_id = fp_routeId p, si_method = fp_method p,
      si_request_url_hash = fp_requestUrlHash p, si_seller_origin = fp_sellerOrigin p,
      si_resource_path = fp_resourcePath p, si_body_hash = fp_bodyHash p,
      si_header_allowlist_hash = fp_headerAllowlistHash p,
      si_ordinary_fingerprint = fp_ordinaryFingerprint p, si_purpose_label = fp_purposeLabel p,
      si_correlation_id = correlationId, si_idempotency_key = key,
      si_wallet_address = sa_walletAddress a, si_intent_hash = hash,
      si_challenge_projection_json = None, si_challenge_hash = None,
      si_challenge_received_at = None, si_state = ''captured'', si_created_at = createdAt,
      si_updated_at = updatedAt, si_retry_matchable = 1\<rparr>"

definition captureNew ::
  "intent_env \<Rightarrow> string \<Rightarrow> fingerprint \<Rightarrow> session_authority \<Rightarrow> db \<Rightarrow> (db \<times> intent_row) res" where
  "captureNew env sessionId p a db =
     andthen (case fp_correlationId p of
                Some c \<Rightarrow> Inr c | None \<Rightarrow> nextCorrelationId env db sessionId) (\<lambda>correlationId.
     andthen (nextIntentId env db) (\<lambda>intentId.
     andthen (nextRequestId env db) (\<lambda>requestId.
     andthen (canonicalTimestamp (JStr (ie_now env))) (\<lambda>createdAt.
     let row = capturedRow intentId requestId sessionId p a correlationId in
     andthen (intentHashFor (ie_host env) (row [] [] createdAt createdAt) (sa_policyVersionId a))
       (\<lambda>hash.
     andthen (idempotencyKeyFor (ie_host env) intentId requestId sessionId (sa_enrollmentHash a)
                (fp_ordinaryFingerprint p) correlationId) (\<lambda>key.
     let i = row key hash createdAt createdAt in
     andthen (insertIntent i db) (\<lambda>db1.
     andthen (writeEvent env ''spend_intent'' intentId ''intent.captured''
                (captureData i (sa_policyVersionId a)) db1) (\<lambda>db2.
     case intentById db2 intentId of
       None \<Rightarrow> fail ''INTENT_CORRUPTION''
     | Some r \<Rightarrow> andthen (decodeIntentFor env db2 a r) (\<lambda>intent. Inr (db2, intent))))))))))"

definition captureRetry ::
  "intent_env \<Rightarrow> string \<Rightarrow> fingerprint \<Rightarrow> session_authority \<Rightarrow> db \<Rightarrow> (db \<times> intent_row) res" where
  "captureRetry env sessionId p a db =
     (case retryRows db sessionId p of
        [] \<Rightarrow> captureNew env sessionId p a db
      | [i] \<Rightarrow>
          andthen (decodeIntentFor env db a i) (\<lambda>existing.
          if \<not> boundIntent existing p a then fail ''INTENT_CORRUPTION''
          else
            andthen (case fp_correlationId p of
                       None \<Rightarrow> Inr db
                     | Some c \<Rightarrow> appendCorrelationAlias env existing c db) (\<lambda>db'.
            Inr (db', existing)))
      | _ \<Rightarrow> fail ''INTENT_RETRY_AMBIGUOUS'')"

definition capturePrepared ::
  "intent_env \<Rightarrow> string \<Rightarrow> fingerprint \<Rightarrow> db \<Rightarrow> (db \<times> intent_row) res" where
  "capturePrepared env sessionId p db =
     andthen (loadSessionAuthority (ie_host env) db sessionId True) (\<lambda>a.
     andthen (requireOpen a) (\<lambda>_.
     andthen (case fp_correlationId p of
                None \<Rightarrow> Inr None
              | Some c \<Rightarrow> loadCorrelatedIntent env db sessionId c a) (\<lambda>correlated.
     case correlated of
       Some i \<Rightarrow> if \<not> boundIntent i p a then fail ''CORRELATION_CONFLICT'' else Inr (db, i)
     | None \<Rightarrow> captureRetry env sessionId p a db)))"

definition captureIntentInTransaction ::
  "intent_env \<Rightarrow> jsval \<Rightarrow> string option \<Rightarrow> db \<Rightarrow> (db \<times> intent_row) res" where
  "captureIntentInTransaction env input body db =
     andthen (prepareCapture env input body) (\<lambda>(sessionId, p). capturePrepared env sessionId p db)"

definition captureIntent ::
  "intent_env \<Rightarrow> jsval \<Rightarrow> string option \<Rightarrow> db \<Rightarrow> db \<times> intent_row res" where
  "captureIntent env input body db = transaction (captureIntentInTransaction env input body) db"

section \<open>Reading intents\<close>

definition getIntent :: "intent_env \<Rightarrow> jsval \<Rightarrow> db \<Rightarrow> intent_row option res" where
  "getIntent env intentId db =
     andthen (boundedToken intentId ''INTENT_SCHEMA'') (\<lambda>id.
     case intentById db id of
       None \<Rightarrow> Inr None
     | Some row \<Rightarrow>
         andthen (boundedToken (JStr (si_session_id row)) ''INTENT_CORRUPTION'') (\<lambda>sessionId.
         andthen (loadSessionAuthority (ie_host env) db sessionId False) (\<lambda>a.
         andthen (decodeIntentFor env db a row) (\<lambda>intent. Inr (Some intent)))))"

definition matchLive ::
  "intent_env \<Rightarrow> db \<Rightarrow> string \<Rightarrow> fingerprint \<Rightarrow> session_authority \<Rightarrow> string option res" where
  "matchLive env db sessionId p a =
     (case retryRows db sessionId p of
        [] \<Rightarrow> Inr None
      | [i] \<Rightarrow>
          andthen (decodeIntentFor env db a i) (\<lambda>existing.
          if \<not> exactIntentMatch existing p then fail ''INTENT_CORRUPTION''
          else Inr (Some (si_id existing)))
      | _ \<Rightarrow> fail ''INTENT_RETRY_AMBIGUOUS'')"

definition matchRetry :: "intent_env \<Rightarrow> jsval \<Rightarrow> string option \<Rightarrow> db \<Rightarrow> string option res" where
  "matchRetry env input body db =
     andthen (closedRecord input [''sessionId'', ''request''] [] ''INTENT_SCHEMA'') (\<lambda>request.
     andthen (boundedToken (get_prop request ''sessionId'') ''INTENT_SCHEMA'') (\<lambda>sessionId.
     andthen (prepareFingerprintInput (ie_host env) (ie_loopback env) True
                (get_prop request ''request'') body) (\<lambda>p.
     if sessionId \<notin> ss_id ` set (db_sessions db) then Inr None
     else
       andthen (loadSessionAuthority (ie_host env) db sessionId True) (\<lambda>a.
       andthen (requireOpen a) (\<lambda>_.
       andthen (case fp_correlationId p of
                  None \<Rightarrow> Inr None
                | Some c \<Rightarrow> loadCorrelatedIntent env db sessionId c a) (\<lambda>correlated.
       case correlated of
         Some i \<Rightarrow>
           if \<not> exactIntentMatch i p then fail ''CORRELATION_CONFLICT'' else Inr (Some (si_id i))
       | None \<Rightarrow> matchLive env db sessionId p a))))))"

section \<open>Attaching the challenge\<close>

record prepared_challenge =
  pc_intentId :: string
  pc_projection :: projection
  pc_projectionJson :: string
  pc_challengeHash :: string
  pc_receivedAt :: string

definition prepareChallenge :: "intent_env \<Rightarrow> jsval \<Rightarrow> prepared_challenge res" where
  "prepareChallenge env input =
     andthen (closedRecord input [''intentId'', ''paymentRequired'', ''challengeReceivedAt''] []
                ''CHALLENGE_ATTACH_SCHEMA'') (\<lambda>request.
     andthen (boundedToken (get_prop request ''intentId'') ''CHALLENGE_ATTACH_SCHEMA'') (\<lambda>intentId.
     andthen (canonicalTimestamp (get_prop request ''challengeReceivedAt'')) (\<lambda>receivedAt.
     andthen (projectPaymentRequired (ie_host env) (get_prop request ''paymentRequired''))
       (\<lambda>projection.
     andthen (canonicalJson (projection_js projection)) (\<lambda>bytes.
     Inr \<lparr>pc_intentId = intentId, pc_projection = projection, pc_projectionJson = bytes,
          pc_challengeHash = h_sha256 (ie_host env) bytes, pc_receivedAt = receivedAt\<rparr>)))))"

text \<open>The challenge is for the intent's URL with the operator's own description of the route.\<close>

definition routeMatches :: "intent_env \<Rightarrow> intent_row \<Rightarrow> projection \<Rightarrow> unit res" where
  "routeMatches env i pj =
     (case map_of (ie_routes env) (si_route_id i) of
        None \<Rightarrow> fail ''ROUTE_METADATA_REQUIRED''
      | Some m \<Rightarrow>
          if pj_description pj \<noteq> rm_description m \<or> pj_mimeType pj \<noteq> rm_mimeType m
          then fail ''CHALLENGE_RESOURCE_METADATA_MISMATCH''
          else if pj_urlHash pj \<noteq> si_request_url_hash i then fail ''CHALLENGE_RESOURCE_MISMATCH''
          else Inr ())"

definition toChallenged :: "prepared_challenge \<Rightarrow> string \<Rightarrow> intent_row \<Rightarrow> intent_row" where
  "toChallenged c updatedAt i =
     i\<lparr>si_challenge_projection_json := Some (pc_projectionJson c),
       si_challenge_hash := Some (pc_challengeHash c),
       si_challenge_received_at := Some (pc_receivedAt c),
       si_state := ''challenged'', si_updated_at := updatedAt\<rparr>"

definition attachedData :: "prepared_challenge \<Rightarrow> string \<Rightarrow> (string \<times> jsval) list" where
  "attachedData c updatedAt =
     [(''challengeHash'', JStr (pc_challengeHash c)), (''challengeReceivedAt'', JStr (pc_receivedAt c)),
      (''projectionHash'', JStr (pc_challengeHash c)), (''updatedAt'', JStr updatedAt)]"

text \<open>The guarded update of one intent, its event, and the intent read back.\<close>

definition moveIntent ::
  "intent_env \<Rightarrow> string \<Rightarrow> session_authority \<Rightarrow> string \<Rightarrow> (intent_row \<Rightarrow> bool)
     \<Rightarrow> (intent_row \<Rightarrow> intent_row) \<Rightarrow> string \<Rightarrow> (string \<times> jsval) list \<Rightarrow> db
     \<Rightarrow> (db \<times> intent_row) res" where
  "moveIntent env code a intentId condition change eventType data db =
     andthen (update_one code (\<lambda>i. si_id i = intentId \<and> condition i) change (db_intents db))
       (\<lambda>intents.
     andthen (writeEvent env ''spend_intent'' intentId eventType data (db\<lparr>db_intents := intents\<rparr>))
       (\<lambda>db'.
     case intentById db' intentId of
       None \<Rightarrow> fail ''INTENT_CORRUPTION''
     | Some r \<Rightarrow> andthen (decodeIntentFor env db' a r) (\<lambda>intent. Inr (db', intent))))"

definition attachFirst ::
  "intent_env \<Rightarrow> prepared_challenge \<Rightarrow> session_authority \<Rightarrow> intent_row \<Rightarrow> db
     \<Rightarrow> (db \<times> intent_row) res" where
  "attachFirst env c a i db =
     (if si_state i \<noteq> ''captured'' then fail ''INTENT_CORRUPTION''
      else
        andthen (canonicalTimestamp (JStr (ie_now env))) (\<lambda>updatedAt.
        if timestampIsBefore (pc_receivedAt c) (si_created_at i)
           \<or> timestampIsBefore updatedAt (pc_receivedAt c)
           \<or> timestampIsBefore updatedAt (si_updated_at i)
        then fail ''CHALLENGE_TIME''
        else
          moveIntent env ''CHALLENGE_CHANGED'' a (pc_intentId c)
            (\<lambda>r. si_state r = ''captured'' \<and> si_challenge_projection_json r = None
                 \<and> si_challenge_hash r = None \<and> si_challenge_received_at r = None)
            (toChallenged c updatedAt) ''intent.challenge_attached'' (attachedData c updatedAt) db))"

definition attachPrepared :: "intent_env \<Rightarrow> prepared_challenge \<Rightarrow> db \<Rightarrow> (db \<times> intent_row) res" where
  "attachPrepared env c db =
     (case intentById db (pc_intentId c) of
        None \<Rightarrow> fail ''INTENT_UNKNOWN''
      | Some row \<Rightarrow>
          andthen (boundedToken (JStr (si_session_id row)) ''INTENT_CORRUPTION'') (\<lambda>sessionId.
          andthen (loadSessionAuthority (ie_host env) db sessionId True) (\<lambda>a.
          andthen (requireOpen a) (\<lambda>_.
          andthen (decodeIntentFor env db a row) (\<lambda>i.
          andthen (routeMatches env i (pc_projection c)) (\<lambda>_.
          if si_challenge_hash i \<noteq> None
          then
            if si_challenge_projection_json i \<noteq> Some (pc_projectionJson c)
               \<or> si_challenge_hash i \<noteq> Some (pc_challengeHash c)
               \<or> si_challenge_received_at i \<noteq> Some (pc_receivedAt c)
            then fail ''CHALLENGE_CHANGED'' else Inr (db, i)
          else attachFirst env c a i db))))))"

definition attachChallengeInTransaction ::
  "intent_env \<Rightarrow> jsval \<Rightarrow> db \<Rightarrow> (db \<times> intent_row) res" where
  "attachChallengeInTransaction env input db =
     andthen (prepareChallenge env input) (\<lambda>c. attachPrepared env c db)"

definition attachChallenge :: "intent_env \<Rightarrow> jsval \<Rightarrow> db \<Rightarrow> db \<times> intent_row res" where
  "attachChallenge env input db = transaction (attachChallengeInTransaction env input) db"

section \<open>Transitions\<close>

record prepared_transition =
  pt_intentId :: string
  pt_expected :: string
  pt_next :: string
  pt_reason :: string

definition prepareTransition :: "jsval \<Rightarrow> prepared_transition res" where
  "prepareTransition input =
     andthen (closedRecord input [''intentId'', ''expectedState'', ''nextState'', ''reasonCode''] []
                ''INTENT_TRANSITION_SCHEMA'') (\<lambda>request.
     andthen (boundedToken (get_prop request ''intentId'') ''INTENT_TRANSITION_SCHEMA'') (\<lambda>intentId.
     case (get_prop request ''expectedState'', get_prop request ''nextState'') of
       (JStr expected, JStr next) \<Rightarrow>
         if \<not> known_state expected \<or> \<not> known_state next then fail ''INTENT_TRANSITION''
         else
           andthen (boundedToken (get_prop request ''reasonCode'') ''INTENT_TRANSITION_SCHEMA'')
             (\<lambda>reason.
           Inr \<lparr>pt_intentId = intentId, pt_expected = expected, pt_next = next, pt_reason = reason\<rparr>)
     | _ \<Rightarrow> fail ''INTENT_TRANSITION''))"

definition ADVANCING :: "string list" where
  "ADVANCING = [''challenged'', ''approval_pending'', ''authorized'', ''reserved'', ''signing'']"

definition toState :: "string \<Rightarrow> string \<Rightarrow> intent_row \<Rightarrow> intent_row" where
  "toState next updatedAt i =
     i\<lparr>si_state := next, si_retry_matchable := (if next = ''terminal'' then 0 else 1),
       si_updated_at := updatedAt\<rparr>"

definition transitionData :: "prepared_transition \<Rightarrow> string \<Rightarrow> (string \<times> jsval) list" where
  "transitionData t updatedAt =
     [(''previousState'', JStr (pt_expected t)), (''nextState'', JStr (pt_next t)),
      (''reasonCode'', JStr (pt_reason t)), (''retryMatchable'', JBool (pt_next t \<noteq> ''terminal'')),
      (''updatedAt'', JStr updatedAt)]"

definition transitionPrepared ::
  "intent_env \<Rightarrow> prepared_transition \<Rightarrow> db \<Rightarrow> (db \<times> intent_row) res" where
  "transitionPrepared env t db =
     (case intentById db (pt_intentId t) of
        None \<Rightarrow> fail ''INTENT_UNKNOWN''
      | Some row \<Rightarrow>
          let advances = pt_next t \<in> set ADVANCING in
          andthen (boundedToken (JStr (si_session_id row)) ''INTENT_CORRUPTION'') (\<lambda>sessionId.
          andthen (loadSessionAuthority (ie_host env) db sessionId advances) (\<lambda>a.
          andthen (if advances then requireOpen a else Inr ()) (\<lambda>_.
          andthen (decodeIntentFor env db a row) (\<lambda>i.
          if si_state i \<noteq> pt_expected t then fail ''INTENT_STATE_CONFLICT''
          else if \<not> legal_edge (pt_expected t) (pt_next t) \<or> pt_next t = ''challenged''
          then fail ''INTENT_TRANSITION''
          else
            andthen (canonicalTimestamp (JStr (ie_now env))) (\<lambda>updatedAt.
            if timestampIsBefore updatedAt (si_updated_at i) then fail ''INTENT_TIME''
            else
              moveIntent env ''INTENT_STATE_CONFLICT'' a (pt_intentId t)
                (\<lambda>r. si_state r = pt_expected t) (toState (pt_next t) updatedAt)
                ''intent.transitioned'' (transitionData t updatedAt) db))))))"

definition transitionInTransaction :: "intent_env \<Rightarrow> jsval \<Rightarrow> db \<Rightarrow> (db \<times> intent_row) res" where
  "transitionInTransaction env input db =
     andthen (prepareTransition input) (\<lambda>t. transitionPrepared env t db)"

definition intentTransition :: "intent_env \<Rightarrow> jsval \<Rightarrow> db \<Rightarrow> db \<times> intent_row res" where
  "intentTransition env input db = transaction (transitionInTransaction env input) db"

end
