(* ===== verification/IntentClosing.thy ===== *)
theory IntentClosing
  imports IntentRepository
begin

text \<open>
  The last part of \<^verbatim>\<open>src/spikes/pi-wielder/src/kernel/intent-builder.mjs\<close>: closing a Spend Session
  and moving a policy-blocked one under the active policy. Both are commands of an operator, confirmed
  by the hash of the session they saw, and both refuse while any money of the session is unsettled.
\<close>

section \<open>Monetary safety\<close>

text \<open>The intents of the session; the joins on \<^verbatim>\<open>spend_intents\<close> range over their ids.\<close>

definition sessionIntents :: "db \<Rightarrow> string \<Rightarrow> intent_row list" where
  "sessionIntents db sessionId = filter (\<lambda>i. si_session_id i = sessionId) (db_intents db)"

definition intentSettled :: "intent_env \<Rightarrow> db \<Rightarrow> session_authority \<Rightarrow> intent_row \<Rightarrow> unit res" where
  "intentSettled env db a row =
     andthen (decodeIntentFor env db a row) (\<lambda>i.
     if si_state i \<noteq> ''terminal'' \<or> si_retry_matchable i = 1
        \<or> si_id i \<notin> bo_intent_id ` set (db_buyers db)
     then fail ''SESSION_MONETARY_AMBIGUITY'' else Inr ())"

definition openApproval :: "db \<Rightarrow> string \<Rightarrow> bool" where
  "openApproval db sessionId \<longleftrightarrow>
     list_ex (\<lambda>i. list_ex (\<lambda>ap. ap_intent_id ap = si_id i
         \<and> (ap_decision ap = ''pending''
            \<or> (ap_decision ap = ''approved''
               \<and> \<not> (si_state i = ''terminal'' \<and> si_retry_matchable i = 0)))) (db_approvals db))
       (sessionIntents db sessionId)"

definition heldBudget :: "db \<Rightarrow> string \<Rightarrow> bool" where
  "heldBudget db sessionId \<longleftrightarrow>
     list_ex (\<lambda>b. br_session_id b = sessionId \<and> br_state b \<in> {''reserved'', ''unresolved''})
       (db_budgets db)"

definition activePayment :: "db \<Rightarrow> string \<Rightarrow> bool" where
  "activePayment db sessionId \<longleftrightarrow>
     list_ex (\<lambda>p. pa_intent_id p \<in> si_id ` set (sessionIntents db sessionId)
       \<and> pa_state p \<in> {''reserved'', ''signing'', ''signed'', ''retrying'', ''unresolved''})
       (db_attempts db)"

definition paymentCandidate :: "db \<Rightarrow> string \<Rightarrow> bool" where
  "paymentCandidate db sessionId \<longleftrightarrow>
     list_ex (\<lambda>c. rc_intent_id c \<in> si_id ` set (sessionIntents db sessionId)
       \<and> rc_state c = ''pending'') (db_candidates db)"

definition executionCase :: "db \<Rightarrow> string \<Rightarrow> bool" where
  "executionCase db sessionId \<longleftrightarrow>
     list_ex (\<lambda>r. er_intent_id r \<in> si_id ` set (sessionIntents db sessionId)
       \<and> er_state r \<noteq> ''resolved'') (db_resolutions db)"

text \<open>A paid execution that failed or is unknown, without a resolution that is resolved.\<close>

definition executionWithoutResolution :: "db \<Rightarrow> string \<Rightarrow> bool" where
  "executionWithoutResolution db sessionId \<longleftrightarrow>
     list_ex (\<lambda>eo.
       let n = eo_intent_id eo; cases = filter (\<lambda>r. er_intent_id r = n) (db_resolutions db) in
       n \<in> si_id ` set (sessionIntents db sessionId) \<and> eo_state eo \<in> {''failed'', ''unknown''}
       \<and> (list_ex (\<lambda>p. pa_intent_id p = n \<and> pa_state p = ''settled'') (db_attempts db)
          \<or> list_ex (\<lambda>b. br_intent_id b = n \<and> br_state b = ''committed'') (db_budgets db))
       \<and> (cases = [] \<or> list_ex (\<lambda>r. er_state r \<noteq> ''resolved'') cases)) (db_outcomes db)"

definition refundCase :: "db \<Rightarrow> string \<Rightarrow> bool" where
  "refundCase db sessionId \<longleftrightarrow>
     list_ex (\<lambda>r. rf_intent_id r \<in> si_id ` set (sessionIntents db sessionId)
       \<and> rf_state r \<in> {''pending'', ''unresolved''}) (db_refunds db)"

text \<open>The last reconciliation of its kind for an intent left it unresolved.\<close>

fun unresolvedIn :: "string set \<Rightarrow> reconciliation_row list \<Rightarrow> bool" where
  "unresolvedIn ids [] = False"
| "unresolvedIn ids (r # later) =
     ((rr_intent_id r \<in> ids \<and> rr_outcome r = ''unresolved''
       \<and> \<not> list_ex (\<lambda>l. rr_intent_id l = rr_intent_id r \<and> rr_kind l = rr_kind r) later)
      \<or> unresolvedIn ids later)"

definition unresolvedReconciliation :: "db \<Rightarrow> string \<Rightarrow> bool" where
  "unresolvedReconciliation db sessionId =
     unresolvedIn (si_id ` set (sessionIntents db sessionId)) (db_reconciliations db)"

definition monetaryAmbiguity :: "db \<Rightarrow> string \<Rightarrow> bool" where
  "monetaryAmbiguity db sessionId \<longleftrightarrow>
     openApproval db sessionId \<or> heldBudget db sessionId \<or> activePayment db sessionId
     \<or> paymentCandidate db sessionId \<or> executionCase db sessionId
     \<or> executionWithoutResolution db sessionId \<or> refundCase db sessionId
     \<or> unresolvedReconciliation db sessionId"

definition assertSessionMonetarySafety ::
  "intent_env \<Rightarrow> db \<Rightarrow> string \<Rightarrow> session_authority \<Rightarrow> unit res" where
  "assertSessionMonetarySafety env db sessionId a =
     andthen (check_each (intentSettled env db a) (sort_key si_id (sessionIntents db sessionId)))
       (\<lambda>_. if monetaryAmbiguity db sessionId then fail ''SESSION_MONETARY_AMBIGUITY'' else Inr ())"

section \<open>Closing a session\<close>

definition toClosedSession :: "string \<Rightarrow> session_row \<Rightarrow> session_row" where
  "toClosedSession at s = s\<lparr>ss_state := ''closed'', ss_closed_at := Some at\<rparr>"

definition toClosedBinding :: "string \<Rightarrow> binding_row \<Rightarrow> binding_row" where
  "toClosedBinding at b =
     b\<lparr>sb_state := ''closed'', sb_last_seen_at := at, sb_closed_at := Some at\<rparr>"

text \<open>The two guarded updates; \<^verbatim>\<open>code\<close> is what a lost race on the binding reports.\<close>

definition closeRows :: "string \<Rightarrow> session_authority \<Rightarrow> db \<Rightarrow> db res" where
  "closeRows at a db =
     andthen (update_one ''SESSION_CONFIRMATION_STALE''
                (\<lambda>s. ss_id s = sa_id a \<and> ss_state s = sa_state a \<and> ss_closed_at s = None)
                (toClosedSession at) (db_sessions db)) (\<lambda>sessions.
     andthen (update_one ''SESSION_AUTHORITY_AMBIGUOUS''
                (\<lambda>b. sb_id b = sa_bindingId a \<and> sb_session_id b = sa_id a \<and> sb_state b = ''open''
                     \<and> sb_closed_at b = None)
                (toClosedBinding at) (db_bindings db)) (\<lambda>bindings.
     Inr (db\<lparr>db_sessions := sessions, db_bindings := bindings\<rparr>)))"

definition closingTime :: "intent_env \<Rightarrow> session_authority \<Rightarrow> string res" where
  "closingTime env a =
     andthen (canonicalTimestamp (JStr (ie_now env))) (\<lambda>at.
     if timestampIsBefore at (sa_lastSeenAt a) then fail ''SESSION_TIME'' else Inr at)"

definition bindingClosed ::
  "intent_env \<Rightarrow> session_authority \<Rightarrow> string \<Rightarrow> string \<Rightarrow> db \<Rightarrow> db res" where
  "bindingClosed env a at reasonCode db =
     writeEvent env ''session_binding'' (sa_bindingId a) ''session.binding_closed''
       [(''sessionId'', JStr (sa_id a)), (''closedAt'', JStr at), (''reasonCode'', JStr reasonCode)] db"

definition loadPublic :: "intent_env \<Rightarrow> db \<Rightarrow> string \<Rightarrow> bool \<Rightarrow> public_session res" where
  "loadPublic env db sessionId requireActive =
     andthen (loadSessionAuthority (ie_host env) db sessionId requireActive)
       (publicSession (ie_host env))"

definition loadPublicRows :: "intent_env \<Rightarrow> db \<Rightarrow> string \<Rightarrow> bool \<Rightarrow> public_session res" where
  "loadPublicRows env db sessionId requireActive =
     andthen (loadSessionRows (ie_host env) db sessionId requireActive)
       (publicSession (ie_host env))"

definition closeReplay ::
  "intent_env \<Rightarrow> string \<Rightarrow> string \<Rightarrow> session_authority \<Rightarrow> db \<Rightarrow> public_session res" where
  "closeReplay env sessionId expected a db =
     andthen (loadSessionCommandEvent db sessionId ''session.closed'') (\<lambda>found.
     case found of
       None \<Rightarrow> fail ''SESSION_CONFIRMATION_STALE''
     | Some event \<Rightarrow>
         if get_prop event ''expectedSessionHash'' \<noteq> JStr expected
         then fail ''SESSION_CONFIRMATION_STALE''
         else
           andthen (publicSession (ie_host env) a) (\<lambda>closed.
           if get_prop event ''closedSessionHash'' \<noteq> JStr (ps_sessionHash closed)
              \<or> get_prop event ''closedAt'' \<noteq> option_string (sa_closedAt a)
           then fail ''SESSION_AUTHORITY_AMBIGUOUS'' else Inr closed))"

definition closeLive ::
  "intent_env \<Rightarrow> string \<Rightarrow> string \<Rightarrow> session_authority \<Rightarrow> db \<Rightarrow> (db \<times> public_session) res" where
  "closeLive env sessionId expected a db =
     andthen (publicSession (ie_host env) a) (\<lambda>current.
     if ps_sessionHash current \<noteq> expected then fail ''SESSION_CONFIRMATION_STALE''
     else
       andthen (assertSessionMonetarySafety env db sessionId a) (\<lambda>_.
       andthen (closingTime env a) (\<lambda>at.
       andthen (closeRows at a db) (\<lambda>db1.
       andthen (loadPublicRows env db1 sessionId False) (\<lambda>closed.
       andthen (bindingClosed env a at ''SESSION_CLOSED'' db1) (\<lambda>db2.
       andthen (writeEvent env ''spend_session'' sessionId ''session.closed''
                  [(''expectedSessionHash'', JStr expected),
                   (''closedSessionHash'', JStr (ps_sessionHash closed)), (''closedAt'', JStr at)] db2)
         (\<lambda>db3.
       andthen (loadPublic env db3 sessionId False) (\<lambda>persisted.
       if ps_sessionHash persisted \<noteq> ps_sessionHash closed then fail ''SESSION_AUTHORITY_AMBIGUOUS''
       else Inr (db3, persisted)))))))))"

definition closeBoundSessionInTransaction ::
  "intent_env \<Rightarrow> jsval \<Rightarrow> db \<Rightarrow> (db \<times> public_session) res" where
  "closeBoundSessionInTransaction env input db =
     andthen (closedRecord input [''sessionId'', ''expectedSessionHash''] [] ''SESSION_CLOSE_SCHEMA'')
       (\<lambda>request.
     andthen (boundedToken (get_prop request ''sessionId'') ''SESSION_CLOSE_SCHEMA'') (\<lambda>sessionId.
     andthen (canonicalHash (get_prop request ''expectedSessionHash'') ''SESSION_CLOSE_SCHEMA'')
       (\<lambda>expected.
     andthen (loadSessionAuthority (ie_host env) db sessionId False) (\<lambda>a.
     if sa_state a = ''closed''
     then andthen (closeReplay env sessionId expected a db) (\<lambda>closed. Inr (db, closed))
     else if sa_state a \<noteq> ''open'' \<and> sa_state a \<noteq> ''policy_blocked'' then fail ''SESSION_STATE''
     else closeLive env sessionId expected a db))))"

section \<open>Moving a blocked session under the active policy\<close>

definition transitionReplay ::
  "intent_env \<Rightarrow> string \<Rightarrow> string \<Rightarrow> string \<Rightarrow> session_authority \<Rightarrow> db
     \<Rightarrow> (public_session \<times> public_session) res" where
  "transitionReplay env sessionId target expected a db =
     andthen (loadSessionCommandEvent db sessionId ''session.policy_transitioned'') (\<lambda>found.
     case found of
       None \<Rightarrow> fail ''SESSION_CONFIRMATION_STALE''
     | Some event \<Rightarrow>
         if get_prop event ''expectedSessionHash'' \<noteq> JStr expected
            \<or> get_prop event ''targetPolicyVersionId'' \<noteq> JStr target
         then fail ''SESSION_CONFIRMATION_STALE''
         else
           andthen (publicSession (ie_host env) a) (\<lambda>previous.
           andthen (loadHistoricalReplacementSession (ie_host env) db event a) (\<lambda>replacement.
           if JStr (ps_sessionHash previous) \<noteq> get_prop event ''closedSessionHash''
              \<or> get_prop event ''transitionedAt'' \<noteq> option_string (sa_closedAt a)
              \<or> JStr (ps_sessionHash replacement) \<noteq> get_prop event ''replacementSessionHash''
           then fail ''SESSION_AUTHORITY_AMBIGUOUS'' else Inr (previous, replacement))))"

text \<open>The guards of a live transition, with the time it gets.\<close>

definition transitionGuards ::
  "intent_env \<Rightarrow> string \<Rightarrow> string \<Rightarrow> string \<Rightarrow> session_authority \<Rightarrow> db \<Rightarrow> string res" where
  "transitionGuards env sessionId target expected a db =
     (if ae_state (sa_enrollment a) \<noteq> ''active'' then fail ''AGENT_REVOKED''
      else if sa_state a \<noteq> ''policy_blocked'' then fail ''SESSION_STATE''
      else
        andthen (publicSession (ie_host env) a) (\<lambda>previous.
        if ps_sessionHash previous \<noteq> expected then fail ''SESSION_CONFIRMATION_STALE''
        else if activePolicyId db \<noteq> Some target then fail ''POLICY_NOT_ACTIVE''
        else
          andthen (validatePolicyRow (ie_host env) (policyRowById db target)) (\<lambda>policy.
          if p_wallet (ip_policy policy) \<noteq> sa_walletAddress a then fail ''POLICY_WALLET_MISMATCH''
          else
            andthen (assertSessionMonetarySafety env db sessionId a) (\<lambda>_. closingTime env a))))"

text \<open>The events of a transition, in their order.\<close>

definition transitionEvents ::
  "intent_env \<Rightarrow> session_authority \<Rightarrow> session_row \<Rightarrow> binding_row \<Rightarrow> string \<Rightarrow> public_session
     \<Rightarrow> public_session \<Rightarrow> db \<Rightarrow> db res" where
  "transitionEvents env a s b expected previous replacement db =
     andthen (bindingClosed env a (ss_created_at s) ''POLICY_SUPERSEDED'' db) (\<lambda>db1.
     andthen (startSession env s b (ps_sessionHash replacement) db1) (\<lambda>db2.
     writeEvent env ''spend_session'' (sa_id a) ''session.policy_transitioned''
       [(''expectedSessionHash'', JStr expected),
        (''targetPolicyVersionId'', JStr (ss_policy_version_id s)),
        (''closedSessionHash'', JStr (ps_sessionHash previous)),
        (''replacementSessionId'', JStr (ss_id s)),
        (''replacementSessionHash'', JStr (ps_sessionHash replacement)),
        (''transitionedAt'', JStr (ss_created_at s))] db2))"

definition transitionLive ::
  "intent_env \<Rightarrow> string \<Rightarrow> string \<Rightarrow> string \<Rightarrow> session_authority \<Rightarrow> db
     \<Rightarrow> (db \<times> public_session \<times> public_session) res" where
  "transitionLive env sessionId target expected a db =
     andthen (transitionGuards env sessionId target expected a db) (\<lambda>at.
     andthen (closeRows at a db) (\<lambda>db1.
     andthen (nextSessionIdentity env db1) (\<lambda>(replacementId, replacementBindingId).
     let s = newSession replacementId (sa_adapterId a) (sa_walletAddress a) target at;
         b = newBinding replacementBindingId (sa_agentInstanceId a) (sa_credentialDigest a)
               (sa_enrollmentHash a) replacementId at in
     andthen (insertSession s db1) (\<lambda>db2.
     andthen (insertBinding b db2) (\<lambda>db3.
     andthen (loadPublicRows env db3 sessionId False) (\<lambda>previous.
     andthen (loadPublicRows env db3 replacementId True) (\<lambda>replacement.
     andthen (transitionEvents env a s b expected previous replacement db3) (\<lambda>db4.
     andthen (loadPublic env db4 sessionId False) (\<lambda>persistedPrevious.
     andthen (loadPublic env db4 replacementId True) (\<lambda>persistedReplacement.
     if ps_sessionHash persistedPrevious \<noteq> ps_sessionHash previous
        \<or> ps_sessionHash persistedReplacement \<noteq> ps_sessionHash replacement
     then fail ''SESSION_AUTHORITY_AMBIGUOUS''
     else Inr (db4, persistedPrevious, persistedReplacement)))))))))))"

definition transitionBlockedSessionInTransaction ::
  "intent_env \<Rightarrow> jsval \<Rightarrow> db \<Rightarrow> (db \<times> public_session \<times> public_session) res" where
  "transitionBlockedSessionInTransaction env input db =
     andthen (closedRecord input [''sessionId'', ''targetPolicyVersionId'', ''expectedSessionHash''] []
                ''SESSION_TRANSITION_SCHEMA'') (\<lambda>request.
     andthen (boundedToken (get_prop request ''sessionId'') ''SESSION_TRANSITION_SCHEMA'')
       (\<lambda>sessionId.
     andthen (boundedToken (get_prop request ''targetPolicyVersionId'') ''SESSION_TRANSITION_SCHEMA'')
       (\<lambda>target.
     andthen (canonicalHash (get_prop request ''expectedSessionHash'') ''SESSION_TRANSITION_SCHEMA'')
       (\<lambda>expected.
     andthen (loadSessionAuthority (ie_host env) db sessionId False) (\<lambda>a.
     if sa_state a = ''closed''
     then andthen (transitionReplay env sessionId target expected a db) (\<lambda>(previous, replacement).
            Inr (db, previous, replacement))
     else transitionLive env sessionId target expected a db)))))"

end
