(* ===== verification/IntentFacts.thy ===== *)
theory IntentFacts
  imports IntentClosing LedgerSafety PolicyRepositoryFacts
begin

text \<open>
  What the operations of the intent repository do to the database, read off their definitions: which
  rows a loaded session authority joins, how one event is written and read back, and the abstract
  step each operation takes on sessions, bindings and intents.
\<close>

lemmas intent_elims = handler_elims case_prod_InrE

section \<open>One event\<close>

lemma writeEvent_obtains:
  assumes "writeEvent env et ei ty data db = Inr db'" and "js_wf (JObj data)"
  obtains e where "db' = db\<lparr>db_events := db_events db @ [e]\<rparr>"
    and "ev_entity_type e = et" and "ev_entity_id e = ei" and "ev_event_type e = ty"
    and "canonicalJson (JObj data) = Inr (ev_data_json e)" and "canonical_time (ev_created_at e)"
    and "chained (ie_host env) (db_events db) e"
proof -
  from assms(1) obtain x where a: "appendEvent (ie_host env) (ie_store env) (kernelEvent et ei ty data) db
      = Inr (db', x)"
    by (auto simp: writeEvent_def)
  have wf: "js_wf (evt_data (kernelEvent et ei ty data))"
    using assms(2) by (simp add: kernelEvent_def)
  from a wf obtain e kvs where e: "db' = db\<lparr>db_events := db_events db @ [e]\<rparr>"
      "evt_entityType (kernelEvent et ei ty data) = JStr (ev_entity_type e)"
      "evt_entityId (kernelEvent et ei ty data) = JStr (ev_entity_id e)"
      "evt_eventType (kernelEvent et ei ty data) = JStr (ev_event_type e)"
      "evt_data (kernelEvent et ei ty data) = JObj kvs"
      "canonicalJson (JObj kvs) = Inr (ev_data_json e)"
      "chained (ie_host env) (db_events db) e"
    by (rule appendEvent_Inr)
  have "canonical_time (ev_created_at e)"
    using a arg_cong [OF e(1), of db_events] unfolding appendEvent_def
    by (auto simp: Let_def canonicalTimestamp_def split: jsval.splits if_splits)
  with e that show thesis by (simp add: kernelEvent_def)
qed

text \<open>Only the log grew, one chained event after the other.\<close>

definition log_extended :: "host \<Rightarrow> db \<Rightarrow> db \<Rightarrow> bool" where
  "log_extended h db db' \<longleftrightarrow>
     (\<exists>es. db' = db\<lparr>db_events := es\<rparr> \<and> log_grows h (db_events db) es)"

lemma log_extended_refl: "log_extended h db db"
  unfolding log_extended_def by (intro exI [of _ "db_events db"]) (simp add: same_log)

lemma log_extended_trans:
  assumes "log_extended h db1 db2" and "log_extended h db db1"
  shows "log_extended h db db2"
proof -
  from assms obtain es es' where "db1 = db\<lparr>db_events := es\<rparr>" "log_grows h (db_events db) es"
      "db2 = db1\<lparr>db_events := es'\<rparr>" "log_grows h es es'"
    by (auto simp: log_extended_def)
  then show ?thesis
    unfolding log_extended_def by (intro exI [of _ es']) (auto intro: log_grows_trans)
qed

lemma writeEvent_log:
  assumes "writeEvent env et ei ty data db = Inr db'" and "js_wf (JObj data)"
  shows "log_extended (ie_host env) db db'"
  using assms
  by (rule writeEvent_obtains) (auto simp: log_extended_def intro: append_log same_log)

text \<open>Stored data read back.\<close>

lemma boundedToken_Inr:
  "boundedToken v code = Inr s \<longleftrightarrow> v = JStr s \<and> length s \<le> 200 \<and> token_pattern s"
  by (auto simp: boundedToken_def canonicalToken_Inr)

lemma boundedToken_JStr:
  "length s \<le> 200 \<Longrightarrow> token_pattern s \<Longrightarrow> boundedToken (JStr s) code = Inr s"
  by (simp add: boundedToken_Inr)

lemma closedRecord_Inr:
  "closedRecord v required optional code = Inr kvs \<Longrightarrow>
   v = JObj kvs \<and> (\<forall>k \<in> set required. has_own kvs k)"
  by (auto simp: closedRecord_def list_ex_iff split: jsval.splits if_splits)

lemma persistedTimestamp_Inr:
  "persistedTimestamp v code = Inr s \<longleftrightarrow> v = JStr s \<and> canonical_time s"
  by (auto simp: persistedTimestamp_def canonicalTimestamp_def split: jsval.splits if_splits)

section \<open>The session authority\<close>

text \<open>The rows behind an accepted session.\<close>

definition session_rows ::
  "db \<Rightarrow> string \<Rightarrow> session_row \<Rightarrow> binding_row \<Rightarrow> enrollment_row \<Rightarrow> bool" where
  "session_rows db sessionId s b e \<longleftrightarrow>
     select_one (\<lambda>r. ss_id r = sessionId) (db_sessions db) = Some s \<and> ss_id s = sessionId
     \<and> filter (\<lambda>r. sb_session_id r = sessionId) (db_bindings db) = [b]
     \<and> select_one (\<lambda>r. ae_enrollment_hash r = sb_enrollment_hash b) (db_enrollments db) = Some e
     \<and> sb_agent_instance_id b = ae_agent_instance_id e
     \<and> sb_credential_digest b = ae_credential_digest e \<and> sb_enrollment_hash b = ae_enrollment_hash e
     \<and> ss_adapter_id s = ''pi:'' @ ae_agent_instance_id e"

lemma validateEnrollmentRow_Inr:
  "validateEnrollmentRow h active found = Inr e \<Longrightarrow> found = Some e \<and> (active \<longrightarrow> ae_state e = ''active'')"
  by (auto simp: validateEnrollmentRow_def Let_def split: option.splits if_splits)

lemma validatePolicyRow_Inr:
  "validatePolicyRow h found = Inr p \<Longrightarrow>
   \<exists>row. found = Some row \<and> ip_id p = pvr_id row \<and> ip_hash p = pvr_policy_hash row"
  by (auto simp: validatePolicyRow_def boundedToken_Inr Let_def
      split: option.splits if_splits)

lemma loadSessionRows_obtains:
  assumes "loadSessionRows h db sessionId active = Inr a"
  obtains s b e p where "session_rows db sessionId s b e" and "a = sessionAuthority s b e p"
    and "validateEnrollmentRow h active (Some e) = Inr e"
    and "validatePolicyRow h (policyRowById db (ss_policy_version_id s)) = Inr p"
    and "sessionFields s b = Inr ()" and "bindingIdFor h sessionId = Inr (sb_id b)"
    and "pairIsValid sessionId (sb_id b) s b e p" and "activeBinding db s = Inr ()"
proof -
  from assms obtain s bs where s: "select_one (\<lambda>r. ss_id r = sessionId) (db_sessions db) = Some s"
    and bs: "filter (\<lambda>r. sb_session_id r = sessionId) (db_bindings db) = bs"
    by (auto simp: loadSessionRows_def Let_def split: option.splits)
  with assms obtain b where b: "bs = [b]"
    by (auto simp: loadSessionRows_def Let_def split: list.splits)
  from assms s bs b obtain e p i where
      e: "validateEnrollmentRow h active
        (select_one (\<lambda>e. ae_enrollment_hash e = sb_enrollment_hash b) (db_enrollments db)) = Inr e"
    and p: "validatePolicyRow h (policyRowById db (ss_policy_version_id s)) = Inr p"
    and f: "sessionFields s b = Inr ()" and i: "bindingIdFor h (ss_id s) = Inr i"
    and pair: "pairIsValid sessionId i s b e p" and act: "activeBinding db s = Inr ()"
    and a: "a = sessionAuthority s b e p"
    by (auto simp: loadSessionRows_def Let_def)
  from e have row: "select_one (\<lambda>e. ae_enrollment_hash e = sb_enrollment_hash b) (db_enrollments db)
      = Some e"
    by (auto dest: validateEnrollmentRow_Inr)
  have id: "ss_id s = sessionId" "sb_id b = i" using pair by (simp_all add: pairIsValid_def Let_def)
  have "session_rows db sessionId s b e"
    using s bs b row pair by (simp add: session_rows_def pairIsValid_def Let_def)
  then show thesis
    by (rule that [OF _ a]) (use e p f i pair act row id in simp_all)
qed

lemma loadSessionAuthority_Inr:
  "loadSessionAuthority h db sessionId active = Inr a \<longleftrightarrow>
   loadSessionRows h db sessionId active = Inr a
   \<and> validateSessionGenesisEvents h db a = Inr () \<and> validateSessionLifecycleEvents h db a = Inr ()"
  by (auto simp: loadSessionAuthority_def andthen_Inr_iff)

text \<open>
  A session that may spend: it is open, under the active policy, bound by one open binding to an
  enrolled agent, and its wallet is the policy's.
\<close>

definition live_session :: "host \<Rightarrow> db \<Rightarrow> string \<Rightarrow> string \<Rightarrow> string \<Rightarrow> bool" where
  "live_session h db sessionId enrollmentHash walletAddress \<longleftrightarrow>
     (\<exists>s b e p. session_rows db sessionId s b e
       \<and> ss_state s = ''open'' \<and> activePolicyId db = Some (ss_policy_version_id s)
       \<and> validatePolicyRow h (policyRowById db (ss_policy_version_id s)) = Inr p
       \<and> ss_wallet_address s = p_wallet (ip_policy p) \<and> walletAddress = ss_wallet_address s
       \<and> sb_state b = ''open'' \<and> ae_state e = ''active'' \<and> enrollmentHash = ae_enrollment_hash e)"

lemma sessionAuthority_sel [simp]:
  "sa_id (sessionAuthority s b e p) = ss_id s" "sa_state (sessionAuthority s b e p) = ss_state s"
  "sa_walletAddress (sessionAuthority s b e p) = ss_wallet_address s"
  "sa_policyVersionId (sessionAuthority s b e p) = ss_policy_version_id s"
  "sa_adapterId (sessionAuthority s b e p) = ss_adapter_id s"
  "sa_createdAt (sessionAuthority s b e p) = ss_created_at s"
  "sa_closedAt (sessionAuthority s b e p) = ss_closed_at s"
  "sa_bindingId (sessionAuthority s b e p) = sb_id b"
  "sa_agentInstanceId (sessionAuthority s b e p) = sb_agent_instance_id b"
  "sa_credentialDigest (sessionAuthority s b e p) = sb_credential_digest b"
  "sa_enrollmentHash (sessionAuthority s b e p) = sb_enrollment_hash b"
  "sa_bindingState (sessionAuthority s b e p) = sb_state b"
  "sa_enrollment (sessionAuthority s b e p) = e" "sa_policy (sessionAuthority s b e p) = p"
  by (simp_all add: sessionAuthority_def)

lemma requireOpen_Inr [simp]: "requireOpen a = Inr () \<longleftrightarrow> sa_state a = ''open''"
  by (simp add: requireOpen_def)

lemma requireOpen_open: "sa_state a = ''open'' \<Longrightarrow> requireOpen a = Inr ()"
  by simp

lemma open_authority_live:
  assumes "loadSessionAuthority h db sessionId True = Inr a" and "sa_state a = ''open''"
  shows "live_session h db sessionId (sa_enrollmentHash a) (sa_walletAddress a)" and "sa_id a = sessionId"
proof -
  from assms(1) have "loadSessionRows h db sessionId True = Inr a"
    by (simp add: loadSessionAuthority_Inr)
  then obtain s b e p where r: "session_rows db sessionId s b e" "a = sessionAuthority s b e p"
      "validateEnrollmentRow h True (Some e) = Inr e"
      "validatePolicyRow h (policyRowById db (ss_policy_version_id s)) = Inr p"
      "pairIsValid sessionId (sb_id b) s b e p" "activeBinding db s = Inr ()"
    by (rule loadSessionRows_obtains)
  moreover from r assms(2) have "activePolicyId db = Some (ss_policy_version_id s)"
    by (auto simp: activeBinding_def Let_def split: if_splits)
  ultimately show "live_session h db sessionId (sa_enrollmentHash a) (sa_walletAddress a)"
    using assms(2) validateEnrollmentRow_Inr [OF r(3)] unfolding live_session_def
    by (intro exI [of _ s] exI [of _ b] exI [of _ e] exI [of _ p])
      (auto simp: session_rows_def pairIsValid_def Let_def)
  show "sa_id a = sessionId" using r by (simp add: session_rows_def)
qed

end
