(* ===== verification/IntentSteps.thy ===== *)
theory IntentSteps
  imports IntentFacts
begin

text \<open>
  The abstract machine behind the intent repository: sessions are opened, closed and superseded, and
  an intent is captured, gets its challenge once and moves along the legal edges. Every operation
  that returns takes one such step and extends the event log.
\<close>

section \<open>The steps\<close>

definition fresh_intent :: "intent_row \<Rightarrow> bool" where
  "fresh_intent i \<longleftrightarrow>
     si_state i = ''captured'' \<and> si_retry_matchable i = 1 \<and> si_challenge_projection_json i = None
     \<and> si_challenge_hash i = None \<and> si_challenge_received_at i = None"

inductive intent_move :: "intent_row \<Rightarrow> intent_row \<Rightarrow> bool" where
  challenge_move:
    "fresh_intent i \<Longrightarrow> pj_urlHash (pc_projection c) = si_request_url_hash i \<Longrightarrow>
     \<not> timestampIsBefore (pc_receivedAt c) (si_created_at i) \<Longrightarrow>
     \<not> timestampIsBefore t (pc_receivedAt c) \<Longrightarrow> \<not> timestampIsBefore t (si_updated_at i) \<Longrightarrow>
     intent_move i (toChallenged c t i)"
| state_move:
    "legal_edge (si_state i) next \<Longrightarrow> next \<noteq> ''challenged'' \<Longrightarrow> si_retry_matchable i = 1 \<Longrightarrow>
     \<not> timestampIsBefore t (si_updated_at i) \<Longrightarrow> intent_move i (toState next t i)"

inductive_cases intent_moveE: "intent_move i i'"

text \<open>The intent's own session may spend.\<close>

abbreviation intent_live :: "host \<Rightarrow> db \<Rightarrow> intent_row \<Rightarrow> bool" where
  "intent_live h db i \<equiv> live_session h db (si_session_id i) (si_enrollment_hash i) (si_wallet_address i)"

text \<open>
  Nothing of an intent's money is outstanding: it is over, with its buyer outcome recorded; no approval
  waits, no payment attempt is under way and no payment candidate waits for its rejection; what was paid
  for and failed, or may have, has been resolved; no refund is owed and the last reconciliation of each
  kind settled its question.
\<close>

definition paid_for :: "db \<Rightarrow> string \<Rightarrow> bool" where
  "paid_for db n \<longleftrightarrow>
     (\<exists>p \<in> set (db_attempts db). pa_intent_id p = n \<and> pa_state p = ''settled'')
     \<or> (\<exists>b \<in> set (db_budgets db). br_intent_id b = n \<and> br_state b = ''committed'')"

definition last_reconciliation :: "db \<Rightarrow> string \<Rightarrow> string \<Rightarrow> reconciliation_row option" where
  "last_reconciliation db n kind =
     (case rev (filter (\<lambda>r. rr_intent_id r = n \<and> rr_kind r = kind) (db_reconciliations db)) of
        [] \<Rightarrow> None | r # _ \<Rightarrow> Some r)"

definition settled_intent :: "db \<Rightarrow> intent_row \<Rightarrow> bool" where
  "settled_intent db i \<longleftrightarrow>
     si_state i = ''terminal'' \<and> si_retry_matchable i = 0
     \<and> (\<exists>bo \<in> set (db_buyers db). bo_intent_id bo = si_id i)
     \<and> (\<forall>ap \<in> set (db_approvals db). ap_intent_id ap = si_id i \<longrightarrow> ap_decision ap \<noteq> ''pending'')
     \<and> (\<forall>p \<in> set (db_attempts db). pa_intent_id p = si_id i \<longrightarrow>
          pa_state p \<notin> {''reserved'', ''signing'', ''signed'', ''retrying'', ''unresolved''})
     \<and> (\<forall>c \<in> set (db_candidates db). rc_intent_id c = si_id i \<longrightarrow> rc_state c \<noteq> ''pending'')
     \<and> (\<forall>e \<in> set (db_resolutions db). er_intent_id e = si_id i \<longrightarrow> er_state e = ''resolved'')
     \<and> (paid_for db (si_id i) \<longrightarrow>
          (\<forall>eo \<in> set (db_outcomes db). eo_intent_id eo = si_id i \<longrightarrow> eo_state eo \<in> {''failed'', ''unknown''} \<longrightarrow>
             (\<exists>e \<in> set (db_resolutions db). er_intent_id e = si_id i)))
     \<and> (\<forall>r \<in> set (db_refunds db). rf_intent_id r = si_id i \<longrightarrow> rf_state r \<notin> {''pending'', ''unresolved''})
     \<and> (\<forall>kind \<in> rr_kind ` set (db_reconciliations db). \<forall>r. last_reconciliation db (si_id i) kind = Some r \<longrightarrow>
          rr_outcome r \<noteq> ''unresolved'')"

text \<open>Nothing of the session's money is outstanding, in any table.\<close>

definition settled_session :: "db \<Rightarrow> string \<Rightarrow> bool" where
  "settled_session db sessionId \<longleftrightarrow>
     (\<forall>i \<in> set (db_intents db). si_session_id i = sessionId \<longrightarrow> settled_intent db i)
     \<and> (\<forall>b \<in> set (db_budgets db). br_session_id b = sessionId \<longrightarrow>
          br_state b \<notin> {''reserved'', ''unresolved''})"

text \<open>A new session with its binding, under the active policy, for an enrolled agent.\<close>

definition session_opens :: "host \<Rightarrow> db \<Rightarrow> session_row \<Rightarrow> binding_row \<Rightarrow> bool" where
  "session_opens h db s b \<longleftrightarrow>
     ss_id s \<notin> ss_id ` set (db_sessions db) \<and> sb_id b \<notin> sb_id ` set (db_bindings db)
     \<and> ss_state s = ''open'' \<and> sb_state b = ''open'' \<and> sb_session_id b = ss_id s
     \<and> ss_closed_at s = None \<and> sb_closed_at b = None
     \<and> activePolicyId db = Some (ss_policy_version_id s)
     \<and> (\<exists>e \<in> set (db_enrollments db). ae_state e = ''active''
          \<and> sb_agent_instance_id b = ae_agent_instance_id e
          \<and> sb_credential_digest b = ae_credential_digest e
          \<and> sb_enrollment_hash b = ae_enrollment_hash e)
     \<and> \<not> list_ex (\<lambda>r. sb_state r = ''open'' \<and> (sb_agent_instance_id r = sb_agent_instance_id b
           \<or> sb_credential_digest r = sb_credential_digest b)) (db_bindings db)"

definition open_session :: "session_row \<Rightarrow> binding_row \<Rightarrow> db \<Rightarrow> db" where
  "open_session s b db =
     db\<lparr>db_sessions := db_sessions db @ [s], db_bindings := db_bindings db @ [b]\<rparr>"

inductive session_closes :: "string \<Rightarrow> string \<Rightarrow> db \<Rightarrow> db \<Rightarrow> bool" for sessionId t where
  "db_sessions db = xs @ s # ys \<Longrightarrow> ss_id s = sessionId \<Longrightarrow> ss_state s \<in> {''open'', ''policy_blocked''} \<Longrightarrow>
   ss_closed_at s = None \<Longrightarrow> db_bindings db = us @ b # vs \<Longrightarrow> sb_session_id b = sessionId \<Longrightarrow>
   sb_state b = ''open'' \<Longrightarrow>
   session_closes sessionId t db (db\<lparr>db_sessions := xs @ toClosedSession t s # ys,
     db_bindings := us @ toClosedBinding t b # vs\<rparr>)"

inductive spend_step :: "host \<Rightarrow> db \<Rightarrow> db \<Rightarrow> bool" for h where
  read_step: "spend_step h db db"
| capture_step:
    "fresh_intent i \<Longrightarrow> intent_live h db i \<Longrightarrow> \<not> list_ex (intentCollides i) (db_intents db) \<Longrightarrow>
     spend_step h db (db\<lparr>db_intents := db_intents db @ [i]\<rparr>)"
| move_step:
    "intent_move i i' \<Longrightarrow> (si_state i' \<in> set ADVANCING \<longrightarrow> intent_live h db i) \<Longrightarrow>
     db_intents db = xs @ i # ys \<Longrightarrow> spend_step h db (db\<lparr>db_intents := xs @ i' # ys\<rparr>)"
| open_step: "session_opens h db s b \<Longrightarrow> spend_step h db (open_session s b db)"
| close_step:
    "settled_session db sessionId \<Longrightarrow> session_closes sessionId t db db' \<Longrightarrow> spend_step h db db'"
| supersede_step:
    "settled_session db sessionId \<Longrightarrow> session_closes sessionId t db db1 \<Longrightarrow>
     session_opens h db1 s b \<Longrightarrow> spend_step h db (open_session s b db1)"

inductive_cases spend_stepE: "spend_step h db db'"

definition spend_effect :: "host \<Rightarrow> db \<Rightarrow> db \<Rightarrow> bool" where
  "spend_effect h db db' \<longleftrightarrow> (\<exists>db1. spend_step h db db1 \<and> log_extended h db1 db')"

lemma spend_effect_refl: "spend_effect h db db"
  by (auto simp: spend_effect_def intro: read_step log_extended_refl)

lemma spend_step_events: "spend_step h db db' \<Longrightarrow> db_events db' = db_events db"
  by (auto elim!: spend_stepE session_closes.cases simp: open_session_def)

section \<open>Decoded intents\<close>

lemma decodeIntentFor_Inr:
  "decodeIntentFor env db a i = Inr x \<longleftrightarrow>
   x = i \<and> rowToIntent (ie_host env) (ie_loopback env) a i = Inr i
   \<and> validateIntentEvents db i a = Inr ()"
  by (auto simp: decodeIntentFor_def decodeIntent_def rowToIntent_def andthen_Inr_iff)

lemma rowToIntent_parts:
  assumes "rowToIntent h loopback a i = Inr x"
  shows "intentScalars i = Inr ()" and "intentUrl h loopback i = Inr ()"
    and "intentBound h i a = Inr ()" and "intentChallenge h i = Inr ()"
  using assms by (auto simp: rowToIntent_def)

lemma intentBound_authority:
  assumes "intentBound h i a = Inr ()"
  shows "si_session_id i = sa_id a" and "si_enrollment_hash i = sa_enrollmentHash a"
    and "si_wallet_address i = sa_walletAddress a"
    and "intentHashFor h i (sa_policyVersionId a) = Inr (si_intent_hash i)"
  using assms by (auto simp: intentBound_def Let_def)

lemma intentScalars_state:
  assumes "intentScalars i = Inr ()"
  shows "known_state (si_state i)" and "si_state i = ''terminal'' \<longleftrightarrow> si_retry_matchable i = 0"
    and "si_retry_matchable i = 0 \<or> si_retry_matchable i = 1"
  using assms by (auto simp: intentScalars_def Let_def)

lemma intentChallenge_none:
  "intentChallenge h i = Inr () \<Longrightarrow>
   (si_challenge_hash i = None \<longleftrightarrow> si_challenge_projection_json i = None)
   \<and> (si_challenge_hash i = None \<longleftrightarrow> si_challenge_received_at i = None)"
  by (auto simp: intentChallenge_def split: option.splits)

lemma captured_is_fresh:
  assumes "rowToIntent h loopback a i = Inr x" and "si_state i = ''captured''"
    and "si_challenge_hash i = None"
  shows "fresh_intent i"
  using assms intentChallenge_none [OF rowToIntent_parts(4) [OF assms(1)]]
    intentScalars_state [OF rowToIntent_parts(1) [OF assms(1)]]
  by (auto simp: fresh_intent_def)

lemma decoded_live:
  assumes "loadSessionAuthority (ie_host env) db sessionId True = Inr a" and "sa_state a = ''open''"
    and "decodeIntentFor env db a i = Inr x"
  shows "intent_live (ie_host env) db i" and "si_session_id i = sessionId"
  using open_authority_live [OF assms(1,2)] assms(3)
    intentBound_authority [OF rowToIntent_parts(3), of "ie_host env" "ie_loopback env" a i]
  by (auto simp: decodeIntentFor_Inr)

section \<open>Writes\<close>

lemma insertIntent_Inr:
  "insertIntent i db = Inr db' \<longleftrightarrow>
   \<not> list_ex (intentCollides i) (db_intents db) \<and> db' = db\<lparr>db_intents := db_intents db @ [i]\<rparr>"
  by (auto simp: insertIntent_def)

lemma intentById_Some: "intentById db n = Some i \<Longrightarrow> i \<in> set (db_intents db) \<and> si_id i = n"
  by (auto simp: intentById_def dest: select_one_Some)

text \<open>The row that moves is the one that was read.\<close>

lemma moveIntent_obtains:
  assumes "moveIntent env code a n P f ty data db = Inr (db', x)" and "js_wf (JObj data)"
    and "intentById db n = Some i" and "P i"
  obtains xs ys e where "db_intents db = xs @ i # ys"
    and "db' = db\<lparr>db_intents := xs @ f i # ys, db_events := db_events db @ [e]\<rparr>"
    and "ev_entity_type e = ''spend_intent''" and "ev_entity_id e = n" and "ev_event_type e = ty"
    and "canonicalJson (JObj data) = Inr (ev_data_json e)"
    and "chained (ie_host env) (db_events db) e" and "canonical_time (ev_created_at e)"
    and "intentById db' n = Some x" and "decodeIntentFor env db' a x = Inr x"
proof -
  from assms(1) obtain rows where
      u: "update_one code (\<lambda>i. si_id i = n \<and> P i) f (db_intents db) = Inr rows"
    and w: "writeEvent env ''spend_intent'' n ty data (db\<lparr>db_intents := rows\<rparr>) = Inr db'"
    and r: "intentById db' n = Some x" and d: "decodeIntentFor env db' a x = Inr x"
    by (auto simp: moveIntent_def decodeIntentFor_Inr split: option.splits)
  from u obtain xs j ys where j: "db_intents db = xs @ j # ys" "rows = xs @ f j # ys"
      "\<forall>x \<in> set (xs @ ys). \<not> (si_id x = n \<and> P x)"
    by (rule update_one_Inr)
  have "i \<in> set (db_intents db)" "si_id i = n" using intentById_Some [OF assms(3)] by simp_all
  with assms(4) j have "j = i" by auto
  with j have rows: "db_intents db = xs @ i # ys" "rows = xs @ f i # ys" by simp_all
  from w assms(2) obtain e where e: "db' = db\<lparr>db_intents := rows\<rparr>\<lparr>db_events :=
        db_events (db\<lparr>db_intents := rows\<rparr>) @ [e]\<rparr>"
      "ev_entity_type e = ''spend_intent''" "ev_entity_id e = n" "ev_event_type e = ty"
      "canonicalJson (JObj data) = Inr (ev_data_json e)" "canonical_time (ev_created_at e)"
      "chained (ie_host env) (db_events (db\<lparr>db_intents := rows\<rparr>)) e"
    by (rule writeEvent_obtains)
  have "db' = db\<lparr>db_intents := xs @ f i # ys, db_events := db_events db @ [e]\<rparr>"
    using e(1) rows by simp
  from that [OF rows(1) this e(2-5) _ e(6) r d] e(7) show thesis by simp
qed

lemma spend_effect_move:
  assumes "spend_step h db (db\<lparr>db_intents := rows\<rparr>)" and "chained h (db_events db) e"
  shows "spend_effect h db (db\<lparr>db_intents := rows, db_events := db_events db @ [e]\<rparr>)"
  unfolding spend_effect_def
  using assms append_log [OF same_log assms(2)]
  by (intro exI [of _ "db\<lparr>db_intents := rows\<rparr>"]) (auto simp: log_extended_def)

end
