(* ===== verification/IntentOps.thy ===== *)
theory IntentOps
  imports IntentSteps
begin

text \<open>
  The operations of the intent repository read as abstract steps: what each returned, from which
  guards, and how the database changed.
\<close>

section \<open>Capture\<close>

lemma capturedRow_sel [simp]:
  "si_id (capturedRow n r s p a c k g t u) = n" "si_request_id (capturedRow n r s p a c k g t u) = r"
  "si_session_id (capturedRow n r s p a c k g t u) = s"
  "si_correlation_id (capturedRow n r s p a c k g t u) = c"
  "si_enrollment_hash (capturedRow n r s p a c k g t u) = sa_enrollmentHash a"
  "si_wallet_address (capturedRow n r s p a c k g t u) = sa_walletAddress a"
  "si_ordinary_fingerprint (capturedRow n r s p a c k g t u) = fp_ordinaryFingerprint p"
  "si_retry_matchable (capturedRow n r s p a c k g t u) = 1"
  "si_state (capturedRow n r s p a c k g t u) = ''captured''"
  "fresh_intent (capturedRow n r s p a c k g t u)"
  "boundIntent (capturedRow n r s p a c k g t u) p a"
  by (simp_all add: capturedRow_def fresh_intent_def boundIntent_def exactIntentMatch_def)

lemma js_wf_captureData [simp]: "js_wf (JObj (captureData i v))"
  by (simp add: captureData_def)

lemma captureNew_obtains:
  assumes "captureNew env sessionId p a db = Inr (db', i)"
  obtains n r c k g t e where "i = capturedRow n r sessionId p a c k g t t"
    and "\<not> list_ex (intentCollides i) (db_intents db)"
    and "db' = db\<lparr>db_intents := db_intents db @ [i], db_events := db_events db @ [e]\<rparr>"
    and "ev_entity_type e = ''spend_intent''" and "ev_entity_id e = si_id i"
    and "ev_event_type e = ''intent.captured''" and "chained (ie_host env) (db_events db) e"
    and "decodeIntentFor env db' a i = Inr i" and "fp_correlationId p = None \<or> fp_correlationId p = Some c"
    and "si_id i \<notin> si_id ` set (db_intents db)"
proof -
  from assms obtain n r c k g t db1 where
      ins: "insertIntent (capturedRow n r sessionId p a c k g t t) db = Inr db1"
    and w: "writeEvent env ''spend_intent'' n ''intent.captured''
      (captureData (capturedRow n r sessionId p a c k g t t) (sa_policyVersionId a)) db1 = Inr db'"
    and i: "intentById db' n = Some i" and d: "decodeIntentFor env db' a i = Inr i"
    and c: "(case fp_correlationId p of Some c \<Rightarrow> Inr c
        | None \<Rightarrow> nextCorrelationId env db sessionId) = Inr c"
    unfolding captureNew_def Let_def
    by (auto simp: decodeIntentFor_Inr split: option.splits)
  let ?i = "capturedRow n r sessionId p a c k g t t"
  from ins have new: "\<not> list_ex (intentCollides ?i) (db_intents db)"
      "db1 = db\<lparr>db_intents := db_intents db @ [?i]\<rparr>"
    by (simp_all add: insertIntent_Inr)
  from w js_wf_captureData obtain e where e: "db' = db1\<lparr>db_events := db_events db1 @ [e]\<rparr>"
      "ev_entity_type e = ''spend_intent''" "ev_entity_id e = n" "ev_event_type e = ''intent.captured''"
      "chained (ie_host env) (db_events db1) e"
    by (rule writeEvent_obtains)
  have fresh: "n \<notin> si_id ` set (db_intents db)"
    using new(1) by (auto simp: list_ex_iff intentCollides_def)
  then have "select_one (\<lambda>x. si_id x = n) (db_intents db) = None"
    by (auto simp: select_one_None)
  with i e(1) new(2) have "i = ?i"
    by (simp add: intentById_def select_one_append) (simp add: select_one_def)
  moreover have "db' = db\<lparr>db_intents := db_intents db @ [?i], db_events := db_events db @ [e]\<rparr>"
    using e(1) new(2) by simp
  moreover have "chained (ie_host env) (db_events db) e" using e(5) new(2) by simp
  moreover have "fp_correlationId p = None \<or> fp_correlationId p = Some c"
    using c by (cases "fp_correlationId p") simp_all
  ultimately show thesis using that [of n r c k g t e] e(2-4) new(1) d fresh by simp
qed

lemma appendCorrelationAlias_obtains:
  assumes "appendCorrelationAlias env i c db = Inr db'"
  obtains (same) "c = si_correlation_id i" and "db' = db"
  | (linked) aliasId e where "c \<noteq> si_correlation_id i"
    and "correlationAliasIdFor (ie_host env) (si_session_id i) c = Inr aliasId"
    and "correlatedRow db (si_session_id i) c = None"
    and "eventsOf db ''intent_correlation'' aliasId ''intent.correlation_bound'' = []"
    and "db' = db\<lparr>db_events := db_events db @ [e]\<rparr>" and "ev_entity_type e = ''intent_correlation''"
    and "ev_entity_id e = aliasId" and "ev_event_type e = ''intent.correlation_bound''"
    and "canonicalJson (JObj [(''sessionId'', JStr (si_session_id i)), (''intentId'', JStr (si_id i)),
           (''correlationId'', JStr c), (''ordinaryFingerprint'', JStr (si_ordinary_fingerprint i))])
         = Inr (ev_data_json e)"
    and "canonical_time (ev_created_at e)" and "chained (ie_host env) (db_events db) e"
proof (cases "c = si_correlation_id i")
  case True
  with assms same show thesis by (simp add: appendCorrelationAlias_def)
next
  case False
  let ?data = "[(''sessionId'', JStr (si_session_id i)), (''intentId'', JStr (si_id i)),
    (''correlationId'', JStr c), (''ordinaryFingerprint'', JStr (si_ordinary_fingerprint i))]"
  from assms False obtain aliasId where
      a: "correlationAliasIdFor (ie_host env) (si_session_id i) c = Inr aliasId"
      "correlatedRow db (si_session_id i) c = None"
      "eventsOf db ''intent_correlation'' aliasId ''intent.correlation_bound'' = []"
    and w: "writeEvent env ''intent_correlation'' aliasId ''intent.correlation_bound'' ?data db = Inr db'"
    unfolding appendCorrelationAlias_def by (auto split: if_splits)
  have wf: "js_wf (JObj ?data)" by simp
  show thesis by (rule writeEvent_obtains [OF w wf]) (rule linked [OF False a]; assumption)
qed

lemma retryRows_mem:
  "i \<in> set (retryRows db sessionId p) \<longleftrightarrow>
   i \<in> set (db_intents db) \<and> si_session_id i = sessionId
   \<and> si_ordinary_fingerprint i = fp_ordinaryFingerprint p \<and> si_retry_matchable i = 1"
  by (auto simp: retryRows_def)

text \<open>No intent of the session is known by the request's correlation identifier.\<close>

definition uncorrelated :: "intent_env \<Rightarrow> string \<Rightarrow> fingerprint \<Rightarrow> session_authority \<Rightarrow> db \<Rightarrow> bool" where
  "uncorrelated env sessionId p a db \<longleftrightarrow>
     (case fp_correlationId p of None \<Rightarrow> True
      | Some c \<Rightarrow> loadCorrelatedIntent env db sessionId c a = Inr None)"

text \<open>The ways a capture ends.\<close>

lemma capturePrepared_obtains:
  assumes "capturePrepared env sessionId p db = Inr (db', i)"
  obtains (all) a where "loadSessionAuthority (ie_host env) db sessionId True = Inr a"
    and "sa_state a = ''open''" and "boundIntent i p a"
    and "\<And>thesis. (\<And>c. fp_correlationId p = Some c \<Longrightarrow>
              loadCorrelatedIntent env db sessionId c a = Inr (Some i) \<Longrightarrow> db' = db \<Longrightarrow> thesis) \<Longrightarrow>
          (uncorrelated env sessionId p a db \<Longrightarrow> retryRows db sessionId p = [] \<Longrightarrow>
              captureNew env sessionId p a db = Inr (db', i) \<Longrightarrow> thesis) \<Longrightarrow>
          (uncorrelated env sessionId p a db \<Longrightarrow> retryRows db sessionId p = [i] \<Longrightarrow>
              decodeIntentFor env db a i = Inr i \<Longrightarrow>
              (case fp_correlationId p of None \<Rightarrow> Inr db | Some c \<Rightarrow> appendCorrelationAlias env i c db)
                = Inr db' \<Longrightarrow> thesis) \<Longrightarrow> thesis"
proof -
  from assms obtain a found where
      a: "loadSessionAuthority (ie_host env) db sessionId True = Inr a" "sa_state a = ''open''"
    and found: "(case fp_correlationId p of None \<Rightarrow> Inr None
        | Some c \<Rightarrow> loadCorrelatedIntent env db sessionId c a) = Inr found"
    and rest: "(case found of
        Some i \<Rightarrow> if \<not> boundIntent i p a then fail ''CORRELATION_CONFLICT'' else Inr (db, i)
      | None \<Rightarrow> captureRetry env sessionId p a db) = Inr (db', i)"
    by (auto simp: capturePrepared_def)
  show thesis
  proof (cases found)
    case (Some x)
    with rest have x: "x = i" "db' = db" "boundIntent i p a" by auto
    obtain c where "fp_correlationId p = Some c"
        "loadCorrelatedIntent env db sessionId c a = Inr (Some x)"
      using found Some by (cases "fp_correlationId p") auto
    with x show thesis by (intro all [OF a x(3)]) simp
  next
    case None
    then have retry: "captureRetry env sessionId p a db = Inr (db', i)" using rest by simp
    have none: "uncorrelated env sessionId p a db"
      using found None by (auto simp: uncorrelated_def split: option.splits)
    show thesis
    proof (cases "retryRows db sessionId p")
      case Nil
      with retry have n: "captureNew env sessionId p a db = Inr (db', i)"
        by (simp add: captureRetry_def)
      then have "boundIntent i p a" by (rule captureNew_obtains) simp
      with none n Nil show thesis by (intro all [OF a]) simp_all
    next
      case (Cons x xs)
      with retry have "xs = []" "decodeIntentFor env db a x = Inr x" "x = i" "boundIntent i p a"
          "(case fp_correlationId p of None \<Rightarrow> Inr db | Some c \<Rightarrow> appendCorrelationAlias env i c db)
            = Inr db'"
        by (auto simp: captureRetry_def decodeIntentFor_Inr split: list.splits if_splits)
      with none Cons show thesis by (intro all [OF a]) simp_all
    qed
  qed
qed

lemma loadCorrelatedIntent_Some:
  assumes "loadCorrelatedIntent env db sessionId c a = Inr (Some i)"
  shows "i \<in> set (db_intents db)" and "decodeIntentFor env db a i = Inr i"
proof -
  have "i \<in> set (db_intents db) \<and> decodeIntentFor env db a i = Inr i"
    using assms
    by (auto simp: loadCorrelatedIntent_def aliasTarget_def correlatedRow_def Let_def
        decodeIntentFor_Inr dest!: select_one_Some intentById_Some
        split: option.splits list.splits if_splits)
  then show "i \<in> set (db_intents db)" and "decodeIntentFor env db a i = Inr i" by simp_all
qed

lemma capturePrepared_effect:
  assumes "capturePrepared env sessionId p db = Inr (db', i)"
  shows "spend_effect (ie_host env) db db' \<and> i \<in> set (db_intents db')
    \<and> intent_live (ie_host env) db i \<and> si_session_id i = sessionId"
  using assms
proof (cases rule: capturePrepared_obtains)
  case (all a)
  note a = all(1,2) and live = open_authority_live [OF all(1,2)]
  show ?thesis
  proof (rule all(4))
    fix c
    assume "loadCorrelatedIntent env db sessionId c a = Inr (Some i)" and "db' = db"
    then show ?thesis
      using loadCorrelatedIntent_Some decoded_live [OF a] by (metis spend_effect_refl)
  next
    assume "captureNew env sessionId p a db = Inr (db', i)"
    then show ?thesis
    proof (rule captureNew_obtains)
      fix n r c k g t e
      assume i: "i = capturedRow n r sessionId p a c k g t t"
        and free: "\<not> list_ex (intentCollides i) (db_intents db)"
        and db': "db' = db\<lparr>db_intents := db_intents db @ [i], db_events := db_events db @ [e]\<rparr>"
        and chain: "chained (ie_host env) (db_events db) e"
      have here: "intent_live (ie_host env) db i" using live i by simp
      have "spend_step (ie_host env) db (db\<lparr>db_intents := db_intents db @ [i]\<rparr>)"
        by (rule capture_step [OF _ here free]) (simp add: i)
      then have "spend_effect (ie_host env) db db'" unfolding db' using chain by (rule spend_effect_move)
      then show ?thesis using here by (simp add: db' i)
    qed
  next
    assume one: "retryRows db sessionId p = [i]" and dec: "decodeIntentFor env db a i = Inr i"
      and link: "(case fp_correlationId p of None \<Rightarrow> Inr db
        | Some c \<Rightarrow> appendCorrelationAlias env i c db) = Inr db'"
    have "spend_effect (ie_host env) db db' \<and> db_intents db' = db_intents db"
    proof (cases "fp_correlationId p")
      case None
      with link show ?thesis by (simp add: spend_effect_refl)
    next
      case (Some c)
      with link have "appendCorrelationAlias env i c db = Inr db'" by simp
      then show ?thesis
      proof (cases rule: appendCorrelationAlias_obtains)
        case (linked aliasId e)
        then have "spend_effect (ie_host env) db
            (db\<lparr>db_intents := db_intents db, db_events := db_events db @ [e]\<rparr>)"
          by (intro spend_effect_move) (simp_all add: read_step)
        with linked show ?thesis by simp
      qed (simp add: spend_effect_refl)
    qed
    moreover have "i \<in> set (db_intents db)"
      using one retryRows_mem [of i db sessionId p] by simp
    ultimately show ?thesis using decoded_live [OF a dec] by (simp only:)
  qed
qed

end
