(* ===== verification/IntentMoves.thy ===== *)
theory IntentMoves
  imports IntentOps
begin

text \<open>
  The remaining operations of the intent repository as abstract steps: attaching the challenge, the
  transitions of an intent, and opening, closing and superseding a session.
\<close>

section \<open>The challenge\<close>

lemma js_wf_attachedData [simp]: "js_wf (JObj (attachedData c t))"
  by (simp add: attachedData_def)

lemma js_wf_transitionData [simp]: "js_wf (JObj (transitionData p t))"
  by (simp add: transitionData_def)

lemma routeMatches_url: "routeMatches env i pj = Inr () \<Longrightarrow> pj_urlHash pj = si_request_url_hash i"
  by (auto simp: routeMatches_def split: option.splits if_splits)

text \<open>A challenge is attached once; the same one again changes nothing.\<close>

lemma attachPrepared_obtains:
  assumes "attachPrepared env c db = Inr (db', x)"
  obtains (replay) i where "intentById db (pc_intentId c) = Some i"
    and "intent_live (ie_host env) db i" and "x = i" and "db' = db"
    and "si_challenge_projection_json i = Some (pc_projectionJson c)"
    and "si_challenge_hash i = Some (pc_challengeHash c)"
    and "si_challenge_received_at i = Some (pc_receivedAt c)"
  | (first) i a t xs ys e where "intentById db (pc_intentId c) = Some i"
    and "intent_live (ie_host env) db i"
    and "loadSessionAuthority (ie_host env) db (si_session_id i) True = Inr a"
    and "intent_move i (toChallenged c t i)" and "db_intents db = xs @ i # ys"
    and "db' = db\<lparr>db_intents := xs @ toChallenged c t i # ys, db_events := db_events db @ [e]\<rparr>"
    and "chained (ie_host env) (db_events db) e" and "intentById db' (pc_intentId c) = Some x"
    and "decodeIntentFor env db' a x = Inr x"
proof -
  from assms obtain i a where i: "intentById db (pc_intentId c) = Some i"
    and a: "loadSessionAuthority (ie_host env) db (si_session_id i) True = Inr a" "sa_state a = ''open''"
    and d: "decodeIntentFor env db a i = Inr i"
    and m: "routeMatches env i (pc_projection c) = Inr ()"
    and rest: "(if si_challenge_hash i \<noteq> None
          then
            if si_challenge_projection_json i \<noteq> Some (pc_projectionJson c)
               \<or> si_challenge_hash i \<noteq> Some (pc_challengeHash c)
               \<or> si_challenge_received_at i \<noteq> Some (pc_receivedAt c)
            then fail ''CHALLENGE_CHANGED'' else Inr (db, i)
          else attachFirst env c a i db) = Inr (db', x)"
    unfolding attachPrepared_def
    by (auto simp: decodeIntentFor_Inr boundedToken_Inr split: option.splits)
  have live: "intent_live (ie_host env) db i" by (rule decoded_live(1) [OF a d])
  show thesis
  proof (cases "si_challenge_hash i")
    case (Some h)
    with rest show thesis by (intro replay [OF i live]) (auto split: if_splits)
  next
    case None
    with rest have "attachFirst env c a i db = Inr (db', x)" by simp
    then obtain t where st: "si_state i = ''captured''"
      and t: "\<not> timestampIsBefore (pc_receivedAt c) (si_created_at i)"
        "\<not> timestampIsBefore t (pc_receivedAt c)" "\<not> timestampIsBefore t (si_updated_at i)"
      and mv: "moveIntent env ''CHALLENGE_CHANGED'' a (pc_intentId c)
            (\<lambda>r. si_state r = ''captured'' \<and> si_challenge_projection_json r = None
                 \<and> si_challenge_hash r = None \<and> si_challenge_received_at r = None)
            (toChallenged c t) ''intent.challenge_attached'' (attachedData c t) db = Inr (db', x)"
      by (auto simp: attachFirst_def)
    have fresh: "fresh_intent i"
      using d None st by (auto simp: decodeIntentFor_Inr intro: captured_is_fresh)
    then have move: "intent_move i (toChallenged c t i)"
      by (rule challenge_move [OF _ routeMatches_url [OF m] t])
    have here: "si_state i = ''captured'' \<and> si_challenge_projection_json i = None
        \<and> si_challenge_hash i = None \<and> si_challenge_received_at i = None"
      using fresh by (simp add: fresh_intent_def)
    show thesis
      by (rule moveIntent_obtains [OF mv js_wf_attachedData i here])
        (rule first [OF i live a(1) move]; assumption)
  qed
qed

lemma attachPrepared_effect:
  assumes "attachPrepared env c db = Inr (db', x)"
  shows "spend_effect (ie_host env) db db'"
  using assms
proof (cases rule: attachPrepared_obtains)
  case replay
  then show ?thesis by (simp add: spend_effect_refl)
next
  case (first i a t xs ys e)
  have "spend_step (ie_host env) db (db\<lparr>db_intents := xs @ toChallenged c t i # ys\<rparr>)"
    using first by (intro move_step) simp_all
  with first show ?thesis by (simp add: spend_effect_move)
qed

section \<open>Transitions\<close>

lemma transitionPrepared_obtains:
  assumes "transitionPrepared env p db = Inr (db', x)"
  obtains i a t xs ys e where "intentById db (pt_intentId p) = Some i"
    and "si_state i = pt_expected p"
    and "pt_next p \<in> set ADVANCING \<Longrightarrow> intent_live (ie_host env) db i"
    and "intent_move i (toState (pt_next p) t i)" and "db_intents db = xs @ i # ys"
    and "db' = db\<lparr>db_intents := xs @ toState (pt_next p) t i # ys, db_events := db_events db @ [e]\<rparr>"
    and "chained (ie_host env) (db_events db) e" and "intentById db' (pt_intentId p) = Some x"
    and "decodeIntentFor env db' a x = Inr x"
proof -
  let ?adv = "pt_next p \<in> set ADVANCING"
  from assms obtain i a t where i: "intentById db (pt_intentId p) = Some i"
    and a: "loadSessionAuthority (ie_host env) db (si_session_id i) ?adv = Inr a"
    and o: "(if ?adv then requireOpen a else Inr ()) = Inr ()"
    and d: "decodeIntentFor env db a i = Inr i"
    and st: "si_state i = pt_expected p"
    and legal: "legal_edge (pt_expected p) (pt_next p)" "pt_next p \<noteq> ''challenged''"
    and t: "\<not> timestampIsBefore t (si_updated_at i)"
    and mv: "moveIntent env ''INTENT_STATE_CONFLICT'' a (pt_intentId p)
                (\<lambda>r. si_state r = pt_expected p) (toState (pt_next p) t)
                ''intent.transitioned'' (transitionData p t) db = Inr (db', x)"
    unfolding transitionPrepared_def Let_def
    by (auto simp: decodeIntentFor_Inr boundedToken_Inr split: option.splits)
  have live: "intent_live (ie_host env) db i" if ?adv
    using that o by (intro decoded_live(1) [OF _ _ d]) (use a in simp_all)
  have "intentScalars i = Inr ()"
    using d rowToIntent_parts(1) by (auto simp: decodeIntentFor_Inr)
  moreover have "si_state i \<noteq> ''terminal''"
    using legal st by (auto simp: legal_edge_def LEGAL_TRANSITIONS_def)
  ultimately have "si_retry_matchable i = 1" using intentScalars_state by blast
  then have move: "intent_move i (toState (pt_next p) t i)"
    using legal st t by (intro state_move) simp_all
  show thesis
    by (rule moveIntent_obtains [OF mv js_wf_transitionData i st])
      (rule that [OF i st live move]; assumption)
qed

lemma transitionPrepared_effect:
  assumes "transitionPrepared env p db = Inr (db', x)"
  shows "spend_effect (ie_host env) db db'"
  using assms
proof (cases rule: transitionPrepared_obtains)
  case (1 i a t xs ys e)
  have "spend_step (ie_host env) db (db\<lparr>db_intents := xs @ toState (pt_next p) t i # ys\<rparr>)"
    using 1 by (intro move_step) (simp_all add: toState_def)
  with 1 show ?thesis by (simp add: spend_effect_move)
qed

section \<open>Opening a session\<close>

lemma insertSession_Inr:
  "insertSession s db = Inr db' \<Longrightarrow>
   ss_id s \<notin> ss_id ` set (db_sessions db) \<and> db' = db\<lparr>db_sessions := db_sessions db @ [s]\<rparr>"
  by (auto simp: insertSession_def list_ex_iff)

lemma insertBinding_Inr:
  "insertBinding b db = Inr db' \<Longrightarrow>
   sb_id b \<notin> sb_id ` set (db_bindings db)
   \<and> (sb_state b = ''open'' \<longrightarrow> \<not> list_ex (\<lambda>r. sb_state r = ''open'' \<and>
        (sb_agent_instance_id r = sb_agent_instance_id b
         \<or> sb_credential_digest r = sb_credential_digest b)) (db_bindings db))
   \<and> db' = db\<lparr>db_bindings := db_bindings db @ [b]\<rparr>"
  by (auto simp: insertBinding_def list_ex_iff)

lemma newSession_sel [simp]:
  "ss_id (newSession i d w p t) = i" "ss_state (newSession i d w p t) = ''open''"
  "ss_policy_version_id (newSession i d w p t) = p" "ss_closed_at (newSession i d w p t) = None"
  "ss_wallet_address (newSession i d w p t) = w" "ss_created_at (newSession i d w p t) = t"
  "ss_adapter_id (newSession i d w p t) = d"
  by (simp_all add: newSession_def)

lemma newBinding_sel [simp]:
  "sb_id (newBinding i g c h s t) = i" "sb_session_id (newBinding i g c h s t) = s"
  "sb_state (newBinding i g c h s t) = ''open''" "sb_closed_at (newBinding i g c h s t) = None"
  "sb_agent_instance_id (newBinding i g c h s t) = g"
  "sb_credential_digest (newBinding i g c h s t) = c" "sb_enrollment_hash (newBinding i g c h s t) = h"
  by (simp_all add: newBinding_def)

lemma js_wf_session_data [simp]:
  "js_wf (JObj (startedData d e p h w t))" "js_wf (JObj (openedData g e s t))"
  by (simp_all add: startedData_def openedData_def)

lemma startSession_log:
  assumes "startSession env s b h db = Inr db'"
  shows "log_extended (ie_host env) db db'"
  using assms unfolding startSession_def
  by (elim andthen_InrE) (rule log_extended_trans [OF writeEvent_log writeEvent_log];
    (assumption | rule js_wf_session_data))

end
