(* ===== verification/IntentSessions.thy ===== *)
theory IntentSessions
  imports IntentMoves
begin

text \<open>
  Opening, resuming, closing and superseding a Spend Session as abstract steps, with what the
  session is afterwards.
\<close>

section \<open>Updated rows\<close>

lemma update_one_map:
  "update_one code P f rows = Inr rows' \<Longrightarrow> rows' = map (\<lambda>r. if P r then f r else r) rows"
  by (simp add: update_one_def update_rows_def)

lemma select_one_map:
  "(\<And>r. K (g r) = K r) \<Longrightarrow> select_one K (map g rows) = map_option g (select_one K rows)"
  by (induction rows) (simp_all add: select_one_def)

lemma select_one_new: "\<not> K r \<Longrightarrow> select_one K (rows @ [r]) = select_one K rows"
  by (induction rows) (simp_all add: select_one_def)

lemma select_one_added:
  "i \<notin> key ` set rows \<Longrightarrow> key r = i \<Longrightarrow> select_one (\<lambda>x. key x = i) (rows @ [r]) = Some r"
  by (induction rows) (auto simp: select_one_def)

section \<open>Opening\<close>

lemma activeEnrollment_Inr:
  assumes "activeEnrollment env db agentInstanceId = Inr e"
  shows "e \<in> set (db_enrollments db)" and "ae_state e = ''active''"
    and "ae_agent_instance_id e = agentInstanceId"
proof -
  let ?active = "filter (\<lambda>e. ae_state e = ''active'') (db_enrollments db)"
  from assms obtain x where x: "find (\<lambda>e. ae_agent_instance_id e = agentInstanceId) ?active = Some x"
    and v: "validateEnrollmentRow (ie_host env) True (Some x) = Inr e"
    by (auto simp: activeEnrollment_def Let_def split: option.splits if_splits)
  from v have "x = e" by (auto dest: validateEnrollmentRow_Inr)
  with select_one_Some [of "\<lambda>e. ae_agent_instance_id e = agentInstanceId" ?active e] x have "e \<in> set ?active" "ae_agent_instance_id e = agentInstanceId"
    unfolding select_one_def by simp_all
  then show "e \<in> set (db_enrollments db)" and "ae_state e = ''active''"
    and "ae_agent_instance_id e = agentInstanceId"
    by simp_all
qed

text \<open>What a public session shows of the session it is made of.\<close>

lemma publicSession_Inr:
  assumes "publicSession h a = Inr p"
  shows "ps_id p = sa_id a" and "ps_state p = sa_state a" and "ps_enrollmentHash p = sa_enrollmentHash a"
    and "ps_walletAddress p = sa_walletAddress a" and "ps_policyVersionId p = sa_policyVersionId a"
    and "ps_agentInstanceId p = sa_agentInstanceId a" and "ps_closedAt p = sa_closedAt a"
  using assms by (auto simp: publicSession_def)

abbreviation public_live :: "host \<Rightarrow> db \<Rightarrow> public_session \<Rightarrow> bool" where
  "public_live h db p \<equiv> live_session h db (ps_id p) (ps_enrollmentHash p) (ps_walletAddress p)"

text \<open>An open session whose agent is enrolled may spend.\<close>

lemma open_rows_live:
  assumes "loadSessionRows h db sessionId active = Inr a" and "sa_state a = ''open''"
    and "ae_state (sa_enrollment a) = ''active''"
  shows "live_session h db sessionId (sa_enrollmentHash a) (sa_walletAddress a)" and "sa_id a = sessionId"
proof -
  obtain s b e p where r: "session_rows db sessionId s b e" "a = sessionAuthority s b e p"
      "validatePolicyRow h (policyRowById db (ss_policy_version_id s)) = Inr p"
      "pairIsValid sessionId (sb_id b) s b e p" "activeBinding db s = Inr ()"
    using assms(1) by (rule loadSessionRows_obtains)
  moreover from r assms(2) have "activePolicyId db = Some (ss_policy_version_id s)"
    by (auto simp: activeBinding_def Let_def split: if_splits)
  ultimately show "live_session h db sessionId (sa_enrollmentHash a) (sa_walletAddress a)"
    using assms(2,3) unfolding live_session_def
    by (intro exI [of _ s] exI [of _ b] exI [of _ e] exI [of _ p])
      (auto simp: session_rows_def pairIsValid_def Let_def)
  show "sa_id a = sessionId" using r by (simp add: session_rows_def)
qed

lemma loadSessionRows_state:
  assumes "loadSessionRows h db sessionId active = Inr a"
  obtains s where "select_one (\<lambda>r. ss_id r = sessionId) (db_sessions db) = Some s"
    and "sa_id a = sessionId" and "sa_state a = ss_state s" and "sa_policyVersionId a = ss_policy_version_id s"
    and "sa_closedAt a = ss_closed_at s" and "active \<Longrightarrow> ae_state (sa_enrollment a) = ''active''"
    and "sa_enrollmentHash a = ae_enrollment_hash (sa_enrollment a)"
    and "sa_agentInstanceId a = ae_agent_instance_id (sa_enrollment a)"
  using assms
  by (rule loadSessionRows_obtains)
    (auto simp: session_rows_def sessionAuthority_def dest: validateEnrollmentRow_Inr)

lemma openSession_obtains:
  assumes "openSession env e wallet policyVersionId db = Inr (db', p)"
    and "e \<in> set (db_enrollments db)" and "ae_state e = ''active''"
    and "activePolicyId db = Some policyVersionId"
  obtains s b where "session_opens (ie_host env) db s b"
    and "log_extended (ie_host env) (open_session s b db) db'"
    and "ps_id p = ss_id s" and "ss_id s \<notin> ss_id ` set (db_sessions db)"
    and "ps_policyVersionId p = policyVersionId" and "public_live (ie_host env) db' p"
    and "sb_agent_instance_id b = ae_agent_instance_id e"
proof -
  let ?h = "ie_host env"
  from assms(1) obtain i bid t db1 db2 db3 a' and q :: public_session where
      ins: "insertSession (newSession i (''pi:'' @ ae_agent_instance_id e) wallet policyVersionId t) db
        = Inr db1"
      "insertBinding (newBinding bid (ae_agent_instance_id e) (ae_credential_digest e)
        (ae_enrollment_hash e) i t) db1 = Inr db2"
    and start: "startSession env
        (newSession i (''pi:'' @ ae_agent_instance_id e) wallet policyVersionId t)
        (newBinding bid (ae_agent_instance_id e) (ae_credential_digest e) (ae_enrollment_hash e) i t)
        (ps_sessionHash q) db2 = Inr db3"
    and a': "loadSessionAuthority ?h db3 i True = Inr a'" "publicSession ?h a' = Inr p" "db' = db3"
    unfolding openSession_def Let_def
    by (elim handler_elims case_prod_InrE) (rule that, (assumption | (simp; fail))+)
  define s where "s = newSession i (''pi:'' @ ae_agent_instance_id e) wallet policyVersionId t"
  define b where "b = newBinding bid (ae_agent_instance_id e) (ae_credential_digest e)
        (ae_enrollment_hash e) i t"
  note ins = ins [folded s_def b_def] and start = start [folded s_def b_def]
  have sel: "ss_id s = i" "ss_state s = ''open''" "ss_policy_version_id s = policyVersionId"
      "ss_closed_at s = None" "sb_session_id b = i" "sb_state b = ''open''" "sb_closed_at b = None"
      "sb_agent_instance_id b = ae_agent_instance_id e"
      "sb_credential_digest b = ae_credential_digest e" "sb_enrollment_hash b = ae_enrollment_hash e"
    by (simp_all add: s_def b_def)
  from insertSession_Inr [OF ins(1)] insertBinding_Inr [OF ins(2)]
  have fresh: "i \<notin> ss_id ` set (db_sessions db)" and db2: "db2 = open_session s b db"
    and opens: "session_opens ?h db s b"
    using assms(2-4) sel by (auto simp: open_session_def session_opens_def)
  have log: "log_extended ?h (open_session s b db) db'"
    using startSession_log [OF start] db2 a'(3) by simp
  then have "db_sessions db' = db_sessions db @ [s]"
    by (auto simp: log_extended_def open_session_def)
  moreover have rows: "loadSessionRows ?h db' i True = Inr a'"
    using a' by (simp add: loadSessionAuthority_Inr)
  ultimately obtain r where "Some r = Some s" "sa_state a' = ss_state r"
      "sa_policyVersionId a' = ss_policy_version_id r" "ae_state (sa_enrollment a') = ''active''"
    using select_one_added [OF fresh sel(1)] by (elim loadSessionRows_state) auto
  then have "sa_state a' = ''open''" "sa_policyVersionId a' = policyVersionId"
      "ae_state (sa_enrollment a') = ''active''"
    by (simp_all add: sel)
  with open_rows_live [OF rows] publicSession_Inr [OF a'(2)]
  have "public_live ?h db' p" "ps_id p = ss_id s" "ps_policyVersionId p = policyVersionId"
    by (simp_all add: sel)
  with that [OF opens log] fresh sel show thesis by simp
qed

text \<open>An agent that opens or resumes gets its own session under the policy it named, able to spend.\<close>

lemma openInTransaction_effect:
  assumes "openInTransaction env agentInstanceId wallet policyVersionId db = Inr (db', p)"
  shows "spend_effect (ie_host env) db db'" and "public_live (ie_host env) db' p"
    and "ps_policyVersionId p = policyVersionId"
proof -
  let ?h = "ie_host env"
  from assms obtain e where e: "activeEnrollment env db agentInstanceId = Inr e"
    and act: "activePolicyId db = Some policyVersionId"
    and rest: "(case authorityRows db e of
         [] \<Rightarrow> openSession env e wallet policyVersionId db
       | [sessionId] \<Rightarrow>
           andthen (resumeSession env db sessionId e wallet policyVersionId)
             (\<lambda>session. Inr (db, session))
       | _ \<Rightarrow> fail ''SESSION_AUTHORITY_AMBIGUOUS'') = Inr (db', p)"
    unfolding openInTransaction_def
    by (elim handler_elims) (rule that, (assumption | (simp; fail))+)
  note enrolled = activeEnrollment_Inr [OF e]
  consider (new) "openSession env e wallet policyVersionId db = Inr (db', p)"
    | (resume) i where "resumeSession env db i e wallet policyVersionId = Inr p" "db' = db"
    using rest by (auto split: list.split_asm)
  then have "spend_effect ?h db db' \<and> public_live ?h db' p \<and> ps_policyVersionId p = policyVersionId"
  proof cases
    case new
    then show ?thesis
    proof (rule openSession_obtains [OF _ enrolled(1,2) act(1)])
      fix s b
      assume "session_opens ?h db s b" and log: "log_extended ?h (open_session s b db) db'"
        and p: "ps_policyVersionId p = policyVersionId" "public_live ?h db' p"
      then have "spend_step ?h db (open_session s b db)" by (intro open_step)
      with log p show ?thesis unfolding spend_effect_def by blast
    qed
  next
    case resume
    then obtain a where a: "loadSessionAuthority ?h db i False = Inr a" "sa_state a = ''open''"
        "ae_state (sa_enrollment a) = ''active''" "sa_policyVersionId a = policyVersionId"
      and p: "publicSession ?h a = Inr p"
      by (auto simp: resumeSession_def)
    from a(1) have "loadSessionRows ?h db i False = Inr a" by (simp add: loadSessionAuthority_Inr)
    from open_rows_live [OF this a(2,3)] publicSession_Inr [OF p] a(4) resume(2)
    show ?thesis by (simp add: spend_effect_refl)
  qed
  then show "spend_effect (ie_host env) db db'" and "public_live (ie_host env) db' p"
    and "ps_policyVersionId p = policyVersionId"
    by simp_all
qed

lemma openInTransaction_active:
  "openInTransaction env agentInstanceId wallet policyVersionId db = Inr x \<Longrightarrow>
   activePolicyId db = Some policyVersionId"
  by (auto simp: openInTransaction_def split: if_splits)

section \<open>Closing\<close>

text \<open>The last reconciliation of an intent and kind is the one no later row follows.\<close>

lemma unresolvedIn_append_last:
  "rr_intent_id r \<in> ids \<Longrightarrow> rr_outcome r = ''unresolved'' \<Longrightarrow>
   \<forall>l \<in> set ys. \<not> (rr_intent_id l = rr_intent_id r \<and> rr_kind l = rr_kind r) \<Longrightarrow>
   unresolvedIn ids (xs @ r # ys)"
  by (induction xs) (auto simp: list_ex_iff)

lemma last_reconciliation_Some:
  assumes "last_reconciliation db n kind = Some r"
  obtains xs ys where "db_reconciliations db = xs @ r # ys" and "rr_intent_id r = n" and "rr_kind r = kind"
    and "\<forall>l \<in> set ys. \<not> (rr_intent_id l = n \<and> rr_kind l = kind)"
proof -
  let ?P = "\<lambda>r. rr_intent_id r = n \<and> rr_kind r = kind"
  from assms obtain rs where "rev (filter ?P (db_reconciliations db)) = r # rs"
    by (auto simp: last_reconciliation_def split: list.splits)
  then have "filter ?P (rev (db_reconciliations db)) = r # rs" by (simp add: rev_filter)
  then obtain us vs where "rev (db_reconciliations db) = us @ r # vs" "\<forall>u \<in> set us. \<not> ?P u" "?P r"
    by (auto simp: filter_eq_Cons_iff)
  then have "db_reconciliations db = rev vs @ r # rev us"
    by (metis append.assoc append_Cons append_Nil rev.simps(2) rev_append rev_rev_ident)
  then show thesis
    using \<open>\<forall>u \<in> set us. \<not> ?P u\<close> \<open>?P r\<close> by (intro that [of "rev vs" "rev us"]) auto
qed

lemma no_ambiguity_settled:
  assumes "\<not> monetaryAmbiguity db sessionId" and "i \<in> set (db_intents db)" and "si_session_id i = sessionId"
    and "si_state i = ''terminal''" and "si_retry_matchable i = 0"
    and "si_id i \<in> bo_intent_id ` set (db_buyers db)"
  shows "settled_intent db i"
proof -
  have mem: "i \<in> set (sessionIntents db sessionId)" using assms(2,3) by (simp add: sessionIntents_def)
  then have id: "si_id i \<in> si_id ` set (sessionIntents db sessionId)" by blast
  from assms(1) have no: "\<not> openApproval db sessionId" "\<not> activePayment db sessionId"
    "\<not> paymentCandidate db sessionId" "\<not> executionCase db sessionId"
    "\<not> executionWithoutResolution db sessionId" "\<not> refundCase db sessionId"
    "\<not> unresolvedReconciliation db sessionId"
    by (simp_all add: monetaryAmbiguity_def)
  have "rr_outcome r \<noteq> ''unresolved''" if "last_reconciliation db (si_id i) kind = Some r" for kind r
    using that
  proof (rule last_reconciliation_Some)
    fix xs ys
    assume "db_reconciliations db = xs @ r # ys" "rr_intent_id r = si_id i" "rr_kind r = kind"
      "\<forall>l \<in> set ys. \<not> (rr_intent_id l = si_id i \<and> rr_kind l = kind)"
    with no(7) id unresolvedIn_append_last [of r "si_id ` set (sessionIntents db sessionId)" ys xs]
    show ?thesis by (auto simp: unresolvedReconciliation_def)
  qed
  moreover have "\<exists>e \<in> set (db_resolutions db). er_intent_id e = si_id i"
    if "paid_for db (si_id i)" and "eo \<in> set (db_outcomes db)" and "eo_intent_id eo = si_id i"
      and "eo_state eo \<in> {''failed'', ''unknown''}" for eo
  proof (rule ccontr)
    assume "\<not> (\<exists>e \<in> set (db_resolutions db). er_intent_id e = si_id i)"
    then have none: "filter (\<lambda>r. er_intent_id r = si_id i) (db_resolutions db) = []"
      by (auto simp: filter_empty_conv)
    have "executionWithoutResolution db sessionId"
      unfolding executionWithoutResolution_def list_ex_iff
      using that id none by (intro bexI [of _ eo]) (simp_all add: paid_for_def list_ex_iff Let_def)
    with no(5) show False by simp
  qed
  moreover have "ap_decision ap \<noteq> ''pending''"
    if "ap \<in> set (db_approvals db)" and "ap_intent_id ap = si_id i" for ap
    using no(1) mem that by (auto simp: openApproval_def list_ex_iff)
  moreover have "pa_state p \<notin> {''reserved'', ''signing'', ''signed'', ''retrying'', ''unresolved''}"
    if "p \<in> set (db_attempts db)" and "pa_intent_id p = si_id i" for p
    using no(2) id that by (auto simp: activePayment_def list_ex_iff)
  moreover have "rc_state c \<noteq> ''pending''" if "c \<in> set (db_candidates db)" and "rc_intent_id c = si_id i" for c
    using no(3) id that by (auto simp: paymentCandidate_def list_ex_iff)
  moreover have "er_state e = ''resolved''" if "e \<in> set (db_resolutions db)" and "er_intent_id e = si_id i" for e
    using no(4) id that by (auto simp: executionCase_def list_ex_iff)
  moreover have "rf_state r \<notin> {''pending'', ''unresolved''}"
    if "r \<in> set (db_refunds db)" and "rf_intent_id r = si_id i" for r
    using no(6) id that by (auto simp: refundCase_def list_ex_iff)
  ultimately show ?thesis using assms(4-6) by (auto simp: settled_intent_def)
qed

lemma assertSessionMonetarySafety_Inr:
  assumes "assertSessionMonetarySafety env db sessionId a = Inr ()"
  shows "settled_session db sessionId"
proof -
  have safe: "\<not> monetaryAmbiguity db sessionId"
    using assms by (auto simp: assertSessionMonetarySafety_def)
  have "settled_intent db i" if "i \<in> set (db_intents db)" and "si_session_id i = sessionId" for i
  proof -
    from assms that have "intentSettled env db a i = Inr ()"
      by (auto simp: assertSessionMonetarySafety_def check_each_Inr_iff sessionIntents_def)
    then have i: "rowToIntent (ie_host env) (ie_loopback env) a i = Inr i" "si_state i = ''terminal''"
        "si_id i \<in> bo_intent_id ` set (db_buyers db)"
      by (auto simp: intentSettled_def decodeIntentFor_Inr)
    with intentScalars_state(2) [OF rowToIntent_parts(1) [OF i(1)]] show ?thesis
      by (intro no_ambiguity_settled [OF safe that]) simp_all
  qed
  moreover have "\<forall>b \<in> set (db_budgets db). br_session_id b = sessionId \<longrightarrow>
      br_state b \<notin> {''reserved'', ''unresolved''}"
    using safe by (auto simp: monetaryAmbiguity_def heldBudget_def list_ex_iff)
  ultimately show ?thesis by (simp add: settled_session_def)
qed

text \<open>The rows that close are the ones that were loaded.\<close>

lemma closeRows_obtains:
  assumes "closeRows t a db = Inr db1" and "loadSessionRows h db sessionId active = Inr a"
    and "sa_state a = ''open'' \<or> sa_state a = ''policy_blocked''"
  obtains s where "session_closes sessionId t db db1"
    and "select_one (\<lambda>r. ss_id r = sessionId) (db_sessions db) = Some s"
    and "select_one (\<lambda>r. ss_id r = sessionId) (db_sessions db1) = Some (toClosedSession t s)"
    and "sa_id a = sessionId" and "ss_state s = sa_state a"
proof -
  let ?P = "\<lambda>s. ss_id s = sa_id a \<and> ss_state s = sa_state a \<and> ss_closed_at s = None"
  from assms(1) obtain sessions bindings where
      us: "update_one ''SESSION_CONFIRMATION_STALE'' ?P (toClosedSession t) (db_sessions db) = Inr sessions"
    and ub: "update_one ''SESSION_AUTHORITY_AMBIGUOUS''
        (\<lambda>b. sb_id b = sa_bindingId a \<and> sb_session_id b = sa_id a \<and> sb_state b = ''open''
             \<and> sb_closed_at b = None) (toClosedBinding t) (db_bindings db) = Inr bindings"
    and db1: "db1 = db\<lparr>db_sessions := sessions, db_bindings := bindings\<rparr>"
    by (auto simp: closeRows_def)
  from us obtain xs s ys where s: "db_sessions db = xs @ s # ys" "?P s"
      "sessions = xs @ toClosedSession t s # ys"
    by (rule update_one_Inr)
  from ub obtain us b vs where b: "db_bindings db = us @ b # vs"
      "sb_session_id b = sa_id a \<and> sb_state b = ''open''"
      "bindings = us @ toClosedBinding t b # vs"
    by (rule update_one_Inr) auto
  obtain r c e p where r: "session_rows db sessionId r c e" "a = sessionAuthority r c e p"
      "pairIsValid sessionId (sb_id c) r c e p"
    using assms(2) by (rule loadSessionRows_obtains)
  have id: "sa_id a = sessionId" and sel: "select_one (\<lambda>r. ss_id r = sessionId) (db_sessions db) = Some r"
    using r by (simp_all add: session_rows_def)
  have "?P r"
    using r assms(3) by (auto simp: session_rows_def pairIsValid_def Let_def)
  then have "select_one (\<lambda>r. ss_id r = sessionId) (db_sessions db1) = Some (toClosedSession t r)"
    using sel update_one_map [OF us]
    by (simp add: db1 select_one_map toClosedSession_def)
  moreover have "session_closes sessionId t db db1"
    unfolding db1 s(3) b(3)
    by (rule session_closes.intros [OF s(1) _ _ _ b(1)]) (use s b id assms(3) in auto)
  moreover have "ss_state r = sa_state a" using r by simp
  ultimately show thesis using that sel id by blast
qed

lemma js_wf_close [simp]:
  "js_wf (JObj [(''sessionId'', JStr a), (''closedAt'', JStr b), (''reasonCode'', JStr c)])"
  "js_wf (JObj [(''expectedSessionHash'', JStr a), (''closedSessionHash'', JStr b), (''closedAt'', JStr c)])"
  "js_wf (JObj [(''expectedSessionHash'', JStr a), (''targetPolicyVersionId'', JStr b),
    (''closedSessionHash'', JStr c), (''replacementSessionId'', JStr d),
    (''replacementSessionHash'', JStr e), (''transitionedAt'', JStr f)])"
  by simp_all

lemma bindingClosed_log:
  "bindingClosed env a t r db = Inr db' \<Longrightarrow> log_extended (ie_host env) db db'"
  unfolding bindingClosed_def by (erule writeEvent_log) (rule js_wf_close)

lemma closeLive_obtains:
  assumes "closeLive env sessionId expected a db = Inr (db', p)"
    and "loadSessionAuthority (ie_host env) db sessionId False = Inr a"
    and "sa_state a = ''open'' \<or> sa_state a = ''policy_blocked''"
  obtains t db1 q where "publicSession (ie_host env) a = Inr q" and "ps_sessionHash q = expected"
    and "settled_session db sessionId" and "session_closes sessionId t db db1"
    and "log_extended (ie_host env) db1 db'" and "ps_id p = sessionId" and "ps_state p = ''closed''"
proof -
  let ?h = "ie_host env"
  from assms(1) obtain t db1 db2 and q c :: public_session where
      q: "publicSession ?h a = Inr q" "ps_sessionHash q = expected"
    and safe: "assertSessionMonetarySafety env db sessionId a = Inr ()"
    and close: "closeRows t a db = Inr db1"
    and e1: "bindingClosed env a t ''SESSION_CLOSED'' db1 = Inr db2"
    and e2: "writeEvent env ''spend_session'' sessionId ''session.closed''
                  [(''expectedSessionHash'', JStr expected),
                   (''closedSessionHash'', JStr (ps_sessionHash c)), (''closedAt'', JStr t)] db2 = Inr db'"
    and p: "loadPublic env db' sessionId False = Inr p"
    unfolding closeLive_def
    by (elim handler_elims) (rule that, (assumption | (simp; fail))+)
  have rows: "loadSessionRows ?h db sessionId False = Inr a"
    using assms(2) by (simp add: loadSessionAuthority_Inr)
  obtain s where closes: "session_closes sessionId t db db1" and sel:
      "select_one (\<lambda>r. ss_id r = sessionId) (db_sessions db1) = Some (toClosedSession t s)"
    using close rows assms(3) by (rule closeRows_obtains)
  have log: "log_extended ?h db1 db'"
    using writeEvent_log [OF e2 js_wf_close(2)] bindingClosed_log [OF e1] by (rule log_extended_trans)
  then have same: "db_sessions db' = db_sessions db1" by (auto simp: log_extended_def)
  obtain x where x: "loadSessionRows ?h db' sessionId False = Inr x" "publicSession ?h x = Inr p"
    using p by (auto simp: loadPublic_def loadSessionAuthority_Inr)
  have "sa_id x = sessionId \<and> sa_state x = ''closed''"
    using x(1) by (rule loadSessionRows_state) (simp add: same sel toClosedSession_def)
  with publicSession_Inr [OF x(2)] that [OF q assertSessionMonetarySafety_Inr [OF safe] closes log]
  show thesis by simp
qed

lemma closeLive_row:
  assumes "closeLive env sessionId expected a db = Inr (db', p)"
    and "loadSessionAuthority (ie_host env) db sessionId False = Inr a"
    and "sa_state a = ''open'' \<or> sa_state a = ''policy_blocked''"
  shows "\<exists>s. select_one (\<lambda>s. ss_id s = ps_id p) (db_sessions db') = Some s \<and> ss_state s = ''closed''"
proof -
  have p: "ps_id p = sessionId" "ps_state p = ''closed''"
    using closeLive_obtains [OF assms] by blast+
  from assms(1) have "loadPublic env db' sessionId False = Inr p"
    unfolding closeLive_def by (elim handler_elims) simp
  then obtain x where "loadSessionRows (ie_host env) db' sessionId False = Inr x"
      "publicSession (ie_host env) x = Inr p"
    by (auto simp: loadPublic_def loadSessionAuthority_Inr)
  with p publicSession_Inr(2) [of _ x p] show ?thesis
    by (elim loadSessionRows_state) auto
qed

text \<open>The first close confirms the session it saw; the same close again returns the closed session.\<close>

lemma closeBoundSession_obtains:
  assumes "closeBoundSessionInTransaction env v db = Inr (db', p)"
  obtains (replay) "db' = db" and "ps_state p = ''closed''"
  | (live) t db1 where "settled_session db (ps_id p)" and "session_closes (ps_id p) t db db1"
    and "log_extended (ie_host env) db1 db'" and "ps_state p = ''closed''"
proof -
  let ?h = "ie_host env"
  from assms obtain i expected a where a: "loadSessionAuthority ?h db i False = Inr a"
    and rest: "(if sa_state a = ''closed''
         then andthen (closeReplay env i expected a db) (\<lambda>closed. Inr (db, closed))
         else if sa_state a \<noteq> ''open'' \<and> sa_state a \<noteq> ''policy_blocked'' then fail ''SESSION_STATE''
         else closeLive env i expected a db) = Inr (db', p)"
    unfolding closeBoundSessionInTransaction_def
    by (elim andthen_InrE) (rule that, (assumption | (simp; fail))+)
  show thesis
  proof (cases "sa_state a = ''closed''")
    case True
    with rest have "closeReplay env i expected a db = Inr p" "db' = db" by auto
    then have "publicSession ?h a = Inr p" "db' = db"
      by (auto simp: closeReplay_def split: option.splits if_splits)
    with replay publicSession_Inr True show thesis by metis
  next
    case False
    with rest have "closeLive env i expected a db = Inr (db', p)"
        "sa_state a = ''open'' \<or> sa_state a = ''policy_blocked''"
      by (auto split: if_splits)
    with closeLive_obtains [OF this(1) a this(2)] live show thesis by metis
  qed
qed

lemma closed_session_row:
  assumes "closeBoundSessionInTransaction env v db = Inr (db', p)" and "db' \<noteq> db"
  obtains s where "select_one (\<lambda>s. ss_id s = ps_id p) (db_sessions db') = Some s"
    and "ss_state s = ''closed''"
proof -
  from assms obtain i expected a where "loadSessionAuthority (ie_host env) db i False = Inr a"
      "closeLive env i expected a db = Inr (db', p)"
      "sa_state a = ''open'' \<or> sa_state a = ''policy_blocked''"
    by (auto simp: closeBoundSessionInTransaction_def split: if_splits)
  from closeLive_row [OF this(2,1,3)] that show thesis by blast
qed

section \<open>Superseding\<close>

lemma session_closes_frame:
  assumes "session_closes i t db db1"
  shows "db_metadata db1 = db_metadata db" and "db_enrollments db1 = db_enrollments db"
    and "db_policy_versions db1 = db_policy_versions db" and "db_intents db1 = db_intents db"
    and "db_events db1 = db_events db"
  using assms by (auto elim!: session_closes.cases)

lemma transitionEvents_log:
  assumes "transitionEvents env a s b expected previous replacement db = Inr db'"
  shows "log_extended (ie_host env) db db'"
  using assms unfolding transitionEvents_def
  by (elim andthen_InrE)
    (rule log_extended_trans [OF log_extended_trans [OF writeEvent_log startSession_log] bindingClosed_log];
      (assumption | rule js_wf_close))

lemma transitionGuards_Inr:
  assumes "transitionGuards env sessionId target expected a db = Inr t"
  shows "ae_state (sa_enrollment a) = ''active''" and "sa_state a = ''policy_blocked''"
    and "activePolicyId db = Some target" and "settled_session db sessionId"
proof -
  from assms have "assertSessionMonetarySafety env db sessionId a = Inr ()"
    by (auto simp: transitionGuards_def)
  then show "settled_session db sessionId" by (rule assertSessionMonetarySafety_Inr)
qed (use assms in \<open>auto simp: transitionGuards_def\<close>)

lemma transitionLive_obtains:
  assumes "transitionLive env sessionId target expected a db = Inr (db', p, r)"
    and "loadSessionAuthority (ie_host env) db sessionId False = Inr a"
  obtains t db1 s b where "settled_session db sessionId" and "session_closes sessionId t db db1"
    and "session_opens (ie_host env) db1 s b" and "log_extended (ie_host env) (open_session s b db1) db'"
    and "sa_state a = ''policy_blocked''" and "activePolicyId db = Some target"
    and "ps_id p = sessionId" and "ps_state p = ''closed''" and "ps_id r = ss_id s"
    and "ps_policyVersionId r = target" and "public_live (ie_host env) db' r"
proof -
  let ?h = "ie_host env"
  from assms(1) obtain t db1 i bid db2 db3 db4 and q c :: public_session where
      guards: "transitionGuards env sessionId target expected a db = Inr t"
    and close: "closeRows t a db = Inr db1"
    and ins: "insertSession (newSession i (sa_adapterId a) (sa_walletAddress a) target t) db1 = Inr db2"
      "insertBinding (newBinding bid (sa_agentInstanceId a) (sa_credentialDigest a)
        (sa_enrollmentHash a) i t) db2 = Inr db3"
    and events: "transitionEvents env a (newSession i (sa_adapterId a) (sa_walletAddress a) target t)
        (newBinding bid (sa_agentInstanceId a) (sa_credentialDigest a) (sa_enrollmentHash a) i t)
        expected q c db3 = Inr db4"
    and p: "loadPublic env db4 sessionId False = Inr p" and r: "loadPublic env db4 i True = Inr r"
    and db': "db' = db4"
    unfolding transitionLive_def Let_def
    by (elim handler_elims case_prod_InrE) (rule that, (assumption | (simp; fail))+)
  define s where "s = newSession i (sa_adapterId a) (sa_walletAddress a) target t"
  define b where "b = newBinding bid (sa_agentInstanceId a) (sa_credentialDigest a) (sa_enrollmentHash a) i t"
  note ins = ins [folded s_def b_def] and events = events [folded s_def b_def]
  have sel: "ss_id s = i" "ss_state s = ''open''" "ss_policy_version_id s = target"
      "ss_closed_at s = None" "sb_session_id b = i" "sb_state b = ''open''" "sb_closed_at b = None"
      "sb_agent_instance_id b = sa_agentInstanceId a"
      "sb_credential_digest b = sa_credentialDigest a" "sb_enrollment_hash b = sa_enrollmentHash a"
    by (simp_all add: s_def b_def)
  note g = transitionGuards_Inr [OF guards]
  have rows: "loadSessionRows ?h db sessionId False = Inr a"
    using assms(2) by (simp add: loadSessionAuthority_Inr)
  obtain former where closes: "session_closes sessionId t db db1" and old:
      "select_one (\<lambda>r. ss_id r = sessionId) (db_sessions db1) = Some (toClosedSession t former)"
    using close rows by (rule closeRows_obtains) (use g in auto)
  note frame = session_closes_frame [OF closes]
  have enrolled: "sa_enrollment a \<in> set (db_enrollments db1)"
      "sa_agentInstanceId a = ae_agent_instance_id (sa_enrollment a)"
      "sa_credentialDigest a = ae_credential_digest (sa_enrollment a)"
      "sa_enrollmentHash a = ae_enrollment_hash (sa_enrollment a)"
    using rows frame
    by (auto elim!: loadSessionRows_obtains simp: session_rows_def dest: select_one_Some)
  from insertSession_Inr [OF ins(1)] insertBinding_Inr [OF ins(2)]
  have fresh: "i \<notin> ss_id ` set (db_sessions db1)" and db3: "db3 = open_session s b db1"
    and opens: "session_opens ?h db1 s b"
    using sel enrolled g(1,3) frame
    by (auto simp: open_session_def session_opens_def activePolicyId_def)
  have log: "log_extended ?h (open_session s b db1) db'"
    using transitionEvents_log [OF events] db3 db' by simp
  then have new: "db_sessions db' = db_sessions db1 @ [s]"
    by (auto simp: log_extended_def open_session_def)
  obtain x where x: "loadSessionRows ?h db' sessionId False = Inr x" "publicSession ?h x = Inr p"
    using p db' by (auto simp: loadPublic_def loadSessionAuthority_Inr)
  have "sa_id x = sessionId \<and> sa_state x = ''closed''"
    using x(1) by (rule loadSessionRows_state)
      (simp add: new select_one_append old toClosedSession_def)
  with publicSession_Inr [OF x(2)] have prev: "ps_id p = sessionId" "ps_state p = ''closed''" by simp_all
  obtain y where y: "loadSessionRows ?h db' i True = Inr y" "publicSession ?h y = Inr r"
    using r db' by (auto simp: loadPublic_def loadSessionAuthority_Inr)
  have "sa_id y = i \<and> sa_state y = ''open'' \<and> sa_policyVersionId y = target
      \<and> ae_state (sa_enrollment y) = ''active''"
    using y(1) by (rule loadSessionRows_state)
      (use select_one_added [OF fresh sel(1)] sel in \<open>simp add: new\<close>)
  with open_rows_live [OF y(1)] publicSession_Inr [OF y(2)]
  have "ps_id r = ss_id s" "ps_policyVersionId r = target" "public_live ?h db' r"
    by (simp_all add: sel)
  with that [OF g(4) closes opens log g(2,3) prev] show thesis by simp
qed

lemma transitionBlocked_obtains:
  assumes "transitionBlockedSessionInTransaction env v db = Inr (db', p, r)"
  obtains (replay) "db' = db"
  | (live) t db1 s b where "settled_session db (ps_id p)" and "session_closes (ps_id p) t db db1"
    and "session_opens (ie_host env) db1 s b" and "log_extended (ie_host env) (open_session s b db1) db'"
    and "ps_state p = ''closed''" and "activePolicyId db = Some (ps_policyVersionId r)"
    and "ps_id r = ss_id s" and "public_live (ie_host env) db' r"
proof -
  from assms obtain i target expected a where
      a: "loadSessionAuthority (ie_host env) db i False = Inr a"
    and rest: "(if sa_state a = ''closed''
     then andthen (transitionReplay env i target expected a db) (\<lambda>(previous, replacement).
            Inr (db, previous, replacement))
     else transitionLive env i target expected a db) = Inr (db', p, r)"
    unfolding transitionBlockedSessionInTransaction_def
    by (elim andthen_InrE) (rule that, (assumption | (simp; fail))+)
  show thesis
  proof (cases "sa_state a = ''closed''")
    case True
    with rest replay show thesis by auto
  next
    case False
    with rest have "transitionLive env i target expected a db = Inr (db', p, r)" by simp
    then show thesis using a by (rule transitionLive_obtains) (rule live; simp)
  qed
qed

end
