(* ===== verification/RecoveryTerminal.thy ===== *)
theory RecoveryTerminal
  imports IntentSessions
begin

text \<open>
  The one write of \<^verbatim>\<open>src/spikes/pi-wielder/src/kernel/recovery.mjs\<close> to \<^verbatim>\<open>spend_intents\<close>:
  \<^verbatim>\<open>terminalizeIntent\<close>, by which an operator's resolution of an unresolved payment ends its Spend Intent,
  with the clock reading it gets. The rest of the operator's reconciliation is not modelled: its other
  writes leave sessions and intents alone.
\<close>

section \<open>The clock\<close>

text \<open>\<^verbatim>\<open>now()\<close> is read once; predecessors that are null are skipped.\<close>

definition reconciliationClockTimestamp :: "jsval \<Rightarrow> string option list \<Rightarrow> string res" where
  "reconciliationClockTimestamp now notBefore =
     andthen (rethrow_as ''RECONCILIATION_TIME'' (canonicalTimestamp now)) (\<lambda>value.
     andthen (check_each (\<lambda>predecessor.
         case predecessor of
           None \<Rightarrow> Inr ()
         | Some p \<Rightarrow>
             andthen (rethrow_as ''RECONCILIATION_CORRUPTION'' (canonicalTimestamp (JStr p))) (\<lambda>q.
             if date_ms value < date_ms q then fail ''RECONCILIATION_TIME'' else Inr ()))
       notBefore) (\<lambda>_. Inr value))"

section \<open>The end of an intent\<close>

definition toTerminal :: "string \<Rightarrow> intent_row \<Rightarrow> intent_row" where
  "toTerminal updatedAt i =
     i\<lparr>si_state := ''terminal'', si_retry_matchable := 0, si_updated_at := updatedAt\<rparr>"

definition terminalizeIntent ::
  "intent_env \<Rightarrow> string \<Rightarrow> string \<Rightarrow> string \<Rightarrow> string \<Rightarrow> db \<Rightarrow> db res" where
  "terminalizeIntent env intentId expectedState reasonCode updatedAt db =
     andthen (update_one ''RECONCILIATION_CONFLICT''
                (\<lambda>i. si_id i = intentId \<and> si_state i = expectedState \<and> si_retry_matchable i = 1)
                (toTerminal updatedAt) (db_intents db)) (\<lambda>rows.
     writeEvent env ''spend_intent'' intentId ''intent.transitioned''
       [(''previousState'', JStr expectedState), (''nextState'', JStr ''terminal''),
        (''reasonCode'', JStr reasonCode), (''retryMatchable'', JBool False),
        (''updatedAt'', JStr updatedAt)] (db\<lparr>db_intents := rows\<rparr>))"

section \<open>It is a legal transition\<close>

lemma reconciliationClockTimestamp_after:
  assumes "reconciliationClockTimestamp now notBefore = Inr t" and "Some p \<in> set notBefore"
  shows "\<not> timestampIsBefore t p" and "canonical_time t"
proof -
  from assms(1) have "rethrow_as ''RECONCILIATION_TIME'' (canonicalTimestamp now) = Inr t"
    and each: "\<forall>x \<in> set notBefore. (case x of None \<Rightarrow> Inr () | Some p \<Rightarrow>
        andthen (rethrow_as ''RECONCILIATION_CORRUPTION'' (canonicalTimestamp (JStr p)))
          (\<lambda>q. if date_ms t < date_ms q then fail ''RECONCILIATION_TIME'' else Inr ())) = Inr ()"
    by (auto simp: reconciliationClockTimestamp_def check_each_Inr_iff)
  then show "canonical_time t" by (simp add: canonicalTimestamp_Inr)
  from bspec [OF each assms(2)] show "\<not> timestampIsBefore t p"
    by (auto simp: timestampIsBefore_def canonicalTimestamp_Inr split: if_splits)
qed

lemma toTerminal_toState: "toTerminal t i = toState ''terminal'' t i"
  by (simp add: toTerminal_def toState_def)

lemma terminalizeIntent_effect:
  assumes "terminalizeIntent env n ''unresolved'' reason t db = Inr db'"
    and "filter (\<lambda>i. si_id i = n) (db_intents db) = [i]" and "\<not> timestampIsBefore t (si_updated_at i)"
  shows "spend_effect (ie_host env) db db'"
proof -
  from assms(1) obtain rows where
      u: "update_one ''RECONCILIATION_CONFLICT''
        (\<lambda>i. si_id i = n \<and> si_state i = ''unresolved'' \<and> si_retry_matchable i = 1)
        (toTerminal t) (db_intents db) = Inr rows"
    and w: "writeEvent env ''spend_intent'' n ''intent.transitioned''
        [(''previousState'', JStr ''unresolved''), (''nextState'', JStr ''terminal''),
         (''reasonCode'', JStr reason), (''retryMatchable'', JBool False), (''updatedAt'', JStr t)]
        (db\<lparr>db_intents := rows\<rparr>) = Inr db'"
    by (auto simp: terminalizeIntent_def)
  from u obtain xs j ys where j: "db_intents db = xs @ j # ys" "rows = xs @ toTerminal t j # ys"
      "si_id j = n" "si_state j = ''unresolved''" "si_retry_matchable j = 1"
    by (rule update_one_Inr) blast
  have "j \<in> set (filter (\<lambda>i. si_id i = n) (db_intents db))" using j by simp
  with assms(2) have "j = i" by simp
  with assms(3) j have "intent_move j (toTerminal t j)"
    unfolding toTerminal_toState
    by (intro state_move) (simp_all add: legal_edge_def LEGAL_TRANSITIONS_def)
  moreover have "si_state (toTerminal t j) \<notin> set ADVANCING" by (simp add: toTerminal_def ADVANCING_def)
  ultimately have step: "spend_step (ie_host env) db (db\<lparr>db_intents := rows\<rparr>)"
    unfolding j(2) using j(1) by (intro move_step) simp_all
  from w obtain e where e: "db' = db\<lparr>db_intents := rows\<rparr>\<lparr>db_events :=
        db_events (db\<lparr>db_intents := rows\<rparr>) @ [e]\<rparr>"
      "chained (ie_host env) (db_events (db\<lparr>db_intents := rows\<rparr>)) e"
    by (rule writeEvent_obtains) simp
  then have "db' = db\<lparr>db_intents := rows, db_events := db_events db @ [e]\<rparr>" by simp
  with spend_effect_move [OF step] e(2) show ?thesis by simp
qed

end
