(* ===== verification/IntentSafety.thy ===== *)
theory IntentSafety
  imports RecoveryTerminal
begin

text \<open>
  The contract the operations of the intent repository share, as a locale with its interpretations,
  the repository driven by calls, and what holds of sessions and intents along every run.
\<close>

section \<open>The contract of an operation\<close>

locale intent_op =
  fixes h :: host and step :: "db \<Rightarrow> (db \<times> 'r) res"
  assumes effect: "step db = Inr (db', x) \<Longrightarrow> spend_effect h db db'"
begin

lemma call_effect: "db' = fst (transaction step db) \<Longrightarrow> spend_effect h db db'"
  by (auto simp: transaction_def dest: effect intro: spend_effect_refl split: sum.splits)

end

interpretation open_op: intent_op "ie_host env" "openInTransaction env agent wallet version"
  for env agent wallet version
  by unfold_locales (rule openInTransaction_effect)

lemma capture_effect:
  assumes "captureIntentInTransaction env v body db = Inr (db', i)"
  shows "spend_effect (ie_host env) db db' \<and> i \<in> set (db_intents db') \<and> intent_live (ie_host env) db i"
  using assms
  by (auto simp: captureIntentInTransaction_def dest: capturePrepared_effect)

interpretation capture_op: intent_op "ie_host env" "captureIntentInTransaction env v body" for env v body
  by unfold_locales (blast dest: capture_effect)

interpretation attach_op: intent_op "ie_host env" "attachChallengeInTransaction env v" for env v
  by unfold_locales (auto simp: attachChallengeInTransaction_def dest: attachPrepared_effect)

interpretation move_op: intent_op "ie_host env" "transitionInTransaction env v" for env v
  by unfold_locales (auto simp: transitionInTransaction_def dest: transitionPrepared_effect)

interpretation close_op: intent_op "ie_host env" "closeBoundSessionInTransaction env v" for env v
proof
  fix db db' p
  assume "closeBoundSessionInTransaction env v db = Inr (db', p)"
  then show "spend_effect (ie_host env) db db'"
    by (cases rule: closeBoundSession_obtains)
      (auto simp: spend_effect_def intro: close_step read_step log_extended_refl)
qed

interpretation supersede_op: intent_op "ie_host env" "transitionBlockedSessionInTransaction env v" for env v
proof
  fix db db' x
  assume step: "transitionBlockedSessionInTransaction env v db = Inr (db', x)"
  obtain p r where "x = (p, r)" by (cases x)
  with step have "transitionBlockedSessionInTransaction env v db = Inr (db', p, r)" by simp
  then show "spend_effect (ie_host env) db db'"
    by (cases rule: transitionBlocked_obtains)
      (auto simp: spend_effect_def intro: supersede_step read_step log_extended_refl)
qed

section \<open>A repository driven by calls\<close>

datatype intent_call =
    OpenSession jsval
  | CaptureIntent jsval "string option"
  | AttachChallenge jsval
  | MoveIntent jsval
  | CloseSession jsval
  | SupersedeSession jsval

definition finished :: "db \<times> 'r res \<Rightarrow> db \<times> unit res" where
  "finished = map_prod id (map_sum id (\<lambda>_. ()))"

fun intent_run :: "intent_env \<Rightarrow> intent_call \<Rightarrow> db \<Rightarrow> db \<times> unit res" where
  "intent_run env (OpenSession v) db = finished (openOrResumeSession env v db)"
| "intent_run env (CaptureIntent v body) db = finished (captureIntent env v body db)"
| "intent_run env (AttachChallenge v) db = finished (attachChallenge env v db)"
| "intent_run env (MoveIntent v) db = finished (intentTransition env v db)"
| "intent_run env (CloseSession v) db = finished (transaction (closeBoundSessionInTransaction env v) db)"
| "intent_run env (SupersedeSession v) db =
     finished (transaction (transitionBlockedSessionInTransaction env v) db)"

lemma finished_Inl: "snd (finished r) = Inl e \<longleftrightarrow> snd r = Inl e"
  by (cases "snd r") (auto simp: finished_def)

lemma fst_finished [simp]: "fst (finished r) = fst r"
  by (simp add: finished_def)

lemma openOrResume_effect: "spend_effect (ie_host env) db (fst (openOrResumeSession env v db))"
  using open_op.call_effect [OF refl]
  by (auto simp: openOrResumeSession_def intro: spend_effect_refl split: sum.split)

lemma intent_run_effect: "spend_effect (ie_host env) db (fst (intent_run env c db))"
  by (cases c)
    (simp_all add: openOrResume_effect captureIntent_def attachChallenge_def intentTransition_def
      capture_op.call_effect attach_op.call_effect move_op.call_effect close_op.call_effect
      supersede_op.call_effect)

lemma intent_run_error: "snd (intent_run env c db) = Inl e \<Longrightarrow> fst (intent_run env c db) = db"
  by (cases c)
    (auto simp: finished_Inl captureIntent_def attachChallenge_def intentTransition_def
      openOrResumeSession_def dest: transaction_Inl split: sum.splits)

text \<open>
  Other components share the database. The policy repository blocks open sessions, and the operator's
  resolution of an unresolved payment ends its intent: \<^verbatim>\<open>terminalizeIntent\<close>, with a clock reading that
  is not before the intent's own time (the intent's id is the primary key, so the row that was read is
  the one row with it). Nothing else writes sessions or intents.
\<close>

inductive intent_reach :: "host \<Rightarrow> db \<Rightarrow> db \<Rightarrow> bool" for h db0 where
  reach_start: "intent_reach h db0 db0"
| reach_call:
    "intent_reach h db0 db \<Longrightarrow> ie_host env = h \<Longrightarrow> intent_reach h db0 (fst (intent_run env c db))"
| reach_outside:
    "intent_reach h db0 db \<Longrightarrow> db_intents db' = db_intents db \<Longrightarrow>
     list_all2 session_blocked (db_sessions db) (db_sessions db') \<Longrightarrow>
     log_grows h (db_events db) (db_events db') \<Longrightarrow> intent_reach h db0 db'"
| reach_resolved:
    "intent_reach h db0 db \<Longrightarrow> ie_host env = h \<Longrightarrow>
     filter (\<lambda>i. si_id i = n) (db_intents db) = [i] \<Longrightarrow>
     reconciliationClockTimestamp now notBefore = Inr t \<Longrightarrow> Some (si_updated_at i) \<in> set notBefore \<Longrightarrow>
     terminalizeIntent env n ''unresolved'' reason t db = Inr db' \<Longrightarrow> intent_reach h db0 db'"

text \<open>Both kinds of writers of intents take abstract steps.\<close>

lemma resolved_effect:
  assumes "filter (\<lambda>i. si_id i = n) (db_intents db) = [i]"
    and "reconciliationClockTimestamp now notBefore = Inr t" and "Some (si_updated_at i) \<in> set notBefore"
    and "terminalizeIntent env n ''unresolved'' reason t db = Inr db'"
  shows "spend_effect (ie_host env) db db'"
  using terminalizeIntent_effect [OF assms(4,1) reconciliationClockTimestamp_after(1) [OF assms(2,3)]] .

text \<open>The sessions and intents of a step.\<close>

lemma spend_effect_obtains:
  assumes "spend_effect h db db'"
  obtains db1 where "spend_step h db db1" and "db_sessions db' = db_sessions db1"
    and "db_intents db' = db_intents db1" and "log_grows h (db_events db) (db_events db')"
  using assms spend_step_events by (fastforce simp: spend_effect_def log_extended_def)

lemma intent_reach_invariant:
  assumes "intent_reach h db0 db" and "P (db_sessions db0) (db_intents db0)"
    and step: "\<And>db db'. spend_step h db db' \<Longrightarrow> P (db_sessions db) (db_intents db) \<Longrightarrow>
      P (db_sessions db') (db_intents db')"
    and block: "\<And>ss ss' is. list_all2 session_blocked ss ss' \<Longrightarrow> P ss is \<Longrightarrow> P ss' is"
  shows "P (db_sessions db) (db_intents db)"
  using assms(1)
proof induction
  case (reach_call db env c)
  obtain db1 where "spend_step h db db1" "db_sessions (fst (intent_run env c db)) = db_sessions db1"
      "db_intents (fst (intent_run env c db)) = db_intents db1"
    using intent_run_effect [of env db c] reach_call.hyps by (auto elim: spend_effect_obtains)
  with step [OF _ reach_call.IH] show ?case by simp
next
  case (reach_resolved db env n i now notBefore t reason db')
  obtain db1 where "spend_step h db db1" "db_sessions db' = db_sessions db1" "db_intents db' = db_intents db1"
    using resolved_effect [OF reach_resolved.hyps(3-6)] reach_resolved.hyps(2)
    by (auto elim: spend_effect_obtains)
  with step [OF _ reach_resolved.IH] show ?case by simp
qed (use assms(2) block in auto)

lemma intent_reach_log: "intent_reach h db0 db \<Longrightarrow> log_grows h (db_events db0) (db_events db)"
proof (induction rule: intent_reach.induct)
  case (reach_call db env c)
  have "spend_effect h db (fst (intent_run env c db))"
    using intent_run_effect [of env db c] reach_call.hyps by simp
  then show ?case
    by (rule spend_effect_obtains) (use reach_call.IH in \<open>auto intro: log_grows_trans\<close>)
next
  case (reach_resolved db env n i now notBefore t reason db')
  have "spend_effect h db db'"
    using resolved_effect [OF reach_resolved.hyps(3-6)] reach_resolved.hyps(2) by simp
  then show ?case
    by (rule spend_effect_obtains) (use reach_resolved.IH in \<open>auto intro: log_grows_trans\<close>)
qed (auto intro: same_log log_grows_trans)

section \<open>Intents along a run\<close>

text \<open>What a capture fixes for good.\<close>

definition intent_identity :: "intent_row \<Rightarrow> intent_row" where
  "intent_identity i =
     i\<lparr>si_challenge_projection_json := None, si_challenge_hash := None,
       si_challenge_received_at := None, si_state := [], si_updated_at := [], si_retry_matchable := 0\<rparr>"

lemma intent_identity_columns:
  assumes "intent_identity i' = intent_identity i"
  shows "si_id i' = si_id i" and "si_session_id i' = si_session_id i"
    and "si_intent_hash i' = si_intent_hash i" and "si_wallet_address i' = si_wallet_address i"
    and "si_ordinary_fingerprint i' = si_ordinary_fingerprint i"
  using assms by (cases i; cases i'; simp add: intent_identity_def)+

definition later_intent :: "intent_row \<Rightarrow> intent_row \<Rightarrow> bool" where
  "later_intent i i' \<longleftrightarrow>
     intent_identity i' = intent_identity i
     \<and> legal_edge\<^sup>*\<^sup>* (si_state i) (si_state i')
     \<and> (si_challenge_hash i \<noteq> None \<longrightarrow>
          si_challenge_projection_json i' = si_challenge_projection_json i
          \<and> si_challenge_hash i' = si_challenge_hash i
          \<and> si_challenge_received_at i' = si_challenge_received_at i)
     \<and> (si_state i = ''terminal'' \<longrightarrow> i' = i)"

lemma legal_edge_ends [simp]:
  "legal_edge ''captured'' ''challenged''" "\<not> legal_edge ''terminal'' st"
  by (simp_all add: legal_edge_def LEGAL_TRANSITIONS_def)

lemma intent_move_edge:
  assumes "intent_move i i'"
  shows "legal_edge (si_state i) (si_state i')" and "intent_identity i' = intent_identity i"
    and "si_retry_matchable i = 1" and "si_state i \<noteq> ''terminal''"
  using assms
  by (auto elim!: intent_moveE simp: toChallenged_def toState_def fresh_intent_def
      intent_identity_def)

lemma intent_move_challenge:
  "intent_move i i' \<Longrightarrow> si_challenge_hash i \<noteq> None \<Longrightarrow>
   si_challenge_projection_json i' = si_challenge_projection_json i
   \<and> si_challenge_hash i' = si_challenge_hash i
   \<and> si_challenge_received_at i' = si_challenge_received_at i"
  by (auto elim!: intent_moveE simp: toState_def fresh_intent_def)

lemma later_intent_refl [simp]: "later_intent i i"
  by (simp add: later_intent_def)

lemma later_intent_move: "later_intent i j \<Longrightarrow> intent_move j k \<Longrightarrow> later_intent i k"
  using intent_move_edge [of j k] intent_move_challenge [of j k]
  by (auto simp: later_intent_def intro: rtranclp.rtrancl_into_rtrancl)

text \<open>The unique columns of the table, with the partial index on live fingerprints.\<close>

definition intent_keys :: "intent_row list \<Rightarrow> bool" where
  "intent_keys rows \<longleftrightarrow> sorted_wrt (\<lambda>r i. \<not> intentCollides i r) rows"

lemma intent_move_collides:
  "intent_move i i' \<Longrightarrow> (intentCollides i' r \<longrightarrow> intentCollides i r)
     \<and> (intentCollides r i' \<longrightarrow> intentCollides r i)"
  by (auto elim!: intent_moveE simp: intentCollides_def toChallenged_def toState_def fresh_intent_def)

lemma spend_step_keys:
  "spend_step h db db' \<Longrightarrow> intent_keys (db_intents db) \<Longrightarrow> intent_keys (db_intents db')"
proof (induction rule: spend_step.induct)
  case (move_step i i' db xs ys)
  with intent_move_collides [OF move_step.hyps(1)] show ?case
    by (fastforce simp: intent_keys_def sorted_wrt_append)
qed (auto simp: intent_keys_def sorted_wrt_append list_ex_iff open_session_def session_closes_frame)

lemma spend_step_later:
  "spend_step h db db' \<Longrightarrow> \<exists>j \<in> set (db_intents db). later_intent i j \<Longrightarrow>
   \<exists>j \<in> set (db_intents db'). later_intent i j"
proof (induction rule: spend_step.induct)
  case (move_step j j' db xs ys)
  then show ?case by (auto intro: later_intent_move)
qed (auto simp: open_session_def session_closes_frame)

section \<open>Sessions along a run\<close>

definition later_session :: "session_row \<Rightarrow> session_row \<Rightarrow> bool" where
  "later_session s s' \<longleftrightarrow>
     s'\<lparr>ss_state := [], ss_closed_at := None\<rparr> = s\<lparr>ss_state := [], ss_closed_at := None\<rparr>
     \<and> (ss_state s = ''closed'' \<longrightarrow> s' = s)
     \<and> (ss_state s = ''policy_blocked'' \<longrightarrow> ss_state s' = ''policy_blocked'' \<or> ss_state s' = ''closed'')"

lemma later_session_refl [simp]: "later_session s s"
  by (simp add: later_session_def)

lemma later_session_blocked: "later_session s t \<Longrightarrow> session_blocked t u \<Longrightarrow> later_session s u"
  by (auto simp: later_session_def session_blocked_def)

lemma later_session_closed:
  "later_session s u \<Longrightarrow> ss_state u \<in> {''open'', ''policy_blocked''} \<Longrightarrow>
   later_session s (toClosedSession t u)"
  by (auto simp: later_session_def toClosedSession_def)

lemma session_closes_later:
  "session_closes n t db db' \<Longrightarrow> \<exists>u \<in> set (db_sessions db). later_session s u \<Longrightarrow>
   \<exists>u \<in> set (db_sessions db'). later_session s u"
  by (auto elim!: session_closes.cases intro: later_session_closed)

lemma spend_step_later_session:
  "spend_step h db db' \<Longrightarrow> \<exists>u \<in> set (db_sessions db). later_session s u \<Longrightarrow>
   \<exists>u \<in> set (db_sessions db'). later_session s u"
proof (induction rule: spend_step.induct)
  case (supersede_step db n t db1 r b)
  then show ?case
    using session_closes_later [OF supersede_step.hyps(2) supersede_step.prems]
    by (auto simp: open_session_def)
qed (auto simp: open_session_def intro: session_closes_later)

lemma blocked_later_session:
  assumes "list_all2 session_blocked ss ss'" and "\<exists>u \<in> set ss. later_session s u"
  shows "\<exists>u \<in> set ss'. later_session s u"
proof -
  from assms obtain n where "n < length ss" "later_session s (ss ! n)"
    by (auto simp: in_set_conv_nth)
  with assms(1) have "n < length ss'" "later_session s (ss' ! n)"
    by (auto simp: list_all2_conv_all_nth intro: later_session_blocked)
  then show ?thesis by (meson nth_mem)
qed

end
