(* ===== verification/IntentRetry.thy ===== *)
theory IntentRetry
  imports IntentSafety
begin

text \<open>
  What a retried request meets: the event of one entity does not disturb what is read of another, an
  alias event reads back, and a closed session is frozen.
\<close>

section \<open>Reading beside a new event\<close>

text \<open>The session part of the database is untouched, and the new event is of another entity.\<close>

definition session_frame :: "db \<Rightarrow> db \<Rightarrow> bool" where
  "session_frame db db' \<longleftrightarrow>
     db_sessions db' = db_sessions db \<and> db_bindings db' = db_bindings db
     \<and> db_enrollments db' = db_enrollments db \<and> db_policy_versions db' = db_policy_versions db
     \<and> db_metadata db' = db_metadata db
     \<and> (\<forall>i t. eventsOf db' ''spend_session'' i t = eventsOf db ''spend_session'' i t)
     \<and> (\<forall>i t. eventsOf db' ''session_binding'' i t = eventsOf db ''session_binding'' i t)"

lemma session_frame_append:
  "ev_entity_type e \<noteq> ''spend_session'' \<Longrightarrow> ev_entity_type e \<noteq> ''session_binding'' \<Longrightarrow>
   session_frame db (db\<lparr>db_intents := rows, db_events := db_events db @ [e]\<rparr>)"
  by (simp add: session_frame_def eventsOf_def)

lemma loadSessionRows_frame:
  assumes "session_frame db db'"
  shows "loadSessionRows h db' = loadSessionRows h db"
proof -
  have tables: "db_sessions db' = db_sessions db" "db_bindings db' = db_bindings db"
      "db_enrollments db' = db_enrollments db" "db_policy_versions db' = db_policy_versions db"
      "db_metadata db' = db_metadata db"
    using assms by (simp_all add: session_frame_def)
  show ?thesis
    by (intro ext) (unfold loadSessionRows_def policyRowById_def activeBinding_def activePolicyId_def
        tables, rule refl)
qed

lemma loadSessionAuthority_frame:
  assumes "session_frame db db'"
  shows "loadSessionAuthority h db' = loadSessionAuthority h db"
proof -
  note rows = loadSessionRows_frame [OF assms, of h]
  have events: "eventsOf db' ''spend_session'' = eventsOf db ''spend_session''"
      "eventsOf db' ''session_binding'' = eventsOf db ''session_binding''"
    using assms by (intro ext; simp add: session_frame_def)+
  have genesis: "validateSessionGenesisEvents h db' = validateSessionGenesisEvents h db"
    by (intro ext) (unfold validateSessionGenesisEvents_def events, rule refl)
  have command: "loadSessionCommandEvent db' = loadSessionCommandEvent db"
    by (intro ext) (unfold loadSessionCommandEvent_def events, rule refl)
  have replacement: "loadHistoricalReplacementSession h db' = loadHistoricalReplacementSession h db"
    by (intro ext) (unfold loadHistoricalReplacementSession_def rows genesis, rule refl)
  have closed: "closedLifecycle h db' = closedLifecycle h db"
    by (intro ext) (unfold closedLifecycle_def replacement, rule refl)
  have life: "validateSessionLifecycleEvents h db' = validateSessionLifecycleEvents h db"
    by (intro ext) (unfold validateSessionLifecycleEvents_def events command closed, rule refl)
  show ?thesis by (intro ext) (unfold loadSessionAuthority_def rows genesis life, rule refl)
qed

lemma decodeIntentFor_frame:
  assumes "db_events db' = db_events db @ [e]" and "ev_entity_type e \<noteq> ''spend_intent''"
  shows "decodeIntentFor env db' a i = decodeIntentFor env db a i"
proof -
  have events: "intentEvents db' = intentEvents db"
    using assms by (intro ext) (simp add: intentEvents_def)
  show ?thesis
    by (unfold decodeIntentFor_def decodeIntent_def validateIntentEvents_def events) (rule refl)
qed

section \<open>Reading an event back\<close>

lemma exactEventData_stored:
  assumes "canonicalJson (JObj data) = Inr (ev_data_json e)" and "js_wf (JObj data)"
    and "map fst data = names" and "canonical_time (ev_created_at e)"
  shows "exactEventData e names code = Inr (normal_entries data)"
    and "get_prop (normal_entries data) k = js_normal (get_prop data k)"
proof -
  have distinct: "distinct (map fst data)" using assms(2) by simp
  have parse: "json_parse (ev_data_json e) = Some (JObj (normal_entries data))"
    using json_parse_canonicalJson [OF assms(2,1)] by (simp add: js_normal_JObj del: js_normal.simps)
  have again: "canonicalJson (JObj (normal_entries data)) = Inr (ev_data_json e)"
    using assms(1) canonicalSerialize_js_normal [of "JObj data"]
    by (simp add: canonicalJson_def js_normal_JObj del: js_normal.simps canonicalSerialize.simps)
  have keys: "fst ` set (normal_entries data) = set names"
    using assms(3) by (force simp: normal_entries_def)
  then have "closedRecord (JObj (normal_entries data)) names [] code = Inr (normal_entries data)"
    by (auto simp: closedRecord_def list_ex_iff has_own_def)
  then show "exactEventData e names code = Inr (normal_entries data)"
    using parse again assms(4)
    by (simp add: exactEventData_def persistedTimestamp_Inr [THEN iffD2])
  show "get_prop (normal_entries data) k = js_normal (get_prop data k)"
    by (rule get_prop_normal_entries [OF distinct])
qed

section \<open>A retry\<close>

lemma retry_after_new:
  assumes "loadSessionAuthority (ie_host env) db sessionId True = Inr a" and "sa_state a = ''open''"
    and "uncorrelated env sessionId p a db" and "retryRows db sessionId p = []"
    and "captureNew env sessionId p a db = Inr (db', i)"
  shows "capturePrepared env sessionId p db' = Inr (db', i)"
  using assms(5)
proof (rule captureNew_obtains)
  fix n r c k g t e
  assume i: "i = capturedRow n r sessionId p a c k g t t"
    and db': "db' = db\<lparr>db_intents := db_intents db @ [i], db_events := db_events db @ [e]\<rparr>"
    and e: "ev_entity_type e = ''spend_intent''" and dec: "decodeIntentFor env db' a i = Inr i"
    and c: "fp_correlationId p = None \<or> fp_correlationId p = Some c"
  have auth: "loadSessionAuthority (ie_host env) db' sessionId True = Inr a"
    using loadSessionAuthority_frame [OF session_frame_append] assms(1) e by (simp add: db')
  have bound: "boundIntent i p a" by (simp add: i)
  show ?thesis
  proof (cases "fp_correlationId p")
    case None
    moreover have "retryRows db' sessionId p = [i]"
      using assms(4) by (simp add: retryRows_def db' i)
    ultimately show ?thesis
      using auth assms(2) dec bound by (simp add: requireOpen_open capturePrepared_def captureRetry_def)
  next
    case (Some d)
    with c have c: "fp_correlationId p = Some c" by simp
    with assms(3) have un: "loadCorrelatedIntent env db sessionId c a = Inr None"
      by (simp add: uncorrelated_def)
    then obtain aliasId where al: "correlationAliasIdFor (ie_host env) sessionId c = Inr aliasId"
        "correlatedRow db sessionId c = None"
        "eventsOf db ''intent_correlation'' aliasId ''intent.correlation_bound'' = []"
      by (auto simp: loadCorrelatedIntent_def Let_def split: option.splits list.splits if_splits)
    have "correlatedRow db' sessionId c = Some i"
      using al(2) by (simp add: correlatedRow_def select_one_append db' i)
        (simp add: select_one_def)
    moreover have "eventsOf db' ''intent_correlation'' aliasId ''intent.correlation_bound'' = []"
      using al(3) e by (simp add: eventsOf_def db')
    ultimately have "loadCorrelatedIntent env db' sessionId c a = Inr (Some i)"
      using al(1) dec by (simp add: loadCorrelatedIntent_def Let_def)
    then show ?thesis using auth assms(2) bound c by (simp add: requireOpen_open capturePrepared_def)
  qed
qed

text \<open>With unique identifiers an intent of the table is found by its own.\<close>

lemma intent_keys_distinct: "intent_keys rows \<Longrightarrow> distinct (map si_id rows)"
  by (induction rows) (auto simp: intent_keys_def intentCollides_def)

lemma intentById_keys:
  assumes "intent_keys (db_intents db)" and "i \<in> set (db_intents db)"
  shows "intentById db (si_id i) = Some i"
  unfolding intentById_def using assms(2)
proof (rule select_one_unique)
  fix x
  assume "x \<in> set (db_intents db)" and "si_id x = si_id i"
  with assms intent_keys_distinct show "x = i" by (auto simp: distinct_map dest: inj_onD)
qed simp

lemma retry_after_alias:
  assumes "loadSessionAuthority (ie_host env) db sessionId True = Inr a" and "sa_state a = ''open''"
    and un: "uncorrelated env sessionId p a db" and c: "fp_correlationId p = Some c"
    and one: "retryRows db sessionId p = [i]" and dec: "decodeIntentFor env db a i = Inr i"
    and bound: "boundIntent i p a" and keys: "intent_keys (db_intents db)"
    and linked: "appendCorrelationAlias env i c db = Inr db'"
  shows "db' = db \<or> capturePrepared env sessionId p db' = Inr (db', i)"
  using linked
proof (cases rule: appendCorrelationAlias_obtains)
  case (linked aliasId e)
  let ?data = "[(''sessionId'', JStr (si_session_id i)), (''intentId'', JStr (si_id i)),
    (''correlationId'', JStr c), (''ordinaryFingerprint'', JStr (si_ordinary_fingerprint i))]"
  have sid: "si_session_id i = sessionId" and mem: "i \<in> set (db_intents db)"
    using one retryRows_mem [of i db sessionId p] by simp_all
  have auth: "loadSessionAuthority (ie_host env) db' sessionId True = Inr a"
    using loadSessionAuthority_frame [OF session_frame_append [of e db "db_intents db"]] assms(1) linked
    by simp
  have dec': "decodeIntentFor env db' a i = Inr i"
    using decodeIntentFor_frame [of db' db e] linked dec by simp
  have wf: "js_wf (JObj ?data)" by simp
  note read = exactEventData_stored [OF linked(9) wf refl linked(10)]
  have scalars: "boundedToken (JStr (si_id i)) code = Inr (si_id i)"
      "canonicalHash (JStr (si_ordinary_fingerprint i)) code = Inr (si_ordinary_fingerprint i)" for code
    using rowToIntent_parts(1) [of "ie_host env" "ie_loopback env" a i] dec
    by (auto simp: decodeIntentFor_Inr intentScalars_def Let_def boundedToken_Inr canonicalHash_Inr)
  have "get_prop ?data ''sessionId'' = JStr (si_session_id i)"
      "get_prop ?data ''intentId'' = JStr (si_id i)" "get_prop ?data ''correlationId'' = JStr c"
      "get_prop ?data ''ordinaryFingerprint'' = JStr (si_ordinary_fingerprint i)"
    by (simp_all add: get_prop_def)
  note props = this [THEN arg_cong [of _ _ js_normal], folded read(2)]
  have "intentById db' (si_id i) = Some i"
    using intentById_keys [OF keys mem] linked by (simp add: intentById_def)
  then have "aliasTarget env db' sessionId c a e = Inr i"
    using read(1) scalars dec' sid by (simp add: aliasTarget_def Let_def props [unfolded sid])
  moreover have "correlatedRow db' sessionId c = None"
    using linked sid by (simp add: correlatedRow_def)
  moreover have "eventsOf db' ''intent_correlation'' aliasId ''intent.correlation_bound'' = [e]"
    using linked by (simp add: eventsOf_def)
  ultimately have "loadCorrelatedIntent env db' sessionId c a = Inr (Some i)"
    using linked(2) sid by (simp add: loadCorrelatedIntent_def Let_def)
  then show ?thesis using auth assms(2) bound c by (simp add: requireOpen_open capturePrepared_def)
qed simp

text \<open>A capture repeated returns the same intent and writes nothing.\<close>

lemma capturePrepared_again:
  assumes "capturePrepared env sessionId p db = Inr (db', i)" and "intent_keys (db_intents db)"
  shows "capturePrepared env sessionId p db' = Inr (db', i)"
  using assms(1)
proof (cases rule: capturePrepared_obtains)
  case (all a)
  show ?thesis
  proof (rule all(4))
    assume "uncorrelated env sessionId p a db" and "retryRows db sessionId p = []"
      and "captureNew env sessionId p a db = Inr (db', i)"
    with all(1,2) show ?thesis by (rule retry_after_new)
  next
    assume "uncorrelated env sessionId p a db" and "retryRows db sessionId p = [i]"
      and "decodeIntentFor env db a i = Inr i"
      and step: "(case fp_correlationId p of None \<Rightarrow> Inr db | Some c \<Rightarrow> appendCorrelationAlias env i c db)
        = Inr db'"
    then show ?thesis
      using retry_after_alias [OF all(1,2) _ _ _ _ all(3) assms(2)] assms(1)
      by (cases "fp_correlationId p") auto
  qed (use assms(1) in simp)
qed

section \<open>A closed session\<close>

text \<open>The intents of a closed session are settled for good.\<close>

definition frozen :: "string \<Rightarrow> intent_row list \<Rightarrow> session_row \<Rightarrow> session_row list \<Rightarrow> intent_row list \<Rightarrow> bool" where
  "frozen sessionId rows s sessions intents \<longleftrightarrow>
     filter (\<lambda>i. si_session_id i = sessionId) intents = rows
     \<and> (\<forall>i \<in> set rows. si_state i = ''terminal'')
     \<and> select_one (\<lambda>r. ss_id r = sessionId) sessions = Some s \<and> ss_state s = ''closed''"

lemma live_session_open:
  "live_session h db sessionId e w \<Longrightarrow>
   \<exists>s. select_one (\<lambda>r. ss_id r = sessionId) (db_sessions db) = Some s \<and> ss_state s = ''open''"
  by (auto simp: live_session_def session_rows_def)

lemma select_one_kept:
  assumes "select_one K (xs @ r # ys) = Some s" and "r \<noteq> s" and "K r' = K r"
  shows "select_one K (xs @ r' # ys) = Some s"
  using assms by (induction xs) (auto simp: select_one_def split: if_splits)

lemma session_closes_frozen:
  assumes "session_closes n t db db'" and "frozen sessionId rows s (db_sessions db) is"
  shows "frozen sessionId rows s (db_sessions db') is"
  using assms(1)
proof cases
  case (1 xs u ys us b vs)
  have "select_one (\<lambda>r. ss_id r = sessionId) (xs @ toClosedSession t u # ys) = Some s"
    by (rule select_one_kept [of _ _ u]) (use 1 assms(2) in \<open>auto simp: frozen_def toClosedSession_def\<close>)
  with 1 assms(2) show ?thesis by (simp add: frozen_def)
qed

lemma session_opens_frozen:
  "frozen sessionId rows s (db_sessions db) is \<Longrightarrow> session_opens h db r b \<Longrightarrow>
   frozen sessionId rows s (db_sessions (open_session r b db)) is"
  by (simp add: frozen_def open_session_def select_one_append)

lemma spend_step_frozen:
  "spend_step h db db' \<Longrightarrow> frozen sessionId rows s (db_sessions db) (db_intents db) \<Longrightarrow>
   frozen sessionId rows s (db_sessions db') (db_intents db')"
proof (induction rule: spend_step.induct)
  case (capture_step i db)
  then show ?case using live_session_open [of h db "si_session_id i"] by (auto simp: frozen_def)
next
  case (move_step i i' db xs ys)
  then have "si_session_id i' = si_session_id i"
    by (blast dest: intent_move_edge(2) intent_identity_columns)
  moreover have "si_session_id i \<noteq> sessionId"
    using move_step.prems intent_move_edge(4) [OF move_step.hyps(1)] move_step.hyps(3)
    by (auto simp: frozen_def)
  ultimately show ?case using move_step by (auto simp: frozen_def)
next
  case (open_step db r b)
  then have "frozen sessionId rows s (db_sessions (open_session r b db)) (db_intents db)"
    by (intro session_opens_frozen)
  then show ?case by (simp add: open_session_def)
next
  case (close_step db n t db')
  then show ?case by (simp add: session_closes_frozen session_closes_frame)
next
  case (supersede_step db n t db1 r b)
  then have "frozen sessionId rows s (db_sessions db1) (db_intents db1)"
    by (simp add: session_closes_frozen session_closes_frame)
  from session_opens_frozen [OF this supersede_step.hyps(3)] show ?case by (simp add: open_session_def)
qed simp

lemma blocked_frozen:
  assumes "list_all2 session_blocked ss ss'" and "frozen sessionId rows s ss is"
  shows "frozen sessionId rows s ss' is"
proof -
  have "select_one (\<lambda>r. ss_id r = sessionId) ss' = Some s"
    if "select_one (\<lambda>r. ss_id r = sessionId) ss = Some s" and "ss_state s = ''closed''"
    using assms(1) that
    by (induction rule: list_all2_induct) (auto simp: select_one_def session_blocked_def split: if_splits)
  with assms(2) show ?thesis by (simp add: frozen_def)
qed

lemma closed_is_frozen:
  assumes "settled_session db sessionId" and "session_closes sessionId t db db1"
    and "log_extended h db1 db'" and "select_one (\<lambda>r. ss_id r = sessionId) (db_sessions db') = Some s"
    and "ss_state s = ''closed''"
  shows "frozen sessionId (sessionIntents db sessionId) s (db_sessions db') (db_intents db')"
proof -
  have "db_intents db' = db_intents db"
    using assms(2,3) by (auto simp: log_extended_def session_closes_frame)
  with assms show ?thesis by (auto simp: frozen_def settled_session_def settled_intent_def sessionIntents_def)
qed

end
