(* ===== verification/IntentReading.thy ===== *)
theory IntentReading
  imports IntentRetry
begin

text \<open>
  What the readers of \<^verbatim>\<open>intent-builder.mjs\<close> accept: an intent whose events are its life, an agent
  identifier that encodes sixteen bytes, headers up to their order.
\<close>

section \<open>The trace of an intent\<close>

text \<open>The events after the capture lead from one state and time to another.\<close>

inductive intent_trace :: "string \<Rightarrow> string \<Rightarrow> event_row list \<Rightarrow> string \<Rightarrow> string \<Rightarrow> bool" where
  trace_end: "intent_trace st t [] st t"
| trace_challenge:
    "ev_event_type e = ''intent.challenge_attached'' \<Longrightarrow>
     json_parse (ev_data_json e) = Some (JObj d) \<Longrightarrow> get_prop d ''updatedAt'' = JStr t1 \<Longrightarrow>
     date_ms t \<le> date_ms t1 \<Longrightarrow> intent_trace ''challenged'' t1 es st2 t2 \<Longrightarrow>
     intent_trace ''captured'' t (e # es) st2 t2"
| trace_transition:
    "ev_event_type e = ''intent.transitioned'' \<Longrightarrow>
     json_parse (ev_data_json e) = Some (JObj d) \<Longrightarrow> get_prop d ''updatedAt'' = JStr t1 \<Longrightarrow>
     get_prop d ''previousState'' = JStr st \<Longrightarrow> get_prop d ''nextState'' = JStr st1 \<Longrightarrow>
     st1 \<noteq> ''challenged'' \<Longrightarrow> legal_edge st st1 \<Longrightarrow> date_ms t \<le> date_ms t1 \<Longrightarrow>
     intent_trace st1 t1 es st2 t2 \<Longrightarrow> intent_trace st t (e # es) st2 t2"

abbreviation challenges :: "event_row list \<Rightarrow> nat" where
  "challenges es \<equiv> length (filter (\<lambda>e. ev_event_type e = ''intent.challenge_attached'') es)"

lemma exactEventData_Inr:
  "exactEventData e names code = Inr d \<Longrightarrow>
   json_parse (ev_data_json e) = Some (JObj d) \<and> canonicalJson (JObj d) = Inr (ev_data_json e)"
  by (auto simp: exactEventData_def dest!: closedRecord_Inr split: option.splits if_splits)

lemma attachedEvent_Inr:
  assumes "attachedEvent i e rp = Inr rp'"
  obtains d t where "json_parse (ev_data_json e) = Some (JObj d)" and "get_prop d ''updatedAt'' = JStr t"
    and "rp_state rp = ''captured''" and "rp_challenges rp = 0"
    and "rp' = \<lparr>rp_state = ''challenged'', rp_updatedAt = t, rp_challenges = 1\<rparr>"
    and "date_ms (rp_updatedAt rp) \<le> date_ms t"
    and "get_prop d ''challengeHash'' = option_string (si_challenge_hash i)"
    and "si_challenge_hash i \<noteq> None"
proof -
  from assms obtain d t where x: "exactEventData e [''challengeHash'', ''challengeReceivedAt'',
        ''projectionHash'', ''updatedAt''] ''INTENT_CORRUPTION'' = Inr d"
      "persistedTimestamp (get_prop d ''updatedAt'') ''INTENT_CORRUPTION'' = Inr t"
      "rp_state rp = ''captured''" "rp_challenges rp = 0"
      "rp' = \<lparr>rp_state = ''challenged'', rp_updatedAt = t, rp_challenges = 1\<rparr>"
      "\<not> timestampIsBefore t (rp_updatedAt rp)"
      "get_prop d ''challengeHash'' = option_string (si_challenge_hash i)"
      "si_challenge_hash i \<noteq> None"
    unfolding attachedEvent_def Let_def by (auto split: if_splits)
  then show thesis
    using that exactEventData_Inr [OF x(1)] by (simp add: persistedTimestamp_Inr timestampIsBefore_def)
qed

lemma transitionedEvent_Inr:
  assumes "transitionedEvent e rp = Inr rp'"
  obtains d t st where "json_parse (ev_data_json e) = Some (JObj d)" and "get_prop d ''updatedAt'' = JStr t"
    and "get_prop d ''previousState'' = JStr (rp_state rp)" and "get_prop d ''nextState'' = JStr st"
    and "st \<noteq> ''challenged''" and "legal_edge (rp_state rp) st"
    and "rp' = rp\<lparr>rp_state := st, rp_updatedAt := t\<rparr>" and "date_ms (rp_updatedAt rp) \<le> date_ms t"
proof -
  from assms obtain d previous st where d: "exactEventData e [''previousState'', ''nextState'', ''reasonCode'',
        ''retryMatchable'', ''updatedAt''] ''INTENT_CORRUPTION'' = Inr d"
    and st: "get_prop d ''previousState'' = JStr previous" "get_prop d ''nextState'' = JStr st"
    unfolding transitionedEvent_def Let_def by (auto split: jsval.splits)
  with assms obtain t where "previous = rp_state rp" "st \<noteq> ''challenged''" "legal_edge (rp_state rp) st"
      "persistedTimestamp (get_prop d ''updatedAt'') ''INTENT_CORRUPTION'' = Inr t"
      "rp' = rp\<lparr>rp_state := st, rp_updatedAt := t\<rparr>" "\<not> timestampIsBefore t (rp_updatedAt rp)"
    unfolding transitionedEvent_def Let_def by auto
  then show thesis
    using that exactEventData_Inr [OF d] st by (simp add: persistedTimestamp_Inr timestampIsBefore_def)
qed

lemma replayEvents_trace:
  assumes "replayEvents i es rp = Inr rp'"
    and "\<forall>e \<in> set es. ev_event_type e \<in> {''intent.captured'', ''intent.challenge_attached'',
      ''intent.transitioned''}"
  shows "intent_trace (rp_state rp) (rp_updatedAt rp) es (rp_state rp') (rp_updatedAt rp')
    \<and> rp_challenges rp' = rp_challenges rp + challenges es"
  using assms
proof (induction es arbitrary: rp)
  case Nil
  then show ?case by (auto intro: trace_end)
next
  case (Cons e es)
  show ?case
  proof (cases "ev_event_type e = ''intent.challenge_attached''")
    case True
    with Cons.prems(1) obtain rq where q: "attachedEvent i e rp = Inr rq" "replayEvents i es rq = Inr rp'"
      by auto
    from q(1) Cons.IH [OF q(2)] Cons.prems(2) True show ?thesis
      by (elim attachedEvent_Inr) (auto intro: trace_challenge)
  next
    case False
    with Cons.prems obtain rq where q: "transitionedEvent e rp = Inr rq" "replayEvents i es rq = Inr rp'"
      and ty: "ev_event_type e = ''intent.transitioned''"
      by (auto split: if_splits)
    from q(1) Cons.IH [OF q(2)] Cons.prems(2) ty show ?thesis
      by (elim transitionedEvent_Inr) (auto intro: trace_transition)
  qed
qed

text \<open>An accepted intent's events: one capture of exactly its columns, then its trace.\<close>

lemma validateIntentEvents_obtains:
  assumes "validateIntentEvents db i a = Inr ()"
  obtains e es where "intentEvents db (si_id i) = e # es" and "ev_event_type e = ''intent.captured''"
    and "canonicalJson (JObj (captureData i (sa_policyVersionId a))) = Inr (ev_data_json e)"
    and "intent_trace ''captured'' (si_created_at i) es (si_state i) (si_updated_at i)"
    and "challenges es = (if si_challenge_hash i = None then 0 else 1)"
proof -
  from assms obtain e es where rows: "intentEvents db (si_id i) = e # es"
    by (auto simp: validateIntentEvents_def Let_def split: list.splits)
  with assms obtain d rp where ty: "ev_event_type e = ''intent.captured''"
    and d: "exactEventData e CAPTURE_FIELDS ''INTENT_CORRUPTION'' = Inr d"
    and same: "sameJson d (captureData i (sa_policyVersionId a)) = Inr True"
    and rp: "replayEvents i es \<lparr>rp_state = ''captured'', rp_updatedAt = si_created_at i,
        rp_challenges = 0\<rparr> = Inr rp"
    and fin: "(if si_challenge_hash i = None then 0 else 1) = rp_challenges rp" "rp_state rp = si_state i"
      "rp_updatedAt rp = si_updated_at i"
    by (auto simp: validateIntentEvents_def Let_def split: if_splits)
  have types: "\<forall>x \<in> set es. ev_event_type x \<in> {''intent.captured'', ''intent.challenge_attached'',
      ''intent.transitioned''}"
    using rows by (auto simp: intentEvents_def filter_eq_Cons_iff)
  have "canonicalJson (JObj (captureData i (sa_policyVersionId a))) = Inr (ev_data_json e)"
    using same exactEventData_Inr [OF d] by (auto simp: sameJson_def)
  with replayEvents_trace [OF rp types] fin show thesis by (intro that [OF rows ty]) simp_all
qed

text \<open>Along a trace the states follow legal edges.\<close>

lemma intent_trace_legal: "intent_trace st t es st' t' \<Longrightarrow> legal_edge\<^sup>*\<^sup>* st st' \<and> date_ms t \<le> date_ms t'"
proof (induction rule: intent_trace.induct)
  case (trace_challenge e d t1 t es st2 t2)
  then show ?case using converse_rtranclp_into_rtranclp [of legal_edge, OF legal_edge_ends(1)] by simp
next
  case (trace_transition e d t1 st st1 t es st2 t2)
  then show ?case by (auto intro: converse_rtranclp_into_rtranclp)
qed simp

section \<open>Instance identifiers\<close>

lemma b64_value_char [simp]: "n < 64 \<Longrightarrow> b64_value (b64_char n) = n"
  by (auto simp: b64_value_def b64_char_def string_preds)

lemma b64url_b64_char [simp]: "n < 64 \<Longrightarrow> b64url_char (b64_char n)"
  by (auto simp: b64_char_def string_preds)

lemma b64_value_less: "b64_value c < 64" if "b64url_char c"
  using that by (auto simp: b64_value_def string_preds)

lemma b64_encode_less: "\<forall>b \<in> set bytes. b < 256 \<Longrightarrow> \<forall>n \<in> set (b64_encode bytes). n < 64"
  by (induction bytes rule: b64_encode.induct) auto

lemma b64_decode_less: "\<forall>n \<in> set ns. n < 64 \<Longrightarrow> \<forall>b \<in> set (b64_decode ns). b < 256"
  by (induction ns rule: b64_decode.induct) auto

lemma b64_roundtrip: "\<forall>b \<in> set bytes. b < 256 \<Longrightarrow> b64_decode (b64_encode bytes) = bytes"
  by (induction bytes rule: b64_encode.induct) auto

lemma b64_length: "length (b64_encode bytes) = (length bytes * 4 + 2) div 3"
  by (induction bytes rule: b64_encode.induct) auto

lemma instance_id_pattern_iff:
  "instance_id_pattern s \<longleftrightarrow> length s = 22 \<and> is_alnum (hd s) \<and> list_all b64url_char s"
  by (cases s) (auto simp: b64url_char_def)

lemma instance_id_bytes:
  "canonicalInstanceId (JStr s) = Inr s \<longleftrightarrow>
   (\<exists>bytes. length bytes = 16 \<and> (\<forall>b \<in> set bytes. b < 256)
      \<and> s = map b64_char (b64_encode bytes) \<and> is_alnum (hd s))"
proof
  assume "canonicalInstanceId (JStr s) = Inr s"
  then have s: "instance_id_pattern s" "length (b64_decode (map b64_value s)) = 16"
      "map b64_char (b64_encode (b64_decode (map b64_value s))) = s"
    by (auto simp: canonicalInstanceId_def Let_def)
  then have "\<forall>n \<in> set (map b64_value s). n < 64"
    by (auto simp: instance_id_pattern_iff list_all_iff b64_value_less)
  from b64_decode_less [OF this] s show "\<exists>bytes. length bytes = 16 \<and> (\<forall>b \<in> set bytes. b < 256)
      \<and> s = map b64_char (b64_encode bytes) \<and> is_alnum (hd s)"
    by (intro exI [of _ "b64_decode (map b64_value s)"]) (auto simp: instance_id_pattern_iff)
next
  assume "\<exists>bytes. length bytes = 16 \<and> (\<forall>b \<in> set bytes. b < 256)
      \<and> s = map b64_char (b64_encode bytes) \<and> is_alnum (hd s)"
  then obtain bytes where b: "length bytes = 16" "\<forall>b \<in> set bytes. b < 256"
    and s: "s = map b64_char (b64_encode bytes)" "is_alnum (hd s)"
    by blast
  note small = b64_encode_less [OF b(2)]
  have "map b64_value s = b64_encode bytes"
    using small by (simp add: s(1) map_idI)
  moreover have "instance_id_pattern s"
    using s small b(1) by (simp add: instance_id_pattern_iff b64_length list_all_iff)
  ultimately show "canonicalInstanceId (JStr s) = Inr s"
    using s(1) b b64_roundtrip by (simp add: canonicalInstanceId_def Let_def)
qed

section \<open>Headers\<close>

text \<open>A header the loop keeps, and what it keeps of it.\<close>

definition header_kept :: "string \<times> jsval \<Rightarrow> (string \<times> string) option" where
  "header_kept kv =
     (case snd kv of
        JStr raw \<Rightarrow>
          if fst kv \<noteq> [] \<and> list_all header_name_char (fst kv)
             \<and> to_lower (fst kv) \<in> set ALLOWED_HEADERS \<and> \<not> list_ex control_char raw
             \<and> utf8_length raw \<le> 8192 \<and> trim_header raw \<noteq> []
          then Some (to_lower (fst kv), trim_header raw) else None
      | _ \<Rightarrow> None)"

lemma allowed_not_forbidden: "k \<in> set ALLOWED_HEADERS \<Longrightarrow> k \<notin> set FORBIDDEN_AGENT_HEADERS"
  by (auto simp: ALLOWED_HEADERS_def FORBIDDEN_AGENT_HEADERS_def)

lemma normalizeHeaders_Inr:
  "normalizeHeaders kvs seen = Inr hs \<longleftrightarrow>
   (\<exists>new. map header_kept kvs = map Some new \<and> hs = seen @ new
      \<and> distinct (map fst new) \<and> fst ` set new \<inter> fst ` set seen = {})"
proof (induction kvs seen rule: normalizeHeaders.induct)
  case (2 key v rest seen)
  show ?case
  proof (cases "header_kept (key, v)")
    case None
    then show ?thesis
      by (auto simp: header_kept_def Let_def list_ex_iff split: jsval.splits if_splits)
  next
    case (Some h)
    then obtain raw where v: "v = JStr raw" "h = (to_lower key, trim_header raw)"
      and ok: "key \<noteq> []" "list_all header_name_char key" "to_lower key \<in> set ALLOWED_HEADERS"
        "\<not> list_ex control_char raw" "utf8_length raw \<le> 8192" "trim_header raw \<noteq> []"
      by (auto simp: header_kept_def split: jsval.splits if_splits)
    note IH = 2 [OF refl _ _ _ _ v(1)]
    have "normalizeHeaders ((key, v) # rest) seen = Inr hs \<longleftrightarrow>
        to_lower key \<notin> fst ` set seen \<and> normalizeHeaders rest (seen @ [h]) = Inr hs"
      using ok allowed_not_forbidden by (auto simp: v Let_def)
    also have "\<dots> \<longleftrightarrow> (\<exists>new. map header_kept ((key, v) # rest) = map Some new \<and> hs = seen @ new
      \<and> distinct (map fst new) \<and> fst ` set new \<inter> fst ` set seen = {})"
    proof (cases "to_lower key \<in> fst ` set seen")
      case True
      then show ?thesis using Some v by (auto simp: map_eq_Cons_conv)
    next
      case False
      have "normalizeHeaders rest (seen @ [h]) = Inr hs \<longleftrightarrow>
          (\<exists>new. map header_kept rest = map Some new \<and> hs = (seen @ [h]) @ new
            \<and> distinct (map fst new) \<and> fst ` set new \<inter> fst ` set (seen @ [h]) = {})"
        using IH False ok allowed_not_forbidden by (simp add: v)
      also have "\<dots> \<longleftrightarrow> (\<exists>new. map header_kept ((key, v) # rest) = map Some new \<and> hs = seen @ new
          \<and> distinct (map fst new) \<and> fst ` set new \<inter> fst ` set seen = {})"
        using Some False v by (auto simp: Cons_eq_map_conv)
      finally show ?thesis using False by simp
    qed
    finally show ?thesis .
  qed
qed auto

lemma canonicalHeaders_Inr:
  "canonicalHeaders (JObj kvs) = Inr hs \<longleftrightarrow>
   (\<exists>new. map header_kept kvs = map Some new \<and> distinct (map fst new) \<and> hs = sort_key fst new)"
  by (auto simp: canonicalHeaders_def andthen_Inr_iff normalizeHeaders_Inr)

end
