(* ===== verification/IntentCapture.thy ===== *)
theory IntentCapture
  imports IntentReading
begin

text \<open>
  A capture goes through: what \<^verbatim>\<open>captureNew\<close> writes for an admitted request in a live session is
  accepted by the check it is read back with.
\<close>

section \<open>Events are written\<close>

lemma writeEvent_succeeds:
  assumes "js_canonical (JObj data)" and "canonicalToken (JStr et) = Inr et"
    and "canonicalToken (JStr ei) = Inr ei" and "canonicalToken (JStr ty) = Inr ty"
    and "canonical_time (ie_store env)" and "\<forall>t. h_sha256 (ie_host env) t \<notin> ev_event_hash ` set (db_events db)"
  shows "\<exists>db'. writeEvent env et ei ty data db = Inr db'"
proof -
  let ?p = "last_hash (db_events db)"
  have "js_canonical (JObj [(''entityType'', JStr et), (''entityId'', JStr ei), (''eventType'', JStr ty),
      (''data'', JObj data), (''previousHash'', option_string ?p), (''createdAt'', JStr (ie_store env))])"
    using assms(1) by (simp add: option_string_def split: option.split)
  from canonicalJson_total [OF this] obtain x
    where x: "eventHash (ie_host env) et ei ty (JObj data) ?p (ie_store env) = Inr x"
      "x \<in> range (h_sha256 (ie_host env))"
    by (auto simp: eventHash_def)
  moreover from canonicalJson_total [OF assms(1)] obtain t where "canonicalJson (JObj data) = Inr t" ..
  moreover have "cloneDataGraph ''EVENT_SCHEMA'' (JObj data) = Inr (JObj data)"
    by (rule cloneDataGraph_canonical [OF assms(1)])
  moreover have "canonicalTimestamp (JStr (ie_store env)) = Inr (ie_store env)"
    using assms(5) by (simp add: canonicalTimestamp_def)
  moreover have "x \<notin> ev_event_hash ` set (db_events db)" using x(2) assms(6) by auto
  ultimately show ?thesis
    using assms(2-4)
    by (simp add: writeEvent_def kernelEvent_def appendEvent_def Let_def del: cloneDataGraph.simps)
qed

section \<open>An admitted request\<close>

text \<open>
  A URL that is its own serialisation, without credentials, query or fragment, is its origin
  followed by its path.
\<close>

definition url_splits :: "host \<Rightarrow> bool" where
  "url_splits h \<longleftrightarrow>
     (\<forall>v u. h_url h v None = Some u \<and> u_href u = v \<and> u_username u = [] \<and> u_password u = []
        \<and> u_search u = [] \<and> u_hash u = [] \<longrightarrow> u_origin u @ u_pathname u = v)"

lemma intentRequestUrl_again:
  assumes "intentRequestUrl h l v = Inr url" and "url_splits h"
  shows "intentRequestUrl h l (JStr (iu_origin url @ iu_pathname url)) = Inr url"
    and "iu_href url = iu_origin url @ iu_pathname url"
proof -
  obtain s where s: "v = JStr s"
    using assms(1) by (cases v) (simp_all add: intentRequestUrl_def)
  with assms obtain u where u: "h_url h s None = Some u" "u_href u = s" "u_username u = []"
      "u_password u = []" "u_search u = []" "u_hash u = []"
    and url: "url = \<lparr>iu_href = s, iu_origin = u_origin u, iu_pathname = u_pathname u\<rparr>"
    by (auto simp: intentRequestUrl_def Let_def split: option.splits if_splits)
  with assms(2) have split: "u_origin u @ u_pathname u = s" by (simp add: url_splits_def)
  then show "iu_href url = iu_origin url @ iu_pathname url" by (simp add: url)
  show "intentRequestUrl h l (JStr (iu_origin url @ iu_pathname url)) = Inr url"
    using assms(1) by (simp add: url split s)
qed

lemma to_upper_method: "method_pattern s \<Longrightarrow> to_upper s = s"
proof -
  assume m: "method_pattern s"
  have "upper_char c = [c]" if "is_upper c \<or> is_digit c \<or> c = CHR ''-''" for c
    using that by (auto simp: upper_char_def string_preds)
  moreover have "\<forall>c \<in> set s. is_upper c \<or> is_digit c \<or> c = CHR ''-''"
    using m by (cases s) (auto simp: list_all_iff)
  ultimately show "to_upper s = s"
    unfolding to_upper_def by (induction s) auto
qed

lemma canonicalMethod_again: "canonicalMethod v = Inr m \<Longrightarrow> canonicalMethod (JStr m) = Inr m"
proof -
  assume "canonicalMethod v = Inr m"
  then have m: "method_pattern m"
    by (auto simp: canonicalMethod_def split: jsval.splits if_splits)
  then have "m \<noteq> []" "length m \<le> 32" by (cases m; simp)+
  with m show "canonicalMethod (JStr m) = Inr m"
    by (simp add: canonicalMethod_def to_upper_method)
qed

definition hashes_ok :: "host \<Rightarrow> bool" where
  "hashes_ok h \<longleftrightarrow> (\<forall>t. hash_pattern (h_sha256 h t)) \<and> (\<forall>b. hash_pattern (h_sha256_bytes h b))"

lemma prepareFingerprintInput_obtains:
  assumes "prepareFingerprintInput h l c v body = Inr p" and "hashes_ok h" and "url_splits h"
  obtains url where "boundedToken (JStr (fp_routeId p)) code = Inr (fp_routeId p)"
    and "canonicalMethod (JStr (fp_method p)) = Inr (fp_method p)"
    and "boundedToken (JStr (fp_purposeLabel p)) code = Inr (fp_purposeLabel p)"
    and "hash_pattern (fp_requestUrlHash p)" and "hash_pattern (fp_bodyHash p)"
    and "hash_pattern (fp_headerAllowlistHash p)" and "hash_pattern (fp_ordinaryFingerprint p)"
    and "intentRequestUrl h l (JStr (fp_sellerOrigin p @ fp_resourcePath p)) = Inr url"
    and "iu_origin url = fp_sellerOrigin p" and "iu_pathname url = fp_resourcePath p"
    and "h_sha256 h (iu_href url) = fp_requestUrlHash p"
    and "andthen (canonicalJson (ordinary_js (fp_routeId p) (fp_method p) (fp_requestUrlHash p)
           (fp_bodyHash p) (fp_headerAllowlistHash p) (fp_purposeLabel p))) (\<lambda>t. Inr (h_sha256 h t))
         = Inr (fp_ordinaryFingerprint p)"
proof -
  from assms(1) obtain request route m url headers bytes purpose ht ordinary corr where
      route: "boundedToken (get_prop request ''routeId'') ''ROUTE_ID'' = Inr route"
    and m: "canonicalMethod (get_prop request ''method'') = Inr m"
    and url: "intentRequestUrl h l (get_prop request ''requestUrl'') = Inr url"
    and purpose: "boundedToken (get_prop request ''purposeLabel'') ''PURPOSE_LABEL'' = Inr purpose"
    and ord: "canonicalJson (ordinary_js route m (h_sha256 h (iu_href url)) (h_sha256_bytes h bytes)
        (h_sha256 h ht) purpose) = Inr ordinary"
    and p': "\<lparr>fp_routeId = route, fp_method = m, fp_requestUrl = iu_href url,
          fp_requestUrlHash = h_sha256 h (iu_href url), fp_sellerOrigin = iu_origin url,
          fp_resourcePath = iu_pathname url, fp_bodyHash = h_sha256_bytes h bytes,
          fp_headerAllowlistHash = h_sha256 h ht, fp_purposeLabel = purpose,
          fp_ordinaryFingerprint = h_sha256 h ordinary, fp_correlationId = corr\<rparr> = p"
    unfolding prepareFingerprintInput_def Let_def by (elim andthen_InrE) (rule that, (assumption | (simp; fail))+)
  note p = p' [symmetric]
  show thesis
    using assms(2) ord route purpose canonicalMethod_again [OF m] intentRequestUrl_again [OF url assms(3)]
    by (intro that [of url]) (simp_all add: p hashes_ok_def boundedToken_Inr)
qed

section \<open>A new intent is accepted\<close>

lemma js_canonical_captureData [simp]: "js_canonical (JObj (captureData i v))"
  by (simp add: captureData_def)

lemma CAPTURE_FIELDS_keys: "map fst (captureData i v) = CAPTURE_FIELDS"
  by (simp add: captureData_def CAPTURE_FIELDS_def)

lemma sameJson_normal:
  assumes "canonicalJson (JObj data) = Inr t"
  shows "sameJson (normal_entries data) data = Inr True"
proof -
  have "canonicalJson (JObj (normal_entries data)) = Inr t"
    using assms canonicalSerialize_js_normal [of "JObj data"]
    by (simp add: canonicalJson_def js_normal_JObj del: js_normal.simps canonicalSerialize.simps)
  then show ?thesis using assms by (simp add: sameJson_def)
qed

lemma session_scalars:
  assumes "loadSessionRows h db sessionId active = Inr a"
  shows "boundedToken (JStr (sa_id a)) code = Inr (sa_id a)"
    and "hash_pattern (sa_enrollmentHash a)" and "canonical_address_pattern (sa_walletAddress a)"
  using assms
  by (auto elim!: loadSessionRows_obtains simp: sessionFields_def Let_def boundedToken_Inr intentAddress_def
      session_rows_def validateEnrollmentRow_def canonicalHash_Inr split: if_splits)

lemma captured_decodes:
  assumes "prepareFingerprintInput (ie_host env) (ie_loopback env) True v body = Inr p"
    and "hashes_ok (ie_host env)" and "url_splits (ie_host env)"
    and "loadSessionRows (ie_host env) db0 sessionId active = Inr a"
    and "boundedToken (JStr n) [] = Inr n" and "boundedToken (JStr r) [] = Inr r"
    and "boundedToken (JStr c) [] = Inr c" and "canonical_time t"
    and "\<not> timestampIsBefore t (sa_createdAt a)"
    and "intentHashFor (ie_host env) (capturedRow n r (sa_id a) p a c [] [] t t) (sa_policyVersionId a)
      = Inr g"
    and "idempotencyKeyFor (ie_host env) n r (sa_id a) (sa_enrollmentHash a) (fp_ordinaryFingerprint p) c
      = Inr k"
    and i: "i = capturedRow n r (sa_id a) p a c k g t t"
    and "intentEvents db n = [e]" and "ev_event_type e = ''intent.captured''"
    and "canonicalJson (JObj (captureData i (sa_policyVersionId a))) = Inr (ev_data_json e)"
    and "canonical_time (ev_created_at e)"
  shows "decodeIntentFor env db a i = Inr i"
proof -
  let ?h = "ie_host env"
  obtain url where fp: "\<And>code. boundedToken (JStr (fp_routeId p)) code = Inr (fp_routeId p)"
      "canonicalMethod (JStr (fp_method p)) = Inr (fp_method p)"
      "\<And>code. boundedToken (JStr (fp_purposeLabel p)) code = Inr (fp_purposeLabel p)"
      "hash_pattern (fp_requestUrlHash p)" "hash_pattern (fp_bodyHash p)"
      "hash_pattern (fp_headerAllowlistHash p)" "hash_pattern (fp_ordinaryFingerprint p)"
    and url: "intentRequestUrl ?h (ie_loopback env) (JStr (fp_sellerOrigin p @ fp_resourcePath p)) = Inr url"
      "iu_origin url = fp_sellerOrigin p" "iu_pathname url = fp_resourcePath p"
      "h_sha256 ?h (iu_href url) = fp_requestUrlHash p"
    and ord: "andthen (canonicalJson (ordinary_js (fp_routeId p) (fp_method p) (fp_requestUrlHash p)
           (fp_bodyHash p) (fp_headerAllowlistHash p) (fp_purposeLabel p))) (\<lambda>t. Inr (h_sha256 ?h t))
         = Inr (fp_ordinaryFingerprint p)"
    using prepareFingerprintInput_obtains [OF assms(1-3)] by (metis boundedToken_Inr)
  have "hash_pattern g"
    using assms(2,10) by (auto simp: intentHashFor_def hashes_ok_def)
  moreover have "known_state ''captured''" by (simp add: known_state_def LEGAL_TRANSITIONS_def)
  ultimately have "intentScalars i = Inr ()"
    using fp session_scalars [OF assms(4)] assms(5-8) unfolding boundedToken_Inr
    by (simp add: intentScalars_def Let_def i capturedRow_def boundedToken_JStr canonicalHash_def
        persistedTimestamp_Inr [THEN iffD2] intentAddress_def timestampIsBefore_def)
  moreover have "intentUrl ?h (ie_loopback env) i = Inr ()"
    using url by (simp add: intentUrl_def i capturedRow_def)
  moreover have "intentBound ?h i a = Inr ()"
  proof -
    have "intentHashFor ?h i (sa_policyVersionId a) = Inr g"
      using assms(10) by (simp add: intentHashFor_def intentBinding_js_def i capturedRow_def)
    moreover obtain t' where "canonicalJson (intentOrdinary_js i) = Inr t'"
        "h_sha256 ?h t' = fp_ordinaryFingerprint p"
      using ord by (auto simp: intentOrdinary_js_def i capturedRow_def)
    ultimately show ?thesis
      using assms(9,11) unfolding i
      by (simp add: intentBound_def Let_def) (simp add: capturedRow_def)
  qed
  moreover have "intentChallenge ?h i = Inr ()"
    by (simp add: intentChallenge_def i capturedRow_def)
  moreover have "validateIntentEvents db i a = Inr ()"
  proof -
    have "js_wf (JObj (captureData i (sa_policyVersionId a)))" by (rule js_wf_captureData)
    note read = exactEventData_stored(1) [OF assms(15) this CAPTURE_FIELDS_keys assms(16)]
    from assms(13,14) read sameJson_normal [OF assms(15)] show ?thesis
      by (simp add: validateIntentEvents_def Let_def i) (simp add: capturedRow_def)
  qed
  ultimately show ?thesis by (simp add: decodeIntentFor_Inr rowToIntent_def)
qed

text \<open>So the capture of a request that no intent of the session is known by writes one.\<close>

lemma captureNew_succeeds:
  assumes "prepareFingerprintInput (ie_host env) (ie_loopback env) True v body = Inr p"
    and "hashes_ok (ie_host env)" and "url_splits (ie_host env)"
    and "loadSessionRows (ie_host env) db sessionId active = Inr a"
    and ids: "fp_correlationId p = Some c" "nextIntentId env db = Inr n" "nextRequestId env db = Inr r"
    and tokens: "boundedToken (JStr n) [] = Inr n" "boundedToken (JStr r) [] = Inr r"
      "boundedToken (JStr c) [] = Inr c"
    and time: "canonical_time (ie_now env)" "\<not> timestampIsBefore (ie_now env) (sa_createdAt a)"
      "canonical_time (ie_store env)"
    and "db_intents db = []" and "intentEvents db n = []"
    and "\<forall>t. h_sha256 (ie_host env) t \<notin> ev_event_hash ` set (db_events db)"
  shows "\<exists>db' i. captureNew env sessionId p a db = Inr (db', i) \<and> si_id i = n"
proof -
  let ?h = "ie_host env" and ?t = "ie_now env"
  let ?row = "\<lambda>k g. capturedRow n r sessionId p a c k g ?t ?t"
  have sid: "sa_id a = sessionId" using assms(4) by (rule loadSessionRows_state)
  obtain g where g: "intentHashFor ?h (?row [] []) (sa_policyVersionId a) = Inr g"
    using canonicalJson_total [of "intentBinding_js (?row [] []) (sa_policyVersionId a)"]
    by (auto simp: intentHashFor_def intentBinding_js_def)
  obtain k where k: "idempotencyKeyFor ?h n r sessionId (sa_enrollmentHash a)
      (fp_ordinaryFingerprint p) c = Inr k"
    using canonicalJson_total [of "JObj [(''domain'', JStr ''wallet-kernel.intent-idempotency.v1''),
        (''intentId'', JStr n), (''requestId'', JStr r), (''sessionId'', JStr sessionId),
        (''enrollmentHash'', JStr (sa_enrollmentHash a)),
        (''ordinaryFingerprint'', JStr (fp_ordinaryFingerprint p)), (''correlationId'', JStr c)]"]
    by (auto simp: idempotencyKeyFor_def digestOf_def)
  let ?i = "?row k g" and ?db = "db\<lparr>db_intents := [?row k g]\<rparr>"
  have ty: "canonicalToken (JStr ''spend_intent'') = Inr ''spend_intent''"
      "canonicalToken (JStr ''intent.captured'') = Inr ''intent.captured''"
    by code_simp+
  have "canonicalToken (JStr n) = Inr n" using tokens(1) by (simp add: boundedToken_def)
  then obtain db' where w: "writeEvent env ''spend_intent'' n ''intent.captured''
      (captureData ?i (sa_policyVersionId a)) ?db = Inr db'"
    using writeEvent_succeeds [OF js_canonical_captureData ty(1) _ ty(2) time(3), of n ?db ?i
        "sa_policyVersionId a"] assms(16)
    by auto
  from w js_wf_captureData obtain e where e: "db' = ?db\<lparr>db_events := db_events ?db @ [e]\<rparr>"
      "ev_entity_type e = ''spend_intent''" "ev_entity_id e = n" "ev_event_type e = ''intent.captured''"
      "canonicalJson (JObj (captureData ?i (sa_policyVersionId a))) = Inr (ev_data_json e)"
      "canonical_time (ev_created_at e)"
    by (rule writeEvent_obtains)
  have "intentEvents db' n = [e]" using assms(15) e by (simp add: intentEvents_def)
  then have "decodeIntentFor env db' a ?i = Inr ?i"
    using captured_decodes [OF assms(1-4) tokens time(1,2), of g k ?i db' e] g k e(4-6)
    by (simp add: sid)
  moreover have "intentById db' n = Some ?i" by (simp add: intentById_def e(1) select_one_def)
  moreover have "insertIntent ?i db = Inr ?db" using assms(14) by (simp add: insertIntent_def)
  moreover have "canonicalTimestamp (JStr ?t) = Inr ?t" using time(1) by (simp add: canonicalTimestamp_def)
  ultimately have "captureNew env sessionId p a db = Inr (db', ?i)"
    using ids g k w by (simp add: captureNew_def Let_def)
  moreover have "si_id ?i = n" by (rule capturedRow_sel)
  ultimately show ?thesis by blast
qed

end
