(* ===== verification/IntentDemo.thy ===== *)
theory IntentDemo
  imports IntentCapture LedgerDemo
begin

text \<open>
  A small concrete session for the witnesses of the intent repository: the wallet and policy of
  \<^verbatim>\<open>LedgerDemo\<close>, one enrolled agent, and its open session with the two events it started with.
\<close>

section \<open>The host\<close>

definition other_hash :: string where
  "other_hash = ''sha256:'' @ replicate 64 (CHR ''b'')"

text \<open>
  All texts have one hash, but for an event whose data has a second key with a leading c: a stored
  event begins with its creation time, and its data's second key is at 87 when the first holds a time.
\<close>

definition life_sha :: "string \<Rightarrow> string" where
  "life_sha t = (if 87 < length t \<and> t ! 3 = CHR ''r'' \<and> t ! 87 = CHR ''c'' then other_hash
     else demo_hash)"

definition life_host :: host where
  "life_host = \<lparr>h_sha256 = life_sha, h_sha256_bytes = (\<lambda>_. demo_hash), h_url = demo_parse\<rparr>"

lemma life_host_sel [simp]:
  "h_sha256 life_host = life_sha" "h_sha256_bytes life_host b = demo_hash" "h_url life_host = demo_parse"
  by (simp_all add: life_host_def)

lemma life_sha_cases: "life_sha t = demo_hash \<or> life_sha t = other_hash"
  by (simp add: life_sha_def)

lemma life_hashes: "hash_pattern demo_hash" "hash_pattern other_hash" "demo_hash \<noteq> other_hash"
  "demo_hash \<noteq> ''h0''" "demo_hash \<noteq> ''h1''" "other_hash \<noteq> ''h0''" "other_hash \<noteq> ''h1''"
  by code_simp+

lemma life_hashes_ok: "hashes_ok life_host"
  using life_sha_cases life_hashes by (auto simp: hashes_ok_def) metis

lemma life_url_splits: "url_splits life_host"
proof -
  have "u_origin u @ u_pathname u = v" if "demo_parse v None = Some u" and "u_href u = v" for v u
    using that unfolding demo_parse.simps by (auto simp: demo_url_def split: if_split_asm)
  then show ?thesis by (simp add: url_splits_def)
qed

text \<open>The canonical text of an object starts with its first key.\<close>

lemma stored_start:
  assumes "js_canonical (JObj kvs)" and "sort_key fst kvs = (k, v) # rest"
  obtains r where "stored (JObj kvs) = CHR ''{'' # json_quote k @ r"
proof -
  obtain t where t: "canonicalSerialize (JObj kvs) = Inr t"
    using canonicalJson_total [OF assms(1)] by (auto simp: canonicalJson_def)
  then have "stored (JObj kvs) = t" by (simp add: stored_def canonicalJson_def)
  moreover from t assms(2) obtain u ts where
      "t = ''{'' @ join_comma ((json_quote k @ '':'' @ u) # ts) @ ''}''"
    by auto
  then obtain r where "t = CHR ''{'' # json_quote k @ r"
    by (cases ts) auto
  ultimately show thesis using that by simp
qed

lemma life_sha_plain:
  assumes "js_canonical (JObj kvs)" and "sort_key fst kvs = ((a # b # k), v) # rest"
    and "quote_char a = [a]" and "quote_char b = [b]" and "b \<noteq> CHR ''r''"
  shows "life_sha (stored (JObj kvs)) = demo_hash"
proof -
  obtain r where "stored (JObj kvs) = CHR ''{'' # json_quote (a # b # k) @ r"
    using assms(1,2) by (rule stored_start)
  with assms(3-5) show ?thesis by (simp add: life_sha_def json_quote_def)
qed

section \<open>The rows\<close>

definition life_agent :: string where "life_agent = replicate 22 (CHR ''A'')"

definition life_binding_id :: string where "life_binding_id = ''binding-'' @ replicate 64 (CHR ''a'')"

definition life_session :: session_row where
  "life_session = newSession ''s1'' (''pi:'' @ life_agent) demo_address ''v1'' t0"

definition life_binding :: binding_row where
  "life_binding = newBinding life_binding_id life_agent demo_hash demo_hash ''s1'' t0"

definition life_enrollment :: enrollment_row where
  "life_enrollment = demo_enrollment\<lparr>ae_agent_instance_id := life_agent\<rparr>"

definition life_event ::
  "string \<Rightarrow> string \<Rightarrow> string \<Rightarrow> (string \<times> jsval) list \<Rightarrow> string option \<Rightarrow> string \<Rightarrow> event_row" where
  "life_event et ei ty d previous hash = \<lparr>ev_entity_type = et, ev_entity_id = ei, ev_event_type = ty,
     ev_data_json = stored (JObj d), ev_previous_hash = previous, ev_event_hash = hash,
     ev_created_at = t0\<rparr>"

definition life_started :: event_row where
  "life_started = life_event ''spend_session'' ''s1'' ''session.started''
     (startedData (''pi:'' @ life_agent) demo_hash ''v1'' demo_hash demo_address t0) None ''h0''"

definition life_opened :: event_row where
  "life_opened = life_event ''session_binding'' life_binding_id ''session.binding_opened''
     (openedData life_agent demo_hash ''s1'' t0) (Some ''h0'') ''h1''"

definition life_db :: db where
  "life_db = (demo_ledger ''captured'' [] [] [life_started, life_opened])\<lparr>
     db_sessions := [life_session], db_enrollments := [life_enrollment],
     db_bindings := [life_binding], db_intents := [], db_decisions := []\<rparr>"

lemma life_db_sel [simp]:
  "db_sessions life_db = [life_session]" "db_enrollments life_db = [life_enrollment]"
  "db_bindings life_db = [life_binding]" "db_intents life_db = []" "db_decisions life_db = []"
  "db_events life_db = [life_started, life_opened]" "db_policy_versions life_db = [demo_version_row]"
  "db_metadata life_db = [(''active_policy_id'', ''v1'')]" "db_approvals life_db = []"
  "db_budgets life_db = []" "db_attempts life_db = []" "db_candidates life_db = []"
  "db_outcomes life_db = []" "db_resolutions life_db = []" "db_refunds life_db = []"
  "db_reconciliations life_db = []"
  by (simp_all add: life_db_def demo_ledger_def)

definition life_policy :: intent_policy where
  "life_policy = \<lparr>ip_id = ''v1'', ip_policy = demo_policy, ip_hash = demo_hash,
     ip_predecessorHash = None, ip_appliedAt = t0\<rparr>"

definition life_authority :: session_authority where
  "life_authority = sessionAuthority life_session life_binding life_enrollment life_policy"

section \<open>The session loads\<close>

lemma life_policy_valid:
  "validatePolicyDocument life_host (js_normal (policy_js demo_policy)) = Inr demo_policy"
proof -
  have ok: "policy_ok life_host demo_policy" by code_simp
  have valid: "validatePolicyDocument life_host (policy_js demo_policy) = Inr demo_policy"
    by code_simp
  have stable: "url_stable life_host"
    using demo_url_stable by (simp add: url_stable_def demo_host_def)
  have "list_all (\<lambda>s. utf8_length (s_origin s) \<le> 2048) (p_sellers demo_policy)" by code_simp
  from policy_origins_ok [OF stable valid this] show ?thesis by (rule policy_stored [OF ok])
qed

lemma life_tokens:
  "boundedToken (JStr ''s1'') code = Inr ''s1''" "boundedToken (JStr ''v1'') code = Inr ''v1''"
  by (simp_all add: boundedToken_def demo_scalars)

lemma life_policy_loads: "validatePolicyRow life_host (Some demo_version_row) = Inr life_policy"
proof -
  have can: "js_canonical (policy_js demo_policy)"
    by (rule js_canonical_policy [OF demo_policy_ok])
  have wf: "js_wf (policy_js demo_policy)" by (simp add: policy_js_def seller_js_def list_all_iff)
  have "life_sha (stored (policy_js demo_policy)) = demo_hash" by code_simp
  then show ?thesis
    by (simp add: validatePolicyRow_def demo_version_row_def Let_def life_policy_valid
        json_parse_canonicalJson [OF wf stored_text [OF can]] stored_text [OF can] life_tokens
        persistedTimestamp_def demo_timestamps demo_scalars life_policy_def)
qed

lemma life_enrollment_loads:
  "validateEnrollmentRow life_host True (Some life_enrollment) = Inr life_enrollment"
  "validateEnrollmentRow life_host False (Some life_enrollment) = Inr life_enrollment"
  by code_simp+

lemma life_binding_for: "bindingIdFor life_host ''s1'' = Inr life_binding_id"
  by code_simp

lemma life_fields: "sessionFields life_session life_binding = Inr ()"
  by code_simp

text \<open>The hash of every public session is the one hash.\<close>

definition public_of :: "session_authority \<Rightarrow> public_session" where
  "public_of a = \<lparr>ps_id = sa_id a, ps_adapterId = sa_adapterId a,
     ps_agentInstanceId = sa_agentInstanceId a, ps_enrollmentHash = sa_enrollmentHash a,
     ps_walletAddress = sa_walletAddress a, ps_policyVersionId = sa_policyVersionId a,
     ps_state = sa_state a, ps_createdAt = sa_createdAt a, ps_closedAt = sa_closedAt a,
     ps_sessionHash = demo_hash\<rparr>"

lemma life_public: "publicSession life_host a = Inr (public_of a)"
proof -
  have can: "js_canonical (sessionProjection a)"
    by (simp add: sessionProjection_def option_string_def split: option.split)
  obtain x y where o: "sessionProjection a = JObj [(''session'', x), (''binding'', y)]"
    by (simp add: sessionProjection_def)
  have sorted: "sort_key fst [(''session'', x), (''binding'', y)] = [(''binding'', y), (''session'', x)]"
    by code_simp
  have plain: "quote_char (CHR ''b'') = ''b''" "quote_char (CHR ''i'') = ''i''"
      "CHR ''i'' \<noteq> CHR ''r''" by code_simp+
  have "life_sha (stored (sessionProjection a)) = demo_hash"
    using can unfolding o by (rule life_sha_plain [OF _ sorted plain])
  with stored_text [OF can] show ?thesis by (simp add: publicSession_def public_of_def)
qed

lemma life_event_read:
  assumes "js_canonical (JObj d)" and "js_wf (JObj d)" and "map fst d = names"
  shows "exactEventData (life_event et ei ty d p x) names code = Inr (normal_entries d)"
    and "sameJson (normal_entries d) d = Inr True"
  using exactEventData_stored(1) [of d "life_event et ei ty d p x" names code] stored_text [OF assms(1)]
    assms demo_times sameJson_normal
  by (auto simp: life_event_def)

lemma life_event_sel [simp]:
  "ev_entity_type (life_event et ei ty d p x) = et" "ev_entity_id (life_event et ei ty d p x) = ei"
  "ev_event_type (life_event et ei ty d p x) = ty" "ev_event_hash (life_event et ei ty d p x) = x"
  by (simp_all add: life_event_def)

text \<open>The session has started, whatever other events the log holds.\<close>

definition life_log :: "event_row list \<Rightarrow> db \<Rightarrow> bool" where
  "life_log es db \<longleftrightarrow> db_events db = life_started # life_opened # es
     \<and> (\<forall>e \<in> set es. ev_event_type e \<noteq> ''session.started''
          \<and> ev_event_type e \<noteq> ''session.binding_opened'')"

lemma life_genesis:
  assumes "life_log es db" and "initialAuthority a = life_authority" and "sa_id a = ''s1''"
  shows "validateSessionGenesisEvents life_host db a = Inr ()"
proof -
  let ?s = "startedData (''pi:'' @ life_agent) demo_hash ''v1'' demo_hash demo_address t0"
    and ?o = "openedData life_agent demo_hash ''s1'' t0"
  have data: "js_canonical (JObj ?s)" "js_wf (JObj ?s)" "js_canonical (JObj ?o)" "js_wf (JObj ?o)"
    by (simp_all add: startedData_def openedData_def)
  have columns: "sa_adapterId a = ''pi:'' @ life_agent" "sa_enrollmentHash a = demo_hash"
      "sa_policyVersionId a = ''v1''" "sa_walletAddress a = demo_address" "sa_createdAt a = t0"
      "sa_agentInstanceId a = life_agent" "sa_bindingId a = life_binding_id"
    using assms(2) by (cases a; simp add: initialAuthority_def life_authority_def sessionAuthority_def
      life_session_def life_binding_def newSession_def newBinding_def)+
  have "eventsOf db ''spend_session'' ''s1'' ''session.started'' = [life_started]"
      "eventsOf db ''session_binding'' life_binding_id ''session.binding_opened'' = [life_opened]"
    using assms(1) by (auto simp: life_log_def eventsOf_def life_started_def life_opened_def
        filter_empty_conv)
  moreover have "exactEventData life_started [''adapterId'', ''enrollmentHash'', ''policyVersionId'',
      ''sessionHash'', ''walletAddress'', ''createdAt''] code = Inr (normal_entries ?s)" for code
    unfolding life_started_def by (rule life_event_read [OF data(1,2)]) (simp add: startedData_def)
  moreover have "exactEventData life_opened [''agentInstanceId'', ''enrollmentHash'', ''sessionId'',
      ''createdAt''] code = Inr (normal_entries ?o)" for code
    unfolding life_opened_def by (rule life_event_read [OF data(3,4)]) (simp add: openedData_def)
  moreover have "sameJson (normal_entries ?s) ?s = Inr True" "sameJson (normal_entries ?o) ?o = Inr True"
    using data life_event_read(2) by blast+
  ultimately show ?thesis
    by (simp add: validateSessionGenesisEvents_def life_public public_of_def assms(3) columns Let_def
        initialAuthority_def)
qed

lemma life_rows_load:
  assumes "db_sessions db = [life_session]" and "db_bindings db = [life_binding]"
    and "db_enrollments db = [life_enrollment]" and "db_policy_versions db = [demo_version_row]"
    and "db_metadata db = [(''active_policy_id'', ''v1'')]"
  shows "loadSessionRows life_host db ''s1'' active = Inr life_authority"
proof -
  have sel: "ss_id life_session = ''s1''" "sb_session_id life_binding = ''s1''"
      "ae_enrollment_hash life_enrollment = sb_enrollment_hash life_binding"
      "ss_policy_version_id life_session = ''v1''" "pvr_id demo_version_row = ''v1''"
    by (simp_all add: life_session_def life_binding_def life_enrollment_def demo_enrollment_def
        demo_version_row_def)
  have "pairIsValid ''s1'' life_binding_id life_session life_binding life_enrollment life_policy"
    by code_simp
  moreover have "activeBinding db life_session = Inr ()"
    using assms(5) life_tokens(2)
    by (simp add: activeBinding_def activePolicyId_def sel) (simp add: life_session_def)
  ultimately show ?thesis
    using assms(1-4) life_enrollment_loads life_policy_loads life_fields life_binding_for
    by (cases active) (simp_all add: loadSessionRows_def policyRowById_def sel life_authority_def)
qed

lemma life_loads: "loadSessionAuthority life_host life_db ''s1'' active = Inr life_authority"
proof -
  have "life_log [] life_db" by (simp add: life_log_def)
  moreover have "initialAuthority life_authority = life_authority"
    by (simp add: initialAuthority_def life_authority_def sessionAuthority_def life_session_def
        life_binding_def newSession_def newBinding_def)
  moreover have "sa_id life_authority = ''s1''" "sa_state life_authority = ''open''"
    by (simp_all add: life_authority_def life_session_def)
  moreover have "validateSessionLifecycleEvents life_host life_db life_authority = Inr ()"
    using calculation(4) by (simp add: validateSessionLifecycleEvents_def loadSessionCommandEvent_def
        eventsOf_def life_started_def life_opened_def)
  ultimately show ?thesis
    by (simp add: loadSessionAuthority_Inr life_rows_load life_genesis)
qed

end
