(* ===== verification/IntentWitness.thy ===== *)
theory IntentWitness
  imports IntentDemo
begin

text \<open>
  Calls of the concrete session: one request is captured, and the session is closed.
\<close>

section \<open>A capture\<close>

definition life_env :: intent_env where
  "life_env = \<lparr>ie_host = life_host, ie_loopback = False,
     ie_routes = [(''route'', \<lparr>rm_description = ''d'', rm_mimeType = ''text/plain''\<rparr>)],
     ie_ids = (\<lambda>kind n. JStr kind), ie_now = t1, ie_store = t1\<rparr>"

lemma life_env_sel [simp]:
  "ie_host life_env = life_host" "ie_loopback life_env = False" "ie_now life_env = t1"
  "ie_store life_env = t1" "ie_ids life_env kind n = JStr kind"
  by (simp_all add: life_env_def)

definition life_headers :: "(string \<times> jsval) list" where
  "life_headers = [(''User-Agent'', JStr ''agent/1''), (''Accept'', JStr ''*/*'')]"

definition life_request :: jsval where
  "life_request = JObj
     [(''sessionId'', JStr ''s1''), (''routeId'', JStr ''route''), (''method'', JStr ''get''),
      (''requestUrl'', JStr ''https://s.io/p''), (''headers'', JObj life_headers),
      (''bodyBytes'', JExotic), (''purposeLabel'', JStr ''purpose''),
      (''correlationId'', JStr ''c1'')]"

definition life_print :: fingerprint where
  "life_print = \<lparr>fp_routeId = ''route'', fp_method = ''GET'', fp_requestUrl = ''https://s.io/p'',
     fp_requestUrlHash = demo_hash, fp_sellerOrigin = ''https://s.io'', fp_resourcePath = ''/p'',
     fp_bodyHash = demo_hash, fp_headerAllowlistHash = demo_hash, fp_purposeLabel = ''purpose'',
     fp_ordinaryFingerprint = demo_hash, fp_correlationId = Some ''c1''\<rparr>"

definition life_kept :: "(string \<times> string) list" where
  "life_kept = [(''accept'', ''*/*''), (''user-agent'', ''agent/1'')]"

lemma life_parts:
  "boundedToken (JStr ''route'') code = Inr ''route''"
  "boundedToken (JStr ''purpose'') code = Inr ''purpose''" "boundedToken (JStr ''c1'') code = Inr ''c1''"
  "canonicalMethod (JStr ''get'') = Inr ''GET''"
  "intentRequestUrl life_host False (JStr ''https://s.io/p'')
    = Inr \<lparr>iu_href = ''https://s.io/p'', iu_origin = ''https://s.io'', iu_pathname = ''/p''\<rparr>"
  "canonicalHeaders (JObj life_headers) = Inr life_kept"
  "life_sha ''https://s.io/p'' = demo_hash"
  "quote_char (CHR ''a'') = ''a''" "quote_char (CHR ''b'') = ''b''" "quote_char (CHR ''c'') = ''c''"
  "quote_char (CHR ''o'') = ''o''" "CHR ''c'' \<noteq> CHR ''r''" "CHR ''o'' \<noteq> CHR ''r''"
  by code_simp+

lemma life_texts:
  "canonicalJson (headers_js life_kept) = Inr t \<Longrightarrow> life_sha t = demo_hash"
  "canonicalJson (ordinary_js a b c d e f) = Inr t \<Longrightarrow> life_sha t = demo_hash"
proof -
  have "life_sha (stored (headers_js life_kept)) = demo_hash"
    unfolding headers_js_def life_kept_def
    by (rule life_sha_plain [OF _ _ life_parts(8,10,12)]) (simp, code_simp)
  then show "canonicalJson (headers_js life_kept) = Inr t \<Longrightarrow> life_sha t = demo_hash"
    by (simp add: stored_def)
  have sorted: "sort_key fst [(''routeId'', u), (''method'', v), (''requestUrlHash'', w), (''bodyHash'', x),
      (''headerAllowlistHash'', y), (''purposeLabel'', z)]
    = [(''bodyHash'', x), (''headerAllowlistHash'', y), (''method'', v), (''purposeLabel'', z),
       (''requestUrlHash'', w), (''routeId'', u)]" for u v w x y z :: jsval
    by code_simp
  have "life_sha (stored (ordinary_js a b c d e f)) = demo_hash"
    unfolding ordinary_js_def by (rule life_sha_plain [OF _ sorted life_parts(9,11,13)]) simp
  then show "canonicalJson (ordinary_js a b c d e f) = Inr t \<Longrightarrow> life_sha t = demo_hash"
    by (simp add: stored_def)
qed

lemma life_prepared: "prepareCapture life_env life_request (Some []) = Inr (''s1'', life_print)"
proof -
  obtain t u where "canonicalJson (headers_js life_kept) = Inr t"
      "canonicalJson (ordinary_js ''route'' ''GET'' demo_hash demo_hash demo_hash ''purpose'') = Inr u"
    using canonicalJson_total [of "headers_js life_kept"]
      canonicalJson_total [of "ordinary_js ''route'' ''GET'' demo_hash demo_hash demo_hash ''purpose''"]
    by (auto simp: headers_js_def ordinary_js_def life_kept_def)
  moreover from this have "life_sha t = demo_hash" "life_sha u = demo_hash" by (auto dest: life_texts)
  ultimately show ?thesis
    by (simp add: prepareCapture_def prepareFingerprintInput_def closedRecord_def life_request_def
        CAPTURE_INPUT_def FINGERPRINT_FIELDS_def has_own_def get_prop_def life_tokens life_parts
        copyBodyBytes_def requestCorrelation_def life_print_def)
qed

section \<open>The captured intent\<close>

lemma life_fresh_hash: "life_sha t \<notin> ev_event_hash ` set (db_events life_db)"
  using life_sha_cases [of t] life_hashes by (auto simp: life_started_def life_opened_def)

lemma life_captured:
  "\<exists>db' i. captureIntentInTransaction life_env life_request (Some []) life_db = Inr (db', i)
     \<and> decodeIntent life_host False db' life_authority i = Inr i"
proof -
  have auth: "loadSessionAuthority life_host life_db ''s1'' True = Inr life_authority"
    by (rule life_loads)
  have sel: "sa_state life_authority = ''open''" "sa_createdAt life_authority = t0"
    by (simp_all add: life_authority_def life_session_def)
  have token: "boundedToken (JStr ''intent'') code = Inr ''intent''"
      "boundedToken (JStr ''request'') code = Inr ''request''" for code
    by code_simp+
  have ids: "nextIntentId life_env life_db = Inr ''intent''" "nextRequestId life_env life_db = Inr ''request''"
      "boundedToken (JStr ''intent'') [] = Inr ''intent''" "boundedToken (JStr ''request'') [] = Inr ''request''"
    by (simp_all add: nextIntentId_def nextRequestId_def MAX_ID_ATTEMPTS_def generatedId_def token
        numeral_eq_Suc)
  obtain aliasId where "correlationAliasIdFor life_host ''s1'' ''c1'' = Inr aliasId"
    using canonicalJson_total [of "JObj [(''domain'', JStr ''wallet-kernel.intent-correlation-alias.v1''),
        (''sessionId'', JStr ''s1''), (''correlationId'', JStr ''c1'')]"]
    by (auto simp: correlationAliasIdFor_def digestOf_def)
  then have none: "loadCorrelatedIntent life_env life_db ''s1'' ''c1'' life_authority = Inr None"
    by (simp add: loadCorrelatedIntent_def correlatedRow_def eventsOf_def life_started_def life_opened_def)
  have print: "prepareFingerprintInput (ie_host life_env) (ie_loopback life_env) True
      (JObj (map (\<lambda>k. (k, get_prop (entries_of life_request) k)) (FINGERPRINT_FIELDS @ [''correlationId''])))
      (Some []) = Inr life_print"
    using life_prepared
    by (auto simp: prepareCapture_def life_request_def closedRecord_def entries_of_def has_own_def)
  have corr: "fp_correlationId life_print = Some ''c1''" by (simp add: life_print_def)
  have "\<exists>db' i. captureNew life_env ''s1'' life_print life_authority life_db = Inr (db', i)
      \<and> si_id i = ''intent''"
    by (rule captureNew_succeeds [OF print _ _ _ corr ids(1,2), of "''s1''" True life_authority])
      (use auth ids life_parts(3) life_hashes_ok life_url_splits demo_times life_fresh_hash sel in
        \<open>auto simp: loadSessionAuthority_Inr timestampIsBefore_def intentEvents_def
          life_started_def life_opened_def\<close>)
  then obtain db' i where new: "captureNew life_env ''s1'' life_print life_authority life_db = Inr (db', i)"
    by blast
  then have "capturePrepared life_env ''s1'' life_print life_db = Inr (db', i)"
    using auth none sel corr
    by (simp add: capturePrepared_def captureRetry_def retryRows_def requireOpen_open)
  moreover have "decodeIntentFor life_env db' life_authority i = Inr i"
    using new by (rule captureNew_obtains)
  ultimately show ?thesis by (auto simp: captureIntentInTransaction_def life_prepared decodeIntentFor_def)
qed

lemma life_captures:
  "\<exists>db' i. captureIntentInTransaction life_env life_request (Some []) life_db = Inr (db', i)"
  using life_captured by blast

section \<open>A close\<close>

definition closed_session :: session_row where
  "closed_session = toClosedSession t1 life_session"

definition closed_binding :: binding_row where
  "closed_binding = toClosedBinding t1 life_binding"

definition closed_authority :: session_authority where
  "closed_authority = sessionAuthority closed_session closed_binding life_enrollment life_policy"

definition binding_closed_data :: "(string \<times> jsval) list" where
  "binding_closed_data = [(''sessionId'', JStr ''s1''), (''closedAt'', JStr t1),
     (''reasonCode'', JStr ''SESSION_CLOSED'')]"

definition session_closed_data :: "(string \<times> jsval) list" where
  "session_closed_data = [(''expectedSessionHash'', JStr demo_hash), (''closedSessionHash'', JStr demo_hash),
     (''closedAt'', JStr t1)]"

definition close_request :: jsval where
  "close_request = JObj [(''sessionId'', JStr ''s1''), (''expectedSessionHash'', JStr demo_hash)]"

text \<open>The hashes of the two events of the close differ.\<close>

definition event_text_of :: "string \<Rightarrow> string \<Rightarrow> string \<Rightarrow> jsval \<Rightarrow> string option \<Rightarrow> string" where
  "event_text_of et ei ty d p = stored (JObj
     [(''entityType'', JStr et), (''entityId'', JStr ei), (''eventType'', JStr ty), (''data'', d),
      (''previousHash'', option_string p), (''createdAt'', JStr t1)])"

lemma closing_hashes:
  "life_sha (event_text_of ''session_binding'' life_binding_id ''session.binding_closed''
     (JObj binding_closed_data) (Some ''h1'')) = demo_hash"
  "life_sha (event_text_of ''spend_session'' ''s1'' ''session.closed''
     (JObj session_closed_data) (Some demo_hash)) = other_hash"
  by code_simp+

definition closing_event ::
  "string \<Rightarrow> string \<Rightarrow> string \<Rightarrow> (string \<times> jsval) list \<Rightarrow> string option \<Rightarrow> string \<Rightarrow> event_row" where
  "closing_event et ei ty d previous hash = (life_event et ei ty d previous hash)\<lparr>ev_created_at := t1\<rparr>"

lemma closing_event_sel [simp]:
  "ev_entity_type (closing_event et ei ty d p x) = et" "ev_entity_id (closing_event et ei ty d p x) = ei"
  "ev_event_type (closing_event et ei ty d p x) = ty" "ev_event_hash (closing_event et ei ty d p x) = x"
  "ev_data_json (closing_event et ei ty d p x) = stored (JObj d)"
  "ev_created_at (closing_event et ei ty d p x) = t1"
  by (simp_all add: closing_event_def life_event_def)

lemma life_write:
  assumes "js_canonical (JObj d)" and "canonicalToken (JStr et) = Inr et"
    and "canonicalToken (JStr ei) = Inr ei" and "canonicalToken (JStr ty) = Inr ty"
    and "x = life_sha (event_text_of et ei ty (JObj d) (last_hash (db_events db)))"
    and "x \<notin> ev_event_hash ` set (db_events db)"
  shows "writeEvent life_env et ei ty d db = Inr (db\<lparr>db_events := db_events db
    @ [closing_event et ei ty d (last_hash (db_events db)) x]\<rparr>)"
proof -
  let ?o = "JObj [(''entityType'', JStr et), (''entityId'', JStr ei), (''eventType'', JStr ty),
    (''data'', JObj d), (''previousHash'', option_string (last_hash (db_events db))),
    (''createdAt'', JStr t1)]"
  have "js_canonical ?o" using assms(1) by (simp add: option_string_def split: option.split)
  from stored_text [OF this]
  have "eventHash life_host et ei ty (JObj d) (last_hash (db_events db)) t1 = Inr x"
    by (simp add: eventHash_def assms(5) event_text_of_def)
  moreover have "cloneDataGraph ''EVENT_SCHEMA'' (JObj d) = Inr (JObj d)"
    by (rule cloneDataGraph_canonical [OF assms(1)])
  ultimately show ?thesis
    using assms(2-4,6) stored_text [OF assms(1)]
    by (simp add: writeEvent_def kernelEvent_def appendEvent_def Let_def canonicalTimestamp_def demo_times
        closing_event_def life_event_def del: cloneDataGraph.simps)
qed

definition closed_events :: "event_row list" where
  "closed_events =
     [closing_event ''session_binding'' life_binding_id ''session.binding_closed'' binding_closed_data
        (Some ''h1'') demo_hash,
      closing_event ''spend_session'' ''s1'' ''session.closed'' session_closed_data
        (Some demo_hash) other_hash]"

definition closed_rows :: "event_row list \<Rightarrow> db" where
  "closed_rows es = life_db\<lparr>db_sessions := [closed_session], db_bindings := [closed_binding],
     db_events := db_events life_db @ es\<rparr>"

lemma life_columns [simp]:
  "ss_id life_session = ''s1''" "ss_state life_session = ''open''" "ss_closed_at life_session = None"
  "ss_policy_version_id life_session = ''v1''" "sb_id life_binding = life_binding_id"
  "sb_session_id life_binding = ''s1''" "sb_state life_binding = ''open''"
  "sb_closed_at life_binding = None" "pvr_id demo_version_row = ''v1''"
  "ae_enrollment_hash life_enrollment = demo_hash" "sb_enrollment_hash life_binding = demo_hash"
  by (simp_all add: life_session_def life_binding_def life_enrollment_def demo_enrollment_def
      demo_version_row_def)

lemma closed_rows_load: "loadSessionRows life_host (closed_rows es) ''s1'' False = Inr closed_authority"
proof -
  have "pairIsValid ''s1'' life_binding_id closed_session closed_binding life_enrollment life_policy"
    and "sessionFields closed_session closed_binding = Inr ()"
    by code_simp+
  moreover have "activeBinding (closed_rows es) closed_session = Inr ()"
    by (simp add: activeBinding_def activePolicyId_def closed_rows_def closed_session_def
        toClosedSession_def life_tokens)
  moreover have "ss_id closed_session = ''s1''" "ss_policy_version_id closed_session = ''v1''"
      "sb_session_id closed_binding = ''s1''" "sb_enrollment_hash closed_binding = demo_hash"
    by (simp_all add: closed_session_def toClosedSession_def closed_binding_def toClosedBinding_def)
  ultimately show ?thesis
    using life_enrollment_loads(2) life_policy_loads life_binding_for
    by (simp add: loadSessionRows_def policyRowById_def closed_rows_def closed_authority_def)
qed

lemma closed_loads:
  "loadSessionAuthority life_host (closed_rows closed_events) ''s1'' False = Inr closed_authority"
proof -
  have cols: "sa_id closed_authority = ''s1''" "sa_state closed_authority = ''closed''"
      "sa_closedAt closed_authority = Some t1" "sa_bindingId closed_authority = life_binding_id"
    by (simp_all add: closed_authority_def closed_session_def toClosedSession_def closed_binding_def
        toClosedBinding_def)
  have "life_log closed_events (closed_rows closed_events)"
    by (simp add: life_log_def closed_rows_def closed_events_def)
  moreover have "initialAuthority closed_authority = life_authority"
    by (simp add: initialAuthority_def closed_authority_def life_authority_def sessionAuthority_def
        closed_session_def closed_binding_def toClosedSession_def toClosedBinding_def life_session_def
        life_binding_def newSession_def newBinding_def)
  ultimately have genesis:
      "validateSessionGenesisEvents life_host (closed_rows closed_events) closed_authority = Inr ()"
    using cols(1) by (rule life_genesis)
  let ?b = "binding_closed_data" and ?s = "session_closed_data"
  have wf: "js_canonical (JObj ?b)" "js_wf (JObj ?b)" "js_canonical (JObj ?s)" "js_wf (JObj ?s)"
    by (simp_all add: binding_closed_data_def session_closed_data_def)
  have read: "exactEventData (closing_event et ei ty ?b p x) [''sessionId'', ''closedAt'', ''reasonCode''] code
      = Inr (normal_entries ?b)"
    "exactEventData (closing_event et ei ty ?s p x) CLOSED_FIELDS code = Inr (normal_entries ?s)"
    for et ei ty p x code
    using exactEventData_stored(1) [of ?b "closing_event et ei ty ?b p x", OF _ wf(2)]
      exactEventData_stored(1) [of ?s "closing_event et ei ty ?s p x", OF _ wf(4)]
      stored_text [OF wf(1)] stored_text [OF wf(3)] demo_times
    by (simp_all add: binding_closed_data_def session_closed_data_def CLOSED_FIELDS_def)
  have props: "get_prop (normal_entries ?b) k = js_normal (get_prop ?b k)"
      "get_prop (normal_entries ?s) k = js_normal (get_prop ?s k)" for k
    using wf(2,4) by (simp_all add: get_prop_normal_entries)
  have vals: "get_prop (normal_entries ?b) ''sessionId'' = JStr ''s1''"
      "get_prop (normal_entries ?b) ''closedAt'' = JStr t1"
      "get_prop (normal_entries ?b) ''reasonCode'' = JStr ''SESSION_CLOSED''"
      "get_prop (normal_entries ?s) ''expectedSessionHash'' = JStr demo_hash"
      "get_prop (normal_entries ?s) ''closedSessionHash'' = JStr demo_hash"
      "get_prop (normal_entries ?s) ''closedAt'' = JStr t1"
    unfolding props by (simp_all add: binding_closed_data_def session_closed_data_def get_prop_def)
  have close: "loadSessionCommandEvent (closed_rows closed_events) ''s1'' ''session.closed''
      = Inr (Some (normal_entries ?s))"
    using read(2) by (simp add: loadSessionCommandEvent_def eventsOf_def closed_rows_def closed_events_def
        life_started_def life_opened_def vals canonicalHash_def life_hashes persistedTimestamp_def
        demo_timestamps)
  have none: "loadSessionCommandEvent (closed_rows closed_events) ''s1'' ''session.policy_transitioned''
      = Inr None"
    by (simp add: loadSessionCommandEvent_def eventsOf_def closed_rows_def closed_events_def
        life_started_def life_opened_def)
  have bound: "eventsOf (closed_rows closed_events) ''session_binding'' life_binding_id
      ''session.binding_closed'' = [closed_events ! 0]"
    by (simp add: eventsOf_def closed_rows_def closed_events_def life_started_def life_opened_def)
  have "boundedToken (JStr ''SESSION_CLOSED'') code = Inr ''SESSION_CLOSED''" for code by code_simp
  then have "closedLifecycle life_host (closed_rows closed_events) closed_authority
      (closed_events ! 0) (Some (normal_entries ?s)) None = Inr ()"
    using read(1) by (simp add: closedLifecycle_def closed_events_def vals cols life_public public_of_def
        persistedTimestamp_def demo_timestamps option_string_def)
  then have "validateSessionLifecycleEvents life_host (closed_rows closed_events) closed_authority = Inr ()"
    using close none bound by (simp add: validateSessionLifecycleEvents_def cols)
  then show ?thesis using genesis closed_rows_load by (simp add: loadSessionAuthority_Inr)
qed

lemma closing_tokens:
  "canonicalToken (JStr ''session_binding'') = Inr ''session_binding''"
  "canonicalToken (JStr ''spend_session'') = Inr ''spend_session''"
  "canonicalToken (JStr life_binding_id) = Inr life_binding_id"
  "canonicalToken (JStr ''session.binding_closed'') = Inr ''session.binding_closed''"
  "canonicalToken (JStr ''session.closed'') = Inr ''session.closed''"
  by code_simp+

lemma life_closes:
  "closeBoundSessionInTransaction life_env close_request life_db
     = Inr (closed_rows closed_events, public_of closed_authority)"
proof -
  have cols: "sa_id life_authority = ''s1''" "sa_state life_authority = ''open''"
      "sa_bindingId life_authority = life_binding_id" "sa_lastSeenAt life_authority = t0"
    by (simp_all add: life_authority_def) (simp add: sessionAuthority_def life_binding_def newBinding_def)
  have safe: "assertSessionMonetarySafety life_env life_db ''s1'' life_authority = Inr ()"
    by (simp add: assertSessionMonetarySafety_def sessionIntents_def monetaryAmbiguity_def
        openApproval_def heldBudget_def activePayment_def paymentCandidate_def executionCase_def
        executionWithoutResolution_def refundCase_def unresolvedReconciliation_def)
  have time: "closingTime life_env life_authority = Inr t1"
    by (simp add: closingTime_def demo_timestamps cols timestampIsBefore_def demo_times)
  have rows: "closeRows t1 life_authority life_db = Inr (closed_rows [])"
    by (simp add: closeRows_def update_one_def update_rows_def cols closed_rows_def closed_session_def
        closed_binding_def)
  let ?e1 = "closed_events ! 0" and ?e2 = "closed_events ! 1"
  have last: "last_hash (db_events (closed_rows [])) = Some ''h1''"
      "last_hash (db_events (closed_rows [?e1])) = Some demo_hash"
    by (simp_all add: closed_rows_def last_hash_def life_opened_def closed_events_def)
  have can: "js_canonical (JObj binding_closed_data)" "js_canonical (JObj session_closed_data)"
    by (simp_all add: binding_closed_data_def session_closed_data_def)
  have e1: "bindingClosed life_env life_authority t1 ''SESSION_CLOSED'' (closed_rows [])
      = Inr (closed_rows [?e1])"
    using life_write [OF can(1) closing_tokens(1,3,4) refl, of "closed_rows []"] closing_hashes(1) last(1)
      life_hashes
    by (simp add: bindingClosed_def cols binding_closed_data_def [symmetric])
      (simp add: closed_rows_def closed_events_def life_started_def life_opened_def)
  have e2: "writeEvent life_env ''spend_session'' ''s1'' ''session.closed'' session_closed_data
      (closed_rows [?e1]) = Inr (closed_rows closed_events)"
    using life_write [OF can(2) closing_tokens(2) _ closing_tokens(5) refl, of "''s1''" "closed_rows [?e1]"]
      closing_hashes(2) last(2) life_hashes demo_scalars
    by simp (simp add: closed_rows_def closed_events_def life_started_def life_opened_def)
  have hash: "ps_sessionHash (public_of a) = demo_hash" for a by (simp add: public_of_def)
  have "closeLive life_env ''s1'' demo_hash life_authority life_db
      = Inr (closed_rows closed_events, public_of closed_authority)"
    using safe time rows e1 e2 closed_rows_load closed_loads
    by (simp add: closeLive_def life_public hash loadPublicRows_def loadPublic_def
        session_closed_data_def [symmetric])
  then show ?thesis
    using life_loads cols
    by (simp add: closeBoundSessionInTransaction_def close_request_def closedRecord_def has_own_def
        get_prop_def life_tokens canonicalHash_def life_hashes)
qed

section \<open>A resolution\<close>

text \<open>The session with an intent whose payment is unresolved.\<close>

definition stuck_db :: db where
  "stuck_db = life_db\<lparr>db_intents := [demo_intent_row ''unresolved'']\<rparr>"

lemma stuck_resolved:
  "\<exists>db'. terminalizeIntent life_env ''i1'' ''unresolved'' ''AUTHORIZATION_UNUSED_AFTER_EXPIRY'' t1 stuck_db
       = Inr db'
     \<and> db_intents db' = [toTerminal t1 (demo_intent_row ''unresolved'')]"
proof -
  let ?d = "[(''previousState'', JStr ''unresolved''), (''nextState'', JStr ''terminal''),
    (''reasonCode'', JStr ''AUTHORIZATION_UNUSED_AFTER_EXPIRY''), (''retryMatchable'', JBool False),
    (''updatedAt'', JStr t1)]"
  let ?db = "stuck_db\<lparr>db_intents := [toTerminal t1 (demo_intent_row ''unresolved'')]\<rparr>"
  have tokens: "canonicalToken (JStr ''spend_intent'') = Inr ''spend_intent''"
      "canonicalToken (JStr ''intent.transitioned'') = Inr ''intent.transitioned''"
    by code_simp+
  have "db_events ?db = [life_started, life_opened]" by (simp add: stuck_db_def)
  then have fresh: "life_sha t \<notin> ev_event_hash ` set (db_events ?db)" for t
    using life_sha_cases [of t] life_hashes by (auto simp: life_started_def life_opened_def)
  have can: "js_canonical (JObj ?d)" by simp (rule exI [of Not False], simp)
  obtain db' where "writeEvent life_env ''spend_intent'' ''i1'' ''intent.transitioned'' ?d ?db = Inr db'"
      "db_intents db' = [toTerminal t1 (demo_intent_row ''unresolved'')]"
    using life_write [OF can tokens(1) demo_scalars(3) tokens(2) refl fresh] by simp
  moreover have "update_one ''RECONCILIATION_CONFLICT''
      (\<lambda>i. si_id i = ''i1'' \<and> si_state i = ''unresolved'' \<and> si_retry_matchable i = 1) (toTerminal t1)
      (db_intents stuck_db) = Inr [toTerminal t1 (demo_intent_row ''unresolved'')]"
    by (simp add: update_one_def update_rows_def stuck_db_def demo_intent_row_def)
  ultimately show ?thesis by (simp add: terminalizeIntent_def)
qed

end
