(* ===== verification/IntentProperties.thy ===== *)
theory IntentProperties
  imports IntentWitness PolicyRepositoryProperties
begin

text \<open>
  The properties of the intent repository: every call is a step of the abstract machine, what a run
  keeps of sessions and intents, what an accepted intent's history is, that a retry changes nothing,
  and that no session spends after a policy switch or a close.
\<close>

section \<open>Refinement\<close>

text \<open>C22: the six operations of the repository refine the abstract machine of sessions and intents: a
  call that fails leaves the database as it was, and a call that returns takes one abstract step (a
  read, a capture into a live session, the one attachment of a challenge, one legal transition, an
  opening, a close or a replacement of a settled session), touches no other table and extends the
  event log by chained events only.\<close>

theorem intent_call_refines:
  "case intent_run env c db of (db', result) \<Rightarrow>
     (case result of Inl _ \<Rightarrow> db' = db | Inr _ \<Rightarrow> spend_effect (ie_host env) db db')"
proof (cases "snd (intent_run env c db)")
  case (Inl e)
  from intent_run_error [OF this] Inl show ?thesis by (simp add: case_prod_beta)
next
  case (Inr u)
  with intent_run_effect [of env db c] show ?thesis by (simp add: case_prod_beta)
qed

section \<open>Runs\<close>

text \<open>C23: along every run, in which the policy repository may block sessions, an operator's resolution
  may end an unresolved intent (\<^verbatim>\<open>terminalizeIntent\<close> of \<^verbatim>\<open>recovery.mjs\<close>) and other components write the
  other tables, the unique columns stay unique (so at most one live intent per session and request), and every intent
  and every session that ever was is still there: an intent keeps everything its capture fixed, its
  challenge once it has one, moves along legal edges only and never leaves its terminal state, and a
  session keeps its identity, never reopens once blocked and never changes once closed.\<close>

theorem intent_life:
  assumes "intent_reach h db0 db" and "intent_keys (db_intents db0)"
  shows "intent_keys (db_intents db)
    \<and> (\<forall>i \<in> set (db_intents db0). \<exists>j \<in> set (db_intents db). later_intent i j)
    \<and> (\<forall>s \<in> set (db_sessions db0). \<exists>u \<in> set (db_sessions db). later_session s u)"
proof (intro conjI ballI)
  show "intent_keys (db_intents db)"
    using assms(1) intent_reach_invariant [of h db0 db "\<lambda>_. intent_keys"] assms(2) spend_step_keys
    by blast
  show "\<exists>j \<in> set (db_intents db). later_intent i j" if "i \<in> set (db_intents db0)" for i
    using assms(1) that later_intent_refl
      intent_reach_invariant [of h db0 db "\<lambda>_ is. \<exists>j \<in> set is. later_intent i j"] spend_step_later
    by blast
  show "\<exists>u \<in> set (db_sessions db). later_session s u" if "s \<in> set (db_sessions db0)" for s
    using assms(1) that later_session_refl spend_step_later_session blocked_later_session
      intent_reach_invariant [of h db0 db "\<lambda>ss _. \<exists>u \<in> set ss. later_session s u"]
    by blast
qed

theorem intent_life_witness:
  "(\<exists>db' i j. captureIntent life_env life_request (Some []) life_db = (db', Inr i)
     \<and> intent_keys (db_intents (fst (intent_run life_env (CloseSession close_request) db')))
     \<and> j \<in> set (db_intents (fst (intent_run life_env (CloseSession close_request) db')))
     \<and> later_intent i j)
   \<and> (\<exists>db'. terminalizeIntent life_env ''i1'' ''unresolved'' ''AUTHORIZATION_UNUSED_AFTER_EXPIRY'' t1 stuck_db
         = Inr db'
     \<and> (\<exists>j \<in> set (db_intents db'). later_intent (demo_intent_row ''unresolved'') j \<and> si_state j = ''terminal''))"
proof
  obtain db' i where run: "captureIntentInTransaction life_env life_request (Some []) life_db = Inr (db', i)"
    using life_captures by blast
  have "intent_keys (db_intents life_db)" by (simp add: intent_keys_def)
  moreover have "intent_reach life_host life_db db'"
    using reach_call [OF reach_start, of life_env life_host life_db "CaptureIntent life_request (Some [])"]
      run by (simp add: captureIntent_def transaction_def)
  ultimately have keys: "intent_keys (db_intents db')" by (rule intent_life [THEN conjunct1, rotated])
  have "intent_reach life_host db' (fst (intent_run life_env (CloseSession close_request) db'))"
    by (rule reach_call [OF reach_start]) simp
  from intent_life [OF this keys] capture_effect [OF run] run
  show "\<exists>db' i j. captureIntent life_env life_request (Some []) life_db = (db', Inr i)
     \<and> intent_keys (db_intents (fst (intent_run life_env (CloseSession close_request) db')))
     \<and> j \<in> set (db_intents (fst (intent_run life_env (CloseSession close_request) db')))
     \<and> later_intent i j"
    by (auto simp: captureIntent_def transaction_def)
next
  let ?i = "demo_intent_row ''unresolved''"
  obtain db' where run: "terminalizeIntent life_env ''i1'' ''unresolved'' ''AUTHORIZATION_UNUSED_AFTER_EXPIRY'' t1
      stuck_db = Inr db'" and rows: "db_intents db' = [toTerminal t1 ?i]"
    using stuck_resolved by blast
  have clock: "reconciliationClockTimestamp (JStr t1) [Some (si_updated_at ?i), None] = Inr t1"
    by (simp add: reconciliationClockTimestamp_def demo_timestamps demo_times demo_intent_row_def)
  have one: "filter (\<lambda>i. si_id i = ''i1'') (db_intents stuck_db) = [?i]"
    by (simp add: stuck_db_def demo_intent_row_def)
  have "intent_reach life_host stuck_db db'"
    by (rule reach_resolved [OF reach_start _ one clock _ run]) simp_all
  moreover have "intent_keys (db_intents stuck_db)" by (simp add: stuck_db_def intent_keys_def)
  ultimately have "\<exists>j \<in> set (db_intents db'). later_intent ?i j"
    using intent_life [of life_host stuck_db db'] by (simp add: stuck_db_def)
  with run rows show "\<exists>db'. terminalizeIntent life_env ''i1'' ''unresolved'' ''AUTHORIZATION_UNUSED_AFTER_EXPIRY''
      t1 stuck_db = Inr db'
    \<and> (\<exists>j \<in> set (db_intents db'). later_intent ?i j \<and> si_state j = ''terminal'')"
    by (auto simp: toTerminal_def)
qed

section \<open>History\<close>

text \<open>C27: an intent the repository accepts is exactly what its events say: the first one is its capture,
  byte for byte the canonical form of its fixed columns, and the rest lead from \<^verbatim>\<open>captured\<close> at its
  creation to its state and time along legal edges and without going back in time, with one attached
  challenge just when the row has one, for the intent's own URL and hashed from the stored bytes; and
  the intent hash binds the request, the wallet and the policy version of its session.\<close>

theorem accepted_intent_history:
  assumes "decodeIntent h loopback db a i = Inr x"
  shows "x = i \<and> (\<exists>e es. intentEvents db (si_id i) = e # es
      \<and> canonicalJson (JObj (captureData i (sa_policyVersionId a))) = Inr (ev_data_json e)
      \<and> intent_trace ''captured'' (si_created_at i) es (si_state i) (si_updated_at i)
      \<and> challenges es = (if si_challenge_hash i = None then 0 else 1))
    \<and> legal_edge\<^sup>*\<^sup>* ''captured'' (si_state i) \<and> date_ms (si_created_at i) \<le> date_ms (si_updated_at i)
    \<and> (case (si_challenge_projection_json i, si_challenge_hash i) of
         (Some bytes, Some hash) \<Rightarrow> hash = h_sha256 h bytes
           \<and> (\<exists>v pj. json_parse bytes = Some v \<and> validateChallengeProjection v = Inr pj
                \<and> pj_urlHash pj = si_request_url_hash i)
       | (None, None) \<Rightarrow> si_state i = ''captured'' \<or> si_state i = ''terminal''
       | _ \<Rightarrow> False)
    \<and> intentHashFor h i (sa_policyVersionId a) = Inr (si_intent_hash i)
    \<and> si_session_id i = sa_id a \<and> si_wallet_address i = sa_walletAddress a"
proof -
  from assms have d: "rowToIntent h loopback a i = Inr i" "x = i" "validateIntentEvents db i a = Inr ()"
    by (auto simp: decodeIntent_def rowToIntent_def)
  note parts = rowToIntent_parts [OF d(1)]
  obtain e es where es: "intentEvents db (si_id i) = e # es"
      "canonicalJson (JObj (captureData i (sa_policyVersionId a))) = Inr (ev_data_json e)"
      "intent_trace ''captured'' (si_created_at i) es (si_state i) (si_updated_at i)"
      "challenges es = (if si_challenge_hash i = None then 0 else 1)"
    using d(3) by (rule validateIntentEvents_obtains)
  have "case (si_challenge_projection_json i, si_challenge_hash i) of
         (Some bytes, Some hash) \<Rightarrow> hash = h_sha256 h bytes
           \<and> (\<exists>v pj. json_parse bytes = Some v \<and> validateChallengeProjection v = Inr pj
                \<and> pj_urlHash pj = si_request_url_hash i)
       | (None, None) \<Rightarrow> si_state i = ''captured'' \<or> si_state i = ''terminal''
       | _ \<Rightarrow> False"
    using parts(4)
    by (auto simp: intentChallenge_def challengeBound_def Let_def split: option.splits if_splits)
  with d(2) es intent_trace_legal [OF es(3)] intentBound_authority [OF parts(3)]
  show ?thesis by blast
qed

theorem accepted_intent_history_witness:
  "\<exists>db' i. captureIntentInTransaction life_env life_request (Some []) life_db = Inr (db', i)
     \<and> intentHashFor life_host i (sa_policyVersionId life_authority) = Inr (si_intent_hash i)
     \<and> legal_edge\<^sup>*\<^sup>* ''captured'' (si_state i)"
proof -
  obtain db' i where run: "captureIntentInTransaction life_env life_request (Some []) life_db = Inr (db', i)"
      and dec: "decodeIntent life_host False db' life_authority i = Inr i"
    using life_captured by blast
  from accepted_intent_history [OF dec] run show ?thesis by blast
qed

section \<open>Retries\<close>

text \<open>C26: capturing is idempotent: when a capture returned an intent, whether new, found again by the
  request's fingerprint or by its correlation identifier, or newly known by another one, then the same
  capture returns the same intent again and writes nothing.\<close>

theorem capture_idempotent:
  assumes "captureIntent env v body db = (db', Inr i)" and "intent_keys (db_intents db)"
  shows "captureIntent env v body db' = (db', Inr i)"
proof -
  from assms(1) obtain n p where p: "prepareCapture env v body = Inr (n, p)"
      "capturePrepared env n p db = Inr (db', i)"
    by (auto simp: captureIntent_def transaction_Inr captureIntentInTransaction_def)
  from capturePrepared_again [OF p(2) assms(2)] p(1) show ?thesis
    by (simp add: captureIntent_def transaction_Inr captureIntentInTransaction_def)
qed

theorem capture_idempotent_witness:
  "\<exists>db' i. captureIntent life_env life_request (Some []) life_db = (db', Inr i)
     \<and> captureIntent life_env life_request (Some []) db' = (db', Inr i)"
proof -
  obtain db' i where "captureIntent life_env life_request (Some []) life_db = (db', Inr i)"
    using life_captures by (auto simp: captureIntent_def transaction_Inr)
  moreover from this have "captureIntent life_env life_request (Some []) db' = (db', Inr i)"
    by (rule capture_idempotent) (simp add: intent_keys_def)
  ultimately show ?thesis by blast
qed

text \<open>What a fingerprint keeps of an object's headers does not depend on their order.\<close>

lemma canonicalHeaders_permuted:
  assumes "canonicalHeaders (JObj kvs) = Inr hs" and "mset kvs' = mset kvs"
  shows "canonicalHeaders (JObj kvs') = Inr hs"
proof -
  from assms(1) obtain new where new: "map header_kept kvs = map Some new" "distinct (map fst new)"
      "hs = sort_key fst new"
    by (auto simp: canonicalHeaders_Inr)
  have "mset (map header_kept kvs') = image_mset Some (mset new)"
    using assms(2) new(1) by (metis mset_map)
  moreover define new' where "new' = map (the \<circ> header_kept) kvs'"
  ultimately have m: "mset new' = mset new"
    by (simp add: multiset.map_comp [symmetric]) (simp add: multiset.map_comp comp_def)
  have "\<forall>kv \<in> set kvs'. header_kept kv \<noteq> None"
    using assms(2) new(1) by (metis image_eqI image_iff list.set_map option.distinct(1) set_mset_mset)
  then have "map header_kept kvs' = map Some new'" by (auto simp: new'_def)
  moreover have d: "distinct (map fst new')"
    using new(2) m by (metis mset_eq_imp_distinct_iff mset_map)
  moreover have "sort_key fst new' = sort_key fst new"
    using m d by (intro sort_key_inj_key_eq) (simp_all add: distinct_map)
  ultimately show ?thesis using new(3) by (auto simp: canonicalHeaders_Inr)
qed

lemma closedRecord_keys:
  "closedRecord (JObj kvs) ks os code =
     (if list_all (has_own kvs) ks \<and> set (map fst kvs) \<subseteq> set ks \<union> set os then Inr kvs else fail code)"
  by (force simp: closedRecord_def list_ex_iff list_all_iff)

text \<open>C29: a retry is recognised however its headers are ordered: with the own headers of a request in
  another order its fingerprint is the same, so the hash a capture stores and every later retry is
  matched by does not depend on the order in which a client enumerates them.\<close>

theorem fingerprint_header_order:
  assumes "prepareFingerprintInput h l c (JObj req) body = Inr p"
    and "get_prop req ''headers'' = JObj hs" and "mset hs' = mset hs"
  shows "prepareFingerprintInput h l c
    (JObj (map (\<lambda>kv. if fst kv = ''headers'' then (''headers'', JObj hs') else kv) req)) body = Inr p"
proof -
  let ?new = "map (\<lambda>kv. if fst kv = ''headers'' then (''headers'', JObj hs') else kv) req"
  have keys: "map fst ?new = map fst req" by (simp add: comp_def)
  have own: "has_own ?new = has_own req"
    by (intro ext) (unfold has_own_def keys, rule refl)
  have closed: "closedRecord (JObj ?new) ks os code =
      (if closedRecord (JObj req) ks os code = Inr req then Inr ?new else fail code)" for ks os code
    by (simp add: closedRecord_keys own keys del: map_map)
  have other: "get_prop ?new k = get_prop req k" if "k \<noteq> ''headers''" for k
    using that by (induction req) (auto simp: get_prop_def)
  have headers: "get_prop ?new ''headers'' = JObj hs'"
    using assms(2) by (induction req) (auto simp: get_prop_def split: if_splits)
  have corr: "requestCorrelation c ?new = requestCorrelation c req"
    by (simp add: requestCorrelation_def own other)
  have permuted: "canonicalHeaders (JObj hs') = Inr x" if "canonicalHeaders (JObj hs) = Inr x" for x
    using that assms(3) by (rule canonicalHeaders_permuted)
  have same: "closedRecord (JObj req) ks os code = Inr kvs \<Longrightarrow> kvs = req" for ks os code kvs
    by (auto dest: closedRecord_Inr)
  show ?thesis
    using assms(1) unfolding prepareFingerprintInput_def
    by (elim andthen_InrE)
      (auto dest!: same permuted simp: closed other headers corr Let_def assms(2))
qed

theorem fingerprint_header_order_witness:
  "prepareFingerprintInput life_host False True (JObj
     [(''routeId'', JStr ''route''), (''method'', JStr ''get''), (''requestUrl'', JStr ''https://s.io/p''),
      (''headers'', JObj [(''Accept'', JStr ''*/*''), (''User-Agent'', JStr ''agent/1'')]),
      (''bodyBytes'', JExotic), (''purposeLabel'', JStr ''purpose''), (''correlationId'', JStr ''c1'')])
     (Some []) = Inr life_print"
proof -
  have run: "prepareFingerprintInput life_host False True (JObj
     [(''routeId'', JStr ''route''), (''method'', JStr ''get''), (''requestUrl'', JStr ''https://s.io/p''),
      (''headers'', JObj life_headers), (''bodyBytes'', JExotic), (''purposeLabel'', JStr ''purpose''),
      (''correlationId'', JStr ''c1'')]) (Some []) = Inr life_print"
    using life_prepared
    by (auto simp: prepareCapture_def life_request_def closedRecord_def CAPTURE_INPUT_def
        FINGERPRINT_FIELDS_def has_own_def get_prop_def)
  show ?thesis
    using fingerprint_header_order [OF run, of life_headers
        "[(''Accept'', JStr ''*/*''), (''User-Agent'', JStr ''agent/1'')]"]
    by (simp add: get_prop_def life_headers_def)
qed

section \<open>Identifiers\<close>

text \<open>The agent identifiers the kernel accepts are exactly the unpadded base64url texts of sixteen
  bytes that start with a letter or a digit; encoding such bytes and checking the text gives it back,
  and no two different byte strings share a text.\<close>

theorem instance_id_roundtrip:
  "canonicalInstanceId v = Inr s \<longleftrightarrow>
     v = JStr s \<and> (\<exists>!bytes. length bytes = 16 \<and> (\<forall>b \<in> set bytes. b < 256)
       \<and> s = map b64_char (b64_encode bytes)) \<and> is_alnum (hd s)"
proof -
  have form: "canonicalInstanceId v = Inr s \<longleftrightarrow> v = JStr s \<and> canonicalInstanceId (JStr s) = Inr s"
    by (auto simp: canonicalInstanceId_def Let_def split: jsval.splits)
  have one: "bytes = bytes'"
    if "\<forall>b \<in> set bytes. b < 256" "\<forall>b \<in> set bytes'. b < 256"
      "map b64_char (b64_encode bytes) = map b64_char (b64_encode bytes')" for bytes bytes'
  proof -
    have "map b64_value (map b64_char (b64_encode bs)) = b64_encode bs"
      if "\<forall>b \<in> set bs. b < 256" for bs
      using b64_encode_less [OF that] by (simp add: map_idI)
    with that have "b64_encode bytes = b64_encode bytes'" by metis
    with that b64_roundtrip show ?thesis by metis
  qed
  show ?thesis
    unfolding form instance_id_bytes using one by blast
qed

theorem instance_id_roundtrip_witness:
  "canonicalInstanceId (JStr (replicate 22 CHR ''A'')) = Inr (replicate 22 CHR ''A'')
     \<and> (\<exists>!bytes. length bytes = 16 \<and> (\<forall>b \<in> set bytes. b < 256)
          \<and> replicate 22 CHR ''A'' = map b64_char (b64_encode bytes))"
proof -
  have "canonicalInstanceId (JStr (replicate 22 CHR ''A'')) = Inr (replicate 22 CHR ''A'')"
    by code_simp
  with instance_id_roundtrip [of "JStr (replicate 22 CHR ''A'')" "replicate 22 CHR ''A''"]
  show ?thesis by blast
qed

section \<open>Nothing is spent outside a live session\<close>

text \<open>Without an open session every operation that advances an intent fails.\<close>

lemma no_open_session:
  assumes "\<forall>s \<in> set (db_sessions db). ss_state s \<noteq> ''open''"
  shows "\<exists>e. captureIntent env v body db = (db, Inl e)"
    and "\<exists>e. attachChallenge env v db = (db, Inl e)"
    and "prepareTransition v = Inr t \<Longrightarrow> pt_next t \<in> set ADVANCING \<Longrightarrow>
      \<exists>e. intentTransition env v db = (db, Inl e)"
proof -
  have dead: "\<not> live_session h db n e w" for h n e w
    using assms live_session_open [of h db n e w] select_one_Some by fastforce
  have "captureIntentInTransaction env v body db \<noteq> Inr x" for x
    using dead capture_effect [of env v body db] by (cases x) blast
  then show "\<exists>e. captureIntent env v body db = (db, Inl e)"
    by (auto simp: captureIntent_def transaction_def split: sum.split)
  have "attachChallengeInTransaction env v db \<noteq> Inr x" for x
    using dead by (cases x) (auto simp: attachChallengeInTransaction_def elim!: attachPrepared_obtains)
  then show "\<exists>e. attachChallenge env v db = (db, Inl e)"
    by (auto simp: attachChallenge_def transaction_def split: sum.split)
  show "\<exists>e. intentTransition env v db = (db, Inl e)"
    if "prepareTransition v = Inr t" and "pt_next t \<in> set ADVANCING"
  proof -
    have "transitionInTransaction env v db \<noteq> Inr x" for x
      using dead that by (cases x) (auto simp: transitionInTransaction_def elim!: transitionPrepared_obtains)
    then show ?thesis by (auto simp: intentTransition_def transaction_def split: sum.split)
  qed
qed

lemma applied_policy_blocks:
  assumes "applyPolicy h now document at db = (db', Inr r)" and "\<not> pa_idempotent r" and "policy_chain db"
  shows "\<forall>s \<in> set (db_sessions db'). ss_state s \<noteq> ''open''"
proof -
  from assms(1) obtain policy canonical time where
      "applyInTransaction h now policy canonical (h_sha256 h canonical) time db = Inr (db', r)"
    by (auto simp: applyPolicy_def transaction_Inr split: sum.split_asm prod.split_asm)
  from applyInTransaction_effect [OF assms(3) this] assms(2) show ?thesis
    by (simp add: policy_activated_def)
qed

text \<open>C25: a policy switch stops all spending at once: after a new policy was applied every capture, every
  attachment of a challenge and every transition that would advance an intent towards a payment fails
  and changes nothing, whatever its input and whoever calls it, until a session is opened or replaced
  under the new policy.\<close>

theorem policy_switch_stops_spending:
  assumes "applyPolicy h now document at db = (db', Inr r)" and "\<not> pa_idempotent r" and "policy_chain db"
  shows "(\<exists>e. captureIntent env v body db' = (db', Inl e))
    \<and> (\<exists>e. attachChallenge env v db' = (db', Inl e))
    \<and> (\<forall>t. prepareTransition v = Inr t \<and> pt_next t \<in> set ADVANCING \<longrightarrow>
         (\<exists>e. intentTransition env v db' = (db', Inl e)))"
proof -
  note blocked = applied_policy_blocks [OF assms]
  show ?thesis
    using no_open_session [OF blocked] by blast
qed

theorem policy_switch_stops_spending_witness:
  "\<exists>db' r. applyPolicy demo_host t0 (policy_js demo_policy) (JStr t0) fresh_db = (db', Inr r)
     \<and> (\<exists>e. captureIntent life_env life_request (Some []) db' = (db', Inl e))"
proof -
  obtain db' r where run: "applyPolicy demo_host t0 (policy_js demo_policy) (JStr t0) fresh_db = (db', Inr r)"
      "\<not> pa_idempotent r"
    using first_policy_applies by blast
  have "policy_chain fresh_db" by (simp add: policy_chain_def fresh_db_def)
  from policy_switch_stops_spending [OF run this, of life_env life_request "Some []"] run(1)
  show ?thesis by blast
qed

section \<open>Commands on sessions\<close>

text \<open>C24: a session closes only when nothing of its money is outstanding, and stays closed: when the close
  changed anything, every intent of the session was terminal with a recorded buyer outcome, no approval
  of it waited, no payment attempt of it was under way and no payment candidate of it waited, every
  execution case of it was resolved and every failed or unknown execution that was paid for had one, no
  refund of it was owed and its last reconciliation of each kind had settled its question, and no
  reservation of the session was held or unresolved;
  and along every later run its intents are exactly those, unchanged, and it is the closed session.\<close>

theorem session_close_clean:
  assumes "closeBoundSessionInTransaction env v db = Inr (db', p)" and "db' \<noteq> db"
    and "intent_reach (ie_host env) db' db''"
  shows "ps_state p = ''closed'' \<and> settled_session db (ps_id p)
    \<and> sessionIntents db'' (ps_id p) = sessionIntents db (ps_id p)
    \<and> (\<exists>s. select_one (\<lambda>s. ss_id s = ps_id p) (db_sessions db'') = Some s \<and> ss_state s = ''closed'')"
  using assms(1)
proof (cases rule: closeBoundSession_obtains)
  case replay
  with assms(2) show ?thesis by simp
next
  case (live t db1)
  obtain s where s: "select_one (\<lambda>s. ss_id s = ps_id p) (db_sessions db') = Some s" "ss_state s = ''closed''"
    using assms(1,2) by (rule closed_session_row)
  have "frozen (ps_id p) (sessionIntents db (ps_id p)) s (db_sessions db') (db_intents db')"
    by (rule closed_is_frozen [OF live(1-3) s])
  then have "frozen (ps_id p) (sessionIntents db (ps_id p)) s (db_sessions db'') (db_intents db'')"
    by (rule intent_reach_invariant [OF assms(3)]) (rule spend_step_frozen blocked_frozen; assumption)+
  with live(1,4) show ?thesis by (auto simp: frozen_def sessionIntents_def)
qed

theorem session_close_clean_witness:
  "\<exists>db'. closeBoundSessionInTransaction life_env close_request life_db = Inr (db', public_of closed_authority)
     \<and> settled_session life_db ''s1''
     \<and> sessionIntents (fst (intent_run life_env (CaptureIntent life_request (Some [])) db')) ''s1'' = []"
proof -
  let ?db = "fst (intent_run life_env (CaptureIntent life_request (Some [])) (closed_rows closed_events))"
  have id: "ps_id (public_of closed_authority) = ''s1''"
    by (simp add: public_of_def closed_authority_def closed_session_def toClosedSession_def)
  have "closed_rows closed_events \<noteq> life_db"
    by (rule notI, drule arg_cong [of _ _ db_sessions])
      (simp add: closed_rows_def closed_session_def toClosedSession_def life_session_def newSession_def)
  moreover have "intent_reach (ie_host life_env) (closed_rows closed_events) ?db"
    by (rule reach_call [OF reach_start]) simp
  ultimately have "settled_session life_db ''s1'' \<and> sessionIntents ?db ''s1'' = sessionIntents life_db ''s1''"
    using session_close_clean [OF life_closes] id by metis
  with life_closes show ?thesis by (auto simp: sessionIntents_def)
qed


end
