(* ===== verification/AgentEnrollment.thy ===== *)
theory AgentEnrollment
  imports IntentSession
begin

text \<open>
  \<^verbatim>\<open>src/spikes/pi-wielder/src/kernel/agent-enrollment.mjs\<close>: the one enrolled agent. An operator
  enrolls a descriptor by its hash and revokes it; a revoked descriptor never comes back, and a new
  agent is admitted only when every session of the revoked ones is closed. Clocks are arguments.
\<close>

section \<open>Identities and descriptors\<close>

record agent_env =
  ag_host :: host
  ag_now :: string
  ag_store :: string

text \<open>\<^verbatim>\<open>canonicalIdentityText\<close>: the text and the number it stands for.\<close>

definition canonicalIdentityText :: "jsval \<Rightarrow> (string \<times> int) res" where
  "canonicalIdentityText v =
     (case v of
        JStr s \<Rightarrow>
          if \<not> positive_decimal s then fail ''AGENT_IDENTITY''
          else if MAX_SAFE_INTEGER < text_int s then fail ''AGENT_IDENTITY''
          else Inr (s, text_int s)
      | _ \<Rightarrow> fail ''AGENT_IDENTITY'')"

definition positiveSafeIdentity :: "jsval \<Rightarrow> int res" where
  "positiveSafeIdentity v =
     (case v of
        JNum n \<Rightarrow> if n \<le> 0 \<or> MAX_SAFE_INTEGER < n then fail ''AGENT_IDENTITY'' else Inr n
      | _ \<Rightarrow> fail ''AGENT_IDENTITY'')"

record descriptor =
  de_agentInstanceId :: string
  de_credentialDigest :: string
  de_agentUid :: string
  de_agentGid :: string

definition validateDescriptor :: "jsval \<Rightarrow> descriptor res" where
  "validateDescriptor v =
     andthen (exactRecord v [''schemaVersion'', ''agentInstanceId'', ''credentialDigest'', ''agentUid'',
                ''agentGid''] [] ''AGENT_DESCRIPTOR_SCHEMA'') (\<lambda>d.
     if get_prop d ''schemaVersion'' \<noteq> JNum 1 then fail ''AGENT_DESCRIPTOR_VERSION''
     else
       andthen (canonicalIdentityText (get_prop d ''agentUid'')) (\<lambda>agentUid.
       andthen (canonicalIdentityText (get_prop d ''agentGid'')) (\<lambda>agentGid.
       andthen (canonicalInstanceId (get_prop d ''agentInstanceId'')) (\<lambda>agentInstanceId.
       andthen (canonicalHash (get_prop d ''credentialDigest'') ''AGENT_CREDENTIAL_DIGEST'')
         (\<lambda>credentialDigest.
       Inr \<lparr>de_agentInstanceId = agentInstanceId, de_credentialDigest = credentialDigest,
            de_agentUid = fst agentUid, de_agentGid = fst agentGid\<rparr>)))))"

definition descriptor_js :: "descriptor \<Rightarrow> jsval" where
  "descriptor_js d = JObj
     [(''schemaVersion'', JNum 1), (''agentInstanceId'', JStr (de_agentInstanceId d)),
      (''credentialDigest'', JStr (de_credentialDigest d)), (''agentUid'', JStr (de_agentUid d)),
      (''agentGid'', JStr (de_agentGid d))]"

definition descriptorHash :: "host \<Rightarrow> descriptor \<Rightarrow> string res" where
  "descriptorHash h d = andthen (canonicalJson (descriptor_js d)) (\<lambda>t. Inr (h_sha256 h t))"

section \<open>Persisted enrollments\<close>

text \<open>The lifecycle columns.\<close>

definition enrollmentLifecycle :: "enrollment_row \<Rightarrow> string \<Rightarrow> unit res" where
  "enrollmentLifecycle row enrolledAt =
     (let code = ''AGENT_ENROLLMENT_CORRUPTION'';
          active = (ae_state row = ''active''); revoked = (ae_state row = ''revoked'') in
      if (\<not> active \<and> \<not> revoked)
         \<or> (active \<and> (ae_revoked_by_operator_hash row \<noteq> None \<or> ae_revoked_at row \<noteq> None))
         \<or> (revoked \<and> (ae_revoked_by_operator_hash row = None \<or> ae_revoked_at row = None))
      then fail code
      else if active then Inr ()
      else
        andthen (canonicalHash (option_string (ae_revoked_by_operator_hash row))
                   ''AGENT_ENROLLMENT_SCHEMA'') (\<lambda>_.
        andthen (canonicalTimestamp (option_string (ae_revoked_at row))) (\<lambda>revokedAt.
        if date_ms revokedAt < date_ms enrolledAt then fail code else Inr ())))"

text \<open>
  \<^verbatim>\<open>rowToEnrollment\<close>: every field of the result is the row's column, so the result is the row. A
  kernel error of any code becomes the corruption of the row.
\<close>

definition rowToEnrollment :: "host \<Rightarrow> enrollment_row \<Rightarrow> enrollment_row res" where
  "rowToEnrollment h row = rethrow_as ''AGENT_ENROLLMENT_CORRUPTION''
     (andthen (validateDescriptor (JObj
        [(''schemaVersion'', JNum 1), (''agentInstanceId'', JStr (ae_agent_instance_id row)),
         (''credentialDigest'', JStr (ae_credential_digest row)),
         (''agentUid'', JStr (ae_agent_uid row)), (''agentGid'', JStr (ae_agent_gid row))])) (\<lambda>d.
      andthen (canonicalHash (JStr (ae_enrollment_hash row)) ''AGENT_ENROLLMENT_SCHEMA'')
        (\<lambda>enrollmentHash.
      andthen (descriptorHash h d) (\<lambda>hash.
      if hash \<noteq> enrollmentHash then fail ''AGENT_ENROLLMENT_CORRUPTION''
      else
        andthen (canonicalHash (JStr (ae_enrolled_by_operator_hash row)) ''AGENT_ENROLLMENT_SCHEMA'')
          (\<lambda>_.
        andthen (canonicalTimestamp (JStr (ae_enrolled_at row))) (\<lambda>enrolledAt.
        andthen (enrollmentLifecycle row enrolledAt) (\<lambda>_. Inr row)))))))"

definition enrollmentById :: "host \<Rightarrow> db \<Rightarrow> string \<Rightarrow> enrollment_row option res" where
  "enrollmentById h db agentInstanceId =
     (case select_one (\<lambda>e. ae_agent_instance_id e = agentInstanceId) (db_enrollments db) of
        None \<Rightarrow> Inr None
      | Some row \<Rightarrow> andthen (rowToEnrollment h row) (\<lambda>e. Inr (Some e)))"

section \<open>The isolation label\<close>

definition ENROLLED_FIELDS :: "string list" where
  "ENROLLED_FIELDS = [''enrollmentHash'', ''credentialDigest'', ''agentUid'', ''agentGid'',
     ''operatorIdHash'', ''isolation'', ''enrolledAt'']"

text \<open>A field is canonical and equals the row's column.\<close>

definition field_is :: "string res \<Rightarrow> string \<Rightarrow> unit res" where
  "field_is r expected =
     andthen r (\<lambda>s. if s \<noteq> expected then fail ''AGENT_ENROLLMENT_CORRUPTION'' else Inr ())"

definition enrolledEventMatches :: "enrollment_row \<Rightarrow> event_row \<Rightarrow> string res" where
  "enrolledEventMatches e row =
     (let code = ''AGENT_ENROLLMENT_CORRUPTION'' in
      case json_parse (ev_data_json row) of
        None \<Rightarrow> Inl (JsError ''SyntaxError'')
      | Some parsed \<Rightarrow>
          andthen (exactRecord parsed ENROLLED_FIELDS [] code) (\<lambda>data.
          andthen (field_is (canonicalJson (JObj data)) (ev_data_json row)) (\<lambda>_.
          andthen (field_is (canonicalHash (get_prop data ''enrollmentHash'') code)
                     (ae_enrollment_hash e)) (\<lambda>_.
          andthen (field_is (canonicalHash (get_prop data ''credentialDigest'') code)
                     (ae_credential_digest e)) (\<lambda>_.
          andthen (field_is (andthen (canonicalIdentityText (get_prop data ''agentUid''))
                     (\<lambda>uid. Inr (fst uid))) (ae_agent_uid e)) (\<lambda>_.
          andthen (field_is (andthen (canonicalIdentityText (get_prop data ''agentGid''))
                     (\<lambda>gid. Inr (fst gid))) (ae_agent_gid e)) (\<lambda>_.
          andthen (field_is (canonicalHash (get_prop data ''operatorIdHash'') code)
                     (ae_enrolled_by_operator_hash e)) (\<lambda>_.
          andthen (field_is (canonicalTimestamp (get_prop data ''enrolledAt'')) (ae_enrolled_at e)) (\<lambda>_.
          case get_prop data ''isolation'' of
            JStr s \<Rightarrow> if s \<noteq> ''simulated'' \<and> s \<noteq> ''pending_verification'' then fail code else Inr s
          | _ \<Rightarrow> fail code)))))))))"

definition enrollmentIsolation :: "enrollment_row \<Rightarrow> event_row list \<Rightarrow> string res" where
  "enrollmentIsolation e eventRows =
     (case eventRows of
        [row] \<Rightarrow>
          (case enrolledEventMatches e row of
             Inl _ \<Rightarrow> fail ''AGENT_ENROLLMENT_CORRUPTION''
           | Inr isolation \<Rightarrow> Inr isolation)
      | _ \<Rightarrow> fail ''AGENT_ENROLLMENT_CORRUPTION'')"

text \<open>\<^verbatim>\<open>withIsolation\<close>: the enrollment with its label.\<close>

definition isolated :: "db \<Rightarrow> enrollment_row \<Rightarrow> (enrollment_row \<times> string) res" where
  "isolated db e =
     andthen (enrollmentIsolation e
                (eventsOf db ''agent_enrollment'' (ae_agent_instance_id e) ''agent.enrolled''))
       (\<lambda>isolation. Inr (e, isolation))"

section \<open>Reads\<close>

definition getEnrollment :: "host \<Rightarrow> jsval \<Rightarrow> db \<Rightarrow> (enrollment_row \<times> string) option res" where
  "getEnrollment h v db =
     andthen (canonicalInstanceId v) (\<lambda>canonicalId.
     andthen (enrollmentById h db canonicalId) (\<lambda>enrollment.
     case enrollment of
       None \<Rightarrow> Inr None
     | Some e \<Rightarrow> andthen (isolated db e) (\<lambda>x. Inr (Some x))))"

definition currentAttestations :: "db \<Rightarrow> attestation_row list" where
  "currentAttestations db = filter (\<lambda>a. ia_state a = ''current'') (db_attestations db)"

text \<open>At most one attestation is current, and it is bound to the active enrollment.\<close>

definition attestationsBound :: "db \<Rightarrow> enrollment_row option \<Rightarrow> unit res" where
  "attestationsBound db active =
     (if 1 < length (currentAttestations db)
         \<or> list_ex (\<lambda>a. Some (ia_enrollment_hash a) \<noteq> map_option ae_enrollment_hash active)
             (currentAttestations db)
      then fail ''AGENT_ENROLLMENT_CORRUPTION'' else Inr ())"

definition activeAgent :: "host \<Rightarrow> db \<Rightarrow> (db \<times> (enrollment_row \<times> string) option) res" where
  "activeAgent h db =
     (let rows = filter (\<lambda>e. ae_state e = ''active'') (db_enrollments db) in
      if 1 < length rows then fail ''AGENT_ENROLLMENT_AMBIGUOUS''
      else
        andthen (case rows of [] \<Rightarrow> Inr None
                 | row # _ \<Rightarrow> andthen (rowToEnrollment h row) (\<lambda>e. Inr (Some e))) (\<lambda>enrollment.
        andthen (attestationsBound db enrollment) (\<lambda>_.
        case enrollment of
          None \<Rightarrow> Inr (db, None)
        | Some e \<Rightarrow> andthen (isolated db e) (\<lambda>x. Inr (db, Some x)))))"

section \<open>Enrolling\<close>

record enroll_input =
  en_descriptor :: descriptor
  en_hash :: string
  en_operatorIdHash :: string
  en_isolation :: string

text \<open>The mode against the identities of the kernel and of the agent; the result is the label.\<close>

definition enrollIsolation :: "string \<Rightarrow> int \<Rightarrow> int \<Rightarrow> int \<Rightarrow> int \<Rightarrow> string res" where
  "enrollIsolation mode agentUid agentGid kernelUid kernelGid =
     (if mode = ''cdp-testnet'' \<and> agentUid = kernelUid then fail ''AGENT_IDENTITY_NOT_ISOLATED''
      else if mode = ''deterministic'' \<and> (agentUid \<noteq> kernelUid \<or> agentGid \<noteq> kernelGid)
      then fail ''AGENT_DETERMINISTIC_FIXTURE''
      else Inr (if mode = ''deterministic'' then ''simulated'' else ''pending_verification''))"

definition ENROLL_FIELDS :: "string list" where
  "ENROLL_FIELDS = [''descriptor'', ''expectedDescriptorHash'', ''operatorIdHash'', ''mode'',
     ''kernelUid'', ''kernelGid'', ''expectedAgentUid'', ''expectedAgentGid'']"

definition prepareEnroll :: "host \<Rightarrow> jsval \<Rightarrow> enroll_input res" where
  "prepareEnroll h v =
     andthen (exactRecord v ENROLL_FIELDS [] ''AGENT_ENROLLMENT_SCHEMA'') (\<lambda>r.
     andthen (validateDescriptor (get_prop r ''descriptor'')) (\<lambda>d.
     andthen (canonicalHash (get_prop r ''expectedDescriptorHash'') ''AGENT_DESCRIPTOR_HASH'')
       (\<lambda>expected.
     andthen (descriptorHash h d) (\<lambda>enrollmentHash.
     if enrollmentHash \<noteq> expected then fail ''AGENT_DESCRIPTOR_HASH''
     else
       andthen (canonicalHash (get_prop r ''operatorIdHash'') ''AGENT_ENROLLMENT_SCHEMA'')
         (\<lambda>operatorIdHash.
       if get_prop r ''mode'' \<noteq> JStr ''cdp-testnet'' \<and> get_prop r ''mode'' \<noteq> JStr ''deterministic''
       then fail ''AGENT_ENROLLMENT_MODE''
       else
         andthen (positiveSafeIdentity (get_prop r ''kernelUid'')) (\<lambda>kernelUid.
         andthen (positiveSafeIdentity (get_prop r ''kernelGid'')) (\<lambda>kernelGid.
         andthen (positiveSafeIdentity (get_prop r ''expectedAgentUid'')) (\<lambda>expectedAgentUid.
         andthen (positiveSafeIdentity (get_prop r ''expectedAgentGid'')) (\<lambda>expectedAgentGid.
         if text_int (de_agentUid d) \<noteq> expectedAgentUid \<or> text_int (de_agentGid d) \<noteq> expectedAgentGid
         then fail ''AGENT_IDENTITY_MISMATCH''
         else
           andthen (enrollIsolation (if get_prop r ''mode'' = JStr ''deterministic''
                        then ''deterministic'' else ''cdp-testnet'')
                      (text_int (de_agentUid d)) (text_int (de_agentGid d)) kernelUid kernelGid)
             (\<lambda>isolation.
           Inr \<lparr>en_descriptor = d, en_hash = enrollmentHash, en_operatorIdHash = operatorIdHash,
                en_isolation = isolation\<rparr>))))))))))"

text \<open>The enrollment the input describes, already active.\<close>

definition exactEnrollment :: "enroll_input \<Rightarrow> enrollment_row \<Rightarrow> bool" where
  "exactEnrollment i e \<longleftrightarrow>
     ae_agent_instance_id e = de_agentInstanceId (en_descriptor i)
     \<and> ae_credential_digest e = de_credentialDigest (en_descriptor i)
     \<and> ae_enrollment_hash e = en_hash i
     \<and> ae_agent_uid e = de_agentUid (en_descriptor i) \<and> ae_agent_gid e = de_agentGid (en_descriptor i)
     \<and> ae_state e = ''active''"

definition sharesIdentity :: "enroll_input \<Rightarrow> enrollment_row \<Rightarrow> bool" where
  "sharesIdentity i e \<longleftrightarrow>
     ae_agent_instance_id e = de_agentInstanceId (en_descriptor i)
     \<or> ae_credential_digest e = de_credentialDigest (en_descriptor i)
     \<or> ae_enrollment_hash e = en_hash i"

definition historicalGuard :: "enroll_input \<Rightarrow> enrollment_row list \<Rightarrow> unit res" where
  "historicalGuard i rows =
     (case find (sharesIdentity i) rows of
        None \<Rightarrow> Inr ()
      | Some e \<Rightarrow>
          if ae_state e = ''revoked'' \<and> ae_agent_instance_id e = de_agentInstanceId (en_descriptor i)
             \<and> ae_credential_digest e = de_credentialDigest (en_descriptor i)
             \<and> ae_enrollment_hash e = en_hash i
          then fail ''AGENT_REVOKED'' else fail ''AGENT_ENROLLMENT_CONFLICT'')"

text \<open>The sessions with their bindings of revoked enrollments, in the order of the session ids.\<close>

definition revokedBindings :: "db \<Rightarrow> (binding_row \<times> session_row) list" where
  "revokedBindings db = sort_key (\<lambda>row. sb_session_id (fst row))
     [(b, s). b \<leftarrow> db_bindings db, e \<leftarrow> db_enrollments db, s \<leftarrow> db_sessions db,
        ae_enrollment_hash e = sb_enrollment_hash b \<and> ss_id s = sb_session_id b
        \<and> ae_state e = ''revoked'']"

definition revokedBindingClosed :: "binding_row \<times> session_row \<Rightarrow> unit res" where
  "revokedBindingClosed row =
     (let b = fst row; s = snd row; code = ''AGENT_ENROLLMENT_CORRUPTION'';
          bindingClosed = (sb_state b = ''closed''); sessionClosed = (ss_state s = ''closed'') in
      if bindingClosed \<noteq> sessionClosed then fail code
      else if \<not> bindingClosed then fail ''AGENT_ENROLLMENT_BOUND''
      else
        (case (canonicalTimestamp (option_string (sb_closed_at b)),
               canonicalTimestamp (option_string (ss_closed_at s))) of
           (Inr bindingClosedAt, Inr sessionClosedAt) \<Rightarrow>
             if bindingClosedAt \<noteq> sessionClosedAt then fail code else Inr ()
         | _ \<Rightarrow> fail code))"

definition newEnrollment :: "enroll_input \<Rightarrow> string \<Rightarrow> enrollment_row" where
  "newEnrollment i enrolledAt =
     \<lparr>ae_agent_instance_id = de_agentInstanceId (en_descriptor i),
      ae_credential_digest = de_credentialDigest (en_descriptor i), ae_enrollment_hash = en_hash i,
      ae_agent_uid = de_agentUid (en_descriptor i), ae_agent_gid = de_agentGid (en_descriptor i),
      ae_state = ''active'', ae_enrolled_by_operator_hash = en_operatorIdHash i,
      ae_enrolled_at = enrolledAt, ae_revoked_by_operator_hash = None, ae_revoked_at = None\<rparr>"

text \<open>The insert with the unique columns of the table and its one active row.\<close>

definition insertEnrollment :: "enrollment_row \<Rightarrow> db \<Rightarrow> db res" where
  "insertEnrollment e db =
     (if list_ex (\<lambda>r. ae_agent_instance_id r = ae_agent_instance_id e
            \<or> ae_credential_digest r = ae_credential_digest e
            \<or> ae_enrollment_hash r = ae_enrollment_hash e
            \<or> (ae_state r = ''active'' \<and> ae_state e = ''active'')) (db_enrollments db)
      then Inl (JsError ''SQLITE_CONSTRAINT'')
      else Inr (db\<lparr>db_enrollments := db_enrollments db @ [e]\<rparr>))"

definition agentEvent ::
  "agent_env \<Rightarrow> string \<Rightarrow> string \<Rightarrow> string \<Rightarrow> (string \<times> jsval) list \<Rightarrow> db \<Rightarrow> db res" where
  "agentEvent env entityType entityId eventType data db =
     andthen (appendEvent (ag_host env) (ag_store env)
                \<lparr>evt_entityType = JStr entityType, evt_entityId = JStr entityId,
                 evt_eventType = JStr eventType, evt_data = JObj data\<rparr> db)
       (\<lambda>(db', _). Inr db')"

definition enrolledData :: "enrollment_row \<Rightarrow> string \<Rightarrow> (string \<times> jsval) list" where
  "enrolledData e isolation =
     [(''enrollmentHash'', JStr (ae_enrollment_hash e)),
      (''credentialDigest'', JStr (ae_credential_digest e)), (''agentUid'', JStr (ae_agent_uid e)),
      (''agentGid'', JStr (ae_agent_gid e)), (''operatorIdHash'', JStr (ae_enrolled_by_operator_hash e)),
      (''isolation'', JStr isolation), (''enrolledAt'', JStr (ae_enrolled_at e))]"

text \<open>The fresh enrollment: the row, its event and the row read back.\<close>

definition enrollNew ::
  "agent_env \<Rightarrow> enroll_input \<Rightarrow> db \<Rightarrow> (db \<times> (enrollment_row \<times> string) option) res" where
  "enrollNew env i db =
     andthen (check_each revokedBindingClosed (revokedBindings db)) (\<lambda>_.
     andthen (canonicalTimestamp (JStr (ag_now env))) (\<lambda>enrolledAt.
     let e = newEnrollment i enrolledAt in
     andthen (insertEnrollment e db) (\<lambda>db1.
     andthen (agentEvent env ''agent_enrollment'' (ae_agent_instance_id e) ''agent.enrolled''
                (enrolledData e (en_isolation i)) db1) (\<lambda>db2.
     andthen (enrollmentById (ag_host env) db2 (ae_agent_instance_id e)) (\<lambda>stored.
     Inr (db2, map_option (\<lambda>x. (x, en_isolation i)) stored))))))"

definition enrollPrepared ::
  "agent_env \<Rightarrow> enroll_input \<Rightarrow> db \<Rightarrow> (db \<times> (enrollment_row \<times> string) option) res" where
  "enrollPrepared env i db =
     andthen (collect (rowToEnrollment (ag_host env)) (db_enrollments db)) (\<lambda>rows.
     andthen (attestationsBound db (find (\<lambda>e. ae_state e = ''active'') rows)) (\<lambda>_.
     case find (exactEnrollment i) rows of
       Some e \<Rightarrow>
         andthen (isolated db e) (\<lambda>x.
         if snd x \<noteq> en_isolation i then fail ''AGENT_ENROLLMENT_CONFLICT'' else Inr (db, Some x))
     | None \<Rightarrow>
         if list_ex (\<lambda>e. ae_state e = ''active'') rows then fail ''AGENT_ENROLLMENT_CONFLICT''
         else andthen (historicalGuard i rows) (\<lambda>_. enrollNew env i db)))"

definition enroll ::
  "agent_env \<Rightarrow> jsval \<Rightarrow> db \<Rightarrow> db \<times> (enrollment_row \<times> string) option res" where
  "enroll env v db =
     (case prepareEnroll (ag_host env) v of
        Inl e \<Rightarrow> (db, Inl e)
      | Inr i \<Rightarrow> transaction (enrollPrepared env i) db)"

section \<open>Revoking\<close>

record revoke_input =
  rv_agentInstanceId :: string
  rv_expectedHash :: string
  rv_operatorIdHash :: string

definition prepareRevoke :: "jsval \<Rightarrow> revoke_input res" where
  "prepareRevoke v =
     andthen (exactRecord v [''agentInstanceId'', ''expectedEnrollmentHash'', ''operatorIdHash''] []
                ''AGENT_REVOCATION_SCHEMA'') (\<lambda>r.
     andthen (canonicalInstanceId (get_prop r ''agentInstanceId'')) (\<lambda>agentInstanceId.
     andthen (canonicalHash (get_prop r ''expectedEnrollmentHash'') ''AGENT_ENROLLMENT_STALE'')
       (\<lambda>expected.
     andthen (canonicalHash (get_prop r ''operatorIdHash'') ''AGENT_ENROLLMENT_SCHEMA'')
       (\<lambda>operatorIdHash.
     Inr \<lparr>rv_agentInstanceId = agentInstanceId, rv_expectedHash = expected,
          rv_operatorIdHash = operatorIdHash\<rparr>))))"

text \<open>The checks of a current attestation; whatever they throw is the corruption of the row.\<close>

definition attestationChecks :: "attestation_row \<Rightarrow> unit res" where
  "attestationChecks a =
     andthen (canonicalToken (JStr (ia_id a))) (\<lambda>_.
     andthen (canonicalHash (JStr (ia_report_hash a)) ''AGENT_ENROLLMENT_SCHEMA'') (\<lambda>_.
     andthen (canonicalHash (JStr (ia_imported_by_operator_hash a)) ''AGENT_ENROLLMENT_SCHEMA'') (\<lambda>_.
     andthen (canonicalTimestamp (JStr (ia_probed_at a))) (\<lambda>_.
     andthen (canonicalTimestamp (JStr (ia_expires_at a))) (\<lambda>_.
     andthen (canonicalTimestamp (JStr (ia_imported_at a))) (\<lambda>_.
     case json_parse (ia_report_json a) of
       None \<Rightarrow> Inl (JsError ''SyntaxError'')
     | Some report \<Rightarrow>
         andthen (canonicalJson report) (\<lambda>text.
         if text \<noteq> ia_report_json a \<or> ia_superseded_at a \<noteq> None
         then fail ''AGENT_ENROLLMENT_CORRUPTION'' else Inr ())))))))"

definition attestationValid :: "attestation_row \<Rightarrow> unit res" where
  "attestationValid a =
     (case attestationChecks a of
        Inl _ \<Rightarrow> fail ''AGENT_ENROLLMENT_CORRUPTION'' | Inr _ \<Rightarrow> Inr ())"

text \<open>\<^verbatim>\<open>boundSessionIds\<close>.\<close>

definition openSessionIds :: "db \<Rightarrow> string \<Rightarrow> string list" where
  "openSessionIds db enrollmentHash = map sb_session_id (sort_key sb_session_id
     (filter (\<lambda>b. sb_enrollment_hash b = enrollmentHash \<and> sb_state b = ''open'') (db_bindings db)))"

definition toRevoked :: "string \<Rightarrow> string \<Rightarrow> enrollment_row \<Rightarrow> enrollment_row" where
  "toRevoked operatorIdHash revokedAt e =
     e\<lparr>ae_state := ''revoked'', ae_revoked_by_operator_hash := Some operatorIdHash,
       ae_revoked_at := Some revokedAt\<rparr>"

definition toSuperseded :: "string \<Rightarrow> attestation_row \<Rightarrow> attestation_row" where
  "toSuperseded at a = a\<lparr>ia_state := ''superseded'', ia_superseded_at := Some at\<rparr>"

text \<open>One current attestation is superseded, with its event.\<close>

definition supersedeAttestation ::
  "agent_env \<Rightarrow> string \<Rightarrow> string \<Rightarrow> attestation_row \<Rightarrow> db \<Rightarrow> db res" where
  "supersedeAttestation env expected revokedAt a db =
     andthen (update_one ''AGENT_ENROLLMENT_CORRUPTION''
                (\<lambda>r. ia_id r = ia_id a \<and> ia_enrollment_hash r = expected \<and> ia_state r = ''current'')
                (toSuperseded revokedAt) (db_attestations db)) (\<lambda>rows.
     agentEvent env ''isolation_attestation'' (ia_id a) ''isolation.attestation_superseded''
       [(''enrollmentHash'', JStr expected), (''reportHash'', JStr (ia_report_hash a)),
        (''supersededAt'', JStr revokedAt), (''reasonCode'', JStr ''AGENT_REVOKED'')]
       (db\<lparr>db_attestations := rows\<rparr>))"

fun supersedeAll ::
  "agent_env \<Rightarrow> string \<Rightarrow> string \<Rightarrow> attestation_row list \<Rightarrow> db \<Rightarrow> db res" where
  "supersedeAll env expected revokedAt [] db = Inr db"
| "supersedeAll env expected revokedAt (a # as) db =
     andthen (supersedeAttestation env expected revokedAt a db)
       (supersedeAll env expected revokedAt as)"

definition revokeWrite ::
  "agent_env \<Rightarrow> revoke_input \<Rightarrow> string \<Rightarrow> attestation_row list \<Rightarrow> string list \<Rightarrow> db \<Rightarrow> db res" where
  "revokeWrite env r revokedAt attestations boundSessionIds db =
     andthen (update_one ''AGENT_ENROLLMENT_STALE''
                (\<lambda>e. ae_agent_instance_id e = rv_agentInstanceId r
                   \<and> ae_enrollment_hash e = rv_expectedHash r \<and> ae_state e = ''active'')
                (toRevoked (rv_operatorIdHash r) revokedAt) (db_enrollments db)) (\<lambda>rows.
     andthen (supersedeAll env (rv_expectedHash r) revokedAt attestations
                (db\<lparr>db_enrollments := rows\<rparr>)) (\<lambda>db1.
     agentEvent env ''agent_enrollment'' (rv_agentInstanceId r) ''agent.revoked''
       [(''enrollmentHash'', JStr (rv_expectedHash r)),
        (''operatorIdHash'', JStr (rv_operatorIdHash r)),
        (''boundSessionIds'', JArr (map JStr boundSessionIds)), (''revokedAt'', JStr revokedAt)] db1))"

text \<open>The revoked enrollment with its label, and the sessions still open under it.\<close>

definition revokePrepared ::
  "agent_env \<Rightarrow> revoke_input \<Rightarrow> db \<Rightarrow> (db \<times> (enrollment_row \<times> string) option \<times> string list) res" where
  "revokePrepared env r db =
     andthen (enrollmentById (ag_host env) db (rv_agentInstanceId r)) (\<lambda>found.
     case found of
       None \<Rightarrow> fail ''AGENT_REVOKED''
     | Some current \<Rightarrow>
         if ae_state current \<noteq> ''active'' then fail ''AGENT_REVOKED''
         else if ae_enrollment_hash current \<noteq> rv_expectedHash r then fail ''AGENT_ENROLLMENT_STALE''
         else
           let attestations = sort_key ia_id (currentAttestations db);
               boundSessionIds = openSessionIds db (rv_expectedHash r) in
           if 1 < length attestations
              \<or> list_ex (\<lambda>a. ia_enrollment_hash a \<noteq> rv_expectedHash r) attestations
           then fail ''AGENT_ENROLLMENT_CORRUPTION''
           else
             andthen (check_each attestationValid attestations) (\<lambda>_.
             andthen (canonicalTimestamp (JStr (ag_now env))) (\<lambda>revokedAt.
             if date_ms revokedAt < date_ms (ae_enrolled_at current) then fail ''AGENT_ENROLLMENT_TIME''
             else
               andthen (revokeWrite env r revokedAt attestations boundSessionIds db) (\<lambda>db'.
               andthen (enrollmentById (ag_host env) db' (rv_agentInstanceId r)) (\<lambda>stored.
               andthen (case stored of None \<Rightarrow> Inr None
                        | Some e \<Rightarrow> andthen (isolated db' e) (\<lambda>x. Inr (Some x))) (\<lambda>revoked.
               Inr (db', revoked, boundSessionIds)))))))"

definition revoke ::
  "agent_env \<Rightarrow> jsval \<Rightarrow> db \<Rightarrow> db \<times> ((enrollment_row \<times> string) option \<times> string list) res" where
  "revoke env v db =
     (case prepareRevoke v of
        Inl e \<Rightarrow> (db, Inl e)
      | Inr r \<Rightarrow> transaction (revokePrepared env r) db)"

end
