(* ===== verification/IsolationAttestation.thy ===== *)
theory IsolationAttestation
  imports AgentEnrollment
begin

text \<open>
  \<^verbatim>\<open>src/spikes/pi-wielder/src/agent/isolation-preflight.mjs\<close>: the metadata of the authority and
  credential trees, the isolation report an operator imports, and the repository that keeps at most one
  current attestation for the enrolled agent. A report is given as the text its UTF-8 bytes encode.
\<close>

section \<open>Scalars\<close>

definition isolationHash :: "jsval \<Rightarrow> string res" where
  "isolationHash v = canonicalHash v ''ISOLATION_SCHEMA''"

definition numericIdentity :: "jsval \<Rightarrow> int res" where
  "numericIdentity v =
     (case v of
        JNum n \<Rightarrow> if n \<le> 0 \<or> MAX_SAFE_INTEGER < n then fail ''ISOLATION_IDENTITY'' else Inr n
      | _ \<Rightarrow> fail ''ISOLATION_IDENTITY'')"

definition identityText :: "jsval \<Rightarrow> string res" where
  "identityText v =
     (case v of
        JStr s \<Rightarrow>
          if \<not> positive_decimal s then fail ''ISOLATION_IDENTITY''
          else if MAX_SAFE_INTEGER < text_int s then fail ''ISOLATION_IDENTITY'' else Inr s
      | _ \<Rightarrow> fail ''ISOLATION_IDENTITY'')"

section \<open>Metadata of the two trees\<close>

text \<open>The pattern \<^verbatim>\<open>/^[a-z][a-z-]{0,63}$/\<close>.\<close>

fun role_pattern :: "string \<Rightarrow> bool" where
  "role_pattern [] = False"
| "role_pattern (c # cs) =
     (is_lower c \<and> length cs \<le> 63 \<and> list_all (\<lambda>d. is_lower d \<or> d = CHR ''-'') cs)"

definition is_role :: "jsval \<Rightarrow> bool" where
  "is_role v = (case v of JStr s \<Rightarrow> role_pattern s | _ \<Rightarrow> False)"

definition is_device :: "jsval \<Rightarrow> bool" where
  "is_device v = (case v of JStr s \<Rightarrow> decimal_pattern s | _ \<Rightarrow> False)"

definition is_inode :: "jsval \<Rightarrow> bool" where
  "is_inode v = (case v of JStr s \<Rightarrow> positive_decimal s | _ \<Rightarrow> False)"

definition is_gid :: "jsval \<Rightarrow> bool" where
  "is_gid v = (case v of JNum n \<Rightarrow> 0 \<le> n \<and> n \<le> MAX_SAFE_INTEGER | _ \<Rightarrow> False)"

definition ITEM_FIELDS :: "string list" where
  "ITEM_FIELDS = [''role'', ''depth'', ''device'', ''inode'', ''uid'', ''gid'', ''mode'']"

text \<open>\<^verbatim>\<open>parseItem\<close>.\<close>

definition parseItem :: "int \<Rightarrow> int \<Rightarrow> nat \<Rightarrow> jsval \<Rightarrow> (string \<times> jsval) list res" where
  "parseItem expectedUid mode depth item =
     andthen (exactRecord item ITEM_FIELDS [] ''ISOLATION_METADATA'') (\<lambda>p.
     if \<not> is_role (get_prop p ''role'') \<or> get_prop p ''depth'' \<noteq> JNum (int depth)
        \<or> \<not> is_device (get_prop p ''device'') \<or> \<not> is_inode (get_prop p ''inode'')
        \<or> get_prop p ''uid'' \<noteq> JNum expectedUid \<or> \<not> is_gid (get_prop p ''gid'')
        \<or> get_prop p ''mode'' \<noteq> JNum mode
     then fail ''ISOLATION_METADATA'' else Inr p)"

record projection_meta =
  pm_role :: jsval
  pm_chain :: "(string \<times> jsval) list list"
  pm_leaf :: "(string \<times> jsval) list"

text \<open>\<^verbatim>\<open>validateProjection\<close>; the octal modes are those of a directory and of a file.\<close>

definition DIRECTORY_MODE :: int where "DIRECTORY_MODE = 448"

definition LEAF_MODE :: int where "LEAF_MODE = 384"

definition validateProjection :: "jsval \<Rightarrow> int \<Rightarrow> projection_meta res" where
  "validateProjection v expectedUid =
     andthen (exactRecord v [''role'', ''chain'', ''leaf''] [] ''ISOLATION_METADATA'') (\<lambda>m.
     case get_prop m ''chain'' of
       JArr items \<Rightarrow>
         if \<not> is_role (get_prop m ''role'') \<or> length items < 1 \<or> 64 < length items
         then fail ''ISOLATION_METADATA''
         else
           andthen (collect (\<lambda>(depth, item). parseItem expectedUid DIRECTORY_MODE depth item)
                      (enumerate 0 items)) (\<lambda>chain.
           andthen (parseItem expectedUid LEAF_MODE (length chain) (get_prop m ''leaf'')) (\<lambda>leaf.
           Inr \<lparr>pm_role = get_prop m ''role'', pm_chain = chain, pm_leaf = leaf\<rparr>))
     | _ \<Rightarrow> fail ''ISOLATION_METADATA'')"

definition projection_meta_js :: "projection_meta \<Rightarrow> jsval" where
  "projection_meta_js m = JObj
     [(''role'', pm_role m), (''chain'', JArr (map JObj (pm_chain m))), (''leaf'', JObj (pm_leaf m))]"

definition METADATA_DOMAIN :: string where
  "METADATA_DOMAIN = ''wallet-kernel/isolation-metadata/v1'' @ [CHR 0x00]"

definition hashIsolationMetadata :: "host \<Rightarrow> jsval \<Rightarrow> string res" where
  "hashIsolationMetadata h v =
     andthen (exactRecord v [''role'', ''chain'', ''leaf''] [] ''ISOLATION_METADATA'') (\<lambda>m.
     andthen (canonicalJson (JObj m)) (\<lambda>t. Inr (h_sha256 h (METADATA_DOMAIN @ t))))"

record isolation_metadata =
  im_kernelUid :: int
  im_kernelGid :: int
  im_agentUid :: int
  im_agentGid :: int
  im_authorityHash :: string
  im_credentialHash :: string

definition METADATA_FIELDS :: "string list" where
  "METADATA_FIELDS = [''kernelUid'', ''kernelGid'', ''agentUid'', ''agentGid'', ''authority'',
     ''credential'', ''authorityInsideCredential'', ''credentialInsideAuthority'']"

text \<open>The device and inode of an item, which the code joins with a colon.\<close>

definition node_of :: "(string \<times> jsval) list \<Rightarrow> jsval \<times> jsval" where
  "node_of item = (get_prop item ''device'', get_prop item ''inode'')"

definition nodes_of :: "projection_meta \<Rightarrow> (jsval \<times> jsval) list" where
  "nodes_of m = map node_of (pm_chain m @ [pm_leaf m])"

definition validateIsolationMetadata :: "host \<Rightarrow> jsval \<Rightarrow> isolation_metadata res" where
  "validateIsolationMetadata h v =
     andthen (exactRecord v METADATA_FIELDS [] ''ISOLATION_METADATA'') (\<lambda>input.
     andthen (numericIdentity (get_prop input ''kernelUid'')) (\<lambda>kernelUid.
     andthen (numericIdentity (get_prop input ''kernelGid'')) (\<lambda>kernelGid.
     andthen (numericIdentity (get_prop input ''agentUid'')) (\<lambda>agentUid.
     andthen (numericIdentity (get_prop input ''agentGid'')) (\<lambda>agentGid.
     if kernelUid = agentUid then fail ''ISOLATION_IDENTITY''
     else if get_prop input ''authorityInsideCredential'' \<noteq> JBool False
             \<or> get_prop input ''credentialInsideAuthority'' \<noteq> JBool False
     then fail ''ISOLATION_PATH_OVERLAP''
     else
       andthen (validateProjection (get_prop input ''authority'') kernelUid) (\<lambda>authority.
       andthen (validateProjection (get_prop input ''credential'') agentUid) (\<lambda>credential.
       if list_ex (\<lambda>n. n \<in> set (nodes_of authority)) (nodes_of credential)
       then fail ''ISOLATION_PATH_OVERLAP''
       else
         andthen (hashIsolationMetadata h (projection_meta_js authority)) (\<lambda>authorityHash.
         andthen (hashIsolationMetadata h (projection_meta_js credential)) (\<lambda>credentialHash.
         Inr \<lparr>im_kernelUid = kernelUid, im_kernelGid = kernelGid, im_agentUid = agentUid,
              im_agentGid = agentGid, im_authorityHash = authorityHash,
              im_credentialHash = credentialHash\<rparr>)))))))))"

section \<open>The report\<close>

definition PROBE_RESULTS :: "(string \<times> string) list" where
  "PROBE_RESULTS =
     [(''authorityDirectory'', ''EACCES''), (''database'', ''EACCES''), (''operatorToken'', ''EACCES''),
      (''receiptKey'', ''EACCES''), (''kernelEnvironment'', ''EACCES''),
      (''agentCredential'', ''READABLE''), (''releaseTreeWrite'', ''EACCES''),
      (''dependencyTreeWrite'', ''EACCES''), (''serviceArtifactsWrite'', ''EACCES''),
      (''kernelEnvironmentParentWrite'', ''EACCES'')]"

definition IDENTITY_FIELDS :: "string list" where
  "IDENTITY_FIELDS = [''kernelUid'', ''kernelGid'', ''agentUid'', ''agentGid'']"

definition HASH_FIELDS :: "string list" where
  "HASH_FIELDS = [''authorityMetadataHash'', ''credentialMetadataHash'', ''releaseManifestHash'',
     ''releaseTreeHash'', ''nodeExecutableHash'', ''serviceArtifactsHash'',
     ''systemdEffectiveConfigHash'', ''environmentMetadataHash'']"

definition REPORT_FIELDS :: "string list" where
  "REPORT_FIELDS = [''schemaVersion'', ''enrollmentHash''] @ IDENTITY_FIELDS @ HASH_FIELDS
     @ [''probeResults'', ''probedAt'', ''expiresAt'']"

definition checked :: "'a res \<Rightarrow> unit res" where
  "checked r = andthen r (\<lambda>_. Inr ())"

text \<open>\<^verbatim>\<open>validateReport\<close>; the result has the entries of the report.\<close>

definition validateReport :: "jsval \<Rightarrow> (string \<times> jsval) list res" where
  "validateReport v =
     andthen (exactRecord v REPORT_FIELDS [] ''ISOLATION_SCHEMA'') (\<lambda>report.
     if get_prop report ''schemaVersion'' \<noteq> JNum 1 then fail ''ISOLATION_SCHEMA''
     else
       andthen (isolationHash (get_prop report ''enrollmentHash'')) (\<lambda>_.
       andthen (check_each (\<lambda>f. checked (identityText (get_prop report f))) IDENTITY_FIELDS) (\<lambda>_.
       if get_prop report ''kernelUid'' = get_prop report ''agentUid'' then fail ''ISOLATION_IDENTITY''
       else
         andthen (check_each (\<lambda>f. checked (isolationHash (get_prop report f))) HASH_FIELDS) (\<lambda>_.
         andthen (exactRecord (get_prop report ''probeResults'') (map fst PROBE_RESULTS) []
                    ''ISOLATION_SCHEMA'') (\<lambda>probes.
         if list_ex (\<lambda>(name, expected). get_prop probes name \<noteq> JStr expected) PROBE_RESULTS
         then fail ''ISOLATION_PROBE_FAILED''
         else
           andthen (canonicalTimestamp (get_prop report ''probedAt'')) (\<lambda>probedAt.
           andthen (canonicalTimestamp (get_prop report ''expiresAt'')) (\<lambda>expiresAt.
           let interval = date_ms expiresAt - date_ms probedAt in
           if interval \<le> 0 \<or> 15 * 60 * 1000 < interval then fail ''ISOLATION_TIME''
           else Inr report)))))))"

definition newline :: char where "newline = CHR 0x0A"

definition REPORT_MAXIMUM_BYTES :: nat where
  "REPORT_MAXIMUM_BYTES = 16 * 1024"

definition report_text_bad :: "string \<Rightarrow> bool" where
  "report_text_bad t \<longleftrightarrow>
     utf8_length t < 3 \<or> REPORT_MAXIMUM_BYTES < utf8_length t \<or> last t \<noteq> newline
     \<or> newline \<in> set (butlast t) \<or> CHR 0x00 \<in> set t"

definition REPORT_BINDINGS :: "(string \<times> string) list" where
  "REPORT_BINDINGS =
     [(''expectedEnrollmentHash'', ''enrollmentHash''), (''expectedKernelUid'', ''kernelUid''),
      (''expectedKernelGid'', ''kernelGid''), (''expectedReleaseManifestHash'', ''releaseManifestHash''),
      (''expectedAuthorityMetadataHash'', ''authorityMetadataHash'')]"

text \<open>The clock is an option of its own.\<close>

definition reportInTime :: "string option \<Rightarrow> (string \<times> jsval) list \<Rightarrow> unit res" where
  "reportInTime clock report =
     (case clock of
        None \<Rightarrow> Inr ()
      | Some t \<Rightarrow>
          andthen (canonicalTimestamp (JStr t)) (\<lambda>now.
          andthen (canonicalTimestamp (get_prop report ''probedAt'')) (\<lambda>probedAt.
          andthen (canonicalTimestamp (get_prop report ''expiresAt'')) (\<lambda>expiresAt.
          if date_ms now < date_ms probedAt then fail ''ISOLATION_TIME''
          else if date_ms expiresAt \<le> date_ms now then fail ''ISOLATION_EXPIRED''
          else Inr ()))))"

definition validateIsolationReportBytes ::
  "host \<Rightarrow> string \<Rightarrow> (string \<times> jsval) list \<Rightarrow> string option
    \<Rightarrow> ((string \<times> jsval) list \<times> string) res" where
  "validateIsolationReportBytes h t options clock =
     (if report_text_bad t then fail ''ISOLATION_BYTES''
      else
        case json_parse (butlast t) of
          None \<Rightarrow> fail ''ISOLATION_BYTES''
        | Some parsed \<Rightarrow>
            andthen (validateReport parsed) (\<lambda>report.
            andthen (canonicalJson (JObj report)) (\<lambda>canonical.
            if t \<noteq> canonical @ [newline] then fail ''ISOLATION_BYTES''
            else
              let reportHash = h_sha256 h canonical;
                  expected = get_prop options ''expectedReportHash'' in
              andthen (if expected = JUndef then Inr reportHash else isolationHash expected) (\<lambda>e.
              if e \<noteq> reportHash then fail ''ISOLATION_HASH_MISMATCH''
              else if list_ex (\<lambda>(name, field). get_prop options name \<noteq> JUndef
                        \<and> get_prop options name \<noteq> get_prop report field) REPORT_BINDINGS
              then fail ''ISOLATION_BINDING_MISMATCH''
              else andthen (reportInTime clock report) (\<lambda>_. Inr (report, reportHash))))))"

section \<open>The repository\<close>

text \<open>A property of the parsed report; \<^verbatim>\<open>null\<close> throws.\<close>

definition reportProperty :: "string \<Rightarrow> string \<Rightarrow> jsval res" where
  "reportProperty reportJson name =
     (case json_parse reportJson of
        None \<Rightarrow> Inl (JsError ''SyntaxError'')
      | Some JNull \<Rightarrow> Inl (JsError ''TypeError'')
      | Some (JObj kvs) \<Rightarrow> Inr (get_prop kvs name)
      | Some _ \<Rightarrow> Inr JUndef)"

definition attestationResult :: "attestation_row \<Rightarrow> jsval res" where
  "attestationResult a =
     andthen (reportProperty (ia_report_json a) ''authorityMetadataHash'') (\<lambda>authorityHash.
     andthen (reportProperty (ia_report_json a) ''releaseManifestHash'') (\<lambda>releaseHash.
     frozenCopy (JObj
       [(''id'', JStr (ia_id a)), (''reportHash'', JStr (ia_report_hash a)),
        (''enrollmentHash'', JStr (ia_enrollment_hash a)), (''authorityMetadataHash'', authorityHash),
        (''releaseManifestHash'', releaseHash), (''probedAt'', JStr (ia_probed_at a)),
        (''expiresAt'', JStr (ia_expires_at a)), (''importedAt'', JStr (ia_imported_at a)),
        (''state'', JStr (ia_state a))])))"

definition insertAttestation :: "attestation_row \<Rightarrow> db \<Rightarrow> db res" where
  "insertAttestation a db =
     (if list_ex (\<lambda>r. ia_id r = ia_id a \<or> ia_report_hash r = ia_report_hash a
            \<or> (ia_state r = ''current'' \<and> ia_state a = ''current'')) (db_attestations db)
      then Inl (JsError ''SQLITE_CONSTRAINT'')
      else Inr (db\<lparr>db_attestations := db_attestations db @ [a]\<rparr>))"

text \<open>The attestation the new one replaces.\<close>

definition replaceAttestation :: "agent_env \<Rightarrow> string \<Rightarrow> attestation_row \<Rightarrow> db \<Rightarrow> db res" where
  "replaceAttestation env importedAt previous db =
     andthen (update_one ''ISOLATION_STALE''
                (\<lambda>r. ia_id r = ia_id previous \<and> ia_state r = ''current'')
                (toSuperseded importedAt) (db_attestations db)) (\<lambda>rows.
     agentEvent env ''isolation_attestation'' (ia_id previous) ''isolation.attestation_superseded''
       [(''enrollmentHash'', JStr (ia_enrollment_hash previous)),
        (''reportHash'', JStr (ia_report_hash previous)), (''supersededAt'', JStr importedAt),
        (''reasonCode'', JStr ''ATTESTATION_REPLACED'')]
       (db\<lparr>db_attestations := rows\<rparr>))"

fun replaceAll ::
  "agent_env \<Rightarrow> string \<Rightarrow> attestation_row list \<Rightarrow> db \<Rightarrow> db res" where
  "replaceAll env importedAt [] db = Inr db"
| "replaceAll env importedAt (a # as) db =
     andthen (replaceAttestation env importedAt a db) (replaceAll env importedAt as)"

text \<open>A validated field of the report, which is text.\<close>

definition report_text :: "(string \<times> jsval) list \<Rightarrow> string \<Rightarrow> string" where
  "report_text report name = (case get_prop report name of JStr s \<Rightarrow> s | _ \<Rightarrow> [])"

definition newAttestation ::
  "string \<Rightarrow> string \<Rightarrow> (string \<times> jsval) list \<Rightarrow> string \<Rightarrow> string \<Rightarrow> string \<Rightarrow> attestation_row" where
  "newAttestation i reportHash report canonical operatorIdHash importedAt =
     \<lparr>ia_id = i, ia_report_hash = reportHash,
      ia_enrollment_hash = report_text report ''enrollmentHash'', ia_report_json = canonical,
      ia_state = ''current'', ia_imported_by_operator_hash = operatorIdHash,
      ia_probed_at = report_text report ''probedAt'', ia_expires_at = report_text report ''expiresAt'',
      ia_imported_at = importedAt, ia_superseded_at = None\<rparr>"

definition importedData ::
  "(string \<times> jsval) list \<Rightarrow> string \<Rightarrow> string \<Rightarrow> string \<Rightarrow> (string \<times> jsval) list" where
  "importedData report reportHash operatorIdHash importedAt =
     [(''reportHash'', JStr reportHash), (''enrollmentHash'', get_prop report ''enrollmentHash''),
      (''authorityMetadataHash'', get_prop report ''authorityMetadataHash''),
      (''releaseManifestHash'', get_prop report ''releaseManifestHash''),
      (''operatorIdHash'', JStr operatorIdHash), (''probedAt'', get_prop report ''probedAt''),
      (''expiresAt'', get_prop report ''expiresAt''), (''importedAt'', JStr importedAt)]"

definition importNew ::
  "agent_env \<Rightarrow> jsval \<Rightarrow> (string \<times> jsval) list \<Rightarrow> string \<Rightarrow> string \<Rightarrow> string \<Rightarrow> db
    \<Rightarrow> (db \<times> jsval) res" where
  "importNew env drawn report reportHash operatorIdHash importedAt db =
     (if 1 < length (currentAttestations db) then fail ''ISOLATION_CORRUPTION''
      else
        andthen (replaceAll env importedAt (currentAttestations db) db) (\<lambda>db1.
        andthen (canonicalToken drawn) (\<lambda>id.
        andthen (canonicalJson (JObj report)) (\<lambda>canonical.
        andthen (insertAttestation (newAttestation id reportHash report canonical operatorIdHash
                   importedAt) db1) (\<lambda>db2.
        andthen (agentEvent env ''isolation_attestation'' id ''isolation.attestation_imported''
                   (importedData report reportHash operatorIdHash importedAt) db2) (\<lambda>db3.
        case select_one (\<lambda>a. ia_id a = id) (db_attestations db3) of
          None \<Rightarrow> Inl (JsError ''TypeError'')
        | Some a \<Rightarrow> andthen (attestationResult a) (\<lambda>r. Inr (db3, r))))))))"

definition importPrepared ::
  "agent_env \<Rightarrow> jsval \<Rightarrow> (string \<times> jsval) list \<Rightarrow> string \<Rightarrow> string \<Rightarrow> string \<Rightarrow> db
    \<Rightarrow> (db \<times> jsval) res" where
  "importPrepared env drawn report reportHash operatorIdHash importedAt db =
     (case filter (\<lambda>e. ae_state e = ''active'') (db_enrollments db) of
        [e] \<Rightarrow>
          if get_prop report ''enrollmentHash'' \<noteq> JStr (ae_enrollment_hash e)
             \<or> get_prop report ''agentUid'' \<noteq> JStr (ae_agent_uid e)
             \<or> get_prop report ''agentGid'' \<noteq> JStr (ae_agent_gid e)
          then fail ''ISOLATION_ENROLLMENT''
          else
            (case select_one (\<lambda>a. ia_report_hash a = reportHash) (db_attestations db) of
               Some replay \<Rightarrow>
                 andthen (canonicalJson (JObj report)) (\<lambda>canonical.
                 if ia_state replay \<noteq> ''current''
                    \<or> JStr (ia_enrollment_hash replay) \<noteq> get_prop report ''enrollmentHash''
                    \<or> ia_imported_by_operator_hash replay \<noteq> operatorIdHash
                    \<or> ia_report_json replay \<noteq> canonical
                 then fail ''ISOLATION_REPLAY_CONFLICT''
                 else andthen (attestationResult replay) (\<lambda>r. Inr (db, r)))
             | None \<Rightarrow> importNew env drawn report reportHash operatorIdHash importedAt db)
      | _ \<Rightarrow> fail ''ISOLATION_ENROLLMENT'')"

text \<open>\<^verbatim>\<open>importCurrent\<close>; \<^verbatim>\<open>drawn\<close> is what the identifier factory returns.\<close>

definition importCurrent ::
  "agent_env \<Rightarrow> jsval \<Rightarrow> string \<Rightarrow> jsval \<Rightarrow> jsval \<Rightarrow> db \<Rightarrow> db \<times> jsval res" where
  "importCurrent env drawn reportBytes expectedReportHash operatorIdHash db =
     (case andthen (canonicalTimestamp (JStr (ag_now env))) (\<lambda>importedAt.
           andthen (isolationHash operatorIdHash) (\<lambda>operator.
           andthen (validateIsolationReportBytes (ag_host env) reportBytes
                      [(''expectedReportHash'', expectedReportHash)] (Some importedAt))
             (\<lambda>(report, reportHash). Inr (importedAt, operator, report, reportHash)))) of
        Inl e \<Rightarrow> (db, Inl e)
      | Inr (importedAt, operator, report, reportHash) \<Rightarrow>
          transaction (importPrepared env drawn report reportHash operator importedAt) db)"

text \<open>\<^verbatim>\<open>currentFor\<close>: the attestation that vouches for the agent now, or none.\<close>

definition vouches ::
  "host \<Rightarrow> string \<Rightarrow> string \<Rightarrow> string \<Rightarrow> string \<Rightarrow> string \<Rightarrow> attestation_row
    \<Rightarrow> (string \<times> jsval) list \<Rightarrow> string \<Rightarrow> bool" where
  "vouches h readAt enrollmentHash authorityHash releaseHash expectedReportHash row report canonical \<longleftrightarrow>
     \<not> (canonical \<noteq> ia_report_json row
        \<or> h_sha256 h (ia_report_json row) \<noteq> ia_report_hash row
        \<or> get_prop report ''enrollmentHash'' \<noteq> JStr (ia_enrollment_hash row)
        \<or> ia_report_hash row \<noteq> expectedReportHash
        \<or> get_prop report ''enrollmentHash'' \<noteq> JStr enrollmentHash
        \<or> get_prop report ''authorityMetadataHash'' \<noteq> JStr authorityHash
        \<or> get_prop report ''releaseManifestHash'' \<noteq> JStr releaseHash
        \<or> date_ms readAt < date_ms (report_text report ''probedAt'')
        \<or> date_ms (report_text report ''expiresAt'') \<le> date_ms readAt)"

definition storedReport :: "attestation_row \<Rightarrow> (string \<times> jsval) list res" where
  "storedReport row =
     (case (case json_parse (ia_report_json row) of
              None \<Rightarrow> Inl (JsError ''SyntaxError'') | Some parsed \<Rightarrow> validateReport parsed) of
        Inl _ \<Rightarrow> fail ''ISOLATION_CORRUPTION'' | Inr report \<Rightarrow> Inr report)"

definition currentForInTransaction ::
  "host \<Rightarrow> string \<Rightarrow> string \<Rightarrow> string \<Rightarrow> string \<Rightarrow> string \<Rightarrow> db \<Rightarrow> (db \<times> jsval option) res" where
  "currentForInTransaction h readAt enrollmentHash authorityHash releaseHash expectedReportHash db =
     (case currentAttestations db of
        [] \<Rightarrow> Inr (db, None)
      | [row] \<Rightarrow>
          andthen (storedReport row) (\<lambda>report.
          andthen (canonicalJson (JObj report)) (\<lambda>canonical.
          if \<not> vouches h readAt enrollmentHash authorityHash releaseHash expectedReportHash row report
                 canonical
          then Inr (db, None)
          else
            (case filter (\<lambda>e. ae_state e = ''active'') (db_enrollments db) of
               [e] \<Rightarrow>
                 if ae_enrollment_hash e \<noteq> enrollmentHash then Inr (db, None)
                 else andthen (attestationResult row) (\<lambda>r. Inr (db, Some r))
             | _ \<Rightarrow> Inr (db, None))))
      | _ \<Rightarrow> fail ''ISOLATION_CORRUPTION'')"

definition currentFor ::
  "agent_env \<Rightarrow> jsval \<Rightarrow> jsval \<Rightarrow> jsval \<Rightarrow> jsval \<Rightarrow> db \<Rightarrow> db \<times> jsval option res" where
  "currentFor env enrollmentHash authorityHash releaseHash expectedReportHash db =
     (case andthen (isolationHash enrollmentHash) (\<lambda>e.
           andthen (isolationHash authorityHash) (\<lambda>a.
           andthen (isolationHash releaseHash) (\<lambda>r.
           andthen (isolationHash expectedReportHash) (\<lambda>x.
           andthen (canonicalTimestamp (JStr (ag_now env))) (\<lambda>readAt. Inr (e, a, r, x, readAt)))))) of
        Inl e \<Rightarrow> (db, Inl e)
      | Inr (e, a, r, x, readAt) \<Rightarrow>
          transaction (currentForInTransaction (ag_host env) readAt e a r x) db)"

end
