(* ===== verification/EnrollmentFacts.thy ===== *)
theory EnrollmentFacts
  imports IsolationAttestation IntentSafety
begin

text \<open>
  What enrolling, revoking and importing an attestation do to the database: the abstract machine of the
  enrolled agent and its attestation, and one step of it for every operation that returns.
\<close>

section \<open>The machine\<close>

definition active_rows :: "db \<Rightarrow> enrollment_row list" where
  "active_rows db = filter (\<lambda>e. ae_state e = ''active'') (db_enrollments db)"

text \<open>Whatever was current is superseded.\<close>

definition superseded :: "string \<Rightarrow> attestation_row list \<Rightarrow> attestation_row list" where
  "superseded at rows = map (\<lambda>a. if ia_state a = ''current'' then toSuperseded at a else a) rows"

definition fresh_enrollment :: "enrollment_row \<Rightarrow> db \<Rightarrow> bool" where
  "fresh_enrollment e db \<longleftrightarrow>
     ae_state e = ''active'' \<and> ae_revoked_by_operator_hash e = None \<and> ae_revoked_at e = None
     \<and> (\<forall>r \<in> set (db_enrollments db). ae_state r = ''revoked''
          \<and> ae_agent_instance_id r \<noteq> ae_agent_instance_id e
          \<and> ae_credential_digest r \<noteq> ae_credential_digest e
          \<and> ae_enrollment_hash r \<noteq> ae_enrollment_hash e)"

definition fresh_attestation :: "attestation_row \<Rightarrow> db \<Rightarrow> bool" where
  "fresh_attestation a db \<longleftrightarrow>
     ia_state a = ''current'' \<and> ia_superseded_at a = None
     \<and> (\<exists>e. active_rows db = [e] \<and> ia_enrollment_hash a = ae_enrollment_hash e)
     \<and> (\<forall>r \<in> set (db_attestations db). ia_id r \<noteq> ia_id a \<and> ia_report_hash r \<noteq> ia_report_hash a)"

text \<open>No session of a revoked agent is left open.\<close>

definition revoked_settled :: "db \<Rightarrow> bool" where
  "revoked_settled db \<longleftrightarrow>
     (\<forall>b \<in> set (db_bindings db). \<forall>e \<in> set (db_enrollments db). \<forall>s \<in> set (db_sessions db).
        ae_enrollment_hash e = sb_enrollment_hash b \<and> ss_id s = sb_session_id b
        \<and> ae_state e = ''revoked'' \<longrightarrow> sb_state b = ''closed'' \<and> ss_state s = ''closed''
          \<and> sb_closed_at b = ss_closed_at s)"

inductive agent_step :: "db \<Rightarrow> db \<Rightarrow> bool" where
  agent_reads: "agent_step db db"
| agent_enrolls:
    "fresh_enrollment e db \<Longrightarrow> revoked_settled db \<Longrightarrow> currentAttestations db = [] \<Longrightarrow>
     agent_step db (db\<lparr>db_enrollments := db_enrollments db @ [e]\<rparr>)"
| agent_revokes:
    "db_enrollments db = xs @ e # ys \<Longrightarrow> ae_state e = ''active'' \<Longrightarrow>
     date_ms (ae_enrolled_at e) \<le> date_ms t \<Longrightarrow>
     agent_step db (db\<lparr>db_enrollments := xs @ toRevoked operator t e # ys,
       db_attestations := superseded t (db_attestations db)\<rparr>)"
| agent_imports:
    "fresh_attestation a db \<Longrightarrow>
     agent_step db (db\<lparr>db_attestations := superseded t (db_attestations db) @ [a]\<rparr>)"

inductive_cases agent_stepE: "agent_step db db'"

text \<open>The enrollments the log knows of.\<close>

definition agents_logged :: "db \<Rightarrow> bool" where
  "agents_logged db \<longleftrightarrow>
     (\<forall>ev \<in> set (db_events db). ev_entity_type ev = ''agent_enrollment'' \<and> ev_event_type ev = ''agent.enrolled''
        \<longrightarrow> ev_entity_id ev \<in> ae_agent_instance_id ` set (db_enrollments db))"

definition agent_effect :: "host \<Rightarrow> db \<Rightarrow> db \<Rightarrow> bool" where
  "agent_effect h db db' \<longleftrightarrow>
     (\<exists>db1. agent_step db db1 \<and> log_extended h db1 db') \<and> (agents_logged db \<longrightarrow> agents_logged db')"

lemma agent_effect_refl: "agent_effect h db db"
  by (auto simp: agent_effect_def intro: agent_reads log_extended_refl)

section \<open>Events\<close>

definition as_intent_env :: "agent_env \<Rightarrow> intent_env" where
  "as_intent_env env = \<lparr>ie_host = ag_host env, ie_loopback = False, ie_routes = [],
     ie_ids = (\<lambda>_ _. JUndef), ie_now = ag_now env, ie_store = ag_store env\<rparr>"

lemma agentEvent_writes: "agentEvent env = writeEvent (as_intent_env env)"
  by (intro ext) (simp add: agentEvent_def writeEvent_def kernelEvent_def as_intent_env_def)

lemma agentEvent_obtains:
  assumes "agentEvent env et ei ty data db = Inr db'" and "js_wf (JObj data)"
  obtains e where "db' = db\<lparr>db_events := db_events db @ [e]\<rparr>"
    and "ev_entity_type e = et" and "ev_entity_id e = ei" and "ev_event_type e = ty"
    and "canonicalJson (JObj data) = Inr (ev_data_json e)" and "chained (ag_host env) (db_events db) e"
  using assms unfolding agentEvent_writes
  by (rule writeEvent_obtains) (simp add: as_intent_env_def)

lemma agentEvent_log:
  assumes "agentEvent env et ei ty data db = Inr db'" and "js_wf (JObj data)"
  shows "log_extended (ag_host env) db db'"
  using writeEvent_log [of "as_intent_env env"] assms
  by (simp add: agentEvent_writes as_intent_env_def)

text \<open>An event that is not an enrollment leaves the log's knowledge alone.\<close>

lemma agents_logged_event:
  assumes "agents_logged db" and "db_events db' = db_events db @ [ev]"
    and "ae_agent_instance_id ` set (db_enrollments db) \<subseteq> ae_agent_instance_id ` set (db_enrollments db')"
    and "ev_event_type ev \<noteq> ''agent.enrolled'' \<or> ev_entity_id ev \<in> ae_agent_instance_id ` set (db_enrollments db')"
  shows "agents_logged db'"
  using assms by (auto simp: agents_logged_def)

section \<open>Rows\<close>

lemma rowToEnrollment_Inr:
  assumes "rowToEnrollment h row = Inr e"
  shows "e = row" and "ae_state row = ''active'' \<or> ae_state row = ''revoked''"
    and "canonical_time (ae_enrolled_at row)"
  using assms
  by (auto simp: rowToEnrollment_def enrollmentLifecycle_def Let_def canonicalTimestamp_def rethrow_as_def
      split: if_splits sum.splits js_error.splits)

lemma enrollment_rows:
  assumes "collect (rowToEnrollment h) (db_enrollments db) = Inr rows"
  shows "rows = db_enrollments db"
    and "\<forall>e \<in> set rows. ae_state e = ''active'' \<or> ae_state e = ''revoked''"
proof -
  have "list_all2 (\<lambda>x y. rowToEnrollment h x = Inr y) (db_enrollments db) rows"
    using assms by (simp add: collect_Inr_iff)
  then have "list_all2 (=) (db_enrollments db) rows"
    by (rule list.rel_mono_strong) (auto dest: rowToEnrollment_Inr)
  then show rows: "rows = db_enrollments db" by (simp add: list.rel_eq)
  show "\<forall>e \<in> set rows. ae_state e = ''active'' \<or> ae_state e = ''revoked''"
    using assms by (auto dest: collect_mem rowToEnrollment_Inr)
qed

lemma enrollmentById_Inr:
  assumes "enrollmentById h db i = Inr (Some e)"
  shows "select_one (\<lambda>r. ae_agent_instance_id r = i) (db_enrollments db) = Some e"
    and "rowToEnrollment h e = Inr e"
  using assms rowToEnrollment_Inr(1)
  by (fastforce simp: enrollmentById_def split: option.splits)+

lemma attestationsBound_Inr:
  "attestationsBound db active = Inr u \<longleftrightarrow>
   length (currentAttestations db) \<le> 1
   \<and> (\<forall>a \<in> set (currentAttestations db). Some (ia_enrollment_hash a) = map_option ae_enrollment_hash active)"
  by (auto simp: attestationsBound_def list_ex_iff)

lemma revokedBindingClosed_Inr:
  assumes "revokedBindingClosed (b, s) = Inr u"
  shows "sb_state b = ''closed'' \<and> ss_state s = ''closed'' \<and> sb_closed_at b = ss_closed_at s"
  using assms
  by (auto simp: revokedBindingClosed_def canonicalTimestamp_def option_string_def Let_def
      split: if_splits option.splits)

lemma revoked_bindings_settled:
  assumes "check_each revokedBindingClosed (revokedBindings db) = Inr u"
  shows "revoked_settled db"
proof -
  have "revokedBindingClosed (b, s) = Inr ()"
    if "b \<in> set (db_bindings db)" "e \<in> set (db_enrollments db)" "s \<in> set (db_sessions db)"
      "ae_enrollment_hash e = sb_enrollment_hash b" "ss_id s = sb_session_id b" "ae_state e = ''revoked''"
    for b e s
    using assms that by (force simp: check_each_Inr_iff revokedBindings_def)
  then show ?thesis
    unfolding revoked_settled_def using revokedBindingClosed_Inr by blast
qed

section \<open>Enrolling\<close>

lemma enrolledData_wf: "js_wf (JObj (enrolledData e isolation))"
  by (simp add: enrolledData_def)

lemma newEnrollment_sel [simp]:
  "ae_agent_instance_id (newEnrollment i t) = de_agentInstanceId (en_descriptor i)"
  "ae_credential_digest (newEnrollment i t) = de_credentialDigest (en_descriptor i)"
  "ae_enrollment_hash (newEnrollment i t) = en_hash i"
  "ae_agent_uid (newEnrollment i t) = de_agentUid (en_descriptor i)"
  "ae_agent_gid (newEnrollment i t) = de_agentGid (en_descriptor i)"
  "ae_state (newEnrollment i t) = ''active''" "ae_enrolled_at (newEnrollment i t) = t"
  "ae_enrolled_by_operator_hash (newEnrollment i t) = en_operatorIdHash i"
  "ae_revoked_by_operator_hash (newEnrollment i t) = None" "ae_revoked_at (newEnrollment i t) = None"
  by (simp_all add: newEnrollment_def)

lemma enrollNew_obtains:
  assumes "enrollNew env i db = Inr (db', x)"
  obtains t ev where "canonical_time t" and "t = ag_now env"
    and "\<not> list_ex (\<lambda>r. ae_agent_instance_id r = de_agentInstanceId (en_descriptor i)
          \<or> ae_credential_digest r = de_credentialDigest (en_descriptor i)
          \<or> ae_enrollment_hash r = en_hash i \<or> ae_state r = ''active'') (db_enrollments db)"
    and "revoked_settled db"
    and "db' = db\<lparr>db_enrollments := db_enrollments db @ [newEnrollment i t],
      db_events := db_events db @ [ev]\<rparr>"
    and "ev_entity_type ev = ''agent_enrollment''"
    and "ev_entity_id ev = de_agentInstanceId (en_descriptor i)" and "ev_event_type ev = ''agent.enrolled''"
    and "canonicalJson (JObj (enrolledData (newEnrollment i t) (en_isolation i))) = Inr (ev_data_json ev)"
    and "chained (ag_host env) (db_events db) ev"
    and "x = Some (newEnrollment i t, en_isolation i)"
    and "rowToEnrollment (ag_host env) (newEnrollment i t) = Inr (newEnrollment i t)"
proof -
  obtain t db1 db2 st where s: "check_each revokedBindingClosed (revokedBindings db) = Inr ()"
      "canonicalTimestamp (JStr (ag_now env)) = Inr t" "insertEnrollment (newEnrollment i t) db = Inr db1"
      "agentEvent env ''agent_enrollment'' (de_agentInstanceId (en_descriptor i)) ''agent.enrolled''
         (enrolledData (newEnrollment i t) (en_isolation i)) db1 = Inr db2"
      "enrollmentById (ag_host env) db2 (de_agentInstanceId (en_descriptor i)) = Inr st"
      "db' = db2" "x = map_option (\<lambda>x. (x, en_isolation i)) st"
    using assms unfolding enrollNew_def Let_def
    by (elim andthen_InrE) auto
  note ins = s(3) [unfolded insertEnrollment_def]
  from ins have free: "\<not> list_ex (\<lambda>r. ae_agent_instance_id r = de_agentInstanceId (en_descriptor i)
          \<or> ae_credential_digest r = de_credentialDigest (en_descriptor i)
          \<or> ae_enrollment_hash r = en_hash i \<or> ae_state r = ''active'') (db_enrollments db)"
    and db1: "db1 = db\<lparr>db_enrollments := db_enrollments db @ [newEnrollment i t]\<rparr>"
    by (auto split: if_splits)
  from s(4) enrolledData_wf obtain ev where ev: "db2 = db1\<lparr>db_events := db_events db1 @ [ev]\<rparr>"
      "ev_entity_type ev = ''agent_enrollment''" "ev_entity_id ev = de_agentInstanceId (en_descriptor i)"
      "ev_event_type ev = ''agent.enrolled''"
      "canonicalJson (JObj (enrolledData (newEnrollment i t) (en_isolation i))) = Inr (ev_data_json ev)"
      "chained (ag_host env) (db_events db1) ev"
    by (rule agentEvent_obtains)
  have "select_one (\<lambda>r. ae_agent_instance_id r = de_agentInstanceId (en_descriptor i)) (db_enrollments db2)
      = Some (newEnrollment i t)"
    using free db1 ev(1) by (intro select_one_unique) (auto simp: list_ex_iff)
  with s(5) have "st = Some (newEnrollment i t)" "rowToEnrollment (ag_host env) (newEnrollment i t) = Inr (newEnrollment i t)"
    by (auto simp: enrollmentById_def dest: rowToEnrollment_Inr)
  note stored = this
  have t: "canonical_time t" "t = ag_now env"
    using s(2) by (auto simp: canonicalTimestamp_def split: if_splits)
  show thesis
    by (rule that [OF t free revoked_bindings_settled [OF s(1)]])
      (use s(6,7) db1 ev stored in simp_all)
qed

text \<open>An enrollment that returned was found again or is new.\<close>

lemma enrollPrepared_obtains:
  assumes "enrollPrepared env i db = Inr (db', x)"
  obtains (replay) e where "db' = db" and "x = Some (e, en_isolation i)" and "exactEnrollment i e"
      and "e \<in> set (db_enrollments db)" and "isolated db e = Inr (e, en_isolation i)"
      and "collect (rowToEnrollment (ag_host env)) (db_enrollments db) = Inr (db_enrollments db)"
  | (new) "enrollNew env i db = Inr (db', x)" and "find (sharesIdentity i) (db_enrollments db) = None"
      and "\<forall>e \<in> set (db_enrollments db). ae_state e = ''revoked''" and "currentAttestations db = []"
      and "collect (rowToEnrollment (ag_host env)) (db_enrollments db) = Inr (db_enrollments db)"
proof -
  obtain rows where rows: "collect (rowToEnrollment (ag_host env)) (db_enrollments db) = Inr rows"
      "attestationsBound db (find (\<lambda>e. ae_state e = ''active'') rows) = Inr ()"
      "(case find (exactEnrollment i) rows of
       Some e \<Rightarrow>
         andthen (isolated db e) (\<lambda>x.
         if snd x \<noteq> en_isolation i then fail ''AGENT_ENROLLMENT_CONFLICT'' else Inr (db, Some x))
     | None \<Rightarrow>
         if list_ex (\<lambda>e. ae_state e = ''active'') rows then fail ''AGENT_ENROLLMENT_CONFLICT''
         else andthen (historicalGuard i rows) (\<lambda>_. enrollNew env i db)) = Inr (db', x)"
    using assms unfolding enrollPrepared_def by (elim andthen_InrE) auto
  note same = enrollment_rows [OF rows(1)]
  show thesis
  proof (cases "find (exactEnrollment i) rows")
    case (Some e)
    with rows(3) have "db' = db" "x = Some (e, en_isolation i)" "isolated db e = Inr (e, en_isolation i)"
      by (auto simp: isolated_def split: if_splits)
    moreover from Some have "e \<in> set rows" "exactEnrollment i e" by (auto simp: find_Some_iff)
    ultimately show thesis using replay same rows(1) by simp
  next
    case None
    with rows(3) have r: "\<not> list_ex (\<lambda>e. ae_state e = ''active'') rows"
        "historicalGuard i rows = Inr ()" "enrollNew env i db = Inr (db', x)"
      by (auto split: if_splits)
    moreover from r(1) have "find (\<lambda>e. ae_state e = ''active'') rows = None"
      by (simp add: find_None_iff list_ex_iff)
    with rows(2) have "currentAttestations db = []"
      by (cases "currentAttestations db") (auto simp: attestationsBound_Inr)
    ultimately show thesis
      using new same rows(1) by (auto simp: historicalGuard_def list_ex_iff split: option.splits if_splits)
  qed
qed

lemma enrollPrepared_effect:
  assumes "enrollPrepared env i db = Inr (db', x)"
  shows "agent_effect (ag_host env) db db'"
  using assms
proof (cases rule: enrollPrepared_obtains)
  case (replay e)
  then show ?thesis by (simp add: agent_effect_refl)
next
  case new
  from new(1) show ?thesis
  proof (cases rule: enrollNew_obtains)
    case (1 t ev)
    let ?db1 = "db\<lparr>db_enrollments := db_enrollments db @ [newEnrollment i t]\<rparr>"
    have "fresh_enrollment (newEnrollment i t) db"
      using 1(3) new(3) by (auto simp: fresh_enrollment_def list_ex_iff)
    then have "agent_step db ?db1" using 1(4) new(4) by (rule agent_enrolls)
    moreover have "log_extended (ag_host env) ?db1 db'"
      unfolding log_extended_def 1(5)
      by (intro exI [of _ "db_events db @ [ev]"]) (use 1(10) in \<open>auto intro: append_log same_log\<close>)
    moreover have "agents_logged db'" if "agents_logged db"
      using that 1(5,7) by (auto simp: agents_logged_def)
    ultimately show ?thesis by (auto simp: agent_effect_def)
  qed
qed

end
