(* ===== verification/EnrollmentMoves.thy ===== *)
theory EnrollmentMoves
  imports EnrollmentFacts
begin

text \<open>
  The steps that a revocation and the import of an attestation take.
\<close>

section \<open>Superseding\<close>

lemma toSuperseded_sel [simp]:
  "ia_id (toSuperseded t a) = ia_id a" "ia_state (toSuperseded t a) = ''superseded''"
  "ia_enrollment_hash (toSuperseded t a) = ia_enrollment_hash a"
  "ia_report_hash (toSuperseded t a) = ia_report_hash a"
  by (simp_all add: toSuperseded_def)

lemma superseded_none [simp]: "filter (\<lambda>a. ia_state a = ''current'') rows = [] \<Longrightarrow> superseded t rows = rows"
  by (auto simp: superseded_def filter_empty_conv intro: map_idI)

lemma superseded_keys [simp]:
  "map ia_id (superseded t rows) = map ia_id rows"
  "map ia_report_hash (superseded t rows) = map ia_report_hash rows"
  "filter (\<lambda>a. ia_state a = ''current'') (superseded t rows) = []"
  by (auto simp: superseded_def filter_empty_conv)

lemma superseded_ball:
  "(\<forall>x \<in> set (superseded t rows). P (ia_id x) (ia_report_hash x)) \<longleftrightarrow>
   (\<forall>x \<in> set rows. P (ia_id x) (ia_report_hash x))"
  by (induction rows) (simp_all add: superseded_def)

text \<open>The one current attestation replaced in place is what \<^verbatim>\<open>superseded\<close> says.\<close>

lemma superseded_one:
  assumes "filter (\<lambda>a. ia_state a = ''current'') rows = [a]"
    and "update_one code (\<lambda>r. ia_id r = ia_id a \<and> P r \<and> ia_state r = ''current'') (toSuperseded t) rows
      = Inr rows'"
  shows "rows' = superseded t rows"
  using assms(2)
proof (rule update_one_Inr)
  fix xs r ys
  assume rows: "rows = xs @ r # ys" and r: "ia_id r = ia_id a \<and> P r \<and> ia_state r = ''current''"
    and rows': "rows' = xs @ toSuperseded t r # ys"
  from assms(1) r have "filter (\<lambda>a. ia_state a = ''current'') xs = []"
      "filter (\<lambda>a. ia_state a = ''current'') ys = []"
    by (auto simp: rows append_eq_Cons_conv filter_empty_conv)
  then show ?thesis
    using r superseded_none [of xs t] superseded_none [of ys t]
    by (simp add: rows rows' superseded_def)
qed

text \<open>An agent event of another type keeps the log's knowledge.\<close>

lemma agentEvent_keeps_logged:
  assumes "agentEvent env et ei ty data db = Inr db'" and "js_wf (JObj data)"
    and "ty \<noteq> ''agent.enrolled''" and "agents_logged db"
  shows "agents_logged db'"
  using assms(1,2)
  by (rule agentEvent_obtains) (use assms(3,4) in \<open>auto simp: agents_logged_def\<close>)

lemma log_extended_tables:
  "log_extended h db db' \<Longrightarrow> db_enrollments db' = db_enrollments db \<and> db_attestations db' = db_attestations db
    \<and> db_bindings db' = db_bindings db \<and> db_sessions db' = db_sessions db"
  by (auto simp: log_extended_def)

text \<open>
  The loop of both writers: one of the current attestations at most, and the event that goes with it.
\<close>

definition supersedes :: "host \<Rightarrow> string \<Rightarrow> db \<Rightarrow> db \<Rightarrow> bool" where
  "supersedes h t db db' \<longleftrightarrow>
     log_extended h (db\<lparr>db_attestations := superseded t (db_attestations db)\<rparr>) db'
     \<and> (agents_logged db \<longrightarrow> agents_logged db')"

lemma supersedes_one:
  assumes "currentAttestations db = [a]"
    and "update_one code (\<lambda>r. ia_id r = ia_id a \<and> P r \<and> ia_state r = ''current'') (toSuperseded t)
      (db_attestations db) = Inr rows"
    and "agentEvent env et ei ''isolation.attestation_superseded'' data (db\<lparr>db_attestations := rows\<rparr>) = Inr db'"
    and "js_wf (JObj data)"
  shows "supersedes (ag_host env) t db db'"
proof -
  have rows: "rows = superseded t (db_attestations db)"
    using superseded_one [OF assms(1) [unfolded currentAttestations_def] assms(2)] .
  have "agents_logged (db\<lparr>db_attestations := rows\<rparr>)" if "agents_logged db"
    using that by (simp add: agents_logged_def)
  with agentEvent_log [OF assms(3,4)] agentEvent_keeps_logged [OF assms(3,4)] show ?thesis
    by (simp add: supersedes_def rows)
qed

lemma supersedes_none: "currentAttestations db = [] \<Longrightarrow> supersedes h t db db"
  by (simp add: supersedes_def currentAttestations_def log_extended_refl)

lemma supersedeAll_effect:
  assumes "supersedeAll env expected t (sort_key ia_id (currentAttestations db)) db = Inr db'"
    and "length (currentAttestations db) \<le> 1"
  shows "supersedes (ag_host env) t db db'"
proof (cases "currentAttestations db")
  case Nil
  with assms(1) show ?thesis by (simp add: supersedes_none)
next
  case (Cons a as)
  with assms(2) have one: "currentAttestations db = [a]" by simp
  with assms(1) have "supersedeAttestation env expected t a db = Inr db'" by (auto elim!: andthen_InrE)
  then show ?thesis
    unfolding supersedeAttestation_def
    by (elim andthen_InrE) (rule supersedes_one [OF one], assumption, assumption, simp)
qed

lemma replaceAll_effect:
  assumes "replaceAll env t (currentAttestations db) db = Inr db'"
    and "length (currentAttestations db) \<le> 1"
  shows "supersedes (ag_host env) t db db'"
proof (cases "currentAttestations db")
  case Nil
  with assms(1) show ?thesis by (simp add: supersedes_none)
next
  case (Cons a as)
  with assms(2) have one: "currentAttestations db = [a]" by simp
  with assms(1) have "replaceAttestation env t a db = Inr db'" by (auto elim!: andthen_InrE)
  then obtain rows where
      "update_one ''ISOLATION_STALE'' (\<lambda>r. ia_id r = ia_id a \<and> True \<and> ia_state r = ''current'')
        (toSuperseded t) (db_attestations db) = Inr rows"
      "agentEvent env ''isolation_attestation'' (ia_id a) ''isolation.attestation_superseded''
       [(''enrollmentHash'', JStr (ia_enrollment_hash a)), (''reportHash'', JStr (ia_report_hash a)),
        (''supersededAt'', JStr t), (''reasonCode'', JStr ''ATTESTATION_REPLACED'')]
       (db\<lparr>db_attestations := rows\<rparr>) = Inr db'"
    unfolding replaceAttestation_def by (elim andthen_InrE) simp
  then show ?thesis by (rule supersedes_one [OF one]) simp
qed

section \<open>Revoking\<close>

lemma revokePrepared_obtains:
  assumes "revokePrepared env r db = Inr (db', x, ids)"
  obtains e xs ys t where "db_enrollments db = xs @ e # ys" and "ae_state e = ''active''"
    and "ae_agent_instance_id e = rv_agentInstanceId r" and "ae_enrollment_hash e = rv_expectedHash r"
    and "date_ms (ae_enrolled_at e) \<le> date_ms t" and "t = ag_now env"
    and "ids = openSessionIds db (rv_expectedHash r)"
    and "\<forall>a \<in> set (currentAttestations db). ia_enrollment_hash a = rv_expectedHash r"
    and "log_extended (ag_host env)
      (db\<lparr>db_enrollments := xs @ toRevoked (rv_operatorIdHash r) t e # ys,
         db_attestations := superseded t (db_attestations db)\<rparr>) db'"
    and "agents_logged db \<longrightarrow> agents_logged db'"
proof -
  let ?ids = "openSessionIds db (rv_expectedHash r)"
  let ?as = "sort_key ia_id (currentAttestations db)"
  obtain cur where cur: "enrollmentById (ag_host env) db (rv_agentInstanceId r) = Inr (Some cur)"
      "ae_state cur = ''active''" "ae_enrollment_hash cur = rv_expectedHash r"
    and att: "length (currentAttestations db) \<le> 1"
      "\<forall>a \<in> set (currentAttestations db). ia_enrollment_hash a = rv_expectedHash r"
    and rest: "andthen (check_each attestationValid ?as) (\<lambda>_.
             andthen (canonicalTimestamp (JStr (ag_now env))) (\<lambda>revokedAt.
             if date_ms revokedAt < date_ms (ae_enrolled_at cur) then fail ''AGENT_ENROLLMENT_TIME''
             else
               andthen (revokeWrite env r revokedAt ?as ?ids db) (\<lambda>db'.
               andthen (enrollmentById (ag_host env) db' (rv_agentInstanceId r)) (\<lambda>stored.
               andthen (case stored of None \<Rightarrow> Inr None
                        | Some e \<Rightarrow> andthen (isolated db' e) (\<lambda>x. Inr (Some x))) (\<lambda>revoked.
               Inr (db', revoked, ?ids)))))) = Inr (db', x, ids)"
    using assms unfolding revokePrepared_def
    by (elim andthen_InrE)
      (auto simp: Let_def list_ex_iff not_less simp del: One_nat_def split: option.splits if_splits)
  from rest obtain t where t: "canonicalTimestamp (JStr (ag_now env)) = Inr t"
      "date_ms (ae_enrolled_at cur) \<le> date_ms t" "revokeWrite env r t ?as ?ids db = Inr db'" "ids = ?ids"
    by (elim andthen_InrE) (auto split: if_splits)
  from t(3) obtain rows db1 where w: "update_one ''AGENT_ENROLLMENT_STALE''
                (\<lambda>e. ae_agent_instance_id e = rv_agentInstanceId r
                   \<and> ae_enrollment_hash e = rv_expectedHash r \<and> ae_state e = ''active'')
                (toRevoked (rv_operatorIdHash r) t) (db_enrollments db) = Inr rows"
      "supersedeAll env (rv_expectedHash r) t ?as (db\<lparr>db_enrollments := rows\<rparr>) = Inr db1"
      "agentEvent env ''agent_enrollment'' (rv_agentInstanceId r) ''agent.revoked''
       [(''enrollmentHash'', JStr (rv_expectedHash r)),
        (''operatorIdHash'', JStr (rv_operatorIdHash r)),
        (''boundSessionIds'', JArr (map JStr ?ids)), (''revokedAt'', JStr t)] db1 = Inr db'"
    unfolding revokeWrite_def by (elim andthen_InrE)
  from w(1) obtain xs e ys where rows: "db_enrollments db = xs @ e # ys" "rows = xs @ toRevoked (rv_operatorIdHash r) t e # ys"
      "ae_agent_instance_id e = rv_agentInstanceId r" "ae_enrollment_hash e = rv_expectedHash r"
      "ae_state e = ''active''"
      "\<forall>x \<in> set (xs @ ys). \<not> (ae_agent_instance_id x = rv_agentInstanceId r
         \<and> ae_enrollment_hash x = rv_expectedHash r \<and> ae_state x = ''active'')"
    by (rule update_one_Inr) auto
  have "cur \<in> set (db_enrollments db) \<and> ae_agent_instance_id cur = rv_agentInstanceId r"
    using enrollmentById_Inr(1) [OF cur(1)] by (rule select_one_Some)
  with rows(1,6) cur(2,3) have e: "e = cur" by auto
  let ?db0 = "db\<lparr>db_enrollments := rows\<rparr>"
  have same: "currentAttestations ?db0 = currentAttestations db"
    by (simp add: currentAttestations_def)
  have sup: "supersedes (ag_host env) t ?db0 db1"
    by (rule supersedeAll_effect) (use w(2) att(1) in \<open>simp_all add: same\<close>)
  have wf: "js_wf (JObj [(''enrollmentHash'', JStr (rv_expectedHash r)),
        (''operatorIdHash'', JStr (rv_operatorIdHash r)),
        (''boundSessionIds'', JArr (map JStr ?ids)), (''revokedAt'', JStr t)])"
    by (simp add: list_all_iff)
  have log: "log_extended (ag_host env) (db\<lparr>db_enrollments := xs @ toRevoked (rv_operatorIdHash r) t e # ys,
         db_attestations := superseded t (db_attestations db)\<rparr>) db'"
    using log_extended_trans [OF agentEvent_log [OF w(3) wf]] sup rows(2)
    by (simp add: supersedes_def)
  have "agents_logged ?db0" if "agents_logged db"
    using that rows(1,2) by (auto simp: agents_logged_def toRevoked_def)
  then have known: "agents_logged db \<longrightarrow> agents_logged db'"
    using sup agentEvent_keeps_logged [OF w(3) wf] by (auto simp: supersedes_def)
  have "t = ag_now env" using t(1) by (auto simp: canonicalTimestamp_def split: if_splits)
  moreover have "date_ms (ae_enrolled_at e) \<le> date_ms t" using t(2) e by simp
  ultimately show thesis by (intro that [OF rows(1,5,3,4)]) (use t(4) att(2) log known in auto)
qed

lemma revokePrepared_effect:
  assumes "revokePrepared env r db = Inr (db', y)"
  shows "agent_effect (ag_host env) db db'"
proof -
  obtain x ids where "y = (x, ids)" by (cases y)
  with assms have "revokePrepared env r db = Inr (db', x, ids)" by simp
  then show ?thesis
  proof (cases rule: revokePrepared_obtains)
    case (1 e xs ys t)
    from agent_revokes [OF 1(1,2,5)] 1(9,10) show ?thesis by (auto simp: agent_effect_def)
  qed
qed

section \<open>Importing\<close>

text \<open>What a validated report says.\<close>

lemma validateReport_obtains:
  assumes "validateReport v = Inr report"
  obtains kvs probedAt expiresAt where "v = JObj report"
    and "\<forall>f \<in> set (''enrollmentHash'' # HASH_FIELDS). \<exists>s. get_prop report f = JStr s \<and> hash_pattern s"
    and "get_prop report ''kernelUid'' \<noteq> get_prop report ''agentUid''"
    and "get_prop report ''probeResults'' = JObj kvs"
    and "\<forall>(name, expected) \<in> set PROBE_RESULTS. get_prop kvs name = JStr expected"
    and "get_prop report ''probedAt'' = JStr probedAt" and "get_prop report ''expiresAt'' = JStr expiresAt"
    and "canonical_time probedAt" and "canonical_time expiresAt"
    and "date_ms probedAt < date_ms expiresAt" and "date_ms expiresAt \<le> date_ms probedAt + 15 * 60 * 1000"
proof -
  have ts: "canonicalTimestamp u = Inr t \<longleftrightarrow> u = JStr t \<and> canonical_time t" for u t
    by (auto simp: canonicalTimestamp_def split: jsval.splits)
  obtain en kvs pa ea where r: "exactRecord v REPORT_FIELDS [] ''ISOLATION_SCHEMA'' = Inr report"
      "isolationHash (get_prop report ''enrollmentHash'') = Inr en"
      "get_prop report ''kernelUid'' \<noteq> get_prop report ''agentUid''"
      "check_each (\<lambda>f. checked (isolationHash (get_prop report f))) HASH_FIELDS = Inr ()"
      "exactRecord (get_prop report ''probeResults'') (map fst PROBE_RESULTS) [] ''ISOLATION_SCHEMA'' = Inr kvs"
      "\<not> list_ex (\<lambda>(name, expected). get_prop kvs name \<noteq> JStr expected) PROBE_RESULTS"
      "canonicalTimestamp (get_prop report ''probedAt'') = Inr pa"
      "canonicalTimestamp (get_prop report ''expiresAt'') = Inr ea"
      "date_ms pa < date_ms ea" "date_ms ea \<le> date_ms pa + 15 * 60 * 1000"
    using assms unfolding validateReport_def Let_def
    by (elim andthen_InrE if_failE) (auto simp: not_le not_less split: if_splits)
  have "\<exists>s. get_prop report f = JStr s \<and> hash_pattern s" if "f \<in> set (''enrollmentHash'' # HASH_FIELDS)" for f
    using that r(2,4) by (fastforce simp: isolationHash_def canonicalHash_Inr check_each_Inr_iff checked_def
        elim: andthen_InrE)
  then show thesis
    using that r exactRecord_InrD [OF r(1)] exactRecord_InrD [OF r(5)]
    by (auto simp: ts list_ex_iff split_beta)
qed

lemma importedData_text:
  assumes "validateReport v = Inr report"
  shows "importedData report reportHash operator at =
     [(''reportHash'', JStr reportHash), (''enrollmentHash'', JStr (report_text report ''enrollmentHash'')),
      (''authorityMetadataHash'', JStr (report_text report ''authorityMetadataHash'')),
      (''releaseManifestHash'', JStr (report_text report ''releaseManifestHash'')),
      (''operatorIdHash'', JStr operator), (''probedAt'', JStr (report_text report ''probedAt'')),
      (''expiresAt'', JStr (report_text report ''expiresAt'')), (''importedAt'', JStr at)]"
  using assms
  by (rule validateReport_obtains) (auto simp: importedData_def report_text_def HASH_FIELDS_def)

lemma newAttestation_sel [simp]:
  "ia_id (newAttestation n x report c operator t) = n" "ia_report_hash (newAttestation n x report c operator t) = x"
  "ia_state (newAttestation n x report c operator t) = ''current''"
  "ia_superseded_at (newAttestation n x report c operator t) = None"
  "ia_enrollment_hash (newAttestation n x report c operator t) = report_text report ''enrollmentHash''"
  "ia_report_json (newAttestation n x report c operator t) = c"
  by (simp_all add: newAttestation_def)

lemma importPrepared_obtains:
  assumes "importPrepared env drawn report reportHash operator t db = Inr (db', r)"
    and "validateReport v = Inr report"
  obtains (replay) e a where "db' = db" and "active_rows db = [e]" and "a \<in> set (db_attestations db)"
      and "ia_state a = ''current''" and "ia_enrollment_hash a = ae_enrollment_hash e"
      and "get_prop report ''enrollmentHash'' = JStr (ae_enrollment_hash e)"
      and "ia_report_hash a = reportHash" and "canonicalJson (JObj report) = Inr (ia_report_json a)"
      and "attestationResult a = Inr r"
  | (new) e a where "active_rows db = [e]" and "fresh_attestation a db"
      and "get_prop report ''enrollmentHash'' = JStr (ae_enrollment_hash e)"
      and "log_extended (ag_host env)
        (db\<lparr>db_attestations := superseded t (db_attestations db) @ [a]\<rparr>) db'"
      and "agents_logged db \<longrightarrow> agents_logged db'" and "ia_enrollment_hash a = ae_enrollment_hash e"
      and "ia_report_hash a = reportHash" and "canonicalJson (JObj report) = Inr (ia_report_json a)"
      and "attestationResult a = Inr r"
proof -
  obtain e where e: "active_rows db = [e]" "get_prop report ''enrollmentHash'' = JStr (ae_enrollment_hash e)"
    using assms(1) by (auto simp: importPrepared_def active_rows_def split: list.splits if_splits)
  then have hash: "report_text report ''enrollmentHash'' = ae_enrollment_hash e"
    by (simp add: report_text_def)
  show thesis
  proof (cases "select_one (\<lambda>a. ia_report_hash a = reportHash) (db_attestations db)")
    case (Some a)
    then have "a \<in> set (db_attestations db)" "ia_report_hash a = reportHash"
      by (auto dest: select_one_Some)
    with assms(1) e Some show thesis
      by (intro replay [of e a]) (auto simp: importPrepared_def active_rows_def split: if_splits)
  next
    case None
    then have "importNew env drawn report reportHash operator t db = Inr (db', r)"
      using assms(1) e by (simp add: importPrepared_def active_rows_def split: if_splits)
    then obtain db1 n c db2 a where i: "length (currentAttestations db) \<le> 1"
        "replaceAll env t (currentAttestations db) db = Inr db1"
        "canonicalJson (JObj report) = Inr c"
        "insertAttestation (newAttestation n reportHash report c operator t) db1 = Inr db2"
        "agentEvent env ''isolation_attestation'' n ''isolation.attestation_imported''
           (importedData report reportHash operator t) db2 = Inr db'"
        "select_one (\<lambda>a. ia_id a = n) (db_attestations db') = Some a" "attestationResult a = Inr r"
      unfolding importNew_def by (elim if_failE andthen_InrE) (auto split: option.splits)
    let ?a = "newAttestation n reportHash report c operator t"
    have sup: "supersedes (ag_host env) t db db1" using i(2,1) by (rule replaceAll_effect)
    then have db1: "db_attestations db1 = superseded t (db_attestations db)" "db_enrollments db1 = db_enrollments db"
      by (auto simp: supersedes_def dest: log_extended_tables)
    have db2: "db2 = db1\<lparr>db_attestations := db_attestations db1 @ [?a]\<rparr>"
      and free: "\<forall>x \<in> set (db_attestations db1). ia_id x \<noteq> n \<and> ia_report_hash x \<noteq> reportHash"
      using i(4) by (auto simp: insertAttestation_def list_ex_iff split: if_splits)
    have free0: "\<forall>x \<in> set (db_attestations db). ia_id x \<noteq> n \<and> ia_report_hash x \<noteq> reportHash"
      using free superseded_ball [of t _ "\<lambda>i x. i \<noteq> n \<and> x \<noteq> reportHash"] by (simp add: db1)
    have wf: "js_wf (JObj (importedData report reportHash operator t))"
      by (simp add: importedData_text [OF assms(2)])
    note ev = agentEvent_log [OF i(5) wf]
    have "log_extended (ag_host env) (db\<lparr>db_attestations := superseded t (db_attestations db) @ [?a]\<rparr>) db2"
    proof -
      from sup obtain es where "db1 = db\<lparr>db_attestations := superseded t (db_attestations db), db_events := es\<rparr>"
          "log_grows (ag_host env) (db_events db) es"
        by (auto simp: supersedes_def log_extended_def)
      then show ?thesis unfolding log_extended_def db2 by (intro exI [of _ es]) simp
    qed
    with ev have log: "log_extended (ag_host env)
        (db\<lparr>db_attestations := superseded t (db_attestations db) @ [?a]\<rparr>) db'"
      by (blast intro: log_extended_trans)
    have known: "agents_logged db \<longrightarrow> agents_logged db'"
      using sup agentEvent_keeps_logged [OF i(5) wf] by (auto simp: supersedes_def agents_logged_def db2)
    have "db_attestations db' = superseded t (db_attestations db) @ [?a]"
      using log by (auto dest: log_extended_tables)
    with i(6) have "a = ?a"
      using free db1(1)
      by (auto dest!: select_one_Some)
    moreover have "fresh_attestation ?a db"
      using e(1) free0 hash by (simp add: fresh_attestation_def)
    ultimately show thesis
      using new [OF e(1) _ e(2), of ?a] log known hash i(3,7) by simp
  qed
qed

lemma importPrepared_effect:
  assumes "importPrepared env drawn report reportHash operator t db = Inr (db', r)"
    and "validateReport v = Inr report"
  shows "agent_effect (ag_host env) db db'"
  using assms
proof (cases rule: importPrepared_obtains)
  case replay
  then show ?thesis by (simp add: agent_effect_refl)
next
  case new
  then show ?thesis by (auto simp: agent_effect_def intro: agent_imports)
qed

end
