(* ===== verification/EnrollmentSafety.thy ===== *)
theory EnrollmentSafety
  imports EnrollmentMoves
begin

text \<open>
  The contract of the agent's operations as a locale with its interpretations, the repository driven
  by calls beside other components, and what holds of enrollments and attestations along every run.
\<close>

section \<open>The contract of an operation\<close>

locale agent_op =
  fixes h :: host and step :: "db \<Rightarrow> (db \<times> 'r) res"
  assumes effect: "step db = Inr (db', x) \<Longrightarrow> agent_effect h db db'"
begin

lemma call_effect: "db' = fst (transaction step db) \<Longrightarrow> agent_effect h db db'"
  by (auto simp: transaction_def dest: effect intro: agent_effect_refl split: sum.splits)

end

interpretation enroll_op: agent_op "ag_host env" "enrollPrepared env i" for env i
  by unfold_locales (rule enrollPrepared_effect)

interpretation revoke_op: agent_op "ag_host env" "revokePrepared env r" for env r
  by unfold_locales (rule revokePrepared_effect)

lemma activeAgent_reads: "activeAgent h db = Inr (db', x) \<Longrightarrow> db' = db"
  unfolding activeAgent_def Let_def
  by (elim if_failE andthen_InrE) (auto split: option.splits elim!: andthen_InrE)

lemma currentFor_reads:
  "currentForInTransaction h t e a r x db = Inr (db', y) \<Longrightarrow> db' = db"
  unfolding currentForInTransaction_def
  by (auto split: list.splits if_splits elim!: andthen_InrE)

interpretation active_op: agent_op "ag_host env" "activeAgent h" for env h
  by unfold_locales (auto dest: activeAgent_reads intro: agent_effect_refl)

interpretation current_op: agent_op "ag_host env" "currentForInTransaction h t e a r x" for env h t e a r x
  by unfold_locales (auto dest: currentFor_reads intro: agent_effect_refl)

text \<open>Only a validated report is imported.\<close>

lemma report_bytes_obtains:
  assumes "validateIsolationReportBytes h t options clock = Inr (report, reportHash)"
  obtains v where "json_parse (butlast t) = Some v" and "validateReport v = Inr report"
    and "canonicalJson (JObj report) = Inr (butlast t)" and "reportHash = h_sha256 h (butlast t)"
proof -
  obtain v c where v: "json_parse (butlast t) = Some v" "validateReport v = Inr report"
      "canonicalJson (JObj report) = Inr c" "t = c @ [newline]" "reportHash = h_sha256 h c"
    using assms unfolding validateIsolationReportBytes_def Let_def
    by (elim if_failE case_failE andthen_InrE) (auto elim!: andthen_InrE split: if_splits)
  then show thesis by (intro that) simp_all
qed

lemma importCurrent_effect: "agent_effect (ag_host env) db (fst (importCurrent env drawn t x operator db))"
proof (cases "andthen (canonicalTimestamp (JStr (ag_now env))) (\<lambda>importedAt.
           andthen (isolationHash operator) (\<lambda>operator.
           andthen (validateIsolationReportBytes (ag_host env) t [(''expectedReportHash'', x)] (Some importedAt))
             (\<lambda>(report, reportHash). Inr (importedAt, operator, report, reportHash))))")
  case (Inl e)
  then show ?thesis by (simp add: importCurrent_def agent_effect_refl)
next
  case (Inr y)
  then obtain at op report hash where y: "y = (at, op, report, hash)"
      "validateIsolationReportBytes (ag_host env) t [(''expectedReportHash'', x)] (Some at) = Inr (report, hash)"
    by (elim andthen_InrE) auto
  obtain v where "validateReport v = Inr report" using y(2) by (rule report_bytes_obtains)
  then have "agent_effect (ag_host env) db d"
    if "importPrepared env drawn report hash op at db = Inr (d, r)" for d r
    using that importPrepared_effect by blast
  with Inr y(1) show ?thesis
    by (auto simp: importCurrent_def transaction_def intro: agent_effect_refl split: sum.split)
qed

section \<open>A repository driven by calls\<close>

datatype agent_call =
    Enroll jsval
  | Revoke jsval
  | ImportIsolation jsval string jsval jsval
  | ActiveAgent
  | CurrentIsolation jsval jsval jsval jsval

fun agent_run :: "agent_env \<Rightarrow> agent_call \<Rightarrow> db \<Rightarrow> db \<times> unit res" where
  "agent_run env (Enroll v) db = finished (enroll env v db)"
| "agent_run env (Revoke v) db = finished (revoke env v db)"
| "agent_run env (ImportIsolation drawn t x operator) db = finished (importCurrent env drawn t x operator db)"
| "agent_run env ActiveAgent db = finished (transaction (activeAgent (ag_host env)) db)"
| "agent_run env (CurrentIsolation e a r x) db = finished (currentFor env e a r x db)"

lemma agent_run_effect: "agent_effect (ag_host env) db (fst (agent_run env c db))"
  by (cases c)
    (auto simp: enroll_def revoke_def currentFor_def importCurrent_effect
      intro: agent_effect_refl enroll_op.call_effect revoke_op.call_effect active_op.call_effect
        current_op.call_effect split: sum.split)

lemma agent_run_error: "snd (agent_run env c db) = Inl e \<Longrightarrow> fst (agent_run env c db) = db"
  by (cases c)
    (auto simp: finished_Inl enroll_def revoke_def currentFor_def importCurrent_def dest: transaction_Inl
      split: sum.splits)

text \<open>Other components leave the two tables and the events of enrollments alone.\<close>

definition other_step :: "host \<Rightarrow> db \<Rightarrow> db \<Rightarrow> bool" where
  "other_step h db db' \<longleftrightarrow>
     db_enrollments db' = db_enrollments db \<and> db_attestations db' = db_attestations db
     \<and> (\<forall>i. eventsOf db' ''agent_enrollment'' i ''agent.enrolled''
            = eventsOf db ''agent_enrollment'' i ''agent.enrolled'')
     \<and> log_grows h (db_events db) (db_events db')"

inductive agent_reach :: "host \<Rightarrow> db \<Rightarrow> db \<Rightarrow> bool" for h db0 where
  agent_start: "agent_reach h db0 db0"
| agent_calls:
    "agent_reach h db0 db \<Longrightarrow> ag_host env = h \<Longrightarrow> agent_reach h db0 (fst (agent_run env c db))"
| agent_others: "agent_reach h db0 db \<Longrightarrow> other_step h db db' \<Longrightarrow> agent_reach h db0 db'"

section \<open>Invariants\<close>

definition agent_sound :: "db \<Rightarrow> bool" where
  "agent_sound db \<longleftrightarrow>
     distinct (map ae_agent_instance_id (db_enrollments db))
     \<and> distinct (map ae_credential_digest (db_enrollments db))
     \<and> distinct (map ae_enrollment_hash (db_enrollments db))
     \<and> length (active_rows db) \<le> 1
     \<and> distinct (map ia_id (db_attestations db)) \<and> distinct (map ia_report_hash (db_attestations db))
     \<and> length (currentAttestations db) \<le> 1
     \<and> (\<forall>a \<in> set (currentAttestations db). \<exists>e. active_rows db = [e] \<and> ia_enrollment_hash a = ae_enrollment_hash e)
     \<and> agents_logged db"

definition later_enrollment :: "enrollment_row \<Rightarrow> enrollment_row \<Rightarrow> bool" where
  "later_enrollment e e' \<longleftrightarrow>
     e' = e \<or> (ae_state e = ''active'' \<and> (\<exists>operator t. e' = toRevoked operator t e
       \<and> date_ms (ae_enrolled_at e) \<le> date_ms t))"

lemma toRevoked_sel [simp]:
  "ae_state (toRevoked operator t e) = ''revoked''"
  "ae_agent_instance_id (toRevoked operator t e) = ae_agent_instance_id e"
  "ae_credential_digest (toRevoked operator t e) = ae_credential_digest e"
  "ae_enrollment_hash (toRevoked operator t e) = ae_enrollment_hash e"
  by (simp_all add: toRevoked_def)

lemma agents_logged_same:
  assumes "db_enrollments db' = db_enrollments db"
    and "\<forall>i. eventsOf db' ''agent_enrollment'' i ''agent.enrolled''
      = eventsOf db ''agent_enrollment'' i ''agent.enrolled''" and "agents_logged db"
  shows "agents_logged db'"
proof -
  have known: "agents_logged d \<longleftrightarrow> (\<forall>i. eventsOf d ''agent_enrollment'' i ''agent.enrolled'' \<noteq> []
      \<longrightarrow> i \<in> ae_agent_instance_id ` set (db_enrollments d))" for d
    by (auto simp: agents_logged_def eventsOf_def filter_empty_conv)
  show ?thesis using assms by (simp add: known)
qed

lemma agent_sound_step:
  assumes "agent_step db db'" and "agent_sound db"
  shows "agents_logged db' \<longrightarrow> agent_sound db'"
  using assms
proof (induction rule: agent_step.induct)
  case (agent_reads db)
  then show ?case by simp
next
  case (agent_enrolls e db)
  then have "active_rows db = []" by (auto simp: active_rows_def fresh_enrollment_def filter_empty_conv)
  with agent_enrolls show ?case
    by (auto simp: agent_sound_def active_rows_def currentAttestations_def fresh_enrollment_def)
next
  case (agent_revokes db xs e ys t operator)
  then have "active_rows (db\<lparr>db_enrollments := xs @ toRevoked operator t e # ys\<rparr>) = []"
    by (auto simp: agent_sound_def active_rows_def)
  with agent_revokes show ?case
    by (simp add: agent_sound_def currentAttestations_def active_rows_def)
next
  case (agent_imports a db t)
  then obtain e where e: "active_rows db = [e]" "ia_enrollment_hash a = ae_enrollment_hash e"
      "ia_state a = ''current''"
      "\<forall>r \<in> set (db_attestations db). ia_id r \<noteq> ia_id a \<and> ia_report_hash r \<noteq> ia_report_hash a"
    by (auto simp: fresh_attestation_def)
  have "ia_id a \<notin> ia_id ` set (db_attestations db)"
      "ia_report_hash a \<notin> ia_report_hash ` set (db_attestations db)"
    using e(4) by force+
  with agent_imports e show ?case
    by (simp add: agent_sound_def currentAttestations_def active_rows_def)
qed

lemma agent_step_later:
  assumes "agent_step db db'" and "\<exists>j \<in> set (db_enrollments db). later_enrollment e j"
  shows "\<exists>j \<in> set (db_enrollments db'). later_enrollment e j"
  using assms
proof (induction rule: agent_step.induct)
  case (agent_revokes db xs r ys t operator)
  have "later_enrollment e (toRevoked operator t r)" if "later_enrollment e r"
    using that agent_revokes.hyps by (auto simp: later_enrollment_def)
  with agent_revokes show ?case by auto
qed auto

lemma agent_step_logged:
  "agent_step db db' \<Longrightarrow> agents_logged db \<Longrightarrow> agents_logged db'"
  by (induction rule: agent_step.induct) (auto simp: agents_logged_def)

lemma agent_effect_sound:
  assumes "agent_effect h db db'" and "agent_sound db"
  shows "agent_sound db'"
proof -
  obtain db1 where db1: "agent_step db db1" "log_extended h db1 db'"
    using assms(1) by (auto simp: agent_effect_def)
  have known: "agents_logged db" "agents_logged db'" "agents_logged db1"
    using assms agent_step_logged [OF db1(1)] by (auto simp: agent_effect_def agent_sound_def)
  have "agent_sound db1" using agent_sound_step [OF db1(1) assms(2)] known(3) by blast
  with log_extended_tables [OF db1(2)] known(2) show ?thesis
    by (simp add: agent_sound_def active_rows_def currentAttestations_def)
qed

lemma other_step_sound: "other_step h db db' \<Longrightarrow> agent_sound db \<Longrightarrow> agent_sound db'"
  using agents_logged_same [of db' db]
  by (auto simp: other_step_def agent_sound_def active_rows_def currentAttestations_def)

lemma agent_reach_sound: "agent_reach h db0 db \<Longrightarrow> agent_sound db0 \<Longrightarrow> agent_sound db"
proof (induction rule: agent_reach.induct)
  case (agent_calls db env c)
  then show ?case using agent_run_effect agent_effect_sound by blast
qed (auto intro: other_step_sound)

lemma agent_reach_later:
  "agent_reach h db0 db \<Longrightarrow> e \<in> set (db_enrollments db0) \<Longrightarrow> \<exists>j \<in> set (db_enrollments db). later_enrollment e j"
proof (induction rule: agent_reach.induct)
  case agent_start
  then show ?case by (auto simp: later_enrollment_def)
next
  case (agent_calls db env c)
  obtain db1 where "agent_step db db1" "db_enrollments (fst (agent_run env c db)) = db_enrollments db1"
    using agent_run_effect [of env db c] by (auto simp: agent_effect_def dest: log_extended_tables)
  with agent_step_later agent_calls show ?case by metis
qed (simp add: other_step_def)

text \<open>A revoked enrollment is the only row of its hash for good.\<close>

lemma revoked_for_good:
  assumes "agent_reach h db0 db" and "agent_sound db0" and "e \<in> set (db_enrollments db0)"
    and "ae_state e = ''revoked''" and "r \<in> set (db_enrollments db)"
    and "ae_enrollment_hash r = ae_enrollment_hash e"
  shows "r = e"
proof -
  obtain j where "j \<in> set (db_enrollments db)" "later_enrollment e j"
    using agent_reach_later [OF assms(1,3)] by blast
  with assms(4) have "e \<in> set (db_enrollments db)" by (auto simp: later_enrollment_def)
  moreover have "distinct (map ae_enrollment_hash (db_enrollments db))"
    using agent_reach_sound [OF assms(1,2)] by (simp add: agent_sound_def)
  ultimately show ?thesis using assms(5,6) by (auto simp: distinct_map dest: inj_onD)
qed

end
