(* ===== verification/EnrollmentReading.thy ===== *)
theory EnrollmentReading
  imports EnrollmentSafety
begin

text \<open>
  Reading back: the creation event of an enrollment, the enrollment by its identifier and as the active
  one, an enrollment repeated, and an imported attestation.
\<close>

section \<open>The creation event\<close>

lemma canonicalIdentityText_Inr:
  "canonicalIdentityText v = Inr x \<Longrightarrow> v = JStr (fst x) \<and> canonicalIdentityText (JStr (fst x)) = Inr x"
  by (auto simp: canonicalIdentityText_def split: jsval.splits if_splits)

text \<open>The columns of an accepted row, as validators accept them.\<close>

lemma rowToEnrollment_columns:
  assumes "rowToEnrollment h e = Inr e"
  shows "canonicalInstanceId (JStr (ae_agent_instance_id e)) = Inr (ae_agent_instance_id e)"
    and "canonicalHash (JStr (ae_credential_digest e)) code = Inr (ae_credential_digest e)"
    and "canonicalHash (JStr (ae_enrollment_hash e)) code = Inr (ae_enrollment_hash e)"
    and "canonicalHash (JStr (ae_enrolled_by_operator_hash e)) code = Inr (ae_enrolled_by_operator_hash e)"
    and "canonicalTimestamp (JStr (ae_enrolled_at e)) = Inr (ae_enrolled_at e)"
    and "\<exists>n. canonicalIdentityText (JStr (ae_agent_uid e)) = Inr (ae_agent_uid e, n)"
    and "\<exists>n. canonicalIdentityText (JStr (ae_agent_gid e)) = Inr (ae_agent_gid e, n)"
proof -
  let ?js = "JObj [(''schemaVersion'', JNum 1), (''agentInstanceId'', JStr (ae_agent_instance_id e)),
         (''credentialDigest'', JStr (ae_credential_digest e)),
         (''agentUid'', JStr (ae_agent_uid e)), (''agentGid'', JStr (ae_agent_gid e))]"
  obtain d where d: "validateDescriptor ?js = Inr d"
      "\<exists>x. canonicalHash (JStr (ae_enrollment_hash e)) ''AGENT_ENROLLMENT_SCHEMA'' = Inr x"
      "\<exists>x. canonicalHash (JStr (ae_enrolled_by_operator_hash e)) ''AGENT_ENROLLMENT_SCHEMA'' = Inr x"
      "\<exists>x. canonicalTimestamp (JStr (ae_enrolled_at e)) = Inr x"
    using assms
    by (auto simp: rowToEnrollment_def rethrow_as_def split: sum.splits js_error.splits if_splits
        elim!: andthen_InrE)
  have "exactRecord ?js [''schemaVersion'', ''agentInstanceId'', ''credentialDigest'', ''agentUid'',
                ''agentGid''] [] ''AGENT_DESCRIPTOR_SCHEMA'' = Inr (case ?js of JObj kvs \<Rightarrow> kvs)"
    by (simp add: exactRecord_canonical MAX_SAFE_INTEGER_def)
  with d(1) obtain u g i c where "canonicalIdentityText (JStr (ae_agent_uid e)) = Inr u"
      "canonicalIdentityText (JStr (ae_agent_gid e)) = Inr g"
      "canonicalInstanceId (JStr (ae_agent_instance_id e)) = Inr i"
      "canonicalHash (JStr (ae_credential_digest e)) ''AGENT_CREDENTIAL_DIGEST'' = Inr c"
    unfolding validateDescriptor_def by (auto simp: get_prop_def elim!: andthen_InrE)
  with d show "canonicalInstanceId (JStr (ae_agent_instance_id e)) = Inr (ae_agent_instance_id e)"
    and "canonicalHash (JStr (ae_credential_digest e)) code = Inr (ae_credential_digest e)"
    and "canonicalHash (JStr (ae_enrollment_hash e)) code = Inr (ae_enrollment_hash e)"
    and "canonicalHash (JStr (ae_enrolled_by_operator_hash e)) code = Inr (ae_enrolled_by_operator_hash e)"
    and "canonicalTimestamp (JStr (ae_enrolled_at e)) = Inr (ae_enrolled_at e)"
    and "\<exists>n. canonicalIdentityText (JStr (ae_agent_uid e)) = Inr (ae_agent_uid e, n)"
    and "\<exists>n. canonicalIdentityText (JStr (ae_agent_gid e)) = Inr (ae_agent_gid e, n)"
    by (auto simp: canonicalHash_Inr canonicalTimestamp_def canonicalInstanceId_def canonicalIdentityText_def
        Let_def split: if_splits)
qed

lemma enrolled_event_matches:
  assumes "canonicalJson (JObj (enrolledData e isolation)) = Inr (ev_data_json ev)"
    and "rowToEnrollment h e = Inr e" and "isolation \<in> {''simulated'', ''pending_verification''}"
  shows "enrolledEventMatches e ev = Inr isolation"
proof -
  let ?d = "enrolledData e isolation"
  have wf: "js_wf (JObj ?d)" by (rule enrolledData_wf)
  have parse: "json_parse (ev_data_json ev) = Some (JObj (normal_entries ?d))"
    using json_parse_canonicalJson [OF wf assms(1)] by (simp add: js_normal_JObj del: js_normal.simps)
  have canon: "js_canonical (JObj ?d)" by (simp add: enrolledData_def)
  have rec: "exactRecord (JObj (normal_entries ?d)) ENROLLED_FIELDS [] code = Inr (normal_entries ?d)" for code
    using exactRecord_normal [OF canon, of ENROLLED_FIELDS "[]" code]
    by (simp add: js_normal_JObj ENROLLED_FIELDS_def enrolledData_def has_own_def del: js_normal.simps)
  have again: "canonicalJson (JObj (normal_entries ?d)) = Inr (ev_data_json ev)"
    using assms(1) canonicalSerialize_js_normal [of "JObj ?d"]
    by (simp add: canonicalJson_def js_normal_JObj del: js_normal.simps canonicalSerialize.simps)
  have "get_prop (normal_entries ?d) k = js_normal (get_prop ?d k)" for k
    using wf by (intro get_prop_normal_entries) simp
  note props = this [of "''enrollmentHash''"] this [of "''credentialDigest''"] this [of "''agentUid''"]
    this [of "''agentGid''"] this [of "''operatorIdHash''"] this [of "''isolation''"] this [of "''enrolledAt''"]
  obtain n m where ids: "canonicalIdentityText (JStr (ae_agent_uid e)) = Inr (ae_agent_uid e, n)"
      "canonicalIdentityText (JStr (ae_agent_gid e)) = Inr (ae_agent_gid e, m)"
    using rowToEnrollment_columns(6,7) [OF assms(2)] by blast
  have props: "get_prop (normal_entries ?d) ''enrollmentHash'' = JStr (ae_enrollment_hash e)"
      "get_prop (normal_entries ?d) ''credentialDigest'' = JStr (ae_credential_digest e)"
      "get_prop (normal_entries ?d) ''agentUid'' = JStr (ae_agent_uid e)"
      "get_prop (normal_entries ?d) ''agentGid'' = JStr (ae_agent_gid e)"
      "get_prop (normal_entries ?d) ''operatorIdHash'' = JStr (ae_enrolled_by_operator_hash e)"
      "get_prop (normal_entries ?d) ''isolation'' = JStr isolation"
      "get_prop (normal_entries ?d) ''enrolledAt'' = JStr (ae_enrolled_at e)"
    unfolding props by (simp_all add: enrolledData_def get_prop_def)
  show ?thesis
    using assms(3) unfolding enrolledEventMatches_def Let_def parse
    by (auto simp: rec again props field_is_def rowToEnrollment_columns [OF assms(2)] ids)
qed

section \<open>The enrollment\<close>

lemma prepareEnroll_isolation:
  assumes "prepareEnroll h v = Inr i"
  shows "en_isolation i \<in> {''simulated'', ''pending_verification''}"
  using assms unfolding prepareEnroll_def
  by (elim andthen_InrE if_failE) (auto simp: enrollIsolation_def split: if_splits elim!: andthen_InrE)

lemma filter_one:
  assumes "length (filter P xs) \<le> 1" and "x \<in> set xs" and "P x"
  shows "filter P xs = [x]"
proof -
  have "x \<in> set (filter P xs)" using assms(2,3) by simp
  with assms(1) show ?thesis by (cases "filter P xs") (auto simp del: set_filter)
qed

text \<open>The active enrollment of an input, with its label, is found by every read.\<close>

lemma enrolled_reads:
  assumes "agent_sound db" and "e \<in> set (db_enrollments db)" and "exactEnrollment i e"
    and "isolated db e = Inr (e, en_isolation i)"
    and "collect (rowToEnrollment (ag_host env)) (db_enrollments db) = Inr (db_enrollments db)"
  shows "getEnrollment (ag_host env) (JStr (ae_agent_instance_id e)) db = Inr (Some (e, en_isolation i))"
    and "activeAgent (ag_host env) db = Inr (db, Some (e, en_isolation i))"
    and "enrollPrepared env i db = Inr (db, Some (e, en_isolation i))"
proof -
  have row: "rowToEnrollment (ag_host env) e = Inr e"
    using assms(2,5) by (auto dest: collect_mem_source rowToEnrollment_Inr(1))
  have active: "ae_state e = ''active''" using assms(3) by (simp add: exactEnrollment_def)
  note sound = assms(1) [unfolded agent_sound_def]
  have one: "active_rows db = [e]"
    using sound active assms(2) unfolding active_rows_def by (intro filter_one) auto
  have bound: "attestationsBound db (Some e) = Inr ()"
    using sound one by (auto simp: attestationsBound_Inr)
  have "select_one (\<lambda>r. ae_agent_instance_id r = ae_agent_instance_id e) (db_enrollments db) = Some e"
    using sound assms(2) by (intro select_one_unique) (auto simp: distinct_map dest: inj_onD)
  then show "getEnrollment (ag_host env) (JStr (ae_agent_instance_id e)) db = Inr (Some (e, en_isolation i))"
    by (simp add: getEnrollment_def enrollmentById_def rowToEnrollment_columns(1) [OF row] row assms(4))
  show "activeAgent (ag_host env) db = Inr (db, Some (e, en_isolation i))"
    using one bound row assms(4) by (simp add: activeAgent_def active_rows_def)
  have first: "find P (db_enrollments db) = Some e" if "P e" "\<And>r. P r \<Longrightarrow> ae_state r = ''active''" for P
  proof -
    have "select_one P (db_enrollments db) = Some e"
    proof (rule select_one_unique [of e])
      show "e \<in> set (db_enrollments db)" "P e" using assms(2) that(1) by simp_all
    next
      fix x
      assume "x \<in> set (db_enrollments db)" "P x"
      with that(2) have "x \<in> set (active_rows db)" by (simp add: active_rows_def)
      with one show "x = e" by simp
    qed
    then show ?thesis by (simp add: select_one_def)
  qed
  have "find (\<lambda>e. ae_state e = ''active'') (db_enrollments db) = Some e" using active by (intro first)
  moreover have "find (exactEnrollment i) (db_enrollments db) = Some e"
    using assms(3) by (intro first) (simp_all add: exactEnrollment_def)
  ultimately show "enrollPrepared env i db = Inr (db, Some (e, en_isolation i))"
    using assms(4,5) bound by (simp add: enrollPrepared_def)
qed

text \<open>What enrolling returned is such an enrollment afterwards.\<close>

lemma enrollPrepared_reads:
  assumes "enrollPrepared env i db = Inr (db', x)" and "agent_sound db"
    and "en_isolation i \<in> {''simulated'', ''pending_verification''}"
  obtains e where "x = Some (e, en_isolation i)" and "e \<in> set (db_enrollments db')" and "exactEnrollment i e"
    and "isolated db' e = Inr (e, en_isolation i)"
    and "collect (rowToEnrollment (ag_host env)) (db_enrollments db') = Inr (db_enrollments db')"
  using assms(1)
proof (cases rule: enrollPrepared_obtains)
  case (replay e)
  then show thesis by (intro that) simp_all
next
  case new
  from new(1) show thesis
  proof (cases rule: enrollNew_obtains)
    case (1 t ev)
    let ?e = "newEnrollment i t"
    have "eventsOf db ''agent_enrollment'' (de_agentInstanceId (en_descriptor i)) ''agent.enrolled'' = []"
      using 1(3) assms(2)
      by (auto simp: eventsOf_def filter_empty_conv agent_sound_def agents_logged_def list_ex_iff)
    then have "eventsOf db' ''agent_enrollment'' (ae_agent_instance_id ?e) ''agent.enrolled'' = [ev]"
      using 1(5-8) by (simp add: eventsOf_def)
    then have "isolated db' ?e = Inr (?e, en_isolation i)"
      using enrolled_event_matches [OF 1(9,12) assms(3)] by (simp add: isolated_def enrollmentIsolation_def)
    moreover have "collect (rowToEnrollment (ag_host env)) (db_enrollments db') = Inr (db_enrollments db')"
      using new(5) 1(5,12) by (simp add: collect_Inr_iff list_all2_append)
    ultimately show thesis
      using 1(5,11) by (intro that [of ?e]) (simp_all add: exactEnrollment_def)
  qed
qed

section \<open>The attestation\<close>

text \<open>The stored text of an accepted report is the text it was read from.\<close>

lemma report_is_stored:
  assumes "validateIsolationReportBytes h t options clock = Inr (report, reportHash)"
    and "canonicalJson (JObj report) = Inr (ia_report_json a)"
  shows "storedReport a = Inr report" and "reportHash = h_sha256 h (ia_report_json a)"
  using assms by (auto simp: storedReport_def elim!: report_bytes_obtains)

lemma current_attestation:
  assumes "agent_sound db" and "a \<in> set (db_attestations db)" and "ia_state a = ''current''"
  shows "currentAttestations db = [a]"
  using assms unfolding agent_sound_def currentAttestations_def by (intro filter_one) auto

text \<open>An attestation whose report is in time vouches for the active enrollment.\<close>

lemma attestation_vouches:
  assumes "validateIsolationReportBytes h t options clock = Inr (report, reportHash)"
    and "canonicalJson (JObj report) = Inr (ia_report_json a)" and "ia_report_hash a = reportHash"
    and "get_prop report ''enrollmentHash'' = JStr (ae_enrollment_hash e)"
    and "ia_enrollment_hash a = ae_enrollment_hash e" and "attestationResult a = Inr r"
    and "agent_sound db" and "a \<in> set (db_attestations db)" and "ia_state a = ''current''"
    and "active_rows db = [e]" and "hash_pattern reportHash" and "canonical_time (ag_now env)"
    and "date_ms (report_text report ''probedAt'') \<le> date_ms (ag_now env)"
    and "date_ms (ag_now env) < date_ms (report_text report ''expiresAt'')" and "ag_host env = h"
  shows "currentFor env (get_prop report ''enrollmentHash'') (get_prop report ''authorityMetadataHash'')
    (get_prop report ''releaseManifestHash'') (JStr reportHash) db = (db, Inr (Some r))"
proof -
  obtain v where v: "validateReport v = Inr report" using assms(1) by (rule report_bytes_obtains)
  obtain x y where fields: "get_prop report ''authorityMetadataHash'' = JStr x" "hash_pattern x"
      "get_prop report ''releaseManifestHash'' = JStr y" "hash_pattern y"
      "hash_pattern (ae_enrollment_hash e)"
    using v by (rule validateReport_obtains) (auto simp: HASH_FIELDS_def assms(4))
  note stored = report_is_stored [OF assms(1,2)]
  have "vouches h (ag_now env) (ae_enrollment_hash e) x y reportHash a report (ia_report_json a)"
    using assms stored(2) fields by (simp add: vouches_def not_less)
  then have "currentForInTransaction h (ag_now env) (ae_enrollment_hash e) x y reportHash db
      = Inr (db, Some r)"
    using current_attestation [OF assms(7-9)] stored(1) assms(2,6,10)
    by (simp add: currentForInTransaction_def active_rows_def)
  then show ?thesis
    using assms(4,11,12,15) fields
    by (simp add: currentFor_def isolationHash_def canonicalHash_def canonicalTimestamp_def transaction_def)
qed

end
