(* ===== verification/AgentDemo.thy ===== *)
theory AgentDemo
  imports EnrollmentReading LedgerDemo IntentCapture
begin

text \<open>A concrete agent: it is enrolled, its isolation report is imported, and it is revoked.\<close>

section \<open>The enrollment\<close>

definition agent_kernel :: agent_env where
  "agent_kernel = \<lparr>ag_host = demo_host, ag_now = t1, ag_store = t1\<rparr>"

lemma agent_kernel_sel [simp]:
  "ag_host agent_kernel = demo_host" "ag_now agent_kernel = t1" "ag_store agent_kernel = t1"
  by (simp_all add: agent_kernel_def)

definition agent_id :: string where
  "agent_id = replicate 22 CHR ''A''"

text \<open>The rows of the ledger's example without its agent.\<close>

definition agent_rows :: "enrollment_row list \<Rightarrow> event_row list \<Rightarrow> db" where
  "agent_rows es evs = (demo_ledger ''challenged'' [] [] evs)\<lparr>db_enrollments := es, db_bindings := []\<rparr>"

lemma agent_rows_sel [simp]:
  "db_enrollments (agent_rows es evs) = es" "db_bindings (agent_rows es evs) = []"
  "db_attestations (agent_rows es evs) = []" "db_events (agent_rows es evs) = evs"
  by (simp_all add: agent_rows_def demo_ledger_def)

definition agent_descriptor :: jsval where
  "agent_descriptor = JObj [(''schemaVersion'', JNum 1), (''agentInstanceId'', JStr agent_id),
     (''credentialDigest'', JStr demo_hash), (''agentUid'', JStr ''501''), (''agentGid'', JStr ''20'')]"

definition agent_enrolls :: jsval where
  "agent_enrolls = JObj [(''descriptor'', agent_descriptor), (''expectedDescriptorHash'', JStr demo_hash),
     (''operatorIdHash'', JStr demo_hash), (''mode'', JStr ''cdp-testnet''), (''kernelUid'', JNum 500),
     (''kernelGid'', JNum 20), (''expectedAgentUid'', JNum 501), (''expectedAgentGid'', JNum 20)]"

definition agent_input :: enroll_input where
  "agent_input = \<lparr>en_descriptor = \<lparr>de_agentInstanceId = agent_id, de_credentialDigest = demo_hash,
     de_agentUid = ''501'', de_agentGid = ''20''\<rparr>, en_hash = demo_hash, en_operatorIdHash = demo_hash,
     en_isolation = ''pending_verification''\<rparr>"

definition agent_row :: enrollment_row where
  "agent_row = newEnrollment agent_input t1"

lemma agent_row_sel [simp]:
  "ae_agent_instance_id agent_row = agent_id" "ae_credential_digest agent_row = demo_hash"
  "ae_enrollment_hash agent_row = demo_hash" "ae_agent_uid agent_row = ''501''"
  "ae_agent_gid agent_row = ''20''" "ae_state agent_row = ''active''" "ae_enrolled_at agent_row = t1"
  by (simp_all add: agent_row_def agent_input_def)

lemma agent_prepares: "prepareEnroll demo_host agent_enrolls = Inr agent_input"
  by code_simp

lemma agent_row_reads: "rowToEnrollment demo_host agent_row = Inr agent_row"
  by code_simp

lemma agent_tokens:
  "canonicalToken (JStr ''agent_enrollment'') = Inr ''agent_enrollment''"
  "canonicalToken (JStr ''agent.enrolled'') = Inr ''agent.enrolled''"
  "canonicalToken (JStr ''agent.revoked'') = Inr ''agent.revoked''"
  "canonicalToken (JStr ''isolation_attestation'') = Inr ''isolation_attestation''"
  "canonicalToken (JStr ''isolation.attestation_imported'') = Inr ''isolation.attestation_imported''"
  "canonicalToken (JStr agent_id) = Inr agent_id" "canonicalToken (JStr ''a1'') = Inr ''a1''"
  by code_simp+

lemma agent_writes:
  assumes "js_canonical (JObj data)" and "canonicalToken (JStr et) = Inr et"
    and "canonicalToken (JStr ei) = Inr ei" and "canonicalToken (JStr ty) = Inr ty"
    and "demo_hash \<notin> ev_event_hash ` set (db_events db)"
  shows "\<exists>db'. agentEvent agent_kernel et ei ty data db = Inr db'"
  unfolding agentEvent_writes
  by (rule writeEvent_succeeds [OF assms(1-4)]) (use assms(5) in \<open>simp_all add: as_intent_env_def demo_times demo_host_def\<close>)

lemma agent_is_sound: "agent_sound (agent_rows [] [])"
  by (simp add: agent_sound_def active_rows_def currentAttestations_def agents_logged_def)

lemma agent_enrolls_now:
  "\<exists>db'. enroll agent_kernel agent_enrolls (agent_rows [] []) = (db', Inr (Some (agent_row, ''pending_verification'')))"
proof -
  have "js_canonical (JObj (enrolledData agent_row ''pending_verification''))"
    by (simp add: enrolledData_def)
  then obtain db2 where ev: "agentEvent agent_kernel ''agent_enrollment'' agent_id ''agent.enrolled''
      (enrolledData agent_row ''pending_verification'') (agent_rows [agent_row] []) = Inr db2"
    using agent_writes [OF _ agent_tokens(1,6,2), of _ "agent_rows [agent_row] []"] by auto
  have "db_enrollments db2 = [agent_row]"
    using log_extended_tables [OF agentEvent_log [OF ev enrolledData_wf]] by simp
  then have "enrollmentById demo_host db2 agent_id = Inr (Some agent_row)"
    by (simp add: enrollmentById_def agent_row_reads select_one_def)
  moreover have "insertEnrollment (newEnrollment agent_input t1) (agent_rows [] []) = Inr (agent_rows [agent_row] [])"
    by (simp add: insertEnrollment_def agent_row_def) (simp add: agent_rows_def demo_ledger_def)
  moreover have "de_agentInstanceId (en_descriptor agent_input) = agent_id"
      "en_isolation agent_input = ''pending_verification''"
    by (simp_all add: agent_input_def)
  ultimately have "enrollNew agent_kernel agent_input (agent_rows [] [])
      = Inr (db2, Some (agent_row, ''pending_verification''))"
    using ev by (simp add: enrollNew_def revokedBindings_def demo_timestamps agent_row_def [symmetric])
  then have "enrollPrepared agent_kernel agent_input (agent_rows [] [])
      = Inr (db2, Some (agent_row, ''pending_verification''))"
    by (simp add: enrollPrepared_def attestationsBound_def currentAttestations_def historicalGuard_def)
  then show ?thesis by (auto simp: enroll_def agent_prepares transaction_def)
qed

section \<open>The report\<close>

definition agent_report :: "(string \<times> jsval) list" where
  "agent_report =
     [(''agentGid'', JStr ''20''), (''agentUid'', JStr ''501''),
      (''authorityMetadataHash'', JStr demo_hash), (''credentialMetadataHash'', JStr demo_hash),
      (''enrollmentHash'', JStr demo_hash), (''environmentMetadataHash'', JStr demo_hash),
      (''expiresAt'', JStr ''2024-01-01T00:15:00.000Z''), (''kernelGid'', JStr ''20''), (''kernelUid'', JStr ''500''),
      (''nodeExecutableHash'', JStr demo_hash),
      (''probeResults'', JObj (sort_key fst (map (\<lambda>(n, r). (n, JStr r)) PROBE_RESULTS))),
      (''probedAt'', JStr t0), (''releaseManifestHash'', JStr demo_hash), (''releaseTreeHash'', JStr demo_hash),
      (''schemaVersion'', JNum 1), (''serviceArtifactsHash'', JStr demo_hash),
      (''systemdEffectiveConfigHash'', JStr demo_hash)]"

lemma agent_report_valid: "validateReport (JObj agent_report) = Inr agent_report"
  by code_simp

lemma agent_report_normal: "js_normal (JObj agent_report) = JObj agent_report"
  by code_simp

text \<open>The width of a canonical text without escapes.\<close>

definition text_within :: "nat \<Rightarrow> string \<Rightarrow> bool" where
  "text_within n t \<longleftrightarrow> utf8_length t \<le> n \<and> (\<forall>c \<in> set t. 32 \<le> code_of c)"

definition plain_text :: "string \<Rightarrow> bool" where
  "plain_text s \<longleftrightarrow> list_all (\<lambda>c. 32 \<le> code_of c \<and> code_of c < 127 \<and> code_of c \<noteq> 34 \<and> code_of c \<noteq> 92) s"

lemma text_within_append:
  "text_within n s \<Longrightarrow> text_within m t \<Longrightarrow> text_within (n + m) (s @ t)"
  by (auto simp: text_within_def utf8_length_def)

lemma text_within_mono: "text_within n t \<Longrightarrow> n \<le> m \<Longrightarrow> text_within m t"
  by (simp add: text_within_def)

lemma text_within_plain: "plain_text s \<Longrightarrow> text_within (length s) s"
  by (induction s) (auto simp: text_within_def plain_text_def utf8_length_def)

lemma quote_plain:
  assumes "plain_text s"
  shows "text_within (length s + 2) (json_quote s)"
proof -
  have "quote_char c = [c]" if "c \<in> set s" for c
    using assms that by (auto simp: plain_text_def list_all_iff quote_char_def Let_def)
  then have "concat (map quote_char s) = s" by (induction s) simp_all
  moreover have "text_within 1 [dq]" by code_simp
  ultimately show ?thesis
    using text_within_append [OF text_within_append [OF \<open>text_within 1 [dq]\<close> text_within_plain [OF assms]]
        \<open>text_within 1 [dq]\<close>]
    by (simp add: json_quote_def)
qed

lemma join_within:
  "list_all (text_within n) ts \<Longrightarrow> text_within ((n + 1) * length ts) (join_comma ts)"
proof (induction ts rule: join_comma.induct)
  case 1
  then show ?case by (simp add: text_within_def utf8_length_def)
next
  case (2 t)
  then show ?case by (simp add: text_within_def)
next
  case (3 t u ts)
  have comma: "text_within 1 '',''" by code_simp
  have "text_within (n + (1 + (n + 1) * length (u # ts))) (t @ '','' @ join_comma (u # ts))"
    using 3 by (intro text_within_append comma) simp_all
  then have "text_within ((n + 1) * length (t # u # ts)) (t @ '','' @ join_comma (u # ts))"
    by (rule text_within_mono) simp
  then show ?case by simp
qed

lemma object_within:
  assumes "canonicalSerialize (JObj kvs) = Inr t"
    and "\<forall>kv \<in> set kvs. plain_text (fst kv) \<and> length (fst kv) \<le> k"
    and "\<And>kv u. kv \<in> set kvs \<Longrightarrow> canonicalSerialize (snd kv) = Inr u \<Longrightarrow> text_within n u"
  shows "text_within ((n + k + 4) * length kvs + 2) t"
proof -
  obtain ts where ts: "collect (\<lambda>kv. andthen (canonicalSerialize (snd kv))
        (\<lambda>t. Inr (json_quote (fst kv) @ '':'' @ t))) (sort_key fst kvs) = Inr ts" "t = ''{'' @ join_comma ts @ ''}''"
    using assms(1) by (auto elim!: andthen_InrE)
  have colon: "text_within 1 '':''" "text_within 1 ''{''" "text_within 1 ''}''" by code_simp+
  have "text_within (n + k + 3) y" if y: "y \<in> set ts" for y
  proof -
    obtain kv where "kv \<in> set kvs"
        "andthen (canonicalSerialize (snd kv)) (\<lambda>t. Inr (json_quote (fst kv) @ '':'' @ t)) = Inr y"
      using collect_mem [OF ts(1) y] by auto
    then obtain u where kv: "kv \<in> set kvs" "canonicalSerialize (snd kv) = Inr u"
        "y = json_quote (fst kv) @ '':'' @ u"
      by (auto elim!: andthen_InrE)
    have "text_within (length (fst kv) + 2 + (1 + n)) y"
      unfolding kv(3) using assms(2,3) kv by (intro text_within_append quote_plain colon) auto
    then show ?thesis by (rule text_within_mono) (use assms(2) kv(1) in auto)
  qed
  then have "text_within ((n + k + 3 + 1) * length ts) (join_comma ts)"
    by (intro join_within) (simp add: list_all_iff)
  then have "text_within (1 + ((n + k + 3 + 1) * length ts + 1)) t"
    unfolding ts(2) by (intro text_within_append colon)
  then show ?thesis using collect_length [OF ts(1)] by (simp add: algebra_simps)
qed

text \<open>The entries of the report: plain text, one number and the probe results.\<close>

definition entry_plain :: "nat \<Rightarrow> string \<times> jsval \<Rightarrow> bool" where
  "entry_plain m kv \<longleftrightarrow> plain_text (fst kv) \<and> length (fst kv) \<le> 30
     \<and> (case snd kv of JStr s \<Rightarrow> plain_text s \<and> length s \<le> m | JNum n \<Rightarrow> n = 1 | _ \<Rightarrow> False)"

lemma entry_within:
  assumes "entry_plain m kv" and "canonicalSerialize (snd kv) = Inr u"
  shows "text_within (m + 2) u"
proof (cases "snd kv")
  case (JStr s)
  with assms have "text_within (length s + 2) u" "length s \<le> m"
    using quote_plain [of s] by (auto simp: entry_plain_def)
  then show ?thesis by (simp add: text_within_mono)
next
  case (JNum n)
  have "text_within 1 (int_text 1)" by code_simp
  with JNum assms have "text_within 1 u" by (auto simp: entry_plain_def split: if_splits)
  then show ?thesis by (rule text_within_mono) simp
qed (use assms in \<open>simp_all add: entry_plain_def\<close>)

definition agent_probes :: "(string \<times> jsval) list" where
  "agent_probes = sort_key fst (map (\<lambda>(n, r). (n, JStr r)) PROBE_RESULTS)"

lemma agent_probes_within:
  assumes "canonicalSerialize (JObj agent_probes) = Inr u"
  shows "text_within 442 u"
proof -
  have plain: "list_all (entry_plain 8) agent_probes" by code_simp
  have "text_within ((8 + 2 + 30 + 4) * length agent_probes + 2) u"
    using assms plain
    by (intro object_within entry_within) (auto simp: list_all_iff entry_plain_def)
  then show ?thesis by (simp add: PROBE_RESULTS_def agent_probes_def)
qed

lemma agent_report_entries:
  "list_all (\<lambda>kv. entry_plain 80 kv \<or> snd kv = JObj agent_probes) agent_report"
  "list_all (\<lambda>kv. plain_text (fst kv) \<and> length (fst kv) \<le> 30) agent_report"
  by code_simp+

lemma agent_report_canonical: "js_canonical (JObj agent_report)"
  by (simp add: agent_report_def PROBE_RESULTS_def MAX_SAFE_INTEGER_def)

lemma agent_report_within: "text_within 8094 (stored (JObj agent_report))"
proof -
  have written: "canonicalSerialize (JObj agent_report) = Inr (stored (JObj agent_report))"
    using stored_text [OF agent_report_canonical] unfolding canonicalJson_def .
  have bounded: "text_within 442 u" if "kv \<in> set agent_report" "canonicalSerialize (snd kv) = Inr u" for kv u
  proof -
    have "entry_plain 80 kv \<or> snd kv = JObj agent_probes"
      using agent_report_entries(1) that(1) by (simp add: list_all_iff)
    then show ?thesis
    proof
      assume "entry_plain 80 kv"
      then have "text_within (80 + 2) u" using that(2) by (rule entry_within)
      then show ?thesis by (rule text_within_mono) simp
    qed (use that(2) agent_probes_within in metis)
  qed
  have "text_within ((442 + 30 + 4) * length agent_report + 2) (stored (JObj agent_report))"
    using agent_report_entries(2) by (intro object_within [OF written] bounded) (auto simp: list_all_iff)
  then show ?thesis by (simp add: agent_report_def)
qed

lemma agent_report_text: "\<not> report_text_bad (stored (JObj agent_report) @ [newline])"
proof -
  let ?t = "stored (JObj agent_report)"
  have chars: "\<forall>c \<in> set ?t. 32 \<le> code_of c" "utf8_length ?t \<le> 8094"
    using agent_report_within by (simp_all add: text_within_def)
  then have "newline \<notin> set ?t" "CHR 0x00 \<notin> set ?t" "CHR 0x00 \<noteq> newline"
    by (auto simp: newline_def)
  moreover obtain ts where "''{'' @ join_comma ts @ ''}'' = ?t"
    using stored_text [OF agent_report_canonical] by (auto simp: canonicalJson_def elim!: andthen_InrE)
  then have "2 \<le> utf8_length ?t" by (subst (asm) eq_commute) (simp add: utf8_length_def)
  ultimately show ?thesis
    using chars(2) by (simp add: report_text_bad_def REPORT_MAXIMUM_BYTES_def utf8_length_def newline_def)
qed

definition agent_report_bytes :: string where
  "agent_report_bytes = stored (JObj agent_report) @ [newline]"

lemma agent_report_parses: "json_parse (stored (JObj agent_report)) = Some (JObj agent_report)"
proof -
  have "js_wf (JObj agent_report)" by (simp add: agent_report_def PROBE_RESULTS_def)
  from json_parse_canonicalJson [OF this stored_text [OF agent_report_canonical]] show ?thesis
    by (simp only: agent_report_normal)
qed

lemma agent_report_props:
  "get_prop agent_report ''enrollmentHash'' = JStr demo_hash"
  "get_prop agent_report ''authorityMetadataHash'' = JStr demo_hash"
  "get_prop agent_report ''releaseManifestHash'' = JStr demo_hash"
  "get_prop agent_report ''agentUid'' = JStr ''501''" "get_prop agent_report ''agentGid'' = JStr ''20''"
  "report_text agent_report ''probedAt'' = t0"
  "report_text agent_report ''expiresAt'' = ''2024-01-01T00:15:00.000Z''"
  by code_simp+

lemma agent_report_read:
  "validateIsolationReportBytes demo_host agent_report_bytes [(''expectedReportHash'', JUndef)] (Some t1)
    = Inr (agent_report, demo_hash)"
proof -
  have time: "reportInTime (Some t1) agent_report = Inr ()" by code_simp
  have undef: "get_prop [(''expectedReportHash'', JUndef)] n = JUndef" for n
    by (simp add: get_prop_def)
  have hash: "h_sha256 demo_host t = demo_hash" for t by (simp add: demo_host_def)
  show ?thesis
    unfolding validateIsolationReportBytes_def agent_report_bytes_def Let_def undef hash
    using agent_report_text
    by (simp add: agent_report_parses agent_report_valid stored_text [OF agent_report_canonical] time
        REPORT_BINDINGS_def del: canonicalSerialize.simps)
qed

definition agent_attestation :: attestation_row where
  "agent_attestation =
     newAttestation ''a1'' demo_hash agent_report (stored (JObj agent_report)) demo_hash t1"

lemma agent_imports_now:
  "\<exists>db' r. importCurrent agent_kernel (JStr ''a1'') agent_report_bytes JUndef (JStr demo_hash)
     (agent_rows [agent_row] []) = (db', Inr r)"
proof -
  let ?db = "agent_rows [agent_row] []"
  let ?data = "importedData agent_report demo_hash demo_hash t1"
  obtain r where r: "attestationResult agent_attestation = Inr r"
  proof -
    have "reportProperty (ia_report_json agent_attestation) n = Inr (get_prop agent_report n)" for n
      by (simp add: reportProperty_def agent_attestation_def agent_report_parses)
    moreover have "js_canonical (JObj [(''id'', JStr (ia_id agent_attestation)),
        (''reportHash'', JStr (ia_report_hash agent_attestation)),
        (''enrollmentHash'', JStr (ia_enrollment_hash agent_attestation)),
        (''authorityMetadataHash'', JStr demo_hash), (''releaseManifestHash'', JStr demo_hash),
        (''probedAt'', JStr (ia_probed_at agent_attestation)),
        (''expiresAt'', JStr (ia_expires_at agent_attestation)),
        (''importedAt'', JStr (ia_imported_at agent_attestation)), (''state'', JStr (ia_state agent_attestation))])"
      by simp
    ultimately show thesis
      using that by (simp add: attestationResult_def frozenCopy_def agent_report_props cloneDataGraph_canonical
          del: cloneDataGraph.simps js_canonical.simps)
  qed
  have data: "js_canonical (JObj ?data)" "js_wf (JObj ?data)"
    by (simp_all add: importedData_text [OF agent_report_valid])
  let ?db2 = "?db\<lparr>db_attestations := [agent_attestation]\<rparr>"
  obtain db3 where ev: "agentEvent agent_kernel ''isolation_attestation'' ''a1'' ''isolation.attestation_imported''
      ?data ?db2 = Inr db3"
    using agent_writes [OF data(1) agent_tokens(4,7,5), of ?db2] by auto
  have att: "db_attestations db3 = [agent_attestation]" "ia_id agent_attestation = ''a1''"
    using log_extended_tables [OF agentEvent_log [OF ev data(2)]] by (simp_all add: agent_attestation_def)
  have "importNew agent_kernel (JStr ''a1'') agent_report demo_hash demo_hash t1 ?db = Inr (db3, r)"
    using ev att r
    by (simp add: importNew_def currentAttestations_def agent_tokens stored_text [OF agent_report_canonical]
        insertAttestation_def agent_attestation_def [symmetric] select_one_def del: canonicalSerialize.simps)
  then have "importPrepared agent_kernel (JStr ''a1'') agent_report demo_hash demo_hash t1 ?db = Inr (db3, r)"
    by (simp add: importPrepared_def agent_report_props select_one_def)
  then show ?thesis
    using agent_report_read
    by (simp add: importCurrent_def demo_timestamps isolationHash_def canonicalHash_def demo_scalars transaction_def)
qed

section \<open>The revocation\<close>

definition agent_created :: event_row where
  "agent_created = \<lparr>ev_entity_type = ''agent_enrollment'', ev_entity_id = agent_id,
     ev_event_type = ''agent.enrolled'',
     ev_data_json = stored (JObj (enrolledData agent_row ''pending_verification'')),
     ev_previous_hash = None, ev_event_hash = ''h0'', ev_created_at = t1\<rparr>"

definition agent_revokes_input :: jsval where
  "agent_revokes_input = JObj [(''agentInstanceId'', JStr agent_id), (''expectedEnrollmentHash'', JStr demo_hash),
     (''operatorIdHash'', JStr demo_hash)]"

definition agent_revoke :: revoke_input where
  "agent_revoke = \<lparr>rv_agentInstanceId = agent_id, rv_expectedHash = demo_hash, rv_operatorIdHash = demo_hash\<rparr>"

lemma agent_revoke_prepares: "prepareRevoke agent_revokes_input = Inr agent_revoke"
  by code_simp

definition agent_revoked :: enrollment_row where
  "agent_revoked = toRevoked demo_hash t1 agent_row"

lemma agent_revoked_reads: "rowToEnrollment demo_host agent_revoked = Inr agent_revoked"
  by code_simp

lemma agent_created_sound: "agent_sound (agent_rows [agent_row] [agent_created])"
  by (simp add: agent_sound_def active_rows_def currentAttestations_def agents_logged_def agent_created_def)

lemma agent_revokes_now:
  "\<exists>db' x. revoke agent_kernel agent_revokes_input (agent_rows [agent_row] [agent_created]) = (db', Inr x)"
proof -
  let ?db = "agent_rows [agent_row] [agent_created]"
  let ?db1 = "agent_rows [agent_revoked] [agent_created]"
  let ?data = "[(''enrollmentHash'', JStr demo_hash), (''operatorIdHash'', JStr demo_hash),
    (''boundSessionIds'', JArr []), (''revokedAt'', JStr t1)]"
  have fresh: "demo_hash \<notin> ev_event_hash ` set (db_events ?db1)" by (simp add: agent_created_def demo_hash_def)
  have data: "js_canonical (JObj ?data)" "js_wf (JObj ?data)" by simp_all
  obtain db2 where ev: "agentEvent agent_kernel ''agent_enrollment'' agent_id ''agent.revoked'' ?data ?db1 = Inr db2"
    using agent_writes [OF data(1) agent_tokens(1,6,3) fresh] by auto
  then obtain e where e: "db2 = ?db1\<lparr>db_events := db_events ?db1 @ [e]\<rparr>" "ev_event_type e = ''agent.revoked''"
    using data(2) by (rule agentEvent_obtains)
  have "rows": "db_enrollments ?db = [agent_row]" "db_enrollments db2 = [agent_revoked]"
    by (simp_all add: e(1))
  have label: "enrolledEventMatches agent_revoked agent_created = Inr ''pending_verification''"
  proof (rule enrolled_event_matches [OF _ agent_revoked_reads])
    show "canonicalJson (JObj (enrolledData agent_revoked ''pending_verification''))
        = Inr (ev_data_json agent_created)"
      using stored_text [of "JObj (enrolledData agent_row ''pending_verification'')"]
      by (simp add: agent_created_def agent_revoked_def toRevoked_def enrolledData_def
          del: canonicalSerialize.simps)
  qed simp
  have "isolated db2 agent_revoked = Inr (agent_revoked, ''pending_verification'')"
    using e label
    by (simp add: isolated_def eventsOf_def enrollmentIsolation_def agent_revoked_def)
      (simp add: agent_created_def)
  moreover have "enrollmentById demo_host ?db agent_id = Inr (Some agent_row)"
      "enrollmentById demo_host db2 agent_id = Inr (Some agent_revoked)"
    using rows by (simp_all add: enrollmentById_def select_one_def agent_row_reads agent_revoked_reads)
      (simp_all add: agent_revoked_def)
  moreover have "revokeWrite agent_kernel agent_revoke t1 [] [] ?db = Inr db2"
    using ev
    by (simp add: revokeWrite_def update_one_def update_rows_def agent_revoke_def agent_revoked_def)
      (simp add: agent_rows_def demo_ledger_def)
  ultimately have "revokePrepared agent_kernel agent_revoke ?db
      = Inr (db2, Some (agent_revoked, ''pending_verification''), [])"
    by (simp add: revokePrepared_def currentAttestations_def openSessionIds_def demo_timestamps agent_revoke_def)
  then show ?thesis by (simp add: revoke_def agent_revoke_prepares transaction_def)
qed

end
