(* ===== verification/EnrollmentProperties.thy ===== *)
theory EnrollmentProperties
  imports AgentDemo
begin

text \<open>
  The properties of the enrolled agent: every call is a step of the abstract machine, what a run keeps,
  what enrolling and importing return is what later reads find, and a revoked agent never spends again.
\<close>

section \<open>Refinement\<close>

text \<open>C31: enrolling, revoking, importing an isolation report and the two reads refine the abstract machine
  of the enrolled agent: a call that fails leaves the database as it was, and a call that returns takes
  one abstract step (a read; a new agent with fresh identities when nobody is enrolled, no attestation
  is current and every session of the revoked agents is closed; the revocation of the active agent
  together with its attestation; an attestation of the one active agent that replaces the current one),
  touches no other table and extends the event log by chained events only.\<close>

theorem agent_call_refines:
  "case agent_run env c db of (db', result) \<Rightarrow>
     (case result of Inl _ \<Rightarrow> db' = db | Inr _ \<Rightarrow> agent_effect (ag_host env) db db')"
proof (cases "snd (agent_run env c db)")
  case (Inl e)
  from agent_run_error [OF this] Inl show ?thesis by (simp add: case_prod_beta)
next
  case (Inr u)
  with agent_run_effect [of env db c] show ?thesis by (simp add: case_prod_beta)
qed

section \<open>Runs\<close>

text \<open>C32: along every run, with other components interleaved, at most one agent is enrolled, identifiers,
  credentials, enrollment hashes, attestation ids and reports are never reused, at most one attestation
  is current and it is bound to the enrolled agent; and no enrollment is lost: it keeps every column of
  its enrolling and, once revoked, never changes again.\<close>

theorem agent_life:
  assumes "agent_reach h db0 db" and "agent_sound db0"
  shows "agent_sound db \<and> (\<forall>e \<in> set (db_enrollments db0). \<exists>j \<in> set (db_enrollments db). later_enrollment e j)"
  using agent_reach_sound [OF assms] agent_reach_later [OF assms(1)] by blast

theorem agent_life_witness:
  "\<exists>db' e. enroll agent_kernel agent_enrolls (agent_rows [] []) = (db', Inr (Some (e, ''pending_verification'')))
     \<and> agent_sound db'"
proof -
  obtain db' where run: "enroll agent_kernel agent_enrolls (agent_rows [] [])
      = (db', Inr (Some (agent_row, ''pending_verification'')))"
    using agent_enrolls_now by blast
  have "agent_reach demo_host (agent_rows [] []) db'"
    using agent_calls [OF agent_start, of agent_kernel demo_host "agent_rows [] []" "Enroll agent_enrolls"] run
    by simp
  from agent_life [OF this agent_is_sound] run show ?thesis by blast
qed

section \<open>Reading back\<close>

text \<open>C33: what enrolling returned is what every later read finds: the lookup by the agent's identifier and
  the lookup of the active agent return the same enrollment with the same isolation label, and the same
  enrollment repeated returns it again and writes nothing.\<close>

theorem enrollment_reads_back:
  assumes "enroll env v db = (db', Inr x)" and "agent_sound db"
  shows "\<exists>e label. x = Some (e, label) \<and> ae_state e = ''active''
    \<and> getEnrollment (ag_host env) (JStr (ae_agent_instance_id e)) db' = Inr x
    \<and> activeAgent (ag_host env) db' = Inr (db', x) \<and> enroll env v db' = (db', Inr x)"
proof -
  from assms(1) obtain i where i: "prepareEnroll (ag_host env) v = Inr i" "enrollPrepared env i db = Inr (db', x)"
    by (auto simp: enroll_def transaction_Inr split: sum.split_asm)
  from enrollPrepared_reads [OF i(2) assms(2) prepareEnroll_isolation [OF i(1)]] obtain e where
      e: "x = Some (e, en_isolation i)" "e \<in> set (db_enrollments db')" "exactEnrollment i e"
      "isolated db' e = Inr (e, en_isolation i)"
      "collect (rowToEnrollment (ag_host env)) (db_enrollments db') = Inr (db_enrollments db')"
    by blast
  have "agent_sound db'" using enrollPrepared_effect [OF i(2)] assms(2) by (rule agent_effect_sound)
  note reads = enrolled_reads [OF this e(2-5)]
  with e(1,3) i(1) show ?thesis by (auto simp: enroll_def transaction_Inr exactEnrollment_def)
qed

theorem enrollment_reads_back_witness:
  "\<exists>db' x. enroll agent_kernel agent_enrolls (agent_rows [] []) = (db', Inr x)
     \<and> activeAgent demo_host db' = Inr (db', x) \<and> enroll agent_kernel agent_enrolls db' = (db', Inr x)"
proof -
  obtain db' x where run: "enroll agent_kernel agent_enrolls (agent_rows [] []) = (db', Inr x)"
    using agent_enrolls_now by blast
  from enrollment_reads_back [OF run agent_is_sound] run show ?thesis by auto
qed

section \<open>Attestations\<close>

text \<open>C34: an imported isolation report vouches for the agent until it expires: when an import returned an
  attestation, the lookup for the enrollment, the authority metadata and the release of that report,
  at any time from its probe to before its expiry, returns the same attestation and writes nothing.\<close>

theorem imported_report_vouches:
  assumes "importCurrent env drawn t x operator db = (db', Inr r)" and "agent_sound db"
    and "hashes_ok (ag_host env)"
    and "validateIsolationReportBytes (ag_host env) t [(''expectedReportHash'', x)] (Some (ag_now env))
      = Inr (report, reportHash)"
    and "ag_host env' = ag_host env" and "canonical_time (ag_now env')"
    and "date_ms (report_text report ''probedAt'') \<le> date_ms (ag_now env')"
    and "date_ms (ag_now env') < date_ms (report_text report ''expiresAt'')"
  shows "currentFor env' (get_prop report ''enrollmentHash'') (get_prop report ''authorityMetadataHash'')
    (get_prop report ''releaseManifestHash'') (JStr reportHash) db' = (db', Inr (Some r))"
proof -
  obtain v where v: "validateReport v = Inr report" using assms(4) by (rule report_bytes_obtains)
  have pattern: "hash_pattern reportHash"
    using assms(3,4) by (auto simp: hashes_ok_def elim: report_bytes_obtains)
  from assms(1,4) obtain op where imp: "importPrepared env drawn report reportHash op (ag_now env) db = Inr (db', r)"
    by (auto simp: importCurrent_def transaction_Inr canonicalTimestamp_def split: sum.splits if_splits
        elim!: andthen_InrE)
  have sound: "agent_sound db'" using importPrepared_effect [OF imp v] assms(2) by (rule agent_effect_sound)
  from imp v show ?thesis
  proof (cases rule: importPrepared_obtains)
    case (replay e a)
    show ?thesis
      by (rule attestation_vouches [OF assms(4) replay(8,7,6,5,9) sound])
        (use replay pattern assms in simp_all)
  next
    case (new e a)
    have rows: "active_rows db' = [e]" "a \<in> set (db_attestations db')" "ia_state a = ''current''"
      using new(1,2) log_extended_tables [OF new(4)] by (simp_all add: active_rows_def fresh_attestation_def)
    show ?thesis
      by (rule attestation_vouches [OF assms(4) new(8,7,3,6,9) sound]) (use rows pattern assms in simp_all)
  qed
qed

theorem imported_report_vouches_witness:
  "\<exists>db' r. importCurrent agent_kernel (JStr ''a1'') agent_report_bytes JUndef (JStr demo_hash)
      (agent_rows [agent_row] []) = (db', Inr r)
    \<and> currentFor agent_kernel (JStr demo_hash) (JStr demo_hash) (JStr demo_hash) (JStr demo_hash) db'
      = (db', Inr (Some r))"
proof -
  obtain db' r where run: "importCurrent agent_kernel (JStr ''a1'') agent_report_bytes JUndef (JStr demo_hash)
      (agent_rows [agent_row] []) = (db', Inr r)"
    using agent_imports_now by blast
  have "agent_sound (agent_rows [agent_row] [])"
    by (simp add: agent_sound_def active_rows_def currentAttestations_def agents_logged_def)
  moreover have "hashes_ok demo_host" by (simp add: hashes_ok_def demo_host_def demo_scalars)
  moreover have "date_ms ''2024-01-01T00:15:00.000Z'' = 1704068100000" by code_simp
  ultimately show ?thesis
    using imported_report_vouches [OF run, of agent_report demo_hash agent_kernel] run agent_report_read
    by (auto simp: agent_report_props demo_times)
qed

section \<open>Revocation\<close>

lemma live_session_enrolled:
  assumes "live_session h db n hash w"
  shows "\<exists>e \<in> set (db_enrollments db). ae_state e = ''active'' \<and> ae_enrollment_hash e = hash"
  using assms by (auto simp: live_session_def session_rows_def dest: select_one_Some)

lemma spend_effect_enrollments:
  assumes "spend_effect h db db'"
  shows "db_enrollments db' = db_enrollments db"
proof -
  obtain db1 where "spend_step h db db1" "log_extended h db1 db'"
    using assms by (auto simp: spend_effect_def)
  then show ?thesis
    by (auto elim!: spend_stepE session_closes.cases simp: open_session_def dest!: log_extended_tables)
qed

text \<open>The row a revocation leaves.\<close>

lemma revoke_leaves:
  assumes "prepareRevoke v = Inr r" and "revoke env v db = (db', Inr x)"
  obtains e where "e \<in> set (db_enrollments db')" and "ae_state e = ''revoked''"
    and "ae_enrollment_hash e = rv_expectedHash r"
proof -
  obtain y ids where x: "x = (y, ids)" by (cases x)
  from assms x have "revokePrepared env r db = Inr (db', y, ids)" by (simp add: revoke_def transaction_Inr)
  then show thesis
  proof (cases rule: revokePrepared_obtains)
    case (1 e xs ys t)
    then show thesis
      using that [of "toRevoked (rv_operatorIdHash r) t e"] log_extended_tables [OF 1(9)] by simp
  qed
qed

text \<open>What no row of an enrollment's hash but a revoked one rules out.\<close>

definition hash_revoked :: "string \<Rightarrow> db \<Rightarrow> bool" where
  "hash_revoked hash db \<longleftrightarrow>
     (\<exists>e \<in> set (db_enrollments db). ae_enrollment_hash e = hash)
     \<and> (\<forall>e \<in> set (db_enrollments db). ae_enrollment_hash e = hash \<longrightarrow> ae_state e = ''revoked'')"

lemma revoked_not_live: "hash_revoked hash db \<Longrightarrow> \<not> live_session h db n hash w"
  using live_session_enrolled by (fastforce simp: hash_revoked_def)

lemma revoked_not_enrolled:
  assumes "hash_revoked hash db" and "enroll env v db = (d, Inr (Some (e, label)))"
  shows "ae_enrollment_hash e \<noteq> hash"
proof -
  from assms(2) obtain i where "enrollPrepared env i db = Inr (d, Some (e, label))"
    by (auto simp: enroll_def transaction_Inr split: sum.split_asm)
  then show ?thesis
  proof (cases rule: enrollPrepared_obtains)
    case (replay e')
    with assms(1) show ?thesis by (auto simp: hash_revoked_def exactEnrollment_def)
  next
    case new
    from new(1) have "e = newEnrollment i (ag_now env)" by (rule enrollNew_obtains) auto
    with new(2) assms(1) show ?thesis
      by (auto simp: find_None_iff sharesIdentity_def hash_revoked_def)
  qed
qed

lemma revoked_not_opened:
  assumes "hash_revoked hash db" and "openOrResumeSession env v db = (d, Inr p)"
  shows "ps_enrollmentHash p \<noteq> hash"
proof -
  obtain agent wallet version where "openInTransaction env agent wallet version db = Inr (d, p)"
    using assms(2) by (auto simp: openOrResumeSession_def transaction_Inr split: sum.split_asm prod.split_asm)
  from openInTransaction_effect(1,2) [OF this] have "public_live (ie_host env) d p"
      "db_enrollments d = db_enrollments db"
    by (auto dest: spend_effect_enrollments)
  moreover from this assms(1) have "hash_revoked hash d" by (simp add: hash_revoked_def)
  ultimately show ?thesis using revoked_not_live by blast
qed

lemma revoked_not_captured:
  assumes "hash_revoked hash db" and "captureIntent env v body db = (d, Inr i)"
  shows "si_enrollment_hash i \<noteq> hash"
proof -
  have "intent_live (ie_host env) db i"
    using assms(2) capture_effect [of env v body db d i] by (simp add: captureIntent_def transaction_Inr)
  with assms(1) show ?thesis using revoked_not_live by blast
qed

lemma revoked_not_moved:
  assumes "hash_revoked (si_enrollment_hash i) db"
  shows "prepareChallenge env v = Inr c \<Longrightarrow> intentById db (pc_intentId c) = Some i \<Longrightarrow>
      \<exists>e. attachChallenge env v db = (db, Inl e)"
    and "prepareTransition v = Inr t \<Longrightarrow> pt_next t \<in> set ADVANCING \<Longrightarrow> intentById db (pt_intentId t) = Some i
      \<Longrightarrow> \<exists>e. intentTransition env v db = (db, Inl e)"
proof -
  have dead: "\<not> intent_live (ie_host env) db i" using assms by (rule revoked_not_live)
  show "\<exists>e. attachChallenge env v db = (db, Inl e)"
    if "prepareChallenge env v = Inr c" "intentById db (pc_intentId c) = Some i"
  proof -
    have "attachPrepared env c db \<noteq> Inr (d, x)" for d x
      using dead that(2) by (auto elim!: attachPrepared_obtains)
    then show ?thesis
      using that(1) by (cases "attachPrepared env c db")
        (auto simp: attachChallenge_def attachChallengeInTransaction_def transaction_def)
  qed
  show "\<exists>e. intentTransition env v db = (db, Inl e)"
    if "prepareTransition v = Inr t" "pt_next t \<in> set ADVANCING" "intentById db (pt_intentId t) = Some i"
  proof -
    have "transitionPrepared env t db \<noteq> Inr (d, x)" for d x
      using dead that(2,3) by (auto elim!: transitionPrepared_obtains)
    then show ?thesis
      using that(1) by (cases "transitionPrepared env t db")
        (auto simp: intentTransition_def transitionInTransaction_def transaction_def)
  qed
qed

lemma revoked_not_vouched:
  assumes "hash_revoked hash db"
  shows "currentFor env (JStr hash) a b c db \<noteq> (d, Inr (Some y))"
proof -
  have "currentForInTransaction h t hash x y z db \<noteq> Inr (d, Some r)" for h t x y z r
    using assms
    by (auto simp: currentForInTransaction_def hash_revoked_def Cons_eq_filter_iff dest!: filter_eq_ConsD
        split: list.splits if_splits elim!: andthen_InrE)
  then show ?thesis
    by (auto simp: currentFor_def isolationHash_def canonicalHash_Inr transaction_Inr
        split: sum.splits elim!: andthen_InrE)
qed

text \<open>C30: a revoked agent is out for good: whatever happens after its revocation, in this repository and in
  others, its enrollment is never enrolled again, no session of it opens or resumes, nothing is captured
  for it, no intent of it gets a challenge or advances towards a payment, and no attestation vouches for
  it.\<close>

theorem revoked_agent_is_out:
  assumes "agent_sound db" and "prepareRevoke v = Inr r" and "revoke env v db = (db', Inr x)"
    and "agent_reach h db' db''"
  shows "(\<forall>env' w d e label. enroll env' w db'' = (d, Inr (Some (e, label))) \<longrightarrow>
          ae_enrollment_hash e \<noteq> rv_expectedHash r)
    \<and> (\<forall>ienv w d p. openOrResumeSession ienv w db'' = (d, Inr p) \<longrightarrow> ps_enrollmentHash p \<noteq> rv_expectedHash r)
    \<and> (\<forall>ienv w body d i. captureIntent ienv w body db'' = (d, Inr i) \<longrightarrow>
          si_enrollment_hash i \<noteq> rv_expectedHash r)
    \<and> (\<forall>ienv w c i. prepareChallenge ienv w = Inr c \<and> intentById db'' (pc_intentId c) = Some i
          \<and> si_enrollment_hash i = rv_expectedHash r \<longrightarrow> (\<exists>err. attachChallenge ienv w db'' = (db'', Inl err)))
    \<and> (\<forall>ienv w t i. prepareTransition w = Inr t \<and> pt_next t \<in> set ADVANCING
          \<and> intentById db'' (pt_intentId t) = Some i \<and> si_enrollment_hash i = rv_expectedHash r \<longrightarrow>
          (\<exists>err. intentTransition ienv w db'' = (db'', Inl err)))
    \<and> (\<forall>env' a b c d y. currentFor env' (JStr (rv_expectedHash r)) a b c db'' \<noteq> (d, Inr (Some y)))"
proof -
  obtain e where e: "e \<in> set (db_enrollments db')" "ae_state e = ''revoked''"
      "ae_enrollment_hash e = rv_expectedHash r"
    using assms(2,3) by (rule revoke_leaves)
  have "agent_effect (ag_host env) db db'"
    using assms(2,3) revokePrepared_effect by (auto simp: revoke_def transaction_Inr)
  then have sound: "agent_sound db'" using assms(1) by (rule agent_effect_sound)
  obtain j where "j \<in> set (db_enrollments db'')" "later_enrollment e j"
    using agent_reach_later [OF assms(4) e(1)] by blast
  with e(2) have "e \<in> set (db_enrollments db'')" by (auto simp: later_enrollment_def)
  moreover have "ae_state q = ''revoked''"
    if "q \<in> set (db_enrollments db'')" "ae_enrollment_hash q = rv_expectedHash r" for q
    using revoked_for_good [OF assms(4) sound e(1,2) that(1)] that(2) e(2,3) by simp
  ultimately have out: "hash_revoked (rv_expectedHash r) db''"
    using e(3) unfolding hash_revoked_def by blast
  show ?thesis
  proof (intro conjI allI impI, goal_cases)
    case 1
    from out 1 show ?case by (rule revoked_not_enrolled)
  next
    case 2
    from out 2 show ?case by (rule revoked_not_opened)
  next
    case 3
    from out 3 show ?case by (rule revoked_not_captured)
  next
    case (4 ienv w c i)
    with out show ?case using revoked_not_moved(1) [of i db'' ienv w c] by simp
  next
    case (5 ienv w t i)
    with out show ?case using revoked_not_moved(2) [of i db'' w t ienv] by simp
  next
    case 6
    from out show ?case by (rule revoked_not_vouched)
  qed
qed

theorem revoked_agent_is_out_witness:
  "\<exists>db' x. revoke agent_kernel agent_revokes_input (agent_rows [agent_row] [agent_created]) = (db', Inr x)
     \<and> enroll agent_kernel agent_enrolls db' \<noteq> (db', Inr (Some (agent_row, ''pending_verification'')))"
proof -
  obtain db' x where run: "revoke agent_kernel agent_revokes_input (agent_rows [agent_row] [agent_created]) = (db', Inr x)"
    using agent_revokes_now by blast
  have "enroll agent_kernel agent_enrolls db' \<noteq> (db', Inr (Some (agent_row, ''pending_verification'')))"
  proof
    assume again: "enroll agent_kernel agent_enrolls db' = (db', Inr (Some (agent_row, ''pending_verification'')))"
    have "ae_enrollment_hash agent_row \<noteq> rv_expectedHash agent_revoke"
      by (rule revoked_agent_is_out [OF agent_created_sound agent_revoke_prepares run agent_start,
            THEN conjunct1, rule_format, OF again])
    then show False by (simp add: agent_revoke_def)
  qed
  with run show ?thesis by blast
qed

end
