(* ===== verification/Spec2Isabelle.thy ===== *)
theory Spec2Isabelle
  imports PolicyProperties IsoTime LedgerProperties AtomicMoneyProperties PermitProperties
    ApprovalProperties PolicyRepositoryProperties IntentProperties EnrollmentProperties
begin

text \<open>
  A verification development for the Wallet Kernel of the Skill Asset Protocol repository and for its
  atomic money kernel.

  The Wallet Kernel (\<^verbatim>\<open>src/spikes/pi-wielder/src/kernel/\<close>) lets an agent spend from a customer's
  wallet without holding its keys. A request becomes a SpendIntent; the policy engine decides on the
  seller's x402 challenge (allow, human approval, deny); the approval queue carries the operator's
  decision; the budget ledger reserves the amount before anything is signed and later commits,
  releases or holds it; a one-time permit binds the signature. All of it lives in one SQLite database
  whose event log is a hash chain. The atomic money kernel (\<^verbatim>\<open>src/prototype/atomic-money.mjs\<close>) splits
  a gross amount into costs and royalties.

  THEORIES AND SOURCES

  KernelPrelude: thrown errors (\<^verbatim>\<open>'a res\<close>, \<^verbatim>\<open>andthen\<close>, \<^verbatim>\<open>collect\<close>), the character classes of
  the regular expressions, decimal text. JsValue, JsonText, IsoTime: \<^verbatim>\<open>canonical.mjs\<close> (values,
  closed-schema records, canonical JSON with its parser, scalars, timestamps).

  PolicyEngine (facts in PolicyFacts and PolicyRoundtrip, properties in PolicyProperties):
  \<^verbatim>\<open>policy-engine.mjs\<close>, in the order of the code: scalar validators, policy documents, challenges
  and their projection, candidate analysis, \<^verbatim>\<open>evaluateSpendPolicy\<close>.

  KernelStore: the tables of \<^verbatim>\<open>sqlite-schema.mjs\<close> as records of rows, \<^verbatim>\<open>appendEvent\<close>,
  \<^verbatim>\<open>verifyEventChain\<close> and \<^verbatim>\<open>transaction\<close> of \<^verbatim>\<open>sqlite-store.mjs\<close>.

  LedgerAuthority, LedgerAttempt, LedgerHistory, LedgerOps, LedgerResolve: \<^verbatim>\<open>budget-ledger.mjs\<close>:
  the authority behind a reservation, payment attempts, the validation of every persisted row against
  its event history with the snapshot of exposures, and the operations \<^verbatim>\<open>reserve\<close>, \<^verbatim>\<open>commit\<close>,
  \<^verbatim>\<open>release\<close>, \<^verbatim>\<open>holdUnresolved\<close>, \<^verbatim>\<open>resolvePayment\<close> and \<^verbatim>\<open>recordConfirmedRefund\<close>. Each is
  a function from the database to an error or the new database and the row it returns, composed of a
  guard part, a write part and the confirming reads, as the code is.

  ApprovalAuthority, ApprovalLifecycle, ApprovalQueue: \<^verbatim>\<open>approval-queue.mjs\<close>: the authority graph and
  the bindings, the events and the check of a persisted approval against them, and the operations
  \<^verbatim>\<open>request\<close>, \<^verbatim>\<open>approve\<close>, the reads, and the denial, expiry, cancellation and consumption another
  component runs inside its own transaction.

  PolicyRepository (facts in PolicyRepositoryFacts, properties in PolicyRepositoryProperties):
  \<^verbatim>\<open>policy-repository.mjs\<close>: the chained policy versions, \<^verbatim>\<open>apply\<close> with its blocking of sessions, the
  reads, and \<^verbatim>\<open>recordDecisionInTransaction\<close>.

  IntentRequest, IntentSession, IntentHistory, IntentRepository, IntentClosing:
  \<^verbatim>\<open>intent-builder.mjs\<close>: the canonical request, its headers and its fingerprint; the session graph
  with its enrollment, binding and public projection; the decoding of an intent against its event
  history; \<^verbatim>\<open>openOrResumeSession\<close>, \<^verbatim>\<open>capture\<close> with retries and correlation identifiers,
  \<^verbatim>\<open>attachChallenge\<close>, \<^verbatim>\<open>transition\<close>; and the close and the replacement of a session under the check that
  nothing of its money is outstanding.

  AgentEnrollment: \<^verbatim>\<open>agent-enrollment.mjs\<close>: descriptors, the check of a persisted enrollment and of its
  creation event, \<^verbatim>\<open>get\<close>, \<^verbatim>\<open>active\<close>, \<^verbatim>\<open>enroll\<close> and \<^verbatim>\<open>revoke\<close>. IsolationAttestation:
  \<^verbatim>\<open>src/agent/isolation-preflight.mjs\<close>: the metadata of the authority and credential trees, the isolation
  report, \<^verbatim>\<open>importCurrent\<close> and \<^verbatim>\<open>currentFor\<close>.

  RecoveryTerminal: the one write of \<^verbatim>\<open>recovery.mjs\<close> to Spend Intents, \<^verbatim>\<open>terminalizeIntent\<close>, with the
  clock reading it gets from \<^verbatim>\<open>reconciliationClockTimestamp\<close>.

  AuthorizedPermit (properties in PermitProperties): \<^verbatim>\<open>authorized-permit.mjs\<close>.

  AtomicMoney, AtomicJournal (facts in AtomicMoneyFacts, properties in AtomicMoneyProperties):
  \<^verbatim>\<open>src/prototype/atomic-money.mjs\<close>.

  WHAT THE LEMMAS SHOW

  Policy: a decision is exactly the one its ceilings admit; denial is the default; smaller exposures
  never deny more; policies, decisions and projections survive their canonical text.

  Ledger (LedgerFacts, LedgerSafety, LedgerReading, LedgerReserve, LedgerHeld, LedgerReplay,
  LedgerProperties):
  each call refines an abstract life cycle of reservations (\<^verbatim>\<open>budget_move\<close>, \<^verbatim>\<open>budgets_step\<close>); the
  locale \<^verbatim>\<open>ledger_op\<close> states what every operation promises and is interpreted for all six. From it
  follow conservation of each reservation, finality of a release, the hash chain and termination. A
  reservation stays within the policy's ceilings, is authorised and needs a clear wallet. LedgerHeld states
  what every operation but the resolution of the payment keeps (the locale \<^verbatim>\<open>held_op\<close>, interpreted for
  five operations): a held row stays as it is along every run without that resolution (\<^verbatim>\<open>held_reach\<close>),
  and blocks its wallet for as long. \<^verbatim>\<open>LedgerDemo\<close> is a small concrete ledger for the witnesses.

  Approvals (ApprovalFacts, ApprovalSafety, ApprovalReading, ApprovalProperties): each call refines an
  abstract life cycle of approvals (\<^verbatim>\<open>approval_move\<close>, \<^verbatim>\<open>approvals_step\<close>) under the contract of the
  locale \<^verbatim>\<open>approval_op\<close>, interpreted for all six writing operations; a decided approval is final, a
  consumption spends exactly what an operator approved, once, and the ledger accepts it; requests are
  idempotent and stay within the policy's capacity. \<^verbatim>\<open>ApprovalDemo\<close> is the concrete queue of the
  witnesses.

  Policy repository: applying a policy keeps the version chain and leaves no session open under the
  old policy; a recorded decision is the one the engine gives on the stored rows and lies within the
  limits of the policy version of its session.

  Intents (IntentFacts, IntentSteps, IntentOps, IntentMoves, IntentSessions, IntentSafety, IntentRetry,
  IntentReading, IntentProperties): each of the six operations refines an abstract machine of sessions
  and intents (\<^verbatim>\<open>spend_step\<close>) under the contract of the locale \<^verbatim>\<open>intent_op\<close>, interpreted for all six.
  From it follow the life cycle of intents and sessions along every run (\<^verbatim>\<open>intent_reach\<close>), with the other
  writers of these tables interleaved: the policy repository, which blocks sessions, and
  \<^verbatim>\<open>terminalizeIntent\<close>; a capture is idempotent and does not depend on the order of headers; a policy switch
  stops all spending; a session closes only when its money is settled, which \<^verbatim>\<open>settled_session\<close>
  states over the tables, apart from the guard of the code. IntentCapture, IntentDemo and
  IntentWitness build the concrete session, capture and close of the witnesses.

  Agents (EnrollmentFacts, EnrollmentMoves, EnrollmentSafety, EnrollmentReading, EnrollmentProperties):
  enrolling, revoking and importing refine an abstract machine of the one enrolled agent and its current
  attestation (\<^verbatim>\<open>agent_step\<close>) under the contract of the locale \<^verbatim>\<open>agent_op\<close>; identities are never
  reused, what was enrolled or imported is read back, and a revoked agent is out of every repository.
  AgentDemo is the concrete agent of the witnesses.

  Permits: a permit works once and only for its binding; a window lies inside every deadline.

  Money: weighted allocations are exact and do not depend on the order of the shares; a validated
  ancestry is acyclic; royalties and journals add up to the unit. A parent with an empty identifier
  passes the validation of a royalty graph and makes the distribution throw once an amount reaches it
  (\<^verbatim>\<open>nameless_parent_depends_on_amount\<close>).

  PARAMETERS, BOUNDS AND FUEL

  \<^verbatim>\<open>host\<close> holds the functions the code takes from its platform: SHA-256 and the URL parser. Clocks,
  generated identifiers and random bytes are arguments. The JSON parser runs on the length of its
  input as fuel, which JsonText proves to be enough; every other recursion is total, that of the
  royalty graph by its depth bound of 32. Strings are lists of characters below 256; values are
  trees, so shared or cyclic object graphs are outside the model; INTEGER columns and numbers are
  unbounded integers with the safe-integer checks of the code written out.

  NOT MODELLED

  The asynchronous orchestration (\<^verbatim>\<open>wallet-kernel.mjs\<close>, and \<^verbatim>\<open>recovery.mjs\<close> but for what
  RecoveryTerminal holds) interleaves the modelled
  operations with promises of a signer, a seller and a chain observer, and its resolution checks rest
  on evidence those services return. Signed receipts and projections need Ed25519 signatures and file
  exports. Adapters, servers, command lines, process runners, storage hardening and the website are
  I/O around the modelled core; clone economics, ranking and the prototype settlement compute in
  floating point. Of the constraints of \<^verbatim>\<open>sqlite-schema.mjs\<close> the unique ones are checked by the inserts;
  foreign keys and CHECK constraints are not, so the model allows more databases than the schema. That
  evidence objects are frozen (\<^verbatim>\<open>Object.isFrozen\<close>) has no counterpart, as values cannot change.
\<close>

end
